(* ===== verification/Prelude.thy ===== *)
theory Prelude
  imports Main "HOL-Library.Word" "HOL-Library.List_Lexorder" "HOL-Library.Char_ord"
begin

text \<open>
  What every component of the CapsuleDB model shares: the result type of fallible code, the
  C++ integer conversions, the collections of rewrite rules, and the lemmas on strictly sorted
  lists and on cutting a list into blocks that the index proofs use. Strings are \<^typ>\<open>string\<close>
  (a list of bytes); \<open>std::string\<close> compares bytes as unsigned values, left to right, which is
  the order that List_Lexorder and Char_ord give to \<^typ>\<open>string\<close>.
\<close>

section \<open>Fallible code\<close>

text \<open>
  The ways a call of the program can end without a result. \<open>Logic_error\<close>,
  \<open>Invalid_argument\<close> and \<open>Out_of_range\<close> are the exceptions of the standard library that the
  sources throw or let through (nothing in them catches one, so the process ends).
  \<open>Undefined_behaviour\<close> is a vector read past its end or a signed overflow, \<open>Blocked\<close> is a
  mutex that is locked by the caller itself, \<open>Fatal\<close> is a log statement of severity QFATAL,
  and \<open>Out_of_fuel\<close> belongs to the model alone: a recursion was cut off.
\<close>

datatype db_error =
    Logic_error string
  | Invalid_argument string
  | Out_of_range string
  | Undefined_behaviour string
  | Blocked
  | Fatal string
  | Out_of_fuel

type_synonym 'a res = "db_error + 'a"

definition bindr :: "'a res \<Rightarrow> ('a \<Rightarrow> 'b res) \<Rightarrow> 'b res" where
  "bindr m f = (case m of Inl e \<Rightarrow> Inl e | Inr x \<Rightarrow> f x)"

lemma bindr_simps [simp]:
  "bindr (Inl e) f = Inl e"
  "bindr (Inr x) f = f x"
  by (simp_all add: bindr_def)

lemma bindr_Inr_iff: "bindr m f = Inr y \<longleftrightarrow> (\<exists>x. m = Inr x \<and> f x = Inr y)"
  by (cases m) simp_all

lemma bindr_InrE:
  assumes "bindr m f = Inr y"
  obtains x where "m = Inr x" "f x = Inr y"
  using assms by (auto simp: bindr_Inr_iff)

lemma bindr_cong [fundef_cong]:
  assumes "m = m'" and "\<And>x. m' = Inr x \<Longrightarrow> f x = g x"
  shows "bindr m f = bindr m' g"
  using assms by (cases m') simp_all

section \<open>C++ integers\<close>

text \<open>
  A C++ \<open>int\<close> is an \<^typ>\<open>int\<close> in the 32-bit range. Arithmetic that leaves the range is
  undefined behaviour, so it is checked where the code does it; a conversion from another integer
  type keeps the low 32 bits. A \<open>size_t\<close> is a \<^typ>\<open>64 word\<close>, whose arithmetic wraps;
  \<^const>\<open>of_int\<close> and \<^const>\<open>of_nat\<close> into it are the conversions from \<open>int\<close> and from a vector's size.
  An \<open>int64_t\<close> is a \<^typ>\<open>64 word\<close> too, read as a signed number by \<^const>\<open>sint\<close>.
\<close>

type_synonym size_t = "64 word"
type_synonym int64 = "64 word"

definition int_range :: "int \<Rightarrow> bool" where
  "int_range i \<longleftrightarrow> - (2 ^ 31) \<le> i \<and> i < 2 ^ 31"

definition checked_int :: "int \<Rightarrow> int res" where
  "checked_int i =
     (if int_range i then Inr i else Inl (Undefined_behaviour ''signed integer overflow''))"

definition to_int32 :: "int \<Rightarrow> int" where
  "to_int32 i = sint (word_of_int i :: 32 word)"

definition size_to_int :: "size_t \<Rightarrow> int" where
  "size_to_int s = to_int32 (uint s)"

lemma to_int32_id: "int_range i \<Longrightarrow> to_int32 i = i"
  by (simp add: to_int32_def int_range_def sint_sbintrunc' signed_take_bit_int_eq_self)

lemma to_int32_range: "int_range (to_int32 i)"
proof -
  have "- (2 ^ 31) \<le> sint (word_of_int i :: 32 word)"
    using sint_ge [of "word_of_int i :: 32 word"] by simp
  moreover have "sint (word_of_int i :: 32 word) < 2 ^ 31"
    using sint_lt [of "word_of_int i :: 32 word"] by simp
  ultimately show ?thesis by (simp add: to_int32_def int_range_def)
qed

lemma checked_int_ok: "int_range i \<Longrightarrow> checked_int i = Inr i"
  by (simp add: checked_int_def)

lemma checked_int_Inr: "checked_int i = Inr j \<longleftrightarrow> j = i \<and> int_range i"
  by (auto simp: checked_int_def)

lemma int_range_nat: "n < 2 ^ 31 \<Longrightarrow> int_range (int n)"
  by (simp add: int_range_def)

text \<open>Products of counts that stay below \<open>2 ^ 64\<close> are computed exactly in \<open>size_t\<close>.\<close>

lemma unat_of_nat_small: "n < 2 ^ 64 \<Longrightarrow> unat (of_nat n :: size_t) = n"
  by (simp add: unat_of_nat take_bit_nat_eq_self)

lemma of_nat_le_size_iff:
  assumes "m < 2 ^ 64" "n < 2 ^ 64"
  shows "(of_nat m :: size_t) \<le> of_nat n \<longleftrightarrow> m \<le> n"
  using assms by (simp add: word_le_nat_alt unat_of_nat_small)

lemma of_nat_size_eq_iff:
  fixes s :: size_t
  assumes "m \<le> unat s"
  shows "of_nat m = s \<longleftrightarrow> m = unat s"
proof -
  have "unat s < 2 ^ 64" using unsigned_less [of s] by simp
  then show ?thesis using assms by (simp add: word_unat_eq_iff unat_of_nat_small)
qed


section \<open>Sorting\<close>

text \<open>
  \<open>std::sort\<close> with a strict comparison. The standard leaves the order of elements that compare
  equal open; the model keeps it, and the code only sorts elements with different keys.
\<close>

fun sort_insert :: "('a \<Rightarrow> 'a \<Rightarrow> bool) \<Rightarrow> 'a \<Rightarrow> 'a list \<Rightarrow> 'a list" where
  "sort_insert lt x [] = [x]"
| "sort_insert lt x (y # ys) = (if lt y x then y # sort_insert lt x ys else x # y # ys)"

fun std_sort :: "('a \<Rightarrow> 'a \<Rightarrow> bool) \<Rightarrow> 'a list \<Rightarrow> 'a list" where
  "std_sort lt [] = []"
| "std_sort lt (x # xs) = sort_insert lt x (std_sort lt xs)"

lemma sort_insert_key:
  fixes f :: "'a \<Rightarrow> 'b::linorder"
  shows "sort_insert (\<lambda>x y. f x < f y) x ys = insort_key f x ys"
  by (induction ys) (auto simp: not_less)

lemma std_sort_key:
  fixes f :: "'a \<Rightarrow> 'b::linorder"
  shows "std_sort (\<lambda>x y. f x < f y) xs = sort_key f xs"
  by (induction xs) (auto simp: sort_insert_key)

end
