(* ===== verification/Capsule.thy ===== *)
theory Capsule
  imports Prelude "HOL-Library.Multiset"
begin

text \<open>
  The key-value record of \<open>src/src/shared/capsule.h\<close> and the abstract view of a sorted run of
  records as a finite map, which the index, the memtable and the engine are specified against.
\<close>

section \<open>Key-value records\<close>

text \<open>
  \<open>kvs_payload\<close>: the member \<open>value\<close> is called \<open>val\<close> here, because \<^theory_text>\<open>value\<close> is a command
  of the theory language. The time stamp is an \<open>int64_t\<close> that the code only compares and copies.
\<close>

record kvs_payload =
  key :: string
  val :: string
  txn_timestamp :: int64
  txn_msgType :: string

text \<open>
  A default-initialised \<open>kvs_payload\<close> has three empty strings and an indeterminate time stamp,
  the argument \<open>u\<close>.
\<close>

definition kvs_payload_default :: "int64 \<Rightarrow> kvs_payload" where
  "kvs_payload_default u = \<lparr>key = '''', val = '''', txn_timestamp = u, txn_msgType = ''''\<rparr>"

section \<open>Sorted runs and the maps they stand for\<close>

text \<open>A run is a list of records whose keys are strictly increasing and not empty.\<close>

definition sorted_keys :: "kvs_payload list \<Rightarrow> bool" where
  "sorted_keys ps \<longleftrightarrow> sorted_wrt (<) (map key ps)"

definition is_run :: "kvs_payload list \<Rightarrow> bool" where
  "is_run ps \<longleftrightarrow> sorted_keys ps \<and> (\<forall>p \<in> set ps. key p \<noteq> '''')"

definition kv_map :: "kvs_payload list \<Rightarrow> string \<Rightarrow> kvs_payload option" where
  "kv_map ps k = find (\<lambda>p. key p = k) ps"

named_theorems run_simps

lemma sorted_keys_simps [run_simps]:
  "sorted_keys []"
  "sorted_keys (p # ps) \<longleftrightarrow> (\<forall>q \<in> set ps. key p < key q) \<and> sorted_keys ps"
  "sorted_keys (ps @ qs) \<longleftrightarrow>
     sorted_keys ps \<and> sorted_keys qs \<and> (\<forall>p \<in> set ps. \<forall>q \<in> set qs. key p < key q)"
  by (auto simp: sorted_keys_def sorted_wrt_append)

lemma is_run_simps [run_simps]:
  "is_run []"
  "is_run (p # ps) \<longleftrightarrow> key p \<noteq> '''' \<and> (\<forall>q \<in> set ps. key p < key q) \<and> is_run ps"
  "is_run (ps @ qs) \<longleftrightarrow>
     is_run ps \<and> is_run qs \<and> (\<forall>p \<in> set ps. \<forall>q \<in> set qs. key p < key q)"
  by (auto simp: is_run_def run_simps)

lemma kv_map_simps [simp]:
  "kv_map [] k = None"
  "kv_map (p # ps) k = (if key p = k then Some p else kv_map ps k)"
  by (simp_all add: kv_map_def)

lemma kv_map_Nil [simp]: "kv_map [] = Map.empty"
  by (rule ext) simp

lemma kv_map_append:
  "kv_map (ps @ qs) k = (case kv_map ps k of None \<Rightarrow> kv_map qs k | Some p \<Rightarrow> Some p)"
  by (induction ps) auto

lemma kv_map_None_iff: "kv_map ps k = None \<longleftrightarrow> (\<forall>p \<in> set ps. key p \<noteq> k)"
  by (induction ps) auto

lemma kv_map_SomeD: "kv_map ps k = Some p \<Longrightarrow> p \<in> set ps \<and> key p = k"
  by (induction ps) (auto split: if_splits)

lemma kv_map_Some_iff: "sorted_keys ps \<Longrightarrow> kv_map ps k = Some p \<longleftrightarrow> p \<in> set ps \<and> key p = k"
proof (induction ps)
  case Nil
  then show ?case by simp
next
  case (Cons q ps)
  then show ?case by (auto simp: run_simps)
qed

lemma kv_map_mset:
  assumes "sorted_keys ps" "sorted_keys qs" "set ps = set qs"
  shows "kv_map ps = kv_map qs"
proof
  fix k
  show "kv_map ps k = kv_map qs k"
    using kv_map_Some_iff [OF assms(1)] kv_map_Some_iff [OF assms(2)] assms(3)
    by (metis not_Some_eq)
qed

lemma sorted_keys_bounds:
  assumes "sorted_keys ps" "ps \<noteq> []" "p \<in> set ps"
  shows "key (hd ps) \<le> key p" "key p \<le> key (last ps)"
proof -
  show "key (hd ps) \<le> key p"
    using assms by (cases ps) (auto simp: run_simps less_imp_le)
  show "key p \<le> key (last ps)"
    using assms by (cases ps rule: rev_cases) (auto simp: run_simps less_imp_le)
qed

lemma sorted_keys_distinct: "sorted_keys ps \<Longrightarrow> distinct (map key ps)"
  by (simp add: sorted_keys_def strict_sorted_iff)

lemma sorted_keys_sorted: "sorted_keys ps \<Longrightarrow> sorted (map key ps)"
  by (simp add: sorted_keys_def strict_sorted_imp_sorted)

section \<open>Merging two runs, the specification\<close>

text \<open>
  The record that survives when both runs hold the key: the second one unless the first has the
  larger time stamp. \<open>merge_kv\<close> is the sorted union of two runs under that choice; the index
  proofs show that \<open>CapsuleIndex::merge\<close> computes it block by block.
\<close>

definition newest :: "kvs_payload \<Rightarrow> kvs_payload \<Rightarrow> kvs_payload" where
  "newest p q = (if sint (txn_timestamp p) \<le> sint (txn_timestamp q) then q else p)"

fun merge_kv :: "kvs_payload list \<Rightarrow> kvs_payload list \<Rightarrow> kvs_payload list" where
  "merge_kv [] qs = qs"
| "merge_kv ps [] = ps"
| "merge_kv (p # ps) (q # qs) =
     (if key q < key p then q # merge_kv (p # ps) qs
      else if key p < key q then p # merge_kv ps (q # qs)
      else newest p q # merge_kv ps qs)"

lemma merge_kv_Nil2 [simp]: "merge_kv ps [] = ps"
  by (cases ps) auto

lemma newest_cases: "newest p q = p \<or> newest p q = q"
  by (simp add: newest_def)

lemma set_merge_kv: "set (merge_kv ps qs) \<subseteq> set ps \<union> set qs"
  by (induction ps qs rule: merge_kv.induct) (auto simp: newest_def)

lemma keys_merge_kv: "key ` set (merge_kv ps qs) = key ` set ps \<union> key ` set qs"
  by (induction ps qs rule: merge_kv.induct) (auto simp: newest_def)

lemma length_merge_kv: "length (merge_kv ps qs) \<le> length ps + length qs"
  by (induction ps qs rule: merge_kv.induct) auto

lemma merge_kv_greater:
  assumes "r \<in> set (merge_kv ps qs)" "\<forall>p \<in> set ps. k < key p" "\<forall>q \<in> set qs. k < key q"
  shows "k < key r"
  using assms set_merge_kv by blast

lemma sorted_keys_merge_kv:
  "sorted_keys ps \<Longrightarrow> sorted_keys qs \<Longrightarrow> sorted_keys (merge_kv ps qs)"
proof (induction ps qs rule: merge_kv.induct)
  case (3 p ps q qs)
  consider "key q < key p" | "key p < key q" | "key p = key q" by fastforce
  then show ?case
  proof cases
    case 1
    with 3 have "key q < key r" if "r \<in> set (merge_kv (p # ps) qs)" for r
      using merge_kv_greater [OF that, of "key q"] by (force simp: run_simps)
    with 1 3 show ?thesis by (simp add: run_simps)
  next
    case 2
    with 3 have "key p < key r" if "r \<in> set (merge_kv ps (q # qs))" for r
      using merge_kv_greater [OF that, of "key p"] by (force simp: run_simps)
    with 2 3 show ?thesis by (simp add: run_simps)
  next
    case eq: 3
    with 3 have "key p < key r" if "r \<in> set (merge_kv ps qs)" for r
      using merge_kv_greater [OF that, of "key p"] by (force simp: run_simps)
    with eq 3 show ?thesis by (auto simp: run_simps newest_def)
  qed
qed (auto simp: run_simps)

lemma is_run_merge_kv: "is_run ps \<Longrightarrow> is_run qs \<Longrightarrow> is_run (merge_kv ps qs)"
  using set_merge_kv [of ps qs] by (auto simp: is_run_def sorted_keys_merge_kv)

lemma kv_map_merge_kv:
  assumes "sorted_keys ps" "sorted_keys qs"
  shows "kv_map (merge_kv ps qs) k =
    (case (kv_map ps k, kv_map qs k) of
       (Some p, Some q) \<Rightarrow> Some (newest p q)
     | (Some p, None) \<Rightarrow> Some p
     | (None, r) \<Rightarrow> r)"
  using assms
proof (induction ps qs rule: merge_kv.induct)
  case (3 p ps q qs)
  have tl: "sorted_keys ps" "sorted_keys qs" using 3 by (auto simp: run_simps)
  have none: "kv_map ps j = None" if "j \<le> key p" for j
    using that 3 by (auto simp: run_simps kv_map_None_iff)
  have none': "kv_map qs j = None" if "j \<le> key q" for j
    using that 3 by (auto simp: run_simps kv_map_None_iff)
  consider "key q < key p" | "key p < key q" | "key p = key q" by fastforce
  then show ?case
  proof cases
    case 1
    with 3 tl none none' show ?thesis by (auto split: option.splits)
  next
    case 2
    with 3 tl none none' show ?thesis by (auto split: option.splits)
  next
    case eq: 3
    then have "key (newest p q) = key p" by (simp add: newest_def)
    with eq 3 tl none none' show ?thesis by (auto split: option.splits)
  qed
qed (auto split: option.splits)

end
