(* ===== verification/OrdMap.thy ===== *)
theory OrdMap
  imports Capsule
begin

text \<open>
  The ordered map with string keys, \<open>std::map<std::string, T>\<close>, that the memtable is built on: its
  operations as a list of pairs in the order of the keys, the locale that states what a client may
  rely on, and the interpretation that discharges it for the list.
\<close>

section \<open>The operations\<close>

type_synonym 'a omap = "(string \<times> 'a) list"

text \<open>\<open>find\<close> (the end iterator is \<open>None\<close>), \<open>operator[] =\<close>, and \<open>at\<close>, which throws.\<close>

fun map_find :: "string \<Rightarrow> 'a omap \<Rightarrow> 'a option" where
  "map_find k [] = None"
| "map_find k ((l, x) # m) = (if l = k then Some x else map_find k m)"

fun map_assign :: "string \<Rightarrow> 'a \<Rightarrow> 'a omap \<Rightarrow> 'a omap" where
  "map_assign k x [] = [(k, x)]"
| "map_assign k x ((l, y) # m) =
     (if l < k then (l, y) # map_assign k x m
      else if l = k then (k, x) # m
      else (k, x) # (l, y) # m)"

definition map_at :: "string \<Rightarrow> 'a omap \<Rightarrow> 'a res" where
  "map_at k m = (case map_find k m of None \<Rightarrow> Inl (Out_of_range ''map::at'') | Some x \<Rightarrow> Inr x)"

definition map_ok :: "'a omap \<Rightarrow> bool" where
  "map_ok m \<longleftrightarrow> sorted_wrt (<) (map fst m)"

section \<open>The contract\<close>

text \<open>
  \<open>find\<close> after an assignment, the size, and the invariant; the keys come out of the iteration
  \<open>items\<close> in increasing order, each with the element that \<open>find\<close> returns.
\<close>

locale ordered_map =
  fixes empty :: 'm
    and find :: "string \<Rightarrow> 'm \<Rightarrow> 'a option"
    and assign :: "string \<Rightarrow> 'a \<Rightarrow> 'm \<Rightarrow> 'm"
    and items :: "'m \<Rightarrow> (string \<times> 'a) list"
    and invar :: "'m \<Rightarrow> bool"
  assumes invar_empty: "invar empty"
    and invar_assign: "invar m \<Longrightarrow> invar (assign k x m)"
    and find_empty: "find k empty = None"
    and find_assign: "invar m \<Longrightarrow> find l (assign k x m) = (if l = k then Some x else find l m)"
    and items_sorted: "invar m \<Longrightarrow> sorted_wrt (<) (map fst (items m))"
    and items_find: "invar m \<Longrightarrow> (k, x) \<in> set (items m) \<longleftrightarrow> find k m = Some x"
begin

lemma find_map: "invar m \<Longrightarrow> (\<lambda>l. find l (assign k x m)) = (\<lambda>l. find l m)(k \<mapsto> x)"
  by (auto simp: find_assign fun_eq_iff)

lemma items_keys: "invar m \<Longrightarrow> fst ` set (items m) = dom (\<lambda>k. find k m)"
  using items_find by (force simp: dom_def)

lemma distinct_items: "invar m \<Longrightarrow> distinct (map fst (items m))"
  by (drule items_sorted) (auto simp: strict_sorted_iff)

lemma length_items: "invar m \<Longrightarrow> length (items m) = card (dom (\<lambda>k. find k m))"
  using distinct_card [OF distinct_items] by (simp add: items_keys)

text \<open>The size grows by one when the key is new and stays when it is not.\<close>

lemma length_items_assign:
  assumes "invar m"
  shows "length (items (assign k x m)) =
    (if find k m = None then Suc (length (items m)) else length (items m))"
proof -
  have dom: "dom (\<lambda>l. find l (assign k x m)) = insert k (dom (\<lambda>l. find l m))"
    using assms by (simp add: find_map)
  have "finite (dom (\<lambda>l. find l m))" using items_keys [OF assms] by (metis List.finite_set finite_imageI)
  then show ?thesis using assms
    by (auto simp: length_items invar_assign dom card_insert_if domIff)
qed

lemma items_assign_keys:
  "invar m \<Longrightarrow> fst ` set (items (assign k x m)) = insert k (fst ` set (items m))"
  by (simp add: items_keys invar_assign find_map)

end

section \<open>The list of pairs\<close>

lemma map_assign_keys: "fst ` set (map_assign k x m) = insert k (fst ` set m)"
  by (induction k x m rule: map_assign.induct) auto

lemma map_ok_simps [simp]:
  "map_ok []"
  "map_ok ((k, x) # m) \<longleftrightarrow> (\<forall>p \<in> set m. k < fst p) \<and> map_ok m"
  by (auto simp: map_ok_def)

lemma map_ok_assign: "map_ok m \<Longrightarrow> map_ok (map_assign k x m)"
proof (induction k x m rule: map_assign.induct)
  case (2 k x l y m)
  then have "\<forall>p \<in> set (map_assign k x m). fst p \<in> insert k (fst ` set m)"
    using map_assign_keys [of k x m] by auto
  with 2 show ?case by (auto simp: not_less dest: less_le_trans le_neq_trans) force+
qed simp

lemma map_find_assign:
  "map_ok m \<Longrightarrow> map_find l (map_assign k x m) = (if l = k then Some x else map_find l m)"
  by (induction k x m rule: map_assign.induct) auto

lemma map_find_items: "map_ok m \<Longrightarrow> (k, x) \<in> set m \<longleftrightarrow> map_find k m = Some x"
  by (induction k m rule: map_find.induct) force+

interpretation om: ordered_map "[]" map_find map_assign "\<lambda>m. m" map_ok
  by unfold_locales
    (auto simp: map_ok_assign map_find_assign map_find_items, auto simp: map_ok_def)

lemma map_find_None_iff: "map_find k m = None \<longleftrightarrow> k \<notin> fst ` set m"
  by (induction k m rule: map_find.induct) auto

lemma map_find_assign_same [simp]: "map_find k (map_assign k x m) = Some x"
  by (induction k x m rule: map_assign.induct) auto

text \<open>Two maps with the same keys have the same keys after an assignment of the same key to both.\<close>

lemma map_assign_same_keys:
  "map fst m = map fst m' \<Longrightarrow> map fst (map_assign k x m) = map fst (map_assign k y m')"
proof (induction k x m arbitrary: m' rule: map_assign.induct)
  case (2 k x l z m)
  then obtain z' m'' where "m' = (l, z') # m''" "map fst m = map fst m''"
    by (cases m') auto
  with 2 show ?case by simp
qed simp

lemma map_assign_same: "map_find k m = Some x \<Longrightarrow> map_ok m \<Longrightarrow> map_assign k x m = m"
proof (induction k x m rule: map_assign.induct)
  case (2 k x l y m)
  then have "l \<noteq> k \<Longrightarrow> (k, x) \<in> set m" by (simp add: map_find_items)
  with 2 show ?case by force
qed simp

end
