(* ===== verification/CapsuleBlock.thy ===== *)
theory CapsuleBlock
  imports Capsule
begin

text \<open>
  \<open>src/src/core/capsuleBlock.hh\<close> and \<open>capsuleBlock.cc\<close>: the block of key-value records that is
  the unit of storage, and the header by which an index level refers to a stored block.
  \<open>writeOut\<close> and \<open>readIn\<close> go through the storage interface of theory BlockStore.
\<close>

section \<open>Blocks and headers\<close>

record blockHeader =
  hash :: string
  minKey :: string
  maxKey :: string

record CapsuleBlock =
  level :: int
  startKey :: string
  endKey :: string
  kvPairs :: "kvs_payload list"

text \<open>
  The constructors. The body of \<open>CapsuleBlock()\<close> builds and drops a temporary, so the members of
  the new object keep their default initialisation: empty strings, an empty vector and an
  indeterminate level \<open>u\<close>.
\<close>

definition CapsuleBlock_default :: "int \<Rightarrow> CapsuleBlock" where
  "CapsuleBlock_default u = \<lparr>level = u, startKey = '''', endKey = '''', kvPairs = []\<rparr>"

definition CapsuleBlock_new :: "int \<Rightarrow> CapsuleBlock" where
  "CapsuleBlock_new l = \<lparr>level = l, startKey = '''', endKey = '''', kvPairs = []\<rparr>"

definition getLevel :: "CapsuleBlock \<Rightarrow> int" where
  "getLevel b = level b"

definition getMinKey :: "CapsuleBlock \<Rightarrow> string" where
  "getMinKey b = startKey b"

definition getMaxKey :: "CapsuleBlock \<Rightarrow> string" where
  "getMaxKey b = endKey b"

definition getKVPairs :: "CapsuleBlock \<Rightarrow> kvs_payload list" where
  "getKVPairs b = kvPairs b"

definition setMinKey :: "string \<Rightarrow> CapsuleBlock \<Rightarrow> CapsuleBlock" where
  "setMinKey k b = b\<lparr>startKey := k\<rparr>"

definition setMaxKey :: "string \<Rightarrow> CapsuleBlock \<Rightarrow> CapsuleBlock" where
  "setMaxKey k b = b\<lparr>endKey := k\<rparr>"

definition addKVPair :: "kvs_payload \<Rightarrow> CapsuleBlock \<Rightarrow> CapsuleBlock" where
  "addKVPair p b =
     (let kvs = kvPairs b @ [p];
          s0 = (if startKey b = '''' then key p else startKey b);
          e0 = (if endKey b = '''' then key p else endKey b);
          s1 = min s0 (key p);
          e1 = max e0 (key p)
      in b\<lparr>kvPairs := kvs, startKey := s1, endKey := e1\<rparr>)"

fun addKVPairs :: "kvs_payload list \<Rightarrow> CapsuleBlock \<Rightarrow> CapsuleBlock" where
  "addKVPairs [] b = b"
| "addKVPairs (p # ps) b = addKVPairs ps (addKVPair p b)"

lemmas block_getters = getLevel_def getMinKey_def getMaxKey_def getKVPairs_def
lemmas block_setters = setMinKey_def setMaxKey_def CapsuleBlock_new_def CapsuleBlock_default_def

section \<open>Well-formed blocks\<close>

text \<open>
  What every block that the program writes satisfies: it holds at least one record, no key is
  empty, its level is an \<open>int\<close>, and its bounds are the least and the greatest key it holds.
\<close>

definition key_bounds :: "string \<Rightarrow> string \<Rightarrow> kvs_payload list \<Rightarrow> bool" where
  "key_bounds s e ps \<longleftrightarrow> s \<in> key ` set ps \<and> e \<in> key ` set ps \<and> (\<forall>p \<in> set ps. s \<le> key p \<and> key p \<le> e)"

definition block_wf :: "CapsuleBlock \<Rightarrow> bool" where
  "block_wf b \<longleftrightarrow> int_range (level b) \<and> (\<forall>p \<in> set (kvPairs b). key p \<noteq> '''') \<and>
     key_bounds (startKey b) (endKey b) (kvPairs b)"

lemma string_least [simp]: "(''''::string) \<le> k"
  by simp

lemma addKVPair_fields [simp]:
  "level (addKVPair p b) = level b"
  "kvPairs (addKVPair p b) = kvPairs b @ [p]"
  by (simp_all add: addKVPair_def Let_def)

lemma addKVPairs_fields [simp]:
  "level (addKVPairs ps b) = level b"
  "kvPairs (addKVPairs ps b) = kvPairs b @ ps"
  by (induction ps arbitrary: b) auto

lemma CapsuleBlock_new_fields [simp]:
  "level (CapsuleBlock_new l) = l" "kvPairs (CapsuleBlock_new l) = []"
  by (simp_all add: CapsuleBlock_new_def)

lemma addKVPairs_append: "addKVPairs (ps @ qs) b = addKVPairs qs (addKVPairs ps b)"
  by (induction ps arbitrary: b) auto

text \<open>Adding a record inside the bounds of a block leaves the bounds alone.\<close>

lemma addKVPair_inside:
  assumes "startKey b \<le> key p" "key p \<le> endKey b" "startKey b \<noteq> ''''"
  shows "addKVPair p b = b\<lparr>kvPairs := kvPairs b @ [p]\<rparr>"
proof -
  have "endKey b \<noteq> ''''"
    using assms by (metis order.trans string_least order.antisym)
  with assms show ?thesis by (simp add: addKVPair_def Let_def min_def max_def)
qed

lemma addKVPairs_inside:
  assumes "\<forall>p \<in> set ps. startKey b \<le> key p \<and> key p \<le> endKey b" "startKey b \<noteq> ''''"
  shows "addKVPairs ps b = b\<lparr>kvPairs := kvPairs b @ ps\<rparr>"
  using assms by (induction ps arbitrary: b) (auto simp: addKVPair_inside)

text \<open>
  Adding the records of a run one by one to a new block makes a well-formed block whose bounds
  are the first and the last key.
\<close>

lemma addKVPair_after:
  assumes "endKey b < key p" "startKey b \<noteq> ''''" "startKey b \<le> endKey b"
  shows "addKVPair p b = b\<lparr>kvPairs := kvPairs b @ [p], endKey := key p\<rparr>"
proof -
  have "endKey b \<noteq> ''''"
    using assms(2,3) by (metis order.antisym string_least)
  with assms show ?thesis by (simp add: addKVPair_def Let_def min_def max_def)
qed

lemma addKVPairs_run:
  assumes "is_run ps" "ps \<noteq> []"
  shows "addKVPairs ps (CapsuleBlock_new l) =
    \<lparr>level = l, startKey = key (hd ps), endKey = key (last ps), kvPairs = ps\<rparr>"
  using assms
proof (induction ps rule: rev_induct)
  case Nil
  then show ?case by simp
next
  case (snoc p ps)
  show ?case
  proof (cases "ps = []")
    case True
    then show ?thesis by (simp add: addKVPair_def CapsuleBlock_new_def)
  next
    case False
    with snoc.prems have run: "is_run ps" and lt: "key (last ps) < key p"
      by (auto simp: run_simps)
    have ne: "key (hd ps) \<noteq> ''''" using run False by (cases ps) (auto simp: run_simps)
    have le: "key (hd ps) \<le> key (last ps)"
      using sorted_keys_bounds(1) [of ps "last ps"] run False by (simp add: is_run_def)
    from snoc.IH run False lt ne le show ?thesis
      by (simp add: addKVPairs_append addKVPair_after)
  qed
qed

lemma key_bounds_run:
  assumes "sorted_keys ps" "ps \<noteq> []"
  shows "key_bounds (key (hd ps)) (key (last ps)) ps"
  using assms sorted_keys_bounds [OF assms] by (auto simp: key_bounds_def)

lemma block_wf_run:
  assumes "is_run ps" "ps \<noteq> []" "int_range l"
  shows "block_wf \<lparr>level = l, startKey = key (hd ps), endKey = key (last ps), kvPairs = ps\<rparr>"
  using assms by (simp add: block_wf_def is_run_def key_bounds_run)

lemma key_bounds_start_ne:
  assumes "key_bounds s e ps" "\<forall>p \<in> set ps. key p \<noteq> ''''"
  shows "s \<noteq> ''''"
  using assms by (auto simp: key_bounds_def)

lemma block_wf_not_Nil: "block_wf b \<Longrightarrow> kvPairs b \<noteq> []"
  by (auto simp: block_wf_def key_bounds_def)

text \<open>
  Rebuilding a block from its stored bounds and records, as \<open>getCapsuleBlock\<close> does, gives the
  block back.
\<close>

lemma block_rebuild:
  assumes "block_wf b"
  shows "addKVPairs (kvPairs b)
    (setMaxKey (endKey b) (setMinKey (startKey b) (CapsuleBlock_new (level b)))) = b"
proof -
  have "\<forall>p \<in> set (kvPairs b). startKey b \<le> key p \<and> key p \<le> endKey b"
    using assms by (auto simp: block_wf_def key_bounds_def)
  moreover have "startKey b \<noteq> ''''"
    using assms key_bounds_start_ne unfolding block_wf_def by blast
  ultimately show ?thesis
    by (simp add: addKVPairs_inside block_setters)
qed

end
