(* ===== verification/BlockStore.thy ===== *)
theory BlockStore
  imports CapsuleBlock
begin

text \<open>
  The storage interface of the database. The index reads and writes blocks only through
  \<open>CapsuleBlock::writeOut\<close> and \<open>readIn\<close> (\<open>capsuleBlock.cc\<close>), which forward to the DataCapsule;
  \<open>fakeCapsule.cc\<close> provides the two operations today. Here they are the fields of a record, the
  locale \<open>block_store\<close> states what the index relies on, and the facts about stored runs
  of blocks are proved from it once. Theory FakeCapsule interprets the locale.
\<close>

section \<open>The two operations\<close>

record 'w store_ops =
  putBlock :: "CapsuleBlock \<Rightarrow> 'w \<Rightarrow> (string \<times> 'w) res"
  getBlockAt :: "string \<Rightarrow> 'w \<Rightarrow> CapsuleBlock res"

definition writeOut :: "'w store_ops \<Rightarrow> CapsuleBlock \<Rightarrow> 'w \<Rightarrow> (string \<times> 'w) res" where
  "writeOut S b w = putBlock S b w"

definition readIn :: "'w store_ops \<Rightarrow> string \<Rightarrow> 'w \<Rightarrow> CapsuleBlock res" where
  "readIn S h w = getBlockAt S h w"

section \<open>What a list of headers stands for\<close>

definition block_at :: "'w store_ops \<Rightarrow> 'w \<Rightarrow> blockHeader \<Rightarrow> kvs_payload list" where
  "block_at S w h = (case readIn S (hash h) w of Inl e \<Rightarrow> [] | Inr b \<Rightarrow> kvPairs b)"

definition entries :: "'w store_ops \<Rightarrow> 'w \<Rightarrow> blockHeader list \<Rightarrow> kvs_payload list" where
  "entries S w hs = concat (map (block_at S w) hs)"

text \<open>
  A header is good for a store when its block can be read, is not empty, has at most \<open>n\<close> records
  and has the bounds that the header says; a list of headers is good when each of them is and the
  records of its blocks, one block after the other, are a run.
\<close>

definition header_ok :: "'w store_ops \<Rightarrow> 'w \<Rightarrow> nat \<Rightarrow> blockHeader \<Rightarrow> bool" where
  "header_ok S w n h \<longleftrightarrow> hash h \<noteq> '''' \<and>
     (\<exists>b. readIn S (hash h) w = Inr b \<and> block_wf b \<and> length (kvPairs b) \<le> n \<and>
          minKey h = key (hd (kvPairs b)) \<and> maxKey h = key (last (kvPairs b)))"

definition run_ok :: "'w store_ops \<Rightarrow> 'w \<Rightarrow> nat \<Rightarrow> blockHeader list \<Rightarrow> bool" where
  "run_ok S w n hs \<longleftrightarrow> (\<forall>h \<in> set hs. header_ok S w n h) \<and> is_run (entries S w hs)"

text \<open>A later store extends an earlier one when every block that could be read still reads the same.\<close>

definition extends :: "'w store_ops \<Rightarrow> 'w \<Rightarrow> 'w \<Rightarrow> bool" where
  "extends S w w' \<longleftrightarrow> (\<forall>h b. readIn S h w = Inr b \<longrightarrow> readIn S h w' = Inr b)"

lemma extends_refl [simp]: "extends S w w"
  by (simp add: extends_def)

lemma extends_trans: "extends S w w' \<Longrightarrow> extends S w' w'' \<Longrightarrow> extends S w w''"
  by (simp add: extends_def)

lemma entries_simps [simp]:
  "entries S w [] = []"
  "entries S w (h # hs) = block_at S w h @ entries S w hs"
  "entries S w (hs @ gs) = entries S w hs @ entries S w gs"
  by (simp_all add: entries_def)

lemma header_ok_read:
  assumes "header_ok S w n h"
  obtains b where "readIn S (hash h) w = Inr b" "block_at S w h = kvPairs b" "block_wf b"
    "kvPairs b \<noteq> []" "length (kvPairs b) \<le> n" "minKey h = key (hd (kvPairs b))"
    "maxKey h = key (last (kvPairs b))"
  using assms by (auto simp: header_ok_def block_at_def block_wf_not_Nil)

lemma header_ok_block:
  assumes "header_ok S w n h"
  shows "block_at S w h \<noteq> []" "length (block_at S w h) \<le> n"
    "minKey h = key (hd (block_at S w h))" "maxKey h = key (last (block_at S w h))"
  using assms by (auto elim: header_ok_read)

lemma header_ok_extends:
  assumes "header_ok S w n h" "extends S w w'"
  shows "header_ok S w' n h" "block_at S w' h = block_at S w h"
  using assms by (auto simp: header_ok_def extends_def block_at_def)

lemma entries_extends:
  assumes "\<forall>h \<in> set hs. header_ok S w n h" "extends S w w'"
  shows "entries S w' hs = entries S w hs"
  using assms(1) by (induction hs) (auto simp: header_ok_extends(2) [OF _ assms(2)])

lemma run_ok_extends:
  assumes "run_ok S w n hs" "extends S w w'"
  shows "run_ok S w' n hs" "entries S w' hs = entries S w hs"
proof -
  show eq: "entries S w' hs = entries S w hs"
    using assms by (auto simp: run_ok_def intro: entries_extends)
  show "run_ok S w' n hs"
    using assms eq by (auto simp: run_ok_def intro: header_ok_extends(1))
qed

lemma run_ok_simps [run_simps]:
  "run_ok S w n []"
  "run_ok S w n (h # hs) \<longleftrightarrow> header_ok S w n h \<and> run_ok S w n hs \<and> is_run (block_at S w h) \<and>
     (\<forall>p \<in> set (block_at S w h). \<forall>q \<in> set (entries S w hs). key p < key q)"
  "run_ok S w n (hs @ gs) \<longleftrightarrow> run_ok S w n hs \<and> run_ok S w n gs \<and>
     (\<forall>p \<in> set (entries S w hs). \<forall>q \<in> set (entries S w gs). key p < key q)"
proof -
  show "run_ok S w n []" by (simp add: run_ok_def run_simps)
  show "run_ok S w n (h # hs) \<longleftrightarrow> header_ok S w n h \<and> run_ok S w n hs \<and> is_run (block_at S w h) \<and>
     (\<forall>p \<in> set (block_at S w h). \<forall>q \<in> set (entries S w hs). key p < key q)"
    by (simp add: run_ok_def is_run_simps(3)) blast
  show "run_ok S w n (hs @ gs) \<longleftrightarrow> run_ok S w n hs \<and> run_ok S w n gs \<and>
     (\<forall>p \<in> set (entries S w hs). \<forall>q \<in> set (entries S w gs). key p < key q)"
    by (simp add: run_ok_def is_run_simps(3)) blast
qed

lemma entries_Nil_iff:
  assumes "run_ok S w n hs"
  shows "entries S w hs = [] \<longleftrightarrow> hs = []"
  using assms by (cases hs) (auto simp: run_simps header_ok_block)

lemma length_entries_le:
  assumes "run_ok S w n hs"
  shows "length (entries S w hs) \<le> n * length hs"
  using assms
proof (induction hs)
  case (Cons h hs)
  then have "length (entries S w hs) \<le> n * length hs" "length (block_at S w h) \<le> n"
    by (auto simp: run_simps header_ok_block)
  then show ?case by simp
qed simp

lemma length_entries_ge:
  assumes "run_ok S w n hs"
  shows "length hs \<le> length (entries S w hs)"
  using assms
proof (induction hs)
  case (Cons h hs)
  then have "length hs \<le> length (entries S w hs)" "block_at S w h \<noteq> []"
    by (auto simp: run_simps header_ok_block)
  then show ?case by (cases "block_at S w h") auto
qed simp

text \<open>Bounds of a run of blocks: the first header's least key and the last header's greatest.\<close>

lemma run_ok_bounds:
  assumes "run_ok S w n hs" "p \<in> set (entries S w hs)"
  shows "minKey (hd hs) \<le> key p" "key p \<le> maxKey (last hs)"
proof -
  have ne: "hs \<noteq> []" using assms(2) by auto
  have sk: "sorted_keys (entries S w hs)" using assms(1) by (simp add: run_ok_def is_run_def)
  have "minKey (hd hs) = key (hd (entries S w hs))"
    using assms(1) ne by (cases hs) (auto simp: run_simps header_ok_block)
  then show "minKey (hd hs) \<le> key p"
    using sorted_keys_bounds(1) [OF sk _ assms(2)] assms(2) by force
  have "maxKey (last hs) = key (last (entries S w hs))"
    using assms(1) ne by (cases hs rule: rev_cases) (auto simp: run_simps header_ok_block)
  then show "key p \<le> maxKey (last hs)"
    using sorted_keys_bounds(2) [OF sk _ assms(2)] assms(2) by force
qed

section \<open>The contract\<close>

text \<open>
  What the index relies on. \<open>inv\<close> is the store's own invariant and \<open>room\<close> the number of blocks
  it can still take. Writing a well-formed block succeeds while there is room, uses one unit of
  it, returns a non-empty name under which exactly this block is read back, and changes no block
  that could be read before.
\<close>

locale block_store =
  fixes S :: "'w store_ops"
    and inv :: "'w \<Rightarrow> bool"
    and room :: "'w \<Rightarrow> nat"
  assumes put_ok: "inv w \<Longrightarrow> block_wf b \<Longrightarrow> 0 < room w \<Longrightarrow>
    \<exists>h w'. putBlock S b w = Inr (h, w') \<and> h \<noteq> '''' \<and> inv w' \<and> Suc (room w') = room w \<and>
      getBlockAt S h w' = Inr b \<and>
      (\<forall>h' b'. getBlockAt S h' w = Inr b' \<longrightarrow> getBlockAt S h' w' = Inr b')"
begin

lemma writeOut_ok:
  assumes "inv w" "block_wf b" "0 < room w"
  obtains h w' where "writeOut S b w = Inr (h, w')" "h \<noteq> ''''" "inv w'" "Suc (room w') = room w"
    "readIn S h w' = Inr b" "extends S w w'"
  using put_ok [OF assms] by (auto simp: writeOut_def readIn_def extends_def)

text \<open>Writing a run as one block makes a good header for it.\<close>

lemma writeOut_run:
  assumes "inv w" "0 < room w" "is_run ps" "ps \<noteq> []" "length ps \<le> n" "int_range l"
    and "b = \<lparr>level = l, startKey = key (hd ps), endKey = key (last ps), kvPairs = ps\<rparr>"
  obtains h w' where "writeOut S b w = Inr (h, w')" "inv w'" "Suc (room w') = room w"
    "extends S w w'"
    "run_ok S w' n [\<lparr>hash = h, minKey = startKey b, maxKey = endKey b\<rparr>]"
    "entries S w' [\<lparr>hash = h, minKey = startKey b, maxKey = endKey b\<rparr>] = ps"
proof -
  have wf: "block_wf b" using assms by (simp add: block_wf_run)
  obtain h w' where w: "writeOut S b w = Inr (h, w')" "h \<noteq> ''''" "inv w'" "Suc (room w') = room w"
      "readIn S h w' = Inr b" "extends S w w'"
    using writeOut_ok [OF assms(1) wf assms(2)] by blast
  let ?bh = "\<lparr>hash = h, minKey = startKey b, maxKey = endKey b\<rparr>"
  have "block_at S w' ?bh = ps" using w assms(7) by (simp add: block_at_def)
  moreover have "header_ok S w' n ?bh" using w wf assms(5,7) by (simp add: header_ok_def)
  ultimately show thesis using that [OF w(1,3,4,6)] assms(3) by (simp add: run_simps)
qed

end

end
