(* ===== verification/FakeCapsule.thy ===== *)
theory FakeCapsule
  imports BlockStore
begin

text \<open>
  \<open>src/src/core/fakeCapsule.cc\<close>: the storage of blocks as files named by a hash. The protobuf
  library with the classes generated from \<open>capsuleBlock.proto\<close> and \<open>kvs_payload.proto\<close>, OpenSSL's
  SHA-256 and the file system's answer to a write are outside the repository: they are the fields
  of an environment \<open>E\<close>, an argument of every definition, and \<open>env_ok E\<close> states what the
  code relies on. The last section interprets the locale of theory BlockStore.
\<close>

section \<open>The messages of the .proto files\<close>

text \<open>Every field is optional (proto2); a getter gives the type's default where a field is absent.\<close>

record Kvs_payload_msg =
  f_key :: "string option"
  f_value :: "string option"
  f_txn_timestamp :: "int64 option"
  f_txn_msgtype :: "string option"

record CapsuleBlock_msg =
  f_counter :: "int64 option"
  f_level :: "int64 option"
  f_startKey :: "string option"
  f_endKey :: "string option"
  f_kvpairs :: "Kvs_payload_msg list"

definition get_field :: "'a \<Rightarrow> 'a option \<Rightarrow> 'a" where
  "get_field d f = (case f of None \<Rightarrow> d | Some x \<Rightarrow> x)"

lemma get_field_Some [simp]: "get_field d (Some x) = x"
  by (simp add: get_field_def)

section \<open>The environment and the store\<close>

record env =
  serialize :: "CapsuleBlock_msg \<Rightarrow> string option"
    \<comment> \<open>\<open>SerializeToString\<close> and \<open>SerializeToOstream\<close>: the bytes, or failure\<close>
  parse :: "string option \<Rightarrow> CapsuleBlock_msg option"
    \<comment> \<open>\<open>ParseFromIstream\<close> on the content of a file, \<open>None\<close> when it could not be opened\<close>
  sha256 :: "string \<Rightarrow> string"
    \<comment> \<open>the 32 bytes of \<open>SHA256_Final\<close>\<close>
  ostream_ok :: "string \<Rightarrow> bool"
    \<comment> \<open>whether writing the file of that name succeeds\<close>

text \<open>The global \<open>counter\<close> and the files of the working directory.\<close>

record world =
  counter :: int
  files :: "string \<Rightarrow> string option"

definition initial_world :: world where
  "initial_world = \<lparr>counter = 0, files = (\<lambda>_. None)\<rparr>"

section \<open>Hashing\<close>

text \<open>
  \<open>SHA256_Update(&sha256, string, strlen(string))\<close> hashes a C string: the bytes before the first
  zero byte of its argument.
\<close>

definition c_str :: "string \<Rightarrow> string" where
  "c_str s = takeWhile (\<lambda>c. c \<noteq> CHR 0x00) s"

definition hex_digit :: "nat \<Rightarrow> char" where
  "hex_digit d = ''0123456789abcdef'' ! d"

definition hex_byte :: "char \<Rightarrow> string" where
  "hex_byte c = [hex_digit (of_char c div 16), hex_digit (of_char c mod 16)]"

definition sha256_string :: "env \<Rightarrow> string \<Rightarrow> string" where
  "sha256_string E s = concat (map hex_byte (take 32 (sha256 E (c_str s))))"

section \<open>Writing and reading a block\<close>

definition kvs_to_msg :: "kvs_payload \<Rightarrow> Kvs_payload_msg" where
  "kvs_to_msg p = \<lparr>f_key = Some (key p), f_value = Some (val p),
     f_txn_timestamp = Some (txn_timestamp p), f_txn_msgtype = Some (txn_msgType p)\<rparr>"

definition msg_to_kvs :: "Kvs_payload_msg \<Rightarrow> kvs_payload" where
  "msg_to_kvs m = \<lparr>key = get_field '''' (f_key m), val = get_field '''' (f_value m),
     txn_timestamp = get_field 0 (f_txn_timestamp m),
     txn_msgType = get_field '''' (f_txn_msgtype m)\<rparr>"

definition block_to_msg :: "int \<Rightarrow> CapsuleBlock \<Rightarrow> CapsuleBlock_msg" where
  "block_to_msg c b = \<lparr>f_counter = Some (of_int c), f_level = Some (of_int (getLevel b)),
     f_startKey = Some (getMinKey b), f_endKey = Some (getMaxKey b),
     f_kvpairs = map kvs_to_msg (kvPairs b)\<rparr>"

definition putCapsuleBlock :: "env \<Rightarrow> CapsuleBlock \<Rightarrow> world \<Rightarrow> (string \<times> world) res" where
  "putCapsuleBlock E b w =
     (let m = block_to_msg (counter w) b in
      bindr (checked_int (counter w + 1)) (\<lambda>c.
      case serialize E m of
        None \<Rightarrow> Inl (Logic_error ''String serialization failure.'')
      | Some s \<Rightarrow>
          (let h = sha256_string E s in
           if ostream_ok E h
           then Inr (h, w\<lparr>counter := c, files := (files w)(h \<mapsto> s)\<rparr>)
           else Inl (Logic_error ''Ostream serialization failure.''))))"

definition msg_to_block :: "CapsuleBlock_msg \<Rightarrow> CapsuleBlock" where
  "msg_to_block m =
     addKVPairs (map msg_to_kvs (f_kvpairs m))
       (setMaxKey (get_field '''' (f_endKey m))
       (setMinKey (get_field '''' (f_startKey m))
       (CapsuleBlock_new (to_int32 (sint (get_field 0 (f_level m)))))))"

definition getCapsuleBlock :: "env \<Rightarrow> string \<Rightarrow> world \<Rightarrow> CapsuleBlock res" where
  "getCapsuleBlock E inputHash w =
     (case parse E (files w inputHash) of
        None \<Rightarrow> Inl (Logic_error ''Failed to deserialize retreived block.'')
      | Some m \<Rightarrow>
          (case serialize E m of
             None \<Rightarrow> Inl (Logic_error ''SerializeToString failure in getCapsuleBlock.'')
           | Some s \<Rightarrow>
               (if sha256_string E s \<noteq> inputHash
                then Inl (Invalid_argument
                  ''Hash mismatch on retrieval, possible tampering detected.'')
                else Inr (msg_to_block m))))"

definition capsule_ops :: "env \<Rightarrow> world store_ops" where
  "capsule_ops E = \<lparr>putBlock = putCapsuleBlock E, getBlockAt = getCapsuleBlock E\<rparr>"

lemma capsule_ops_simps [simp]:
  "putBlock (capsule_ops E) = putCapsuleBlock E"
  "getBlockAt (capsule_ops E) = getCapsuleBlock E"
  by (simp_all add: capsule_ops_def)

section \<open>What the code relies on\<close>

text \<open>
  Protobuf serializes every message of this type and parses the bytes back to the message, and
  fails on a stream that is not open; a
  SHA-256 digest has 32 bytes; writing a file succeeds; and SHA-256 does not collide on the
  zero-free prefixes of two serialized messages whose counters (the first field on the wire) are
  different non-negative \<open>int\<close> values. Theory ProtoWire shows that these can hold together.
\<close>

definition counters_apart :: "env \<Rightarrow> bool" where
  "counters_apart E \<longleftrightarrow> (\<forall>m m' s s' c c'.
     serialize E m = Some s \<and> serialize E m' = Some s' \<and>
     f_counter m = Some (of_int c) \<and> f_counter m' = Some (of_int c') \<and>
     0 \<le> c \<and> int_range c \<and> 0 \<le> c' \<and> int_range c' \<and> c \<noteq> c' \<longrightarrow>
     sha256 E (c_str s) \<noteq> sha256 E (c_str s'))"

definition env_ok :: "env \<Rightarrow> bool" where
  "env_ok E \<longleftrightarrow>
     (\<forall>m. \<exists>s. serialize E m = Some s \<and> parse E (Some s) = Some m) \<and> parse E None = None \<and>
     (\<forall>s. length (sha256 E s) = 32) \<and> (\<forall>h. ostream_ok E h) \<and> counters_apart E"

text \<open>
  The invariant of the store: the counter is a non-negative \<open>int\<close>, and every file was written by
  \<open>putCapsuleBlock\<close> under a smaller counter and has the name its content hashes to.
\<close>

definition written_by :: "env \<Rightarrow> int \<Rightarrow> string \<Rightarrow> string \<Rightarrow> bool" where
  "written_by E c h s \<longleftrightarrow> (\<exists>m. serialize E m = Some s \<and> f_counter m = Some (of_int c) \<and>
     h = sha256_string E s)"

definition world_ok :: "env \<Rightarrow> world \<Rightarrow> bool" where
  "world_ok E w \<longleftrightarrow> env_ok E \<and> 0 \<le> counter w \<and> int_range (counter w) \<and>
     (\<forall>h s. files w h = Some s \<longrightarrow> (\<exists>c. 0 \<le> c \<and> c < counter w \<and> written_by E c h s))"

definition world_room :: "world \<Rightarrow> nat" where
  "world_room w = nat (2 ^ 31 - 1 - counter w)"


section \<open>Names of blocks\<close>

lemma hex_digit_inj: "hex_digit i = hex_digit j \<Longrightarrow> i < 16 \<Longrightarrow> j < 16 \<Longrightarrow> i = j"
proof -
  have "distinct ''0123456789abcdef''" by simp
  then show "hex_digit i = hex_digit j \<Longrightarrow> i < 16 \<Longrightarrow> j < 16 \<Longrightarrow> i = j"
    unfolding hex_digit_def by (subst (asm) nth_eq_iff_index_eq) auto
qed

lemma hex_byte_inj: "hex_byte c = hex_byte d \<Longrightarrow> c = d"
proof -
  assume eq: "hex_byte c = hex_byte d"
  let ?n = "of_char c :: nat" and ?m = "of_char d :: nat"
  have lt: "?n < 256" "?m < 256" by simp_all
  have "?n div 16 < 16" "?m div 16 < 16" using lt by linarith+
  then have "?n div 16 = ?m div 16" "?n mod 16 = ?m mod 16"
    using eq hex_digit_inj [of "?n div 16" "?m div 16"] hex_digit_inj [of "?n mod 16" "?m mod 16"]
    by (simp_all add: hex_byte_def)
  then have "?n = ?m" by (metis div_mult_mod_eq)
  then show "c = d" by simp
qed

lemma length_hex [simp]: "length (hex_byte c) = 2"
  by (simp add: hex_byte_def)

lemma hex_bytes_inj:
  "concat (map hex_byte xs) = concat (map hex_byte ys) \<Longrightarrow> length xs = length ys \<Longrightarrow> xs = ys"
proof (induction xs arbitrary: ys)
  case (Cons x xs)
  then obtain y ys' where ys: "ys = y # ys'" by (cases ys) auto
  with Cons.prems have "hex_byte x = hex_byte y"
    and "concat (map hex_byte xs) = concat (map hex_byte ys')"
    by (auto simp: append_eq_append_conv)
  with Cons ys show ?case by (auto dest: hex_byte_inj)
qed simp

lemma sha256_string_inj:
  assumes "env_ok E" "sha256_string E s = sha256_string E s'"
  shows "sha256 E (c_str s) = sha256 E (c_str s')"
  using assms by (auto simp: env_ok_def sha256_string_def dest: hex_bytes_inj)

lemma sha256_string_not_Nil: "env_ok E \<Longrightarrow> sha256_string E s \<noteq> ''''"
proof -
  assume "env_ok E"
  then have "length (sha256_string E s) = 64"
    by (simp add: env_ok_def sha256_string_def length_concat comp_def sum_list_triv)
  then show ?thesis by force
qed

section \<open>The two operations keep the contract\<close>

lemma written_by_fresh:
  assumes "env_ok E" "written_by E c h s" "written_by E c' h s'" "0 \<le> c" "c < c'" "int_range c'"
  shows False
proof -
  obtain m m' where m: "serialize E m = Some s" "f_counter m = Some (of_int c)"
      "serialize E m' = Some s'" "f_counter m' = Some (of_int c')"
      "sha256_string E s = sha256_string E s'"
    using assms(2,3) by (auto simp: written_by_def)
  have apart: "counters_apart E" using assms(1) by (simp add: env_ok_def)
  have "int_range c" "0 \<le> c'" "c \<noteq> c'" using assms(4-6) by (auto simp: int_range_def)
  then have "sha256 E (c_str s) \<noteq> sha256 E (c_str s')"
    using apart m(1-4) assms(4,6) unfolding counters_apart_def by blast
  with sha256_string_inj [OF assms(1) m(5)] show False by simp
qed

lemma map_msg_to_kvs [simp]: "map msg_to_kvs (map kvs_to_msg ps) = ps"
  by (induction ps) (simp_all add: msg_to_kvs_def kvs_to_msg_def)

text \<open>Reading the message of a well-formed block gives the block back, whatever its counter.\<close>

lemma msg_to_block_to_msg:
  assumes "block_wf b"
  shows "msg_to_block (block_to_msg c b) = b"
proof -
  have r: "int_range (level b)" using assms by (simp add: block_wf_def)
  then have "sint (of_int (level b) :: int64) = level b"
    by (simp add: int_range_def sint_sbintrunc' signed_take_bit_int_eq_self)
  then have "to_int32 (sint (of_int (level b) :: int64)) = level b"
    using r by (simp add: to_int32_id)
  then show ?thesis
    using block_rebuild [OF assms]
    by (simp add: msg_to_block_def block_to_msg_def block_getters del: map_map)
qed

lemma putCapsuleBlock_ok:
  assumes w: "world_ok E w" and wf: "block_wf b" and room: "0 < world_room w"
  shows "\<exists>h w'. putCapsuleBlock E b w = Inr (h, w') \<and> h \<noteq> '''' \<and> world_ok E w' \<and>
    Suc (world_room w') = world_room w \<and> getCapsuleBlock E h w' = Inr b \<and>
    (\<forall>h' b'. getCapsuleBlock E h' w = Inr b' \<longrightarrow> getCapsuleBlock E h' w' = Inr b')"
proof -
  let ?m = "block_to_msg (counter w) b"
  have env: "env_ok E" using w by (simp add: world_ok_def)
  have c: "int_range (counter w + 1)"
    using w room by (auto simp: world_ok_def int_range_def world_room_def)
  obtain s where s: "serialize E ?m = Some s" "parse E (Some s) = Some ?m"
    using env unfolding env_ok_def by blast
  let ?h = "sha256_string E s"
  let ?w = "w\<lparr>counter := counter w + 1, files := (files w)(?h \<mapsto> s)\<rparr>"
  have new: "written_by E (counter w) ?h s"
    using s by (auto simp: written_by_def block_to_msg_def)
  have fresh: "files w ?h = None"
  proof (rule ccontr)
    assume "files w ?h \<noteq> None"
    then obtain s' where "files w ?h = Some s'" by auto
    then obtain c' where "0 \<le> c'" "c' < counter w" "written_by E c' ?h s'"
      using w unfolding world_ok_def by blast
    then show False using written_by_fresh [OF env _ new] w by (auto simp: world_ok_def)
  qed
  have put: "putCapsuleBlock E b w = Inr (?h, ?w)"
    using s c env by (simp add: putCapsuleBlock_def Let_def checked_int_ok env_ok_def)
  have get: "getCapsuleBlock E ?h ?w = Inr b"
    using s wf by (simp add: getCapsuleBlock_def msg_to_block_to_msg)
  have "\<exists>c. 0 \<le> c \<and> c < counter ?w \<and> written_by E c h t" if "files ?w h = Some t" for h t
  proof (cases "h = ?h")
    case True
    with that new w show ?thesis
      by (intro exI [of _ "counter w"]) (auto simp: world_ok_def)
  next
    case False
    with that obtain d where "0 \<le> d" "d < counter w" "written_by E d h t"
      using w by (auto simp: world_ok_def)
    then show ?thesis by (intro exI [of _ d]) simp
  qed
  then have "world_ok E ?w" using w c by (auto simp: world_ok_def)
  moreover have "getCapsuleBlock E h' ?w = Inr b'" if "getCapsuleBlock E h' w = Inr b'" for h' b'
    using that fresh env
    by (cases "h' = ?h") (simp_all add: getCapsuleBlock_def env_ok_def)
  moreover have "Suc (world_room ?w) = world_room w"
    using room by (simp add: world_room_def)
  moreover have "?h \<noteq> ''''" using env by (rule sha256_string_not_Nil)
  ultimately show ?thesis using put get by blast
qed

interpretation fc: block_store "capsule_ops E" "world_ok E" world_room for E
  by unfold_locales (use putCapsuleBlock_ok in \<open>simp\<close>)

end
