(* ===== verification/Level.thy ===== *)
theory Level
  imports FakeCapsule
begin

text \<open>
  \<open>src/src/core/level.hh\<close> and \<open>level.cc\<close>: one level of the index, a vector of block headers with
  the bounds of the keys below it. The Bloom filter of a level is commented out in the source
  (\<open>levelFilter\<close>), and \<open>create_filter\<close> has no caller that uses its result.
\<close>

section \<open>The class\<close>

record Level =
  index :: int
  numBlocks :: int
  maxSize :: int
  min_key :: string
  max_key :: string
  recordHashes :: "blockHeader list"

definition Level_new :: "int \<Rightarrow> int \<Rightarrow> Level" where
  "Level_new i ms = \<lparr>index = i, numBlocks = 0, maxSize = ms, min_key = '''', max_key = '''',
     recordHashes = []\<rparr>"

definition getNumBlocks :: "Level \<Rightarrow> int" where
  "getNumBlocks L = numBlocks L"

definition setNumBlocks :: "int \<Rightarrow> Level \<Rightarrow> Level" where
  "setNumBlocks n L = L\<lparr>numBlocks := n\<rparr>"

text \<open>
  \<open>addBlock\<close> returns the status and the changed level. The loop over the block's records has
  only commented-out code in its body.
\<close>

definition addBlock :: "CapsuleBlock \<Rightarrow> string \<Rightarrow> Level \<Rightarrow> (int \<times> Level) res" where
  "addBlock newBlock h L =
     (let bmin = getMinKey newBlock; bmax = getMaxKey newBlock;
          bh = \<lparr>hash = h, minKey = bmin, maxKey = bmax\<rparr>
      in if min_key L = '''' \<or> max_key L = ''''
         then bindr (checked_int (numBlocks L + 1)) (\<lambda>n.
           Inr (0, L\<lparr>numBlocks := n, min_key := bmin, max_key := bmax,
                    recordHashes := recordHashes L @ [bh]\<rparr>))
         else if index L = 0
         then bindr (checked_int (numBlocks L + 1)) (\<lambda>n.
           Inr (0, L\<lparr>recordHashes := recordHashes L @ [bh], numBlocks := n,
                    min_key := min (min_key L) bmin, max_key := max (max_key L) bmax\<rparr>))
         else Inr (- 1, L))"

text \<open>
  The search loop of \<open>getBlock\<close> runs \<open>i\<close> from 0 to \<open>numBlocks - 1\<close> over \<open>recordHashes\<close>; an index
  past the end of the vector is undefined behaviour. The list is the part not visited yet.
\<close>

fun find_header :: "string \<Rightarrow> nat \<Rightarrow> blockHeader list \<Rightarrow> string res" where
  "find_header k 0 hs = Inr ''''"
| "find_header k (Suc n) [] = Inl (Undefined_behaviour ''recordHashes index'')"
| "find_header k (Suc n) (h # hs) =
     (if minKey h \<le> k \<and> k \<le> maxKey h then Inr (hash h) else find_header k n hs)"

definition Level_getBlock :: "string \<Rightarrow> Level \<Rightarrow> string res" where
  "Level_getBlock k L =
     (if k < min_key L \<or> k > max_key L then Inr ''''
      else find_header k (nat (numBlocks L)) (recordHashes L))"

section \<open>Well-formed levels\<close>

text \<open>
  The bookkeeping of a level agrees with its headers: the block count is the size of the vector
  and the bounds are those of the first and the last header, or empty.
\<close>

definition bounds_ok :: "Level \<Rightarrow> bool" where
  "bounds_ok L \<longleftrightarrow> numBlocks L = int (length (recordHashes L)) \<and>
     (if recordHashes L = [] then min_key L = '''' \<and> max_key L = ''''
      else min_key L = minKey (hd (recordHashes L)) \<and> max_key L = maxKey (last (recordHashes L)))"

lemma bounds_ok_new: "bounds_ok (Level_new i ms)"
  by (simp add: bounds_ok_def Level_new_def)

text \<open>
  The search returns the name of the block that holds the key, if one does; where it returns the
  empty string no block of the level holds the key.
\<close>

lemma find_header_sound:
  assumes "find_header k n hs = Inr g" "g \<noteq> ''''"
  shows "\<exists>h \<in> set hs. hash h = g \<and> minKey h \<le> k \<and> k \<le> maxKey h"
  using assms by (induction k n hs rule: find_header.induct) (auto split: if_splits)

lemma find_header_run:
  assumes "run_ok S w n hs"
  shows "\<exists>g. find_header k (length hs) hs = Inr g \<and>
    (if g = '''' then kv_map (entries S w hs) k = None
     else \<exists>h \<in> set hs. hash h = g \<and> kv_map (entries S w hs) k = kv_map (block_at S w h) k)"
  using assms
proof (induction hs)
  case Nil
  then show ?case by simp
next
  case (Cons h hs)
  then have ok: "header_ok S w n h" and run: "run_ok S w n hs"
    and lt: "\<forall>p \<in> set (block_at S w h). \<forall>q \<in> set (entries S w hs). key p < key q"
    and sk: "sorted_keys (block_at S w h)"
    by (auto simp: run_simps is_run_def)
  have bnd: "p \<in> set (block_at S w h) \<Longrightarrow> minKey h \<le> key p \<and> key p \<le> maxKey h" for p
    using sorted_keys_bounds [OF sk] header_ok_block [OF ok] by auto
  have nn: "hash h \<noteq> ''''" using ok by (simp add: header_ok_def)
  show ?case
  proof (cases "minKey h \<le> k \<and> k \<le> maxKey h")
    case True
    have "maxKey h \<in> key ` set (block_at S w h)"
      using header_ok_block [OF ok] by auto
    then have "q \<in> set (entries S w hs) \<Longrightarrow> k < key q" for q
      using True lt by (metis (no_types, lifting) imageE le_less_trans)
    then have "kv_map (entries S w hs) k = None" by (force simp: kv_map_None_iff)
    with True nn show ?thesis
      by (auto simp: kv_map_append split: option.splits)
  next
    case False
    then have none: "kv_map (block_at S w h) k = None" using bnd by (auto simp: kv_map_None_iff)
    from Cons.IH run obtain g where "find_header k (length hs) hs = Inr g"
      "if g = '''' then kv_map (entries S w hs) k = None
       else \<exists>h \<in> set hs. hash h = g \<and> kv_map (entries S w hs) k = kv_map (block_at S w h) k"
      by blast
    with False none show ?thesis by (auto simp: kv_map_append)
  qed
qed

lemma Level_getBlock_run:
  assumes run: "run_ok S w n (recordHashes L)" and b: "bounds_ok L"
  shows "\<exists>g. Level_getBlock k L = Inr g \<and>
    (if g = '''' then kv_map (entries S w (recordHashes L)) k = None
     else \<exists>h \<in> set (recordHashes L). hash h = g \<and>
       kv_map (entries S w (recordHashes L)) k = kv_map (block_at S w h) k)"
proof (cases "k < min_key L \<or> k > max_key L")
  case True
  have "kv_map (entries S w (recordHashes L)) k = None"
  proof (cases "recordHashes L = []")
    case False
    then have "min_key L \<le> key p \<and> key p \<le> max_key L" if "p \<in> set (entries S w (recordHashes L))" for p
      using run_ok_bounds [OF run that] b by (simp add: bounds_ok_def)
    with True show ?thesis unfolding kv_map_None_iff by (metis leD)
  qed simp
  with True show ?thesis by (simp add: Level_getBlock_def)
next
  case False
  then show ?thesis using find_header_run [OF run, of k] b
    by (simp add: Level_getBlock_def bounds_ok_def)
qed

end
