(* ===== verification/Index.thy ===== *)
theory Index
  imports Level
begin

text \<open>
  \<open>src/src/core/index.hh\<close> and \<open>index.cc\<close>: the index of the database, a vector of levels, with the
  compaction that moves blocks down the levels. The functions that touch storage take the
  operations \<open>S\<close> of theory BlockStore and a store \<open>w\<close>, and return the new store. \<open>levels[i]\<close>
  past the end of the vector is undefined behaviour.
\<close>

section \<open>The class\<close>

record CapsuleIndex =
  numLevels :: int
  blocksize :: size_t
  prevIndexHash :: string
  levels :: "Level list"

definition CapsuleIndex_new :: "size_t \<Rightarrow> CapsuleIndex" where
  "CapsuleIndex_new sz = \<lparr>numLevels = 1, blocksize = sz, prevIndexHash = '''',
     levels = [Level_new 0 (size_to_int (2 * sz))]\<rparr>"

definition getNumLevels :: "CapsuleIndex \<Rightarrow> int" where
  "getNumLevels ix = numLevels ix"

definition level_at :: "CapsuleIndex \<Rightarrow> nat \<Rightarrow> Level res" where
  "level_at ix i = (if i < length (levels ix) then Inr (levels ix ! i)
     else Inl (Undefined_behaviour ''levels index''))"

definition Index_getBlock :: "int \<Rightarrow> string \<Rightarrow> CapsuleIndex \<Rightarrow> string res" where
  "Index_getBlock l k ix =
     (if l < 0 \<or> l \<ge> numLevels ix then Inr ''Bad level''
      else bindr (level_at ix (nat l)) (Level_getBlock k))"

text \<open>\<open>addLevel\<close> returns the index of the new level and the changed index.\<close>

definition addLevel :: "int \<Rightarrow> CapsuleIndex \<Rightarrow> (int \<times> CapsuleIndex) res" where
  "addLevel sz ix =
     (let newLevel = (Level_new (numLevels ix) sz)\<lparr>numBlocks := 0, maxSize := sz,
                       index := numLevels ix\<rparr>
      in bindr (checked_int (numLevels ix + 1)) (\<lambda>n.
         Inr (n - 1, ix\<lparr>levels := levels ix @ [newLevel], numLevels := n\<rparr>)))"

definition comparePayloads :: "kvs_payload \<Rightarrow> kvs_payload \<Rightarrow> bool" where
  "comparePayloads p q \<longleftrightarrow> key p < key q"

definition compareHeaders :: "blockHeader \<Rightarrow> blockHeader \<Rightarrow> bool" where
  "compareHeaders h g \<longleftrightarrow> minKey h < minKey g"

section \<open>Merging two vectors of blocks\<close>

text \<open>
  The variables of \<open>merge\<close>: the block indices \<open>aa\<close> and \<open>bb\<close>, the positions \<open>aaa\<close> and \<open>bbb\<close> in
  the blocks in memory, the two blocks, the block being filled and the headers written so far.
\<close>

record merge_vars =
  aa :: nat
  bb :: nat
  aaa :: nat
  bbb :: nat
  capsuleBlockA :: CapsuleBlock
  capsuleBlockB :: CapsuleBlock
  next_cb :: CapsuleBlock
  out_headers :: "blockHeader list"

definition pair_at :: "CapsuleBlock \<Rightarrow> nat \<Rightarrow> kvs_payload res" where
  "pair_at b i = (if i < length (getKVPairs b) then Inr (getKVPairs b ! i)
     else Inl (Undefined_behaviour ''kvPairs index''))"

text \<open>
  The choice of the next pair: the pair, \<open>advanceA\<close> and \<open>advanceB\<close>. \<open>na\<close> and \<open>nb\<close> are the sizes
  of the two vectors; \<open>aa\<close> never exceeds \<open>na\<close> nor \<open>bb\<close> \<open>nb\<close>, so \<open>na \<le> aa\<close> is the test
  \<open>aa == a.size()\<close> and \<open>aa < na\<close> the test \<open>aa != a.size()\<close> of the loop.
\<close>

definition merge_choose :: "nat \<Rightarrow> nat \<Rightarrow> merge_vars \<Rightarrow> (kvs_payload \<times> bool \<times> bool) res" where
  "merge_choose na nb v =
     (if na \<le> aa v then
        bindr (pair_at (capsuleBlockB v) (bbb v)) (\<lambda>q. Inr (q, False, True))
      else if nb \<le> bb v then
        bindr (pair_at (capsuleBlockA v) (aaa v)) (\<lambda>p. Inr (p, True, False))
      else
        bindr (pair_at (capsuleBlockA v) (aaa v)) (\<lambda>p.
        bindr (pair_at (capsuleBlockB v) (bbb v)) (\<lambda>q.
          if key q < key p then Inr (q, False, True)
          else if key p < key q then Inr (p, True, False)
          else Inr (if sint (txn_timestamp q) \<ge> sint (txn_timestamp p) then q else p,
                    True, True))))"

text \<open>
  Moving one pair forward in one of the vectors: the position in the block, or the first position
  of the next block, which is read in.
\<close>

definition merge_advance :: "'w store_ops \<Rightarrow> blockHeader list \<Rightarrow> nat \<Rightarrow> nat \<Rightarrow> CapsuleBlock \<Rightarrow> 'w \<Rightarrow>
    (nat \<times> nat \<times> CapsuleBlock) res" where
  "merge_advance S hs i j b w =
     (if Suc j = length (getKVPairs b) then
        (if Suc i < length hs
         then bindr (readIn S (hash (hs ! Suc i)) w) (\<lambda>b'. Inr (Suc i, 0, b'))
         else Inr (Suc i, 0, b))
      else Inr (i, Suc j, b))"

text \<open>Writing out the block being filled and appending its header to the output.\<close>

definition write_block :: "'w store_ops \<Rightarrow> CapsuleBlock \<Rightarrow> blockHeader list \<Rightarrow> 'w \<Rightarrow>
    (blockHeader list \<times> 'w) res" where
  "write_block S b out w = bindr (writeOut S b w) (\<lambda>(h, w').
     Inr (out @ [\<lparr>hash = h, minKey = getMinKey b, maxKey = getMaxKey b\<rparr>], w'))"

definition merge_move :: "'w store_ops \<Rightarrow> blockHeader list \<Rightarrow> blockHeader list \<Rightarrow> bool \<Rightarrow> bool \<Rightarrow>
    merge_vars \<Rightarrow> 'w \<Rightarrow> merge_vars res" where
  "merge_move S a b advanceA advanceB v w =
     bindr (if advanceA then merge_advance S a (aa v) (aaa v) (capsuleBlockA v) w
            else Inr (aa v, aaa v, capsuleBlockA v)) (\<lambda>(i, j, blockA).
     bindr (if advanceB then merge_advance S b (bb v) (bbb v) (capsuleBlockB v) w
            else Inr (bb v, bbb v, capsuleBlockB v)) (\<lambda>(k, l, blockB).
     Inr (v\<lparr>aa := i, aaa := j, capsuleBlockA := blockA,
            bb := k, bbb := l, capsuleBlockB := blockB\<rparr>)))"

text \<open>Adding the pair to the block being filled, which is written out when it is full.\<close>

definition merge_add :: "'w store_ops \<Rightarrow> size_t \<Rightarrow> int \<Rightarrow> kvs_payload \<Rightarrow> merge_vars \<Rightarrow> 'w \<Rightarrow>
    (merge_vars \<times> 'w) res" where
  "merge_add S bs next_level nextKVPair v w =
     (let cb = addKVPair nextKVPair (next_cb v) in
      if of_nat (length (getKVPairs cb)) = bs
      then bindr (write_block S cb (out_headers v) w) (\<lambda>(out, w').
           Inr (v\<lparr>next_cb := CapsuleBlock_new next_level, out_headers := out\<rparr>, w'))
      else Inr (v\<lparr>next_cb := cb\<rparr>, w))"

definition merge_step :: "'w store_ops \<Rightarrow> size_t \<Rightarrow> int \<Rightarrow> blockHeader list \<Rightarrow> blockHeader list \<Rightarrow>
    merge_vars \<Rightarrow> 'w \<Rightarrow> (merge_vars \<times> 'w) res" where
  "merge_step S bs next_level a b v w =
     bindr (merge_choose (length a) (length b) v) (\<lambda>(nextKVPair, advanceA, advanceB).
     bindr (merge_move S a b advanceA advanceB v w) (\<lambda>v'.
     merge_add S bs next_level nextKVPair v' w))"

text \<open>
  Every iteration moves forward in a vector or, inside the same pair of blocks, in a block: the
  loop terminates on every input.
\<close>

definition blocks_left :: "nat \<Rightarrow> nat \<Rightarrow> merge_vars \<Rightarrow> nat" where
  "blocks_left na nb v = (na - aa v) + (nb - bb v)"

definition pairs_left :: "merge_vars \<Rightarrow> nat" where
  "pairs_left v = (length (kvPairs (capsuleBlockA v)) - aaa v) +
     (length (kvPairs (capsuleBlockB v)) - bbb v)"

lemma merge_advance_cases:
  assumes "merge_advance S hs i j b w = Inr (i', j', b')" "j < length (kvPairs b)"
  shows "(i' = Suc i \<and> j' = 0 \<and> Suc j = length (kvPairs b)) \<or>
    (i' = i \<and> j' = Suc j \<and> b' = b \<and> Suc j < length (kvPairs b)) \<or>
    (i' = Suc i \<and> j' = 0)"
  using assms by (auto simp: merge_advance_def block_getters bindr_Inr_iff split: if_splits)

lemma merge_choose_cases:
  assumes "merge_choose na nb v = Inr (p, adA, adB)"
  shows "adA \<or> adB" "adA \<Longrightarrow> aa v < na \<and> aaa v < length (kvPairs (capsuleBlockA v))"
    "adB \<Longrightarrow> na \<le> aa v \<or> bb v < nb" "adB \<Longrightarrow> bbb v < length (kvPairs (capsuleBlockB v))"
  using assms
  by (auto simp: merge_choose_def pair_at_def block_getters bindr_Inr_iff split: if_splits)

lemma merge_step_decreases:
  assumes step: "merge_step S bs l a b v w = Inr (v', w')"
    and guard: "aa v < length a \<or> bb v < length b"
  shows "(v', v) \<in> measures [blocks_left (length a) (length b), pairs_left]"
proof -
  from step obtain p adA adB u where
    ch: "merge_choose (length a) (length b) v = Inr (p, adA, adB)" and
    mv: "merge_move S a b adA adB v w = Inr u" and add: "merge_add S bs l p u w = Inr (v', w')"
    by (auto simp: merge_step_def bindr_Inr_iff)
  from mv obtain i j blockA k m blockB where
    A: "(if adA then merge_advance S a (aa v) (aaa v) (capsuleBlockA v) w
      else Inr (aa v, aaa v, capsuleBlockA v)) = Inr (i, j, blockA)" and
    B: "(if adB then merge_advance S b (bb v) (bbb v) (capsuleBlockB v) w
      else Inr (bb v, bbb v, capsuleBlockB v)) = Inr (k, m, blockB)" and
    u: "u = v\<lparr>aa := i, aaa := j, capsuleBlockA := blockA,
      bb := k, bbb := m, capsuleBlockB := blockB\<rparr>"
    by (clarsimp simp: merge_move_def bindr_Inr_iff)
  have v': "aa v' = i" "aaa v' = j" "capsuleBlockA v' = blockA" "bb v' = k" "bbb v' = m"
      "capsuleBlockB v' = blockB"
    using add u by (auto simp: merge_add_def Let_def bindr_Inr_iff split: if_splits)
  note c = merge_choose_cases [OF ch]
  have a': "if adA then i = Suc (aa v) \<or> i = aa v \<and> blockA = capsuleBlockA v \<and> j = Suc (aaa v)
      else i = aa v \<and> blockA = capsuleBlockA v \<and> j = aaa v"
    using A c(2) merge_advance_cases [of S a "aa v" "aaa v" "capsuleBlockA v" w i j blockA]
    by (auto split: if_splits)
  have b': "if adB then k = Suc (bb v) \<or> k = bb v \<and> blockB = capsuleBlockB v \<and> m = Suc (bbb v)
      else k = bb v \<and> blockB = capsuleBlockB v \<and> m = bbb v"
    using B c(4) merge_advance_cases [of S b "bb v" "bbb v" "capsuleBlockB v" w k m blockB]
    by (auto split: if_splits)
  have bn: "adB \<Longrightarrow> bb v < length b" using c(3) guard by auto
  have "blocks_left (length a) (length b) v' < blocks_left (length a) (length b) v \<or>
    blocks_left (length a) (length b) v' = blocks_left (length a) (length b) v \<and>
    pairs_left v' < pairs_left v"
  proof (cases "i = Suc (aa v) \<or> k = Suc (bb v)")
    case True
    then have "i = Suc (aa v) \<and> aa v < length a \<or> k = Suc (bb v) \<and> bb v < length b"
      using a' b' c(2) bn by (metis n_not_Suc_n)
    moreover have "aa v \<le> i" "bb v \<le> k" using a' b' by (auto split: if_splits)
    ultimately show ?thesis unfolding blocks_left_def v' by linarith
  next
    case False
    then have "i = aa v" "blockA = capsuleBlockA v" "k = bb v" "blockB = capsuleBlockB v"
      "j = (if adA then Suc (aaa v) else aaa v)" "m = (if adB then Suc (bbb v) else bbb v)"
      using a' b' by (auto split: if_splits)
    then show ?thesis
      using c(1,2,4) unfolding blocks_left_def pairs_left_def v' by (cases adA; cases adB) auto
  qed
  then show ?thesis by auto
qed

function merge_loop :: "'w store_ops \<Rightarrow> size_t \<Rightarrow> int \<Rightarrow> blockHeader list \<Rightarrow> blockHeader list \<Rightarrow>
    merge_vars \<Rightarrow> 'w \<Rightarrow> (merge_vars \<times> 'w) res" where
  "merge_loop S bs next_level a b v w =
     (if aa v < length a \<or> bb v < length b
      then bindr (merge_step S bs next_level a b v w) (\<lambda>(v', w').
             merge_loop S bs next_level a b v' w')
      else Inr (v, w))"
  by pat_completeness auto
termination
  by (relation "inv_image (measures [\<lambda>(a, b, v). blocks_left (length a) (length b) v,
        \<lambda>(a, b, v). pairs_left v]) (\<lambda>(S, bs, l, a, b, v, w). (a, b, v))")
    (auto dest: merge_step_decreases)

declare merge_loop.simps [simp del]

definition merge :: "'w store_ops \<Rightarrow> size_t \<Rightarrow> blockHeader list \<Rightarrow> blockHeader list \<Rightarrow> int \<Rightarrow> 'w \<Rightarrow>
    (blockHeader list \<times> 'w) res" where
  "merge S bs a b next_level w =
     (if a = [] then Inl (Undefined_behaviour ''a index'')
      else
        bindr (readIn S (hash (a ! 0)) w) (\<lambda>blockA.
        bindr (if b = [] then Inr (CapsuleBlock_default 0) else readIn S (hash (b ! 0)) w)
          (\<lambda>blockB.
        bindr (merge_loop S bs next_level a b
          \<lparr>aa = 0, bb = 0, aaa = 0, bbb = 0, capsuleBlockA = blockA, capsuleBlockB = blockB,
           next_cb = CapsuleBlock_new next_level, out_headers = []\<rparr> w) (\<lambda>(v, w').
        if getKVPairs (next_cb v) \<noteq> []
        then write_block S (next_cb v) (out_headers v) w'
        else Inr (out_headers v, w')))))"


section \<open>Compaction\<close>

text \<open>
  \<open>sortL0\<close> sorts the records of each block of level 0 and writes it out again; the header keeps
  its bounds and gets the new hash.
\<close>

fun sort_blocks :: "'w store_ops \<Rightarrow> blockHeader list \<Rightarrow> 'w \<Rightarrow> (blockHeader list \<times> 'w) res" where
  "sort_blocks S [] w = Inr ([], w)"
| "sort_blocks S (h # hs) w =
     bindr (readIn S (hash h) w) (\<lambda>b.
     bindr (writeOut S (b\<lparr>kvPairs := std_sort comparePayloads (kvPairs b)\<rparr>) w) (\<lambda>(g, w').
     bindr (sort_blocks S hs w') (\<lambda>(hs', w'').
     Inr (h\<lparr>hash := g\<rparr> # hs', w''))))"

definition sortL0 :: "'w store_ops \<Rightarrow> CapsuleIndex \<Rightarrow> 'w \<Rightarrow> (CapsuleIndex \<times> 'w) res" where
  "sortL0 S ix w =
     bindr (level_at ix 0) (\<lambda>L.
     bindr (sort_blocks S (recordHashes L) w) (\<lambda>(hs, w').
     Inr (ix\<lparr>levels := (levels ix)[0 := L\<lparr>recordHashes := hs\<rparr>]\<rparr>, w')))"

text \<open>
  The selection of the blocks to push down in \<open>compactHelper\<close>. The lists are the parts of
  \<open>sourceVec\<close> and of the destination's \<open>recordHashes\<close> that \<open>sourceInd\<close> and \<open>destInd\<close> have not
  passed; \<open>new\<close> is \<open>newSourceVec\<close> and \<open>rem\<close> is \<open>remainingBlocks\<close>. \<open>push_below\<close> is the inner loop,
  and the first equation of \<open>affected_blocks\<close> includes the loop after the main one.
\<close>

fun push_below :: "string \<Rightarrow> blockHeader list \<Rightarrow> blockHeader list \<Rightarrow> blockHeader list \<times> blockHeader list" where
  "push_below mx [] new = ([], new)"
| "push_below mx (d # ds) new =
     (if mx > maxKey d then push_below mx ds (new @ [d]) else (d # ds, new))"

lemma push_below_length: "length (fst (push_below mx ds new)) \<le> length ds"
  by (induction mx ds new rule: push_below.induct) auto

function affected_blocks :: "blockHeader list \<Rightarrow> blockHeader list \<Rightarrow> blockHeader list \<Rightarrow>
    blockHeader list \<Rightarrow> blockHeader list \<times> blockHeader list" where
  "affected_blocks [] ds new rem = (new, rem @ ds)"
| "affected_blocks (s # ss) [] new rem = (new, rem)"
| "affected_blocks (s # ss) (d # ds) new rem =
     (if minKey s > minKey d \<and> minKey s > maxKey d
      then affected_blocks ss (fst (push_below (maxKey s) (d # ds) new))
             (snd (push_below (maxKey s) (d # ds) new)) rem
      else affected_blocks (s # ss) ds new (rem @ [d]))"
  by pat_completeness auto
termination
  by (relation "measure (\<lambda>(ss, ds, new, rem). length ss + length ds)")
    (auto simp: less_Suc_eq_le intro: push_below_length order.trans [OF push_below_length])

text \<open>
  \<open>std::next(remainingBlocks.begin(), k)\<close> past the end of the vector is undefined behaviour.
\<close>

definition select_more :: "nat \<Rightarrow> blockHeader list \<Rightarrow> blockHeader list \<Rightarrow>
    (blockHeader list \<times> blockHeader list) res" where
  "select_more n new rem =
     (if length new < n then
        (if n - length new \<le> length rem
         then Inr (std_sort compareHeaders (new @ take (n - length new) rem),
                   drop (n - length new) rem)
         else Inl (Undefined_behaviour ''remainingBlocks iterator''))
      else Inr (new, rem))"

text \<open>Replacing the blocks of a level, with the two branches for an empty and a non-empty vector.\<close>

definition set_blocks :: "blockHeader list \<Rightarrow> Level \<Rightarrow> Level" where
  "set_blocks hs L =
     (if length hs = 0
      then L\<lparr>recordHashes := [], numBlocks := 0, min_key := '''', max_key := ''''\<rparr>
      else L\<lparr>recordHashes := hs, numBlocks := size_to_int (of_nat (length hs)),
             min_key := minKey (hs ! 0), max_key := maxKey (hs ! (length hs - 1))\<rparr>)"

definition set_level_blocks :: "nat \<Rightarrow> blockHeader list \<Rightarrow> CapsuleIndex \<Rightarrow> CapsuleIndex" where
  "set_level_blocks d hs ix = ix\<lparr>levels := (levels ix)[d := set_blocks hs (levels ix ! d)]\<rparr>"

definition level_overflows :: "CapsuleIndex \<Rightarrow> blockHeader list \<Rightarrow> Level \<Rightarrow> bool" where
  "level_overflows ix src L \<longleftrightarrow>
     blocksize ix * of_nat (length src) + blocksize ix * of_nat (length (recordHashes L))
       \<ge> of_int (maxSize L)"

definition ensure_next_level :: "CapsuleIndex \<Rightarrow> Level \<Rightarrow> CapsuleIndex res" where
  "ensure_next_level ix L =
     bindr (checked_int (index L + 1)) (\<lambda>i.
     if i \<ge> numLevels ix
     then bindr (checked_int (maxSize L * 10)) (\<lambda>sz.
          bindr (addLevel sz ix) (\<lambda>(_, ix'). Inr ix'))
     else Inr ix)"

text \<open>
  \<open>compactHelper\<close> calls itself on the level below, which \<open>ensure_next_level\<close> has created if it did
  not exist. The first argument after \<open>S\<close> is fuel for that recursion; \<open>compact\<close> gives one unit
  more than there can be levels, and theory IndexCompact proves that it is never used up.
\<close>

fun compactHelper :: "'w store_ops \<Rightarrow> nat \<Rightarrow> CapsuleIndex \<Rightarrow> blockHeader list \<Rightarrow> nat \<Rightarrow> 'w \<Rightarrow>
    (CapsuleIndex \<times> 'w) res" where
  "compactHelper S 0 ix sourceVec d w = Inl Out_of_fuel"
| "compactHelper S (Suc fuel) ix sourceVec d w =
     bindr (level_at ix d) (\<lambda>L.
     bindr (if level_overflows ix sourceVec L
            then
              bindr (ensure_next_level ix L) (\<lambda>ix1.
              bindr (case affected_blocks sourceVec (recordHashes L) [] [] of
                       (new, rem) \<Rightarrow> select_more (length sourceVec) new rem) (\<lambda>(new, rem).
              bindr (compactHelper S fuel ix1 new (Suc d) w) (\<lambda>(ix2, w2).
              Inr (set_level_blocks d rem ix2, w2))))
            else Inr (ix, w)) (\<lambda>(ix3, w3).
     bindr (merge S (blocksize ix3) sourceVec (recordHashes (levels ix3 ! d)) (int d) w3)
       (\<lambda>(newVec, w4).
     Inr (set_level_blocks d newVec ix3, w4))))"

text \<open>The loop of \<open>compact\<close> that merges the blocks of level 0 into one sorted vector.\<close>

fun merge_each :: "'w store_ops \<Rightarrow> size_t \<Rightarrow> blockHeader list \<Rightarrow> blockHeader list \<Rightarrow> 'w \<Rightarrow>
    (blockHeader list \<times> 'w) res" where
  "merge_each S bs acc [] w = Inr (acc, w)"
| "merge_each S bs acc (h # hs) w =
     bindr (merge S bs acc [h] 0 w) (\<lambda>(acc', w'). merge_each S bs acc' hs w')"

definition compact :: "'w store_ops \<Rightarrow> CapsuleIndex \<Rightarrow> 'w \<Rightarrow> (CapsuleIndex \<times> 'w) res" where
  "compact S ix w =
     bindr (level_at ix 0) (\<lambda>L.
     if blocksize ix * of_int (numBlocks L) < of_int (maxSize L) then Inr (ix, w)
     else
       bindr (sortL0 S ix w) (\<lambda>(ix1, w1).
       bindr (case recordHashes (levels ix1 ! 0) of
                [] \<Rightarrow> Inl (Undefined_behaviour ''recordHashes index'')
              | h # hs \<Rightarrow> merge_each S (blocksize ix1) [h] hs w1) (\<lambda>(sortedLv0, w2).
       bindr (if numLevels ix1 = 1
              then bindr (checked_int (10 * maxSize L)) (\<lambda>sz.
                   bindr (addLevel sz ix1) (\<lambda>(_, ix'). Inr ix'))
              else Inr ix1) (\<lambda>ix2.
       bindr (compactHelper S (length (levels ix2) + 2) ix2 sortedLv0 1 w2) (\<lambda>(ix3, w3).
       Inr (set_level_blocks 0 [] ix3, w3))))))"

text \<open>\<open>add_hash\<close> returns the status of \<open>addBlock\<close>; the result of \<open>compact\<close> is dropped.\<close>

definition add_hash :: "'w store_ops \<Rightarrow> int \<Rightarrow> string \<Rightarrow> CapsuleBlock \<Rightarrow> CapsuleIndex \<Rightarrow> 'w \<Rightarrow>
    (int \<times> CapsuleIndex \<times> 'w) res" where
  "add_hash S l h b ix w =
     (if l < 0 \<or> l \<ge> numLevels ix then Inr (- 1, ix, w)
      else
        bindr (level_at ix (nat l)) (\<lambda>L.
        bindr (addBlock b h L) (\<lambda>(status, L').
        bindr (compact S (ix\<lparr>levels := (levels ix)[nat l := L']\<rparr>) w) (\<lambda>(ix', w').
        Inr (status, ix', w')))))"

end
