(* ===== verification/IndexMerge.thy ===== *)
theory IndexMerge
  imports Index
begin

text \<open>
  Correctness of \<open>CapsuleIndex::merge\<close>: on two good vectors of headers it terminates without an
  error and writes out exactly \<^const>\<open>merge_kv\<close> of their records, cut into full blocks. The lemmas
  hold for every store that satisfies the contract of theory BlockStore.
\<close>

section \<open>One side of the merge\<close>

text \<open>The records of a vector that the loop has not passed, and when its variables are in order.\<close>

definition rest :: "'w store_ops \<Rightarrow> 'w \<Rightarrow> blockHeader list \<Rightarrow> nat \<Rightarrow> nat \<Rightarrow> CapsuleBlock \<Rightarrow>
    kvs_payload list" where
  "rest S w hs i j b =
     (if i < length hs then drop j (kvPairs b) @ entries S w (drop (Suc i) hs) else [])"

definition side_ok :: "'w store_ops \<Rightarrow> 'w \<Rightarrow> nat \<Rightarrow> blockHeader list \<Rightarrow> nat \<Rightarrow> nat \<Rightarrow>
    CapsuleBlock \<Rightarrow> bool" where
  "side_ok S w n hs i j b \<longleftrightarrow> run_ok S w n hs \<and>
     (i < length hs \<longrightarrow> kvPairs b = block_at S w (hs ! i) \<and> j < length (kvPairs b))"

lemma rest_unfold:
  assumes "side_ok S w n hs i j b" "i < length hs"
  shows "rest S w hs i j b = kvPairs b ! j # drop (Suc j) (kvPairs b) @ entries S w (drop (Suc i) hs)"
  using assms by (auto simp: rest_def side_ok_def Cons_nth_drop_Suc)

lemma rest_Nil_iff:
  assumes "side_ok S w n hs i j b"
  shows "rest S w hs i j b = [] \<longleftrightarrow> length hs \<le> i"
  using rest_unfold [OF assms] by (cases "i < length hs") (auto simp: rest_def)

lemma run_ok_nth:
  assumes "run_ok S w n hs" "i < length hs"
  shows "header_ok S w n (hs ! i)"
  using assms by (simp add: run_ok_def)

lemma merge_advance_ok:
  assumes side: "side_ok S w n hs i j b" and i: "i < length hs"
  obtains i' j' b' where "merge_advance S hs i j b w = Inr (i', j', b')"
    "side_ok S w n hs i' j' b'" "rest S w hs i' j' b' = tl (rest S w hs i j b)"
proof (cases "Suc j = length (kvPairs b)")
  case False
  then have "side_ok S w n hs i (Suc j) b" using side i by (auto simp: side_ok_def)
  moreover have "rest S w hs i (Suc j) b = tl (rest S w hs i j b)"
    using rest_unfold [OF side i] i by (simp add: rest_def)
  ultimately show thesis using that [of i "Suc j" b] False by (simp add: merge_advance_def block_getters)
next
  case last: True
  show thesis
  proof (cases "Suc i < length hs")
    case True
    have "header_ok S w n (hs ! Suc i)" using side True by (auto simp: side_ok_def run_ok_nth)
    then obtain b' where b': "readIn S (hash (hs ! Suc i)) w = Inr b'"
        "block_at S w (hs ! Suc i) = kvPairs b'" "kvPairs b' \<noteq> []"
      by (auto elim: header_ok_read)
    have "side_ok S w n hs (Suc i) 0 b'" using side b' by (auto simp: side_ok_def)
    moreover have "rest S w hs (Suc i) 0 b' = tl (rest S w hs i j b)"
      using rest_unfold [OF side i] last True b'
      by (simp add: rest_def flip: Cons_nth_drop_Suc [of "Suc i"])
    ultimately show thesis using that [of "Suc i" 0 b'] last True b'
      by (simp add: merge_advance_def block_getters)
  next
    case False
    then have "side_ok S w n hs (Suc i) 0 b" using side by (auto simp: side_ok_def)
    moreover have "rest S w hs (Suc i) 0 b = tl (rest S w hs i j b)"
      using rest_unfold [OF side i] last False by (simp add: rest_def)
    ultimately show thesis using that [of "Suc i" 0 b] last False
      by (simp add: merge_advance_def block_getters)
  qed
qed

lemma side_ok_extends:
  assumes "side_ok S w n hs i j b" "extends S w w'"
  shows "side_ok S w' n hs i j b" "rest S w' hs i j b = rest S w hs i j b"
proof -
  have run: "run_ok S w n hs" using assms by (simp add: side_ok_def)
  have blk: "i < length hs \<Longrightarrow> block_at S w' (hs ! i) = block_at S w (hs ! i)"
    using header_ok_extends(2) [OF run_ok_nth [OF run] assms(2)] by simp
  show "side_ok S w' n hs i j b"
    using assms(1) blk run_ok_extends(1) [OF run assms(2)] by (auto simp: side_ok_def)
  have "entries S w' (drop (Suc i) hs) = entries S w (drop (Suc i) hs)"
    using run assms(2) by (intro entries_extends) (auto simp: run_ok_def dest: in_set_dropD)
  then show "rest S w' hs i j b = rest S w hs i j b" by (simp add: rest_def)
qed

section \<open>The choice of the next record\<close>

definition sides_ok :: "'w store_ops \<Rightarrow> 'w \<Rightarrow> nat \<Rightarrow> blockHeader list \<Rightarrow> blockHeader list \<Rightarrow>
    merge_vars \<Rightarrow> bool" where
  "sides_ok S w n a b v \<longleftrightarrow> side_ok S w n a (aa v) (aaa v) (capsuleBlockA v) \<and>
     side_ok S w n b (bb v) (bbb v) (capsuleBlockB v)"

definition rest_a :: "'w store_ops \<Rightarrow> 'w \<Rightarrow> blockHeader list \<Rightarrow> merge_vars \<Rightarrow> kvs_payload list" where
  "rest_a S w a v = rest S w a (aa v) (aaa v) (capsuleBlockA v)"

definition rest_b :: "'w store_ops \<Rightarrow> 'w \<Rightarrow> blockHeader list \<Rightarrow> merge_vars \<Rightarrow> kvs_payload list" where
  "rest_b S w b v = rest S w b (bb v) (bbb v) (capsuleBlockB v)"

lemma merge_choose_ok:
  assumes ok: "sides_ok S w n a b v" and guard: "aa v < length a \<or> bb v < length b"
  obtains p adA adB where "merge_choose (length a) (length b) v = Inr (p, adA, adB)"
    "adA \<Longrightarrow> aa v < length a" "adB \<Longrightarrow> bb v < length b"
    "merge_kv (rest_a S w a v) (rest_b S w b v) =
       p # merge_kv (if adA then tl (rest_a S w a v) else rest_a S w a v)
                    (if adB then tl (rest_b S w b v) else rest_b S w b v)"
proof -
  let ?A = "capsuleBlockA v" and ?B = "capsuleBlockB v"
  have A: "side_ok S w n a (aa v) (aaa v) ?A" and B: "side_ok S w n b (bb v) (bbb v) ?B"
    using ok by (simp_all add: sides_ok_def)
  have pA: "pair_at ?A (aaa v) = Inr (kvPairs ?A ! aaa v)"
    "rest_a S w a v = kvPairs ?A ! aaa v # tl (rest_a S w a v)" if "aa v < length a"
    using A rest_unfold [OF A that] that
    by (auto simp: side_ok_def pair_at_def block_getters rest_a_def)
  have pB: "pair_at ?B (bbb v) = Inr (kvPairs ?B ! bbb v)"
    "rest_b S w b v = kvPairs ?B ! bbb v # tl (rest_b S w b v)" if "bb v < length b"
    using B rest_unfold [OF B that] that
    by (auto simp: side_ok_def pair_at_def block_getters rest_b_def)
  have nA: "rest_a S w a v = []" if "\<not> aa v < length a" using that by (simp add: rest_a_def rest_def)
  have nB: "rest_b S w b v = []" if "\<not> bb v < length b" using that by (simp add: rest_b_def rest_def)
  consider "\<not> aa v < length a" "bb v < length b" | "aa v < length a" "\<not> bb v < length b"
    | "aa v < length a" "bb v < length b" using guard by blast
  then show thesis
  proof cases
    case 1
    then show thesis using that [of "kvPairs ?B ! bbb v" False True] pB nA
      by (simp add: merge_choose_def not_less)
  next
    case 2
    then show thesis using that [of "kvPairs ?A ! aaa v" True False] pA nB
      by (simp add: merge_choose_def not_less)
  next
    case 3
    define p q ps qs where "p = kvPairs ?A ! aaa v" and "q = kvPairs ?B ! bbb v"
      and "ps = tl (rest_a S w a v)" and "qs = tl (rest_b S w b v)"
    note d = this
    have r: "rest_a S w a v = p # ps" "rest_b S w b v = q # qs" using pA(2) pB(2) 3 d by auto
    have ch: "merge_choose (length a) (length b) v =
      (if key q < key p then Inr (q, False, True) else if key p < key q then Inr (p, True, False)
       else Inr (newest p q, True, True))"
      using 3 pA(1) pB(1) d by (simp add: merge_choose_def newest_def)
    consider "key q < key p" | "key p < key q" | "key p = key q" by fastforce
    then show thesis
    proof cases
      case 1
      then show thesis using that [of q False True] ch r 3 by simp
    next
      case 2
      then show thesis using that [of p True False] ch r 3 by (simp add: less_not_sym)
    next
      case eq: 3
      then show thesis using that [of "newest p q" True True] ch r 3 by simp
    qed
  qed
qed


lemma merge_move_ok:
  assumes ok: "sides_ok S w n a b v" and "adA \<Longrightarrow> aa v < length a" and "adB \<Longrightarrow> bb v < length b"
  obtains v' where "merge_move S a b adA adB v w = Inr v'" "sides_ok S w n a b v'"
    "rest_a S w a v' = (if adA then tl (rest_a S w a v) else rest_a S w a v)"
    "rest_b S w b v' = (if adB then tl (rest_b S w b v) else rest_b S w b v)"
    "next_cb v' = next_cb v" "out_headers v' = out_headers v"
proof -
  have A: "side_ok S w n a (aa v) (aaa v) (capsuleBlockA v)"
    and B: "side_ok S w n b (bb v) (bbb v) (capsuleBlockB v)"
    using ok by (simp_all add: sides_ok_def)
  obtain i j blkA where a: "(if adA then merge_advance S a (aa v) (aaa v) (capsuleBlockA v) w
      else Inr (aa v, aaa v, capsuleBlockA v)) = Inr (i, j, blkA)"
    "side_ok S w n a i j blkA"
    "rest S w a i j blkA = (if adA then tl (rest_a S w a v) else rest_a S w a v)"
  proof (cases adA)
    case True
    then show thesis using merge_advance_ok [OF A assms(2) [OF True]] that by (auto simp: rest_a_def)
  qed (use A that in \<open>simp add: rest_a_def\<close>)
  obtain k l blkB where b: "(if adB then merge_advance S b (bb v) (bbb v) (capsuleBlockB v) w
      else Inr (bb v, bbb v, capsuleBlockB v)) = Inr (k, l, blkB)"
    "side_ok S w n b k l blkB"
    "rest S w b k l blkB = (if adB then tl (rest_b S w b v) else rest_b S w b v)"
  proof (cases adB)
    case True
    then show thesis using merge_advance_ok [OF B assms(3) [OF True]] that by (auto simp: rest_b_def)
  qed (use B that in \<open>simp add: rest_b_def\<close>)
  show thesis
    by (rule that [of "v\<lparr>aa := i, aaa := j, capsuleBlockA := blkA,
        bb := k, bbb := l, capsuleBlockB := blkB\<rparr>"])
      (use a b in \<open>simp_all add: merge_move_def sides_ok_def rest_a_def rest_b_def\<close>)
qed

section \<open>The loop\<close>

text \<open>
  The invariant of the loop, for the records \<open>E\<close> that the whole merge must produce: the headers
  written so far are full blocks, and their records, the records in the block being filled and
  the merge of what is left make \<open>E\<close>.
\<close>

definition merge_inv :: "'w store_ops \<Rightarrow> 'w \<Rightarrow> nat \<Rightarrow> int \<Rightarrow> blockHeader list \<Rightarrow> blockHeader list \<Rightarrow>
    kvs_payload list \<Rightarrow> merge_vars \<Rightarrow> bool" where
  "merge_inv S w n l a b E v \<longleftrightarrow> sides_ok S w n a b v \<and> run_ok S w n (out_headers v) \<and>
     length (entries S w (out_headers v)) = n * length (out_headers v) \<and>
     length (kvPairs (next_cb v)) < n \<and>
     next_cb v = addKVPairs (kvPairs (next_cb v)) (CapsuleBlock_new l) \<and> is_run E \<and>
     E = entries S w (out_headers v) @ kvPairs (next_cb v) @ merge_kv (rest_a S w a v) (rest_b S w b v)"

context block_store
begin

lemma write_block_ok:
  assumes "inv w" "0 < room w" "run_ok S w n out" "is_run ps" "ps \<noteq> []" "length ps \<le> n"
    "int_range l" "b = addKVPairs ps (CapsuleBlock_new l)"
    "\<forall>p \<in> set (entries S w out). \<forall>q \<in> set ps. key p < key q"
  obtains out' w' where "write_block S b out w = Inr (out', w')" "inv w'" "Suc (room w') = room w"
    "extends S w w'" "run_ok S w' n out'" "entries S w' out' = entries S w out @ ps"
    "length out' = Suc (length out)"
proof -
  have b: "b = \<lparr>level = l, startKey = key (hd ps), endKey = key (last ps), kvPairs = ps\<rparr>"
    using assms(4,5,8) by (simp add: addKVPairs_run)
  obtain h w' where w': "writeOut S b w = Inr (h, w')" "inv w'" "Suc (room w') = room w"
      "extends S w w'" "run_ok S w' n [\<lparr>hash = h, minKey = startKey b, maxKey = endKey b\<rparr>]"
      "entries S w' [\<lparr>hash = h, minKey = startKey b, maxKey = endKey b\<rparr>] = ps"
    using writeOut_run [OF assms(1,2,4,5,6,7) b] by blast
  note out = run_ok_extends [OF assms(3) w'(4)]
  show thesis
    by (rule that [of "out @ [\<lparr>hash = h, minKey = startKey b, maxKey = endKey b\<rparr>]" w'])
      (use w' out assms(9) in \<open>simp_all add: write_block_def block_getters run_ok_simps(3)\<close>)
qed

lemma merge_add_ok:
  assumes inv: "inv w" and sides: "sides_ok S w n a b v" and out: "run_ok S w n (out_headers v)"
    and full: "length (entries S w (out_headers v)) = n * length (out_headers v)"
    and cb: "length (kvPairs (next_cb v)) < n"
      "next_cb v = addKVPairs (kvPairs (next_cb v)) (CapsuleBlock_new l)"
    and E: "is_run E" "E = entries S w (out_headers v) @ kvPairs (next_cb v) @
      p # merge_kv (rest_a S w a v) (rest_b S w b v)"
    and n: "n = unat bs" and l: "int_range l" and room: "length E \<le> n * (room w + length (out_headers v))"
  obtains v' w' where "merge_add S bs l p v w = Inr (v', w')" "merge_inv S w' n l a b E v'"
    "inv w'" "extends S w w'" "room w' + length (out_headers v') = room w + length (out_headers v)"
proof -
  let ?ps = "kvPairs (next_cb v) @ [p]" and ?out = "out_headers v"
  let ?cb = "addKVPair p (next_cb v)"
  have cb': "?cb = addKVPairs ?ps (CapsuleBlock_new l)"
    using cb(2) by (simp add: addKVPairs_append del: addKVPairs_fields)
  have run: "is_run ?ps" and lt: "\<forall>p \<in> set (entries S w ?out). \<forall>q \<in> set ?ps. key p < key q"
    using E by (auto simp: is_run_simps)
  have le: "length ?ps \<le> n" using cb(1) by simp
  have test: "of_nat (length (getKVPairs ?cb)) = bs \<longleftrightarrow> length ?ps = n"
    using of_nat_size_eq_iff [of "length ?ps" bs] le n by (simp add: getKVPairs_def)
  show thesis
  proof (cases "length ?ps = n")
    case True
    have "n * length ?out + n \<le> length E" using E(2) full True by simp
    with room have "n * (Suc (length ?out)) \<le> n * (room w + length ?out)" by simp
    moreover have "0 < n" using True by auto
    ultimately have "Suc (length ?out) \<le> room w + length ?out" by (metis mult_le_cancel1)
    then have "0 < room w" by simp
    then obtain out' w' where o: "write_block S ?cb ?out w = Inr (out', w')" "inv w'"
        "Suc (room w') = room w" "extends S w w'" "run_ok S w' n out'"
        "entries S w' out' = entries S w ?out @ ?ps" "length out' = Suc (length ?out)"
      using write_block_ok [OF inv _ out run _ le l cb' lt] by blast
    let ?v' = "v\<lparr>next_cb := CapsuleBlock_new l, out_headers := out'\<rparr>"
    have "merge_inv S w' n l a b E ?v'"
      using o sides E full True \<open>0 < n\<close>
      by (auto simp: merge_inv_def sides_ok_def rest_a_def rest_b_def CapsuleBlock_new_def
          side_ok_extends [OF _ o(4)])
    with o True test that [of ?v' w'] show thesis by (simp add: merge_add_def)
  next
    case False
    let ?v' = "v\<lparr>next_cb := ?cb\<rparr>"
    have "merge_inv S w n l a b E ?v'"
      using sides E full False le cb' out
      by (auto simp: merge_inv_def sides_ok_def rest_a_def rest_b_def)
    with False test inv that [of ?v' w] show thesis by (simp add: merge_add_def)
  qed
qed

end


context block_store
begin

lemma merge_loop_ok:
  assumes "inv w" "merge_inv S w n l a b E v" "n = unat bs" "int_range l"
    "length E \<le> n * (room w + length (out_headers v))"
  shows "\<exists>v' w'. merge_loop S bs l a b v w = Inr (v', w') \<and> merge_inv S w' n l a b E v' \<and>
    length a \<le> aa v' \<and> length b \<le> bb v' \<and> inv w' \<and> extends S w w' \<and>
    room w' + length (out_headers v') = room w + length (out_headers v)"
  using assms
proof (induction v arbitrary: w rule: wf_induct_rule
    [OF wf_measures [of "[blocks_left (length a) (length b), pairs_left]"]])
  case (1 v)
  note IH = "1.IH" and inv = "1.prems"(1) and m = "1.prems"(2) and n = "1.prems"(3)
    and l = "1.prems"(4) and room = "1.prems"(5)
  show ?case
  proof (cases "aa v < length a \<or> bb v < length b")
    case False
    then show ?thesis using 1 by (subst merge_loop.simps) simp
  next
    case True
    have sides: "sides_ok S w n a b v" using m by (simp add: merge_inv_def)
    obtain p adA adB where ch: "merge_choose (length a) (length b) v = Inr (p, adA, adB)"
      "adA \<Longrightarrow> aa v < length a" "adB \<Longrightarrow> bb v < length b"
      "merge_kv (rest_a S w a v) (rest_b S w b v) =
         p # merge_kv (if adA then tl (rest_a S w a v) else rest_a S w a v)
                      (if adB then tl (rest_b S w b v) else rest_b S w b v)"
      using merge_choose_ok [OF sides True] by blast
    obtain u where u: "merge_move S a b adA adB v w = Inr u" "sides_ok S w n a b u"
      "rest_a S w a u = (if adA then tl (rest_a S w a v) else rest_a S w a v)"
      "rest_b S w b u = (if adB then tl (rest_b S w b v) else rest_b S w b v)"
      "next_cb u = next_cb v" "out_headers u = out_headers v"
      using merge_move_ok [OF sides ch(2,3)] by blast
    have hyps: "run_ok S w n (out_headers u)"
      "length (entries S w (out_headers u)) = n * length (out_headers u)"
      "length (kvPairs (next_cb u)) < n"
      "next_cb u = addKVPairs (kvPairs (next_cb u)) (CapsuleBlock_new l)" "is_run E"
      using m unfolding merge_inv_def u(5,6) by blast+
    have E: "E = entries S w (out_headers u) @ kvPairs (next_cb u) @
        p # merge_kv (rest_a S w a u) (rest_b S w b u)"
      using m unfolding merge_inv_def u(3-6) ch(4) [symmetric] by blast
    obtain v' w' where v': "merge_add S bs l p u w = Inr (v', w')"
        "merge_inv S w' n l a b E v'" "inv w'" "extends S w w'"
        "room w' + length (out_headers v') = room w + length (out_headers v)"
      using merge_add_ok [OF inv u(2) hyps E n l room [folded u(6)]] unfolding u(6) by blast
    have step: "merge_step S bs l a b v w = Inr (v', w')"
      using ch u v' by (simp add: merge_step_def)
    have "length E \<le> n * (room w' + length (out_headers v'))" using room v'(5) by simp
    with IH [OF merge_step_decreases [OF step True] v'(3,2) n l] obtain v'' w'' where
      "merge_loop S bs l a b v' w' = Inr (v'', w'')" "merge_inv S w'' n l a b E v''"
      "length a \<le> aa v''" "length b \<le> bb v''" "inv w''" "extends S w' w''"
      "room w'' + length (out_headers v'') = room w' + length (out_headers v')"
      by blast
    then show ?thesis using True step v'(4,5) extends_trans
      by (subst merge_loop.simps) auto
  qed
qed

text \<open>
  \<open>merge\<close> as a whole: it succeeds while the store has room for the blocks of both sides, writes no
  more blocks than it read, and the blocks it writes hold exactly the merged records.
\<close>

lemma merge_ok:
  assumes inv: "inv w" and a: "run_ok S w n a" and b: "run_ok S w n b" and ne: "a \<noteq> []"
    and n: "n = unat bs" "0 < n" and l: "int_range l" and room: "length a + length b \<le> room w"
  obtains hs w' where "merge S bs a b l w = Inr (hs, w')" "inv w'" "extends S w w'"
    "run_ok S w' n hs" "entries S w' hs = merge_kv (entries S w a) (entries S w b)"
    "length hs \<le> length a + length b" "room w' + length hs = room w"
proof -
  let ?E = "merge_kv (entries S w a) (entries S w b)"
  have E: "is_run ?E" using a b by (simp add: run_ok_def is_run_merge_kv)
  have lenE: "length ?E \<le> n * (length a + length b)"
    using length_merge_kv [of "entries S w a" "entries S w b"] length_entries_le [OF a]
      length_entries_le [OF b] by (simp add: distrib_left)
  obtain blkA where A: "readIn S (hash (a ! 0)) w = Inr blkA" "side_ok S w n a 0 0 blkA"
      "rest S w a 0 0 blkA = entries S w a"
  proof -
    obtain h hs where h: "a = h # hs" using ne by (cases a) auto
    then have "header_ok S w n h" using a by (simp add: run_simps)
    then show thesis using that a h by (auto simp: side_ok_def rest_def elim!: header_ok_read)
  qed
  obtain blkB where B: "(if b = [] then Inr (CapsuleBlock_default 0)
        else readIn S (hash (b ! 0)) w) = Inr blkB" "side_ok S w n b 0 0 blkB"
      "rest S w b 0 0 blkB = entries S w b"
  proof (cases b)
    case Nil
    then show thesis using that b by (simp add: side_ok_def rest_def)
  next
    case (Cons h hs)
    then have "header_ok S w n h" using b by (simp add: run_simps)
    then show thesis using that b Cons by (auto simp: side_ok_def rest_def elim!: header_ok_read)
  qed
  let ?v = "\<lparr>aa = 0, bb = 0, aaa = 0, bbb = 0, capsuleBlockA = blkA, capsuleBlockB = blkB,
    next_cb = CapsuleBlock_new l, out_headers = []\<rparr>"
  have "merge_inv S w n l a b ?E ?v"
    using A B E n by (simp add: merge_inv_def sides_ok_def rest_a_def rest_b_def run_simps)
  moreover have "length ?E \<le> n * (room w + length (out_headers ?v))"
    using le_trans [OF lenE mult_le_mono2 [OF room, of n]] by simp
  ultimately obtain v w1 where v: "merge_loop S bs l a b ?v w = Inr (v, w1)"
      "merge_inv S w1 n l a b ?E v" "length a \<le> aa v" "length b \<le> bb v" "inv w1"
      "extends S w w1" "room w1 + length (out_headers v) = room w"
    using merge_loop_ok [OF inv _ n(1) l, of a b ?E ?v] by auto
  let ?ps = "kvPairs (next_cb v)" and ?out = "out_headers v"
  have fin: "?E = entries S w1 ?out @ ?ps" "run_ok S w1 n ?out" "length ?ps < n"
      "length (entries S w1 ?out) = n * length ?out"
      "next_cb v = addKVPairs ?ps (CapsuleBlock_new l)"
    using v by (simp_all add: merge_inv_def rest_a_def rest_b_def rest_def)
  have small: "length hs \<le> length a + length b" if "n * length hs < n + length ?E" for hs :: "blockHeader list"
  proof -
    have "n * length hs < n * Suc (length a + length b)" using that lenE by simp
    then show ?thesis by (metis less_Suc_eq_le mult_less_cancel1)
  qed
  show thesis
  proof (cases "?ps = []")
    case True
    then show thesis using that [of ?out w1] v A B fin ne n small [of ?out]
      by (simp add: merge_def getKVPairs_def)
  next
    case False
    have "n * length ?out < length ?E" using fin False by simp
    from less_le_trans [OF this lenE] have "length ?out < room w" using room n by (metis le_less_trans less_le_trans mult_less_cancel1)
    then have "0 < room w1" using v(7) by linarith
    moreover have "is_run ?ps" "\<forall>p \<in> set (entries S w1 ?out). \<forall>q \<in> set ?ps. key p < key q"
      using E fin(1) by (auto simp: is_run_simps(3))
    ultimately obtain hs w2 where "write_block S (next_cb v) ?out w1 = Inr (hs, w2)" "inv w2"
        "Suc (room w2) = room w1" "extends S w1 w2" "run_ok S w2 n hs"
        "entries S w2 hs = entries S w1 ?out @ ?ps" "length hs = Suc (length ?out)"
      using write_block_ok [OF v(5) _ fin(2) _ False less_imp_le [OF fin(3)] l fin(5)] by blast
    then show thesis
      using that [of hs w2] v A B fin ne False small [of hs] extends_trans [OF v(6)]
      by (simp add: merge_def getKVPairs_def)
  qed
qed

end

end
