(* ===== verification/IndexSelect.thy ===== *)
theory IndexSelect
  imports IndexMerge
begin

text \<open>
  The selection of the blocks that \<open>compactHelper\<close> (\<open>index.cc\<close>) pushes down to the next level: it
  splits the destination's vector in two good vectors without leaving the bounds of either.
\<close>

section \<open>Sub-vectors of a good vector\<close>

definition min_sorted :: "blockHeader list \<Rightarrow> bool" where
  "min_sorted hs \<longleftrightarrow> sorted_wrt compareHeaders hs"

lemma min_sorted_simps [run_simps]:
  "min_sorted []"
  "min_sorted (h # hs) \<longleftrightarrow> (\<forall>g \<in> set hs. compareHeaders h g) \<and> min_sorted hs"
  "min_sorted (hs @ gs) \<longleftrightarrow> min_sorted hs \<and> min_sorted gs \<and>
     (\<forall>h \<in> set hs. \<forall>g \<in> set gs. compareHeaders h g)"
  by (auto simp: min_sorted_def sorted_wrt_append)

lemma set_entries: "p \<in> set (entries S w hs) \<longleftrightarrow> (\<exists>h \<in> set hs. p \<in> set (block_at S w h))"
  by (auto simp: entries_def)

lemma entriesI [intro]: "h \<in> set hs \<Longrightarrow> p \<in> set (block_at S w h) \<Longrightarrow> p \<in> set (entries S w hs)"
  by (auto simp: set_entries)

lemma header_min_in: "header_ok S w n h \<Longrightarrow> \<exists>p \<in> set (block_at S w h). key p = minKey h"
  using header_ok_block by (metis hd_in_set)

lemma run_ok_min_sorted: "run_ok S w n hs \<Longrightarrow> min_sorted hs"
proof (induction hs)
  case (Cons h hs)
  have "compareHeaders h g" if "g \<in> set hs" for g
  proof -
    have "header_ok S w n h" "header_ok S w n g" using Cons.prems that by (auto simp: run_ok_def)
    then obtain p q where "p \<in> set (block_at S w h)" "key p = minKey h"
        "q \<in> set (block_at S w g)" "key q = minKey g"
      by (meson header_min_in)
    moreover from this that have "q \<in> set (entries S w hs)" by blast
    ultimately have "key p < key q" using Cons.prems unfolding run_ok_simps by blast
    with \<open>key p = minKey h\<close> \<open>key q = minKey g\<close> show ?thesis by (simp add: compareHeaders_def)
  qed
  with Cons show ?case by (simp add: run_simps)
qed (simp add: run_simps)

text \<open>In a good vector the block with the smaller least key lies entirely before the other.\<close>

lemma run_ok_before:
  assumes "run_ok S w n hs" "h \<in> set hs" "g \<in> set hs" "compareHeaders h g"
    "p \<in> set (block_at S w h)" "q \<in> set (block_at S w g)"
  shows "key p < key q"
  using assms
proof (induction hs)
  case (Cons f fs)
  have srt: "min_sorted (f # fs)" using Cons.prems(1) by (rule run_ok_min_sorted)
  have "h = f \<and> g \<in> set fs \<or> h \<in> set fs \<and> g \<in> set fs"
    using Cons.prems(2-4) srt by (auto simp: run_simps compareHeaders_def dest: less_asym)
  then show ?case
  proof (elim disjE conjE)
    assume "h = f" "g \<in> set fs"
    with Cons.prems have "q \<in> set (entries S w fs)" by blast
    with Cons.prems \<open>h = f\<close> show ?thesis by (auto simp: run_ok_simps)
  qed (use Cons in \<open>auto simp: run_ok_simps\<close>)
qed simp

text \<open>
  Any selection of headers of a good vector that is sorted by least key is a good vector.
\<close>

lemma run_ok_subset:
  assumes "run_ok S w n hs" "set gs \<subseteq> set hs" "min_sorted gs"
  shows "run_ok S w n gs"
  using assms(2,3)
proof (induction gs)
  case Nil
  then show ?case by (simp add: run_simps)
next
  case (Cons g gs)
  have g: "g \<in> set hs" using Cons.prems by simp
  then have "header_ok S w n g" using assms(1) by (auto simp: run_ok_def)
  moreover have "is_run (block_at S w g)"
    using split_list [OF g] assms(1) by (auto simp: run_ok_simps)
  moreover have "key p < key q" if "p \<in> set (block_at S w g)" "q \<in> set (entries S w gs)" for p q
    using that Cons.prems g run_ok_before [OF assms(1) g]
    by (auto simp: set_entries min_sorted_simps)
  ultimately show ?case using Cons by (simp add: run_ok_simps min_sorted_simps)
qed

lemma min_sorted_distinct: "min_sorted hs \<Longrightarrow> distinct (map minKey hs)"
  by (induction hs) (auto simp: run_simps compareHeaders_def)

lemma distinct_parts:
  assumes "mset xs + mset ys = mset zs" "distinct (map f zs)"
  shows "distinct (map f (xs @ ys))" "distinct (map f xs)"
proof -
  have "mset (map f (xs @ ys)) = mset (map f zs)"
    using arg_cong [OF assms(1), of "image_mset f"] by simp
  then show "distinct (map f (xs @ ys))" using assms(2) mset_eq_imp_distinct_iff by blast
  then show "distinct (map f xs)" by simp
qed

text \<open>Splitting a good vector in two: each record is in exactly one of the parts.\<close>

lemma kv_map_split:
  assumes hs: "run_ok S w n hs" and new: "run_ok S w n new" and rem: "run_ok S w n rem"
    and mset: "mset new + mset rem = mset hs"
  shows "kv_map (entries S w hs) = kv_map (entries S w new) ++ kv_map (entries S w rem)"
    "dom (kv_map (entries S w new)) \<inter> dom (kv_map (entries S w rem)) = {}"
proof -
  have set: "set new \<union> set rem = set hs" using mset by (metis set_mset_mset set_mset_union)
  have sk: "sorted_keys (entries S w hs)" "sorted_keys (entries S w new)"
    "sorted_keys (entries S w rem)" using hs new rem by (simp_all add: run_ok_def is_run_def)
  have dist: "distinct (map minKey hs)" using run_ok_min_sorted [OF hs] by (rule min_sorted_distinct)
  from distinct_parts(1) [OF mset this] have disj: "minKey h \<noteq> minKey g" if "h \<in> set new" "g \<in> set rem" for h g
    using that by auto
  have apart: "key p \<noteq> key q"
    if "p \<in> set (entries S w new)" "q \<in> set (entries S w rem)" for p q
  proof -
    from that obtain h g where h: "h \<in> set new" "p \<in> set (block_at S w h)"
        "g \<in> set rem" "q \<in> set (block_at S w g)" by (auto simp: set_entries)
    then have "compareHeaders h g \<or> compareHeaders g h"
      using disj by (auto simp: compareHeaders_def neq_iff)
    then show ?thesis using run_ok_before [OF hs] h set by fastforce
  qed
  show d: "dom (kv_map (entries S w new)) \<inter> dom (kv_map (entries S w rem)) = {}"
    using apart by (fastforce dest!: kv_map_SomeD)
  show "kv_map (entries S w hs) = kv_map (entries S w new) ++ kv_map (entries S w rem)"
  proof
    fix k
    have ents: "set (entries S w hs) = set (entries S w new) \<union> set (entries S w rem)"
      by (auto simp: set_entries simp flip: set)
    show "kv_map (entries S w hs) k = (kv_map (entries S w new) ++ kv_map (entries S w rem)) k"
    proof (cases "kv_map (entries S w hs) k")
      case None
      then have "kv_map (entries S w new) k = None" "kv_map (entries S w rem) k = None"
        using ents by (auto simp: kv_map_None_iff)
      with None show ?thesis by (simp add: map_add_def)
    next
      case (Some p)
      then have p: "p \<in> set (entries S w new) \<union> set (entries S w rem)" "key p = k"
        using ents kv_map_Some_iff [OF sk(1)] by auto
      then consider "kv_map (entries S w new) k = Some p" | "kv_map (entries S w rem) k = Some p"
        using kv_map_Some_iff [OF sk(2)] kv_map_Some_iff [OF sk(3)] by blast
      then show ?thesis using Some d by cases (auto simp: map_add_def split: option.splits)
    qed
  qed
qed


section \<open>Selecting the blocks to push down\<close>

text \<open>
  The loops of \<open>compactHelper\<close> split the destination's vector into the blocks to push down and the
  blocks that stay, both in the order of the vector.
\<close>

lemma push_below_append: "snd (push_below mx ds new) @ fst (push_below mx ds new) = new @ ds"
  by (induction mx ds new rule: push_below.induct) auto

lemma push_below_suffix: "\<exists>gs. ds = gs @ fst (push_below mx ds new)"
proof (induction mx ds new rule: push_below.induct)
  case (2 mx d ds new)
  show ?case
  proof (cases "mx > maxKey d")
    case True
    with 2 obtain gs where "ds = gs @ fst (push_below mx ds (new @ [d]))" by blast
    with True have "d # ds = (d # gs) @ fst (push_below mx (d # ds) new)" by simp
    then show ?thesis by blast
  qed simp
qed simp

lemma push_below_mset:
  "mset (snd (push_below mx ds new)) + mset (fst (push_below mx ds new)) = mset new + mset ds"
  by (metis mset_append push_below_append)

lemma min_sorted_drop_mid: "min_sorted (hs @ gs @ fs) \<Longrightarrow> min_sorted (hs @ fs)"
  by (simp add: min_sorted_simps(3))

lemma affected_blocks_split:
  assumes "affected_blocks ss ds new rem = (new', rem')"
    "min_sorted (new @ ds)" "min_sorted (rem @ ds)"
  shows "min_sorted new'" "min_sorted rem'" "mset new' + mset rem' = mset new + mset rem + mset ds"
proof -
  have "min_sorted new' \<and> min_sorted rem' \<and> mset new' + mset rem' = mset new + mset rem + mset ds"
    using assms
  proof (induction ss ds new rem rule: affected_blocks.induct)
    case (3 s ss d ds new rem)
    let ?p = "push_below (maxKey s) (d # ds) new"
    show ?case
    proof (cases "minKey s > minKey d \<and> minKey s > maxKey d")
      case True
      have "min_sorted (snd ?p @ fst ?p)" using "3.prems"(2) by (simp only: push_below_append)
      moreover have "min_sorted (rem @ fst ?p)"
      proof -
        from push_below_suffix obtain gs fs where "fs = fst ?p" "d # ds = gs @ fs" by blast
        then show ?thesis using "3.prems"(3) by (metis min_sorted_drop_mid)
      qed
      ultimately have "min_sorted new' \<and> min_sorted rem' \<and>
          mset new' + mset rem' = mset (snd ?p) + mset rem + mset (fst ?p)"
        using "3.IH"(1) [OF True] "3.prems"(1) True by simp
      then show ?thesis using push_below_mset [of "maxKey s" "d # ds" new]
        by (simp add: ac_simps)
    next
      case False
      then show ?thesis using "3.IH"(2) "3.prems" by (auto simp: run_simps)
    qed
  qed (auto simp: run_simps)
  then show "min_sorted new'" "min_sorted rem'"
    "mset new' + mset rem' = mset new + mset rem + mset ds" by auto
qed

text \<open>Sorting headers with different least keys by \<open>compareHeaders\<close>.\<close>

lemma sort_headers:
  assumes "distinct (map minKey hs)"
  shows "min_sorted (std_sort compareHeaders hs)" "mset (std_sort compareHeaders hs) = mset hs"
proof -
  have ch: "compareHeaders = (\<lambda>h g. minKey h < minKey g)"
    by (simp add: fun_eq_iff compareHeaders_def)
  have eq: "std_sort compareHeaders hs = sort_key minKey hs"
    using std_sort_key [of minKey hs] by (simp add: ch)
  have "distinct (map minKey (sort_key minKey hs))"
    using assms by (metis mset_eq_imp_distinct_iff mset_map mset_sort)
  then have "sorted_wrt (<) (map minKey (sort_key minKey hs))"
    by (simp add: strict_sorted_iff)
  then show "min_sorted (std_sort compareHeaders hs)"
    unfolding eq min_sorted_def by (simp add: sorted_wrt_map ch)
  show "mset (std_sort compareHeaders hs) = mset hs" by (simp add: eq)
qed

text \<open>
  The selection as a whole: enough blocks are pushed down, the iterator arithmetic stays inside
  the vector, and both parts are good vectors that together are the destination.
\<close>

lemma selection_ok:
  assumes dst: "run_ok S w n dst" and len: "m \<le> length dst"
  obtains new rem where
    "(case affected_blocks src dst [] [] of (new, rem) \<Rightarrow> select_more m new rem) = Inr (new, rem)"
    "run_ok S w n new" "run_ok S w n rem" "mset new + mset rem = mset dst" "m \<le> length new"
proof -
  obtain new rem where ab: "affected_blocks src dst [] [] = (new, rem)" by fastforce
  have srt: "min_sorted dst" using dst by (rule run_ok_min_sorted)
  note split = affected_blocks_split [OF ab, simplified, OF srt]
  have set: "set new \<union> set rem = set dst" using split(3) by (metis set_mset_mset set_mset_union)
  show thesis
  proof (cases "length new < m")
    case False
    show thesis
      by (rule that [of new rem])
        (use ab False split set in \<open>auto simp: select_more_def intro!: run_ok_subset [OF dst]\<close>)
  next
    case True
    let ?k = "m - length new"
    let ?new = "std_sort compareHeaders (new @ take ?k rem)" and ?rem = "drop ?k rem"
    have lens: "length new + length rem = length dst"
      using split(3) by (metis size_mset size_union)
    have parts: "mset (new @ take ?k rem) + mset ?rem = mset dst"
      using split(3) by (metis append_take_drop_id mset_append union_assoc)
    note sorted = sort_headers [OF distinct_parts(2) [OF this min_sorted_distinct [OF srt]]]
    have "set ?new = set new \<union> set (take ?k rem)"
      using sorted(2) by (metis set_append set_mset_mset)
    then have "set ?new \<subseteq> set dst" using set set_take_subset [of ?k rem] by auto
    moreover have "min_sorted ?rem" "set ?rem \<subseteq> set dst"
      using split(2) set set_drop_subset [of ?k rem]
      by (auto simp: min_sorted_def sorted_wrt_drop)
    moreover have "length ?new = length new + min (length rem) ?k"
      using sorted(2) by (metis length_append length_take size_mset)
    then have "length ?new = m" using True lens len by simp
    ultimately have "run_ok S w n ?new" "run_ok S w n ?rem" "length ?new = m"
      using sorted by (auto intro: run_ok_subset [OF dst])
    moreover have "?k \<le> length rem" using lens len by simp
    ultimately show thesis
      using that [of ?new ?rem] ab True sorted(2) parts by (simp add: select_more_def)
  qed
qed

end
