(* ===== verification/IndexSpec.thy ===== *)
theory IndexSpec
  imports IndexSelect
begin

text \<open>
  The abstract view of the index: the finite map that a list of levels stands for, in which an
  upper level shadows the levels below it, and the invariant of the index.
\<close>

section \<open>The map of the levels\<close>

type_synonym kv_fun = "string \<Rightarrow> kvs_payload option"

definition level_map :: "'w store_ops \<Rightarrow> 'w \<Rightarrow> Level \<Rightarrow> kv_fun" where
  "level_map S w L = kv_map (entries S w (recordHashes L))"

fun levels_map :: "'w store_ops \<Rightarrow> 'w \<Rightarrow> Level list \<Rightarrow> kv_fun" where
  "levels_map S w [] = Map.empty"
| "levels_map S w (L # Ls) = levels_map S w Ls ++ level_map S w L"

text \<open>
  \<open>newer m m'\<close>: where both maps hold a key, the record of \<open>m\<close> has the larger time stamp. The levels
  are ordered when every level is newer than everything below it.
\<close>

definition newer :: "kv_fun \<Rightarrow> kv_fun \<Rightarrow> bool" where
  "newer m m' \<longleftrightarrow> (\<forall>k p q. m k = Some p \<and> m' k = Some q \<longrightarrow>
     sint (txn_timestamp q) < sint (txn_timestamp p))"

fun levels_ordered :: "'w store_ops \<Rightarrow> 'w \<Rightarrow> Level list \<Rightarrow> bool" where
  "levels_ordered S w [] \<longleftrightarrow> True"
| "levels_ordered S w (L # Ls) \<longleftrightarrow> newer (level_map S w L) (levels_map S w Ls) \<and> levels_ordered S w Ls"

definition level_records :: "'w store_ops \<Rightarrow> 'w \<Rightarrow> Level list \<Rightarrow> kvs_payload set" where
  "level_records S w Ls = (\<Union>L \<in> set Ls. set (entries S w (recordHashes L)))"

definition nblocks :: "Level list \<Rightarrow> nat" where
  "nblocks Ls = sum_list (map (\<lambda>L. length (recordHashes L)) Ls)"

lemma newer_empty [simp]: "newer m Map.empty" "newer Map.empty m"
  by (simp_all add: newer_def)

lemma newer_mono: "newer m m' \<Longrightarrow> n \<subseteq>\<^sub>m m \<Longrightarrow> n' \<subseteq>\<^sub>m m' \<Longrightarrow> newer n n'"
  unfolding newer_def map_le_def by (metis domI)

lemma newer_map_add: "newer m m1 \<Longrightarrow> newer m m2 \<Longrightarrow> newer m (m1 ++ m2)"
  by (auto simp: newer_def map_add_Some_iff)

lemma newer_map_add_left: "newer m1 m \<Longrightarrow> newer m2 m \<Longrightarrow> newer (m1 ++ m2) m"
  by (auto simp: newer_def map_add_Some_iff)

text \<open>Where \<open>m\<close> is newer than the shadowed combination of two maps, it is newer than each, given
  that the upper one is newer than the lower.\<close>

lemma newer_map_add_iff:
  assumes "newer m2 m1"
  shows "newer m (m1 ++ m2) \<longleftrightarrow> newer m m2 \<and> newer m m1"
proof
  assume new: "newer m (m1 ++ m2)"
  have "newer m m2" using new by (rule newer_mono) (auto simp: map_le_def)
  moreover have "newer m m1"
    unfolding newer_def
  proof (intro allI impI, elim conjE)
    fix k p q assume pq: "m k = Some p" "m1 k = Some q"
    show "sint (txn_timestamp q) < sint (txn_timestamp p)"
    proof (cases "m2 k")
      case None
      with pq have "(m1 ++ m2) k = Some q" by (simp add: map_add_def)
      then show ?thesis using new pq unfolding newer_def by metis
    next
      case (Some r)
      then have "sint (txn_timestamp r) < sint (txn_timestamp p)"
        using \<open>newer m m2\<close> pq by (auto simp: newer_def)
      moreover have "sint (txn_timestamp q) < sint (txn_timestamp r)"
        using assms Some pq by (auto simp: newer_def)
      ultimately show ?thesis by simp
    qed
  qed
  ultimately show "newer m m2 \<and> newer m m1" by simp
qed (simp add: newer_map_add)

text \<open>Merging a run with an older one is shadowing; without the order, no key is lost.\<close>

lemma kv_map_merge_newer:
  assumes "sorted_keys ps" "sorted_keys qs" "newer (kv_map ps) (kv_map qs)"
  shows "kv_map (merge_kv ps qs) = kv_map qs ++ kv_map ps"
proof
  fix k
  show "kv_map (merge_kv ps qs) k = (kv_map qs ++ kv_map ps) k"
    using assms(3) unfolding kv_map_merge_kv [OF assms(1,2)] newer_def
    by (fastforce simp: map_add_def newest_def split: option.splits)
qed

lemma kv_map_merge_older:
  assumes "sorted_keys ps" "sorted_keys qs" "newer (kv_map qs) (kv_map ps)"
  shows "kv_map (merge_kv ps qs) = kv_map ps ++ kv_map qs"
proof
  fix k
  show "kv_map (merge_kv ps qs) k = (kv_map ps ++ kv_map qs) k"
    using assms(3) unfolding kv_map_merge_kv [OF assms(1,2)] newer_def
    by (fastforce simp: map_add_def newest_def split: option.splits)
qed

lemma dom_kv_map: "dom (kv_map ps) = key ` set ps"
  by (auto simp: dom_def kv_map_None_iff image_iff)

lemma dom_kv_map_merge: "dom (kv_map (merge_kv ps qs)) = dom (kv_map ps) \<union> dom (kv_map qs)"
  by (simp add: dom_kv_map keys_merge_kv)

lemma levels_map_in_records: "levels_map S w Ls k = Some p \<Longrightarrow> p \<in> level_records S w Ls \<and> key p = k"
  by (induction Ls) (auto simp: level_records_def level_map_def map_add_Some_iff dest: kv_map_SomeD)

lemma dom_levels_map: "dom (levels_map S w Ls) = key ` level_records S w Ls"
  by (induction Ls) (auto simp: level_records_def level_map_def dom_kv_map)

lemma levels_map_append: "levels_map S w (Ls @ Ms) = levels_map S w Ms ++ levels_map S w Ls"
  by (induction Ls) auto

section \<open>The invariant of the index\<close>

text \<open>
  Level \<open>i\<close> of an index with block size \<open>n\<close> has the size bound \<open>2 n 10\<^sup>i\<close>, fewer than \<open>2 \<cdot> 10\<^sup>i\<close>
  blocks, and blocks that form one run.
\<close>

definition level_ok :: "'w store_ops \<Rightarrow> 'w \<Rightarrow> nat \<Rightarrow> nat \<Rightarrow> Level \<Rightarrow> bool" where
  "level_ok S w n i L \<longleftrightarrow> index L = int i \<and> maxSize L = int (2 * n * 10 ^ i) \<and>
     int_range (maxSize L) \<and> bounds_ok L \<and> run_ok S w n (recordHashes L) \<and>
     length (recordHashes L) < 2 * 10 ^ i"

text \<open>The levels from \<open>d\<close> on are well formed, and the number of levels is the size of the vector.\<close>

definition levels_ok :: "'w store_ops \<Rightarrow> 'w \<Rightarrow> nat \<Rightarrow> CapsuleIndex \<Rightarrow> bool" where
  "levels_ok S w d ix \<longleftrightarrow> numLevels ix = int (length (levels ix)) \<and> int_range (numLevels ix) \<and>
     0 < unat (blocksize ix) \<and>
     (\<forall>i. d \<le> i \<and> i < length (levels ix) \<longrightarrow>
       level_ok S w (unat (blocksize ix)) i (levels ix ! i))"

definition index_ok :: "'w store_ops \<Rightarrow> 'w \<Rightarrow> CapsuleIndex \<Rightarrow> bool" where
  "index_ok S w ix \<longleftrightarrow> levels ix \<noteq> [] \<and> levels_ok S w 0 ix"

definition index_map :: "'w store_ops \<Rightarrow> 'w \<Rightarrow> CapsuleIndex \<Rightarrow> kv_fun" where
  "index_map S w ix = levels_map S w (levels ix)"

lemma level_ok_extends:
  assumes "level_ok S w n i L" "extends S w w'"
  shows "level_ok S w' n i L" "level_map S w' L = level_map S w L"
    "entries S w' (recordHashes L) = entries S w (recordHashes L)"
  using assms run_ok_extends [of S w n "recordHashes L" w']
  by (auto simp: level_ok_def level_map_def)

text \<open>The whole suffix of levels reads the same in an extended store.\<close>

lemma levels_extends:
  assumes "\<forall>L \<in> set Ls. \<exists>i. level_ok S w n i L" "extends S w w'"
  shows "levels_map S w' Ls = levels_map S w Ls"
    "levels_ordered S w' Ls = levels_ordered S w Ls"
    "level_records S w' Ls = level_records S w Ls"
proof -
  have *: "levels_map S w' Ls = levels_map S w Ls \<and>
      levels_ordered S w' Ls = levels_ordered S w Ls \<and>
      level_records S w' Ls = level_records S w Ls"
    using assms(1)
  proof (induction Ls)
    case (Cons L Ls)
    then obtain i where "level_ok S w n i L" by auto
    with level_ok_extends [OF this assms(2)] Cons show ?case
      by (auto simp: level_records_def)
  qed (simp add: level_records_def)
  then show "levels_map S w' Ls = levels_map S w Ls"
    "levels_ordered S w' Ls = levels_ordered S w Ls"
    "level_records S w' Ls = level_records S w Ls" by auto
qed

lemma levels_ok_drop:
  assumes "levels_ok S w d ix" "d \<le> e"
  shows "\<forall>L \<in> set (drop e (levels ix)). \<exists>i. level_ok S w (unat (blocksize ix)) i L"
  using assms by (auto simp: levels_ok_def in_set_conv_nth) (metis le_add1 le_trans add.commute less_diff_conv)

lemma levels_ok_mono: "levels_ok S w d ix \<Longrightarrow> d \<le> e \<Longrightarrow> levels_ok S w e ix"
  by (auto simp: levels_ok_def)

lemma levels_ok_extends: "levels_ok S w d ix \<Longrightarrow> extends S w w' \<Longrightarrow> levels_ok S w' d ix"
  by (auto simp: levels_ok_def intro: level_ok_extends(1))

end
