(* ===== verification/IndexCompact.thy ===== *)
theory IndexCompact
  imports IndexSpec
begin

text \<open>
  Correctness of \<open>compactHelper\<close>, \<open>compact\<close> and \<open>add_hash\<close> (\<open>index.cc\<close>): they keep the index well
  formed without an error as long as the store has room and the size of one more level is an
  \<open>int\<close>; no key is lost; and when every level is newer than the levels below it, the map that the
  index stands for changes only by the blocks that are added.
\<close>

section \<open>Single operations on a level\<close>

lemma size_to_int_of_nat: "n < 2 ^ 31 \<Longrightarrow> size_to_int (of_nat n) = int n"
proof -
  assume "n < 2 ^ 31"
  then have "unat (of_nat n :: size_t) = n" by (intro unat_of_nat_small) simp
  then have "uint (of_nat n :: size_t) = int n" by (metis uint_nat)
  with \<open>n < 2 ^ 31\<close> show ?thesis by (simp add: size_to_int_def to_int32_id int_range_nat)
qed

lemma level_ok_bound:
  assumes "level_ok S w n i L" "0 < n"
  shows "2 * n * 10 ^ i < 2 ^ 31" "2 * 10 ^ i < (2::nat) ^ 31" "length (recordHashes L) < 2 ^ 31"
proof -
  have "int (2 * n * 10 ^ i) < int (2 ^ 31)" using assms by (simp add: level_ok_def int_range_def)
  then show 1: "2 * n * 10 ^ i < 2 ^ 31" by (simp only: of_nat_less_iff)
  have "(2::nat) * 10 ^ i \<le> 2 * n * 10 ^ i" using assms(2) by simp
  then show 2: "2 * 10 ^ i < (2::nat) ^ 31" using 1 by linarith
  show "length (recordHashes L) < 2 ^ 31" using assms(1) 2 by (simp add: level_ok_def)
qed

lemma set_blocks_fields [simp]:
  "recordHashes (set_blocks hs L) = hs" "index (set_blocks hs L) = index L"
  "maxSize (set_blocks hs L) = maxSize L"
  by (simp_all add: set_blocks_def)

lemma set_blocks_ok:
  assumes "level_ok S w n i L" "0 < n" "run_ok S w' n hs" "length hs < 2 * 10 ^ i"
  shows "level_ok S w' n i (set_blocks hs L)"
proof -
  have "length hs < 2 ^ 31" using level_ok_bound(2) [OF assms(1,2)] assms(4) by linarith
  then have "bounds_ok (set_blocks hs L)"
    by (auto simp: bounds_ok_def set_blocks_def size_to_int_of_nat hd_conv_nth last_conv_nth)
  then show ?thesis using assms by (auto simp: level_ok_def)
qed

lemma Level_new_ok:
  assumes "sz = int (2 * n * 10 ^ i)" "int_range sz"
  shows "level_ok S w n i (Level_new (int i) sz)"
  using assms by (simp add: level_ok_def bounds_ok_new) (simp add: Level_new_def run_simps)

text \<open>The \<open>size_t\<close> comparison of \<open>compactHelper\<close> counts blocks.\<close>

lemma level_overflows_iff:
  assumes L: "level_ok S w n d L" and n: "n = unat (blocksize ix)" "0 < n" and src: "length src \<le> 10 ^ d"
  shows "level_overflows ix src L \<longleftrightarrow> 2 * 10 ^ d \<le> length src + length (recordHashes L)"
proof -
  let ?a = "length src" and ?b = "length (recordHashes L)"
  have bs: "blocksize ix = of_nat n" using n by simp
  have "n * ?a \<le> n * 10 ^ d" "n * ?b \<le> n * (2 * 10 ^ d)"
    using src L by (simp_all add: level_ok_def del: mult_le_cancel1)
  moreover have "n * 10 ^ d < 2 ^ 31" "n * (2 * 10 ^ d) < 2 ^ 31"
    using level_ok_bound(1) [OF L n(2)] by (simp_all add: mult.left_commute)
  moreover have "(2::nat) ^ 31 + 2 ^ 31 < 2 ^ 64" by simp
  ultimately have small: "n * ?a + n * ?b < 2 ^ 64" by linarith
  have "blocksize ix * of_nat ?a + blocksize ix * of_nat ?b = of_nat (n * ?a + n * ?b)"
    by (simp add: bs)
  moreover have "of_int (maxSize L) = (of_nat (2 * n * 10 ^ d) :: size_t)"
    using L by (metis level_ok_def of_int_of_nat_eq)
  ultimately have "level_overflows ix src L \<longleftrightarrow> 2 * n * 10 ^ d \<le> n * ?a + n * ?b"
    using of_nat_le_size_iff [OF less_trans [OF level_ok_bound(1) [OF L n(2)]] small]
    by (simp only: level_overflows_def) simp
  also have "\<dots> \<longleftrightarrow> n * (2 * 10 ^ d) \<le> n * (?a + ?b)" by (simp add: algebra_simps)
  also have "\<dots> \<longleftrightarrow> 2 * 10 ^ d \<le> ?a + ?b" using n(2) by (simp del: distrib_left_numeral)
  finally show ?thesis .
qed

lemma addLevel_ok:
  assumes "numLevels ix = int (length (levels ix))" "int_range (numLevels ix + 1)"
  shows "addLevel sz ix = Inr (numLevels ix, ix\<lparr>levels := levels ix @ [Level_new (numLevels ix) sz],
    numLevels := numLevels ix + 1\<rparr>)"
  using assms by (simp add: addLevel_def Let_def checked_int_ok Level_new_def)

text \<open>
  Making sure that there is a level below \<open>d\<close>: either nothing changes or an empty level is appended.
\<close>

lemma numLevels_range:
  fixes n m :: nat
  assumes "0 < n" "2 * n * 10 ^ m < 2 ^ 31"
  shows "int_range (int m)" "int_range (int m + 1)"
proof -
  have "m < (10::nat) ^ m" by (rule power_gt_expt) simp
  also have "\<dots> \<le> n * 10 ^ m" using assms(1) by simp
  finally have "m + 1 < 2 ^ 31" using assms by linarith
  then show "int_range (int m)" "int_range (int m + 1)" by (simp_all add: int_range_def)
qed

lemma ensure_next_level_ok:
  assumes ix: "levels_ok S w d ix" and d: "d < length (levels ix)" and n: "n = unat (blocksize ix)"
    and fit: "Suc d = length (levels ix) \<Longrightarrow> 2 * n * 10 ^ length (levels ix) < 2 ^ 31"
  obtains ix1 where "ensure_next_level ix (levels ix ! d) = Inr ix1" "levels_ok S w d ix1"
    "blocksize ix1 = blocksize ix"
    "levels ix1 = levels ix \<and> Suc d < length (levels ix) \<or>
     (\<exists>N. levels ix1 = levels ix @ [N] \<and> recordHashes N = [] \<and> Suc d = length (levels ix))"
proof -
  let ?L = "levels ix ! d"
  have L: "level_ok S w n d ?L" and pos: "0 < n" and num: "numLevels ix = int (length (levels ix))"
    using ix d n by (auto simp: levels_ok_def)
  have idx: "index ?L = int d" using L by (simp add: level_ok_def)
  show thesis
  proof (cases "Suc d < length (levels ix)")
    case True
    then have "int_range (index ?L + 1)" using ix idx by (auto simp: levels_ok_def int_range_def)
    then show thesis using that [of ix] ix idx num True
      by (simp add: ensure_next_level_def checked_int_ok)
  next
    case False
    then have last: "length (levels ix) = Suc d" using d by simp
    note fit = fit [OF last [symmetric]]
    note rng = numLevels_range [OF pos fit]
    have ri: "int_range (index ?L + 1)" using rng last idx by (auto simp: int_range_def)
    let ?sz = "int (2 * n * 10 ^ Suc d)"
    have sz: "maxSize ?L * 10 = ?sz" using L by (simp add: level_ok_def)
    have szr: "int_range ?sz" using fit last by (intro int_range_nat) simp
    let ?N = "Level_new (numLevels ix) ?sz"
    let ?ix = "ix\<lparr>levels := levels ix @ [?N], numLevels := numLevels ix + 1\<rparr>"
    have "ensure_next_level ix ?L = Inr ?ix"
      using ri idx num last szr rng
      by (simp only: ensure_next_level_def sz checked_int_ok bindr_simps)
        (simp add: addLevel_ok)
    moreover have "level_ok S w n (Suc d) ?N"
      using Level_new_ok [OF refl szr] num last by simp
    then have "levels_ok S w d ?ix"
      using ix n num last rng by (auto simp: levels_ok_def nth_append less_Suc_eq)
    ultimately show thesis using that [of ?ix] last by (auto simp: Level_new_def)
  qed
qed


section \<open>What a change of the lower levels guarantees\<close>

text \<open>
  \<open>pushed S w w' g src d ix ix'\<close>: the index changed from \<open>ix\<close> in store \<open>w\<close> to \<open>ix'\<close> in \<open>w'\<close> by
  adding the blocks \<open>src\<close> at level \<open>d\<close>. The levels above \<open>d\<close> are the same, those from \<open>d\<close> on are
  well formed, at most one level is new and only when \<open>g\<close> and the old blocks are many, no block
  is gained, exactly the old keys and those of \<open>src\<close> are there, with records from there, and when
  everything was in order, the new map is the old one shadowed by \<open>src\<close>, and in order again.
\<close>

definition pushed :: "'w store_ops \<Rightarrow> 'w \<Rightarrow> 'w \<Rightarrow> nat \<Rightarrow> blockHeader list \<Rightarrow> nat \<Rightarrow>
    CapsuleIndex \<Rightarrow> CapsuleIndex \<Rightarrow> bool" where
  "pushed S w w' g src d ix ix' \<longleftrightarrow>
     (let old = drop d (levels ix); new = drop d (levels ix');
          m = kv_map (entries S w src)
      in blocksize ix' = blocksize ix \<and> levels_ok S w' d ix' \<and>
         take d (levels ix') = take d (levels ix) \<and>
         length (levels ix) \<le> length (levels ix') \<and>
         length (levels ix') \<le> Suc (length (levels ix)) \<and>
         (length (levels ix) < length (levels ix') \<longrightarrow>
            2 * 10 ^ (length (levels ix) - 1) \<le> g + nblocks old) \<and>
         nblocks new \<le> length src + nblocks old \<and>
         level_records S w' new \<subseteq> set (entries S w src) \<union> level_records S w old \<and>
         dom (levels_map S w' new) = dom m \<union> dom (levels_map S w old) \<and>
         (newer m (levels_map S w old) \<and> levels_ordered S w old \<longrightarrow>
            levels_map S w' new = levels_map S w old ++ m \<and> levels_ordered S w' new))"

lemma pushedI:
  assumes "blocksize ix' = blocksize ix" "levels_ok S w' d ix'" "take d (levels ix') = take d (levels ix)"
    "length (levels ix) \<le> length (levels ix')" "length (levels ix') \<le> Suc (length (levels ix))"
    "length (levels ix) < length (levels ix') \<Longrightarrow>
      2 * 10 ^ (length (levels ix) - 1) \<le> g + nblocks (drop d (levels ix))"
    "nblocks (drop d (levels ix')) \<le> length src + nblocks (drop d (levels ix))"
    "level_records S w' (drop d (levels ix')) \<subseteq>
      set (entries S w src) \<union> level_records S w (drop d (levels ix))"
    "dom (levels_map S w' (drop d (levels ix'))) =
      dom (kv_map (entries S w src)) \<union> dom (levels_map S w (drop d (levels ix)))"
    "newer (kv_map (entries S w src)) (levels_map S w (drop d (levels ix))) \<Longrightarrow>
      levels_ordered S w (drop d (levels ix)) \<Longrightarrow>
      levels_map S w' (drop d (levels ix')) =
        levels_map S w (drop d (levels ix)) ++ kv_map (entries S w src) \<and>
      levels_ordered S w' (drop d (levels ix'))"
  shows "pushed S w w' g src d ix ix'"
  unfolding pushed_def Let_def using assms by blast

lemma pushedD:
  assumes "pushed S w w' g src d ix ix'"
  shows "blocksize ix' = blocksize ix" "levels_ok S w' d ix'" "take d (levels ix') = take d (levels ix)"
    "length (levels ix) \<le> length (levels ix')" "length (levels ix') \<le> Suc (length (levels ix))"
    "length (levels ix) < length (levels ix') \<Longrightarrow>
      2 * 10 ^ (length (levels ix) - 1) \<le> g + nblocks (drop d (levels ix))"
    "nblocks (drop d (levels ix')) \<le> length src + nblocks (drop d (levels ix))"
    "level_records S w' (drop d (levels ix')) \<subseteq>
      set (entries S w src) \<union> level_records S w (drop d (levels ix))"
    "dom (levels_map S w' (drop d (levels ix'))) =
      dom (kv_map (entries S w src)) \<union> dom (levels_map S w (drop d (levels ix)))"
    "newer (kv_map (entries S w src)) (levels_map S w (drop d (levels ix))) \<Longrightarrow>
      levels_ordered S w (drop d (levels ix)) \<Longrightarrow>
      levels_map S w' (drop d (levels ix')) =
        levels_map S w (drop d (levels ix)) ++ kv_map (entries S w src)"
    "newer (kv_map (entries S w src)) (levels_map S w (drop d (levels ix))) \<Longrightarrow>
      levels_ordered S w (drop d (levels ix)) \<Longrightarrow> levels_ordered S w' (drop d (levels ix'))"
  using assms unfolding pushed_def Let_def by blast+

lemma drop_nth: "d < length xs \<Longrightarrow> drop d xs = xs ! d # drop (Suc d) xs"
  by (simp add: Cons_nth_drop_Suc)

lemma nblocks_simps [simp]:
  "nblocks [] = 0" "nblocks (L # Ls) = length (recordHashes L) + nblocks Ls"
  "nblocks (Ls @ Ms) = nblocks Ls + nblocks Ms"
  by (simp_all add: nblocks_def)

lemma level_records_simps [simp]:
  "level_records S w [] = {}"
  "level_records S w (L # Ls) = set (entries S w (recordHashes L)) \<union> level_records S w Ls"
  "level_records S w (Ls @ Ms) = level_records S w Ls \<union> level_records S w Ms"
  by (auto simp: level_records_def)

lemma set_level_blocks_fields [simp]:
  "blocksize (set_level_blocks d hs ix) = blocksize ix"
  "numLevels (set_level_blocks d hs ix) = numLevels ix"
  "length (levels (set_level_blocks d hs ix)) = length (levels ix)"
  "drop (Suc d) (levels (set_level_blocks d hs ix)) = drop (Suc d) (levels ix)"
  "take d (levels (set_level_blocks d hs ix)) = take d (levels ix)"
  by (simp_all add: set_level_blocks_def)

lemma set_level_blocks_nth:
  "d < length (levels ix) \<Longrightarrow> levels (set_level_blocks d hs ix) ! d = set_blocks hs (levels ix ! d)"
  by (simp add: set_level_blocks_def)

lemma set_level_blocks_ok:
  assumes ix: "levels_ok S w (Suc d) ix" and d: "d < length (levels ix)"
    and L: "level_ok S w' (unat (blocksize ix)) d (set_blocks hs (levels ix ! d))"
    and ext: "extends S w w'"
  shows "levels_ok S w' d (set_level_blocks d hs ix)"
  unfolding levels_ok_def
proof (intro conjI allI impI)
  fix i assume i: "d \<le> i \<and> i < length (levels (set_level_blocks d hs ix))"
  show "level_ok S w' (unat (blocksize (set_level_blocks d hs ix))) i
      (levels (set_level_blocks d hs ix) ! i)"
  proof (cases "i = d")
    case True
    then show ?thesis using L d by (simp add: set_level_blocks_nth)
  next
    case False
    then have "levels (set_level_blocks d hs ix) ! i = levels ix ! i" "Suc d \<le> i"
      using i by (simp_all add: set_level_blocks_def)
    then show ?thesis using ix i level_ok_extends(1) [OF _ ext] by (simp add: levels_ok_def)
  qed
qed (use ix in \<open>auto simp: levels_ok_def\<close>)

text \<open>
  Merging blocks into a level that has room for them, in terms of the maps: \<open>m\<close> is added, \<open>r\<close> is
  the map of the level and \<open>R\<close> that of the levels below.
\<close>

lemma merge_maps:
  assumes "sorted_keys ps" "sorted_keys qs" "newer (kv_map ps) (R ++ kv_map qs)" "newer (kv_map qs) R"
  shows "R ++ kv_map (merge_kv ps qs) = (R ++ kv_map qs) ++ kv_map ps"
    "newer (kv_map (merge_kv ps qs)) R"
proof -
  have n: "newer (kv_map ps) (kv_map qs)" "newer (kv_map ps) R"
    using assms(3) newer_map_add_iff [OF assms(4)] by auto
  note m = kv_map_merge_newer [OF assms(1,2) n(1)]
  show "R ++ kv_map (merge_kv ps qs) = (R ++ kv_map qs) ++ kv_map ps" by (simp add: m)
  show "newer (kv_map (merge_kv ps qs)) R"
    unfolding m using assms(4) n(2) by (rule newer_map_add_left)
qed

context block_store
begin

lemma merge_into_level:
  assumes inv: "inv w" and ix: "levels_ok S w d ix" and d: "d < length (levels ix)"
    and n: "n = unat (blocksize ix)" and src: "run_ok S w n src" "src \<noteq> []"
    and few: "length src + length (recordHashes (levels ix ! d)) < 2 * 10 ^ d"
    and room: "length src + length (recordHashes (levels ix ! d)) \<le> room w"
  obtains hs w' where
    "merge S (blocksize ix) src (recordHashes (levels ix ! d)) (int d) w = Inr (hs, w')"
    "inv w'" "extends S w w'"
    "room w \<le> room w' + length src + length (recordHashes (levels ix ! d))"
    "pushed S w w' 0 src d ix (set_level_blocks d hs ix)"
proof -
  let ?L = "levels ix ! d"
  have pos: "0 < n" and L: "level_ok S w n d ?L" using ix d n by (auto simp: levels_ok_def)
  have run: "run_ok S w n (recordHashes ?L)" using L by (simp add: level_ok_def)
  have "d < (10::nat) ^ d" by (rule power_gt_expt) simp
  then have "int_range (int d)" using level_ok_bound(2) [OF L pos] by (intro int_range_nat) linarith
  then obtain hs w' where m: "merge S (blocksize ix) src (recordHashes ?L) (int d) w = Inr (hs, w')"
      "inv w'" "extends S w w'" "run_ok S w' n hs"
      "entries S w' hs = merge_kv (entries S w src) (entries S w (recordHashes ?L))"
      "length hs \<le> length src + length (recordHashes ?L)" "room w' + length hs = room w"
    using merge_ok [OF inv src(1) run src(2) n pos _ room] by blast
  let ?ix = "set_level_blocks d hs ix" and ?Ls = "drop (Suc d) (levels ix)"
  have "level_ok S w' n d (set_blocks hs ?L)"
    using set_blocks_ok [OF L pos m(4)] m(6) few by simp
  then have ok: "levels_ok S w' d ?ix"
    using set_level_blocks_ok [OF levels_ok_mono [OF ix] d _ m(3)] n by simp
  note below = levels_extends [OF levels_ok_drop [OF ix, of "Suc d"] m(3)]
  have new: "drop d (levels ?ix) = set_blocks hs ?L # ?Ls"
    using drop_nth [of d "levels ?ix"] d by (simp add: set_level_blocks_nth)
  have sk: "sorted_keys (entries S w src)" "sorted_keys (entries S w (recordHashes ?L))"
    using src(1) run by (simp_all add: run_ok_def is_run_def)
  have lm: "level_map S w' (set_blocks hs ?L) =
      kv_map (merge_kv (entries S w src) (entries S w (recordHashes ?L)))"
    by (simp add: level_map_def m(5))
  have "pushed S w w' 0 src d ix ?ix"
    unfolding pushed_def Let_def new drop_nth [OF d]
    using ok m(5,6) below lm set_merge_kv [of "entries S w src" "entries S w (recordHashes ?L)"]
      dom_kv_map_merge merge_maps [OF sk, of "levels_map S w ?Ls"]
    by (auto simp: level_map_def)
  then show thesis using that [OF m(1,2,3)] m(6,7) by simp
qed

end


section \<open>Pushing blocks down\<close>

text \<open>Adding nothing at level \<open>d\<close> and then \<open>src\<close> is adding \<open>src\<close>.\<close>

lemma pushed_trans:
  assumes p: "pushed S w w1 g [] d ix ix1" and q: "pushed S w1 w2 0 src d ix1 ix2"
    and len: "length (levels ix2) = length (levels ix1)" and src: "entries S w1 src = entries S w src"
  shows "pushed S w w2 g src d ix ix2"
proof -
  note P = pushedD [OF p, simplified] and Q = pushedD [OF q, unfolded src]
  show ?thesis
  proof (rule pushedI)
    assume new: "newer (kv_map (entries S w src)) (levels_map S w (drop d (levels ix)))"
      "levels_ordered S w (drop d (levels ix))"
    then have "levels_map S w1 (drop d (levels ix1)) = levels_map S w (drop d (levels ix))"
      "levels_ordered S w1 (drop d (levels ix1))" using P(10,11) by simp_all
    with Q(10,11) new(1) show "levels_map S w2 (drop d (levels ix2)) =
        levels_map S w (drop d (levels ix)) ++ kv_map (entries S w src) \<and>
      levels_ordered S w2 (drop d (levels ix2))" by simp
  next
    show "level_records S w2 (drop d (levels ix2)) \<subseteq>
        set (entries S w src) \<union> level_records S w (drop d (levels ix))"
      using P(8) Q(8) by blast
  next
    show "nblocks (drop d (levels ix2)) \<le> length src + nblocks (drop d (levels ix))"
      using P(7) Q(7) by linarith
  qed (use P Q len in simp_all)
qed

text \<open>Maps of the two parts of a level, over the map \<open>R\<close> of the levels below.\<close>

lemma split_maps:
  assumes "m = a ++ b" "dom a \<inter> dom b = {}" "newer m R"
  shows "newer a R" "(R ++ a) ++ b = R ++ m" "newer b (R ++ a)"
proof -
  have sub: "a \<subseteq>\<^sub>m m" "b \<subseteq>\<^sub>m m"
    using assms(1,2) by (auto simp: map_le_def map_add_def dom_def split: option.splits)
  show "newer a R" using assms(3) sub(1) by (rule newer_mono) simp
  show "(R ++ a) ++ b = R ++ m" by (simp add: assms(1))
  have "newer b R" using assms(3) sub(2) by (rule newer_mono) simp
  moreover have "newer b a" using assms(2) by (auto simp: newer_def dom_def)
  ultimately show "newer b (R ++ a)" by (rule newer_map_add)
qed

text \<open>
  Splitting the vector of level \<open>d\<close> and pushing one part down changes nothing seen from level \<open>d\<close>.
\<close>

lemma push_part_down:
  assumes ix: "levels_ok S w d ix" and d: "d < length (levels ix)" and n: "n = unat (blocksize ix)"
    and ix1: "blocksize ix1 = blocksize ix"
      "levels ix1 = levels ix \<and> Suc d < length (levels ix) \<or>
       (\<exists>N. levels ix1 = levels ix @ [N] \<and> recordHashes N = [] \<and> Suc d = length (levels ix))"
    and parts: "run_ok S w n new" "run_ok S w n rem"
      "mset new + mset rem = mset (recordHashes (levels ix ! d))"
    and over: "2 * 10 ^ d \<le> g + length (recordHashes (levels ix ! d))"
    and p: "pushed S w w' (length new) new (Suc d) ix1 ix2" and ext: "extends S w w'"
  shows "pushed S w w' g [] d ix (set_level_blocks d rem ix2)"
proof -
  let ?L = "levels ix ! d" and ?Ls = "drop (Suc d) (levels ix)" and ?Ls1 = "drop (Suc d) (levels ix1)"
  let ?Ls2 = "drop (Suc d) (levels ix2)" and ?ix = "set_level_blocks d rem ix2"
  have L: "level_ok S w n d ?L" and pos: "0 < n" using ix d n by (auto simp: levels_ok_def)
  have run: "run_ok S w n (recordHashes ?L)" using L by (simp add: level_ok_def)
  have lens: "length new + length rem = length (recordHashes ?L)"
    using parts(3) by (metis size_mset size_union)
  have few: "length (recordHashes ?L) < 2 * 10 ^ d" using L by (simp add: level_ok_def)
  have same: "levels_map S w ?Ls1 = levels_map S w ?Ls" "levels_ordered S w ?Ls1 = levels_ordered S w ?Ls"
    "level_records S w ?Ls1 = level_records S w ?Ls" "nblocks ?Ls1 = nblocks ?Ls"
    using ix1(2) by (auto simp: level_map_def)
  note P = pushedD [OF p, unfolded same]
  have len: "length (levels ix) \<le> length (levels ix2)" "length (levels ix2) \<le> Suc (length (levels ix))"
    "length (levels ix) < length (levels ix2) \<Longrightarrow>
       2 * 10 ^ (length (levels ix) - 1) \<le> g + (length (recordHashes ?L) + nblocks ?Ls)"
  proof (atomize (full), cases "levels ix1 = levels ix")
    case True
    then show "length (levels ix) \<le> length (levels ix2) \<and> length (levels ix2) \<le> Suc (length (levels ix)) \<and>
      (length (levels ix) < length (levels ix2) \<longrightarrow>
       2 * 10 ^ (length (levels ix) - 1) \<le> g + (length (recordHashes ?L) + nblocks ?Ls))"
      using P(4-6) lens by auto
  next
    case False
    then have l1: "length (levels ix1) = Suc (Suc d)" "length (levels ix) = Suc d" "nblocks ?Ls = 0"
      using ix1(2) by auto
    have "length new < 2 * 10 ^ Suc d" using lens few by simp
    then have "\<not> length (levels ix1) < length (levels ix2)" using P(6) l1 by auto
    then show "length (levels ix) \<le> length (levels ix2) \<and> length (levels ix2) \<le> Suc (length (levels ix)) \<and>
      (length (levels ix) < length (levels ix2) \<longrightarrow>
       2 * 10 ^ (length (levels ix) - 1) \<le> g + (length (recordHashes ?L) + nblocks ?Ls))"
      using P(4,5) l1 over by simp
  qed
  have nth: "levels ix2 ! d = ?L" and take: "take d (levels ix2) = take d (levels ix)"
  proof -
    have t: "take (Suc d) (levels ix2) = take (Suc d) (levels ix)"
      using P(3) ix1(2) by auto
    then show "levels ix2 ! d = ?L" by (metis lessI nth_take)
    show "take d (levels ix2) = take d (levels ix)"
      using arg_cong [OF t, of "take d"] by (simp add: min_def)
  qed
  note rem = run_ok_extends [OF parts(2) ext]
  have "level_ok S w' n d (set_blocks rem ?L)"
    using set_blocks_ok [OF L pos rem(1)] lens few by simp
  then have ok: "levels_ok S w' d ?ix"
    using set_level_blocks_ok [of S w' d ix2 w' rem] P(1,2) nth d len(1) n ix1(1) by simp
  have drop: "drop d (levels ?ix) = set_blocks rem ?L # ?Ls2"
    using drop_nth [of d "levels ?ix"] d len nth by (simp add: set_level_blocks_nth)
  note split = kv_map_split [OF run parts]
  have lm: "level_map S w' (set_blocks rem ?L) = kv_map (entries S w rem)"
    by (simp add: level_map_def rem(2))
  have ents: "set (entries S w (recordHashes ?L)) = set (entries S w new) \<union> set (entries S w rem)"
    using arg_cong [OF parts(3), of set_mset] by (auto simp: entries_def)
  note maps = split_maps [OF split, of "levels_map S w ?Ls"]
  have m: "levels_map S w (?L # ?Ls) = levels_map S w ?Ls ++ kv_map (entries S w (recordHashes ?L))"
    by (simp add: level_map_def)
  show ?thesis
  proof (rule pushedI)
    show "level_records S w' (drop d (levels ?ix)) \<subseteq>
        set (entries S w []) \<union> level_records S w (drop d (levels ix))"
      using pushedD(8) [OF p] ents rem(2) unfolding drop drop_nth [OF d] same by auto
    show "dom (levels_map S w' (drop d (levels ?ix))) =
        dom (kv_map (entries S w [])) \<union> dom (levels_map S w (drop d (levels ix)))"
      using pushedD(9) [OF p] split(1) unfolding drop drop_nth [OF d] m same by (auto simp: lm)
  next
    assume "levels_ordered S w (drop d (levels ix))"
    then have ord: "newer (kv_map (entries S w (recordHashes ?L))) (levels_map S w ?Ls)"
      "levels_ordered S w ?Ls" unfolding drop_nth [OF d] by (simp_all add: level_map_def)
    note low = pushedD(10,11) [OF p, unfolded same, OF maps(1) [OF ord(1)] ord(2)]
    show "levels_map S w' (drop d (levels ?ix)) =
        levels_map S w (drop d (levels ix)) ++ kv_map (entries S w []) \<and>
      levels_ordered S w' (drop d (levels ?ix))"
      using maps(2,3) [OF ord(1)] low unfolding drop drop_nth [OF d] m by (simp add: lm)
  qed (use ok len take lens ix1(1) pushedD(1,7) [OF p] in \<open>simp_all add: drop drop_nth [OF d] same\<close>)
qed

lemma pushed_more: "pushed S w w' 0 src d ix ix' \<Longrightarrow> pushed S w w' g src d ix ix'"
  by (auto simp: pushed_def Let_def)

lemma set_level_blocks_twice:
  "set_level_blocks d hs (set_level_blocks d gs ix) = set_level_blocks d hs ix"
  by (cases "d < length (levels ix)") (simp_all add: set_level_blocks_def set_blocks_def list_update_beyond)

context block_store
begin

text \<open>
  \<open>compactHelper\<close> adds a sorted run of blocks to a level: with fuel for the levels that it can
  reach, room for the blocks that it can write and a size for the level that it may create, it
  succeeds.
\<close>

lemma compactHelper_ok:
  assumes "inv w" "levels_ok S w d ix" "d < length (levels ix)" "n = unat (blocksize ix)"
    "run_ok S w n src" "src \<noteq> []" "length src \<le> 10 ^ d"
    "length (levels ix) - d < fuel \<or> 0 < fuel \<and> length src + length (recordHashes (levels ix ! d)) < 2 * 10 ^ d"
    "2 * n * 10 ^ length (levels ix) < 2 ^ 31 \<or>
     length src + nblocks (drop d (levels ix)) < 2 * 10 ^ (length (levels ix) - 1)"
    "length src + 2 * nblocks (drop d (levels ix)) \<le> room w"
  shows "\<exists>ix' w'. compactHelper S fuel ix src d w = Inr (ix', w') \<and> inv w' \<and> extends S w w' \<and>
    pushed S w w' (length src) src d ix ix' \<and>
    room w \<le> room w' + length src + 2 * nblocks (drop d (levels ix))"
  using assms
proof (induction fuel arbitrary: ix src d w)
  case 0
  then show ?case by simp
next
  case (Suc fuel)
  note inv = \<open>inv w\<close> and ix = \<open>levels_ok S w d ix\<close> and d = \<open>d < length (levels ix)\<close>
    and n = \<open>n = unat (blocksize ix)\<close> and src = \<open>run_ok S w n src\<close> \<open>src \<noteq> []\<close> \<open>length src \<le> 10 ^ d\<close>
    and fuel = Suc.prems(8) and fit = Suc.prems(9) and room = Suc.prems(10)
  let ?L = "levels ix ! d" and ?Ls = "drop (Suc d) (levels ix)"
  have pos: "0 < n" and L: "level_ok S w n d ?L" using ix d n by (auto simp: levels_ok_def)
  have run: "run_ok S w n (recordHashes ?L)" and few: "length (recordHashes ?L) < 2 * 10 ^ d"
    using L by (simp_all add: level_ok_def)
  have at: "level_at ix d = Inr ?L" using d by (simp add: level_at_def)
  have nb: "nblocks (drop d (levels ix)) = length (recordHashes ?L) + nblocks ?Ls"
    by (simp add: drop_nth [OF d])
  note over = level_overflows_iff [OF L n pos src(3)]
  show ?case
  proof (cases "level_overflows ix src ?L")
    case False
    then have "length src + length (recordHashes ?L) < 2 * 10 ^ d" using over by simp
    from merge_into_level [OF inv ix d n src(1,2) this] room nb obtain hs w' where
      m: "merge S (blocksize ix) src (recordHashes ?L) (int d) w = Inr (hs, w')"
      "inv w'" "extends S w w'"
      "room w \<le> room w' + length src + length (recordHashes ?L)"
      "pushed S w w' 0 src d ix (set_level_blocks d hs ix)" by auto
    then show ?thesis using at False nb
      by (intro exI [of _ "set_level_blocks d hs ix"] exI [of _ w']) (simp add: pushed_more)
  next
    case True
    then have big: "2 * 10 ^ d \<le> length src + length (recordHashes ?L)" using over by simp
    then have le: "length src \<le> length (recordHashes ?L)" using src(3) by linarith
    have fit1: "2 * n * 10 ^ length (levels ix) < 2 ^ 31" if "Suc d = length (levels ix)"
    proof -
      have "length (levels ix) - 1 = d" using that by simp
      then show ?thesis using fit big nb by auto
    qed
    obtain ix1 where ix1: "ensure_next_level ix ?L = Inr ix1" "levels_ok S w d ix1"
      "blocksize ix1 = blocksize ix"
      "levels ix1 = levels ix \<and> Suc d < length (levels ix) \<or>
       (\<exists>N. levels ix1 = levels ix @ [N] \<and> recordHashes N = [] \<and> Suc d = length (levels ix))"
      using ensure_next_level_ok [OF ix d n fit1] by blast
    obtain new rem where sel:
      "(case affected_blocks src (recordHashes ?L) [] [] of (new, rem) \<Rightarrow>
          select_more (length src) new rem) = Inr (new, rem)"
      "run_ok S w n new" "run_ok S w n rem" "mset new + mset rem = mset (recordHashes ?L)"
      "length src \<le> length new"
      using selection_ok [OF run le] by blast
    have lens: "length new + length rem = length (recordHashes ?L)"
      using sel(4) by (metis size_mset size_union)
    have nb1: "nblocks (drop (Suc d) (levels ix1)) = nblocks ?Ls" using ix1(4) by auto
    have d1: "Suc d < length (levels ix1)" using ix1(4) by auto
    have rh1: "levels ix1 = levels ix \<or> recordHashes (levels ix1 ! Suc d) = [] \<and> length (levels ix) = Suc d \<and>
        length (levels ix1) = Suc (Suc d)"
      using ix1(4) by (auto simp: nth_append)
    have ten: "(10::nat) ^ Suc d = 10 * 10 ^ d" by simp
    have f: "length (levels ix1) - Suc d < fuel \<or>
        0 < fuel \<and> length new + length (recordHashes (levels ix1 ! Suc d)) < 2 * 10 ^ Suc d"
      using rh1 fuel big lens few d ten by auto
    have fi: "2 * n * 10 ^ length (levels ix1) < 2 ^ 31 \<or>
        length new + nblocks (drop (Suc d) (levels ix1)) < 2 * 10 ^ (length (levels ix1) - 1)"
      using rh1
    proof
      assume "levels ix1 = levels ix"
      then show ?thesis using fit nb lens by auto
    next
      assume "recordHashes (levels ix1 ! Suc d) = [] \<and> length (levels ix) = Suc d \<and>
        length (levels ix1) = Suc (Suc d)"
      then show ?thesis using nb1 lens few ten by simp
    qed
    have "\<exists>ix' w'. compactHelper S fuel ix1 new (Suc d) w = Inr (ix', w') \<and> inv w' \<and> extends S w w' \<and>
      pushed S w w' (length new) new (Suc d) ix1 ix' \<and>
      room w \<le> room w' + length new + 2 * nblocks (drop (Suc d) (levels ix1))"
    proof (rule Suc.IH [OF inv levels_ok_mono [OF ix1(2)] d1 _ sel(2)])
      show "n = unat (blocksize ix1)" using n ix1(3) by simp
      show "new \<noteq> []" using sel(5) src(2) by auto
      show "length new \<le> 10 ^ Suc d" using lens few ten by linarith
      show "length new + 2 * nblocks (drop (Suc d) (levels ix1)) \<le> room w"
        using room nb nb1 lens by linarith
      show "2 * n * 10 ^ length (levels ix1) < 2 ^ 31 \<or>
        length new + nblocks (drop (Suc d) (levels ix1)) < 2 * 10 ^ (length (levels ix1) - 1)" by (rule fi)
    qed (use f in simp_all)
    then obtain ix2 w2 where low: "compactHelper S fuel ix1 new (Suc d) w = Inr (ix2, w2)" "inv w2"
      "extends S w w2" "pushed S w w2 (length new) new (Suc d) ix1 ix2"
      "room w \<le> room w2 + length new + 2 * nblocks ?Ls" using nb1 by auto
    let ?ix3 = "set_level_blocks d rem ix2"
    have p3: "pushed S w w2 (length src) [] d ix ?ix3"
      using push_part_down [OF ix d n ix1(3,4) sel(2-4) big low(4,3)] .
    note D = pushedD [OF p3]
    have d3: "d < length (levels ?ix3)" using D(4) d by linarith
    then have rh3: "recordHashes (levels ?ix3 ! d) = rem" by (simp add: set_level_blocks_nth)
    have few3: "length src + length (recordHashes (levels ?ix3 ! d)) < 2 * 10 ^ d"
      unfolding rh3 using sel(5) lens few by linarith
    have room3: "length src + length (recordHashes (levels ?ix3 ! d)) \<le> room w2"
      unfolding rh3 using low(5) room nb lens by linarith
    have n3: "n = unat (blocksize ?ix3)" using n D(1) by simp
    note src3 = run_ok_extends [OF src(1) low(3)]
    from merge_into_level [OF low(2) D(2) d3 n3 src3(1) src(2) few3 room3] obtain hs w' where
      m: "merge S (blocksize ?ix3) src rem (int d) w2 = Inr (hs, w')"
      "inv w'" "extends S w2 w'" "room w2 \<le> room w' + length src + length rem"
      "pushed S w2 w' 0 src d ?ix3 (set_level_blocks d hs ?ix3)"
      unfolding rh3 by blast
    have "pushed S w w' (length src) src d ix (set_level_blocks d hs ?ix3)"
      using pushed_trans [OF p3 m(5) _ src3(2)] by simp
    moreover have "compactHelper S (Suc fuel) ix src d w = Inr (set_level_blocks d hs ?ix3, w')"
      using at True ix1(1) sel(1) low(1) m(1) rh3 by simp
    moreover have "room w \<le> room w' + length src + 2 * nblocks (drop d (levels ix))"
      using low(5) m(4) nb lens by linarith
    ultimately show ?thesis using m(2) extends_trans [OF low(3) m(3)] by blast
  qed
qed

end

section \<open>Compaction of level 0\<close>

lemma std_sort_payloads: "sorted_keys ps \<Longrightarrow> std_sort comparePayloads ps = ps"
proof -
  assume "sorted_keys ps"
  then have srt: "sort_key key ps = ps"
  proof (induction ps)
    case (Cons p ps)
    then show ?case by (cases ps) (auto simp: run_simps)
  qed simp
  have less: "comparePayloads = (\<lambda>p q. key p < key q)" by (simp add: fun_eq_iff comparePayloads_def)
  show ?thesis unfolding less std_sort_key by (rule srt)
qed

lemma merge_maps_older:
  assumes "sorted_keys ps" "sorted_keys qs" "newer (kv_map qs) (R ++ kv_map ps)" "newer (kv_map ps) R"
  shows "R ++ kv_map (merge_kv ps qs) = (R ++ kv_map ps) ++ kv_map qs"
    "newer (kv_map (merge_kv ps qs)) R"
proof -
  have n: "newer (kv_map qs) (kv_map ps)" "newer (kv_map qs) R"
    using assms(3) newer_map_add_iff [OF assms(4)] by auto
  note m = kv_map_merge_older [OF assms(1,2) n(1)]
  show "R ++ kv_map (merge_kv ps qs) = (R ++ kv_map ps) ++ kv_map qs" by (simp add: m)
  show "newer (kv_map (merge_kv ps qs)) R"
    unfolding m using assms(4) n(2) by (intro newer_map_add_left)
qed

context block_store
begin

lemma sort_blocks_ok:
  assumes "inv w" "\<forall>h \<in> set hs. run_ok S w n [h]" "length hs \<le> room w"
  shows "\<exists>hs' w'. sort_blocks S hs w = Inr (hs', w') \<and> inv w' \<and> extends S w w' \<and>
    room w' + length hs = room w \<and>
    list_all2 (\<lambda>h h'. run_ok S w' n [h'] \<and> block_at S w' h' = block_at S w h) hs hs'"
  using assms
proof (induction hs arbitrary: w)
  case Nil
  then show ?case by auto
next
  case (Cons h hs)
  have ok: "header_ok S w n h" and run: "is_run (block_at S w h)"
    using Cons.prems(2) by (auto simp: run_simps)
  obtain b where b: "readIn S (hash h) w = Inr b" "block_at S w h = kvPairs b" "block_wf b"
    "kvPairs b \<noteq> []" "length (kvPairs b) \<le> n" "minKey h = key (hd (kvPairs b))"
    "maxKey h = key (last (kvPairs b))" using ok by (rule header_ok_read)
  have srt: "b\<lparr>kvPairs := std_sort comparePayloads (kvPairs b)\<rparr> = b"
    using run b(2) by (simp add: std_sort_payloads is_run_def)
  have "0 < room w" using Cons.prems(3) by simp
  from writeOut_ok [OF Cons.prems(1) b(3) this] obtain g w1 where
    w1: "writeOut S b w = Inr (g, w1)" "g \<noteq> ''''" "inv w1" "Suc (room w1) = room w"
    "readIn S g w1 = Inr b" "extends S w w1" by metis
  have old: "\<forall>h \<in> set hs. run_ok S w1 n [h]" "\<forall>h \<in> set hs. block_at S w1 h = block_at S w h"
    using Cons.prems(2) run_ok_extends [OF _ w1(6)] by (auto simp: run_simps header_ok_extends [OF _ w1(6)])
  from Cons.IH [OF w1(3) old(1)] Cons.prems(3) w1(4) obtain hs' w2 where
    w2: "sort_blocks S hs w1 = Inr (hs', w2)" "inv w2" "extends S w1 w2" "room w2 + length hs = room w1"
    "list_all2 (\<lambda>h h'. run_ok S w2 n [h'] \<and> block_at S w2 h' = block_at S w1 h) hs hs'" by auto
  let ?h = "h\<lparr>hash := g\<rparr>"
  have rd: "readIn S g w2 = Inr b" using w1(5) w2(3) by (simp add: extends_def)
  then have h: "block_at S w2 ?h = block_at S w h" by (simp add: b(2)) (simp add: block_at_def)
  have "header_ok S w2 n ?h" using rd b w1(2) by (simp add: header_ok_def)
  then have "run_ok S w2 n [?h]" using run h by (simp add: run_simps)
  moreover have "list_all2 (\<lambda>h h'. run_ok S w2 n [h'] \<and> block_at S w2 h' = block_at S w h) hs hs'"
    using w2(5) by (rule list.rel_mono_strong) (use old(2) in auto)
  ultimately show ?case
    using b(1) srt w1(1,4) w2(1,2,4) h extends_trans [OF w1(6) w2(3)] by simp
qed

end

lemma levels_ok_replace0:
  assumes "levels_ok S w 0 ix"
  shows "levels_ok S w (Suc 0) (ix\<lparr>levels := (levels ix)[0 := X]\<rparr>)"
  using assms by (auto simp: levels_ok_def)

lemma drop_Suc_update [simp]: "drop (Suc 0) (xs[0 := x]) = drop (Suc 0) xs"
  by (cases xs) auto

text \<open>The level that \<open>compact\<close> adds when level 0 is the only one.\<close>

lemma ensure_level1_ok:
  assumes ix: "levels_ok S w (Suc 0) ix" and ne: "levels ix \<noteq> []" and n: "n = unat (blocksize ix)"
    and sz: "maxSize L = int (2 * n)"
    and fit: "length (levels ix) = 1 \<Longrightarrow> 2 * n * 10 < 2 ^ 31"
  obtains ix' where
    "(if numLevels ix = 1 then bindr (checked_int (10 * maxSize L)) (\<lambda>sz.
        bindr (addLevel sz ix) (\<lambda>(_, ix'). Inr ix')) else Inr ix) = Inr ix'"
    "levels_ok S w (Suc 0) ix'" "blocksize ix' = blocksize ix"
    "levels ix' = levels ix \<and> 1 < length (levels ix) \<or>
     (\<exists>N. levels ix' = levels ix @ [N] \<and> recordHashes N = [] \<and> length (levels ix) = 1)"
proof (cases "numLevels ix = 1")
  case False
  then show thesis using that [of ix] ix ne
    by (cases "levels ix") (auto simp: levels_ok_def)
next
  case True
  then have len: "length (levels ix) = 1" using ix by (simp add: levels_ok_def)
  let ?sz = "int (2 * n * 10 ^ 1)"
  have e: "10 * maxSize L = ?sz" using sz by simp
  have szr: "int_range ?sz" using fit [OF len] by (intro int_range_nat) simp
  let ?N = "Level_new (numLevels ix) ?sz"
  let ?ix = "ix\<lparr>levels := levels ix @ [?N], numLevels := numLevels ix + 1\<rparr>"
  have ad: "addLevel ?sz ix = Inr (numLevels ix, ?ix)"
    using ix True by (intro addLevel_ok) (auto simp: levels_ok_def int_range_def)
  have "level_ok S w n 1 ?N" using Level_new_ok [OF refl szr] True by simp
  then have "levels_ok S w (Suc 0) ?ix"
    using ix n len True by (auto simp: levels_ok_def nth_append less_Suc_eq int_range_def)
  moreover have "(if numLevels ix = 1 then bindr (checked_int (10 * maxSize L)) (\<lambda>sz.
        bindr (addLevel sz ix) (\<lambda>(_, ix'). Inr ix')) else Inr ix) = Inr ?ix"
    using True unfolding e by (simp only: checked_int_ok [OF szr] bindr_simps ad) simp
  ultimately show thesis using that [of ?ix] len by (simp add: Level_new_def)
qed

context block_store
begin

lemma compact_two_ok:
  assumes inv: "inv w" and ix0: "index_ok S w ix0" and n: "n = unat (blocksize ix0)"
    and h0: "recordHashes (levels ix0 ! 0) = [h0]" and h1: "run_ok S w n [h1]"
    and ix: "ix = ix0\<lparr>levels := (levels ix0)[0 := L]\<rparr>"
    and L: "index L = 0" "maxSize L = int (2 * n)" "recordHashes L = [h0, h1]" "numBlocks L = 2"
    and fit: "2 * n * 10 ^ length (levels ix0) < 2 ^ 31 \<or>
      1 + nblocks (levels ix0) < 2 * 10 ^ (length (levels ix0) - 1)"
    and room: "4 + 2 * nblocks (levels ix0) \<le> room w"
  shows "\<exists>ix' w'. compact S ix w = Inr (ix', w') \<and> inv w' \<and> extends S w w' \<and>
    pushed S w w' 1 [h1] 0 ix0 ix' \<and> recordHashes (levels ix' ! 0) = [] \<and>
    room w \<le> room w' + 4 + 2 * nblocks (levels ix0)"
proof -
  let ?Ls = "drop (Suc 0) (levels ix0)"
  have lev: "levels_ok S w 0 ix0" and len0: "0 < length (levels ix0)"
    using ix0 by (auto simp: index_ok_def)
  then have pos: "0 < n" and L0: "level_ok S w n 0 (levels ix0 ! 0)" using n by (auto simp: levels_ok_def)
  have run0: "run_ok S w n [h0]" using L0 h0 by (simp add: level_ok_def)
  have szr: "int_range (int (2 * n))" using L0 by (auto simp: level_ok_def)
  have all: "levels ix0 = levels ix0 ! 0 # ?Ls" using drop_nth [OF len0] by simp
  then have nb: "nblocks (levels ix0) = Suc (nblocks ?Ls)"
    using h0 by (metis nblocks_simps(2) length_Cons list.size(3) plus_1_eq_Suc One_nat_def)
  have ixf: "levels ix ! 0 = L" "blocksize ix = blocksize ix0" "numLevels ix = numLevels ix0"
    "length (levels ix) = length (levels ix0)" "drop (Suc 0) (levels ix) = ?Ls"
    using ix len0 by simp_all
  have at: "level_at ix 0 = Inr L" using ixf len0 by (simp add: level_at_def)
  have full: "\<not> blocksize ix * of_int (numBlocks L) < of_int (maxSize L)"
    using n L by (simp add: ixf(2) mult.commute)

  obtain g0 g1 w1 where srt: "sort_blocks S [h0, h1] w = Inr ([g0, g1], w1)" "inv w1" "extends S w w1"
    "room w1 + 2 = room w" "run_ok S w1 n [g0]" "run_ok S w1 n [g1]"
    "block_at S w1 g0 = block_at S w h0" "block_at S w1 g1 = block_at S w h1"
    using sort_blocks_ok [of w "[h0, h1]" n] inv run0 h1 room
    by (auto simp: list_all2_Cons1)
  let ?L1 = "L\<lparr>recordHashes := [g0, g1]\<rparr>"
  let ?ix1 = "ix\<lparr>levels := (levels ix)[0 := ?L1]\<rparr>"
  have s0: "sortL0 S ix w = Inr (?ix1, w1)" using at srt(1) L(3) by (simp add: sortL0_def)
  have rh1: "recordHashes (levels ?ix1 ! 0) = [g0, g1]" using len0 ixf(4) by simp

  have ir0: "int_range 0" by (simp add: int_range_def)
  have "length [g0] + length [g1] \<le> room w1" using srt(4) room by simp
  from merge_ok [OF srt(2,5,6) _ n pos ir0 this] obtain hs w2 where
    m: "merge S (blocksize ix0) [g0] [g1] 0 w1 = Inr (hs, w2)" "inv w2" "extends S w1 w2"
    "run_ok S w2 n hs" "entries S w2 hs = merge_kv (entries S w1 [g0]) (entries S w1 [g1])"
    "length hs \<le> length [g0] + length [g1]" "room w2 + length hs = room w1" by auto
  let ?m0 = "block_at S w h0" and ?m1 = "block_at S w h1"
  have ents: "entries S w2 hs = merge_kv ?m0 ?m1" using m(5) srt(7,8) by simp
  have sk: "sorted_keys ?m0" "sorted_keys ?m1" and "?m0 \<noteq> []"
    using run0 h1 by (auto simp: run_simps is_run_def header_ok_block)
  then have "entries S w2 hs \<noteq> []" unfolding ents using set_merge_kv [of ?m0 ?m1]
    dom_kv_map_merge [of ?m0 ?m1] by (auto simp: dom_kv_map)
  then have hs: "hs \<noteq> []" by auto
  note ext2 = extends_trans [OF srt(3) m(3)]

  have ok1: "levels_ok S w2 (Suc 0) ?ix1"
    using levels_ok_extends [OF levels_ok_replace0 [OF lev] ext2, of ?L1] len0 by (simp add: ix)
  have fit1: "2 * n * 10 < 2 ^ 31" if "length (levels ?ix1) = 1"
    using that fit nb ixf(4) by simp
  have ne1: "levels ?ix1 \<noteq> []" and n1: "n = unat (blocksize ?ix1)" using n ixf len0 by auto
  obtain ix2 where ix2: "(if numLevels ?ix1 = 1 then bindr (checked_int (10 * maxSize L)) (\<lambda>sz.
        bindr (addLevel sz ?ix1) (\<lambda>(_, ix'). Inr ix')) else Inr ?ix1) = Inr ix2"
    "levels_ok S w2 (Suc 0) ix2" "blocksize ix2 = blocksize ?ix1"
    "levels ix2 = levels ?ix1 \<and> 1 < length (levels ?ix1) \<or>
     (\<exists>N. levels ix2 = levels ?ix1 @ [N] \<and> recordHashes N = [] \<and> length (levels ?ix1) = 1)"
    by (rule ensure_level1_ok [OF ok1 ne1 n1 L(2) fit1])
  have len2: "1 < length (levels ix2)" and n2: "n = unat (blocksize ix2)"
    and lo2: "levels_map S w' (drop 1 (levels ix2)) = levels_map S w' ?Ls"
      "levels_ordered S w' (drop 1 (levels ix2)) = levels_ordered S w' ?Ls"
      "level_records S w' (drop 1 (levels ix2)) = level_records S w' ?Ls"
      "nblocks (drop 1 (levels ix2)) = nblocks ?Ls" for w'
    using ix2(3,4) n ixf by (auto simp: level_map_def)
  have zero2: "levels ix2 ! 0 = ?L1"
    using ix2(4) len0 ixf(4) by (auto simp: nth_append)
  have "length (levels ix2) = length (levels ix0) \<or> length (levels ix0) = 1 \<and> length (levels ix2) = 2"
    using ix2(4) ixf(4) by auto
  note lens = this
  have "nblocks ?Ls = 0" if "length (levels ix0) = 1"
    using that by (simp add: nblocks_def)
  then have fit2: "2 * n * 10 ^ length (levels ix2) < 2 ^ 31 \<or>
     length hs + nblocks (drop 1 (levels ix2)) < 2 * 10 ^ (length (levels ix2) - 1)"
    using lens fit m(6) nb unfolding lo2(4) by auto
  have room2: "length hs + 2 * nblocks (drop 1 (levels ix2)) \<le> room w2"
    unfolding lo2(4) using m(6,7) srt(4) room nb by simp
  have ok2: "levels_ok S w2 1 ix2" and hs2: "length hs \<le> 10 ^ 1"
    and fuel: "length (levels ix2) - 1 < length (levels ix2) + 2 \<or>
      0 < length (levels ix2) + 2 \<and> length hs + length (recordHashes (levels ix2 ! 1)) < 2 * 10 ^ 1"
    using ix2(2) m(6) by (simp_all, linarith)
  from compactHelper_ok [OF m(2) ok2 len2 n2 m(4) hs hs2 fuel fit2 room2]
  obtain ix3 w3 where c: "compactHelper S (length (levels ix2) + 2) ix2 hs 1 w2 = Inr (ix3, w3)"
    "inv w3" "extends S w2 w3" "pushed S w2 w3 (length hs) hs 1 ix2 ix3"
    "room w2 \<le> room w3 + length hs + 2 * nblocks ?Ls"
    unfolding lo2(4) by blast
  note P = pushedD [OF c(4), unfolded lo2]
  let ?ix4 = "set_level_blocks 0 [] ix3"
  have len3: "length (levels ix0) \<le> length (levels ix3)" "length (levels ix3) \<le> Suc (length (levels ix0))"
    "length (levels ix0) < length (levels ix3) \<Longrightarrow> 2 * 10 ^ (length (levels ix0) - 1) \<le> 2 + nblocks ?Ls"
    using P(4-6) lens m(6) \<open>length (levels ix0) = 1 \<Longrightarrow> nblocks ?Ls = 0\<close>
    by (atomize (full), cases "length (levels ix2) < length (levels ix3)") auto
  have ne3: "levels ix3 \<noteq> []" using len2 P(4) by auto
  have "levels ix3 ! 0 = ?L1"
    using P(3) zero2 by (metis nth_take less_one)
  then have "level_ok S w3 n 0 (set_blocks [] (levels ix3 ! 0))"
    using L szr by (simp add: level_ok_def set_blocks_def bounds_ok_def run_simps)
  then have ok4: "levels_ok S w3 0 ?ix4"
    using set_level_blocks_ok [of S w3 0 ix3 w3 "[]"] P(1,2) n2 ne3 by simp
  have new: "drop 0 (levels ?ix4) = set_blocks [] (levels ix3 ! 0) # drop 1 (levels ix3)"
    using drop_nth [of 0 "levels ?ix4"] ne3 by (simp add: set_level_blocks_nth)
  have old: "drop 0 (levels ix0) = levels ix0 ! 0 # ?Ls" using all by simp
  note below = levels_extends [OF levels_ok_drop [OF lev, of "Suc 0"] ext2, simplified]
  have e1: "entries S w [h1] = ?m1" by simp
  have lm0: "level_map S w (levels ix0 ! 0) = kv_map ?m0" by (simp add: level_map_def h0)
  have lm4: "level_map S w3 (set_blocks [] (levels ix3 ! 0)) = Map.empty" by (simp add: level_map_def)
  have "pushed S w w3 1 [h1] 0 ix0 ?ix4"
  proof (rule pushedI)
    show "level_records S w3 (drop 0 (levels ?ix4)) \<subseteq>
        set (entries S w [h1]) \<union> level_records S w (drop 0 (levels ix0))"
      using P(8) set_merge_kv [of ?m0 ?m1] unfolding new old ents e1 below by (auto simp: h0)
    show "dom (levels_map S w3 (drop 0 (levels ?ix4))) =
        dom (kv_map (entries S w [h1])) \<union> dom (levels_map S w (drop 0 (levels ix0)))"
      using P(9) dom_kv_map_merge [of ?m0 ?m1] unfolding new old ents e1 below
      by (auto simp: lm0 lm4)
  next
    assume "newer (kv_map (entries S w [h1])) (levels_map S w (drop 0 (levels ix0)))"
      "levels_ordered S w (drop 0 (levels ix0))"
    then have ord: "newer (kv_map ?m1) (levels_map S w ?Ls ++ kv_map ?m0)"
      "newer (kv_map ?m0) (levels_map S w ?Ls)" "levels_ordered S w ?Ls"
      unfolding old e1 by (simp_all add: lm0)
    note mm = merge_maps_older [OF sk ord(1,2)]
    show "levels_map S w3 (drop 0 (levels ?ix4)) =
        levels_map S w (drop 0 (levels ix0)) ++ kv_map (entries S w [h1]) \<and>
      levels_ordered S w3 (drop 0 (levels ?ix4))"
      using P(10,11) mm ord(3) unfolding new old ents e1 below by (simp add: lm0 lm4)
  next
    show "nblocks (drop 0 (levels ?ix4)) \<le> length [h1] + nblocks (drop 0 (levels ix0))"
      using P(7) m(6) nb unfolding new by simp
  qed (use P(1) ix2(3) ixf ok4 len3 nb in \<open>simp_all\<close>)
  moreover have "compact S ix w = Inr (?ix4, w3)"
    using at full s0 rh1 m(1) ix2(1,3) c(1) ixf(2)
    by (simp add: compact_def)
  moreover have "room w \<le> room w3 + 4 + 2 * nblocks (levels ix0)"
    using srt(4) m(6,7) c(5) nb by simp
  moreover have "recordHashes (levels ?ix4 ! 0) = []" using ne3 by (simp add: set_level_blocks_nth)
  ultimately show ?thesis using c(2) extends_trans [OF ext2 c(3)] by blast
qed

end

section \<open>Adding a block to the index\<close>

text \<open>Level 0 gets its first block: nothing is compacted.\<close>

lemma compact_small:
  assumes "levels ix \<noteq> []" "L = levels ix ! 0" "n = unat (blocksize ix)" "0 < n"
    "maxSize L = int (2 * n)" "int_range (maxSize L)" "numBlocks L = 1"
  shows "compact S ix w = Inr (ix, w)"
proof -
  have "blocksize ix * of_int (numBlocks L) = of_nat n" using assms(3,7) by simp
  moreover have "of_int (maxSize L) = (of_nat (2 * n) :: size_t)"
    using assms(5) by (simp only: of_int_of_nat_eq)
  moreover have "2 * n < 2 ^ 64" using assms(5,6) by (simp add: int_range_def)
  then have "(of_nat n :: size_t) < of_nat (2 * n)"
    using assms(4) of_nat_le_size_iff [of "2 * n" n] by (simp only: not_le [symmetric]) simp
  ultimately have "blocksize ix * of_int (numBlocks L) < of_int (maxSize L)" by (simp only:)
  then show ?thesis using assms(1,2) by (simp add: compact_def level_at_def)
qed

lemma pushed_empty0:
  assumes ix: "index_ok S w ix" and n: "n = unat (blocksize ix)"
    and L: "recordHashes (levels ix ! 0) = []" "level_ok S w n 0 L" "recordHashes L = [bh]"
  shows "pushed S w w 1 [bh] 0 ix (ix\<lparr>levels := (levels ix)[0 := L]\<rparr>)"
proof -
  have ok: "levels_ok S w 0 ix" and len: "0 < length (levels ix)" using ix by (auto simp: index_ok_def)
  let ?ix = "ix\<lparr>levels := (levels ix)[0 := L]\<rparr>" and ?Ls = "drop (Suc 0) (levels ix)"
  have "levels_ok S w 0 ?ix"
    using ok L(2) n len unfolding levels_ok_def by (auto simp: nth_list_update)
  moreover have old: "drop 0 (levels ix) = levels ix ! 0 # ?Ls" using drop_nth [OF len] .
  have "drop 0 (levels ?ix) = L # ?Ls"
    using drop_nth [of 0 "levels ?ix"] len by simp
  note new = this
  have lm: "level_map S w (levels ix ! 0) = Map.empty" "level_map S w L = kv_map (entries S w [bh])"
    by (simp_all add: level_map_def L)
  show ?thesis
    by (rule pushedI) (unfold old new, use calculation L(1,3) lm in auto)
qed

text \<open>
  Where the block goes: it becomes the only block of an empty level 0, the other levels staying as they are;
  a level 0 that had a block is emptied by the compaction.
\<close>

definition in_level0 :: "blockHeader \<Rightarrow> CapsuleIndex \<Rightarrow> CapsuleIndex \<Rightarrow> bool" where
  "in_level0 bh ix ix' \<longleftrightarrow>
     (if recordHashes (levels ix ! 0) = []
      then \<exists>L. levels ix' = L # tl (levels ix) \<and> recordHashes L = [bh]
      else recordHashes (levels ix' ! 0) = [])"

context block_store
begin

text \<open>
  Adding the block of a flush to level 0: with room for the blocks that a compaction can write and
  a size for one more level, \<open>add_hash\<close> succeeds.
\<close>

lemma add_hash_ok:
  assumes inv: "inv w" and ix: "index_ok S w ix" and n: "n = unat (blocksize ix)"
    and bh: "bh = \<lparr>hash = h, minKey = getMinKey b, maxKey = getMaxKey b\<rparr>" "run_ok S w n [bh]"
    and fit: "2 * n * 10 ^ length (levels ix) < 2 ^ 31 \<or>
      1 + nblocks (levels ix) < 2 * 10 ^ (length (levels ix) - 1)"
    and room: "4 + 2 * nblocks (levels ix) \<le> room w"
  shows "\<exists>ix' w'. add_hash S 0 h b ix w = Inr (0, ix', w') \<and> inv w' \<and> extends S w w' \<and>
    pushed S w w' 1 [bh] 0 ix ix' \<and> in_level0 bh ix ix' \<and>
    room w \<le> room w' + 4 + 2 * nblocks (levels ix)"
proof -
  let ?L = "levels ix ! 0"
  have ok: "levels_ok S w 0 ix" and len: "0 < length (levels ix)" using ix by (auto simp: index_ok_def)
  then have pos: "0 < n" and L: "level_ok S w n 0 ?L" using n by (auto simp: levels_ok_def)
  have at: "level_at ix 0 = Inr ?L" and num: "0 < numLevels ix"
    using len ok by (auto simp: level_at_def levels_ok_def)
  have fields: "index ?L = 0" "maxSize ?L = int (2 * n)" "int_range (maxSize ?L)" "bounds_ok ?L"
    "run_ok S w n (recordHashes ?L)" "length (recordHashes ?L) < 2"
    using L by (auto simp: level_ok_def)
  consider "recordHashes ?L = []" | h0 where "recordHashes ?L = [h0]"
    using fields(6) by (cases "recordHashes ?L" rule: list.exhaust) (auto simp: length_Suc_conv less_Suc_eq)
  then show ?thesis
  proof cases
    case 1
    let ?L' = "?L\<lparr>numBlocks := 1, min_key := getMinKey b, max_key := getMaxKey b, recordHashes := [bh]\<rparr>"
    let ?ix = "ix\<lparr>levels := (levels ix)[0 := ?L']\<rparr>"
    have "addBlock b h ?L = Inr (0, ?L')"
      using fields(4) 1 bh(1) by (simp add: addBlock_def bounds_ok_def Let_def checked_int_ok int_range_def)
    moreover have "compact S ?ix w = Inr (?ix, w)"
      using compact_small [of ?ix ?L' n S w] len n pos fields by simp
    moreover have "level_ok S w n 0 ?L'"
      using fields bh by (simp add: level_ok_def bounds_ok_def)
    then have "pushed S w w 1 [bh] 0 ix ?ix" using pushed_empty0 [OF ix n 1] by simp
    moreover have "in_level0 bh ix ?ix" using 1 len by (cases "levels ix") (auto simp: in_level0_def)
    ultimately show ?thesis using at num inv by (simp add: add_hash_def)
  next
    case (2 h0)
    let ?L' = "?L\<lparr>recordHashes := [h0, bh], numBlocks := 2, min_key := min (min_key ?L) (getMinKey b),
      max_key := max (max_key ?L) (getMaxKey b)\<rparr>"
    have "header_ok S w n h0" "is_run (block_at S w h0)" using fields(5) 2 by (simp_all add: run_simps)
    then have "minKey h0 \<noteq> ''''" "maxKey h0 \<noteq> ''''"
      using header_ok_block [of S w n h0] by (auto simp: is_run_def)
    then have add: "addBlock b h ?L = Inr (0, ?L')"
      using fields(1,4) 2 bh(1)
      by (simp add: addBlock_def bounds_ok_def Let_def checked_int_ok int_range_def)
    have "\<exists>ix' w'. compact S (ix\<lparr>levels := (levels ix)[0 := ?L']\<rparr>) w = Inr (ix', w') \<and> inv w' \<and>
        extends S w w' \<and> pushed S w w' 1 [bh] 0 ix ix' \<and> recordHashes (levels ix' ! 0) = [] \<and>
        room w \<le> room w' + 4 + 2 * nblocks (levels ix)"
      using compact_two_ok [OF inv ix n 2 bh(2) refl _ _ _ _ fit room, of ?L'] fields(1,2) by simp
    then show ?thesis using at num add 2 by (auto simp: add_hash_def in_level0_def)
  qed
qed

end

end
