(* ===== verification/Memtable.thy ===== *)
theory Memtable
  imports OrdMap IndexCompact
begin

text \<open>
  \<open>src/src/core/memtable.hpp\<close> and \<open>memtable.cc\<close>: the table in memory that takes the writes, with one
  mutex per key, and writes itself out to level 0 of the index when it is full. Here calls run one at a
  time, and a mutex is modelled to show that every call releases what it locks; theory Threads has
  several callers.
\<close>

section \<open>The class\<close>

datatype mutex = Unlocked | Locked

record Memtable =
  max_size :: size_t
  memtable :: "kvs_payload omap"
  locklst :: "mutex omap"

definition Memtable_new :: "size_t \<Rightarrow> Memtable" where
  "Memtable_new ms = \<lparr>max_size = ms, memtable = [], locklst = []\<rparr>"

text \<open>
  \<open>lock()\<close> on the mutex of a key waits when it is held; with one thread nobody would release it.
  The state of the mutexes behind the pointers of \<open>locklst\<close> is kept in \<open>locklst\<close> itself: every
  key has a mutex of its own.
\<close>

definition mutex_lock :: "string \<Rightarrow> Memtable \<Rightarrow> Memtable res" where
  "mutex_lock k mt =
     bindr (map_at k (locklst mt)) (\<lambda>m.
     case m of Locked \<Rightarrow> Inl Blocked
     | Unlocked \<Rightarrow> Inr (mt\<lparr>locklst := map_assign k Locked (locklst mt)\<rparr>))"

definition mutex_unlock :: "string \<Rightarrow> Memtable \<Rightarrow> Memtable res" where
  "mutex_unlock k mt =
     bindr (map_at k (locklst mt)) (\<lambda>m.
     case m of Unlocked \<Rightarrow> Inl (Undefined_behaviour ''unlock'')
     | Locked \<Rightarrow> Inr (mt\<lparr>locklst := map_assign k Unlocked (locklst mt)\<rparr>))"

text \<open>\<open>u\<close> is the indeterminate time stamp of the default-initialised payload \<open>got\<close>.\<close>

definition Memtable_get :: "string \<Rightarrow> int64 \<Rightarrow> Memtable \<Rightarrow> (kvs_payload \<times> Memtable) res" where
  "Memtable_get k u mt =
     (case map_find k (locklst mt) of
        None \<Rightarrow> Inr ((kvs_payload_default u)\<lparr>key := ''''\<rparr>, mt)
      | Some _ \<Rightarrow>
          bindr (mutex_lock k mt) (\<lambda>mt1.
          bindr (map_at k (memtable mt1)) (\<lambda>got.
          bindr (mutex_unlock k mt1) (\<lambda>mt2. Inr (got, mt2)))))"

text \<open>The loop of \<open>write_out_if_full\<close> over the table, with the block and the two bounds.\<close>

fun fill_block :: "kvs_payload omap \<Rightarrow> CapsuleBlock \<Rightarrow> string \<Rightarrow> string \<Rightarrow>
    CapsuleBlock \<times> string \<times> string" where
  "fill_block [] b mn mx = (b, mn, mx)"
| "fill_block ((k, p) # m) b mn mx = fill_block m (addKVPair p b) (min mn k) (max mx k)"

text \<open>\<open>begin()->first\<close> of an empty map is undefined behaviour.\<close>

definition write_out_if_full :: "'w store_ops \<Rightarrow> Memtable \<Rightarrow> CapsuleIndex \<Rightarrow> 'w \<Rightarrow>
    (Memtable \<times> CapsuleIndex \<times> 'w) res" where
  "write_out_if_full S mt ix w =
     (if of_nat (length (memtable mt)) \<ge> max_size mt
      then
        (case memtable mt of
           [] \<Rightarrow> Inl (Undefined_behaviour ''begin of an empty map'')
         | (k0, _) # _ \<Rightarrow>
             (case fill_block (memtable mt) (CapsuleBlock_new 0) k0 k0 of (b, mn, mx) \<Rightarrow>
               (let capsule_block = setMaxKey mx (setMinKey mn b) in
                bindr (writeOut S capsule_block w) (\<lambda>(record_hash, w1).
                bindr (add_hash S 0 record_hash capsule_block ix w1) (\<lambda>(_, ix', w2).
                Inr (mt\<lparr>memtable := [], locklst := []\<rparr>, ix', w2))))))
      else Inr (mt, ix, w))"

definition Memtable_put :: "'w store_ops \<Rightarrow> kvs_payload \<Rightarrow> Memtable \<Rightarrow> CapsuleIndex \<Rightarrow> 'w \<Rightarrow>
    (bool \<times> Memtable \<times> CapsuleIndex \<times> 'w) res" where
  "Memtable_put S payload mt ix w =
     (let k = key payload in
      case map_find k (locklst mt) of
        Some _ \<Rightarrow>
          bindr (mutex_lock k mt) (\<lambda>mt1.
          case map_find k (memtable mt1) of
            None \<Rightarrow> Inl (Undefined_behaviour ''end iterator'')
          | Some prev \<Rightarrow>
              if sint (txn_timestamp payload) \<le> sint (txn_timestamp prev)
              then bindr (mutex_unlock k mt1) (\<lambda>mt2. Inr (False, mt2, ix, w))
              else bindr (mutex_unlock k (mt1\<lparr>memtable := map_assign k payload (memtable mt1)\<rparr>))
                     (\<lambda>mt2. Inr (True, mt2, ix, w)))
      | None \<Rightarrow>
          bindr (write_out_if_full S mt ix w) (\<lambda>(mt1, ix', w').
          bindr (mutex_lock k (mt1\<lparr>locklst := map_assign k Unlocked (locklst mt1)\<rparr>)) (\<lambda>mt2.
          bindr (mutex_unlock k (mt2\<lparr>memtable := map_assign k payload (memtable mt2)\<rparr>)) (\<lambda>mt3.
          Inr (True, mt3, ix', w')))))"

section \<open>The invariant\<close>

text \<open>
  The table and the locks have the same keys in the same order, no mutex is held, every record is
  stored under its own key, no key is empty, and the table is not larger than its capacity.
\<close>

definition memtable_ok :: "Memtable \<Rightarrow> bool" where
  "memtable_ok mt \<longleftrightarrow> map_ok (memtable mt) \<and> map fst (locklst mt) = map fst (memtable mt) \<and>
     snd ` set (locklst mt) \<subseteq> {Unlocked} \<and>
     (\<forall>(k, p) \<in> set (memtable mt). key p = k \<and> k \<noteq> '''') \<and>
     0 < unat (max_size mt) \<and> length (memtable mt) \<le> unat (max_size mt)"

definition mem_map :: "Memtable \<Rightarrow> kv_fun" where
  "mem_map mt k = map_find k (memtable mt)"

definition records :: "Memtable \<Rightarrow> kvs_payload list" where
  "records mt = map snd (memtable mt)"

lemma memtable_ok_new: "0 < unat ms \<Longrightarrow> memtable_ok (Memtable_new ms)"
  by (simp add: memtable_ok_def Memtable_new_def)

lemma mem_map_new [simp]: "mem_map (Memtable_new ms) = Map.empty"
  by (simp add: mem_map_def Memtable_new_def fun_eq_iff)

lemma memtable_ok_locks:
  assumes "memtable_ok mt"
  shows "map_ok (locklst mt)" "fst ` set (locklst mt) = fst ` set (memtable mt)"
    "map_find k (locklst mt) = (if mem_map mt k = None then None else Some Unlocked)"
proof -
  show ok: "map_ok (locklst mt)" using assms by (simp add: memtable_ok_def map_ok_def)
  have eq: "map fst (locklst mt) = map fst (memtable mt)" using assms by (simp add: memtable_ok_def)
  show keys: "fst ` set (locklst mt) = fst ` set (memtable mt)"
    using arg_cong [OF eq, of set] by simp
  have "map_find k (locklst mt) = Some Unlocked" if "map_find k (locklst mt) \<noteq> None"
  proof -
    from that obtain m where m: "map_find k (locklst mt) = Some m" by auto
    then have "(k, m) \<in> set (locklst mt)" using map_find_items [OF ok] by simp
    then have "m \<in> snd ` set (locklst mt)" by force
    moreover have "snd ` set (locklst mt) \<subseteq> {Unlocked}" using assms unfolding memtable_ok_def by blast
    ultimately show ?thesis using m by auto
  qed
  then show "map_find k (locklst mt) = (if mem_map mt k = None then None else Some Unlocked)"
    using map_find_None_iff [of k "locklst mt"] map_find_None_iff [of k "memtable mt"]
    by (simp add: mem_map_def keys)
qed

lemma memtable_ok_key:
  assumes "memtable_ok mt" "mem_map mt k = Some p"
  shows "key p = k" "k \<noteq> ''''"
proof -
  have "(k, p) \<in> set (memtable mt)"
    using assms map_find_items by (fastforce simp: memtable_ok_def mem_map_def)
  then show "key p = k" "k \<noteq> ''''" using assms(1) by (auto simp: memtable_ok_def)
qed

text \<open>Locking and unlocking the mutex of a key leaves the locks as they were.\<close>

lemma map_assign_back:
  "map_find k m = Some x \<Longrightarrow> map_ok m \<Longrightarrow> map_assign k x (map_assign k y m) = m"
proof (induction k x m rule: map_assign.induct)
  case (2 k x l z m)
  then have "l \<noteq> k \<Longrightarrow> (k, x) \<in> set m" by (simp add: map_find_items)
  with 2 show ?case by force
qed simp

lemma lock_unlock:
  assumes "map_find k (locklst mt) = Some Unlocked" "map_ok (locklst mt)"
  shows "mutex_lock k mt = Inr (mt\<lparr>locklst := map_assign k Locked (locklst mt)\<rparr>)"
    "mutex_unlock k (mt\<lparr>locklst := map_assign k Locked (locklst mt), memtable := m\<rparr>) = Inr (mt\<lparr>memtable := m\<rparr>)"
    "mutex_unlock k (mt\<lparr>locklst := map_assign k Locked (locklst mt)\<rparr>) = Inr mt"
  using assms
  by (simp_all add: mutex_lock_def mutex_unlock_def map_at_def map_assign_back)

lemma records_run:
  assumes "memtable_ok mt"
  shows "is_run (records mt)" "kv_map (records mt) = mem_map mt"
    "map fst (memtable mt) = map key (records mt)"
proof -
  show keys: "map fst (memtable mt) = map key (records mt)"
    using assms by (auto simp: memtable_ok_def records_def)
  have "sorted_keys (records mt)"
    using assms unfolding sorted_keys_def keys [symmetric] by (simp add: memtable_ok_def map_ok_def)
  then show "is_run (records mt)"
    using assms by (auto simp: is_run_def memtable_ok_def records_def)
  have "kv_map (map snd m) k = map_find k m" if "\<forall>(k, p) \<in> set m. key p = k" for m :: "kvs_payload omap" and k
    using that by (induction k m rule: map_find.induct) auto
  moreover have "\<forall>(k, p) \<in> set (memtable mt). key p = k" using assms by (auto simp: memtable_ok_def)
  ultimately show "kv_map (records mt) = mem_map mt" by (simp add: fun_eq_iff mem_map_def records_def)
qed

section \<open>What the operations do\<close>

lemma Memtable_get_ok:
  assumes "memtable_ok mt"
  shows "Memtable_get k u mt =
    Inr (case mem_map mt k of None \<Rightarrow> kvs_payload_default u | Some p \<Rightarrow> p, mt)"
proof (cases "mem_map mt k")
  case None
  then show ?thesis
    using memtable_ok_locks(3) [OF assms]
    by (simp add: Memtable_get_def kvs_payload_default_def)
next
  case (Some p)
  then have l: "map_find k (locklst mt) = Some Unlocked"
    using memtable_ok_locks(3) [OF assms] by simp
  show ?thesis
    using Some l lock_unlock [OF l memtable_ok_locks(1) [OF assms]]
    by (simp add: Memtable_get_def map_at_def mem_map_def)
qed

text \<open>A put of a key that is in the table: the record is replaced when its time stamp is smaller.\<close>

lemma Memtable_put_present:
  assumes ok: "memtable_ok mt" and q: "mem_map mt (key p) = Some q"
  shows "Memtable_put S p mt ix w =
    (if sint (txn_timestamp p) \<le> sint (txn_timestamp q) then Inr (False, mt, ix, w)
     else Inr (True, mt\<lparr>memtable := map_assign (key p) p (memtable mt)\<rparr>, ix, w))"
proof -
  have l: "map_find (key p) (locklst mt) = Some Unlocked"
    using q memtable_ok_locks(3) [OF ok] by simp
  show ?thesis
    using q l lock_unlock [OF l memtable_ok_locks(1) [OF ok]]
    by (simp add: Memtable_put_def Let_def mem_map_def)
qed

text \<open>A put of a new key, after the table was written out if it was full.\<close>

definition insert_new :: "kvs_payload \<Rightarrow> Memtable \<Rightarrow> Memtable" where
  "insert_new p mt = mt\<lparr>locklst := map_assign (key p) Unlocked (locklst mt),
     memtable := map_assign (key p) p (memtable mt)\<rparr>"

lemma Memtable_put_absent:
  assumes ok: "memtable_ok mt" and q: "mem_map mt (key p) = None"
    and out: "write_out_if_full S mt ix w = Inr (mt1, ix', w')" and ok1: "memtable_ok mt1"
  shows "Memtable_put S p mt ix w = Inr (True, insert_new p mt1, ix', w')"
proof -
  have l: "map_find (key p) (locklst mt) = None"
    using q memtable_ok_locks(3) [OF ok] by simp
  let ?k = "key p" and ?m = "mt1\<lparr>locklst := map_assign (key p) Unlocked (locklst mt1)\<rparr>"
  have "map_find ?k (locklst ?m) = Some Unlocked" "map_ok (locklst ?m)"
    using memtable_ok_locks(1) [OF ok1] by (simp_all add: map_ok_assign)
  note lk = lock_unlock [OF this]
  show ?thesis
    using l out lk(1) lk(2) [of "map_assign ?k p (memtable mt1)"]
    by (simp add: Memtable_put_def Let_def insert_new_def)
qed

lemma memtable_ok_update:
  assumes ok: "memtable_ok mt" and q: "mem_map mt (key p) = Some q"
  shows "memtable_ok (mt\<lparr>memtable := map_assign (key p) p (memtable mt)\<rparr>)"
    "mem_map (mt\<lparr>memtable := map_assign (key p) p (memtable mt)\<rparr>) = (mem_map mt)(key p \<mapsto> p)"
proof -
  let ?m = "map_assign (key p) p (memtable mt)"
  have mok: "map_ok (memtable mt)" using ok by (simp add: memtable_ok_def)
  have find: "map_find l ?m = (if l = key p then Some p else map_find l (memtable mt))" for l
    using map_find_assign [OF mok] .
  then show "mem_map (mt\<lparr>memtable := ?m\<rparr>) = (mem_map mt)(key p \<mapsto> p)"
    by (auto simp: mem_map_def)
  have "map fst ?m = map fst (map_assign (key p) q (memtable mt))" by (rule map_assign_same_keys) simp
  also have "map_assign (key p) q (memtable mt) = memtable mt"
    using q mok by (metis map_assign_same mem_map_def)
  finally have keys: "map fst ?m = map fst (memtable mt)" .
  then have "length ?m = length (memtable mt)" by (metis length_map)
  moreover have "\<forall>(k, r) \<in> set ?m. key r = k \<and> k \<noteq> ''''"
  proof clarify
    fix k r assume "(k, r) \<in> set ?m"
    then have "map_find k ?m = Some r" using map_find_items [OF map_ok_assign [OF mok]] by simp
    then have "mem_map mt k = Some r \<or> k = key p \<and> r = p" by (auto simp: find mem_map_def split: if_splits)
    then show "key r = k \<and> k \<noteq> ''''" using memtable_ok_key [OF ok] q by auto
  qed
  ultimately show "memtable_ok (mt\<lparr>memtable := ?m\<rparr>)"
    using ok keys map_ok_assign [OF mok] unfolding memtable_ok_def by simp
qed

lemma memtable_ok_insert:
  assumes ok: "memtable_ok mt" and q: "mem_map mt (key p) = None" "key p \<noteq> ''''"
    and small: "length (memtable mt) < unat (max_size mt)"
  shows "memtable_ok (insert_new p mt)" "mem_map (insert_new p mt) = (mem_map mt)(key p \<mapsto> p)"
    "length (memtable (insert_new p mt)) = Suc (length (memtable mt))"
proof -
  let ?m = "map_assign (key p) p (memtable mt)" and ?l = "map_assign (key p) Unlocked (locklst mt)"
  have mok: "map_ok (memtable mt)" using ok by (simp add: memtable_ok_def)
  have find: "map_find l ?m = (if l = key p then Some p else map_find l (memtable mt))" for l
    using map_find_assign [OF mok] .
  then show "mem_map (insert_new p mt) = (mem_map mt)(key p \<mapsto> p)"
    by (auto simp: mem_map_def insert_new_def)
  have len: "length ?m = Suc (length (memtable mt))"
    using om.length_items_assign [OF mok] q(1) by (simp add: mem_map_def)
  then show "length (memtable (insert_new p mt)) = Suc (length (memtable mt))"
    by (simp add: insert_new_def)
  have "map fst ?l = map fst ?m"
    using ok by (intro map_assign_same_keys) (simp add: memtable_ok_def)
  moreover have "\<forall>(k, m) \<in> set ?l. m = Unlocked"
  proof clarify
    fix k m assume "(k, m) \<in> set ?l"
    then have "map_find k ?l = Some m"
      using map_find_items [OF map_ok_assign [OF memtable_ok_locks(1) [OF ok]]] by simp
    then show "m = Unlocked"
      using map_find_assign [OF memtable_ok_locks(1) [OF ok]] memtable_ok_locks(3) [OF ok]
      by (auto split: if_splits)
  qed
  then have "snd ` set ?l \<subseteq> {Unlocked}" by auto
  moreover have "\<forall>(k, r) \<in> set ?m. key r = k \<and> k \<noteq> ''''"
  proof clarify
    fix k r assume "(k, r) \<in> set ?m"
    then have "map_find k ?m = Some r" using map_find_items [OF map_ok_assign [OF mok]] by simp
    then have "mem_map mt k = Some r \<or> k = key p \<and> r = p" by (auto simp: find mem_map_def split: if_splits)
    then show "key r = k \<and> k \<noteq> ''''" using memtable_ok_key [OF ok] q(2) by auto
  qed
  ultimately show "memtable_ok (insert_new p mt)"
    using ok len small map_ok_assign [OF mok] unfolding memtable_ok_def insert_new_def by simp
qed

section \<open>Writing the table out\<close>

lemma fill_block_run:
  assumes "map_ok m" "\<forall>p \<in> set m. mn \<le> fst p \<and> mx \<le> fst p"
  shows "fill_block m b mn mx =
    (addKVPairs (map snd m) b, mn, if m = [] then mx else fst (last m))"
  using assms
proof (induction m b mn mx rule: fill_block.induct)
  case (2 k p m b mn mx)
  then have "\<forall>p \<in> set m. mn \<le> fst p \<and> k \<le> fst p" by auto
  with 2 show ?case by (auto simp: min_def max_def)
qed simp

lemma write_out_not_full:
  assumes "memtable_ok mt" "length (memtable mt) < unat (max_size mt)"
  shows "write_out_if_full S mt ix w = Inr (mt, ix, w)"
proof -
  have "unat (max_size mt) < 2 ^ 64" using unsigned_less [of "max_size mt"] by simp
  then have "unat (of_nat (length (memtable mt)) :: size_t) = length (memtable mt)"
    using assms(2) by (intro unat_of_nat_small) simp
  then have "\<not> of_nat (length (memtable mt)) \<ge> max_size mt"
    using assms(2) by (simp add: word_le_nat_alt)
  then show ?thesis by (simp add: write_out_if_full_def)
qed

text \<open>
  A flush moves the table to the index: the index has a size for one more level and the store has
  room for the blocks of a compaction. The third definition says what a flush guarantees; among other things,
  that a new level is made only when the others are full, which is the second one.
\<close>

definition index_fits :: "CapsuleIndex \<Rightarrow> bool" where
  "index_fits ix \<longleftrightarrow> 2 * unat (blocksize ix) * 10 ^ length (levels ix) < 2 ^ 31 \<or>
     1 + nblocks (levels ix) < 2 * 10 ^ (length (levels ix) - 1)"

definition deepened :: "CapsuleIndex \<Rightarrow> CapsuleIndex \<Rightarrow> bool" where
  "deepened ix ix' \<longleftrightarrow> length (levels ix') = length (levels ix) \<or>
     length (levels ix') = Suc (length (levels ix)) \<and>
     2 * 10 ^ (length (levels ix) - 1) \<le> Suc (nblocks (levels ix))"

definition flushed :: "'w store_ops \<Rightarrow> 'w \<Rightarrow> 'w \<Rightarrow> kvs_payload list \<Rightarrow> CapsuleIndex \<Rightarrow>
    CapsuleIndex \<Rightarrow> bool" where
  "flushed S w w' ps ix ix' \<longleftrightarrow> index_ok S w' ix' \<and> blocksize ix' = blocksize ix \<and>
     nblocks (levels ix') \<le> Suc (nblocks (levels ix)) \<and> deepened ix ix' \<and>
     level_records S w' (levels ix') \<subseteq> set ps \<union> level_records S w (levels ix) \<and>
     dom (index_map S w' ix') = dom (kv_map ps) \<union> dom (index_map S w ix) \<and>
     (\<exists>bh. in_level0 bh ix ix' \<and>
        (recordHashes (levels ix ! 0) = [] \<longrightarrow> block_at S w' bh = ps)) \<and>
     (newer (kv_map ps) (index_map S w ix) \<and> levels_ordered S w (levels ix) \<longrightarrow>
        index_map S w' ix' = index_map S w ix ++ kv_map ps \<and> levels_ordered S w' (levels ix'))"

lemma index_ok_extends:
  assumes "index_ok S w ix" "extends S w w'"
  shows "index_ok S w' ix" "index_map S w' ix = index_map S w ix"
    "levels_ordered S w' (levels ix) = levels_ordered S w (levels ix)"
    "level_records S w' (levels ix) = level_records S w (levels ix)"
proof -
  show "index_ok S w' ix" using assms by (auto simp: index_ok_def intro: levels_ok_extends)
  have "levels_ok S w 0 ix" using assms(1) by (simp add: index_ok_def)
  note e = levels_extends [OF levels_ok_drop [OF this, of 0] assms(2)]
  show "index_map S w' ix = index_map S w ix"
    "levels_ordered S w' (levels ix) = levels_ordered S w (levels ix)"
    "level_records S w' (levels ix) = level_records S w (levels ix)"
    using e by (simp_all add: index_map_def)
qed

text \<open>What the levels stand for after a block went to level 0.\<close>

lemma level0_cases:
  assumes "index_ok S w ix" "index_ok S w' ix'" "extends S w w'" "in_level0 bh ix ix'"
  shows "if recordHashes (levels ix ! 0) = []
    then (\<exists>L. levels ix' = L # tl (levels ix) \<and> recordHashes L = [bh]) \<and>
      levels_map S w' (tl (levels ix)) = levels_map S w (tl (levels ix))
    else recordHashes (levels ix' ! 0) = [] \<and> levels_map S w' (tl (levels ix')) = index_map S w' ix'"
proof (cases "recordHashes (levels ix ! 0) = []")
  case True
  have "levels_ok S w 0 ix" using assms(1) by (simp add: index_ok_def)
  note e = levels_extends(1) [OF levels_ok_drop [OF this, of "Suc 0"] assms(3)]
  show ?thesis using True assms(4) e by (simp add: in_level0_def drop_Suc)
next
  case False
  then have "recordHashes (levels ix' ! 0) = []" using assms(4) by (simp add: in_level0_def)
  moreover have "levels ix' \<noteq> []" using assms(2) by (auto simp: index_ok_def)
  ultimately show ?thesis using False by (cases "levels ix'") (simp_all add: index_map_def level_map_def)
qed

context block_store
begin

lemma flush_ok:
  assumes inv: "inv w" and ok: "memtable_ok mt" and full: "length (memtable mt) = unat (max_size mt)"
    and ix: "index_ok S w ix" and bs: "blocksize ix = max_size mt" and fit: "index_fits ix"
    and room: "5 + 2 * nblocks (levels ix) \<le> room w"
  shows "\<exists>ix' w'. write_out_if_full S mt ix w = Inr (mt\<lparr>memtable := [], locklst := []\<rparr>, ix', w') \<and>
    inv w' \<and> extends S w w' \<and> room w \<le> room w' + 5 + 2 * nblocks (levels ix) \<and>
    flushed S w w' (records mt) ix ix'"
proof -
  let ?ps = "records mt"
  have pos: "0 < unat (max_size mt)" and mok: "map_ok (memtable mt)"
    using ok by (simp_all add: memtable_ok_def)
  then have ne: "memtable mt \<noteq> []" using full by auto
  obtain k0 p0 m where m: "memtable mt = (k0, p0) # m" using ne by (cases "memtable mt") auto
  note run = records_run [OF ok]
  have psne: "?ps \<noteq> []" using ne by (simp add: records_def)
  have ends: "k0 = key (hd ?ps)" "fst (last (memtable mt)) = key (last ?ps)"
  proof -
    have "hd (map fst (memtable mt)) = hd (map key ?ps)" "last (map fst (memtable mt)) = last (map key ?ps)"
      using run(3) by simp_all
    then show "k0 = key (hd ?ps)" "fst (last (memtable mt)) = key (last ?ps)"
      using ne psne m by (simp_all add: hd_map last_map del: last.simps list.map)
  qed
  let ?b = "\<lparr>level = 0, startKey = key (hd ?ps), endKey = key (last ?ps), kvPairs = ?ps\<rparr>"
  have "\<forall>p \<in> set (memtable mt). k0 \<le> fst p" using mok m by auto
  then have "fill_block (memtable mt) (CapsuleBlock_new 0) k0 k0 = (?b, k0, key (last ?ps))"
    using fill_block_run [OF mok, of k0 k0 "CapsuleBlock_new 0"] ne ends
      addKVPairs_run [OF run(1) psne, of 0] by (simp add: records_def)
  then have fill: "(case fill_block (memtable mt) (CapsuleBlock_new 0) k0 k0 of (b, mn, mx) \<Rightarrow>
      setMaxKey mx (setMinKey mn b)) = ?b"
    by (simp add: setMaxKey_def setMinKey_def ends)
  have len: "length ?ps \<le> unat (blocksize ix)" using full bs by (simp add: records_def)
  have ir0: "int_range 0" by (simp add: int_range_def)
  have "0 < room w" using room by simp
  from writeOut_run [OF inv this run(1) psne len ir0 refl] obtain h w1 where
    w1: "writeOut S ?b w = Inr (h, w1)" "inv w1" "Suc (room w1) = room w" "extends S w w1"
    "run_ok S w1 (unat (blocksize ix)) [\<lparr>hash = h, minKey = startKey ?b, maxKey = endKey ?b\<rparr>]"
    "entries S w1 [\<lparr>hash = h, minKey = startKey ?b, maxKey = endKey ?b\<rparr>] = ?ps" by blast
  let ?bh = "\<lparr>hash = h, minKey = startKey ?b, maxKey = endKey ?b\<rparr>"
  note ix1 = index_ok_extends [OF ix w1(4)]
  have bh: "?bh = \<lparr>hash = h, minKey = getMinKey ?b, maxKey = getMaxKey ?b\<rparr>" by (simp add: block_getters)
  have "4 + 2 * nblocks (levels ix) \<le> room w1" using w1(3) room by simp
  from add_hash_ok [OF w1(2) ix1(1) refl bh w1(5) fit [unfolded index_fits_def] this] obtain ix' w' where
    w2: "add_hash S 0 h ?b ix w1 = Inr (0, ix', w')" "inv w'" "extends S w1 w'"
    "pushed S w1 w' 1 [?bh] 0 ix ix'" "room w1 \<le> room w' + 4 + 2 * nblocks (levels ix)"
    "in_level0 ?bh ix ix'" by blast
  note D = pushedD [OF w2(4), unfolded w1(6), simplified]
  have "index_ok S w' ix'" using D(2,4) ix by (auto simp: index_ok_def)
  moreover have "newer (kv_map ?ps) (index_map S w ix) \<and> levels_ordered S w (levels ix) \<longrightarrow>
      index_map S w' ix' = index_map S w ix ++ kv_map ?ps \<and> levels_ordered S w' (levels ix')"
    using D(10,11) unfolding index_map_def ix1(3) ix1(2) [unfolded index_map_def] by blast
  moreover have "deepened ix ix'" using D(4-6) by (force simp: deepened_def)
  moreover have "block_at S w' ?bh = ?ps"
    using run_ok_extends(2) [OF w1(5) w2(3)] w1(6) by simp
  with w2(6) have "\<exists>bh. in_level0 bh ix ix' \<and>
      (recordHashes (levels ix ! 0) = [] \<longrightarrow> block_at S w' bh = ?ps)" by blast
  ultimately have "flushed S w w' ?ps ix ix'"
    using D(1,7,8,9) ix1(2,4) unfolding flushed_def index_map_def by (intro conjI) simp_all
  moreover have "write_out_if_full S mt ix w = Inr (mt\<lparr>memtable := [], locklst := []\<rparr>, ix', w')"
    using full m fill w1(1) w2(1) by (simp add: write_out_if_full_def Let_def split: prod.splits)
  ultimately show ?thesis using w2(2,5) w1(3) extends_trans [OF w1(4) w2(3)] by auto
qed

end

end
