(* ===== verification/Engine.thy ===== *)
theory Engine
  imports Memtable
begin

text \<open>
  \<open>src/src/core/engine.hh\<close> and \<open>engine.cc\<close>: the database, a memtable over an index, with \<open>put\<close> and
  \<open>get\<close>, and the finite map that it stands for.
\<close>

section \<open>The class\<close>

text \<open>
  The constant \<open>signing_key_pem\<close> is left out (nothing reads it), and so is the parameter
  \<open>isMulticast\<close> of \<open>get\<close>, which its body does not use.
\<close>

record CapsuleDB =
  name :: string
  maxLevels :: int
  targetCapsule :: string
  maxLevelSizes :: "int list"
  db_memtable :: Memtable
  db_index :: CapsuleIndex

definition spawnDB :: "size_t \<Rightarrow> CapsuleDB" where
  "spawnDB memtable_size = \<lparr>name = '''', maxLevels = 5, targetCapsule = '''', maxLevelSizes = [],
     db_memtable = Memtable_new memtable_size, db_index = CapsuleIndex_new memtable_size\<rparr>"

definition connectDB :: int where
  "connectDB = 0"

definition CapsuleDB_put :: "'w store_ops \<Rightarrow> kvs_payload \<Rightarrow> CapsuleDB \<Rightarrow> 'w \<Rightarrow>
    (CapsuleDB \<times> 'w) res" where
  "CapsuleDB_put S payload db w =
     bindr (Memtable_put S payload (db_memtable db) (db_index db) w) (\<lambda>(_, mt, ix, w').
     Inr (db\<lparr>db_memtable := mt, db_index := ix\<rparr>, w'))"

text \<open>The loop of \<open>get\<close> over the records of a block read from level \<open>i\<close>.\<close>

fun scan_block :: "nat \<Rightarrow> string \<Rightarrow> kvs_payload list \<Rightarrow> kvs_payload option" where
  "scan_block i k [] = None"
| "scan_block i k (p # ps) =
     (if i \<noteq> 0 \<and> key p > k then None
      else if key p = k then Some p
      else scan_block i k ps)"

text \<open>The loop over the levels, with \<open>n\<close> levels left from level \<open>i\<close> on.\<close>

fun search_levels :: "'w store_ops \<Rightarrow> string \<Rightarrow> CapsuleIndex \<Rightarrow> 'w \<Rightarrow> nat \<Rightarrow> nat \<Rightarrow>
    kvs_payload option res" where
  "search_levels S k ix w i 0 = Inr None"
| "search_levels S k ix w i (Suc n) =
     bindr (Index_getBlock (int i) k ix) (\<lambda>block_info.
     if block_info \<noteq> ''''
     then bindr (readIn S block_info w) (\<lambda>block.
          case scan_block i k (kvPairs block) of
            Some kv_tuple \<Rightarrow> Inr (Some kv_tuple)
          | None \<Rightarrow> search_levels S k ix w (Suc i) n)
     else search_levels S k ix w (Suc i) n)"

definition CapsuleDB_get :: "'w store_ops \<Rightarrow> string \<Rightarrow> int64 \<Rightarrow> CapsuleDB \<Rightarrow> 'w \<Rightarrow>
    (kvs_payload \<times> CapsuleDB) res" where
  "CapsuleDB_get S k u db w =
     bindr (Memtable_get k u (db_memtable db)) (\<lambda>(kv, mt).
     let db' = db\<lparr>db_memtable := mt\<rparr> in
     if key kv = ''''
     then bindr (search_levels S k (db_index db') w 0 (nat (getNumLevels (db_index db')))) (\<lambda>r.
          case r of Some kv_tuple \<Rightarrow> Inr (kv_tuple, db') | None \<Rightarrow> Inr (kv, db'))
     else Inr (kv, db'))"

section \<open>The map of the database\<close>

definition db_map :: "'w store_ops \<Rightarrow> 'w \<Rightarrow> CapsuleDB \<Rightarrow> kv_fun" where
  "db_map S w db = index_map S w (db_index db) ++ mem_map (db_memtable db)"

definition db_records :: "'w store_ops \<Rightarrow> 'w \<Rightarrow> CapsuleDB \<Rightarrow> kvs_payload set" where
  "db_records S w db = set (records (db_memtable db)) \<union> level_records S w (levels (db_index db))"

definition db_ordered :: "'w store_ops \<Rightarrow> 'w \<Rightarrow> CapsuleDB \<Rightarrow> bool" where
  "db_ordered S w db \<longleftrightarrow> newer (mem_map (db_memtable db)) (index_map S w (db_index db)) \<and>
     levels_ordered S w (levels (db_index db))"

definition db_ok :: "'w store_ops \<Rightarrow> ('w \<Rightarrow> bool) \<Rightarrow> 'w \<Rightarrow> CapsuleDB \<Rightarrow> bool" where
  "db_ok S I w db \<longleftrightarrow> I w \<and> memtable_ok (db_memtable db) \<and> index_ok S w (db_index db) \<and>
     blocksize (db_index db) = max_size (db_memtable db)"

text \<open>A flush of the memtable will not run out of block names or of \<open>int\<close>s for level sizes.\<close>

definition db_ready :: "('w \<Rightarrow> nat) \<Rightarrow> 'w \<Rightarrow> CapsuleDB \<Rightarrow> bool" where
  "db_ready room w db \<longleftrightarrow> index_fits (db_index db) \<and> 5 + 2 * nblocks (levels (db_index db)) \<le> room w"

section \<open>Lookup\<close>

lemma scan_block_sorted: "sorted_keys ps \<Longrightarrow> scan_block i k ps = kv_map ps k"
proof (induction ps)
  case (Cons p ps)
  then show ?case by (auto simp: run_simps kv_map_None_iff dest: less_trans) (metis kv_map_None_iff less_asym)
qed simp

lemma search_levels_ok:
  assumes ix: "levels_ok S w 0 ix" and len: "i + n = length (levels ix)"
  shows "search_levels S k ix w i n = Inr (levels_map S w (drop i (levels ix)) k)"
  using len
proof (induction n arbitrary: i)
  case 0
  then show ?case by simp
next
  case (Suc n)
  let ?L = "levels ix ! i"
  have i: "i < length (levels ix)" using Suc.prems by simp
  have L: "level_ok S w (unat (blocksize ix)) i ?L" using ix i by (simp add: levels_ok_def)
  have IH: "search_levels S k ix w (Suc i) n = Inr (levels_map S w (drop (Suc i) (levels ix)) k)"
    using Suc by simp
  have run: "run_ok S w (unat (blocksize ix)) (recordHashes ?L)" "bounds_ok ?L"
    using L by (simp_all add: level_ok_def)
  obtain g where g: "Level_getBlock k ?L = Inr g"
    "if g = '''' then kv_map (entries S w (recordHashes ?L)) k = None
     else \<exists>h \<in> set (recordHashes ?L). hash h = g \<and>
       kv_map (entries S w (recordHashes ?L)) k = kv_map (block_at S w h) k"
    using Level_getBlock_run [OF run] by blast
  have get: "Index_getBlock (int i) k ix = Inr g"
    using g(1) i ix by (simp add: Index_getBlock_def level_at_def levels_ok_def)
  have map: "levels_map S w (drop i (levels ix)) k =
      (levels_map S w (drop (Suc i) (levels ix)) ++ kv_map (entries S w (recordHashes ?L))) k"
    by (simp add: drop_nth [OF i] level_map_def)
  show ?case
  proof (cases "g = ''''")
    case True
    then show ?thesis using g(2) get IH map by (simp add: map_add_def)
  next
    case False
    with g(2) obtain h where h: "h \<in> set (recordHashes ?L)" "hash h = g"
      "kv_map (entries S w (recordHashes ?L)) k = kv_map (block_at S w h) k" by auto
    then have "header_ok S w (unat (blocksize ix)) h" using run(1) by (simp add: run_ok_def)
    then obtain b where b: "readIn S g w = Inr b" "block_at S w h = kvPairs b"
      using header_ok_read h(2) by metis
    have "run_ok S w (unat (blocksize ix)) [h]"
      using run_ok_subset [OF run(1), of "[h]"] h(1) by (simp add: run_simps)
    then have "sorted_keys (kvPairs b)" using b(2) by (simp add: run_simps is_run_def)
    then have "scan_block i k (kvPairs b) = kv_map (entries S w (recordHashes ?L)) k"
      by (simp add: scan_block_sorted h(3) b(2))
    then show ?thesis using get False b(1) IH map
      by (simp add: map_add_def split: option.splits)
  qed
qed

text \<open>\<open>get\<close> changes nothing and returns what the map holds, or a payload with an empty key.\<close>

lemma get_ok:
  assumes "db_ok S I w db"
  shows "CapsuleDB_get S k u db w =
    Inr (case db_map S w db k of None \<Rightarrow> kvs_payload_default u | Some p \<Rightarrow> p, db)"
proof -
  have mt: "memtable_ok (db_memtable db)" and ix: "levels_ok S w 0 (db_index db)"
    using assms by (simp_all add: db_ok_def index_ok_def)
  have n: "nat (getNumLevels (db_index db)) = length (levels (db_index db))"
    using ix by (simp add: levels_ok_def getNumLevels_def)
  note s = search_levels_ok [OF ix, of 0 "length (levels (db_index db))" k, simplified]
  show ?thesis
    using Memtable_get_ok [OF mt, of k u] s n memtable_ok_key [OF mt, of k]
    by (cases "mem_map (db_memtable db) k")
      (auto simp: CapsuleDB_get_def Let_def db_map_def index_map_def map_add_def
        kvs_payload_default_def split: option.splits)
qed

lemma db_map_records:
  assumes "db_map S w db k = Some p" "memtable_ok (db_memtable db)"
  shows "p \<in> db_records S w db" "key p = k"
proof -
  have "kv_map (records (db_memtable db)) k = Some p \<or> levels_map S w (levels (db_index db)) k = Some p"
    using assms(1) by (auto simp: db_map_def index_map_def map_add_Some_iff records_run(2) [OF assms(2)])
  then have "p \<in> db_records S w db \<and> key p = k"
    unfolding db_records_def using kv_map_SomeD levels_map_in_records by fast
  then show "p \<in> db_records S w db" "key p = k" by auto
qed

section \<open>Update\<close>

text \<open>
  The memtable takes a record unless it holds one for the key that is not older; a record is fresh
  when it is newer than everything the database holds for its key.
\<close>

definition db_accepts :: "CapsuleDB \<Rightarrow> kvs_payload \<Rightarrow> bool" where
  "db_accepts db p \<longleftrightarrow> (case mem_map (db_memtable db) (key p) of None \<Rightarrow> True
     | Some q \<Rightarrow> sint (txn_timestamp q) < sint (txn_timestamp p))"

definition fresh :: "kv_fun \<Rightarrow> kvs_payload \<Rightarrow> bool" where
  "fresh m p \<longleftrightarrow> (case m (key p) of None \<Rightarrow> True
     | Some q \<Rightarrow> sint (txn_timestamp q) < sint (txn_timestamp p))"

text \<open>
  What a put guarantees. No key is lost and the only new one is that of \<open>p\<close>; every record comes
  from \<open>p\<close> or the old database; an accepted record is what the next lookup of its key finds; a
  refused one changes nothing. When every level is newer than those below it, an accepted put
  changes the map at its key only, and a fresh one keeps this order.
\<close>

definition put_effect :: "'w store_ops \<Rightarrow> 'w \<Rightarrow> 'w \<Rightarrow> kvs_payload \<Rightarrow> CapsuleDB \<Rightarrow> CapsuleDB \<Rightarrow> bool" where
  "put_effect S w w' p db db' \<longleftrightarrow>
     dom (db_map S w' db') = insert (key p) (dom (db_map S w db)) \<and>
     db_records S w' db' \<subseteq> insert p (db_records S w db) \<and>
     (if db_accepts db p
      then db_map S w' db' (key p) = Some p \<and>
        (db_ordered S w db \<longrightarrow> db_map S w' db' = (db_map S w db)(key p \<mapsto> p) \<and>
          (fresh (db_map S w db) p \<longrightarrow> db_ordered S w' db'))
      else db' = db \<and> w' = w)"

text \<open>What a put costs: nothing but one entry of the memtable, or a flush of the full memtable.\<close>

definition put_cost :: "('w \<Rightarrow> nat) \<Rightarrow> 'w \<Rightarrow> 'w \<Rightarrow> CapsuleDB \<Rightarrow> CapsuleDB \<Rightarrow> bool" where
  "put_cost room w w' db db' \<longleftrightarrow> max_size (db_memtable db') = max_size (db_memtable db) \<and>
     (w' = w \<and> db_index db' = db_index db \<and>
        length (records (db_memtable db')) \<le> Suc (length (records (db_memtable db))) \<or>
      length (records (db_memtable db)) = unat (max_size (db_memtable db)) \<and>
        length (records (db_memtable db')) = 1 \<and>
        nblocks (levels (db_index db')) \<le> Suc (nblocks (levels (db_index db))) \<and>
        deepened (db_index db) (db_index db') \<and>
        room w \<le> room w' + 5 + 2 * nblocks (levels (db_index db)))"

lemma set_records:
  assumes "memtable_ok mt"
  shows "set (records mt) = ran (mem_map mt)"
proof -
  have "map_ok (memtable mt)" using assms by (simp add: memtable_ok_def)
  note items = map_find_items [OF this, symmetric]
  show ?thesis by (force simp: records_def ran_def mem_map_def items)
qed

lemma ran_update: "ran (m(k \<mapsto> p)) \<subseteq> insert p (ran m)"
  by (auto simp: ran_def)

lemma newer_update:
  "newer m r \<Longrightarrow> (case r k of None \<Rightarrow> True | Some q \<Rightarrow> sint (txn_timestamp q) < sint (txn_timestamp p)) \<Longrightarrow>
    newer (m(k \<mapsto> p)) r"
  by (auto simp: newer_def split: if_splits)

text \<open>The effect of a put that leaves the index alone.\<close>

lemma put_effect_memtable:
  assumes ok: "memtable_ok (db_memtable db)" "memtable_ok mt"
    and acc: "db_accepts db p" and m: "mem_map mt = (mem_map (db_memtable db))(key p \<mapsto> p)"
  shows "put_effect S w w p db (db\<lparr>db_memtable := mt\<rparr>)"
proof -
  let ?db = "db\<lparr>db_memtable := mt\<rparr>"
  have map: "db_map S w ?db = (db_map S w db)(key p \<mapsto> p)" by (simp add: db_map_def m)
  have rec: "db_records S w ?db \<subseteq> insert p (db_records S w db)"
    using ran_update [of "mem_map (db_memtable db)" "key p" p]
    by (auto simp: db_records_def set_records [OF ok(1)] set_records [OF ok(2)] m)
  have "db_ordered S w ?db" if "db_ordered S w db" "fresh (db_map S w db) p"
  proof -
    have "case index_map S w (db_index db) (key p) of None \<Rightarrow> True
        | Some q \<Rightarrow> sint (txn_timestamp q) < sint (txn_timestamp p)"
    proof (cases "mem_map (db_memtable db) (key p)")
      case None
      then show ?thesis using that(2) by (simp add: fresh_def db_map_def map_add_def)
    next
      case (Some q)
      then have "sint (txn_timestamp q) < sint (txn_timestamp p)" using acc by (simp add: db_accepts_def)
      then show ?thesis using that(1) Some
        by (auto simp: db_ordered_def newer_def split: option.split) (meson less_trans)
    qed
    then show ?thesis using that(1) by (auto simp: db_ordered_def m intro: newer_update)
  qed
  then show ?thesis using acc rec unfolding put_effect_def map by auto
qed

text \<open>The effect of a put after a flush.\<close>

lemma put_effect_flush:
  assumes ok: "memtable_ok (db_memtable db)" and none: "mem_map (db_memtable db) (key p) = None"
    and ix: "index_ok S w (db_index db)" and mt: "mem_map mt = [key p \<mapsto> p]" "memtable_ok mt"
    and f: "flushed S w w' (records (db_memtable db)) (db_index db) ix'"
  shows "put_effect S w w' p db (db\<lparr>db_memtable := mt, db_index := ix'\<rparr>)"
proof -
  let ?db = "db\<lparr>db_memtable := mt, db_index := ix'\<rparr>" and ?m = "mem_map (db_memtable db)"
  have km: "kv_map (records (db_memtable db)) = ?m" using records_run(2) [OF ok] .
  note F = f [unfolded flushed_def km]
  have acc: "db_accepts db p" by (simp add: db_accepts_def none)
  have dom: "dom (db_map S w' ?db) = insert (key p) (dom (db_map S w db))"
    using F by (auto simp: db_map_def mt(1))
  have rec: "db_records S w' ?db \<subseteq> insert p (db_records S w db)"
    using F by (auto simp: db_records_def set_records [OF mt(2)] mt(1))
  have at: "db_map S w' ?db (key p) = Some p" by (simp add: db_map_def mt(1))
  have ord: "db_map S w' ?db = (db_map S w db)(key p \<mapsto> p) \<and>
      (fresh (db_map S w db) p \<longrightarrow> db_ordered S w' ?db)" if "db_ordered S w db"
  proof -
    have i': "index_map S w' ix' = index_map S w (db_index db) ++ ?m" "levels_ordered S w' (levels ix')"
      using F that by (auto simp: db_ordered_def)
    then have "db_map S w' ?db = (db_map S w db)(key p \<mapsto> p)" by (simp add: db_map_def mt(1))
    moreover have "db_ordered S w' ?db" if "fresh (db_map S w db) p"
      using that i' by (auto simp: db_ordered_def mt(1) fresh_def db_map_def intro!: newer_update)
    ultimately show ?thesis by blast
  qed
  show ?thesis using dom rec acc at ord unfolding put_effect_def by simp
qed

context block_store
begin

lemma database_put_ok:
  assumes db: "db_ok S inv w db" and k: "key p \<noteq> ''''" and ready: "db_ready room w db"
  shows "\<exists>db' w'. CapsuleDB_put S p db w = Inr (db', w') \<and> db_ok S inv w' db' \<and> extends S w w' \<and>
    put_effect S w w' p db db' \<and> put_cost room w w' db db'"
proof -
  let ?mt = "db_memtable db" and ?ix = "db_index db"
  have inv: "inv w" and mt: "memtable_ok ?mt" and ix: "index_ok S w ?ix"
    and bs: "blocksize ?ix = max_size ?mt" using db by (simp_all add: db_ok_def)
  have same: "db\<lparr>db_memtable := m, db_index := ?ix\<rparr> = db\<lparr>db_memtable := m\<rparr>" for m by simp
  have cap: "length (memtable ?mt) \<le> unat (max_size ?mt)" "0 < unat (max_size ?mt)"
    using mt by (simp_all add: memtable_ok_def)
  consider q where "mem_map ?mt (key p) = Some q"
    | "mem_map ?mt (key p) = None" "length (memtable ?mt) < unat (max_size ?mt)"
    | "mem_map ?mt (key p) = None" "length (memtable ?mt) = unat (max_size ?mt)"
    using cap(1) by force
  then show ?thesis
  proof cases
    case (1 q)
    note put = Memtable_put_present [OF mt 1, of S ?ix w]
    show ?thesis
    proof (cases "sint (txn_timestamp p) \<le> sint (txn_timestamp q)")
      case True
      then have "put_effect S w w p db db"
        using 1 memtable_ok_key [OF mt 1]
        by (auto simp: put_effect_def db_accepts_def db_map_def)
      then show ?thesis using put True db
        by (intro exI [of _ db] exI [of _ w]) (simp add: CapsuleDB_put_def put_cost_def)
    next
      case False
      let ?m = "?mt\<lparr>memtable := map_assign (key p) p (memtable ?mt)\<rparr>"
      note m = memtable_ok_update [OF mt 1]
      have "db_accepts db p" using 1 False by (simp add: db_accepts_def)
      from put_effect_memtable [OF mt m(1) this m(2)]
      have "put_effect S w w p db (db\<lparr>db_memtable := ?m\<rparr>)" .
      moreover have "length (memtable ?m) \<le> Suc (length (memtable ?mt))"
        using om.length_items_assign [of "memtable ?mt" "key p" p] mt by (simp add: memtable_ok_def)
      ultimately show ?thesis using put False db m(1)
        by (intro exI [of _ "db\<lparr>db_memtable := ?m\<rparr>"] exI [of _ w])
          (simp add: CapsuleDB_put_def put_cost_def records_def db_ok_def)
    qed
  next
    case 2
    note m = memtable_ok_insert [OF mt 2(1) k 2(2)]
    have put: "Memtable_put S p ?mt ?ix w = Inr (True, insert_new p ?mt, ?ix, w)"
      using Memtable_put_absent [OF mt 2(1) write_out_not_full [OF mt 2(2)] mt] .
    have "db_accepts db p" using 2(1) by (simp add: db_accepts_def)
    from put_effect_memtable [OF mt m(1) this m(2)]
    have "put_effect S w w p db (db\<lparr>db_memtable := insert_new p ?mt\<rparr>)" .
    moreover have "max_size (insert_new p ?mt) = max_size ?mt" by (simp add: insert_new_def)
    ultimately show ?thesis using put db m(1,3)
      by (intro exI [of _ "db\<lparr>db_memtable := insert_new p ?mt\<rparr>"] exI [of _ w])
        (simp add: CapsuleDB_put_def put_cost_def records_def db_ok_def)
  next
    case 3
    let ?me = "?mt\<lparr>memtable := [], locklst := []\<rparr>"
    have fits: "index_fits ?ix" "5 + 2 * nblocks (levels ?ix) \<le> room w"
      using ready by (simp_all add: db_ready_def)
    from flush_ok [OF inv mt 3(2) ix bs fits] obtain ix' w' where
      f: "write_out_if_full S ?mt ?ix w = Inr (?me, ix', w')" "inv w'" "extends S w w'"
      "room w \<le> room w' + 5 + 2 * nblocks (levels ?ix)" "flushed S w w' (records ?mt) ?ix ix'" by blast
    have mt0: "memtable_ok ?me" "mem_map ?me = Map.empty" "length (memtable ?me) < unat (max_size ?me)"
      using cap by (auto simp: memtable_ok_def mem_map_def fun_eq_iff)
    have none0: "mem_map ?me (key p) = None" by (simp add: mt0(2))
    note m = memtable_ok_insert [OF mt0(1) none0 k mt0(3)]
    have put: "Memtable_put S p ?mt ?ix w = Inr (True, insert_new p ?me, ix', w')"
      using Memtable_put_absent [OF mt 3(1) f(1) mt0(1)] .
    let ?db = "db\<lparr>db_memtable := insert_new p ?me, db_index := ix'\<rparr>"
    have "put_effect S w w' p db ?db"
      using put_effect_flush [OF mt 3(1) ix _ m(1) f(5)] m(2) mt0(2) by simp
    moreover have ms: "max_size (insert_new p ?me) = max_size ?mt" by (simp add: insert_new_def)
    moreover have "db_ok S inv w' ?db"
      using f(2,5) m(1) bs ms by (simp add: db_ok_def flushed_def)
    moreover have "put_cost room w w' db ?db"
      using 3(2) f(4,5) m(3) ms by (simp add: put_cost_def records_def flushed_def)
    moreover have "CapsuleDB_put S p db w = Inr (?db, w')" using put by (simp add: CapsuleDB_put_def)
    ultimately show ?thesis using f(3) by blast
  qed
qed

end

end
