(* ===== verification/Database.thy ===== *)
theory Database
  imports Engine
begin

text \<open>
  The interface of the database for its clients (the test program, the benchmark, the enclave and
  the servers) as the locale \<open>kv_database\<close>, what follows from it for sequences of operations, and
  its interpretation by the engine of theory Engine over the storage of theory FakeCapsule.
\<close>

section \<open>Sequences of puts\<close>

fun put_all :: "(kvs_payload \<Rightarrow> 's \<Rightarrow> 's res) \<Rightarrow> kvs_payload list \<Rightarrow> 's \<Rightarrow> 's res" where
  "put_all put [] s = Inr s"
| "put_all put (p # ps) s = bindr (put p s) (put_all put ps)"

fun apply_puts :: "kvs_payload list \<Rightarrow> kv_fun \<Rightarrow> kv_fun" where
  "apply_puts [] m = m"
| "apply_puts (p # ps) m = apply_puts ps (m(key p \<mapsto> p))"

text \<open>Every record of the sequence is newer than what its key has before it.\<close>

fun increasing :: "kv_fun \<Rightarrow> kvs_payload list \<Rightarrow> bool" where
  "increasing m [] \<longleftrightarrow> True"
| "increasing m (p # ps) \<longleftrightarrow> fresh m p \<and> increasing (m(key p \<mapsto> p)) ps"

lemma put_all_append: "put_all put (ps @ qs) s = bindr (put_all put ps s) (put_all put qs)"
  by (induction ps arbitrary: s) (auto simp: bindr_def split: sum.splits)

lemma apply_puts_append: "apply_puts (ps @ qs) m = apply_puts qs (apply_puts ps m)"
  by (induction ps arbitrary: m) auto

lemma dom_apply_puts: "dom (apply_puts ps m) = key ` set ps \<union> dom m"
  by (induction ps arbitrary: m) auto

text \<open>The last record of a key wins; a key that is not put keeps its record.\<close>

lemma apply_puts_notin: "k \<notin> key ` set ps \<Longrightarrow> apply_puts ps m k = m k"
  by (induction ps arbitrary: m) auto

lemma apply_puts_last: "k \<notin> key ` set qs \<Longrightarrow> key p = k \<Longrightarrow> apply_puts (ps @ p # qs) m k = Some p"
  by (simp add: apply_puts_append apply_puts_notin)

lemma increasing_append:
  "increasing m (ps @ qs) \<longleftrightarrow> increasing m ps \<and> increasing (apply_puts ps m) qs"
  by (induction ps arbitrary: m) auto

lemma increasing_distinct:
  "distinct (map key ps) \<Longrightarrow> dom m \<inter> key ` set ps = {} \<Longrightarrow> increasing m ps"
proof (induction ps arbitrary: m)
  case (Cons p ps)
  then have "m (key p) = None" by auto
  with Cons show ?case by (auto simp: fresh_def)
qed simp

section \<open>The contract\<close>

text \<open>
  The state \<open>'s\<close> is the database with its store, \<open>view\<close> the finite map it stands for, \<open>held\<close> all
  the records in it, also shadowed ones, \<open>ordered\<close> says that newer records shadow older ones, and
  \<open>ok k\<close> that \<open>k\<close> more puts are within the resources of the program (block names and level sizes
  are \<open>int\<close>s). \<open>keep\<close> is what the database keeps of a record.
\<close>

locale kv_database =
  fixes put :: "kvs_payload \<Rightarrow> 's \<Rightarrow> 's res"
    and get :: "string \<Rightarrow> int64 \<Rightarrow> 's \<Rightarrow> (kvs_payload \<times> 's) res"
    and view :: "'s \<Rightarrow> kv_fun"
    and held :: "'s \<Rightarrow> kvs_payload set"
    and ordered :: "'s \<Rightarrow> bool"
    and ok :: "nat \<Rightarrow> 's \<Rightarrow> bool"
    and keep :: "kvs_payload \<Rightarrow> kvs_payload"
  assumes keep_key: "key (keep p) = key p"
    and keep_time: "txn_timestamp (keep p) = txn_timestamp p"
    and put_spec: "ok (Suc n) s \<Longrightarrow> key p \<noteq> '''' \<Longrightarrow> \<exists>s'. put p s = Inr s' \<and> ok n s' \<and>
      dom (view s') = insert (key p) (dom (view s)) \<and> held s' \<subseteq> insert (keep p) (held s) \<and>
      (ordered s \<and> fresh (view s) p \<longrightarrow> ordered s' \<and> view s' = (view s)(key p \<mapsto> keep p))"
    and get_spec: "ok n s \<Longrightarrow> k \<noteq> '''' \<Longrightarrow>
      get k u s = Inr (case view s k of None \<Rightarrow> kvs_payload_default u | Some p \<Rightarrow> p, s)"
    and view_held: "ok n s \<Longrightarrow> view s k = Some p \<Longrightarrow> p \<in> held s \<and> key p = k"
begin

lemma fresh_keep: "fresh m (keep p) = fresh m p"
  by (simp add: fresh_def keep_key keep_time split: option.split)

text \<open>A sequence of puts within the resources succeeds, and no key of it is lost.\<close>

lemma put_all_spec:
  assumes "ok (length ps + n) s" "\<forall>p \<in> set ps. key p \<noteq> ''''"
  shows "\<exists>s'. put_all put ps s = Inr s' \<and> ok n s' \<and> dom (view s') = key ` set ps \<union> dom (view s) \<and>
    held s' \<subseteq> keep ` set ps \<union> held s \<and>
    (ordered s \<and> increasing (view s) (map keep ps) \<longrightarrow>
       ordered s' \<and> view s' = apply_puts (map keep ps) (view s))"
  using assms
proof (induction ps arbitrary: s)
  case (Cons p ps)
  from put_spec [of "length ps + n" s p] Cons.prems obtain s1 where
    s1: "put p s = Inr s1" "ok (length ps + n) s1" "dom (view s1) = insert (key p) (dom (view s))"
      "held s1 \<subseteq> insert (keep p) (held s)"
      "ordered s \<and> fresh (view s) p \<longrightarrow> ordered s1 \<and> view s1 = (view s)(key p \<mapsto> keep p)" by auto
  from Cons.IH [OF s1(2)] Cons.prems obtain s2 where
    s2: "put_all put ps s1 = Inr s2" "ok n s2" "dom (view s2) = key ` set ps \<union> dom (view s1)"
      "held s2 \<subseteq> keep ` set ps \<union> held s1"
      "ordered s1 \<and> increasing (view s1) (map keep ps) \<longrightarrow>
         ordered s2 \<and> view s2 = apply_puts (map keep ps) (view s1)" by auto
  have "held s2 \<subseteq> keep ` set (p # ps) \<union> held s" using s1(4) s2(4) by auto
  moreover have "dom (view s2) = key ` set (p # ps) \<union> dom (view s)" using s1(3) s2(3) by auto
  ultimately show ?case using s1(1,5) s2(1,2,5) by (auto simp: keep_key fresh_keep)
qed simp

text \<open>Whatever the time stamps, a lookup finds exactly the keys that were put.\<close>

lemma get_after_puts:
  assumes s: "ok (length ps) s" "view s = Map.empty" "held s = {}"
    and ps: "\<forall>p \<in> set ps. key p \<noteq> ''''" and k: "k \<noteq> ''''"
  shows "\<exists>s' q. put_all put ps s = Inr s' \<and> get k u s' = Inr (q, s') \<and>
    (if k \<in> key ` set ps then key q = k \<and> q \<in> keep ` set ps else q = kvs_payload_default u)"
proof -
  from put_all_spec [of ps 0 s] s ps obtain s' where
    s': "put_all put ps s = Inr s'" "ok 0 s'" "dom (view s') = key ` set ps"
      "held s' \<subseteq> keep ` set ps" by auto
  let ?q = "case view s' k of None \<Rightarrow> kvs_payload_default u | Some p \<Rightarrow> p"
  have "get k u s' = Inr (?q, s')" by (rule get_spec [OF s'(2) k])
  moreover have "if k \<in> key ` set ps then key ?q = k \<and> ?q \<in> keep ` set ps else ?q = kvs_payload_default u"
  proof (cases "view s' k")
    case None
    then have "k \<notin> key ` set ps" using s'(3) by (metis domIff)
    then show ?thesis using None by simp
  next
    case (Some p)
    then have "k \<in> key ` set ps" using s'(3) by auto
    then show ?thesis using view_held [OF s'(2) Some] s'(4) Some by auto
  qed
  ultimately show ?thesis using s'(1) by blast
qed

text \<open>With time stamps that increase per key, a lookup returns the last record of the key.\<close>

lemma get_last_put:
  assumes s: "ok (length ps) s" "view s = Map.empty" "ordered s"
    and ps: "\<forall>p \<in> set ps. key p \<noteq> ''''" "increasing Map.empty ps" and k: "k \<noteq> ''''"
  shows "\<exists>s'. put_all put ps s = Inr s' \<and> get k u s' =
    Inr (case apply_puts ps Map.empty k of None \<Rightarrow> kvs_payload_default u | Some p \<Rightarrow> keep p, s')"
proof -
  have inc: "increasing m' (map keep ps) \<and> apply_puts (map keep ps) m' = map_option keep \<circ> apply_puts ps m"
    if "increasing m ps" "m' = map_option keep \<circ> m" for m m'
    using that
  proof (induction ps arbitrary: m m')
    case (Cons p ps)
    have "fresh m' p" using Cons.prems
      by (simp add: fresh_def keep_time split: option.splits)
    have upd: "m'(key p \<mapsto> keep p) = map_option keep \<circ> m(key p \<mapsto> p)"
      using Cons.prems(2) by auto
    from Cons.prems(1) have "increasing (m(key p \<mapsto> p)) ps" by simp
    from Cons.IH [OF this upd] \<open>fresh m' p\<close> show ?case
      by (simp only: list.map increasing.simps apply_puts.simps fresh_keep keep_key)
  qed simp
  from inc [OF ps(2), of Map.empty] have i: "increasing Map.empty (map keep ps)"
    "apply_puts (map keep ps) Map.empty = map_option keep \<circ> apply_puts ps Map.empty" by auto
  from put_all_spec [of ps 0 s] s ps(1) i(1) obtain s' where
    s': "put_all put ps s = Inr s'" "ok 0 s'" "view s' = apply_puts (map keep ps) Map.empty" by auto
  then show ?thesis using get_spec [OF s'(2) k, of u] i(2)
    by (auto split: option.splits)
qed

end

section \<open>The engine as a database\<close>

text \<open>The engine and its store as one state.\<close>

type_synonym 'w db_state = "CapsuleDB \<times> 'w"

definition db_put :: "'w store_ops \<Rightarrow> kvs_payload \<Rightarrow> 'w db_state \<Rightarrow> 'w db_state res" where
  "db_put S p s = CapsuleDB_put S p (fst s) (snd s)"

definition db_get :: "'w store_ops \<Rightarrow> string \<Rightarrow> int64 \<Rightarrow> 'w db_state \<Rightarrow> (kvs_payload \<times> 'w db_state) res" where
  "db_get S k u s = bindr (CapsuleDB_get S k u (fst s) (snd s)) (\<lambda>(q, db). Inr (q, (db, snd s)))"

definition db_view :: "'w store_ops \<Rightarrow> 'w db_state \<Rightarrow> kv_fun" where
  "db_view S s = db_map S (snd s) (fst s)"

definition db_held :: "'w store_ops \<Rightarrow> 'w db_state \<Rightarrow> kvs_payload set" where
  "db_held S s = db_records S (snd s) (fst s)"

definition db_sorted :: "'w store_ops \<Rightarrow> 'w db_state \<Rightarrow> bool" where
  "db_sorted S s = db_ordered S (snd s) (fst s)"

text \<open>
  The resources. A database whose memtable holds \<open>n \<le> 10737\<close> records can take \<open>46000 n\<close> puts: every
  flush is paid for by \<open>n\<close> puts, the flush number \<open>F\<close> writes at most \<open>5 + 2 F\<close> blocks, \<open>46000\<close>
  flushes write fewer than \<open>2 ^ 31 - 1\<close> blocks, and a sixth level (of maximal size
  \<open>2 n 10 ^ 5\<close>) is deep enough for them.
\<close>

definition max_flushes :: nat where
  "max_flushes = 46000"

definition db_can :: "('w \<Rightarrow> nat) \<Rightarrow> nat \<Rightarrow> 'w db_state \<Rightarrow> bool" where
  "db_can room k s \<longleftrightarrow> (\<exists>F. let n = unat (max_size (db_memtable (fst s))) in
     n \<le> 10737 \<and> n * F + length (records (db_memtable (fst s))) + k \<le> max_flushes * n \<and>
     nblocks (levels (db_index (fst s))) \<le> F \<and>
     max_flushes * max_flushes + 4 * max_flushes \<le> room (snd s) + F * F + 4 * F)"

definition db_good :: "'w store_ops \<Rightarrow> ('w \<Rightarrow> bool) \<Rightarrow> ('w \<Rightarrow> nat) \<Rightarrow> nat \<Rightarrow> 'w db_state \<Rightarrow> bool" where
  "db_good S I room k s \<longleftrightarrow> db_ok S I (snd s) (fst s) \<and> db_can room k s"

lemma db_can_ready:
  assumes can: "db_can room (Suc k) (db, w)" and ok: "db_ok S I w db"
  shows "db_ready room w db"
proof -
  let ?ix = "db_index db" and ?n = "unat (max_size (db_memtable db))"
  have bs: "blocksize ?ix = max_size (db_memtable db)" and pos: "0 < ?n"
    using ok by (simp_all add: db_ok_def memtable_ok_def)
  obtain F where F: "?n \<le> 10737" "?n * F + length (records (db_memtable db)) + Suc k \<le> max_flushes * ?n"
    "nblocks (levels ?ix) \<le> F"
    "max_flushes * max_flushes + 4 * max_flushes \<le> room w + F * F + 4 * F"
    using can by (auto simp: db_can_def Let_def)
  have "?n * F < ?n * max_flushes" using F(2) unfolding mult.commute [of max_flushes] by linarith
  then have lt: "F < max_flushes" by simp
  then have "Suc F * Suc F \<le> max_flushes * max_flushes" by (intro mult_le_mono) simp_all
  then have "F * F + 2 * F + 1 \<le> max_flushes * max_flushes" by simp
  then have room: "5 + 2 * nblocks (levels ?ix) \<le> room w" using F(3,4) lt by linarith
  have "index_fits ?ix"
  proof (cases "length (levels ?ix) \<le> 5")
    case True
    then have "(10::nat) ^ length (levels ?ix) \<le> 10 ^ 5" by (rule power_increasing) simp
    then have "?n * 10 ^ length (levels ?ix) \<le> 10737 * 10 ^ 5" using F(1) by (rule mult_le_mono [rotated])
    then show ?thesis by (simp add: index_fits_def bs)
  next
    case False
    then have "(10::nat) ^ 5 \<le> 10 ^ (length (levels ?ix) - 1)" by (intro power_increasing) simp_all
    then have "1 + nblocks (levels ?ix) < 2 * 10 ^ (length (levels ?ix) - 1)"
      using F(3) lt by (simp add: max_flushes_def)
    then show ?thesis unfolding index_fits_def ..
  qed
  then show ?thesis using room by (simp add: db_ready_def)
qed

lemma db_can_put:
  assumes can: "db_can room (Suc k) (db, w)" and cost: "put_cost room w w' db db'"
  shows "db_can room k (db', w')"
proof -
  let ?ix = "db_index db" and ?n = "unat (max_size (db_memtable db))"
  obtain F where F: "?n \<le> 10737" "?n * F + length (records (db_memtable db)) + Suc k \<le> max_flushes * ?n"
    "nblocks (levels ?ix) \<le> F"
    "max_flushes * max_flushes + 4 * max_flushes \<le> room w + F * F + 4 * F"
    using can by (auto simp: db_can_def Let_def)
  have same: "max_size (db_memtable db') = max_size (db_memtable db)" using cost by (simp add: put_cost_def)
  from cost consider "w' = w" "db_index db' = ?ix"
      "length (records (db_memtable db')) \<le> Suc (length (records (db_memtable db)))"
    | "length (records (db_memtable db)) = ?n" "length (records (db_memtable db')) = 1"
      "nblocks (levels (db_index db')) \<le> Suc (nblocks (levels ?ix))"
      "room w \<le> room w' + 5 + 2 * nblocks (levels ?ix)"
    unfolding put_cost_def by blast
  then show ?thesis
  proof cases
    case 1
    then have "?n * F + length (records (db_memtable db')) + k \<le> max_flushes * ?n" using F(2) by linarith
    then show ?thesis using F 1 same unfolding db_can_def Let_def by (intro exI [of _ F]) simp
  next
    case 2
    have "?n * Suc F + length (records (db_memtable db')) + k \<le> max_flushes * ?n"
      using F(2) 2(1,2) by simp
    moreover have "nblocks (levels (db_index db')) \<le> Suc F" using 2(3) F(3) by simp
    moreover have "Suc F * Suc F + 4 * Suc F = F * F + 4 * F + (5 + 2 * F)" by simp
    then have "max_flushes * max_flushes + 4 * max_flushes \<le> room w' + Suc F * Suc F + 4 * Suc F"
      using F(3,4) 2(4) by linarith
    ultimately show ?thesis using F(1) same unfolding db_can_def Let_def
      by (intro exI [of _ "Suc F"]) simp
  qed
qed

text \<open>A new database is well formed, empty and has all its resources.\<close>

lemma spawnDB_ok:
  assumes "I w" "0 < unat sz" "unat sz \<le> 10737"
  shows "db_ok S I w (spawnDB sz)"
proof -
  have "2 * sz = of_nat (2 * unat sz)" by simp
  then have u: "unat (2 * sz) = 2 * unat sz"
    using assms(3) unat_of_nat_small [of "2 * unat sz"] by simp
  have r: "int_range (int (2 * unat sz))" using assms(3) by (intro int_range_nat) simp
  have "size_to_int (2 * sz) = int (2 * unat sz)"
    using r by (simp add: size_to_int_def uint_nat u to_int32_id del: of_nat_mult)
  then have "level_ok S w (unat sz) 0 (Level_new 0 (size_to_int (2 * sz)))"
    using Level_new_ok [of "int (2 * unat sz)" "unat sz" 0 S w] r by simp
  then have "index_ok S w (CapsuleIndex_new sz)"
    using assms(2) by (simp add: index_ok_def levels_ok_def CapsuleIndex_new_def int_range_def)
  then show ?thesis using assms memtable_ok_new
    by (simp add: db_ok_def spawnDB_def Memtable_new_def CapsuleIndex_new_def)
qed

lemma spawnDB_empty:
  "db_map S w (spawnDB sz) = Map.empty" "db_records S w (spawnDB sz) = {}" "db_ordered S w (spawnDB sz)"
  by (simp_all add: spawnDB_def CapsuleIndex_new_def Level_new_def db_map_def index_map_def level_map_def
      db_records_def records_def Memtable_new_def db_ordered_def mem_map_def fun_eq_iff map_add_def
      newer_def)

lemma spawnDB_can:
  assumes "unat sz \<le> 10737" "k \<le> max_flushes * unat sz"
    "max_flushes * max_flushes + 4 * max_flushes \<le> room w"
  shows "db_can room k (spawnDB sz, w)"
  using assms unfolding db_can_def Let_def
  by (intro exI [of _ 0]) (simp add: spawnDB_def Memtable_new_def CapsuleIndex_new_def Level_new_def records_def)

context block_store
begin

lemma db_put_ok:
  assumes good: "db_good S inv room (Suc k) s" and p: "key p \<noteq> ''''"
  obtains s' where "db_put S p s = Inr s'" "db_good S inv room k s'" "extends S (snd s) (snd s')"
    "put_effect S (snd s) (snd s') p (fst s) (fst s')"
proof -
  obtain db w where s: "s = (db, w)" by (cases s)
  have ok: "db_ok S inv w db" and can: "db_can room (Suc k) (db, w)"
    using good by (simp_all add: db_good_def s)
  from database_put_ok [OF ok p db_can_ready [OF can ok]] obtain db' w' where
    "CapsuleDB_put S p db w = Inr (db', w')" "db_ok S inv w' db'" "extends S w w'"
    "put_effect S w w' p db db'" "put_cost room w w' db db'" by blast
  then show thesis using that [of "(db', w')"] db_can_put [OF can] s
    by (simp add: db_put_def db_good_def)
qed

end

text \<open>
  A fresh put is accepted when the memtable agrees with the map, which it shadows.
\<close>

lemma fresh_accepts: "fresh (db_map S w db) p \<Longrightarrow> db_accepts db p"
  by (auto simp: fresh_def db_accepts_def db_map_def map_add_def split: option.splits)

interpretation fdb: kv_database "db_put (capsule_ops E)" "db_get (capsule_ops E)"
    "db_view (capsule_ops E)" "db_held (capsule_ops E)" "db_sorted (capsule_ops E)"
    "db_good (capsule_ops E) (world_ok E) world_room" "\<lambda>p. p" for E
proof
  fix n s and p :: kvs_payload
  assume good: "db_good (capsule_ops E) (world_ok E) world_room (Suc n) s" and k: "key p \<noteq> ''''"
  from fc.db_put_ok [OF good k] obtain s' where s': "db_put (capsule_ops E) p s = Inr s'"
    "db_good (capsule_ops E) (world_ok E) world_room n s'"
    "put_effect (capsule_ops E) (snd s) (snd s') p (fst s) (fst s')" by metis
  have "db_sorted (capsule_ops E) s' \<and>
      db_view (capsule_ops E) s' = (db_view (capsule_ops E) s)(key p \<mapsto> p)"
    if "db_sorted (capsule_ops E) s" "fresh (db_view (capsule_ops E) s) p"
    using s'(3) that fresh_accepts
    unfolding put_effect_def db_sorted_def db_view_def by metis
  then show "\<exists>s'. db_put (capsule_ops E) p s = Inr s' \<and>
      db_good (capsule_ops E) (world_ok E) world_room n s' \<and>
      dom (db_view (capsule_ops E) s') = insert (key p) (dom (db_view (capsule_ops E) s)) \<and>
      db_held (capsule_ops E) s' \<subseteq> insert p (db_held (capsule_ops E) s) \<and>
      (db_sorted (capsule_ops E) s \<and> fresh (db_view (capsule_ops E) s) p \<longrightarrow>
       db_sorted (capsule_ops E) s' \<and> db_view (capsule_ops E) s' = (db_view (capsule_ops E) s)(key p \<mapsto> p))"
    using s' by (intro exI [of _ s']) (auto simp: put_effect_def db_view_def db_held_def)
next
  fix n s k u
  assume "db_good (capsule_ops E) (world_ok E) world_room n s"
  then show "db_get (capsule_ops E) k u s =
      Inr (case db_view (capsule_ops E) s k of None \<Rightarrow> kvs_payload_default u | Some p \<Rightarrow> p, s)"
    using get_ok [of "capsule_ops E" "world_ok E" "snd s" "fst s" k u] by (simp add: db_good_def db_get_def db_view_def)
next
  fix n s k p
  assume "db_good (capsule_ops E) (world_ok E) world_room n s" "db_view (capsule_ops E) s k = Some p"
  then show "p \<in> db_held (capsule_ops E) s \<and> key p = k"
    using db_map_records by (auto simp: db_good_def db_ok_def db_view_def db_held_def)
qed simp_all

lemma db_get_ok:
  "db_good S I room n s \<Longrightarrow>
    db_get S k u s = Inr (case db_view S s k of None \<Rightarrow> kvs_payload_default u | Some p \<Rightarrow> p, s)"
  using get_ok [of S I "snd s" "fst s" k u] by (simp add: db_good_def db_get_def db_view_def)

text \<open>A new database has the room that its next put may need.\<close>

lemma new_db_ready:
  assumes "unat sz \<le> 10737"
  shows "db_ready world_room initial_world (spawnDB sz)"
proof -
  have "nblocks (levels (db_index (spawnDB sz))) = 0"
    by (simp add: spawnDB_def CapsuleIndex_new_def Level_new_def)
  then show ?thesis
    by (simp add: db_ready_def index_fits_def spawnDB_def CapsuleIndex_new_def Level_new_def
      world_room_def initial_world_def)
qed

end
