(* ===== verification/Runs.thy ===== *)
theory Runs
  imports Database
begin

text \<open>
  The database as a state machine: the steps of a client that puts and gets (\<open>engine.cc\<close>) in any
  order, the traces of events from a new database, their invariants by rule induction, and that a
  trace can always go on while there are resources.
\<close>

section \<open>Steps and traces\<close>

datatype db_event = PutE kvs_payload | GetE string kvs_payload

inductive db_step :: "'w store_ops \<Rightarrow> 'w db_state \<Rightarrow> db_event \<Rightarrow> 'w db_state \<Rightarrow> bool"
  for S :: "'w store_ops" where
  put_step: "db_put S p s = Inr s' \<Longrightarrow> db_step S s (PutE p) s'"
| get_step: "db_get S k u s = Inr (q, s') \<Longrightarrow> db_step S s (GetE k q) s'"

inductive_cases PutE_stepE: "db_step S s (PutE p) s'"
inductive_cases GetE_stepE: "db_step S s (GetE k q) s'"

inductive db_trace :: "'w store_ops \<Rightarrow> 'w db_state \<Rightarrow> db_event list \<Rightarrow> 'w db_state \<Rightarrow> bool"
  for S :: "'w store_ops" and s0 :: "'w db_state" where
  trace_start: "db_trace S s0 [] s0"
| trace_step: "db_trace S s0 es s \<Longrightarrow> db_step S s e s' \<Longrightarrow> db_trace S s0 (es @ [e]) s'"

inductive_simps db_trace_snoc: "db_trace S s0 (es @ [e]) s"

text \<open>The records put by a trace, and the traces whose keys are all non-empty.\<close>

fun puts_of :: "db_event list \<Rightarrow> kvs_payload list" where
  "puts_of [] = []"
| "puts_of (PutE p # es) = p # puts_of es"
| "puts_of (GetE k q # es) = puts_of es"

fun event_key :: "db_event \<Rightarrow> string" where
  "event_key (PutE p) = key p"
| "event_key (GetE k q) = k"

definition keys_given :: "db_event list \<Rightarrow> bool" where
  "keys_given es \<longleftrightarrow> (\<forall>e \<in> set es. event_key e \<noteq> '''')"

lemma puts_of_append [simp]: "puts_of (es @ fs) = puts_of es @ puts_of fs"
  by (induction es rule: puts_of.induct) auto

lemma length_puts_of: "length (puts_of es) \<le> length es"
  by (induction es rule: puts_of.induct) auto

lemma keys_given_simps [simp]:
  "keys_given []" "keys_given (e # es) \<longleftrightarrow> event_key e \<noteq> '''' \<and> keys_given es"
  "keys_given (es @ fs) \<longleftrightarrow> keys_given es \<and> keys_given fs"
  by (auto simp: keys_given_def)

lemma db_trace_prefix: "db_trace S s0 (es @ fs) s \<Longrightarrow> \<exists>s'. db_trace S s0 es s'"
proof (induction fs arbitrary: s rule: rev_induct)
  case (snoc f fs)
  then have "db_trace S s0 ((es @ fs) @ [f]) s" by simp
  then show ?case unfolding db_trace_snoc using snoc.IH by (metis append.assoc)
qed auto

section \<open>The initial state\<close>

abbreviation new_db :: "size_t \<Rightarrow> world db_state" where
  "new_db sz \<equiv> (spawnDB sz, initial_world)"

lemma new_db_good:
  assumes "env_ok E" "1 \<le> unat sz" "unat sz \<le> 10737" "n \<le> max_flushes * unat sz"
  shows "db_good (capsule_ops E) (world_ok E) world_room n (new_db sz)"
proof -
  have w: "world_ok E initial_world"
    using assms(1) by (simp add: world_ok_def initial_world_def int_range_def)
  have "max_flushes * max_flushes + 4 * max_flushes \<le> world_room initial_world"
    by (simp add: max_flushes_def world_room_def initial_world_def)
  then show ?thesis
    using assms spawnDB_ok [of "world_ok E", OF w] spawnDB_can [of sz n world_room]
    by (simp add: db_good_def)
qed

lemma new_db_empty:
  "db_view S (new_db sz) = Map.empty" "db_held S (new_db sz) = {}" "db_sorted S (new_db sz)"
  by (simp_all add: db_view_def db_held_def db_sorted_def spawnDB_empty)

section \<open>Invariants of the traces\<close>

text \<open>What holds after a trace that started with \<open>n\<close> puts to spare.\<close>

lemma trace_inv:
  assumes "db_trace (capsule_ops E) s0 es s"
    and "db_good (capsule_ops E) (world_ok E) world_room n s0" "keys_given es"
    and "length (puts_of es) \<le> n"
  shows "db_good (capsule_ops E) (world_ok E) world_room (n - length (puts_of es)) s"
    "dom (db_view (capsule_ops E) s) = key ` set (puts_of es) \<union> dom (db_view (capsule_ops E) s0)"
    "db_held (capsule_ops E) s \<subseteq> set (puts_of es) \<union> db_held (capsule_ops E) s0"
    "db_sorted (capsule_ops E) s0 \<and> increasing (db_view (capsule_ops E) s0) (puts_of es) \<longrightarrow>
      db_sorted (capsule_ops E) s \<and>
      db_view (capsule_ops E) s = apply_puts (puts_of es) (db_view (capsule_ops E) s0)"
proof -
  let ?S = "capsule_ops E" and ?good = "db_good (capsule_ops E) (world_ok E) world_room"
  have "?good (n - length (puts_of es)) s \<and>
      dom (db_view ?S s) = key ` set (puts_of es) \<union> dom (db_view ?S s0) \<and>
      db_held ?S s \<subseteq> set (puts_of es) \<union> db_held ?S s0 \<and>
      (db_sorted ?S s0 \<and> increasing (db_view ?S s0) (puts_of es) \<longrightarrow>
        db_sorted ?S s \<and> db_view ?S s = apply_puts (puts_of es) (db_view ?S s0))"
    using assms
  proof (induction rule: db_trace.induct)
    case (trace_step es s e s')
    show ?case
    proof (cases e)
      case (PutE p)
      from trace_step.prems PutE have IH: "?good (Suc (n - length (puts_of (es @ [e])))) s"
        "dom (db_view ?S s) = key ` set (puts_of es) \<union> dom (db_view ?S s0)"
        "db_held ?S s \<subseteq> set (puts_of es) \<union> db_held ?S s0"
        "db_sorted ?S s0 \<and> increasing (db_view ?S s0) (puts_of es) \<longrightarrow>
          db_sorted ?S s \<and> db_view ?S s = apply_puts (puts_of es) (db_view ?S s0)"
        and k: "key p \<noteq> ''''"
        using trace_step.IH by (simp_all add: Suc_diff_Suc)
      from fdb.put_spec [OF IH(1) k] obtain s'' where s'': "db_put ?S p s = Inr s''"
        "?good (n - length (puts_of (es @ [e]))) s''"
        "dom (db_view ?S s'') = insert (key p) (dom (db_view ?S s))"
        "db_held ?S s'' \<subseteq> insert p (db_held ?S s)"
        "db_sorted ?S s \<and> fresh (db_view ?S s) p \<longrightarrow>
          db_sorted ?S s'' \<and> db_view ?S s'' = (db_view ?S s)(key p \<mapsto> p)" by blast
      have "db_put ?S p s = Inr s'" using trace_step.hyps(2) unfolding PutE by (rule PutE_stepE)
      then have "s'' = s'" using s''(1) by simp
      note s' = s''(2-5) [unfolded this]
      have pe: "puts_of (es @ [e]) = puts_of es @ [p]" using PutE by simp
      have "dom (db_view ?S s') = key ` set (puts_of (es @ [e])) \<union> dom (db_view ?S s0)"
        unfolding s'(2) IH(2) pe by simp
      moreover have "db_held ?S s' \<subseteq> set (puts_of (es @ [e])) \<union> db_held ?S s0"
        using s'(3) IH(3) unfolding pe by auto
      moreover have "db_sorted ?S s' \<and> db_view ?S s' = apply_puts (puts_of (es @ [e])) (db_view ?S s0)"
        if "db_sorted ?S s0 \<and> increasing (db_view ?S s0) (puts_of (es @ [e]))"
      proof -
        have "increasing (db_view ?S s0) (puts_of es)" "fresh (apply_puts (puts_of es) (db_view ?S s0)) p"
          using that unfolding pe increasing_append increasing.simps by blast+
        moreover from this(1) that IH(4) have v: "db_sorted ?S s"
          "db_view ?S s = apply_puts (puts_of es) (db_view ?S s0)" by blast+
        ultimately have "db_sorted ?S s' \<and> db_view ?S s' = (db_view ?S s)(key p \<mapsto> p)"
          using s'(4) by metis
        then show ?thesis unfolding pe apply_puts_append v(2) by simp
      qed
      ultimately show ?thesis using s'(1) by blast
    next
      case (GetE k q)
      with trace_step have IH: "?good (n - length (puts_of es)) s" and k: "k \<noteq> ''''" by simp_all
      from trace_step.hyps(2) GetE have "s' = s"
        using fdb.get_spec [OF IH k] by (auto elim: GetE_stepE)
      with GetE trace_step show ?thesis by simp
    qed
  qed simp
  then show "?good (n - length (puts_of es)) s"
    "dom (db_view ?S s) = key ` set (puts_of es) \<union> dom (db_view ?S s0)"
    "db_held ?S s \<subseteq> set (puts_of es) \<union> db_held ?S s0"
    "db_sorted ?S s0 \<and> increasing (db_view ?S s0) (puts_of es) \<longrightarrow>
        db_sorted ?S s \<and> db_view ?S s = apply_puts (puts_of es) (db_view ?S s0)" by auto
qed

text \<open>The trace of a get at its place: the state it was asked in and its answer.\<close>

lemma trace_get:
  assumes t: "db_trace (capsule_ops E) (new_db sz) (es @ GetE k q # fs) s" and E: "env_ok E"
    and sz: "1 \<le> unat sz" "unat sz \<le> 10737"
    and ks: "keys_given (es @ GetE k q # fs)"
    and few: "length (puts_of (es @ fs)) \<le> max_flushes * unat sz"
  obtains s1 u where "db_trace (capsule_ops E) (new_db sz) es s1"
    "q = (case db_view (capsule_ops E) s1 k of None \<Rightarrow> kvs_payload_default u | Some p \<Rightarrow> p)"
    "db_good (capsule_ops E) (world_ok E) world_room 0 s1"
proof -
  have "(es @ [GetE k q]) @ fs = es @ GetE k q # fs" by simp
  then obtain s2 where "db_trace (capsule_ops E) (new_db sz) (es @ [GetE k q]) s2"
    using t db_trace_prefix by metis
  then obtain s1 where s1: "db_trace (capsule_ops E) (new_db sz) es s1"
      "db_step (capsule_ops E) s1 (GetE k q) s2"
    unfolding db_trace_snoc by auto
  have k: "k \<noteq> ''''" "keys_given es" using ks by simp_all
  have len: "length (puts_of es) \<le> length (puts_of es)" by simp
  have n: "length (puts_of es) \<le> max_flushes * unat sz" using few by simp
  from trace_inv(1) [OF s1(1) new_db_good [OF E sz n] k(2) len]
  have good: "db_good (capsule_ops E) (world_ok E) world_room 0 s1" by simp
  from s1(2) obtain u where "db_get (capsule_ops E) k u s1 = Inr (q, s2)" by (auto elim: GetE_stepE)
  with fdb.get_spec [OF good k(1), of u]
  show thesis using that [OF s1(1)] good by auto
qed

text \<open>A sequence of puts into a new database.\<close>

lemma new_db_puts:
  assumes "env_ok E" "1 \<le> unat sz" "unat sz \<le> 10737"
    and "\<forall>p \<in> set ps. key p \<noteq> ''''" "length ps \<le> max_flushes * unat sz"
  obtains s where "put_all (db_put (capsule_ops E)) ps (new_db sz) = Inr s"
    "db_good (capsule_ops E) (world_ok E) world_room 0 s"
    "dom (db_view (capsule_ops E) s) = key ` set ps" "db_held (capsule_ops E) s \<subseteq> set ps"
    "increasing Map.empty ps \<Longrightarrow> db_view (capsule_ops E) s = apply_puts ps Map.empty"
proof -
  have "db_good (capsule_ops E) (world_ok E) world_room (length ps + 0) (new_db sz)"
    using new_db_good assms by simp
  from fdb.put_all_spec [OF this assms(4)] obtain s where
    s: "put_all (db_put (capsule_ops E)) ps (new_db sz) = Inr s"
      "db_good (capsule_ops E) (world_ok E) world_room 0 s"
      "dom (db_view (capsule_ops E) s) = key ` set ps \<union> dom (db_view (capsule_ops E) (new_db sz))"
      "db_held (capsule_ops E) s \<subseteq> (\<lambda>p. p) ` set ps \<union> db_held (capsule_ops E) (new_db sz)"
      "db_sorted (capsule_ops E) (new_db sz) \<and>
         increasing (db_view (capsule_ops E) (new_db sz)) (map (\<lambda>p. p) ps) \<longrightarrow>
       db_view (capsule_ops E) s = apply_puts (map (\<lambda>p. p) ps) (db_view (capsule_ops E) (new_db sz))"
    by blast
  show thesis
    by (rule that [OF s(1,2)])
      (use s(3-5) in \<open>simp_all only: new_db_empty list.map_ident image_ident dom_empty Un_empty_right simp_thms\<close>)
qed

lemma new_db_put_get:
  assumes "env_ok E" "1 \<le> unat sz" "unat sz \<le> 10737"
    and "\<forall>p \<in> set ps. key p \<noteq> ''''" "length ps \<le> max_flushes * unat sz"
  shows "\<exists>s m. put_all (db_put (capsule_ops E)) ps (new_db sz) = Inr s \<and>
    (\<forall>k u. db_get (capsule_ops E) k u s =
       Inr (case m k of None \<Rightarrow> kvs_payload_default u | Some p \<Rightarrow> p, s)) \<and>
    dom m = key ` set ps \<and> (\<forall>k p. m k = Some p \<longrightarrow> p \<in> set ps \<and> key p = k) \<and>
    (increasing Map.empty ps \<longrightarrow> m = apply_puts ps Map.empty)"
proof -
  obtain s where s: "put_all (db_put (capsule_ops E)) ps (new_db sz) = Inr s"
    "db_good (capsule_ops E) (world_ok E) world_room 0 s"
    "dom (db_view (capsule_ops E) s) = key ` set ps" "db_held (capsule_ops E) s \<subseteq> set ps"
    "increasing Map.empty ps \<Longrightarrow> db_view (capsule_ops E) s = apply_puts ps Map.empty"
    using new_db_puts [OF assms] by blast
  have "\<forall>k p. db_view (capsule_ops E) s k = Some p \<longrightarrow> p \<in> set ps \<and> key p = k"
    using fdb.view_held [OF s(2)] s(4) by blast
  then show ?thesis using s(1,3,5) db_get_ok [OF s(2)]
    by (intro exI [of _ s] exI [of _ "db_view (capsule_ops E) s"]) blast
qed

end
