(* ===== verification/LevelFill.thy ===== *)
theory LevelFill
  imports Runs
begin

text \<open>
  Which levels of the index hold blocks: a compaction (\<open>index.cc\<close>) empties level 0 and leaves blocks in
  every level below it, so level 0 holds one block after an odd number of flushes and none after an even one.
  The lemmas on \<open>merge\<close> and \<open>compactHelper\<close> hold for every store and every run that ends without an error.
\<close>

section \<open>A merge writes a block\<close>

definition has_output :: "merge_vars \<Rightarrow> bool" where
  "has_output v \<longleftrightarrow> kvPairs (next_cb v) \<noteq> [] \<or> out_headers v \<noteq> []"

lemma merge_step_output: "merge_step S bs l a b v w = Inr (v', w') \<Longrightarrow> has_output v'"
  by (auto simp: merge_step_def merge_add_def write_block_def addKVPair_def has_output_def Let_def bindr_Inr_iff
      split: if_splits)

lemma merge_loop_output:
  "merge_loop S bs l a b v w = Inr (v', w') \<Longrightarrow> has_output v \<or> aa v < length a \<Longrightarrow> has_output v'"
proof (induction S bs l a b v w rule: merge_loop.induct)
  case (1 S bs l a b v w)
  show ?case
  proof (cases "aa v < length a \<or> bb v < length b")
    case True
    then obtain u x where u: "merge_step S bs l a b v w = Inr (u, x)" "merge_loop S bs l a b u x = Inr (v', w')"
      using "1.prems"(1) by (subst (asm) merge_loop.simps) (auto simp: bindr_Inr_iff)
    then show ?thesis using "1.IH" [OF True u(1) refl u(2)] merge_step_output [OF u(1)] by blast
  next
    case False
    then show ?thesis using "1.prems" by (subst (asm) merge_loop.simps) auto
  qed
qed

lemma merge_nonempty:
  assumes "merge S bs a b l w = Inr (hs, w')"
  shows "hs \<noteq> []"
proof -
  from assms obtain x y v u where
    "merge_loop S bs l a b \<lparr>aa = 0, bb = 0, aaa = 0, bbb = 0, capsuleBlockA = x, capsuleBlockB = y,
       next_cb = CapsuleBlock_new l, out_headers = []\<rparr> w = Inr (v, u)" "a \<noteq> []"
    and out: "(if getKVPairs (next_cb v) \<noteq> [] then write_block S (next_cb v) (out_headers v) u
       else Inr (out_headers v, u)) = Inr (hs, w')"
    by (auto simp: merge_def bindr_Inr_iff split: if_splits)
  from merge_loop_output [OF this(1)] this(2) have "has_output v" by simp
  then show ?thesis using out
    by (auto simp: has_output_def write_block_def block_getters bindr_Inr_iff split: if_splits)
qed

section \<open>Compaction fills the levels below\<close>

text \<open>The levels are numbered as they lie in the vector; from level \<open>d\<close> on each holds a block.\<close>

definition numbered :: "CapsuleIndex \<Rightarrow> bool" where
  "numbered ix \<longleftrightarrow> numLevels ix = int (length (levels ix)) \<and>
     (\<forall>i < length (levels ix). index (levels ix ! i) = int i)"

definition filled :: "nat \<Rightarrow> CapsuleIndex \<Rightarrow> bool" where
  "filled d ix \<longleftrightarrow> (\<forall>i. d \<le> i \<and> i < length (levels ix) \<longrightarrow> recordHashes (levels ix ! i) \<noteq> [])"

lemma index_ok_numbered: "index_ok S w ix \<Longrightarrow> numbered ix"
  by (simp add: index_ok_def levels_ok_def level_ok_def numbered_def)

lemma filled_mono: "filled d ix \<Longrightarrow> d \<le> e \<Longrightarrow> filled e ix"
  by (auto simp: filled_def)

lemma level_set_blocks:
  "i < length (levels ix) \<Longrightarrow> levels (set_level_blocks d hs ix) ! i =
    (if i = d then set_blocks hs (levels ix ! i) else levels ix ! i)"
  by (simp add: set_level_blocks_def nth_list_update)

lemma set_level_blocks_Nil [simp]: "levels (set_level_blocks d hs ix) = [] \<longleftrightarrow> levels ix = []"
  by (simp add: set_level_blocks_def)

lemma numbered_set_level_blocks [simp]: "numbered (set_level_blocks d hs ix) \<longleftrightarrow> numbered ix"
  by (auto simp: numbered_def level_set_blocks)

lemma filled_set_level_blocks:
  "filled (Suc d) (set_level_blocks d hs ix) \<longleftrightarrow> filled (Suc d) ix"
  "filled (Suc d) ix \<Longrightarrow> hs \<noteq> [] \<Longrightarrow> filled d (set_level_blocks d hs ix)"
  by (auto simp: filled_def level_set_blocks)

lemma addLevel_numbered:
  assumes "addLevel sz ix = Inr (i, ix')" "numbered ix"
  shows "numbered ix'" "length (levels ix') = Suc (length (levels ix))"
    "take (length (levels ix)) (levels ix') = levels ix"
  using assms by (auto simp: addLevel_def Let_def bindr_Inr_iff checked_int_def numbered_def nth_append
      less_Suc_eq Level_new_def split: if_splits)

text \<open>The level below \<open>d\<close> is created empty; it is then the last one.\<close>

lemma ensure_next_numbered:
  assumes e: "ensure_next_level ix (levels ix ! d) = Inr ix'" and ix: "numbered ix" "d < length (levels ix)"
    "filled (Suc d) ix"
  shows "numbered ix' \<and> filled (Suc (Suc d)) ix' \<and> length (levels ix) \<le> length (levels ix')"
proof -
  have idx: "index (levels ix ! d) = int d" using ix by (simp add: numbered_def)
  consider "ix' = ix" | sz i where "addLevel sz ix = Inr (i, ix')" "length (levels ix) \<le> Suc d"
    using e ix(1) by (auto simp: ensure_next_level_def bindr_Inr_iff checked_int_def idx numbered_def
      split: if_splits)
  then show ?thesis
  proof cases
    case 1
    then show ?thesis using ix by (auto intro: filled_mono)
  next
    case 2
    then show ?thesis using addLevel_numbered [OF 2(1) ix(1)] by (auto simp: filled_def)
  qed
qed

lemma compactHelper_level: "compactHelper S fuel ix src d w = Inr (ix', w') \<Longrightarrow> d < length (levels ix)"
  by (cases fuel) (auto simp: bindr_Inr_iff level_at_def split: if_splits)

lemma compactHelper_filled:
  "compactHelper S fuel ix src d w = Inr (ix', w') \<Longrightarrow> numbered ix \<Longrightarrow> filled (Suc d) ix \<Longrightarrow>
    numbered ix' \<and> filled d ix' \<and> length (levels ix) \<le> length (levels ix')"
proof (induction fuel arbitrary: ix src d w ix' w')
  case (Suc fuel)
  from Suc.prems(1) obtain L ix3 w3 newVec where
    L: "level_at ix d = Inr L"
    and mid: "(if level_overflows ix src L
            then
              bindr (ensure_next_level ix L) (\<lambda>ix1.
              bindr (case affected_blocks src (recordHashes L) [] [] of
                       (new, rem) \<Rightarrow> select_more (length src) new rem) (\<lambda>(new, rem).
              bindr (compactHelper S fuel ix1 new (Suc d) w) (\<lambda>(ix2, w2).
              Inr (set_level_blocks d rem ix2, w2))))
            else Inr (ix, w)) = Inr (ix3, w3)"
    and m: "merge S (blocksize ix3) src (recordHashes (levels ix3 ! d)) (int d) w3 = Inr (newVec, w')"
    and ix': "ix' = set_level_blocks d newVec ix3"
    by (auto simp: bindr_Inr_iff)
  have d: "d < length (levels ix)" "L = levels ix ! d" using L by (auto simp: level_at_def split: if_splits)
  have "numbered ix3 \<and> filled (Suc d) ix3 \<and> length (levels ix) \<le> length (levels ix3)"
  proof (cases "level_overflows ix src L")
    case True
    with mid obtain ix1 new rem ix2 where
      e: "ensure_next_level ix (levels ix ! d) = Inr ix1" "compactHelper S fuel ix1 new (Suc d) w = Inr (ix2, w3)"
        "ix3 = set_level_blocks d rem ix2"
      by (auto simp: bindr_Inr_iff d(2))
    note n = ensure_next_numbered [OF e(1) Suc.prems(2) d(1) Suc.prems(3)]
    with Suc.IH [OF e(2)] show ?thesis by (simp add: e(3) filled_set_level_blocks)
  qed (use mid Suc.prems in simp)
  then show ?case using merge_nonempty [OF m] by (simp add: ix' filled_set_level_blocks)
qed simp

text \<open>\<open>compact\<close> does nothing, or empties level 0 and fills the others, of which there is at least one.\<close>

lemma compact_filled:
  assumes c: "compact S ix w = Inr (ix', w')" and ix: "numbered ix" "filled 1 ix"
  shows "ix' = ix \<or> recordHashes (levels ix' ! 0) = [] \<and> filled 1 ix' \<and> 1 < length (levels ix') \<and>
    length (levels ix) \<le> length (levels ix')"
proof -
  from c obtain L where L: "level_at ix 0 = Inr L" by (auto simp: compact_def bindr_Inr_iff)
  then have ne: "levels ix \<noteq> []" "L = levels ix ! 0" by (auto simp: level_at_def split: if_splits)
  show ?thesis
  proof (cases "blocksize ix * of_int (numBlocks L) < of_int (maxSize L)")
    case False
    with c L obtain ix1 w1 src w2 ix2 ix3 w3 where
      s: "sortL0 S ix w = Inr (ix1, w1)"
      and a: "(if numLevels ix1 = 1 then bindr (checked_int (10 * maxSize L)) (\<lambda>sz.
           bindr (addLevel sz ix1) (\<lambda>(_, ix'). Inr ix')) else Inr ix1) = Inr ix2"
      and h: "compactHelper S (length (levels ix2) + 2) ix2 src 1 w2 = Inr (ix3, w3)"
      and ix': "ix' = set_level_blocks 0 [] ix3"
      by (auto simp: compact_def bindr_Inr_iff simp del: compactHelper.simps)
    from s L obtain hs where "ix1 = ix\<lparr>levels := (levels ix)[0 := L\<lparr>recordHashes := hs\<rparr>]\<rparr>"
      by (auto simp: sortL0_def bindr_Inr_iff)
    then have 1: "numbered ix1" "filled 1 ix1" "levels ix1 \<noteq> []" "length (levels ix1) = length (levels ix)"
      using ix ne by (auto simp: numbered_def filled_def nth_list_update)
    have 2: "numbered ix2" "filled (Suc 1) ix2" "length (levels ix1) \<le> length (levels ix2)"
    proof -
      consider "ix2 = ix1" | sz i where "numLevels ix1 = 1" "addLevel sz ix1 = Inr (i, ix2)"
        using a by (auto simp: bindr_Inr_iff split: if_splits)
      then have "numbered ix2 \<and> filled (Suc 1) ix2 \<and> length (levels ix1) \<le> length (levels ix2)"
      proof cases
        case 1
        then show ?thesis using \<open>numbered ix1\<close> \<open>filled 1 ix1\<close> by (auto intro: filled_mono)
      next
        case 2
        then show ?thesis using addLevel_numbered [OF 2(2) \<open>numbered ix1\<close>] \<open>numbered ix1\<close>
          by (auto simp: filled_def numbered_def)
      qed
      then show "numbered ix2" "filled (Suc 1) ix2" "length (levels ix1) \<le> length (levels ix2)" by blast+
    qed
    have "1 < length (levels ix2)" using compactHelper_level [OF h] .
    moreover have "filled 1 ix3" "length (levels ix2) \<le> length (levels ix3)"
      using compactHelper_filled [OF h 2(1,2)] by auto
    ultimately have "filled 1 ix3" "1 < length (levels ix3)" "length (levels ix) \<le> length (levels ix3)"
      using 1(4) 2(3) by linarith+
    moreover from this(2) have "recordHashes (levels (set_level_blocks 0 [] ix3) ! 0) = []"
      by (subst level_set_blocks) auto
    ultimately show ?thesis using filled_set_level_blocks(1) [of 0 "[]" ix3] by (simp add: ix')
  qed (use c L in \<open>simp add: compact_def\<close>)
qed

section \<open>The blocks of level 0\<close>

abbreviation blocks0 :: "CapsuleIndex \<Rightarrow> nat" where
  "blocks0 ix \<equiv> length (recordHashes (levels ix ! 0))"

lemma addBlock_level0:
  "addBlock b h L = Inr (st, L') \<Longrightarrow> index L = 0 \<Longrightarrow>
    length (recordHashes L') = Suc (length (recordHashes L)) \<and> numBlocks L' = numBlocks L + 1 \<and>
    index L' = 0 \<and> maxSize L' = maxSize L"
  by (auto simp: addBlock_def Let_def bindr_Inr_iff checked_int_def split: if_splits)

lemma add_hash_filled:
  assumes a: "add_hash S 0 h b ix w = Inr (st, ix', w')" and ix: "index_ok S v ix" "filled 1 ix"
    and ok: "index_ok S v' ix'"
  shows "filled 1 ix' \<and> blocks0 ix' = 1 - blocks0 ix \<and> length (levels ix) \<le> length (levels ix') \<and>
    (blocks0 ix = 0 \<or> 1 < length (levels ix'))"
proof -
  let ?L = "levels ix ! 0" and ?n = "unat (blocksize ix)"
  have ne: "levels ix \<noteq> []" and L: "level_ok S v ?n 0 ?L" and pos: "0 < ?n" and num: "0 < numLevels ix"
    using ix(1) by (auto simp: index_ok_def levels_ok_def)
  have le: "blocks0 ix < 2" "blocks0 ix' < 2"
    using L ok by (auto simp: index_ok_def levels_ok_def level_ok_def)
  from a ne num obtain L' where add: "addBlock b h ?L = Inr (st, L')"
    and c: "compact S (ix\<lparr>levels := (levels ix)[0 := L']\<rparr>) w = Inr (ix', w')"
    by (auto simp: add_hash_def level_at_def bindr_Inr_iff)
  let ?ix = "ix\<lparr>levels := (levels ix)[0 := L']\<rparr>"
  have L0: "index ?L = 0" "maxSize ?L = int (2 * ?n)" "int_range (maxSize ?L)" "numBlocks ?L = int (blocks0 ix)"
    using L by (auto simp: level_ok_def bounds_ok_def)
  note L' = addBlock_level0 [OF add L0(1)]
  have f: "numbered ?ix" "filled 1 ?ix" "blocks0 ?ix = Suc (blocks0 ix)"
    using index_ok_numbered [OF ix(1)] ix(2) L' ne by (auto simp: numbered_def filled_def nth_list_update)
  from compact_filled [OF c f(1,2)] show ?thesis
  proof (elim disjE conjE)
    assume "ix' = ?ix"
    with f le(2) show ?thesis by simp
  next
    assume e: "recordHashes (levels ix' ! 0) = []" "filled 1 ix'" "1 < length (levels ix')"
      "length (levels ?ix) \<le> length (levels ix')"
    have "blocks0 ix \<noteq> 0"
    proof
      assume "blocks0 ix = 0"
      then have "compact S ?ix w = Inr (?ix, w)" using compact_small [of ?ix L' ?n S w] ne pos L0 L' by simp
      then show False using c f(3) e(1) by simp
    qed
    then have "blocks0 ix = 1" using le(1) by linarith
    then show ?thesis using e by simp
  qed
qed

section \<open>The puts of new keys\<close>

text \<open>The records in the memtable of a database, the size of the memtable, and the number of levels.\<close>

abbreviation in_table :: "'w db_state \<Rightarrow> nat" where
  "in_table s \<equiv> length (memtable (db_memtable (fst s)))"

abbreviation capacity :: "'w db_state \<Rightarrow> nat" where
  "capacity s \<equiv> unat (max_size (db_memtable (fst s)))"

abbreviation depth :: "'w db_state \<Rightarrow> nat" where
  "depth s \<equiv> length (levels (db_index (fst s)))"

text \<open>A put of a key that the table does not hold fills a place of the table, or writes the full table out.\<close>

lemma put_new_key:
  assumes put: "db_put S p s = Inr s'" and ok: "db_ok S I (snd s) (fst s)" "db_ok S I (snd s') (fst s')"
    and p: "mem_map (db_memtable (fst s)) (key p) = None" "key p \<noteq> ''''" and fill: "filled 1 (db_index (fst s))"
  shows "filled 1 (db_index (fst s')) \<and> capacity s' = capacity s \<and>
    (if in_table s < capacity s then in_table s' = Suc (in_table s) \<and> db_index (fst s') = db_index (fst s)
     else in_table s' = 1 \<and> blocks0 (db_index (fst s')) = 1 - blocks0 (db_index (fst s)) \<and>
       depth s \<le> depth s' \<and> (blocks0 (db_index (fst s)) = 0 \<or> 1 < depth s'))"
proof -
  obtain db w where s: "s = (db, w)" by (cases s)
  let ?mt = "db_memtable db" and ?ix = "db_index db"
  have mt: "memtable_ok ?mt" and ix: "index_ok S w ?ix" using ok(1) by (simp_all add: db_ok_def s)
  have cap: "length (memtable ?mt) \<le> unat (max_size ?mt)" "0 < unat (max_size ?mt)"
    using mt by (simp_all add: memtable_ok_def)
  show ?thesis
  proof (cases "in_table s < capacity s")
    case True
    then have l: "length (memtable ?mt) < unat (max_size ?mt)" by (simp add: s)
    have "Memtable_put S p ?mt ?ix w = Inr (True, insert_new p ?mt, ?ix, w)"
      using Memtable_put_absent [OF mt _ write_out_not_full [OF mt l] mt] p(1) by (simp add: s)
    then have "s' = (db\<lparr>db_memtable := insert_new p ?mt, db_index := ?ix\<rparr>, w)"
      using put by (simp add: db_put_def CapsuleDB_put_def s)
    then show ?thesis using memtable_ok_insert(3) [OF mt _ p(2) l] p(1) True fill
      by (simp add: s insert_new_def)
  next
    case False
    let ?me = "?mt\<lparr>memtable := [], locklst := []\<rparr>"
    have none: "map_find (key p) (locklst ?mt) = None" using p(1) memtable_ok_locks(3) [OF mt] by (simp add: s)
    obtain mt1 ix1 w1 where out: "write_out_if_full S ?mt ?ix w = Inr (mt1, ix1, w1)"
      using put none by (auto simp: db_put_def CapsuleDB_put_def s Memtable_put_def Let_def bindr_Inr_iff)
    moreover have "length (memtable ?mt) = unat (max_size ?mt)" using False cap(1) by (simp add: s)
    ultimately obtain h b st w2 where mt1: "mt1 = ?me" and a: "add_hash S 0 h b ?ix w2 = Inr (st, ix1, w1)"
      by (auto simp: write_out_if_full_def Let_def bindr_Inr_iff split: list.splits prod.splits)
    have me: "memtable_ok ?me" "mem_map ?me (key p) = None" "length (memtable ?me) < unat (max_size ?me)"
      using cap(2) by (simp_all add: memtable_ok_def mem_map_def)
    have "Memtable_put S p ?mt ?ix w = Inr (True, insert_new p ?me, ix1, w1)"
      using Memtable_put_absent [OF mt _ out] me(1) p(1) by (simp add: s mt1)
    then have s': "s' = (db\<lparr>db_memtable := insert_new p ?me, db_index := ix1\<rparr>, w1)"
      using put by (simp add: db_put_def CapsuleDB_put_def s)
    have "index_ok S w1 ix1" using ok(2) by (simp add: db_ok_def s')
    from add_hash_filled [OF a ix _ this] fill
    have "filled 1 ix1 \<and> blocks0 ix1 = 1 - blocks0 ?ix \<and> length (levels ?ix) \<le> length (levels ix1) \<and>
      (blocks0 ?ix = 0 \<or> 1 < length (levels ix1))" by (simp add: s)
    then show ?thesis using False memtable_ok_insert(3) [OF me(1,2) p(2) me(3)] by (simp add: s s' insert_new_def)
  qed
qed

text \<open>
  Puts of new keys, all different: after \<open>F\<close> flushes the table holds the rest of them, and level 0 has changed
  between no block and one block \<open>F\<close> times. The second flush makes a second level.
\<close>

lemma put_all_new_keys:
  assumes "put_all (db_put (capsule_ops E)) ps s = Inr s'"
    and "db_good (capsule_ops E) (world_ok E) world_room (length ps + k) s"
    and "distinct (map key ps)" "\<forall>p \<in> set ps. key p \<noteq> ''''" "key ` set ps \<inter> dom (db_view (capsule_ops E) s) = {}"
    and "filled 1 (db_index (fst s))" "blocks0 (db_index (fst s)) = m mod 2" "1 < m \<longrightarrow> 1 < depth s"
  shows "\<exists>F. capacity s' = capacity s \<and> in_table s + length ps = capacity s * F + in_table s' \<and>
    (ps \<noteq> [] \<longrightarrow> 0 < in_table s') \<and> filled 1 (db_index (fst s')) \<and>
    blocks0 (db_index (fst s')) = (m + F) mod 2 \<and> (1 < m + F \<longrightarrow> 1 < depth s') \<and>
    db_good (capsule_ops E) (world_ok E) world_room k s'"
  using assms
proof (induction ps arbitrary: s m)
  case Nil
  then show ?case by (intro exI [of _ 0]) simp
next
  case (Cons p ps)
  let ?S = "capsule_ops E"
  have good: "db_good ?S (world_ok E) world_room (Suc (length ps + k)) s" using Cons.prems(2) by simp
  have p: "key p \<noteq> ''''" using Cons.prems(4) by simp
  from fdb.put_spec [OF good p] obtain s1 where s1: "db_put ?S p s = Inr s1"
    "db_good ?S (world_ok E) world_room (length ps + k) s1"
    "dom (db_view ?S s1) = insert (key p) (dom (db_view ?S s))" by blast
  have rest: "put_all (db_put ?S) ps s1 = Inr s'" using Cons.prems(1) s1(1) by simp
  have "mem_map (db_memtable (fst s)) (key p) = None"
    using Cons.prems(5) by (auto simp: db_view_def db_map_def)
  moreover have "db_ok ?S (world_ok E) (snd s) (fst s)" "db_ok ?S (world_ok E) (snd s1) (fst s1)"
    using good s1(2) by (simp_all add: db_good_def)
  ultimately have N: "filled 1 (db_index (fst s1))" "capacity s1 = capacity s"
    "if in_table s < capacity s then in_table s1 = Suc (in_table s) \<and> db_index (fst s1) = db_index (fst s)
     else in_table s1 = 1 \<and> blocks0 (db_index (fst s1)) = 1 - blocks0 (db_index (fst s)) \<and>
       depth s \<le> depth s1 \<and> (blocks0 (db_index (fst s)) = 0 \<or> 1 < depth s1)"
    using put_new_key [OF s1(1) _ _ _ p Cons.prems(6)] by blast+
  have "in_table s \<le> capacity s" using good by (simp add: db_good_def db_ok_def memtable_ok_def)
  then obtain F1 where F1: "in_table s + 1 = capacity s * F1 + in_table s1"
    "blocks0 (db_index (fst s1)) = (m + F1) mod 2" "1 < m + F1 \<longrightarrow> 1 < depth s1"
  proof (cases "in_table s < capacity s")
    case True
    then show thesis using that [of 0] N(3) Cons.prems(7,8) by simp
  next
    case False
    have "m mod 2 = 0 \<longrightarrow> m \<noteq> 1" by (cases "m = 1") simp_all
    then show thesis using that [of 1] False N(3) Cons.prems(7,8) \<open>in_table s \<le> capacity s\<close>
      by (auto simp: mod_Suc)
  qed
  have keys: "distinct (map key ps)" "\<forall>p \<in> set ps. key p \<noteq> ''''" "key ` set ps \<inter> dom (db_view ?S s1) = {}"
    using Cons.prems(3-5) s1(3) by auto
  from Cons.IH [OF rest s1(2) keys N(1) F1(2,3)] obtain F where
    F: "capacity s' = capacity s1" "in_table s1 + length ps = capacity s1 * F + in_table s'"
      "ps \<noteq> [] \<longrightarrow> 0 < in_table s'" "filled 1 (db_index (fst s'))"
      "blocks0 (db_index (fst s')) = (m + F1 + F) mod 2" "1 < m + F1 + F \<longrightarrow> 1 < depth s'"
      "db_good ?S (world_ok E) world_room k s'" by blast
  have "0 < in_table s1" using N(3) by (auto split: if_splits)
  moreover have "s' = s1" if "ps = []" using rest that by simp
  ultimately have "0 < in_table s'" using F(3) by blast
  then show ?case using F F1(1) N(2) by (intro exI [of _ "F1 + F"]) (simp add: algebra_simps)
qed

end
