(* ===== verification/ProtoWire.thy ===== *)
theory ProtoWire
  imports Database
begin

text \<open>
  A concrete environment for theory FakeCapsule, which shows that what the storage relies on can
  hold: the messages in the wire format of Protocol Buffers (fields in the order of their numbers,
  as the library writes them) and, in the place of SHA-256, a digest that is the first 32 bytes of
  its padded argument. It instantiates the parameters of the witnesses; nothing in it models code
  of the repository.
\<close>

section \<open>Variable-length integers\<close>

fun varint :: "nat \<Rightarrow> string" where
  "varint n = (if n < 128 then [char_of n] else char_of (128 + n mod 128) # varint (n div 128))"

declare varint.simps [simp del]

fun get_varint :: "string \<Rightarrow> (nat \<times> string) option" where
  "get_varint [] = None"
| "get_varint (c # cs) =
     (if of_char c < (128::nat) then Some (of_char c, cs)
      else (case get_varint cs of None \<Rightarrow> None
            | Some (m, cs') \<Rightarrow> Some (of_char c - 128 + 128 * m, cs')))"

lemma of_char_of_nat: "n < 256 \<Longrightarrow> of_char (char_of n) = (n::nat)"
  by (simp add: of_char_of take_bit_nat_eq_self)

lemma get_varint_varint [simp]: "get_varint (varint n @ s) = Some (n, s)"
proof (induction n rule: varint.induct)
  case (1 n)
  show ?case
  proof (cases "n < 128")
    case True
    then show ?thesis by (subst varint.simps) (simp add: of_char_of_nat)
  next
    case False
    have c: "of_char (char_of (128 + n mod 128) :: char) = 128 + n mod 128"
      using mod_less_divisor [of 128 n] by (intro of_char_of_nat) simp
    have "n mod 128 + 128 * (n div 128) = n" by simp
    then show ?thesis using 1 False c by (subst varint.simps) simp
  qed
qed

lemma varint_no_zero: "0 < n \<Longrightarrow> CHR 0x00 \<notin> set (varint n)"
proof (induction n rule: varint.induct)
  case (1 n)
  have z: "of_char (CHR 0x00) = (0::nat)" by simp
  show ?case
  proof (cases "n < 128")
    case True
    then have "of_char (char_of n :: char) = n" by (intro of_char_of_nat) simp
    then have "char_of n \<noteq> CHR 0x00" using 1(2) z by (metis less_irrefl)
    then show ?thesis using True by (subst varint.simps) simp
  next
    case False
    have "of_char (char_of (128 + n mod 128) :: char) = 128 + n mod 128"
      using mod_less_divisor [of 128 n] by (intro of_char_of_nat) simp
    then have "char_of (128 + n mod 128) \<noteq> CHR 0x00" using z by (metis add_is_0 zero_neq_numeral)
    moreover have "0 < n div 128" using False by (simp add: div_greater_zero_iff)
    ultimately show ?thesis using 1 False by (subst varint.simps) simp
  qed
qed

lemma length_varint: "n < 128 ^ Suc k \<Longrightarrow> length (varint n) \<le> Suc k"
proof (induction k arbitrary: n)
  case 0
  then show ?case by (subst varint.simps) simp
next
  case (Suc k)
  then have "n div 128 < 128 ^ Suc k"
    by (simp add: less_mult_imp_div_less mult.commute)
  with Suc.IH have "length (varint (n div 128)) \<le> Suc k" by blast
  then show ?case by (subst varint.simps) simp
qed

section \<open>Fields\<close>

definition put_bytes :: "string \<Rightarrow> string" where
  "put_bytes s = varint (length s) @ s"

definition get_bytes :: "string \<Rightarrow> (string \<times> string) option" where
  "get_bytes s = (case get_varint s of None \<Rightarrow> None
     | Some (n, s') \<Rightarrow> if n \<le> length s' then Some (take n s', drop n s') else None)"

lemma get_bytes_put [simp]: "get_bytes (put_bytes s @ t) = Some (s, t)"
  by (simp add: get_bytes_def put_bytes_def)

definition put_opt :: "char \<Rightarrow> ('a \<Rightarrow> string) \<Rightarrow> 'a option \<Rightarrow> string" where
  "put_opt tag f x = (case x of None \<Rightarrow> [] | Some y \<Rightarrow> tag # f y)"

definition get_opt :: "char \<Rightarrow> (string \<Rightarrow> ('a \<times> string) option) \<Rightarrow> string \<Rightarrow> ('a option \<times> string) option" where
  "get_opt tag f s = (case s of [] \<Rightarrow> Some (None, [])
     | c # cs \<Rightarrow> if c = tag then map_option (\<lambda>(x, t). (Some x, t)) (f cs) else Some (None, s))"

text \<open>A field that is absent is recognised by the next tag, which must be different.\<close>

definition no_tag :: "char \<Rightarrow> string \<Rightarrow> bool" where
  "no_tag tag s \<longleftrightarrow> (case s of [] \<Rightarrow> True | c # cs \<Rightarrow> c \<noteq> tag)"

lemma no_tag_put_opt [simp]: "no_tag t (put_opt tag f x @ s) \<longleftrightarrow> (if x = None then no_tag t s else t \<noteq> tag)"
  by (auto simp: no_tag_def put_opt_def split: option.splits)

lemma get_opt_put [simp]:
  assumes "\<And>y s. f (g y @ s) = Some (y, s)" "no_tag tag s"
  shows "get_opt tag f (put_opt tag g x @ s) = Some (x, s)"
proof (cases x)
  case (Some y)
  then show ?thesis using assms(1) by (simp add: get_opt_def put_opt_def)
qed (use assms(2) in \<open>cases s; simp add: get_opt_def put_opt_def no_tag_def\<close>)

definition put_int64 :: "int64 \<Rightarrow> string" where
  "put_int64 i = varint (unat i)"

definition get_int64 :: "string \<Rightarrow> (int64 \<times> string) option" where
  "get_int64 s = map_option (\<lambda>(n, t). (of_nat n, t)) (get_varint s)"

lemma get_int64_put [simp]: "get_int64 (put_int64 i @ s) = Some (i, s)"
  by (simp add: get_int64_def put_int64_def)

section \<open>The messages\<close>

definition put_kvs :: "Kvs_payload_msg \<Rightarrow> string" where
  "put_kvs m = put_opt CHR 0x0A put_bytes (f_key m) @ put_opt CHR 0x12 put_bytes (f_value m) @
     put_opt CHR 0x18 put_int64 (f_txn_timestamp m) @ put_opt CHR 0x22 put_bytes (f_txn_msgtype m)"

definition get_kvs :: "string \<Rightarrow> Kvs_payload_msg option" where
  "get_kvs s0 =
     Option.bind (get_opt CHR 0x0A get_bytes s0) (\<lambda>(k, s1).
     Option.bind (get_opt CHR 0x12 get_bytes s1) (\<lambda>(v, s2).
     Option.bind (get_opt CHR 0x18 get_int64 s2) (\<lambda>(t, s3).
     Option.bind (get_opt CHR 0x22 get_bytes s3) (\<lambda>(y, s4).
     if s4 = [] then Some \<lparr>f_key = k, f_value = v, f_txn_timestamp = t, f_txn_msgtype = y\<rparr>
     else None))))"

lemma get_opt_end:
  assumes "\<And>y s. f (g y @ s) = Some (y, s)"
  shows "get_opt tag f (put_opt tag g x) = Some (x, [])"
  using get_opt_put [of f g tag "[]" x] assms by (simp add: no_tag_def)

lemma get_kvs_put [simp]: "get_kvs (put_kvs m) = Some m"
proof -
  have nt: "no_tag t (put_opt tag f x) \<longleftrightarrow> (if x = None then True else t \<noteq> tag)" for t tag f and x :: "'b option"
    using no_tag_put_opt [of t tag f x "[]"] by (simp add: no_tag_def)
  show ?thesis by (simp add: get_kvs_def put_kvs_def get_opt_end nt)
qed

fun put_kvpairs :: "Kvs_payload_msg list \<Rightarrow> string" where
  "put_kvpairs [] = []"
| "put_kvpairs (m # ms) = CHR 0x2A # put_bytes (put_kvs m) @ put_kvpairs ms"

fun get_kvpairs :: "nat \<Rightarrow> string \<Rightarrow> Kvs_payload_msg list option" where
  "get_kvpairs 0 s = (if s = [] then Some [] else None)"
| "get_kvpairs (Suc n) s = (case s of [] \<Rightarrow> Some []
     | c # cs \<Rightarrow> if c = CHR 0x2A then
           Option.bind (get_bytes cs) (\<lambda>(b, t).
           Option.bind (get_kvs b) (\<lambda>m.
           map_option ((#) m) (get_kvpairs n t)))
         else None)"

lemma get_kvpairs_put: "length ms \<le> n \<Longrightarrow> get_kvpairs n (put_kvpairs ms) = Some ms"
proof (induction ms arbitrary: n)
  case Nil
  then show ?case by (cases n) auto
next
  case (Cons m ms)
  then obtain k where "n = Suc k" "length ms \<le> k" by (cases n) auto
  with Cons.IH show ?case by simp
qed

lemma length_put_kvpairs: "length ms \<le> length (put_kvpairs ms)"
  by (induction ms) auto

definition put_block :: "CapsuleBlock_msg \<Rightarrow> string" where
  "put_block m = put_opt CHR 0x08 put_int64 (f_counter m) @ put_opt CHR 0x10 put_int64 (f_level m) @
     put_opt CHR 0x1A put_bytes (f_startKey m) @ put_opt CHR 0x22 put_bytes (f_endKey m) @
     put_kvpairs (f_kvpairs m)"

definition get_block :: "string \<Rightarrow> CapsuleBlock_msg option" where
  "get_block s0 =
     Option.bind (get_opt CHR 0x08 get_int64 s0) (\<lambda>(c, s1).
     Option.bind (get_opt CHR 0x10 get_int64 s1) (\<lambda>(l, s2).
     Option.bind (get_opt CHR 0x1A get_bytes s2) (\<lambda>(sk, s3).
     Option.bind (get_opt CHR 0x22 get_bytes s3) (\<lambda>(ek, s4).
     map_option (\<lambda>kvs. \<lparr>f_counter = c, f_level = l, f_startKey = sk, f_endKey = ek, f_kvpairs = kvs\<rparr>)
       (get_kvpairs (length s4) s4)))))"

lemma no_tag_kvpairs [simp]: "no_tag t (put_kvpairs ms) \<longleftrightarrow> ms = [] \<or> t \<noteq> CHR 0x2A"
  by (cases ms) (auto simp: no_tag_def)

lemma get_block_put [simp]: "get_block (put_block m) = Some m"
  by (simp add: get_block_def put_block_def get_kvpairs_put length_put_kvpairs)

section \<open>The environment\<close>

definition toy_digest :: "string \<Rightarrow> string" where
  "toy_digest s = take 32 (s @ replicate 32 (CHR 0x00))"

definition wire_env :: env where
  "wire_env = \<lparr>serialize = (\<lambda>m. Some (put_block m)),
     parse = (\<lambda>f. case f of None \<Rightarrow> None | Some s \<Rightarrow> get_block s),
     sha256 = toy_digest, ostream_ok = (\<lambda>h. True)\<rparr>"

text \<open>The counter can be read off the digest: it comes first and its bytes are not zero.\<close>

lemma toy_digest_counter:
  assumes m: "f_counter m = Some (of_int c)" and c: "0 \<le> c" "int_range c"
  shows "map_option fst (get_varint (tl (toy_digest (c_str (put_block m))))) = Some (nat c)"
proof -
  have "unat (of_nat (nat c) :: int64) = nat c"
    using c by (intro unat_of_nat_small) (simp add: int_range_def)
  then have u: "unat (of_int c :: int64) = nat c" using c(1) by simp
  obtain t where t: "put_block m = CHR 0x08 # varint (nat c) @ t"
    by (simp add: put_block_def put_opt_def m put_int64_def u)
  show ?thesis
  proof (cases "c = 0")
    case True
    have "varint 0 = [CHR 0x00]" by (subst varint.simps) (simp add: char_of_def)
    then have "c_str (put_block m) = [CHR 0x08]" using True t by (simp add: c_str_def)
    then show ?thesis using True by (simp add: toy_digest_def numeral_eq_Suc)
  next
    case False
    then have nz: "CHR 0x00 \<notin> set (varint (nat c))" using c(1) by (intro varint_no_zero) simp
    have len: "length (varint (nat c)) \<le> Suc 4"
      using c by (intro length_varint) (simp add: int_range_def)
    have "c_str (put_block m) = CHR 0x08 # varint (nat c) @ c_str t"
      using nz unfolding t c_str_def by (subst takeWhile.simps, subst takeWhile_append2) auto
    then have "tl (toy_digest (c_str (put_block m))) =
        varint (nat c) @ take (31 - length (varint (nat c))) (c_str t @ replicate 32 (CHR 0x00))"
      using len by (simp add: toy_digest_def take_Cons')
    then show ?thesis by simp
  qed
qed

lemma wire_env_ok: "env_ok wire_env"
proof -
  have "counters_apart wire_env"
    unfolding counters_apart_def
  proof (intro allI impI notI)
    fix m m' s s' c c'
    assume a: "serialize wire_env m = Some s \<and> serialize wire_env m' = Some s' \<and>
      f_counter m = Some (of_int c) \<and> f_counter m' = Some (of_int c') \<and>
      0 \<le> c \<and> int_range c \<and> 0 \<le> c' \<and> int_range c' \<and> c \<noteq> c'"
      and eq: "sha256 wire_env (c_str s) = sha256 wire_env (c_str s')"
    then have "toy_digest (c_str (put_block m)) = toy_digest (c_str (put_block m'))"
      by (auto simp: wire_env_def)
    then have "nat c = nat c'"
      using toy_digest_counter [of m c] toy_digest_counter [of m' c'] a by simp
    with a have "c = c'" by (simp add: nat_eq_iff2)
    with a show False by simp
  qed
  moreover have "length (toy_digest s) = 32" for s by (simp add: toy_digest_def min_def)
  ultimately show ?thesis by (simp add: env_ok_def wire_env_def)
qed

lemma wire_world_ok: "world_ok wire_env initial_world"
  by (simp add: world_ok_def wire_env_ok initial_world_def int_range_def)

end
