(* ===== verification/Pdu.thy ===== *)
theory Pdu
  imports FakeCapsule
begin

text \<open>
  The protocol data units of \<open>src/src/shared/capsule.h\<close> with the functions of \<open>src/src/util/proto_util.cc\<close>
  (serializing lists of records, hashing, signing, encrypting) and the helpers of
  \<open>src/src/shared/crypto.h\<close>. The algorithms of Asylo (SHA-256, AES-GCM-SIV) and the string functions of
  Abseil are the fields of a parameter \<open>L\<close>; \<open>lib_ok\<close> states what is documented of them. The keys of ECDSA
  are functions, for which \<open>key_pair\<close> states that what one signs the other verifies.
\<close>

section \<open>Numbers and strings\<close>

text \<open>\<open>std::to_string\<close> and \<open>std::stoi\<close>.\<close>

definition digit_char :: "nat \<Rightarrow> char" where
  "digit_char d = char_of (48 + d)"

fun show_nat :: "nat \<Rightarrow> string" where
  "show_nat n = (if n < 10 then [digit_char n] else show_nat (n div 10) @ [digit_char (n mod 10)])"

declare show_nat.simps [simp del]

definition to_string :: "int \<Rightarrow> string" where
  "to_string i = (if i < 0 then CHR ''-'' # show_nat (nat (- i)) else show_nat (nat i))"

definition is_digit :: "char \<Rightarrow> bool" where
  "is_digit c \<longleftrightarrow> 48 \<le> (of_char c :: nat) \<and> (of_char c :: nat) \<le> 57"

definition is_space :: "char \<Rightarrow> bool" where
  "is_space c \<longleftrightarrow> (of_char c :: nat) = 32 \<or> 9 \<le> (of_char c :: nat) \<and> (of_char c :: nat) \<le> 13"

fun read_nat :: "nat \<Rightarrow> string \<Rightarrow> nat" where
  "read_nat n [] = n"
| "read_nat n (c # cs) = (if is_digit c then read_nat (10 * n + (of_char c - 48)) cs else n)"

text \<open>
  \<open>stoi\<close> skips white space, takes an optional sign and the longest sequence of digits; without a digit it
  throws \<open>invalid_argument\<close>, and \<open>out_of_range\<close> when the number is not an \<open>int\<close>.
\<close>

definition stoi :: "string \<Rightarrow> int res" where
  "stoi s =
     (let t = dropWhile is_space s;
          neg = (t \<noteq> [] \<and> hd t = CHR ''-'');
          ds = (if t \<noteq> [] \<and> (hd t = CHR ''-'' \<or> hd t = CHR ''+'') then tl t else t)
      in if ds = [] \<or> \<not> is_digit (hd ds) then Inl (Invalid_argument ''stoi'')
         else let i = (if neg then - int (read_nat 0 ds) else int (read_nat 0 ds))
              in if int_range i then Inr i else Inl (Out_of_range ''stoi''))"

definition delim_str :: string where
  "delim_str = ''@@@''"

section \<open>The libraries\<close>

text \<open>
  What the code calls of Abseil and Asylo. A cryptor is an object of \<open>AeadCryptor\<close>: \<open>Seal\<close> gives the nonce
  it chose and the ciphertext, or fails; \<open>Open\<close> gives the plaintext, or fails. \<open>StrSplit\<close> cuts a string at
  the matches of a delimiter. \<open>digest\<close> is the hash that \<open>Sha256Hash\<close> computes of a message.
\<close>

record cryptor =
  NonceSize :: nat
  MaxSealOverhead :: nat
  Seal :: "string \<Rightarrow> string \<Rightarrow> (string \<times> string) option"
  Open :: "string \<Rightarrow> string \<Rightarrow> string \<Rightarrow> string option"

record pdu_lib =
  StrSplit :: "string \<Rightarrow> string \<Rightarrow> string list"
  BytesToHexString :: "string \<Rightarrow> string"
  HexStringToBytes :: "string \<Rightarrow> string"
  digest :: "string \<Rightarrow> string option"
  CreateAesGcmSivCryptor :: "string \<Rightarrow> cryptor option"

text \<open>A signing key is known by its method \<open>Sign\<close>, a verifying key by its method \<open>Verify\<close>.\<close>

type_synonym signing_key = "string \<Rightarrow> string option"
type_synonym verifying_key = "string \<Rightarrow> string \<Rightarrow> bool"

section \<open>Lists of records\<close>

definition serialize_payload :: "kvs_payload \<Rightarrow> string" where
  "serialize_payload p = to_string (sint (txn_timestamp p)) @ delim_str @ txn_msgType p @ delim_str @
     key p @ delim_str @ val p @ delim_str"

fun serialize_payload_l :: "kvs_payload list \<Rightarrow> string" where
  "serialize_payload_l [] = []"
| "serialize_payload_l (p # ps) = serialize_payload p @ serialize_payload_l ps"

definition KvToPayload :: "string \<Rightarrow> string \<Rightarrow> int64 \<Rightarrow> string \<Rightarrow> kvs_payload" where
  "KvToPayload k v timer msgType = \<lparr>key = k, val = v, txn_timestamp = timer, txn_msgType = msgType\<rparr>"

text \<open>The loop takes four pieces at a time and leaves the last piece of the split.\<close>

fun payloads_from :: "string list \<Rightarrow> kvs_payload list res" where
  "payloads_from (t # y # k # v # x # rest) =
     bindr (stoi t) (\<lambda>i.
     bindr (payloads_from (x # rest)) (\<lambda>ps.
     Inr (KvToPayload k v (of_int i) y # ps)))"
| "payloads_from other = Inr []"

definition deserialize_payload_l :: "pdu_lib \<Rightarrow> string \<Rightarrow> kvs_payload list res" where
  "deserialize_payload_l L s =
     (let split = StrSplit L s delim_str in
      if (length split - 1) mod 4 \<noteq> 0 then Inr [] else payloads_from split)"

section \<open>Round trip of the lists\<close>

text \<open>A field that can stand between delimiters: it contains none and does not end in their character.\<close>

fun has_delim :: "string \<Rightarrow> bool" where
  "has_delim [] \<longleftrightarrow> False"
| "has_delim (c # s) \<longleftrightarrow> take 3 (c # s) = delim_str \<or> has_delim s"

definition field_ok :: "string \<Rightarrow> bool" where
  "field_ok f \<longleftrightarrow> \<not> has_delim f \<and> (f = [] \<or> last f \<noteq> CHR ''@'')"

definition payload_ok :: "kvs_payload \<Rightarrow> bool" where
  "payload_ok p \<longleftrightarrow> field_ok (txn_msgType p) \<and> field_ok (key p) \<and> field_ok (val p)"

text \<open>
  What Abseil documents of \<open>StrSplit\<close> by a string: it cuts at the first match of the delimiter and goes on
  behind it, and a string without a match is one piece.
\<close>

definition split_ok :: "pdu_lib \<Rightarrow> bool" where
  "split_ok L \<longleftrightarrow>
     (\<forall>f s. field_ok f \<longrightarrow> StrSplit L (f @ delim_str @ s) delim_str = f # StrSplit L s delim_str) \<and>
     StrSplit L [] delim_str = [[]]"

lemma split_field:
  "split_ok L \<Longrightarrow> field_ok f \<Longrightarrow> StrSplit L (f @ delim_str @ s) delim_str = f # StrSplit L s delim_str"
  by (simp add: split_ok_def)

lemma split_Nil: "split_ok L \<Longrightarrow> StrSplit L [] delim_str = [[]]"
  by (simp add: split_ok_def)

lemma digit_char_code: "d < 10 \<Longrightarrow> of_char (digit_char d) = 48 + d"
  by (simp add: digit_char_def of_char_of take_bit_nat_eq_self)

lemma show_nat_digits: "\<forall>c \<in> set (show_nat n). is_digit c"
proof (induction n rule: show_nat.induct)
  case (1 n)
  then show ?case
    by (subst show_nat.simps) (auto simp: is_digit_def digit_char_code)
qed

lemma show_nat_not_Nil [simp]: "show_nat n \<noteq> []"
  by (subst show_nat.simps) auto

lemma read_nat_append:
  "\<forall>c \<in> set s. is_digit c \<Longrightarrow> read_nat n (s @ t) = read_nat (read_nat n s) t"
  by (induction s arbitrary: n) auto

lemma read_show_nat: "read_nat 0 (show_nat n) = n"
proof (induction n rule: show_nat.induct)
  case (1 n)
  have d: "is_digit (digit_char k)" if "k < 10" for k using that by (simp add: is_digit_def digit_char_code)
  show ?case
  proof (cases "n < 10")
    case True
    then show ?thesis by (subst show_nat.simps) (simp add: d digit_char_code)
  next
    case False
    have "read_nat 0 (show_nat n) = read_nat (read_nat 0 (show_nat (n div 10))) [digit_char (n mod 10)]"
      using False by (subst show_nat.simps) (simp add: read_nat_append show_nat_digits)
    also have "\<dots> = n" using 1 False by (simp add: d digit_char_code)
    finally show ?thesis .
  qed
qed

lemma digit_not_at: "is_digit c \<Longrightarrow> c \<noteq> CHR ''@'' \<and> c \<noteq> CHR ''-'' \<and> c \<noteq> CHR ''+'' \<and> \<not> is_space c"
  by (auto simp: is_digit_def is_space_def)

lemma no_at_field_ok: "CHR ''@'' \<notin> set f \<Longrightarrow> field_ok f"
proof -
  assume a: "CHR ''@'' \<notin> set f"
  then have "\<not> has_delim f" by (induction f) (auto simp: delim_str_def)
  moreover have "f = [] \<or> last f \<noteq> CHR ''@''" using a by (cases f rule: rev_cases) auto
  ultimately show ?thesis by (simp add: field_ok_def)
qed

lemma to_string_field_ok: "field_ok (to_string i)"
proof -
  have "c \<noteq> CHR ''@''" if "c \<in> set (show_nat n)" for c n
    using show_nat_digits digit_not_at that by blast
  then show ?thesis by (intro no_at_field_ok) (auto simp: to_string_def)
qed

lemma stoi_to_string: "stoi (to_string i) = (if int_range i then Inr i else Inl (Out_of_range ''stoi''))"
proof -
  have dw: "dropWhile is_space (show_nat n) = show_nat n" for n
    using show_nat_digits [of n] digit_not_at by (cases "show_nat n") auto
  have hd: "is_digit (hd (show_nat n))" for n using show_nat_digits [of n] by simp
  then have nh: "hd (show_nat n) \<noteq> CHR ''-''" "hd (show_nat n) \<noteq> CHR ''+''" for n
    using digit_not_at by blast+
  have m: "\<not> is_space CHR ''-''" by (simp add: is_space_def)
  have s: "is_space c \<Longrightarrow> c \<noteq> CHR ''-''" for c using m by auto
  have r: "read_nat 0 (show_nat n) = n" for n by (rule read_show_nat)
  show ?thesis
  proof (cases "i < 0")
    case True
    then have "to_string i = CHR ''-'' # show_nat (nat (- i))" by (simp add: to_string_def)
    then show ?thesis using True by (simp add: stoi_def Let_def m hd r)
  next
    case False
    then have t: "to_string i = show_nat (nat i)" by (simp add: to_string_def)
    show ?thesis unfolding t stoi_def dw using False by (simp add: Let_def hd nh r)
  qed
qed

lemma split_payload:
  assumes "split_ok L" "payload_ok p"
  shows "StrSplit L (serialize_payload p @ s) delim_str =
    to_string (sint (txn_timestamp p)) # txn_msgType p # key p # val p # StrSplit L s delim_str"
  using assms to_string_field_ok by (simp add: serialize_payload_def split_field payload_ok_def)

lemma split_payloads:
  assumes "split_ok L" "\<forall>p \<in> set ps. payload_ok p"
  shows "StrSplit L (serialize_payload_l ps) delim_str =
    concat (map (\<lambda>p. [to_string (sint (txn_timestamp p)), txn_msgType p, key p, val p]) ps) @ [[]]"
  using assms by (induction ps) (simp_all add: split_Nil split_payload)

lemma payloads_from_step:
  assumes "s \<noteq> []"
  shows "payloads_from (to_string (sint (txn_timestamp p)) # txn_msgType p # key p # val p # s) =
    (if int_range (sint (txn_timestamp p)) then bindr (payloads_from s) (\<lambda>ps. Inr (p # ps))
     else Inl (Out_of_range ''stoi''))"
  using assms by (cases s; cases p) (simp_all add: stoi_to_string KvToPayload_def)

lemma payloads_from_pieces:
  "payloads_from (concat (map (\<lambda>p. [to_string (sint (txn_timestamp p)), txn_msgType p, key p, val p]) ps) @ [[]]) =
    (case find (\<lambda>p. \<not> int_range (sint (txn_timestamp p))) ps of
       None \<Rightarrow> Inr ps | Some p \<Rightarrow> Inl (Out_of_range ''stoi''))"
proof (induction ps)
  case (Cons p ps)
  show ?case
    unfolding list.map concat.simps append.simps by (subst payloads_from_step) (auto simp: Cons split: option.split)
qed simp

lemma deserialize_serialize:
  assumes "split_ok L" "\<forall>p \<in> set ps. payload_ok p"
  shows "deserialize_payload_l L (serialize_payload_l ps) =
    (case find (\<lambda>p. \<not> int_range (sint (txn_timestamp p))) ps of
       None \<Rightarrow> Inr ps | Some p \<Rightarrow> Inl (Out_of_range ''stoi''))"
proof -
  have "length (concat (map (\<lambda>p. [to_string (sint (txn_timestamp p)), txn_msgType p, key p, val p]) ps)) = 4 * length ps"
    by (induction ps) simp_all
  then show ?thesis
    by (simp add: deserialize_payload_l_def split_payloads [OF assms] payloads_from_pieces Let_def)
qed

section \<open>Capsules\<close>

text \<open>
  \<open>capsule_pdu\<close>; its member \<open>hash\<close> is \<open>dc_hash\<close> here, because the header of a block has a \<open>hash\<close> too.
  \<open>new capsule_pdu()\<close> zeroes the integers; in \<open>capsule_pdu translated;\<close> they are indeterminate until
  \<open>CapsuleFromProto\<close> sets them.
\<close>

record capsule_pdu =
  payload_l :: "kvs_payload list"
  payload_in_transit :: string
  signature :: string
  sender :: int
  prevHash :: string
  dc_hash :: string
  timestamp :: int64
  msgType :: string
  retAddr :: string

definition new_capsule_pdu :: capsule_pdu where
  "new_capsule_pdu = \<lparr>payload_l = [], payload_in_transit = '''', signature = '''', sender = 0,
     prevHash = '''', dc_hash = '''', timestamp = 0, msgType = '''', retAddr = ''''\<rparr>"

text \<open>\<open>back()\<close> of an empty vector is undefined behaviour.\<close>

definition PayloadListToCapsule :: "capsule_pdu \<Rightarrow> kvs_payload list \<Rightarrow> int \<Rightarrow> capsule_pdu res" where
  "PayloadListToCapsule dc ps enclave_id =
     (if ps = [] then Inl (Undefined_behaviour ''back of an empty vector'')
      else Inr (dc\<lparr>payload_l := ps, timestamp := txn_timestamp (last ps), msgType := txn_msgType (last ps),
                   sender := enclave_id, retAddr := ''''\<rparr>))"

definition PayloadListToCapsule_ret :: "capsule_pdu \<Rightarrow> kvs_payload list \<Rightarrow> int \<Rightarrow> string \<Rightarrow> capsule_pdu res" where
  "PayloadListToCapsule_ret dc ps enclave_id ret_addr =
     bindr (PayloadListToCapsule dc ps enclave_id) (\<lambda>dc'. Inr (dc'\<lparr>retAddr := ret_addr\<rparr>))"

text \<open>The return address is not copied.\<close>

definition CapsuleToCapsule :: "capsule_pdu \<Rightarrow> capsule_pdu \<Rightarrow> capsule_pdu" where
  "CapsuleToCapsule dc_new dc = dc_new\<lparr>payload_l := payload_l dc, signature := signature dc,
     sender := sender dc, payload_in_transit := payload_in_transit dc, prevHash := prevHash dc,
     dc_hash := dc_hash dc, timestamp := timestamp dc, msgType := msgType dc\<rparr>"

text \<open>\<open>gettimeofday\<close> answers with seconds and microseconds; the result is an \<open>int64_t\<close> of milliseconds.\<close>

definition get_current_time :: "int \<Rightarrow> int \<Rightarrow> int64 res" where
  "get_current_time tv_sec tv_usec =
     (let t = tv_sec * 1000 + tv_usec div 1000 in
      if - (2 ^ 63) \<le> t \<and> t < 2 ^ 63 then Inr (of_int t)
      else Inl (Undefined_behaviour ''signed integer overflow''))"

section \<open>Hashing, signing and encrypting\<close>

text \<open>\<open>shared/crypto.h\<close>.\<close>

definition kAesKey128 :: string where
  "kAesKey128 = [CHR 0x00, CHR 0x01, CHR 0x02, CHR 0x03, CHR 0x04, CHR 0x05, CHR 0x06, CHR 0x07,
     CHR 0x08, CHR 0x09, CHR 0x10, CHR 0x11, CHR 0x12, CHR 0x13, CHR 0x14, CHR 0x15]"

definition DoHash :: "pdu_lib \<Rightarrow> string \<Rightarrow> string option" where
  "DoHash L message = digest L message"

definition SignMessage :: "pdu_lib \<Rightarrow> string \<Rightarrow> signing_key \<Rightarrow> string res" where
  "SignMessage L message sk =
     (case sk message of None \<Rightarrow> Inl (Fatal ''Sign'') | Some sig_v \<Rightarrow> Inr (BytesToHexString L sig_v))"

definition VerifyMessage :: "pdu_lib \<Rightarrow> string \<Rightarrow> string \<Rightarrow> verifying_key \<Rightarrow> bool" where
  "VerifyMessage L message sig vk = vk message (HexStringToBytes L sig)"

text \<open>
  The ciphertext buffer has the size of the message and the greatest overhead, and all of it is sent,
  whatever part of it \<open>Seal\<close> has filled.
\<close>

definition EncryptMessage :: "pdu_lib \<Rightarrow> string \<Rightarrow> string option" where
  "EncryptMessage L message =
     Option.bind (CreateAesGcmSivCryptor L kAesKey128) (\<lambda>cryptor.
     map_option (\<lambda>(nonce, ciphertext). BytesToHexString L nonce @ BytesToHexString L
         (ciphertext @ replicate (length message + MaxSealOverhead cryptor - length ciphertext) CHR 0x00))
       (Seal cryptor message ''''))"

definition DecryptMessage :: "pdu_lib \<Rightarrow> string \<Rightarrow> string option" where
  "DecryptMessage L nonce_and_ciphertext =
     (let input_bytes = HexStringToBytes L nonce_and_ciphertext in
      Option.bind (CreateAesGcmSivCryptor L kAesKey128) (\<lambda>cryptor.
      if length input_bytes < NonceSize cryptor then None
      else Open cryptor (drop (NonceSize cryptor) input_bytes) '''' (take (NonceSize cryptor) input_bytes)))"

text \<open>The functions of \<open>util/proto_util.cc\<close>; one that returns false leaves the capsule as it is.\<close>

definition hashed_part :: "capsule_pdu \<Rightarrow> string" where
  "hashed_part dc = to_string (sender dc) @ to_string (sint (timestamp dc)) @ payload_in_transit dc"

definition generate_hash :: "pdu_lib \<Rightarrow> capsule_pdu \<Rightarrow> bool \<times> capsule_pdu" where
  "generate_hash L dc =
     (case DoHash L (hashed_part dc) of
        None \<Rightarrow> (False, dc)
      | Some d \<Rightarrow> (True, dc\<lparr>dc_hash := BytesToHexString L d\<rparr>))"

definition sign_dc :: "pdu_lib \<Rightarrow> signing_key \<Rightarrow> capsule_pdu \<Rightarrow> (bool \<times> capsule_pdu) res" where
  "sign_dc L sk dc =
     bindr (SignMessage L (dc_hash dc @ prevHash dc) sk) (\<lambda>sig. Inr (True, dc\<lparr>signature := sig\<rparr>))"

definition verify_hash :: "pdu_lib \<Rightarrow> capsule_pdu \<Rightarrow> bool" where
  "verify_hash L dc =
     (case DoHash L (hashed_part dc) of
        None \<Rightarrow> False
      | Some d \<Rightarrow> dc_hash dc = BytesToHexString L d)"

definition verify_signature :: "pdu_lib \<Rightarrow> verifying_key \<Rightarrow> capsule_pdu \<Rightarrow> bool" where
  "verify_signature L vk dc = VerifyMessage L (dc_hash dc @ prevHash dc) (signature dc) vk"

definition verify_dc :: "pdu_lib \<Rightarrow> verifying_key \<Rightarrow> capsule_pdu \<Rightarrow> bool" where
  "verify_dc L vk dc =
     (if \<not> verify_hash L dc then False
      else if \<not> verify_signature L vk dc then False
      else True)"

definition encrypt_payload_l :: "pdu_lib \<Rightarrow> bool \<Rightarrow> capsule_pdu \<Rightarrow> bool \<times> capsule_pdu" where
  "encrypt_payload_l L encryption_needed dc =
     (let aggregated = serialize_payload_l (payload_l dc) in
      if \<not> encryption_needed then (True, dc\<lparr>payload_in_transit := aggregated\<rparr>)
      else (case EncryptMessage L aggregated of
              None \<Rightarrow> (False, dc)
            | Some encrypted \<Rightarrow> (True, dc\<lparr>payload_in_transit := encrypted\<rparr>)))"

definition decrypt_payload_l :: "pdu_lib \<Rightarrow> capsule_pdu \<Rightarrow> (bool \<times> capsule_pdu) res" where
  "decrypt_payload_l L dc =
     (case DecryptMessage L (payload_in_transit dc) of
        None \<Rightarrow> Inr (False, dc)
      | Some decrypted \<Rightarrow>
          bindr (deserialize_payload_l L decrypted) (\<lambda>ps. Inr (True, dc\<lparr>payload_l := ps\<rparr>)))"

section \<open>What is documented of the libraries\<close>

definition hex_ok :: "pdu_lib \<Rightarrow> bool" where
  "hex_ok L \<longleftrightarrow> (\<forall>a b. BytesToHexString L (a @ b) = BytesToHexString L a @ BytesToHexString L b) \<and>
     (\<forall>b. HexStringToBytes L (BytesToHexString L b) = b)"

definition cryptor_ok :: "cryptor \<Rightarrow> bool" where
  "cryptor_ok c \<longleftrightarrow> (\<forall>m a. \<exists>n t. Seal c m a = Some (n, t) \<and> length n = NonceSize c \<and>
     length t = length m + MaxSealOverhead c \<and> Open c t a n = Some m)"

definition lib_ok :: "pdu_lib \<Rightarrow> bool" where
  "lib_ok L \<longleftrightarrow> split_ok L \<and> hex_ok L \<and> (\<forall>m. digest L m \<noteq> None) \<and>
     (\<exists>c. CreateAesGcmSivCryptor L kAesKey128 = Some c \<and> cryptor_ok c)"

definition key_pair :: "signing_key \<Rightarrow> verifying_key \<Rightarrow> bool" where
  "key_pair sk vk \<longleftrightarrow> (\<forall>m. \<exists>s. sk m = Some s \<and> vk m s)"

lemma decrypt_encrypt:
  assumes "lib_ok L"
  shows "\<exists>e. EncryptMessage L m = Some e \<and> DecryptMessage L e = Some m"
proof -
  obtain c where c: "CreateAesGcmSivCryptor L kAesKey128 = Some c" "cryptor_ok c"
    using assms by (auto simp: lib_ok_def)
  from c(2) obtain n t where t: "Seal c m '''' = Some (n, t)" "length n = NonceSize c"
    "length t = length m + MaxSealOverhead c" "Open c t '''' n = Some m"
    unfolding cryptor_ok_def by blast
  have h: "HexStringToBytes L (BytesToHexString L n @ BytesToHexString L t) = n @ t"
    using assms unfolding lib_ok_def hex_ok_def by metis
  show ?thesis using c(1) t h by (simp add: EncryptMessage_def DecryptMessage_def)
qed

lemma encrypt_not_Nil:
  assumes "lib_ok L" "EncryptMessage L m = Some e" "m \<noteq> ''''"
  shows "e \<noteq> ''''"
proof
  assume "e = ''''"
  have hx: "BytesToHexString L (a @ b) = BytesToHexString L a @ BytesToHexString L b"
    "HexStringToBytes L (BytesToHexString L b) = b" for a b
    using assms(1) unfolding lib_ok_def hex_ok_def by blast+
  obtain c where c: "CreateAesGcmSivCryptor L kAesKey128 = Some c" "cryptor_ok c"
    using assms(1) by (auto simp: lib_ok_def)
  from c(2) obtain n t where t: "Seal c m '''' = Some (n, t)" "length t = length m + MaxSealOverhead c"
    unfolding cryptor_ok_def by blast
  then have "BytesToHexString L t = ''''" using assms(2) c(1) \<open>e = ''''\<close> by (simp add: EncryptMessage_def)
  moreover have "BytesToHexString L '''' = ''''" using hx(1) [of "''''" "''''"] by simp
  ultimately have "t = ''''" using hx(2) by metis
  with t(2) assms(3) show False by simp
qed

lemma hash_verifies:
  assumes "lib_ok L" "generate_hash L dc = (ok, dc')"
  shows "ok" "verify_hash L dc'" "dc' = dc\<lparr>dc_hash := dc_hash dc'\<rparr>"
proof -
  obtain d where "digest L (hashed_part dc) = Some d" using assms(1) by (auto simp: lib_ok_def)
  then have "ok" "dc' = dc\<lparr>dc_hash := BytesToHexString L d\<rparr>"
    using assms(2) by (auto simp: generate_hash_def DoHash_def)
  moreover from \<open>digest L (hashed_part dc) = Some d\<close> this have "verify_hash L dc'"
    by (simp add: verify_hash_def DoHash_def hashed_part_def)
  ultimately show "ok" "verify_hash L dc'" "dc' = dc\<lparr>dc_hash := dc_hash dc'\<rparr>" by simp_all
qed

text \<open>A capsule that is filled, encrypted, hashed and signed verifies and can be opened.\<close>

lemma sealed_opens:
  assumes L: "lib_ok L" and k: "key_pair sk vk"
  obtains e h sig where
    "encrypt_payload_l L True dc = (True, dc\<lparr>payload_in_transit := e\<rparr>)"
    "generate_hash L (dc\<lparr>payload_in_transit := e\<rparr>) = (True, dc\<lparr>payload_in_transit := e, dc_hash := h\<rparr>)"
    "sign_dc L sk (dc\<lparr>payload_in_transit := e, dc_hash := h\<rparr>) =
      Inr (True, dc\<lparr>payload_in_transit := e, dc_hash := h, signature := sig\<rparr>)"
    "DecryptMessage L e = Some (serialize_payload_l (payload_l dc))"
    "verify_dc L vk (dc\<lparr>payload_in_transit := e, dc_hash := h, signature := sig\<rparr>)"
proof -
  from decrypt_encrypt [OF L] obtain e where
    e: "EncryptMessage L (serialize_payload_l (payload_l dc)) = Some e"
      "DecryptMessage L e = Some (serialize_payload_l (payload_l dc))" by blast
  obtain ok dc1 where g: "generate_hash L (dc\<lparr>payload_in_transit := e\<rparr>) = (ok, dc1)" by fastforce
  note hv = hash_verifies [OF L g]
  define h where "h = dc_hash dc1"
  have d1: "dc1 = dc\<lparr>payload_in_transit := e, dc_hash := h\<rparr>" using hv(3) by (simp add: h_def)
  from k obtain s where s: "sk (dc_hash dc1 @ prevHash dc1) = Some s" "vk (dc_hash dc1 @ prevHash dc1) s"
    unfolding key_pair_def by blast
  have hx: "HexStringToBytes L (BytesToHexString L s) = s" using L by (simp add: lib_ok_def hex_ok_def)
  have sg: "sign_dc L sk dc1 = Inr (True, dc1\<lparr>signature := BytesToHexString L s\<rparr>)"
    using s(1) by (simp add: sign_dc_def SignMessage_def)
  have hp: "hashed_part (dc1\<lparr>signature := BytesToHexString L s\<rparr>) = hashed_part dc1" by (simp add: hashed_part_def)
  have "verify_dc L vk (dc1\<lparr>signature := BytesToHexString L s\<rparr>)"
    using hv(2) s(2) hx hp
    by (simp add: verify_dc_def verify_hash_def verify_signature_def VerifyMessage_def split: option.splits)
  then show thesis
    using that [of e h "BytesToHexString L s"] e g hv(1) sg unfolding d1
    by (simp add: encrypt_payload_l_def)
qed

end
