(* ===== verification/Growth.thy ===== *)
theory Growth
  imports LevelFill ProtoWire Pdu
begin

text \<open>
  How large a database grows (\<open>engine.cc\<close>, \<open>memtable.cc\<close>, \<open>index.cc\<close>): the flushes that a number of puts
  causes, the blocks that are written and kept, and the number of levels, which grows with the logarithm of the
  number of flushes.
\<close>

section \<open>The cost of a sequence of puts\<close>

text \<open>
  After at most \<open>k\<close> puts \<open>F\<close> flushes have been paid for by \<open>n\<close> records each; they have left at most \<open>F\<close> blocks
  in the levels and used up at most \<open>F\<^sup>2 + 4 F\<close> of the room \<open>r\<close>, and a further level was made only when there
  was one flush for every block of the ones above it.
\<close>

definition grown :: "('w \<Rightarrow> nat) \<Rightarrow> nat \<Rightarrow> nat \<Rightarrow> nat \<Rightarrow> nat \<Rightarrow> 'w db_state \<Rightarrow> bool" where
  "grown room r n k F s \<longleftrightarrow> capacity s = n \<and> n * F + in_table s \<le> k \<and> nblocks (levels (db_index (fst s))) \<le> F \<and>
     r \<le> room (snd s) + F * F + 4 * F \<and> (depth s \<le> 1 \<or> 2 * 10 ^ (depth s - 2) \<le> F)"

lemma grown_put:
  assumes g: "grown room r n k F s" and c: "put_cost room (snd s) (snd s') (fst s) (fst s')"
  shows "\<exists>F'. grown room r n (Suc k) F' s'"
proof -
  from c have same: "capacity s' = capacity s" by (simp add: put_cost_def)
  from c consider "snd s' = snd s" "db_index (fst s') = db_index (fst s)" "in_table s' \<le> Suc (in_table s)"
    | "in_table s = capacity s" "in_table s' = 1"
      "nblocks (levels (db_index (fst s'))) \<le> Suc (nblocks (levels (db_index (fst s))))"
      "deepened (db_index (fst s)) (db_index (fst s'))"
      "room (snd s) \<le> room (snd s') + 5 + 2 * nblocks (levels (db_index (fst s)))"
    unfolding put_cost_def records_def length_map by blast
  then show ?thesis
  proof cases
    case 1
    then have "grown room r n (Suc k) F s'" using g unfolding grown_def same by simp
    then show ?thesis ..
  next
    case 2
    have "r \<le> room (snd s') + Suc F * Suc F + 4 * Suc F" using 2(5) g by (simp add: grown_def)
    moreover have "depth s' \<le> 1 \<or> 2 * 10 ^ (depth s' - 2) \<le> Suc F"
    proof (cases "depth s' = depth s")
      case False
      then have "depth s' = Suc (depth s)" "2 * 10 ^ (depth s - 1) \<le> Suc (nblocks (levels (db_index (fst s))))"
        using 2(4) by (simp_all add: deepened_def)
      then show ?thesis using g by (simp add: grown_def numeral_2_eq_2)
    qed (use g in \<open>auto simp: grown_def\<close>)
    ultimately have "grown room r n (Suc k) (Suc F) s'" using g 2(1-3) unfolding grown_def same by simp
    then show ?thesis ..
  qed
qed

context block_store
begin

lemma puts_grow:
  assumes "db_good S inv room (length ps + m) s" "\<forall>p \<in> set ps. key p \<noteq> ''''" "grown room r n k F s"
  shows "\<exists>s' F'. put_all (db_put S) ps s = Inr s' \<and> db_good S inv room m s' \<and> grown room r n (k + length ps) F' s'"
  using assms
proof (induction ps arbitrary: s k F)
  case (Cons p ps)
  obtain db w where s: "s = (db, w)" by (cases s)
  have good: "db_ok S inv w db" "db_can room (Suc (length ps + m)) (db, w)" and p: "key p \<noteq> ''''"
    using Cons.prems(1,2) by (simp_all add: db_good_def s)
  from database_put_ok [OF good(1) p db_can_ready [OF good(2,1)]] obtain db' w' where
    put: "CapsuleDB_put S p db w = Inr (db', w')" "db_ok S inv w' db'" "put_cost room w w' db db'" by blast
  have "db_good S inv room (length ps + m) (db', w')" using put db_can_put [OF good(2)] by (simp add: db_good_def)
  moreover obtain F' where "grown room r n (Suc k) F' (db', w')"
    using grown_put [OF Cons.prems(3), of "(db', w')"] put(3) by (auto simp: s)
  ultimately show ?case using Cons.IH [of "(db', w')" "Suc k" F'] Cons.prems(2) put(1) by (auto simp: s db_put_def)
qed auto

end

section \<open>Bounds\<close>

text \<open>
  C28. What a number of puts makes of a new database: \<open>F\<close> flushes take \<open>n\<close> puts each, the blocks that were
  written are at most \<open>F\<^sup>2 + 4 F\<close> and those in the levels at most \<open>F\<close>, level \<open>i\<close> has fewer than \<open>2 \<cdot> 10\<^sup>i\<close>
  blocks, each of 1 to \<open>n\<close> records, and there are at most \<open>2 + log\<^sub>1\<^sub>0 (F / 2)\<close> levels.
\<close>

theorem database_stays_shallow:
  assumes E: "env_ok E" and n: "1 \<le> unat sz" "unat sz \<le> 10737"
    and ps: "\<forall>p \<in> set ps. key p \<noteq> ''''" "length ps \<le> max_flushes * unat sz"
  shows "\<exists>db w F. put_all (db_put (capsule_ops E)) ps (new_db sz) = Inr (db, w) \<and>
    unat sz * F + length (memtable (db_memtable db)) \<le> length ps \<and>
    length (memtable (db_memtable db)) \<le> unat sz \<and>
    counter w \<le> int (F * F + 4 * F) \<and> nblocks (levels (db_index db)) \<le> F \<and>
    (length (levels (db_index db)) \<le> 1 \<or> 2 * 10 ^ (length (levels (db_index db)) - 2) \<le> F) \<and>
    (\<forall>i < length (levels (db_index db)). let hs = recordHashes (levels (db_index db) ! i) in
       length hs < 2 * 10 ^ i \<and>
       (\<forall>h \<in> set hs. \<exists>b. readIn (capsule_ops E) (hash h) w = Inr b \<and>
          1 \<le> length (kvPairs b) \<and> length (kvPairs b) \<le> unat sz))"
proof -
  let ?S = "capsule_ops E" and ?n = "unat sz"
  have "length ps + 0 \<le> max_flushes * ?n" using ps(2) by simp
  note good = new_db_good [OF E n this]
  have "grown world_room (world_room initial_world) ?n 0 0 (new_db sz)"
    by (simp add: grown_def spawnDB_def CapsuleIndex_new_def Level_new_def Memtable_new_def)
  from fc.puts_grow [OF good ps(1) this] obtain db w F where
    s: "put_all (db_put ?S) ps (new_db sz) = Inr (db, w)" "db_good ?S (world_ok E) world_room 0 (db, w)"
    and g: "grown world_room (world_room initial_world) ?n (length ps) F (db, w)" by auto
  have ok: "world_ok E w" "memtable_ok (db_memtable db)" "index_ok ?S w (db_index db)"
    "unat (blocksize (db_index db)) = ?n" "unat (max_size (db_memtable db)) = ?n"
    using s(2) g by (simp_all add: db_good_def db_ok_def grown_def)
  have "int (world_room initial_world) \<le> int (world_room w) + int (F * F + 4 * F)"
    using g unfolding grown_def by (simp flip: of_nat_add)
  then have w: "counter w \<le> int (F * F + 4 * F)"
    using ok(1) by (auto simp: world_room_def initial_world_def world_ok_def int_range_def)
  have table: "length (memtable (db_memtable db)) \<le> ?n" using ok(2,5) by (simp add: memtable_ok_def)
  have levels: "let hs = recordHashes (levels (db_index db) ! i) in length hs < 2 * 10 ^ i \<and>
      (\<forall>h \<in> set hs. \<exists>b. readIn ?S (hash h) w = Inr b \<and> 1 \<le> length (kvPairs b) \<and> length (kvPairs b) \<le> ?n)"
    if "i < length (levels (db_index db))" for i
  proof -
    have "level_ok ?S w ?n i (levels (db_index db) ! i)"
      using ok(3,4) that by (simp add: index_ok_def levels_ok_def)
    then show ?thesis
      by (auto simp: level_ok_def run_ok_def Let_def Suc_le_eq elim!: header_ok_read)
  qed
  show ?thesis using s(1) g w table levels by (intro exI [of _ db] exI [of _ w] exI [of _ F]) (auto simp: grown_def)
qed

theorem database_stays_shallow_witness:
  "\<exists>db w F. put_all (db_put (capsule_ops wire_env))
      (map (\<lambda>i. (kvs_payload_default 0)\<lparr>key := show_nat i\<rparr>) [0..<1000]) (new_db 50) = Inr (db, w) \<and>
    F \<le> 20 \<and> nblocks (levels (db_index db)) \<le> F \<and> counter w \<le> int (F * F + 4 * F) \<and> length (levels (db_index db)) \<le> 3"
proof -
  let ?ps = "map (\<lambda>i. (kvs_payload_default 0)\<lparr>key := show_nat i\<rparr>) [0..<1000]"
  have "\<forall>p \<in> set ?ps. key p \<noteq> ''''" "length ?ps \<le> max_flushes * unat (50 :: size_t)"
    by (simp_all add: max_flushes_def del: upt_rec_numeral)
  moreover have "1 \<le> unat (50 :: size_t)" "unat (50 :: size_t) \<le> 10737" by simp_all
  ultimately obtain db w F where r: "put_all (db_put (capsule_ops wire_env)) ?ps (new_db 50) = Inr (db, w)"
    "unat (50 :: size_t) * F + length (memtable (db_memtable db)) \<le> length ?ps" "counter w \<le> int (F * F + 4 * F)"
    "nblocks (levels (db_index db)) \<le> F"
    "length (levels (db_index db)) \<le> 1 \<or> 2 * 10 ^ (length (levels (db_index db)) - 2) \<le> F"
    using database_stays_shallow [OF wire_env_ok, of 50 ?ps] by blast
  have F: "F \<le> 20" using r(2) by (simp del: upt_rec_numeral)
  have "length (levels (db_index db)) \<le> 3"
  proof (rule ccontr)
    assume d: "\<not> length (levels (db_index db)) \<le> 3"
    then have "(10::nat) ^ 2 \<le> 10 ^ (length (levels (db_index db)) - 2)" by (intro power_increasing) simp_all
    then have "100 \<le> (10::nat) ^ (length (levels (db_index db)) - 2)" by simp
    then show False using r(5) d F by simp
  qed
  then show ?thesis using r(1,3,4) F by blast
qed

end
