(* ===== verification/Bloom.thy ===== *)
theory Bloom
  imports Prelude
begin

text \<open>
  The Bloom filter of \<open>src/src/bloom/bloom_filter.hpp\<close>, which \<open>Level::create_filter\<close> makes: salts, the hash,
  the table of bits, inserting and looking up, the set operations, and the compressible filter that folds
  its table. What is computed in floating point (the best numbers of hashes and bits, the size after a
  compression) is a parameter, and the false positive probability, which is only carried along, is left out.
\<close>

unbundle bit_operations_syntax

type_synonym bloom_type = "32 word"
type_synonym cell_type = "8 word"

section \<open>The filter\<close>

text \<open>\<open>optimal_parameters\<close>, the first two fields, are set by \<open>compute_optimal_parameters\<close>.\<close>

record bloom_parameters =
  number_of_hashes :: bloom_type
  opt_table_size :: size_t
  minimum_size :: size_t
  maximum_size :: size_t
  minimum_number_of_hashes :: bloom_type
  maximum_number_of_hashes :: bloom_type
  param_element_count :: size_t
  param_random_seed :: size_t

text \<open>The default constructor.\<close>

definition default_parameters :: bloom_parameters where
  "default_parameters = \<lparr>number_of_hashes = 0, opt_table_size = 0, minimum_size = 1, maximum_size = - 1,
     minimum_number_of_hashes = 1, maximum_number_of_hashes = - 1, param_element_count = 10000,
     param_random_seed = 0xA5A5A5A55A5A5A5A\<rparr>"

text \<open>\<open>operator!\<close>; \<open>fpp_bad\<close> says that the false positive probability is negative or infinite.\<close>

definition bad_parameters :: "bool \<Rightarrow> bloom_parameters \<Rightarrow> bool" where
  "bad_parameters fpp_bad p \<longleftrightarrow> minimum_size p > maximum_size p \<or>
     minimum_number_of_hashes p > maximum_number_of_hashes p \<or> minimum_number_of_hashes p < 1 \<or>
     maximum_number_of_hashes p = 0 \<or> param_element_count p = 0 \<or> fpp_bad \<or>
     param_random_seed p = 0 \<or> param_random_seed p = 0xFFFFFFFFFFFFFFFF"

text \<open>
  The search for the best numbers of hashes and bits. \<open>curr_m k\<close> is the \<open>double\<close> that the code computes from
  \<open>k\<close>, a value of any linearly ordered type (so never a NaN); the search starts from \<open>min_k = 0\<close> and
  \<open>min_m\<close> infinite.
\<close>

function search_best :: "(nat \<Rightarrow> 'd::linorder) \<Rightarrow> nat \<Rightarrow> nat \<Rightarrow> 'd \<Rightarrow> nat \<times> 'd" where
  "search_best curr_m k min_k min_m =
     (if k < 1000
      then (if curr_m k < min_m then search_best curr_m (k + 1) k (curr_m k)
            else search_best curr_m (k + 1) min_k min_m)
      else (min_k, min_m))"
  by auto
termination by (relation "measure (\<lambda>(c, k, a, b). 1000 - k)") auto

declare search_best.simps [simp del]

text \<open>
  \<open>compute_optimal_parameters\<close>; \<open>best\<close> is the pair of \<open>min_k\<close> and \<open>min_m\<close> that the loop in floating point
  finds, converted to integers. The size is rounded up to whole cells and then clamped.
\<close>

definition compute_optimal_parameters :: "bool \<Rightarrow> bloom_type \<times> size_t \<Rightarrow> bloom_parameters \<Rightarrow>
    bool \<times> bloom_parameters" where
  "compute_optimal_parameters fpp_bad best p =
     (if bad_parameters fpp_bad p then (False, p)
      else
        (let k = fst best;
             m = snd best + (if snd best mod 8 \<noteq> 0 then 8 - snd best mod 8 else 0)
         in (True, p\<lparr>
           number_of_hashes := (if k < minimum_number_of_hashes p then minimum_number_of_hashes p
             else if k > maximum_number_of_hashes p then maximum_number_of_hashes p else k),
           opt_table_size := (if m < minimum_size p then minimum_size p
             else if m > maximum_size p then maximum_size p else m)\<rparr>)))"

record bloom_filter =
  salt :: "bloom_type list"
  bit_table :: "cell_type list"
  salt_count :: bloom_type
  table_size :: size_t
  projected_element_count :: size_t
  inserted_element_count :: size_t
  random_seed :: size_t

definition bit_mask :: "cell_type list" where
  "bit_mask = [0x01, 0x02, 0x04, 0x08, 0x10, 0x20, 0x40, 0x80]"

definition predef_salt :: "bloom_type list" where
  "predef_salt = [
     0xAAAAAAAA, 0x55555555, 0x33333333, 0xCCCCCCCC, 0x66666666, 0x99999999, 0xB5B5B5B5, 0x4B4B4B4B,
     0xAA55AA55, 0x55335533, 0x33CC33CC, 0xCC66CC66, 0x66996699, 0x99B599B5, 0xB54BB54B, 0x4BAA4BAA,
     0xAA33AA33, 0x55CC55CC, 0x33663366, 0xCC99CC99, 0x66B566B5, 0x994B994B, 0xB5AAB5AA, 0xAAAAAA33,
     0x555555CC, 0x33333366, 0xCCCCCC99, 0x666666B5, 0x9999994B, 0xB5B5B5AA, 0xFFFFFFFF, 0xFFFF0000,
     0xB823D5EB, 0xC1191CDF, 0xF623AEB3, 0xDB58499F, 0xC8D42E70, 0xB173F616, 0xA91A5967, 0xDA427D63,
     0xB1E8A2EA, 0xF6C0D155, 0x4909FEA3, 0xA68CC6A7, 0xC395E782, 0xA26057EB, 0x0CD5DA28, 0x467C5492,
     0xF15E6982, 0x61C6FAD3, 0x9615E352, 0x6E9E355A, 0x689B563E, 0x0C9831A8, 0x6753C18B, 0xA622689B,
     0x8CA63C47, 0x42CC2884, 0x8E89919B, 0x6EDBD7D3, 0x15B6796C, 0x1D6FDFE4, 0x63FF9092, 0xE7401432,
     0xEFFE9412, 0xAEAEDF79, 0x9F245A31, 0x83C136FC, 0xC3DA4A8C, 0xA5112C8C, 0x5271F491, 0x9A948DAB,
     0xCEE59A8D, 0xB5F525AB, 0x59D13217, 0x24E7C331, 0x697C2103, 0x84B0A460, 0x86156DA9, 0xAEF2AC68,
     0x23243DA5, 0x3F649643, 0x5FA495A8, 0x67710DF8, 0x9A6C499E, 0xDCFB0227, 0x46A43433, 0x1832B07A,
     0xC46AFF3C, 0xB9C8FFF0, 0xC9500467, 0x34431BDF, 0xB652432B, 0xE367F12B, 0x427F4C1B, 0x224C006E,
     0x2E7E5A89, 0x96F99AA5, 0x0BEB452A, 0x2FD87C39, 0x74B2E1FB, 0x222EFD24, 0xF357F60C, 0x440FCB1E,
     0x8BBE030F, 0x6704DC29, 0x1144D12F, 0x948B1355, 0x6D8FD7E9, 0x1C11A014, 0xADD1592F, 0xFB3C712E,
     0xFC77642F, 0xF9C4CE8C, 0x31312FB9, 0x08B0DD79, 0x318FA6E7, 0xC040D23D, 0xC0589AA7, 0x0CA5C075,
     0xF874B172, 0x0CF914D5, 0x784D3280, 0x4E8CFEBC, 0xC569F575, 0xCDB2A091, 0x2CC016B4, 0x5C5F4421]"

text \<open>The loop that mixes the seed into the salts, in place and from left to right.\<close>

fun mix_salts :: "bloom_type \<Rightarrow> nat \<Rightarrow> nat \<Rightarrow> bloom_type list \<Rightarrow> bloom_type list" where
  "mix_salts seed i 0 ss = ss"
| "mix_salts seed i (Suc n) ss =
     mix_salts seed (Suc i) n (ss[i := ss ! i * ss ! ((i + 3) mod length ss) + seed])"

text \<open>
  The loop that draws further salts; \<open>rnd\<close> is the sequence of \<open>rand()\<close> after \<open>srand\<close>. It need not end, so it
  has fuel.
\<close>

fun draw_salts :: "(nat \<Rightarrow> bloom_type) \<Rightarrow> nat \<Rightarrow> nat \<Rightarrow> nat \<Rightarrow> bloom_type list \<Rightarrow> bloom_type list res" where
  "draw_salts rnd fuel j n ss =
     (if n \<le> length ss then Inr ss
      else (case fuel of 0 \<Rightarrow> Inl Out_of_fuel | Suc fuel' \<Rightarrow>
        (let current_salt = rnd j * rnd (Suc j) in
         if current_salt = 0 then draw_salts rnd fuel' (j + 2) n ss
         else if current_salt \<notin> set ss then draw_salts rnd fuel' (j + 2) n (ss @ [current_salt])
         else draw_salts rnd fuel' (j + 2) n ss)))"

declare draw_salts.simps [simp del]

definition generate_unique_salt :: "(nat \<Rightarrow> bloom_type) \<Rightarrow> nat \<Rightarrow> bloom_filter \<Rightarrow> bloom_filter res" where
  "generate_unique_salt rnd fuel f =
     (let n = unat (salt_count f) in
      if n \<le> length predef_salt
      then Inr (f\<lparr>salt := mix_salts (ucast (random_seed f)) 0 n (take n predef_salt)\<rparr>)
      else bindr (draw_salts rnd fuel 0 n predef_salt) (\<lambda>ss. Inr (f\<lparr>salt := ss\<rparr>)))"

definition bloom_filter_new :: "(nat \<Rightarrow> bloom_type) \<Rightarrow> nat \<Rightarrow> bloom_parameters \<Rightarrow> bloom_filter res" where
  "bloom_filter_new rnd fuel p =
     bindr (generate_unique_salt rnd fuel
       \<lparr>salt = [], bit_table = [], salt_count = number_of_hashes p, table_size = opt_table_size p,
        projected_element_count = param_element_count p, inserted_element_count = 0,
        random_seed = param_random_seed p * 0xA5A5A5A5 + 1\<rparr>) (\<lambda>f.
     Inr (f\<lparr>bit_table := replicate (unat (table_size f div 8)) 0\<rparr>))"

text \<open>
  \<open>Level::create_filter\<close> in \<open>core/level.cc\<close>; \<open>best\<close> is what the loop of \<open>compute_optimal_parameters\<close> finds
  for 750000 elements and a probability of 0.05.
\<close>

definition create_filter :: "(nat \<Rightarrow> bloom_type) \<Rightarrow> nat \<Rightarrow> bloom_type \<times> size_t \<Rightarrow> bloom_filter res" where
  "create_filter rnd fuel best =
     (let params = default_parameters\<lparr>param_element_count := 750000\<rparr>
      in bloom_filter_new rnd fuel (snd (compute_optimal_parameters False best params)))"

section \<open>Hashing\<close>

text \<open>The integers that the code reads through a pointer to the key, on a little-endian machine.\<close>

definition byte :: "char \<Rightarrow> bloom_type" where
  "byte c = of_nat (of_char c)"

definition read32 :: "string \<Rightarrow> bloom_type" where
  "read32 s = byte (s ! 0) OR push_bit 8 (byte (s ! 1)) OR push_bit 16 (byte (s ! 2)) OR
     push_bit 24 (byte (s ! 3))"

definition read16 :: "string \<Rightarrow> bloom_type" where
  "read16 s = byte (s ! 0) OR push_bit 8 (byte (s ! 1))"

text \<open>The two ways in which a part of the key is mixed in, chosen by the parity of \<open>loop\<close>.\<close>

definition mix_part :: "nat \<Rightarrow> bloom_type \<Rightarrow> bloom_type \<Rightarrow> bloom_type" where
  "mix_part loop i hash =
     (if odd loop then hash XOR (push_bit 7 hash XOR i * drop_bit 3 hash)
      else hash XOR NOT (push_bit 11 hash + (i XOR drop_bit 5 hash)))"

definition hash_tail :: "string \<Rightarrow> bloom_type \<Rightarrow> bloom_type" where
  "hash_tail s hash =
     (let (loop, s1, h1) = (if length s \<ge> 4 then (1, drop 4 s, mix_part 0 (read32 s) hash) else (0, s, hash));
          (loop2, s2, h2) = (if length s1 \<ge> 2 then (Suc loop, drop 2 s1, mix_part loop (read16 s1) h1)
                             else (loop, s1, h1))
      in if s2 \<noteq> [] then h2 + ((byte (s2 ! 0) XOR h2 * 0xA5A5A5A5) + of_nat loop2) else h2)"

function hash_ap :: "string \<Rightarrow> bloom_type \<Rightarrow> bloom_type" where
  "hash_ap s hash =
     (if length s \<ge> 8
      then hash_ap (drop 8 s) (hash XOR (push_bit 7 hash XOR read32 s * drop_bit 3 hash XOR
             NOT (push_bit 11 hash + (read32 (drop 4 s) XOR drop_bit 5 hash))))
      else hash_tail s hash)"
  by auto
termination by (relation "measure (\<lambda>(s, h). length s)") auto

declare hash_ap.simps [simp del]

section \<open>Inserting and looking up\<close>

text \<open>
  \<open>compute_indices\<close> is virtual: \<open>ix\<close> gives the \<open>bit_index\<close> of a hash, and the bit in its cell is its
  remainder by 8. A remainder by 0 and an access past the table are undefined behaviour.
\<close>

definition compute_indices :: "'a bloom_filter_scheme \<Rightarrow> bloom_type \<Rightarrow> size_t res" where
  "compute_indices f hash =
     (if table_size f = 0 then Inl (Undefined_behaviour ''remainder by zero'')
      else Inr (ucast hash mod table_size f))"

fun insert_salts :: "(bloom_type \<Rightarrow> size_t res) \<Rightarrow> string \<Rightarrow> bloom_type list \<Rightarrow> cell_type list \<Rightarrow>
    cell_type list res" where
  "insert_salts ix k [] t = Inr t"
| "insert_salts ix k (s # ss) t =
     bindr (ix (hash_ap k s)) (\<lambda>bit_index.
     let c = unat (bit_index div 8) in
     if c < length t
     then insert_salts ix k ss (t[c := t ! c OR bit_mask ! unat (bit_index mod 8)])
     else Inl (Undefined_behaviour ''bit_table index''))"

fun contains_salts :: "(bloom_type \<Rightarrow> size_t res) \<Rightarrow> string \<Rightarrow> bloom_type list \<Rightarrow> cell_type list \<Rightarrow>
    bool res" where
  "contains_salts ix k [] t = Inr True"
| "contains_salts ix k (s # ss) t =
     bindr (ix (hash_ap k s)) (\<lambda>bit_index.
     let c = unat (bit_index div 8); m = bit_mask ! unat (bit_index mod 8) in
     if c < length t
     then (if t ! c AND m \<noteq> m then Inr False else contains_salts ix k ss t)
     else Inl (Undefined_behaviour ''bit_table index''))"

definition bloom_insert :: "('a bloom_filter_scheme \<Rightarrow> bloom_type \<Rightarrow> size_t res) \<Rightarrow> string \<Rightarrow>
    'a bloom_filter_scheme \<Rightarrow> 'a bloom_filter_scheme res" where
  "bloom_insert ci k f = bindr (insert_salts (ci f) k (salt f) (bit_table f)) (\<lambda>t.
     Inr (f\<lparr>bit_table := t, inserted_element_count := inserted_element_count f + 1\<rparr>))"

definition bloom_contains :: "('a bloom_filter_scheme \<Rightarrow> bloom_type \<Rightarrow> size_t res) \<Rightarrow> string \<Rightarrow>
    'a bloom_filter_scheme \<Rightarrow> bool res" where
  "bloom_contains ci k f = contains_salts (ci f) k (salt f) (bit_table f)"

text \<open>Inserting a range, and the position in a range of the first key that is not, or is, contained.\<close>

fun insert_range :: "('a bloom_filter_scheme \<Rightarrow> bloom_type \<Rightarrow> size_t res) \<Rightarrow> string list \<Rightarrow>
    'a bloom_filter_scheme \<Rightarrow> 'a bloom_filter_scheme res" where
  "insert_range ci [] f = Inr f"
| "insert_range ci (k # ks) f = bindr (bloom_insert ci k f) (insert_range ci ks)"

fun contains_all :: "('a bloom_filter_scheme \<Rightarrow> bloom_type \<Rightarrow> size_t res) \<Rightarrow> string list \<Rightarrow>
    'a bloom_filter_scheme \<Rightarrow> nat res" where
  "contains_all ci [] f = Inr 0"
| "contains_all ci (k # ks) f = bindr (bloom_contains ci k f) (\<lambda>b.
     if \<not> b then Inr 0 else bindr (contains_all ci ks f) (\<lambda>n. Inr (Suc n)))"

fun contains_none :: "('a bloom_filter_scheme \<Rightarrow> bloom_type \<Rightarrow> size_t res) \<Rightarrow> string list \<Rightarrow>
    'a bloom_filter_scheme \<Rightarrow> nat res" where
  "contains_none ci [] f = Inr 0"
| "contains_none ci (k # ks) f = bindr (bloom_contains ci k f) (\<lambda>b.
     if b then Inr 0 else bindr (contains_none ci ks f) (\<lambda>n. Inr (Suc n)))"

definition bloom_clear :: "'a bloom_filter_scheme \<Rightarrow> 'a bloom_filter_scheme" where
  "bloom_clear f = f\<lparr>bit_table := replicate (length (bit_table f)) 0, inserted_element_count := 0\<rparr>"

text \<open>The operators \<open>&=\<close>, \<open>|=\<close> and \<open>^=\<close>, which do nothing to filters of different shape.\<close>

definition same_shape :: "bloom_filter \<Rightarrow> bloom_filter \<Rightarrow> bool" where
  "same_shape f g \<longleftrightarrow> salt_count f = salt_count g \<and> table_size f = table_size g \<and>
     random_seed f = random_seed g"

definition combine :: "(cell_type \<Rightarrow> cell_type \<Rightarrow> cell_type) \<Rightarrow> bloom_filter \<Rightarrow> bloom_filter \<Rightarrow> bloom_filter res" where
  "combine op f g =
     (if same_shape f g
      then (if length (bit_table f) \<le> length (bit_table g)
            then Inr (f\<lparr>bit_table := map2 op (bit_table f) (bit_table g)\<rparr>)
            else Inl (Undefined_behaviour ''bit_table index''))
      else Inr f)"

definition bloom_and :: "bloom_filter \<Rightarrow> bloom_filter \<Rightarrow> bloom_filter res" where
  "bloom_and f g = combine (AND) f g"

definition bloom_or :: "bloom_filter \<Rightarrow> bloom_filter \<Rightarrow> bloom_filter res" where
  "bloom_or f g = combine (OR) f g"

definition bloom_xor :: "bloom_filter \<Rightarrow> bloom_filter \<Rightarrow> bloom_filter res" where
  "bloom_xor f g = combine (XOR) f g"

text \<open>
  \<open>operator==\<close>, where \<open>same_fpp\<close> compares the desired probabilities, \<open>operator!\<close> and the observers. Copying
  and assigning copy every field.
\<close>

definition bloom_eq :: "bool \<Rightarrow> bloom_filter \<Rightarrow> bloom_filter \<Rightarrow> bool" where
  "bloom_eq same_fpp f g \<longleftrightarrow> salt_count f = salt_count g \<and> table_size f = table_size g \<and>
     length (bit_table f) = length (bit_table g) \<and> projected_element_count f = projected_element_count g \<and>
     inserted_element_count f = inserted_element_count g \<and> random_seed f = random_seed g \<and> same_fpp \<and>
     salt f = salt g \<and> bit_table f = bit_table g"

definition bloom_empty :: "'a bloom_filter_scheme \<Rightarrow> bool" where
  "bloom_empty f \<longleftrightarrow> 0 = table_size f"

definition hash_count :: "'a bloom_filter_scheme \<Rightarrow> size_t" where
  "hash_count f = of_nat (length (salt f))"

section \<open>The compressible filter\<close>

record compressible_bloom_filter = bloom_filter +
  size_list :: "size_t list"

definition compressible_new :: "bloom_filter \<Rightarrow> compressible_bloom_filter" where
  "compressible_new f = bloom_filter.extend f \<lparr>size_list = [table_size f]\<rparr>"

definition compressible_size :: "compressible_bloom_filter \<Rightarrow> size_t" where
  "compressible_size f = last (size_list f)"

definition compute_indices_list :: "compressible_bloom_filter \<Rightarrow> bloom_type \<Rightarrow> size_t res" where
  "compute_indices_list f hash =
     foldl (\<lambda>r s. bindr r (\<lambda>i. if s = 0 then Inl (Undefined_behaviour ''remainder by zero'') else Inr (i mod s)))
       (Inr (ucast hash)) (size_list f)"

text \<open>
  The loop that folds the rest of the table onto its new beginning, with the position in the new table.
\<close>

fun fold_cells :: "nat \<Rightarrow> cell_type list \<Rightarrow> cell_type list \<Rightarrow> cell_type list res" where
  "fold_cells i [] t = Inr t"
| "fold_cells i (c # cs) t =
     (if i < length t then fold_cells (Suc i) cs (t[i := t ! i OR c])
      else Inl (Undefined_behaviour ''past the end of the compressed table''))"

text \<open>
  \<open>compress\<close>: \<open>in_range\<close> says that the percentage is at least 0 and below 100, \<open>product\<close> is the size that
  remains of the last one, computed in floating point and converted.
\<close>

definition compress :: "bool \<Rightarrow> size_t \<Rightarrow> compressible_bloom_filter \<Rightarrow> (bool \<times> compressible_bloom_filter) res" where
  "compress in_range product f =
     (if \<not> in_range then Inr (False, f)
      else
        (let original_table_size = last (size_list f);
             new_table_size = product - product mod 8
         in if 8 > new_table_size \<or> new_table_size \<ge> original_table_size then Inr (False, f)
            else
              (let raw = unat (new_table_size div 8);
                   old = take (unat (original_table_size div 8)) (bit_table f)
               in bindr (fold_cells 0 (drop raw old) (take raw old)) (\<lambda>tmp.
                  Inr (True, f\<lparr>bit_table := tmp, size_list := size_list f @ [new_table_size]\<rparr>)))))"

text \<open>
  The product for a percentage of 5. A \<open>double\<close> keeps 53 significant bits, and a number with more is
  rounded to the nearest one, to the even one of two. \<open>1.0 - (5.0 / 100.0)\<close> is \<open>8556839292003942 / 2 ^ 53\<close>;
  it is multiplied by the size, which is converted to a \<open>double\<close> first, and the product is truncated.
\<close>

function excess_bits :: "nat \<Rightarrow> nat" where
  "excess_bits n = (if n < 2 ^ 53 then 0 else Suc (excess_bits (n div 2)))"
  by auto
termination by (relation "measure id") auto

declare excess_bits.simps [simp del]

definition round_double :: "nat \<Rightarrow> nat" where
  "round_double n =
     (let e = excess_bits n; q = n div 2 ^ e; r = 2 * (n mod 2 ^ e) in
      (if r > 2 ^ e \<or> r = 2 ^ e \<and> odd q then q + 1 else q) * 2 ^ e)"

definition five_percent_off :: "size_t \<Rightarrow> size_t" where
  "five_percent_off s = of_nat (round_double (round_double (unat s) * 8556839292003942) div 2 ^ 53)"

end
