(* ===== verification/BloomProps.thy ===== *)
theory BloomProps
  imports Bloom
begin

text \<open>
  What a Bloom filter (\<open>bloom/bloom_filter.hpp\<close>) promises: its table as a set of positions, no false
  negatives, union and intersection, and when the compressible filter keeps its members.
\<close>

section \<open>The table as a set of positions\<close>

definition has_bit :: "cell_type list \<Rightarrow> nat \<Rightarrow> bool" where
  "has_bit t n \<longleftrightarrow> bit (t ! (n div 8)) (n mod 8)"

lemma bit_mask_nth: "b < 8 \<Longrightarrow> bit_mask ! b = push_bit b 1"
proof -
  have "\<forall>b \<in> set [0..<8]. bit_mask ! b = push_bit b 1" by code_simp
  then show "b < 8 \<Longrightarrow> bit_mask ! b = push_bit b 1" by simp
qed

lemma bit_mask_bit: "b < 8 \<Longrightarrow> bit (bit_mask ! b) j \<longleftrightarrow> j = b"
  by (auto simp: bit_mask_nth bit_simps)

lemma and_mask: "b < 8 \<Longrightarrow> (c AND bit_mask ! b = bit_mask ! b) \<longleftrightarrow> bit c b" for c :: cell_type
  by (simp add: bit_eq_iff [of "c AND bit_mask ! b"] bit_and_iff bit_mask_bit) auto

lemma size_div_mod:
  fixes i :: size_t
  shows "unat (i div 8) = unat i div 8" "unat (i mod 8) = unat i mod 8"
  by (simp_all add: unat_div_distrib unat_mod_distrib)

lemma has_bit_set:
  assumes "m div 8 < length t"
  shows "has_bit (t[m div 8 := t ! (m div 8) OR bit_mask ! (m mod 8)]) n \<longleftrightarrow> has_bit t n \<or> n = m"
proof (cases "n div 8 = m div 8")
  case True
  then have "n mod 8 = m mod 8 \<longleftrightarrow> n = m" by (metis div_mult_mod_eq)
  then show ?thesis using True assms by (auto simp: has_bit_def bit_or_iff bit_mask_bit)
next
  case False
  then show ?thesis by (auto simp: has_bit_def)
qed

text \<open>\<open>ix\<close> computes the position \<open>g h\<close> of a hash inside a table of \<open>n\<close> cells.\<close>

definition indexes :: "(bloom_type \<Rightarrow> size_t res) \<Rightarrow> (bloom_type \<Rightarrow> size_t) \<Rightarrow> nat \<Rightarrow> bool" where
  "indexes ix g n \<longleftrightarrow> (\<forall>h. ix h = Inr (g h) \<and> unat (g h) < 8 * n)"

definition positions :: "(bloom_type \<Rightarrow> size_t) \<Rightarrow> bloom_type list \<Rightarrow> string \<Rightarrow> nat set" where
  "positions g ss k = (\<lambda>s. unat (g (hash_ap k s))) ` set ss"

lemma insert_salts_ok:
  assumes "indexes ix g (length t)"
  shows "\<exists>t'. insert_salts ix k ss t = Inr t' \<and> length t' = length t \<and>
    (\<forall>n. has_bit t' n \<longleftrightarrow> has_bit t n \<or> n \<in> positions g ss k)"
  using assms
proof (induction ss arbitrary: t)
  case (Cons s ss)
  let ?m = "unat (g (hash_ap k s))"
  let ?t = "t[?m div 8 := t ! (?m div 8) OR bit_mask ! (?m mod 8)]"
  have m: "ix (hash_ap k s) = Inr (g (hash_ap k s))" "?m div 8 < length t"
    using Cons.prems by (simp_all add: indexes_def less_mult_imp_div_less mult.commute)
  have "indexes ix g (length ?t)" using Cons.prems by simp
  from Cons.IH [OF this] obtain t' where
    "insert_salts ix k ss ?t = Inr t'" "length t' = length t"
    "\<forall>n. has_bit t' n \<longleftrightarrow> has_bit ?t n \<or> n \<in> positions g ss k" by auto
  then show ?case using m
    by (intro exI [of _ t']) (auto simp: size_div_mod has_bit_set [OF m(2)] positions_def Let_def)
qed (auto simp: positions_def)

lemma contains_salts_ok:
  assumes "indexes ix g (length t)"
  shows "contains_salts ix k ss t = Inr (\<forall>n \<in> positions g ss k. has_bit t n)"
proof (induction ss)
  case (Cons s ss)
  let ?m = "unat (g (hash_ap k s))"
  have m: "ix (hash_ap k s) = Inr (g (hash_ap k s))" "?m div 8 < length t"
    using assms by (simp_all add: indexes_def less_mult_imp_div_less mult.commute)
  have "(t ! (?m div 8) AND bit_mask ! (?m mod 8) = bit_mask ! (?m mod 8)) \<longleftrightarrow> has_bit t ?m"
    by (simp add: and_mask has_bit_def)
  then show ?case using m Cons by (auto simp: size_div_mod positions_def Let_def)
qed (simp add: positions_def)

text \<open>The set of positions that are set; a filter contains the keys whose positions are all in it.\<close>

definition set_bits :: "'a bloom_filter_scheme \<Rightarrow> nat set" where
  "set_bits f = {n. has_bit (bit_table f) n}"

lemma contains_ok:
  "indexes (ci f) g (length (bit_table f)) \<Longrightarrow>
    bloom_contains ci k f = Inr (positions g (salt f) k \<subseteq> set_bits f)"
  by (auto simp: bloom_contains_def contains_salts_ok set_bits_def)

lemma contains_range:
  "\<forall>k \<in> set ks. bloom_contains ci k f = Inr True \<Longrightarrow> contains_all ci ks f = Inr (length ks)"
  "\<forall>k \<in> set ks. bloom_contains ci k f = Inr False \<Longrightarrow> contains_none ci ks f = Inr (length ks)"
  by (induction ks) simp_all

section \<open>The virtual function\<close>

text \<open>
  What \<open>insert\<close>, \<open>contains\<close> and their callers rely on in a class that defines \<open>compute_indices\<close>: on a filter
  that can be used every hash has its place in the table, which does not depend on the bits that are set nor on
  the counter, all that an insertion changes.
\<close>

locale virtual_indices =
  fixes ci :: "'a bloom_filter_scheme \<Rightarrow> bloom_type \<Rightarrow> size_t res"
    and usable :: "'a bloom_filter_scheme \<Rightarrow> bool"
    and place :: "'a bloom_filter_scheme \<Rightarrow> bloom_type \<Rightarrow> size_t"
  assumes inside: "usable f \<Longrightarrow> indexes (ci f) (place f) (length (bit_table f))"
    and keeps: "usable f \<Longrightarrow> length t = length (bit_table f) \<Longrightarrow>
      usable (f\<lparr>bit_table := t, inserted_element_count := n\<rparr>) \<and>
      place (f\<lparr>bit_table := t, inserted_element_count := n\<rparr>) = place f"
begin

lemma contains_iff:
  "usable f \<Longrightarrow> bloom_contains ci k f = Inr (positions (place f) (salt f) k \<subseteq> set_bits f)"
  by (rule contains_ok [OF inside])

lemma insert_runs:
  assumes "usable f"
  obtains t where "bloom_insert ci k f =
      Inr (f\<lparr>bit_table := t, inserted_element_count := inserted_element_count f + 1\<rparr>)"
    "length t = length (bit_table f)" "\<And>n. has_bit t n \<longleftrightarrow> n \<in> set_bits f \<union> positions (place f) (salt f) k"
  using insert_salts_ok [OF inside [OF assms], of k "salt f"] that
  by (auto simp: bloom_insert_def set_bits_def)

lemma insert_range_runs:
  assumes "usable f"
  obtains t where "insert_range ci ks f =
      Inr (f\<lparr>bit_table := t, inserted_element_count := inserted_element_count f + of_nat (length ks)\<rparr>)"
    "length t = length (bit_table f)"
    "\<And>n. has_bit t n \<longleftrightarrow> n \<in> set_bits f \<union> (\<Union>k \<in> set ks. positions (place f) (salt f) k)"
  using assms
proof (induction ks arbitrary: f thesis)
  case (Cons k ks)
  from insert_runs [OF Cons.prems(2), of k] obtain t where
    t: "bloom_insert ci k f = Inr (f\<lparr>bit_table := t, inserted_element_count := inserted_element_count f + 1\<rparr>)"
      "length t = length (bit_table f)" "\<And>n. has_bit t n \<longleftrightarrow> n \<in> set_bits f \<union> positions (place f) (salt f) k" by metis
  let ?f = "f\<lparr>bit_table := t, inserted_element_count := inserted_element_count f + 1\<rparr>"
  have ok: "usable ?f" "place ?f = place f" using keeps [OF Cons.prems(2) t(2)] by blast+
  from Cons.IH [OF _ ok(1)] obtain u where
    u: "insert_range ci ks ?f =
        Inr (?f\<lparr>bit_table := u, inserted_element_count := inserted_element_count ?f + of_nat (length ks)\<rparr>)"
      "length u = length (bit_table ?f)"
      "\<And>n. has_bit u n \<longleftrightarrow> n \<in> set_bits ?f \<union> (\<Union>k \<in> set ks. positions (place f) (salt ?f) k)"
    unfolding ok(2) by blast
  show ?case
    by (rule Cons.prems(1) [of u]) (use t u in \<open>auto simp: set_bits_def algebra_simps\<close>)
next
  case Nil
  show ?case by (rule Nil.prems(1) [of "bit_table f"]) (simp_all add: set_bits_def)
qed

lemma insert_range_ok:
  assumes "usable f"
  obtains f' where "insert_range ci ks f = Inr f'"
  using insert_range_runs [OF assms] by blast

text \<open>After the insertions the filter contains the keys of the range and what it contained before.\<close>

lemma inserted:
  assumes "usable f" "insert_range ci ks f = Inr f'"
  shows "usable f'" "salt f' = salt f" "inserted_element_count f' = inserted_element_count f + of_nat (length ks)"
    "k \<in> set ks \<or> bloom_contains ci k f = Inr True \<Longrightarrow> bloom_contains ci k f' = Inr True"
proof -
  from insert_range_runs [OF assms(1), of ks] assms(2) obtain t where
    f': "f' = f\<lparr>bit_table := t, inserted_element_count := inserted_element_count f + of_nat (length ks)\<rparr>"
    and t: "length t = length (bit_table f)"
      "\<And>n. has_bit t n \<longleftrightarrow> n \<in> set_bits f \<union> (\<Union>k \<in> set ks. positions (place f) (salt f) k)" by auto
  show ok: "usable f'" and "salt f' = salt f"
    "inserted_element_count f' = inserted_element_count f + of_nat (length ks)"
    using keeps [OF assms(1) t(1)] by (simp_all add: f')
  have "place f' = place f" "set_bits f' = set_bits f \<union> (\<Union>k \<in> set ks. positions (place f) (salt f) k)"
    using keeps [OF assms(1) t(1)] t(2) by (auto simp: f' set_bits_def)
  then show "bloom_contains ci k f' = Inr True" if "k \<in> set ks \<or> bloom_contains ci k f = Inr True"
    using that contains_iff [OF ok, of k] contains_iff [OF assms(1), of k] by (auto simp: f')
qed

lemma all_inserted:
  "usable f \<Longrightarrow> insert_range ci ks f = Inr f' \<Longrightarrow> contains_all ci ks f' = Inr (length ks)"
  using inserted(4) by (intro contains_range(1)) blast

end

section \<open>Filters that can be used\<close>

text \<open>The size of the table is not zero and is exactly the number of bits of its cells.\<close>

definition bloom_ok :: "'a bloom_filter_scheme \<Rightarrow> bool" where
  "bloom_ok f \<longleftrightarrow> table_size f \<noteq> 0 \<and> unat (table_size f) = 8 * length (bit_table f)"

lemma bloom_indexes:
  "bloom_ok f \<Longrightarrow> indexes (compute_indices f) (\<lambda>h. ucast h mod table_size f) (length (bit_table f))"
proof -
  assume ok: "bloom_ok f"
  then have "unat (table_size f) > 0" unfolding bloom_ok_def unat_gt_0 by blast
  then have "unat (ucast h mod table_size f) < unat (table_size f)" for h :: bloom_type
    by (simp add: unat_mod_distrib)
  then show ?thesis using ok by (simp add: indexes_def compute_indices_def bloom_ok_def)
qed

interpretation plain: virtual_indices compute_indices bloom_ok "\<lambda>f h. ucast h mod table_size f"
  by unfold_locales (rule bloom_indexes, simp_all add: bloom_ok_def)

lemma length_mix_salts [simp]: "length (mix_salts seed i n ss) = length ss"
  by (induction seed i n ss rule: mix_salts.induct) simp_all

lemma draw_salts_length: "draw_salts rnd fuel j n ss = Inr ss' \<Longrightarrow> length ss \<le> n \<Longrightarrow> length ss' = n"
  by (induction rnd fuel j n ss rule: draw_salts.induct)
    (subst (asm) draw_salts.simps, auto split: if_splits nat.splits simp: Let_def)

lemma new_filter:
  assumes "unat (number_of_hashes p) \<le> 128" "opt_table_size p \<noteq> 0" "8 dvd unat (opt_table_size p)"
  obtains f where "bloom_filter_new rnd fuel p = Inr f" "bloom_ok f" "inserted_element_count f = 0"
    "length (salt f) = unat (number_of_hashes p)"
proof -
  have l: "length predef_salt = 128" by (simp add: predef_salt_def)
  show thesis using assms that
    by (auto simp: bloom_filter_new_def generate_unique_salt_def Let_def l bloom_ok_def size_div_mod)
qed

section \<open>No false negatives\<close>

lemma cleared_filter:
  assumes "bloom_ok f" "salt f \<noteq> []"
  shows "bloom_contains compute_indices k (bloom_clear f) = Inr False"
proof -
  let ?g = "\<lambda>h. ucast h mod table_size f"
  have ok: "bloom_ok (bloom_clear f)" and same: "salt (bloom_clear f) = salt f" "table_size (bloom_clear f) = table_size f"
    "bit_table (bloom_clear f) = replicate (length (bit_table f)) 0"
    using assms(1) by (simp_all add: bloom_ok_def bloom_clear_def)
  obtain n where n: "n \<in> positions ?g (salt f) k" using assms(2) unfolding positions_def by fastforce
  have "n < 8 * length (bit_table f)" using n bloom_indexes [OF assms(1)] by (auto simp: positions_def indexes_def)
  then have "n \<notin> set_bits (bloom_clear f)" by (simp add: set_bits_def has_bit_def same less_mult_imp_div_less mult.commute)
  then show ?thesis
    using plain.contains_iff [OF ok, of k] n unfolding same by auto
qed

lemma rounded_size:
  fixes m :: size_t
  assumes "0 < m" "m \<le> - 8"
  shows "8 dvd unat (m + (if m mod 8 \<noteq> 0 then 8 - m mod 8 else 0)) \<and>
    m \<le> m + (if m mod 8 \<noteq> 0 then 8 - m mod 8 else 0)"
proof (cases "m mod 8 = 0")
  case True
  then show ?thesis using size_div_mod(2) [of m] by (simp add: dvd_eq_mod_eq_0)
next
  case False
  let ?a = "unat m"
  have m8: "unat (m mod 8) = ?a mod 8" by (rule size_div_mod)
  then have nz: "?a mod 8 \<noteq> 0" using False by (simp add: word_unat_eq_iff)
  have "?a \<le> 2 ^ 64 - 8" using assms(2) by (simp add: word_le_nat_alt)
  then have b: "?a + (8 - ?a mod 8) < 2 ^ 64" using nz by simp
  have "m mod 8 \<le> 8" by (simp add: word_le_nat_alt m8)
  then have "unat (8 - m mod 8) = 8 - ?a mod 8" using unat_sub [of "m mod 8" 8] m8 by simp
  then have r: "unat (m + (8 - m mod 8)) = ?a + (8 - ?a mod 8)" using b by (simp add: unat_word_ariths)
  have "8 dvd ?a + (8 - ?a mod 8)" by presburger
  then show ?thesis using False r by (simp add: word_le_nat_alt)
qed

text \<open>Parameters with the default bounds on the size give a filter that can be used.\<close>

lemma optimal_filter:
  assumes "\<not> bad_parameters b p" "minimum_size p = 1" "maximum_size p = - 1" "minimum_number_of_hashes p = 1"
    and best: "fst best \<le> 128 \<or> maximum_number_of_hashes p \<le> 128" "0 < snd best" "snd best \<le> - 8"
  obtains f where "bloom_filter_new rnd fuel (snd (compute_optimal_parameters b best p)) = Inr f" "bloom_ok f"
    "inserted_element_count f = 0" "salt f \<noteq> []"
proof -
  let ?p = "snd (compute_optimal_parameters b best p)"
  let ?m = "snd best + (if snd best mod 8 \<noteq> 0 then 8 - snd best mod 8 else 0)"
  note m = rounded_size [OF best(2,3)]
  have "0 < ?m" by (rule less_le_trans [OF best(2) conjunct2 [OF m]])
  moreover have "\<not> r < 1" "\<not> r > - 1" if "0 < r" for r :: size_t
    using that word_order.extremum [of r] by (simp_all add: word_less_nat_alt not_less word_le_nat_alt)
  ultimately have "\<not> ?m < 1" "\<not> ?m > - 1" by blast+
  then have p: "opt_table_size ?p = ?m" "number_of_hashes ?p = (if fst best < 1 then 1
      else if fst best > maximum_number_of_hashes p then maximum_number_of_hashes p else fst best)"
    using assms(1-4) unfolding compute_optimal_parameters_def Let_def by simp_all
  have "maximum_number_of_hashes p \<noteq> 0" using assms(1) by (simp add: bad_parameters_def)
  then have "0 < unat (maximum_number_of_hashes p)" unfolding unat_gt_0 .
  then have "unat (number_of_hashes ?p) \<le> 128" "unat (number_of_hashes ?p) \<noteq> 0"
    using best(1) unfolding p by (auto simp: word_le_nat_alt word_less_nat_alt)
  moreover have "opt_table_size ?p \<noteq> 0" using \<open>0 < ?m\<close> unfolding p word_neq_0_conv .
  moreover have "8 dvd unat (opt_table_size ?p)" using m unfolding p by blast
  ultimately show thesis using new_filter [of ?p rnd fuel] that by (metis length_0_conv)
qed

lemma level_filter:
  assumes "fst best \<le> 128" "0 < snd best" "snd best \<le> - 8"
  obtains f where "create_filter rnd fuel best = Inr f" "bloom_ok f" "inserted_element_count f = 0" "salt f \<noteq> []"
proof -
  let ?d = "default_parameters\<lparr>param_element_count := 750000\<rparr>"
  have "\<not> bad_parameters False ?d" by code_simp
  moreover have "minimum_size ?d = 1" "maximum_size ?d = - 1" "minimum_number_of_hashes ?d = 1"
    by (simp_all add: default_parameters_def)
  ultimately show thesis using optimal_filter [of False ?d best rnd fuel] assms that
    unfolding create_filter_def Let_def by blast
qed

text \<open>What a new filter does with any keys.\<close>

lemma new_filter_keys:
  assumes f: "bloom_ok f" "inserted_element_count f = 0" "salt f \<noteq> []"
  shows "\<exists>f'. insert_range compute_indices ks f = Inr f' \<and> contains_all compute_indices ks f' = Inr (length ks) \<and>
    (\<forall>k \<in> set ks. bloom_contains compute_indices k f' = Inr True) \<and>
    inserted_element_count f' = of_nat (length ks) \<and>
    (\<forall>js. contains_none compute_indices js (bloom_clear f') = Inr (length js))"
proof -
  from plain.insert_range_ok [OF f(1), of ks] obtain f' where f': "insert_range compute_indices ks f = Inr f'" by blast
  note c = plain.inserted [OF f(1) f']
  have "\<forall>k \<in> set ks. bloom_contains compute_indices k f' = Inr True" using c(4) by blast
  moreover have "\<forall>k. bloom_contains compute_indices k (bloom_clear f') = Inr False"
    using cleared_filter [OF c(1)] f(3) c(2) by simp
  then have "\<forall>js. contains_none compute_indices js (bloom_clear f') = Inr (length js)" using contains_range(2) by blast
  moreover have "contains_all compute_indices ks f' = Inr (length ks)" by (rule plain.all_inserted [OF f(1) f'])
  ultimately show ?thesis using f' c(3) f(2) by simp
qed

text \<open>
  C25. A filter as a level makes it, whatever numbers of hashes up to 128 and of bits the search for the best
  ones finds, takes any keys; afterwards it contains every one of them and counts them, and once it is
  cleared it contains no key.
\<close>

theorem bloom_no_false_negatives:
  assumes "fst best \<le> 128" "0 < snd best" "snd best \<le> - 8"
  shows "\<exists>f f'. create_filter rnd fuel best = Inr f \<and> insert_range compute_indices ks f = Inr f' \<and>
    contains_all compute_indices ks f' = Inr (length ks) \<and> (\<forall>k \<in> set ks. bloom_contains compute_indices k f' = Inr True) \<and>
    inserted_element_count f' = of_nat (length ks) \<and>
    (\<forall>js. contains_none compute_indices js (bloom_clear f') = Inr (length js))"
proof -
  obtain f where "create_filter rnd fuel best = Inr f" "bloom_ok f" "inserted_element_count f = 0" "salt f \<noteq> []"
    by (rule level_filter [OF assms])
  then show ?thesis using new_filter_keys [of f ks] by blast
qed

theorem bloom_no_false_negatives_witness:
  "\<exists>f f'. create_filter (\<lambda>_. 0) 0 (3, 60) = Inr f \<and> insert_range compute_indices [''key'', ''another key''] f = Inr f' \<and>
    bloom_contains compute_indices ''another key'' f' = Inr True"
  using bloom_no_false_negatives [of "(3, 60)" "\<lambda>_. 0" 0 "[''key'', ''another key'']"] by auto

text \<open>
  Clamping comes after rounding: with a maximum of 12 bits the table has one cell, and inserting a key whose
  position is 8 or more writes behind it.
\<close>

lemma clamped_size_out_of_bounds:
  "bindr (bloom_filter_new (\<lambda>_. 0) 0 (snd (compute_optimal_parameters False (3, 100)
      (default_parameters\<lparr>maximum_size := 12\<rparr>)))) (bloom_insert compute_indices ''another key'') =
    Inl (Undefined_behaviour ''bit_table index'')"
  by code_simp

section \<open>Union and intersection\<close>

lemma positions_bound:
  "bloom_ok f \<Longrightarrow> n \<in> positions (\<lambda>h. ucast h mod table_size f) (salt f) k \<Longrightarrow> n div 8 < length (bit_table f)"
  using bloom_indexes [of f] by (auto simp: positions_def indexes_def less_mult_imp_div_less mult.commute)

text \<open>
  C36. For two filters of the same shape and the same salts, the union contains every key that one of them
  contains, and the intersection contains exactly the keys that both contain.
\<close>

theorem bloom_union_intersection:
  assumes "bloom_ok f" "bloom_ok g" "same_shape f g" "salt f = salt g"
  shows "\<exists>u i. bloom_or f g = Inr u \<and> bloom_and f g = Inr i \<and> (\<forall>k.
    (bloom_contains compute_indices k f = Inr True \<or> bloom_contains compute_indices k g = Inr True \<longrightarrow>
       bloom_contains compute_indices k u = Inr True) \<and>
    (bloom_contains compute_indices k i = Inr True \<longleftrightarrow>
       bloom_contains compute_indices k f = Inr True \<and> bloom_contains compute_indices k g = Inr True))"
proof -
  have len: "length (bit_table f) = length (bit_table g)" "table_size g = table_size f"
    using assms(1-3) by (simp_all add: bloom_ok_def same_shape_def)
  let ?u = "f\<lparr>bit_table := map2 (OR) (bit_table f) (bit_table g)\<rparr>"
    and ?i = "f\<lparr>bit_table := map2 (AND) (bit_table f) (bit_table g)\<rparr>"
    and ?P = "positions (\<lambda>h. ucast h mod table_size f) (salt f)"
  have ops: "bloom_or f g = Inr ?u" "bloom_and f g = Inr ?i"
    using assms(3) len by (simp_all add: bloom_or_def bloom_and_def combine_def)
  have ok: "bloom_ok ?u" "bloom_ok ?i" using assms(1) len by (simp_all add: bloom_ok_def)
  have "n \<in> set_bits ?u \<longleftrightarrow> n \<in> set_bits f \<or> n \<in> set_bits g" "n \<in> set_bits ?i \<longleftrightarrow> n \<in> set_bits f \<and> n \<in> set_bits g"
    if "n \<in> ?P k" for n k
    using positions_bound [OF assms(1) that] len by (simp_all add: set_bits_def has_bit_def bit_or_iff bit_and_iff)
  then have "?P k \<subseteq> set_bits f \<or> ?P k \<subseteq> set_bits g \<Longrightarrow> ?P k \<subseteq> set_bits ?u"
    "?P k \<subseteq> set_bits ?i \<longleftrightarrow> ?P k \<subseteq> set_bits f \<and> ?P k \<subseteq> set_bits g" for k
    by blast+
  then show ?thesis
    using ops assms(4) len(2) plain.contains_iff [OF assms(1)] plain.contains_iff [OF assms(2)]
      plain.contains_iff [OF ok(1)] plain.contains_iff [OF ok(2)] by simp
qed

theorem bloom_union_intersection_witness:
  "\<exists>f g u i. bloom_or f g = Inr u \<and> bloom_and f g = Inr i \<and> bloom_ok f \<and>
    bloom_contains compute_indices ''k'' u = Inr True \<and> bloom_contains compute_indices ''k'' f = Inr False \<and>
    bloom_contains compute_indices ''k'' i = Inr False"
proof -
  let ?f = "\<lparr>salt = [7], bit_table = [0, 0], salt_count = 1, table_size = 16, projected_element_count = 1,
      inserted_element_count = 0, random_seed = 1\<rparr> :: bloom_filter"
  let ?g = "?f\<lparr>bit_table := [255, 255]\<rparr>"
  have c: "bloom_contains compute_indices ''k'' ?f = Inr False" "bloom_contains compute_indices ''k'' ?g = Inr True"
    by code_simp+
  have "bloom_ok ?f" "bloom_ok ?g" "same_shape ?f ?g" "salt ?f = salt ?g"
    by (simp_all add: bloom_ok_def same_shape_def)
  from bloom_union_intersection [OF this] \<open>bloom_ok ?f\<close> obtain u i where
    ui: "bloom_or ?f ?g = Inr u" "bloom_and ?f ?g = Inr i" "bloom_contains compute_indices ''k'' u = Inr True"
      "bloom_contains compute_indices ''k'' i \<noteq> Inr True"
    using c by fastforce
  have "i = ?f" using ui(2) by (simp add: bloom_and_def combine_def same_shape_def)
  with ui c \<open>bloom_ok ?f\<close> show ?thesis by blast
qed

section \<open>Compression\<close>

text \<open>Filters that \<open>compress\<close> works on: the last size is the number of bits in the table.\<close>

definition compressible_ok :: "compressible_bloom_filter \<Rightarrow> bool" where
  "compressible_ok f \<longleftrightarrow> size_list f \<noteq> [] \<and> 0 \<notin> set (size_list f) \<and>
     unat (last (size_list f)) = 8 * length (bit_table f)"

definition list_index :: "size_t list \<Rightarrow> bloom_type \<Rightarrow> size_t" where
  "list_index ss h = foldl (mod) (ucast h) ss"

lemma compute_indices_list:
  "0 \<notin> set (size_list f) \<Longrightarrow> compute_indices_list f h = Inr (list_index (size_list f) h)"
proof -
  have "foldl (\<lambda>r s. bindr r (\<lambda>i. if s = 0 then Inl (Undefined_behaviour ''remainder by zero'') else Inr (i mod s)))
      (Inr i) ss = Inr (foldl (mod) i ss)" if "0 \<notin> set ss" for i and ss :: "size_t list"
    using that by (induction ss arbitrary: i) auto
  then show "0 \<notin> set (size_list f) \<Longrightarrow> ?thesis" by (simp add: compute_indices_list_def list_index_def)
qed

lemma compressible_indexes:
  assumes "compressible_ok f"
  shows "indexes (compute_indices_list f) (list_index (size_list f)) (length (bit_table f))"
proof -
  obtain ss s where s: "size_list f = ss @ [s]" using assms by (metis compressible_ok_def rev_exhaust)
  then have "s \<noteq> 0" "unat s = 8 * length (bit_table f)" using assms by (auto simp: compressible_ok_def)
  then have "0 < unat s" "unat s = 8 * length (bit_table f)" unfolding unat_gt_0 by blast+
  then have "unat (list_index (size_list f) h) < 8 * length (bit_table f)" for h
    by (simp add: s list_index_def unat_mod_distrib)
  moreover have "0 \<notin> set (size_list f)" using assms by (simp add: compressible_ok_def)
  ultimately show ?thesis by (simp add: indexes_def compute_indices_list)
qed

interpretation folded: virtual_indices compute_indices_list compressible_ok "\<lambda>f. list_index (size_list f)"
  by unfold_locales (rule compressible_indexes, simp_all add: compressible_ok_def)

lemma fold_cells_ok:
  "i + length cs \<le> length t \<Longrightarrow> \<exists>t'. fold_cells i cs t = Inr t' \<and> length t' = length t \<and>
    (\<forall>j < length t. t' ! j = (if i \<le> j \<and> j < i + length cs then t ! j OR cs ! (j - i) else t ! j))"
proof (induction i cs t rule: fold_cells.induct)
  case (2 i c cs t)
  then obtain t' where t': "fold_cells (Suc i) cs (t[i := t ! i OR c]) = Inr t'" "length t' = length t"
    "\<forall>j < length t. t' ! j = (if Suc i \<le> j \<and> j < Suc i + length cs
       then t[i := t ! i OR c] ! j OR cs ! (j - Suc i) else t[i := t ! i OR c] ! j)" by auto
  have "t' ! j = (if i \<le> j \<and> j < i + length (c # cs) then t ! j OR (c # cs) ! (j - i) else t ! j)"
    if "j < length t" for j
  proof (cases "j = i")
    case False
    then have le: "i \<le> j \<longleftrightarrow> Suc i \<le> j" by auto
    have "(c # cs) ! (j - i) = cs ! (j - Suc i)" if "Suc i \<le> j"
      using that Suc_diff_le [OF that] by simp
    then show ?thesis using t'(3) that False le by auto
  qed (use t'(3) that in auto)
  then show ?case using t'(1,2) 2(2) by auto
qed auto

lemma fold_cells_past_end:
  "length t < i + length cs \<Longrightarrow> i \<le> length t \<Longrightarrow>
    fold_cells i cs t = Inl (Undefined_behaviour ''past the end of the compressed table'')"
  by (induction i cs t rule: fold_cells.induct) auto

lemma compressed_sizes:
  assumes "compressible_ok f" "8 \<le> product" "product - product mod 8 < last (size_list f)"
  defines "new \<equiv> product - product mod 8"
  shows "unat (last (size_list f)) = 8 * length (bit_table f)" "unat new = 8 * (unat new div 8)"
    "unat new div 8 = unat product div 8" "1 \<le> unat new div 8" "unat new div 8 < length (bit_table f)"
    "compress True product f = bindr (fold_cells 0 (drop (unat new div 8) (bit_table f))
       (take (unat new div 8) (bit_table f))) (\<lambda>tmp. Inr (True, f\<lparr>bit_table := tmp, size_list := size_list f @ [new]\<rparr>))"
proof -
  let ?raw = "unat new div 8"
  show last: "unat (last (size_list f)) = 8 * length (bit_table f)" using assms(1) by (simp add: compressible_ok_def)
  have le: "product mod 8 \<le> product" by (simp add: word_le_nat_alt unat_mod_distrib)
  have un: "unat new = unat product - unat product mod 8"
    using unat_sub [OF le] by (simp add: new_def unat_mod_distrib)
  have "8 \<le> unat product" using assms(2) by (simp add: word_le_nat_alt)
  then show new: "unat new = 8 * ?raw" "1 \<le> ?raw" unfolding un by (simp_all add: minus_mod_eq_mult_div)
  show "?raw = unat product div 8" unfolding un by (simp add: minus_mod_eq_mult_div)
  show "?raw < length (bit_table f)" using assms(3) last new(1) by (simp add: new_def [symmetric] word_less_nat_alt)
  have big: "\<not> 8 > new" using new by (simp add: word_less_nat_alt)
  have "unat (last (size_list f) div 8) = length (bit_table f)" by (simp add: size_div_mod last)
  then show "compress True product f = bindr (fold_cells 0 (drop ?raw (bit_table f)) (take ?raw (bit_table f))) (\<lambda>tmp.
      Inr (True, f\<lparr>bit_table := tmp, size_list := size_list f @ [new]\<rparr>))"
    using big assms(3) unfolding compress_def Let_def size_div_mod not_le [symmetric] new_def by simp
qed

text \<open>Compressing to less than half writes past the end of the new table.\<close>

lemma compress_below_half:
  assumes "compressible_ok f" "8 \<le> product" "product - product mod 8 < last (size_list f)"
    and "2 * unat (product - product mod 8) < unat (last (size_list f))"
  shows "compress True product f = Inl (Undefined_behaviour ''past the end of the compressed table'')"
proof -
  note c = compressed_sizes [OF assms(1-3)]
  let ?raw = "unat (product - product mod 8) div 8" and ?t = "bit_table f"
  have "2 * ?raw < length ?t" using assms(4) c(1,2) by linarith
  then have "fold_cells 0 (drop ?raw ?t) (take ?raw ?t) = Inl (Undefined_behaviour ''past the end of the compressed table'')"
    using c(5) by (intro fold_cells_past_end) simp_all
  then show ?thesis unfolding c(6) by simp
qed

text \<open>Compressing to at least half keeps every position, folded by the new size.\<close>

lemma compress_in_half:
  assumes "compressible_ok f" "8 \<le> product" "product - product mod 8 < last (size_list f)"
    and "unat (last (size_list f)) \<le> 2 * unat (product - product mod 8)"
  obtains f' where "compress True product f = Inr (True, f')" "compressible_ok f'"
    "size_list f' = size_list f @ [product - product mod 8]" "salt f' = salt f"
    "\<And>k. bloom_contains compute_indices_list k f = Inr True \<Longrightarrow> bloom_contains compute_indices_list k f' = Inr True"
proof -
  let ?new = "product - product mod 8" let ?raw = "unat ?new div 8" let ?t = "bit_table f"
  note c = compressed_sizes [OF assms(1-3)]
  note new = c(2,4)
  have len: "length ?t \<le> 2 * ?raw" using assms(4) c(1,2) by linarith
  from len have "0 + length (drop ?raw ?t) \<le> length (take ?raw ?t)" using c(5) by simp
  from fold_cells_ok [OF this] c(5) obtain tmp where
    tmp: "fold_cells 0 (drop ?raw ?t) (take ?raw ?t) = Inr tmp" "length tmp = ?raw"
      "\<forall>j < ?raw. tmp ! j = (if j < length ?t - ?raw then ?t ! j OR ?t ! (?raw + j) else ?t ! j)" by auto
  let ?f = "f\<lparr>bit_table := tmp, size_list := size_list f @ [?new]\<rparr>"
  have "?new \<noteq> 0" using new by (metis mult_is_0 not_one_le_zero unat_0 zero_neq_numeral)
  then have ok: "compressible_ok ?f" using assms(1) tmp(2) new(1) by (auto simp: compressible_ok_def)
  have bits: "n mod (8 * ?raw) \<in> set_bits ?f" if "n \<in> set_bits f" "n < 8 * length ?t" for n
  proof (cases "n < 8 * ?raw")
    case True
    then have "n div 8 < ?raw" by (simp add: less_mult_imp_div_less mult.commute)
    then show ?thesis using that tmp(3) True by (simp add: set_bits_def has_bit_def bit_or_iff)
  next
    case False
    let ?n = "n - 8 * ?raw"
    have n: "n = ?n + 8 * ?raw" "?n < 8 * ?raw" using that(2) len False by linarith+
    then have "n mod (8 * ?raw) = ?n" by (metis mod_add_self2 mod_less)
    moreover have "n div 8 = ?raw + ?n div 8" "n mod 8 = ?n mod 8" by (subst n(1); simp)+
    moreover have "?n div 8 < ?raw" using n(2) by (simp add: less_mult_imp_div_less mult.commute)
    moreover have "?n div 8 < length ?t - ?raw" using that(2) \<open>n div 8 = _\<close> by linarith
    ultimately show ?thesis using that(1) tmp(3) by (simp add: set_bits_def has_bit_def bit_or_iff)
  qed
  have pos: "unat (list_index (size_list ?f) h) = unat (list_index (size_list f) h) mod (8 * ?raw)" for h
    using new(1) by (simp add: list_index_def unat_mod_distrib)
  have "bloom_contains compute_indices_list k ?f = Inr True"
    if "bloom_contains compute_indices_list k f = Inr True" for k
  proof -
    have "positions (list_index (size_list f)) (salt f) k \<subseteq> set_bits f"
      using that folded.contains_iff [OF assms(1), of k] by simp
    moreover have "\<forall>n \<in> positions (list_index (size_list f)) (salt f) k. n < 8 * length ?t"
      using compressible_indexes [OF assms(1)] by (auto simp: positions_def indexes_def)
    ultimately have "positions (list_index (size_list ?f)) (salt ?f) k \<subseteq> set_bits ?f"
      using bits unfolding positions_def pos by auto
    then show ?thesis
      using folded.contains_iff [OF ok, of k] by simp
  qed
  then show thesis using that [of ?f] ok by (simp add: c(6) tmp(1))
qed

text \<open>
  C37. Compressing a filter to at least half of its size succeeds and loses no key; compressing it to less than
  half writes past the end of the new table.
\<close>

theorem compress_keeps_keys:
  assumes "compressible_ok f" "8 \<le> product" "product - product mod 8 < last (size_list f)"
  shows "if unat (last (size_list f)) \<le> 2 * unat (product - product mod 8)
    then \<exists>f'. compress True product f = Inr (True, f') \<and> compressible_ok f' \<and>
      (\<forall>k. bloom_contains compute_indices_list k f = Inr True \<longrightarrow>
        bloom_contains compute_indices_list k f' = Inr True)
    else compress True product f = Inl (Undefined_behaviour ''past the end of the compressed table'')"
proof (cases "unat (last (size_list f)) \<le> 2 * unat (product - product mod 8)")
  case True
  from compress_in_half [OF assms True] show ?thesis using True by auto
next
  case False
  then show ?thesis using compress_below_half [OF assms] by simp
qed

definition full_filter :: compressible_bloom_filter where
  "full_filter = \<lparr>salt = [7], bit_table = [255, 255, 255, 255], salt_count = 1, table_size = 32,
     projected_element_count = 1, inserted_element_count = 0, random_seed = 1, size_list = [32]\<rparr>"

theorem compress_keeps_keys_witness:
  "(\<exists>f'. compress True 17 full_filter = Inr (True, f') \<and>
     bloom_contains compute_indices_list ''key'' f' = Inr True) \<and>
   compress True 15 full_filter = Inl (Undefined_behaviour ''past the end of the compressed table'')"
proof -
  have ok: "compressible_ok full_filter" by (simp add: compressible_ok_def full_filter_def)
  have "bloom_contains compute_indices_list ''key'' full_filter = Inr True" by code_simp
  then show ?thesis
    using compress_keeps_keys [OF ok, of 17] compress_keeps_keys [OF ok, of 15]
    by (auto simp: full_filter_def)
qed

end
