(* ===== verification/BloomParams.thy ===== *)
theory BloomParams
  imports Complex_Main BloomProps
begin

text \<open>
  The parts of \<open>bloom/bloom_filter.hpp\<close> that compute with \<open>double\<close>: \<open>compute_optimal_parameters\<close> with its
  loop, the constructor of a level's filter on top of it (\<open>core/level.cc\<close>), and \<open>effective_fpp\<close>. The operations
  of the processor and of the C library on \<open>double\<close> are the fields of a record; the locale \<open>double_arith\<close> states
  what the loop relies on. Then come the small members of the filter.
\<close>

section \<open>Computing with doubles\<close>

text \<open>
  The conversions from integers and, where they are defined, to integers; \<open>lit\<close> gives the integers that occur
  as literals.
\<close>

record 'd doubles =
  lit :: "int \<Rightarrow> 'd"
  of_size :: "size_t \<Rightarrow> 'd"
  to_uint :: "'d \<Rightarrow> bloom_type option"
  to_size :: "'d \<Rightarrow> size_t option"
  d_inf :: 'd
  d_less :: "'d \<Rightarrow> 'd \<Rightarrow> bool"
  d_eq :: "'d \<Rightarrow> 'd \<Rightarrow> bool"
  d_neg :: "'d \<Rightarrow> 'd"
  d_abs :: "'d \<Rightarrow> 'd"
  d_add :: "'d \<Rightarrow> 'd \<Rightarrow> 'd"
  d_sub :: "'d \<Rightarrow> 'd \<Rightarrow> 'd"
  d_mul :: "'d \<Rightarrow> 'd \<Rightarrow> 'd"
  d_div :: "'d \<Rightarrow> 'd \<Rightarrow> 'd"
  d_log :: "'d \<Rightarrow> 'd"
  d_exp :: "'d \<Rightarrow> 'd"
  d_pow :: "'d \<Rightarrow> 'd \<Rightarrow> 'd"

section \<open>The search for the best parameters\<close>

text \<open>The number of bits that \<open>k\<close> hashes need.\<close>

definition needed_bits :: "'d doubles \<Rightarrow> size_t \<Rightarrow> 'd \<Rightarrow> 'd \<Rightarrow> 'd" where
  "needed_bits D count fpp k =
     (let numerator = d_mul D (d_neg D k) (of_size D count);
          denominator = d_log D (d_sub D (lit D 1) (d_pow D fpp (d_div D (lit D 1) k)))
      in d_div D numerator denominator)"

text \<open>The loop, whose counter \<open>k\<close> is a \<open>double\<close>; it has fuel, for it need not end in every arithmetic.\<close>

fun search_parameters :: "'d doubles \<Rightarrow> size_t \<Rightarrow> 'd \<Rightarrow> nat \<Rightarrow> 'd \<Rightarrow> 'd \<Rightarrow> 'd \<Rightarrow> ('d \<times> 'd) res" where
  "search_parameters D count fpp fuel k min_k min_m =
     (if d_less D k (lit D 1000)
      then (case fuel of 0 \<Rightarrow> Inl Out_of_fuel | Suc fuel' \<Rightarrow>
        (let curr_m = needed_bits D count fpp k in
         if d_less D curr_m min_m
         then search_parameters D count fpp fuel' (d_add D k (lit D 1)) k curr_m
         else search_parameters D count fpp fuel' (d_add D k (lit D 1)) min_k min_m))
      else Inr (min_k, min_m))"

declare search_parameters.simps [simp del]

text \<open>\<open>operator!\<close> on the probability, and the whole function; converting what is no integer of the type is undefined.\<close>

definition fpp_bad :: "'d doubles \<Rightarrow> 'd \<Rightarrow> bool" where
  "fpp_bad D fpp \<longleftrightarrow> d_less D fpp (lit D 0) \<or> d_eq D (d_inf D) (d_abs D fpp)"

definition convert :: "('d \<Rightarrow> 'a option) \<Rightarrow> 'd \<Rightarrow> 'a res" where
  "convert f x = (case f x of None \<Rightarrow> Inl (Undefined_behaviour ''conversion of a double'') | Some y \<Rightarrow> Inr y)"

definition optimal_parameters :: "'d doubles \<Rightarrow> 'd \<Rightarrow> bloom_parameters \<Rightarrow> (bool \<times> bloom_parameters) res" where
  "optimal_parameters D fpp p =
     (if bad_parameters (fpp_bad D fpp) p then Inr (False, p)
      else
        bindr (search_parameters D (param_element_count p) fpp 999 (lit D 1) (lit D 0) (d_inf D)) (\<lambda>(min_k, min_m).
        bindr (convert (to_uint D) min_k) (\<lambda>k.
        bindr (convert (to_size D) min_m) (\<lambda>m.
        Inr (compute_optimal_parameters False (k, m) p)))))"

text \<open>\<open>Level::create_filter\<close>; the literal \<open>0.05\<close> is an argument.\<close>

definition create_level_filter :: "'d doubles \<Rightarrow> 'd \<Rightarrow> (nat \<Rightarrow> bloom_type) \<Rightarrow> nat \<Rightarrow> bloom_filter res" where
  "create_level_filter D fpp rnd fuel =
     bindr (optimal_parameters D fpp (default_parameters\<lparr>param_element_count := 750000\<rparr>)) (\<lambda>(_, params).
     bloom_filter_new rnd fuel params)"

text \<open>The probability of a false positive, from the number of salts, of elements and of bits.\<close>

definition effective_fpp :: "'d doubles \<Rightarrow> size_t \<Rightarrow> 'a bloom_filter_scheme \<Rightarrow> 'd" where
  "effective_fpp D bits f =
     (let salts = of_size D (of_nat (length (salt f)));
          load = d_div D (d_mul D (d_mul D (lit D (- 1)) salts) (of_size D (inserted_element_count f))) (of_size D bits)
      in d_pow D (d_sub D (lit D 1) (d_exp D load)) (d_mul D (lit D 1) salts))"

text \<open>
  What the loop finds for a number of elements and a probability that are not refused, converted to integers:
  then \<open>optimal_parameters\<close> goes on as \<open>compute_optimal_parameters\<close> does.
\<close>

definition best_found :: "'d doubles \<Rightarrow> size_t \<Rightarrow> 'd \<Rightarrow> bloom_type \<times> size_t \<Rightarrow> bool" where
  "best_found D count fpp best \<longleftrightarrow> \<not> fpp_bad D fpp \<and>
     (\<exists>k m. search_parameters D count fpp 999 (lit D 1) (lit D 0) (d_inf D) = Inr (k, m) \<and>
        to_uint D k = Some (fst best) \<and> to_size D m = Some (snd best))"

lemma optimal_parameters_found:
  assumes "best_found D (param_element_count p) fpp best" "\<not> bad_parameters False p"
  shows "\<not> bad_parameters (fpp_bad D fpp) p"
    "optimal_parameters D fpp p = Inr (True, snd (compute_optimal_parameters False best p))"
proof -
  show b: "\<not> bad_parameters (fpp_bad D fpp) p" using assms by (simp add: best_found_def)
  have "fst (compute_optimal_parameters False best p)" using assms(2) by (simp add: compute_optimal_parameters_def Let_def)
  then have c: "compute_optimal_parameters False best p = (True, snd (compute_optimal_parameters False best p))"
    by (simp add: prod_eq_iff)
  from assms(1) obtain k m where "search_parameters D (param_element_count p) fpp 999 (lit D 1) (lit D 0) (d_inf D) = Inr (k, m)"
    "to_uint D k = Some (fst best)" "to_size D m = Some (snd best)" by (auto simp: best_found_def)
  then show "optimal_parameters D fpp p = Inr (True, snd (compute_optimal_parameters False best p))"
    using b by (simp add: optimal_parameters_def convert_def c [symmetric])
qed

section \<open>Small members of the filter\<close>

text \<open>
  The default constructor, the observers and the free operators, which copy their first operand. The overloads
  of \<open>insert\<close> and \<open>contains\<close> for strings and pointers pass the bytes of the key on.
\<close>

definition default_filter :: bloom_filter where
  "default_filter = \<lparr>salt = [], bit_table = [], salt_count = 0, table_size = 0, projected_element_count = 0,
     inserted_element_count = 0, random_seed = 0\<rparr>"

definition bloom_neq :: "bool \<Rightarrow> bloom_filter \<Rightarrow> bloom_filter \<Rightarrow> bool" where
  "bloom_neq same_fpp f g \<longleftrightarrow> \<not> bloom_eq same_fpp f g"

definition bloom_size :: "bloom_filter \<Rightarrow> size_t" where
  "bloom_size f = table_size f"

definition element_count :: "'a bloom_filter_scheme \<Rightarrow> size_t" where
  "element_count f = inserted_element_count f"

definition bloom_table :: "'a bloom_filter_scheme \<Rightarrow> cell_type list" where
  "bloom_table f = bit_table f"

definition filter_and :: "bloom_filter \<Rightarrow> bloom_filter \<Rightarrow> bloom_filter res" where
  "filter_and a b = (let result = a in bloom_and result b)"

definition filter_or :: "bloom_filter \<Rightarrow> bloom_filter \<Rightarrow> bloom_filter res" where
  "filter_or a b = (let result = a in bloom_or result b)"

definition filter_xor :: "bloom_filter \<Rightarrow> bloom_filter \<Rightarrow> bloom_filter res" where
  "filter_xor a b = (let result = a in bloom_xor result b)"

text \<open>
  A filter made by the default constructor has no salts: it says that it contains every key, also before
  anything was inserted, although \<open>operator!\<close> calls it empty.
\<close>

lemma default_filter_contains_all:
  "bloom_empty default_filter" "bloom_contains compute_indices k default_filter = Inr True"
  "bloom_insert compute_indices k default_filter = Inr (default_filter\<lparr>inserted_element_count := 1\<rparr>)"
  by (simp_all add: bloom_empty_def default_filter_def bloom_contains_def bloom_insert_def)

text \<open>The symmetric difference of a filter with itself is a cleared filter that still counts its elements.\<close>

lemma filter_xor_self:
  "filter_xor f f = Inr (f\<lparr>bit_table := replicate (length (bit_table f)) 0\<rparr>)"
proof -
  have "map2 (XOR) t t = replicate (length t) 0" for t :: "cell_type list" by (induction t) simp_all
  then show ?thesis by (simp add: filter_xor_def bloom_xor_def combine_def same_shape_def)
qed

section \<open>What the loop relies on\<close>

text \<open>
  A \<open>double\<close> holds every integer below \<open>2 ^ 53\<close> exactly; comparisons with a NaN are false, and those of numbers are
  an order, so that \<open>d_less\<close> is transitive and irreflexive.
\<close>

locale double_arith =
  fixes D :: "'d doubles"
  assumes count_up: "i < 1000 \<Longrightarrow> d_add D (lit D (int i)) (lit D 1) = lit D (int (Suc i))"
    and compare: "i \<le> 1000 \<Longrightarrow> d_less D (lit D (int i)) (lit D 1000) \<longleftrightarrow> i < 1000"
    and convert_small: "i < 1000 \<Longrightarrow> to_uint D (lit D (int i)) = Some (of_nat i)"
    and less_trans: "d_less D x y \<Longrightarrow> d_less D y z \<Longrightarrow> d_less D x z"
    and less_irrefl: "\<not> d_less D x x"
begin

lemma search_from:
  assumes "k \<le> 1000" "1000 - k \<le> fuel"
  shows "\<exists>b m. search_parameters D count fpp fuel (lit D (int k)) mk mm = Inr (b, m) \<and>
    (b = mk \<and> m = mm \<or> (\<exists>j. k \<le> j \<and> j < 1000 \<and> b = lit D (int j) \<and> m = needed_bits D count fpp b)) \<and>
    (m = mm \<or> d_less D m mm) \<and>
    (\<forall>j. k \<le> j \<and> j < 1000 \<longrightarrow> \<not> d_less D (needed_bits D count fpp (lit D (int j))) m)"
  using assms
proof (induction fuel arbitrary: k mk mm)
  case 0
  then have "k = 1000" by simp
  then show ?case using compare [of 1000] by (auto simp: search_parameters.simps)
next
  case (Suc fuel)
  let ?c = "needed_bits D count fpp (lit D (int k))"
  show ?case
  proof (cases "k = 1000")
    case True
    then show ?thesis using compare [of 1000] by (auto simp: search_parameters.simps)
  next
    case False
    then have k: "k < 1000" using Suc.prems(1) by simp
    define mk' mm' where m': "mk' = (if d_less D ?c mm then lit D (int k) else mk)" "mm' = (if d_less D ?c mm then ?c else mm)"
    have "Suc k \<le> 1000" "1000 - Suc k \<le> fuel" using k Suc.prems(2) by simp_all
    from Suc.IH [OF this, of mk' mm'] obtain b m where
      r: "search_parameters D count fpp fuel (lit D (int (Suc k))) mk' mm' = Inr (b, m)"
      "b = mk' \<and> m = mm' \<or> (\<exists>j. Suc k \<le> j \<and> j < 1000 \<and> b = lit D (int j) \<and> m = needed_bits D count fpp b)"
      "m = mm' \<or> d_less D m mm'"
      "\<forall>j. Suc k \<le> j \<and> j < 1000 \<longrightarrow> \<not> d_less D (needed_bits D count fpp (lit D (int j))) m" by blast
    have "search_parameters D count fpp (Suc fuel) (lit D (int k)) mk mm = Inr (b, m)"
      using r(1) k compare [of k] count_up [OF k] unfolding m'
      by (subst search_parameters.simps) (simp add: Let_def split: if_splits)
    moreover have "b = mk \<and> m = mm \<or> (\<exists>j. k \<le> j \<and> j < 1000 \<and> b = lit D (int j) \<and> m = needed_bits D count fpp b)"
      using r(2) k unfolding m' by (auto split: if_splits intro: Suc_leD)
    moreover have "m = mm \<or> d_less D m mm" using r(3) less_trans unfolding m' by (auto split: if_splits)
    moreover have "\<not> d_less D ?c m" using r(3) less_trans less_irrefl unfolding m' by (auto split: if_splits)
    then have "\<forall>j. k \<le> j \<and> j < 1000 \<longrightarrow> \<not> d_less D (needed_bits D count fpp (lit D (int j))) m"
      using r(4) by (metis Suc_leI le_neq_implies_less)
    ultimately show ?thesis by blast
  qed
qed

text \<open>The loop ends, and no number of hashes from 1 to 999 needs fewer bits than the one it finds.\<close>

lemma search_finds:
  obtains k m where "search_parameters D count fpp 999 (lit D 1) (lit D 0) (d_inf D) = Inr (lit D (int k), m)" "k < 1000"
    "k = 0 \<and> m = d_inf D \<or> 1 \<le> k \<and> m = needed_bits D count fpp (lit D (int k))"
    "\<forall>j \<in> {1..<1000}. \<not> d_less D (needed_bits D count fpp (lit D (int j))) m"
proof -
  obtain b m where r: "search_parameters D count fpp 999 (lit D (int 1)) (lit D 0) (d_inf D) = Inr (b, m)"
    "b = lit D 0 \<and> m = d_inf D \<or> (\<exists>j. 1 \<le> j \<and> j < 1000 \<and> b = lit D (int j) \<and> m = needed_bits D count fpp b)"
    "\<forall>j. 1 \<le> j \<and> j < 1000 \<longrightarrow> \<not> d_less D (needed_bits D count fpp (lit D (int j))) m"
    using search_from [of 1 999 count fpp "lit D 0" "d_inf D"] by auto
  from r(2) show thesis
  proof (elim disjE exE conjE)
    assume "b = lit D 0" "m = d_inf D"
    then show thesis using that [of 0 m] r(1,3) by simp
  next
    fix j assume "1 \<le> j" "j < 1000" "b = lit D (int j)" "m = needed_bits D count fpp b"
    then show thesis using that [of j m] r(1,3) by simp
  qed
qed

lemma level_filter_runs:
  assumes "\<not> fpp_bad D fpp"
  obtains k m where "k < 1000"
    "k = 0 \<and> m = d_inf D \<or> 1 \<le> k \<and> m = needed_bits D 750000 fpp (lit D (int k))"
    "\<forall>j \<in> {1..<1000}. \<not> d_less D (needed_bits D 750000 fpp (lit D (int j))) m"
    "create_level_filter D fpp rnd fuel =
       bindr (convert (to_size D) m) (\<lambda>bits. create_filter rnd fuel (of_nat k, bits))"
proof -
  let ?p = "default_parameters\<lparr>param_element_count := 750000\<rparr>"
  have "\<not> bad_parameters False ?p" by code_simp
  then have good: "\<not> bad_parameters (fpp_bad D fpp) ?p" using assms by simp
  obtain k m where km: "search_parameters D 750000 fpp 999 (lit D 1) (lit D 0) (d_inf D) = Inr (lit D (int k), m)" "k < 1000"
    "k = 0 \<and> m = d_inf D \<or> 1 \<le> k \<and> m = needed_bits D 750000 fpp (lit D (int k))"
    "\<forall>j \<in> {1..<1000}. \<not> d_less D (needed_bits D 750000 fpp (lit D (int j))) m"
    by (rule search_finds)
  have "convert (to_uint D) (lit D (int k)) = Inr (of_nat k)" using convert_small [OF km(2)] by (simp add: convert_def)
  then have "create_level_filter D fpp rnd fuel =
       bindr (convert (to_size D) m) (\<lambda>bits. create_filter rnd fuel (of_nat k, bits))"
    using good km(1) unfolding create_level_filter_def optimal_parameters_def create_filter_def Let_def
    by (cases "convert (to_size D) m") (auto simp: split_beta)
  then show thesis using that km(2-4) by blast
qed

end

end
