(* ===== verification/BloomExact.thy ===== *)
theory BloomExact
  imports BloomParams
begin

text \<open>
  The filter of a level (\<open>core/level.cc\<close>) when its parameters are computed without rounding: the real numbers
  interpret the locale \<open>double_arith\<close>, the loop finds at most 128 hashes and at most 10 bits per element, and the
  filter made of them has no false negatives.
\<close>

section \<open>Exact arithmetic\<close>

text \<open>The real numbers with an infinity, as an arithmetic without rounding.\<close>

datatype xreal = Fin real | Infinite

fun xreal_less :: "xreal \<Rightarrow> xreal \<Rightarrow> bool" where
  "xreal_less (Fin x) (Fin y) \<longleftrightarrow> x < y"
| "xreal_less (Fin x) Infinite \<longleftrightarrow> True"
| "xreal_less Infinite y \<longleftrightarrow> False"

fun on_xreal :: "(real \<Rightarrow> real) \<Rightarrow> xreal \<Rightarrow> xreal" where
  "on_xreal f (Fin x) = Fin (f x)"
| "on_xreal f Infinite = Infinite"

fun on_xreals :: "(real \<Rightarrow> real \<Rightarrow> real) \<Rightarrow> xreal \<Rightarrow> xreal \<Rightarrow> xreal" where
  "on_xreals f (Fin x) (Fin y) = Fin (f x y)"
| "on_xreals f x y = Infinite"

fun truncate :: "nat \<Rightarrow> xreal \<Rightarrow> 'a::len word option" where
  "truncate w (Fin x) = (if - 1 < x \<and> x < 2 ^ w then Some (of_nat (nat \<lfloor>x\<rfloor>)) else None)"
| "truncate w Infinite = None"

definition exact_doubles :: "xreal doubles" where
  "exact_doubles = \<lparr>lit = \<lambda>i. Fin (real_of_int i), of_size = \<lambda>n. Fin (real (unat n)),
     to_uint = truncate 32, to_size = truncate 64, d_inf = Infinite, d_less = xreal_less, d_eq = (=),
     d_neg = on_xreal uminus, d_abs = on_xreal abs, d_add = on_xreals (+), d_sub = on_xreals (-),
     d_mul = on_xreals (*), d_div = on_xreals (/), d_log = on_xreal ln, d_exp = on_xreal exp, d_pow = on_xreals (powr)\<rparr>"

lemma xreal_less_trans: "xreal_less x y \<Longrightarrow> xreal_less y z \<Longrightarrow> xreal_less x z"
  by (cases x; cases y; cases z) auto

interpretation exact: double_arith exact_doubles
proof
  fix x y z
  show "d_less exact_doubles x y \<Longrightarrow> d_less exact_doubles y z \<Longrightarrow> d_less exact_doubles x z"
    unfolding exact_doubles_def by (simp add: xreal_less_trans)
  show "\<not> d_less exact_doubles x x" by (cases x) (simp_all add: exact_doubles_def)
qed (auto simp: exact_doubles_def)

lemma exact_fields: "d_inf exact_doubles = Infinite" "d_less exact_doubles = xreal_less" "to_size exact_doubles = truncate 64"
  by (simp_all add: exact_doubles_def)

text \<open>The bits per element that \<open>k\<close> hashes need for a probability of 5 percent.\<close>

definition bits_per_element :: "nat \<Rightarrow> real" where
  "bits_per_element k = real k / - ln (1 - (1 / 20) powr (1 / real k))"

lemma needed_bits_exact:
  "needed_bits exact_doubles 750000 (Fin (1 / 20)) (lit exact_doubles (int k)) = Fin (750000 * bits_per_element k)"
  by (simp add: needed_bits_def exact_doubles_def bits_per_element_def Let_def)

text \<open>
  With 4 hashes 10 bits are enough; more than 128 hashes need more than that, and any number more than half a bit.
\<close>

lemma bit_stays_zero:
  assumes "1 \<le> k"
  shows "1 / (2 * real k) \<le> 1 - (1 / 20) powr (1 / real k)" "1 - (1 / 20) powr (1 / real k) < 1"
proof -
  let ?L = "ln 20 :: real"
  have L: "1 \<le> ?L" using exp_le by (subst ln_ge_iff) simp_all
  have k: "1 \<le> real k" using assms by simp
  define q where "q = (1 / 20 :: real) powr (1 / real k)"
  have q: "0 < q" by (simp add: q_def)
  have "q = exp (- (?L / k))" by (simp add: q_def powr_def ln_div)
  then have "exp (?L / k) * q = 1" by (simp flip: exp_add)
  moreover have "(1 + ?L / k) * q \<le> exp (?L / k) * q" using q by (intro mult_right_mono exp_ge_add_one_self) simp
  ultimately have "(1 + ?L / k) * q \<le> 1" by simp
  then have "(k + ?L) * q \<le> k" using k by (simp add: field_simps)
  then have "?L \<le> (k + ?L) * (1 - q)" by (simp add: algebra_simps)
  moreover have "q \<le> 1" using \<open>q = exp (- (?L / k))\<close> L k by simp
  then have "(k + ?L) * (1 - q) \<le> (2 * k * ?L) * (1 - q)"
  proof (intro mult_right_mono)
    have "real k * 1 \<le> k * ?L" using L k by (intro mult_left_mono) simp_all
    moreover have "1 * ?L \<le> k * ?L" using L k by (intro mult_right_mono) simp_all
    ultimately show "k + ?L \<le> 2 * k * ?L" unfolding mult.assoc by linarith
  qed simp
  ultimately have "?L * 1 \<le> ?L * (2 * k * (1 - q))" by (simp add: algebra_simps)
  then have "1 \<le> 2 * k * (1 - q)" using L by (subst (asm) mult_le_cancel_left_pos) simp_all
  then show "1 / (2 * real k) \<le> 1 - (1 / 20) powr (1 / real k)" using k unfolding q_def by (simp add: field_simps)
qed simp
lemma few_hashes: "bits_per_element 4 \<le> 10"
proof -
  let ?q = "(1 / 20) powr (1 / 4) :: real"
  have "(2 / 5 :: real) = ((2 / 5) powr 4) powr (1 / 4)" unfolding powr_powr by simp
  also have "(2 / 5 :: real) powr 4 = 16 / 625" by (simp add: power_divide)
  also have "(16 / 625) powr (1 / 4) \<le> ?q" by (rule powr_mono2) simp_all
  finally have "1 - ?q \<le> 1 + (- 2 / 5)" by simp
  also have "\<dots> \<le> exp (- 2 / 5)" by (rule exp_ge_add_one_self)
  finally have le: "1 - ?q \<le> exp (- 2 / 5)" .
  have pos: "0 < 1 - ?q" "1 - ?q < 1" using bit_stays_zero [of 4] by simp_all
  have "ln (1 - ?q) \<le> ln (exp (- 2 / 5))" by (rule ln_mono) (use le pos in simp_all)
  then have "ln (1 - ?q) \<le> - 2 / 5" by simp
  then show ?thesis by (simp add: bits_per_element_def field_simps)
qed

lemma bits_less:
  assumes "1 \<le> k" "0 < c" "exp (- (real k / c)) < 1 - (1 / 20) powr (1 / real k)"
  shows "c < bits_per_element k"
proof -
  let ?p = "1 - (1 / 20) powr (1 / real k)"
  have pos: "0 < ?p" using assms(3) by (meson exp_gt_zero less_trans)
  have "ln (exp (- (real k / c))) < ln ?p" by (rule ln_strict_mono [OF assms(3)]) (use pos in simp_all)
  moreover have "ln ?p < 0" using bit_stays_zero(2) [OF assms(1)] pos by simp
  ultimately show ?thesis using assms(2) by (simp add: bits_per_element_def field_simps)
qed
lemma many_hashes:
  assumes "129 \<le> k"
  shows "10 < bits_per_element k"
proof (rule bits_less)
  let ?z = "real k / 80"
  have z: "8 / 5 \<le> ?z" using assms by simp
  have "800 \<le> (13 / 5 :: real) ^ 7" by (simp add: power_divide)
  also have "\<dots> \<le> (1 + ?z) ^ 7" using z by (intro power_mono) simp_all
  finally have "800 * (1 + ?z) \<le> (1 + ?z) ^ 7 * (1 + ?z)" using z by (intro mult_right_mono) simp_all
  also have "\<dots> = (1 + ?z) ^ Suc 7" by (simp only: power_Suc2)
  also have "\<dots> = (1 + (real k / 10) / real (8 :: nat)) ^ 8" by simp
  also have "\<dots> \<le> exp (real k / 10)" by (rule exp_ge_one_plus_x_over_n_power_n) simp_all
  finally have "800 * (1 + ?z) \<le> exp (real k / 10)" .
  moreover have "2 * real k < 800 * (1 + ?z)" using z by simp
  ultimately have "2 * real k < exp (real k / 10)" by (rule less_le_trans [rotated])
  then have "exp (- (real k / 10)) < 1 / (2 * real k)" using assms by (simp add: exp_minus field_simps)
  also have "\<dots> \<le> 1 - (1 / 20) powr (1 / real k)" using bit_stays_zero(1) [of k] assms by simp
  finally show "exp (- (real k / 10)) < 1 - (1 / 20) powr (1 / real k)" .
qed (use assms in simp_all)

lemma half_a_bit:
  assumes "1 \<le> k"
  shows "1 / 2 < bits_per_element k"
proof (rule bits_less [OF assms])
  have "2 * real k < 1 + real k / (1 / 2)" by simp
  also have "\<dots> \<le> exp (real k / (1 / 2))" by (rule exp_ge_add_one_self)
  finally have "2 * real k < exp (real k / (1 / 2))" .
  then have "exp (- (real k / (1 / 2))) < 1 / (2 * real k)" using assms by (simp add: exp_minus field_simps)
  also have "\<dots> \<le> 1 - (1 / 20) powr (1 / real k)" using bit_stays_zero(1) [OF assms] .
  finally show "exp (- (real k / (1 / 2))) < 1 - (1 / 20) powr (1 / real k)" .
qed simp
section \<open>The filter of a level\<close>

theorem exact_level_filter:
  "\<exists>best f. create_level_filter exact_doubles (Fin (1 / 20)) rnd fuel = Inr f \<and> create_filter rnd fuel best = Inr f \<and>
     1 \<le> unat (fst best) \<and> unat (fst best) \<le> 128 \<and> 375000 \<le> unat (snd best) \<and> unat (snd best) \<le> 7500000 \<and>
     (\<forall>ks. \<exists>f'. insert_range compute_indices ks f = Inr f' \<and>
        (\<forall>k \<in> set ks. bloom_contains compute_indices k f' = Inr True))"
proof -
  let ?D = exact_doubles
  have "\<not> fpp_bad ?D (Fin (1 / 20))" by (simp add: fpp_bad_def exact_doubles_def)
  from exact.level_filter_runs [OF this] obtain k m where km: "k < 1000"
    "k = 0 \<and> m = Infinite \<or> 1 \<le> k \<and> m = Fin (750000 * bits_per_element k)"
    "\<forall>j \<in> {1..<1000}. \<not> xreal_less (Fin (750000 * bits_per_element j)) m"
    "create_level_filter ?D (Fin (1 / 20)) rnd fuel =
       bindr (convert (truncate 64) m) (\<lambda>bits. create_filter rnd fuel (of_nat k, bits))"
    unfolding needed_bits_exact exact_fields by blast
  have "\<not> xreal_less (Fin (750000 * bits_per_element 4)) m" using km(3) by simp
  then have k: "1 \<le> k" "m = Fin (750000 * bits_per_element k)" "bits_per_element k \<le> 10"
    using km(2) few_hashes by auto
  have "k \<le> 128"
  proof (rule ccontr)
    assume "\<not> k \<le> 128"
    then show False using many_hashes [of k] k(3) by simp
  qed
  let ?x = "750000 * bits_per_element k"
  define n where "n = nat \<lfloor>?x\<rfloor>"
  have x: "375000 < ?x" "?x \<le> 7500000" using half_a_bit [OF k(1)] k(3) by simp_all
  then have n: "375000 \<le> n" "n \<le> 7500000" unfolding n_def by linarith+
  define best :: "bloom_type \<times> size_t" where "best = (of_nat k, of_nat n)"
  have "convert (truncate 64) m = Inr (of_nat n :: size_t)" using x k(2) by (simp add: convert_def n_def)
  then have run: "create_level_filter ?D (Fin (1 / 20)) rnd fuel = create_filter rnd fuel best"
    using km(4) by (simp add: best_def)
  have u: "unat (fst best) = k" "unat (snd best) = n"
    using \<open>k \<le> 128\<close> n(2) unfolding best_def fst_conv snd_conv by (simp_all add: unat_of_nat)
  have "fst best \<le> 128" "0 < snd best" "snd best \<le> - 8"
    using u \<open>k \<le> 128\<close> n by (simp_all add: word_le_nat_alt word_less_nat_alt)
  then obtain f where f: "create_filter rnd fuel best = Inr f" "bloom_ok f" "inserted_element_count f = 0" "salt f \<noteq> []"
    by (rule level_filter)
  then have "\<forall>ks. \<exists>f'. insert_range compute_indices ks f = Inr f' \<and>
      (\<forall>k \<in> set ks. bloom_contains compute_indices k f' = Inr True)" using new_filter_keys [of f] by blast
  then show ?thesis using run f(1) u k(1) \<open>k \<le> 128\<close> n by (intro exI [of _ best] exI [of _ f]) simp
qed

section \<open>A filter for a list of words\<close>

text \<open>
  The example programs ask for the probability \<open>1 / n\<close> with \<open>n\<close> words. For two words or more, \<open>k\<close> hashes need at
  least one bit, and one hash needs at most \<open>n * n\<close> bits.
\<close>

definition bits_for_list :: "nat \<Rightarrow> nat \<Rightarrow> real" where
  "bits_for_list n k = real n * real k / - ln (1 - (1 / real n) powr (1 / real k))"

lemma needed_bits_for_list:
  assumes "n < 2 ^ 64"
  shows "needed_bits exact_doubles (of_nat n) (Fin (1 / real n)) (lit exact_doubles (int k)) = Fin (bits_for_list n k)"
proof -
  have "unat (of_nat n :: size_t) = n" using assms by (simp add: unat_of_nat)
  then show ?thesis
    by (simp add: needed_bits_def exact_doubles_def bits_for_list_def Let_def mult.commute del: of_nat_unat)
qed

lemma list_bit_stays_zero:
  assumes "2 \<le> n" "1 \<le> k"
  shows "exp (- (real n * real k)) \<le> 1 - (1 / real n) powr (1 / real k)" "1 - (1 / real n) powr (1 / real k) < 1"
proof -
  let ?L = "ln (real n)"
  have "exp (1 / 2 :: real) ^ 2 \<le> 2 ^ 2" using exp_le by (simp flip: exp_of_nat_mult)
  then have "exp (1 / 2 :: real) \<le> 2" by (rule power2_le_imp_le) simp
  then have "1 / 2 \<le> ln (2 :: real)" by (subst ln_ge_iff) simp_all
  also have "ln 2 \<le> ?L" using assms(1) by simp
  finally have L: "1 / 2 \<le> ?L" .
  have k: "1 \<le> real k" and n: "2 \<le> real n" using assms by simp_all
  define q where "q = (1 / real n) powr (1 / real k)"
  have q: "0 < q" "q = exp (- (?L / k))" using n by (simp_all add: q_def powr_def ln_div)
  then have "exp (?L / k) * q = 1" by (simp flip: exp_add)
  moreover have "(1 + ?L / k) * q \<le> exp (?L / k) * q" using q(1) by (intro mult_right_mono exp_ge_add_one_self) simp
  ultimately have "(1 + ?L / k) * q \<le> 1" by simp
  then have "(k + ?L) * q \<le> k" using k by (simp add: field_simps)
  then have 1: "?L / (k + ?L) \<le> 1 - q" using k L by (simp add: field_simps)
  have "1 \<le> ?L * n" using mult_mono [OF L n] L by simp
  then have "real k * 1 \<le> k * (?L * n)" using k by (intro mult_left_mono) simp_all
  then have "k + ?L \<le> ?L * (1 + real n * k)" by (simp add: algebra_simps)
  then have "1 \<le> ?L * (1 + real n * k) / (k + ?L)" using k L by (subst pos_le_divide_eq) simp_all
  then have "1 / (1 + real n * k) \<le> ?L / (k + ?L)" using k n by (intro mult_imp_div_pos_le) (simp_all add: add_pos_nonneg)
  moreover have "(1 + real n * k) * exp (- (real n * k)) \<le> exp (real n * k) * exp (- (real n * k))"
    by (intro mult_right_mono exp_ge_add_one_self) simp
  then have "exp (- (real n * k)) * (1 + real n * k) \<le> 1" by (simp add: mult.commute flip: exp_add)
  then have "exp (- (real n * k)) \<le> 1 / (1 + real n * k)"
    using k n by (subst pos_le_divide_eq) (simp_all add: add_pos_nonneg)
  ultimately show "exp (- (real n * real k)) \<le> 1 - (1 / real n) powr (1 / real k)" using 1 unfolding q_def by linarith
  show "1 - (1 / real n) powr (1 / real k) < 1" using n by simp
qed

lemma bits_for_list_bounds:
  assumes "2 \<le> n" "1 \<le> k"
  shows "1 \<le> bits_for_list n k" "bits_for_list n 1 \<le> real n * real n"
proof -
  let ?p = "1 - (1 / real n) powr (1 / real k)"
  note b = list_bit_stays_zero [OF assms]
  have pos: "0 < ?p" using b(1) by (meson exp_gt_zero less_le_trans)
  have "ln (exp (- (real n * k))) \<le> ln ?p" by (rule ln_mono) (use b(1) pos in simp_all)
  moreover have "ln ?p < 0" using b(2) pos by simp
  ultimately show "1 \<le> bits_for_list n k" by (simp add: bits_for_list_def field_simps)
  have n: "2 \<le> real n" using assms(1) by simp
  have "ln (1 - 1 / real n) \<le> - (1 / real n)" using ln_one_minus_pos_upper_bound [of "1 / real n"] n by simp
  then have l: "1 / real n \<le> - ln (1 - 1 / real n)" by simp
  moreover have "0 < 1 / real n" using n by simp
  ultimately have "0 < - ln (1 - 1 / real n) * (1 / real n)" by (intro mult_pos_pos) linarith+
  then have "real n / - ln (1 - 1 / real n) \<le> real n / (1 / real n)" using n l by (intro divide_left_mono) simp_all
  then show "bits_for_list n 1 \<le> real n * real n" using n by (simp add: bits_for_list_def)
qed

lemma exact_best_for_list:
  assumes "2 \<le> n" "n < 2 ^ 31"
  obtains best where "best_found exact_doubles (of_nat n) (Fin (1 / real n)) best" "0 < snd best" "snd best \<le> - 8"
proof -
  let ?D = exact_doubles and ?fpp = "Fin (1 / real n)"
  have ok: "\<not> fpp_bad ?D ?fpp" by (simp add: fpp_bad_def exact_doubles_def)
  have n: "n < 2 ^ 64" using assms(2) by simp
  obtain k m where km: "search_parameters ?D (of_nat n) ?fpp 999 (lit ?D 1) (lit ?D 0) Infinite = Inr (lit ?D (int k), m)"
    "k < 1000" "k = 0 \<and> m = Infinite \<or> 1 \<le> k \<and> m = Fin (bits_for_list n k)"
    "\<forall>j \<in> {1..<1000}. \<not> xreal_less (Fin (bits_for_list n j)) m"
    by (rule exact.search_finds [of "of_nat n" ?fpp, unfolded needed_bits_for_list [OF n] exact_fields])
  have "\<not> xreal_less (Fin (bits_for_list n 1)) m" using km(4) by simp
  then have k: "1 \<le> k" "m = Fin (bits_for_list n k)" "bits_for_list n k \<le> bits_for_list n 1" using km(3) by auto
  define s where "s = nat \<lfloor>bits_for_list n k\<rfloor>"
  have "n * n \<le> 2 ^ 31 * 2 ^ 31" using assms(2) by (intro mult_le_mono) simp_all
  then have "real (n * n) \<le> real (2 ^ 31 * 2 ^ 31)" by (simp only: of_nat_le_iff)
  then have x: "1 \<le> bits_for_list n k" "bits_for_list n k \<le> 2 ^ 62"
    using bits_for_list_bounds [OF assms(1) k(1)] k(3) by simp_all
  then have "1 \<le> \<lfloor>bits_for_list n k\<rfloor>" "\<lfloor>bits_for_list n k\<rfloor> \<le> 2 ^ 62" by (simp_all add: le_floor_iff floor_le_iff)
  then have s: "1 \<le> s" "s \<le> 2 ^ 62" unfolding s_def by (simp_all add: nat_le_iff le_nat_iff)
  have "unat (of_nat s :: size_t) = s" using s(2) by (simp add: unat_of_nat)
  then have b: "0 < (of_nat s :: size_t)" "(of_nat s :: size_t) \<le> - 8"
    using s by (simp_all add: word_le_nat_alt word_less_nat_alt)
  have "truncate 64 m = Some (of_nat s :: size_t)" using x k(2) by (simp add: s_def)
  moreover have "to_uint ?D (lit ?D (int k)) = Some (of_nat k)" by (rule exact.convert_small [OF km(2)])
  ultimately have "best_found ?D (of_nat n) ?fpp (of_nat k, of_nat s)"
    using ok km(1) by (simp add: best_found_def exact_fields)
  then show thesis using b by (rule that [of "(of_nat k, of_nat s)", unfolded fst_conv snd_conv])
qed

end
