(* ===== verification/Uuid.thy ===== *)
theory Uuid
  imports Prelude
begin

text \<open>
  The UUIDs of \<open>uuid_v4/uuid_v4.h\<close> on a little-endian machine, where the \<open>betole\<close> macros of
  \<open>uuid_v4/endianness.h\<close> do nothing. A vector register is the list of its bytes, the lowest first; the
  vector instructions are those of the processor's manual, restricted to the operands that the code gives
  them. Characters are bytes here; \<open>string_of\<close> and \<open>bytes_of\<close> convert to and from strings.
\<close>

unbundle bit_operations_syntax

section \<open>Vector instructions\<close>

type_synonym vec = "8 word list"

text \<open>A lane of bytes as a number, and the \<open>k\<close> bytes that hold a number modulo \<open>2 ^ (8 k)\<close>.\<close>

primrec lane :: "vec \<Rightarrow> int" where
  "lane [] = 0"
| "lane (b # bs) = uint b + 256 * lane bs"

definition to_lane :: "nat \<Rightarrow> int \<Rightarrow> vec" where
  "to_lane k n = map (\<lambda>i. of_int (n div 256 ^ i)) [0..<k]"

text \<open>The lanes of \<open>k\<close> bytes of a register.\<close>

fun lanes :: "nat \<Rightarrow> vec \<Rightarrow> vec list" where
  "lanes k v = (if v = [] \<or> k = 0 then [] else take k v # lanes k (drop k v))"

declare lanes.simps [simp del]

definition set1_epi8 :: "8 word \<Rightarrow> vec" where
  "set1_epi8 b = replicate 32 b"

definition set_epi32 :: "int list \<Rightarrow> vec" where
  "set_epi32 es = concat (map (to_lane 4) (rev es))"

definition set_epi64x :: "int list \<Rightarrow> vec" where
  "set_epi64x es = concat (map (to_lane 8) (rev es))"

definition srli_epi64 :: "vec \<Rightarrow> nat \<Rightarrow> vec" where
  "srli_epi64 v n = concat (map (\<lambda>l. to_lane 8 (lane l div 2 ^ n)) (lanes 8 v))"

definition slli_epi64 :: "vec \<Rightarrow> nat \<Rightarrow> vec" where
  "slli_epi64 v n = concat (map (\<lambda>l. to_lane 8 (lane l * 2 ^ n)) (lanes 8 v))"

definition sllv_epi32 :: "vec \<Rightarrow> vec \<Rightarrow> vec" where
  "sllv_epi32 v counts = concat (map2 (\<lambda>l c. to_lane 4 (if lane c < 32 then lane l * 2 ^ nat (lane c) else 0))
     (lanes 4 v) (lanes 4 counts))"

text \<open>Interleaving the low or the high halves of each lane of 16 bytes.\<close>

fun interleave :: "vec \<Rightarrow> vec \<Rightarrow> vec" where
  "interleave (x # xs) (y # ys) = x # y # interleave xs ys"
| "interleave xs ys = []"

definition unpacklo_epi8 :: "vec \<Rightarrow> vec \<Rightarrow> vec" where
  "unpacklo_epi8 a b = concat (map2 (\<lambda>x y. interleave (take 8 x) (take 8 y)) (lanes 16 a) (lanes 16 b))"

definition unpackhi_epi8 :: "vec \<Rightarrow> vec \<Rightarrow> vec" where
  "unpackhi_epi8 a b = concat (map2 (\<lambda>x y. interleave (drop 8 x) (drop 8 y)) (lanes 16 a) (lanes 16 b))"

definition blendv_epi8 :: "vec \<Rightarrow> vec \<Rightarrow> vec \<Rightarrow> vec" where
  "blendv_epi8 a b sel = map2 (\<lambda>(x, y) m. if bit m 7 then y else x) (zip a b) sel"

text \<open>Each byte of the result is 0 or a byte of the same lane of 16 bytes.\<close>

definition shuffle_epi8 :: "vec \<Rightarrow> vec \<Rightarrow> vec" where
  "shuffle_epi8 v ctrl = concat (map2 (\<lambda>l cs. map (\<lambda>c. if bit c 7 then 0 else l ! unat (c AND 0x0F)) cs)
     (lanes 16 v) (lanes 16 ctrl))"

definition extract_at :: "nat \<Rightarrow> vec \<Rightarrow> nat \<Rightarrow> int" where
  "extract_at k v i = lane (take k (drop (k * i) v))"

definition insert_at :: "nat \<Rightarrow> vec \<Rightarrow> int \<Rightarrow> nat \<Rightarrow> vec" where
  "insert_at k v x i = take (k * i) v @ to_lane k x @ drop (k * i + k) v"

fun hadd_lanes :: "vec list \<Rightarrow> vec" where
  "hadd_lanes (x # y # ls) = to_lane 4 (lane x + lane y) @ hadd_lanes ls"
| "hadd_lanes ls = []"

definition hadd_epi32 :: "vec \<Rightarrow> vec \<Rightarrow> vec" where
  "hadd_epi32 a b = concat (map2 (\<lambda>x y. hadd_lanes (lanes 4 x) @ hadd_lanes (lanes 4 y)) (lanes 16 a) (lanes 16 b))"

definition permute4x64_epi64 :: "vec \<Rightarrow> nat \<Rightarrow> vec" where
  "permute4x64_epi64 v imm = concat (map (\<lambda>i. lanes 8 v ! (imm div 4 ^ i mod 4)) [0..<4])"

text \<open>A store into memory.\<close>

definition store :: "vec \<Rightarrow> nat \<Rightarrow> vec \<Rightarrow> vec" where
  "store mem i v = take i mem @ v @ drop (i + length v) mem"

section \<open>Printing and parsing\<close>

text \<open>
  \<open>m128itos\<close> into the memory \<open>mem\<close>; \<open>upper\<close> is the upper half of the register that a register of 16 bytes is
  cast to, which is undefined.
\<close>

definition m128itos :: "vec \<Rightarrow> vec \<Rightarrow> vec \<Rightarrow> vec" where
  "m128itos upper x mem =
     (let low = set1_epi8 0x0F;
          add = set1_epi8 0x06;
          alpha_mask = set1_epi8 0x10;
          alpha_offset = set1_epi8 0x57;
          a = x @ upper;
          as = srli_epi64 a 4;
          lo = unpacklo_epi8 as a;
          hi = take 16 (unpackhi_epi8 as a);
          c = take 16 lo @ hi;
          d = map2 (AND) c low;
          alpha = slli_epi64 (map2 (AND) (map2 (+) d add) alpha_mask) 3;
          offset = blendv_epi8 (slli_epi64 add 3) alpha_offset alpha;
          res = map2 (+) d offset;
          dash_shuffle = set_epi32 [0x0b0a0908, 0x07060504, 0x80030201, 0x00808080, 0x0d0c800b, 0x0a090880,
            0x07060504, 0x03020100];
          dash = set_epi64x [0x0000000000000000, 0x2d000000002d0000, 0x00002d000000002d, 0x0000000000000000];
          resd = map2 (OR) (shuffle_epi8 res dash_shuffle) dash
      in store (store (store mem 0 resd) 16 (to_lane 2 (extract_at 2 res 7))) 32 (to_lane 4 (extract_at 4 res 7)))"

text \<open>\<open>stom128i\<close> from a memory of at least 36 bytes.\<close>

definition stom128i :: "vec \<Rightarrow> vec" where
  "stom128i mem =
     (let dash_shuffle = set_epi32 [0x80808080, 0x0f0e0d0c, 0x0b0a0908, 0x06050403, 0x80800f0e, 0x0c0b0a09,
            0x07060504, 0x03020100];
          x0 = take 32 mem;
          x1 = shuffle_epi8 x0 dash_shuffle;
          x2 = insert_at 2 x1 (lane (take 2 (drop 16 mem))) 7;
          x = insert_at 4 x2 (lane (take 4 (drop 32 mem))) 7;
          sub = set1_epi8 0x2F;
          case_bit = set1_epi8 0x20;
          alpha_offset = set1_epi8 0x28;
          digits_offset = set1_epi8 0x01;
          unweave = set_epi32 [0x0f0d0b09, 0x0e0c0a08, 0x07050301, 0x06040200, 0x0f0d0b09, 0x0e0c0a08, 0x07050301,
            0x06040200];
          shift = set_epi32 [0, 4, 0, 4, 0, 4, 0, 4];
          a0 = map2 (-) x sub;
          alpha = slli_epi64 (map2 (AND) a0 case_bit) 2;
          sub_mask = blendv_epi8 digits_offset alpha_offset alpha;
          a1 = map2 (-) a0 sub_mask;
          a2 = shuffle_epi8 a1 unweave;
          a3 = sllv_epi32 a2 shift;
          a4 = hadd_epi32 a3 (replicate 32 0);
          a5 = permute4x64_epi64 a4 8
      in take 16 a5)"

section \<open>The class\<close>

text \<open>The 16 bytes of a UUID as the two \<open>uint64_t\<close> at their addresses; \<open>uuid_data\<close> are the bytes.\<close>

datatype uuid = UUID "64 word" "64 word"

fun uuid_data :: "uuid \<Rightarrow> vec" where
  "uuid_data (UUID x y) = to_lane 8 (uint x) @ to_lane 8 (uint y)"

definition uuid_of_vec :: "vec \<Rightarrow> uuid" where
  "uuid_of_vec v = UUID (of_int (lane (take 8 v))) (of_int (lane (take 8 (drop 8 v))))"

definition uuid_of_words :: "64 word \<Rightarrow> 64 word \<Rightarrow> uuid" where
  "uuid_of_words x y = uuid_of_vec (set_epi64x [uint x, uint y])"

definition string_of :: "vec \<Rightarrow> string" where
  "string_of v = map (\<lambda>b. char_of (unat b)) v"

definition bytes_of :: "string \<Rightarrow> vec" where
  "bytes_of s = map (\<lambda>c. of_nat (of_char c)) s"

text \<open>
  The constructor from a byte string, and \<open>fromStrFactory\<close>: a shorter string is read past its end. The text of
  a string is followed by a zero byte.
\<close>

definition uuid_of_bytes :: "string \<Rightarrow> uuid res" where
  "uuid_of_bytes s = (if length s < 16 then Inl (Undefined_behaviour ''bytes past the end'')
     else Inr (uuid_of_vec (take 16 (bytes_of s))))"

definition fromStr :: "string \<Rightarrow> uuid res" where
  "fromStr s =
     (let raw = bytes_of s @ [0] in
      if length raw < 36 then Inl (Undefined_behaviour ''text past the end'')
      else Inr (uuid_of_vec (stom128i raw)))"

definition uuid_eq :: "uuid \<Rightarrow> uuid \<Rightarrow> bool" where
  "uuid_eq lhs rhs \<longleftrightarrow> (let neq = map2 (XOR) (uuid_data lhs) (uuid_data rhs) in list_all (\<lambda>b. b = 0) (map2 (AND) neq neq))"

fun uuid_less :: "uuid \<Rightarrow> uuid \<Rightarrow> bool" where
  "uuid_less (UUID x0 x1) (UUID y0 y1) \<longleftrightarrow> x0 < y0 \<or> (x0 = y0 \<and> x1 < y1)"

definition uuid_bytes :: "uuid \<Rightarrow> string" where
  "uuid_bytes u = string_of (uuid_data u)"

text \<open>\<open>str\<close>, with a new string of 36 zero bytes.\<close>

definition uuid_str :: "vec \<Rightarrow> uuid \<Rightarrow> string" where
  "uuid_str upper u = string_of (m128itos upper (uuid_data u) (replicate 36 0))"

text \<open>
  \<open>hash\<close>, whose second operand is 64 bytes behind the first: \<open>padding\<close> is the number that is there.
\<close>

fun uuid_hash :: "64 word \<Rightarrow> uuid \<Rightarrow> 64 word" where
  "uuid_hash padding (UUID x y) = x XOR padding"

text \<open>\<open>getUUID\<close> from the two numbers that are drawn.\<close>

definition getUUID :: "64 word \<Rightarrow> 64 word \<Rightarrow> uuid" where
  "getUUID r s =
     (let and_mask = set_epi64x [0xFFFFFFFFFFFFFF3F, 0xFF0FFFFFFFFFFFFF];
          or_mask = set_epi64x [0x0000000000000080, 0x0040000000000000];
          n = set_epi64x [uint r, uint s]
      in uuid_of_vec (map2 (OR) (map2 (AND) n and_mask) or_mask))"

end
