(* ===== verification/UuidProps.thy ===== *)
theory UuidProps
  imports Uuid
begin

text \<open>
  What the UUIDs of \<open>uuid_v4/uuid_v4.h\<close> promise: the vector code prints the usual text, the text and the
  bytes are read back, generated UUIDs have their version and variant, and the order is linear.
\<close>

section \<open>Lanes\<close>

lemma lanes_Nil [simp]: "lanes k [] = []"
  by (simp add: lanes.simps)

lemma lanes_append: "length v = k \<Longrightarrow> 0 < k \<Longrightarrow> lanes k (v @ w) = v # lanes k w"
  by (subst lanes.simps) auto

lemma lanes_one: "length v = k \<Longrightarrow> 0 < k \<Longrightarrow> lanes k v = [v]"
  using lanes_append [of v k "[]"] by simp

lemma lanes_Cons:
  "lanes 4 (x # xs) = take 4 (x # xs) # lanes 4 (drop 4 (x # xs))"
  "lanes 8 (x # xs) = take 8 (x # xs) # lanes 8 (drop 8 (x # xs))"
  "lanes 16 (x # xs) = take 16 (x # xs) # lanes 16 (drop 16 (x # xs))"
  by (subst lanes.simps; simp)+

lemma length_to_lane [simp]: "length (to_lane k n) = k"
  by (simp add: to_lane_def)

lemma bit_to_lane: "i < k \<Longrightarrow> bit (to_lane k n ! i) j \<longleftrightarrow> j < 8 \<and> bit n (8 * i + j)"
proof -
  have "n div 256 ^ i = drop_bit (8 * i) n" by (simp add: drop_bit_eq_div power_mult)
  then show "i < k \<Longrightarrow> ?thesis" by (auto simp: to_lane_def bit_word_of_int_iff bit_drop_bit_eq)
qed

lemma bit_lane: "bit (lane v) p \<longleftrightarrow> p < 8 * length v \<and> bit (v ! (p div 8)) (p mod 8)"
proof (induction v arbitrary: p)
  case (Cons b v)
  have low: "bit (uint b) p \<longleftrightarrow> p < 8 \<and> bit b p" for p by (simp add: bit_uint_iff)
  have "uint b AND push_bit 8 (lane v) = 0"
  proof (rule bit_eqI)
    show "bit (uint b AND push_bit 8 (lane v)) n = bit (0 :: int) n" for n
      by (simp add: bit_and_iff bit_push_bit_iff low)
  qed
  then have "uint b + push_bit 8 (lane v) = uint b OR push_bit 8 (lane v)" by (metis plus_and_or add_0)
  then have s: "lane (b # v) = uint b OR push_bit 8 (lane v)" by (simp add: push_bit_eq_mult mult.commute)
  show ?case
  proof (cases "p < 8")
    case True
    then show ?thesis unfolding s by (simp add: bit_or_iff bit_push_bit_iff low)
  next
    case False
    then obtain q where q: "p = q + 8" by (metis add.commute le_Suc_ex not_less)
    have "(q + 8) div 8 = Suc (q div 8)" "(q + 8) mod 8 = q mod 8" by simp_all
    then show ?thesis using Cons [of q] unfolding s q by (simp add: bit_or_iff bit_push_bit_iff low)
  qed
qed simp

text \<open>Shifting a lane, byte by byte.\<close>

lemma lane_shift_right:
  assumes "n \<le> 8" "length l = k"
  shows "to_lane k (lane l div 2 ^ n) = map2 (\<lambda>b b'. drop_bit n b OR push_bit (8 - n) b') l (tl l @ [0])"
proof (rule nth_equalityI)
  fix i assume "i < length (to_lane k (lane l div 2 ^ n))"
  then have i: "i < k" by simp
  show "to_lane k (lane l div 2 ^ n) ! i = map2 (\<lambda>b b'. drop_bit n b OR push_bit (8 - n) b') l (tl l @ [0]) ! i"
  proof (rule bit_eqI)
    fix j assume "possible_bit TYPE(8 word) j"
    then have j: "j < 8" by simp
    have r: "map2 (\<lambda>b b'. drop_bit n b OR push_bit (8 - n) b') l (tl l @ [0]) ! i =
        drop_bit n (l ! i) OR push_bit (8 - n) (if Suc i < k then l ! Suc i else 0)"
      using i assms(2) by (cases l) (auto simp: nth_append)
    have "bit (to_lane k (lane l div 2 ^ n) ! i) j \<longleftrightarrow> bit (lane l) (n + (8 * i + j))"
      using i j by (simp add: bit_to_lane bit_drop_bit_eq drop_bit_eq_div [symmetric] add.commute)
    also have "\<dots> \<longleftrightarrow> (if j + n < 8 then bit (l ! i) (j + n) else Suc i < k \<and> bit (l ! Suc i) (j + n - 8))"
    proof (cases "j + n < 8")
      case True
      moreover have "n + (8 * i + j) = 8 * i + (j + n)" by simp
      ultimately have "(n + (8 * i + j)) div 8 = i" "(n + (8 * i + j)) mod 8 = j + n" by (simp_all only: div_mult_self4 mod_mult_self4) simp_all
      then show ?thesis using True i assms(2) by (simp add: bit_lane)
    next
      case False
      then have "n + (8 * i + j) = 8 * Suc i + (j + n - 8)" "j + n - 8 < 8" using j assms(1) by simp_all
      moreover have "8 * Suc i + r < 8 * k \<longleftrightarrow> Suc i < k" if "r < 8" for r using that by presburger
      then have "n + (8 * i + j) < 8 * k \<longleftrightarrow> Suc i < k" using calculation by metis
      ultimately have "(n + (8 * i + j)) div 8 = Suc i" "(n + (8 * i + j)) mod 8 = j + n - 8"
        "n + (8 * i + j) < 8 * k \<longleftrightarrow> Suc i < k" by (simp_all del: mult_Suc_right)
      then show ?thesis using False assms(2) by (simp add: bit_lane)
    qed
    finally show "bit (to_lane k (lane l div 2 ^ n) ! i) j =
        bit (map2 (\<lambda>b b'. drop_bit n b OR push_bit (8 - n) b') l (tl l @ [0]) ! i) j"
      unfolding r using j assms(1) by (auto simp: bit_or_iff bit_drop_bit_eq bit_push_bit_iff add.commute bit_simps dest: bit_imp_le_length)
  qed
qed (use assms in \<open>cases l; simp\<close>)

lemma lane_shift_left:
  assumes "n \<le> 8" "length l = k"
  shows "to_lane k (lane l * 2 ^ n) = map2 (\<lambda>b b'. push_bit n b OR drop_bit (8 - n) b') l (0 # butlast l)"
proof (rule nth_equalityI)
  fix i assume "i < length (to_lane k (lane l * 2 ^ n))"
  then have i: "i < k" by simp
  show "to_lane k (lane l * 2 ^ n) ! i = map2 (\<lambda>b b'. push_bit n b OR drop_bit (8 - n) b') l (0 # butlast l) ! i"
  proof (rule bit_eqI)
    fix j assume "possible_bit TYPE(8 word) j"
    then have j: "j < 8" by simp
    have r: "map2 (\<lambda>b b'. push_bit n b OR drop_bit (8 - n) b') l (0 # butlast l) ! i =
        push_bit n (l ! i) OR drop_bit (8 - n) (if i = 0 then 0 else l ! (i - 1))"
      using i assms(2) by (cases i) (auto simp: nth_butlast)
    have "bit (to_lane k (lane l * 2 ^ n) ! i) j \<longleftrightarrow> n \<le> 8 * i + j \<and> bit (lane l) (8 * i + j - n)"
      using i j by (simp add: bit_to_lane push_bit_eq_mult [symmetric] bit_push_bit_iff)
    also have "\<dots> \<longleftrightarrow> (if n \<le> j then bit (l ! i) (j - n) else 0 < i \<and> bit (l ! (i - 1)) (j + (8 - n)))"
    proof (cases "n \<le> j")
      case True
      then have "8 * i + j - n = 8 * i + (j - n)" "j - n < 8" using j by simp_all
      moreover from this have "(8 * i + j - n) div 8 = i" "(8 * i + j - n) mod 8 = j - n" by (simp_all only: div_mult_self4 mod_mult_self4) simp_all
      moreover have "8 * i + j - n < 8 * k" using calculation(1,2) i by linarith
      ultimately show ?thesis using True assms(2) by (simp add: bit_lane)
    next
      case False
      show ?thesis
      proof (cases i)
        case (Suc m)
        then have "8 * i + j - n = 8 * m + (j + (8 - n))" "j + (8 - n) < 8" "n \<le> 8 * i + j"
          using j False assms(1) by simp_all
        moreover from this have "(8 * i + j - n) div 8 = m" "(8 * i + j - n) mod 8 = j + (8 - n)" by (simp_all only: div_mult_self4 mod_mult_self4) simp_all
        moreover have "8 * i + j - n < 8 * k" using calculation(1,2) Suc i by linarith
        ultimately show ?thesis using False Suc assms(2) by (simp add: bit_lane)
      qed (use False in simp)
    qed
    finally show "bit (to_lane k (lane l * 2 ^ n) ! i) j =
        bit (map2 (\<lambda>b b'. push_bit n b OR drop_bit (8 - n) b') l (0 # butlast l) ! i) j"
      unfolding r using j assms(1) by (auto simp: bit_or_iff bit_drop_bit_eq bit_push_bit_iff add.commute bit_simps dest: bit_imp_le_length)
  qed
qed (use assms in simp)

lemma to_lane_lane: "length v = k \<Longrightarrow> to_lane k (lane v) = v"
  using lane_shift_left [of 0 v k] by (auto simp: list_eq_iff_nth_eq nth_butlast nth_Cons' intro!: bit_eqI simp: bit_or_iff bit_drop_bit_eq dest: bit_imp_le_length)

text \<open>Adding lanes whose bytes have no common bit.\<close>

lemma lane_add:
  assumes "length v = length w" "\<forall>i < length v. v ! i AND w ! i = 0"
  shows "lane v + lane w = lane (map2 (OR) v w)"
  using assms
proof (induction v w rule: list_induct2)
  case (Cons b v c w)
  have "b AND c = 0" "\<forall>i < length v. v ! i AND w ! i = 0" using Cons.prems by (force, force)
  then have "uint b + uint c = uint (b OR c)" by (metis plus_and_or add_0 unsigned_and_eq unsigned_or_eq unsigned_0)
  then show ?case using Cons.IH \<open>\<forall>i < length v. v ! i AND w ! i = 0\<close> by simp
qed simp

section \<open>Printing\<close>

text \<open>The reference: two hexadecimal digits for each byte, in groups of 4, 2, 2, 2 and 6 bytes.\<close>

definition hex_char :: "8 word \<Rightarrow> 8 word" where
  "hex_char v = (if v < 10 then 0x30 + v else 0x57 + v)"

definition nibbles :: "vec \<Rightarrow> vec" where
  "nibbles bs = concat (map (\<lambda>b. [drop_bit 4 b, b AND 0x0F]) bs)"

definition hex_text :: "vec \<Rightarrow> vec" where
  "hex_text bs = map hex_char (nibbles bs)"

definition dashed :: "vec \<Rightarrow> vec" where
  "dashed h = take 8 h @ 0x2D # take 4 (drop 8 h) @ 0x2D # take 4 (drop 12 h) @ 0x2D # take 4 (drop 16 h) @
     0x2D # drop 20 h"

lemma nibbles_append: "nibbles (p @ q) = nibbles p @ nibbles q"
  by (simp add: nibbles_def)

lemma length_nibbles [simp]: "length (nibbles bs) = 2 * length bs"
  by (induction bs) (simp_all add: nibbles_def)

lemma and_low: "b AND 0x0F = take_bit 4 (b :: 8 word)"
  by (simp add: take_bit_eq_mask mask_eq_exp_minus_1)

lemma nibbles_small: "v \<in> set (nibbles bs) \<Longrightarrow> v < 16"
proof -
  have "drop_bit 4 b < 16" "b AND 0x0F < 16" for b :: "8 word"
  proof -
    have "unat b < 256" using unsigned_less [of b, where 'a = nat] by simp
    then show "drop_bit 4 b < 16"
      by (simp add: word_less_nat_alt drop_bit_eq_div unat_div_distrib less_mult_imp_div_less)
    show "b AND 0x0F < 16"
      unfolding and_low by (simp add: word_less_nat_alt unsigned_take_bit_eq take_bit_nat_less_exp [of 4, simplified])
  qed
  then show "v \<in> set (nibbles bs) \<Longrightarrow> ?thesis" by (auto simp: nibbles_def)
qed

lemma small_word: "v < (16 :: 8 word) \<Longrightarrow> v \<in> set (map of_nat [0..<16])"
proof -
  assume "v < 16"
  then have "unat v < 16" by (simp add: word_less_nat_alt)
  then have "unat v \<in> set [0..<16]" by simp
  moreover have "v = of_nat (unat v)" by simp
  ultimately show ?thesis unfolding list.set_map by (rule image_eqI [rotated])
qed

text \<open>The characters as the vector code computes them, and the digits as it reads them back.\<close>

lemma char_by_offset:
  assumes "v < (16 :: 8 word)"
  shows "v + (if bit (push_bit 3 ((v + 6) AND 0x10) OR drop_bit 5 w) 7 then 0x57 else 0x30) = hex_char v"
proof -
  have "\<forall>v \<in> set (map of_nat [0..<16]) :: 8 word set.
      v + (if bit (push_bit 3 ((v + 6) AND 0x10)) 7 then 0x57 else 0x30) = hex_char v" by code_simp
  moreover have "\<not> bit (drop_bit 5 w) 7" for w :: "8 word" by (auto simp: bit_drop_bit_eq dest: bit_imp_le_length)
  ultimately show ?thesis using small_word [OF assms] by (auto simp: bit_or_iff)
qed

lemma digit_by_offset:
  assumes "v < (16 :: 8 word)"
  shows "hex_char v - 0x2F - (if bit (push_bit 2 ((hex_char v - 0x2F) AND 0x20) OR drop_bit 6 w) 7 then 0x28 else 1) = v"
proof -
  have "\<forall>v \<in> set (map of_nat [0..<16]) :: 8 word set. hex_char v - 0x2F -
      (if bit (push_bit 2 ((hex_char v - 0x2F) AND 0x20)) 7 then 0x28 else 1) = v" by code_simp
  moreover have "\<not> bit (drop_bit 6 w) 7" for w :: "8 word" by (auto simp: bit_drop_bit_eq dest: bit_imp_le_length)
  ultimately show ?thesis using small_word [OF assms] by (auto simp: bit_or_iff)
qed

lemma high_nibble: "(drop_bit 4 b OR push_bit 4 c) AND 0x0F = drop_bit 4 (b :: 8 word)"
proof (rule bit_eqI)
  fix n
  have "bit b (4 + n) \<Longrightarrow> n < 4" using bit_imp_le_length [of b "4 + n"] by simp
  then show "bit ((drop_bit 4 b OR push_bit 4 c) AND 0x0F) n = bit (drop_bit 4 b) n"
    unfolding and_low bit_take_bit_iff bit_or_iff bit_drop_bit_eq bit_push_bit_iff comp_def by auto
qed

lemma map2_replicate: "length c = n \<Longrightarrow> map2 f c (replicate n v) = map (\<lambda>b. f b v) c"
  by (induction c arbitrary: n) (auto simp: Suc_length_conv)

lemma map2_append: "length a = length c \<Longrightarrow> map2 f (a @ b) (c @ d) = map2 f a c @ map2 f b d"
  by simp

lemma slli_bytes:
  assumes "length e = 8 * m" "n \<le> 8"
  shows "\<exists>r. length r = length e \<and> slli_epi64 e n = map2 (\<lambda>b b'. push_bit n b OR drop_bit (8 - n) b') e r"
  using assms(1)
proof (induction m arbitrary: e)
  case (Suc m)
  let ?l = "take 8 e"
  have l: "length ?l = 8" "e = ?l @ drop 8 e" using Suc.prems by simp_all
  from Suc.IH [of "drop 8 e"] Suc.prems obtain r where
    r: "length r = length (drop 8 e)" "slli_epi64 (drop 8 e) n = map2 (\<lambda>b b'. push_bit n b OR drop_bit (8 - n) b') (drop 8 e) r"
    by auto
  have "slli_epi64 e n = to_lane 8 (lane ?l * 2 ^ n) @ slli_epi64 (drop 8 e) n"
    by (subst l(2)) (simp only: slli_epi64_def lanes_append [OF l(1), simplified] list.map concat.simps)
  also have "\<dots> = map2 (\<lambda>b b'. push_bit n b OR drop_bit (8 - n) b') (?l @ drop 8 e) ((0 # butlast ?l) @ r)"
    unfolding lane_shift_left [OF assms(2) l(1)] r(2) by (rule map2_append [symmetric]) (use l(1) in simp)
  finally show ?case using l(2) r(1) Suc.prems by (intro exI [of _ "(0 # butlast ?l) @ r"]) simp
qed (simp add: slli_epi64_def)

lemma masked_interleave:
  "length p = length r \<Longrightarrow> map (\<lambda>b. b AND 0x0F)
    (interleave (map2 (\<lambda>b b'. drop_bit 4 b OR push_bit 4 b') p r) p) = nibbles p"
  by (induction p r rule: list_induct2) (simp_all add: nibbles_def high_nibble del: and_low)

lemma unpack_nibbles:
  assumes "length x = 16" "length upper = 16"
  defines "a \<equiv> x @ upper"
  defines "as \<equiv> srli_epi64 a 4"
  shows "map (\<lambda>b. b AND 0x0F) (take 16 (unpacklo_epi8 as a) @ take 16 (unpackhi_epi8 as a)) = nibbles x"
proof -
  let ?p = "take 8 x" and ?q = "drop 8 x"
  have l: "length ?p = 8" "length ?q = 8" "x = ?p @ ?q" using assms(1) by simp_all
  let ?s = "\<lambda>p. to_lane 8 (lane p div 2 ^ 4)"
  have "lanes 8 (x @ upper) = ?p # ?q # lanes 8 upper"
    using lanes_append [OF l(1), of "?q @ upper"] lanes_append [OF l(2), of upper] by (metis append_assoc l(3) zero_less_numeral)
  then have as: "as = (?s ?p @ ?s ?q) @ srli_epi64 upper 4"
    by (simp add: as_def a_def srli_epi64_def)
  have l16: "lanes 16 a = x # lanes 16 upper" "lanes 16 as = (?s ?p @ ?s ?q) # lanes 16 (srli_epi64 upper 4)"
    unfolding as a_def using assms(1) by (intro lanes_append; simp)+
  have len: "length (interleave v w) = 2 * length v" if "length v = length w" for v w
    using that by (induction v w rule: list_induct2) simp_all
  have "take 16 (unpacklo_epi8 as a) = interleave (?s ?p) ?p" "take 16 (unpackhi_epi8 as a) = interleave (?s ?q) ?q"
    using l by (simp_all add: unpacklo_epi8_def unpackhi_epi8_def l16 len)
  moreover have "map (\<lambda>b. b AND 0x0F) (interleave (?s p) p) = nibbles p" if "length p = 8" for p
  proof -
    have "length p = length (tl p @ [0])" using that by simp
    from masked_interleave [OF this] show ?thesis using lane_shift_right [of 4 p 8] that by simp
  qed
  moreover have "nibbles x = nibbles ?p @ nibbles ?q" by (subst l(3)) (rule nibbles_append)
  ultimately show ?thesis using l by simp
qed

lemma bytes_to_chars:
  assumes "length d = 32" "\<forall>v \<in> set d. v < 16"
  shows "map2 (+) d (blendv_epi8 (slli_epi64 (set1_epi8 0x06) 3) (set1_epi8 0x57)
    (slli_epi64 (map2 (AND) (map2 (+) d (set1_epi8 0x06)) (set1_epi8 0x10)) 3)) = map hex_char d"
proof -
  let ?e = "map (\<lambda>v. (v + 6) AND 0x10) d"
  have e: "map2 (AND) (map2 (+) d (set1_epi8 0x06)) (set1_epi8 0x10) = ?e"
    using assms(1) by (simp add: set1_epi8_def map2_replicate)
  have "length ?e = 8 * 4" using assms(1) by simp
  from slli_bytes [OF this, of 3] obtain r where r: "length r = length ?e"
    "slli_epi64 ?e 3 = map2 (\<lambda>b b'. push_bit 3 b OR drop_bit 5 b') ?e r" by auto
  have c: "slli_epi64 (set1_epi8 0x06) 3 = replicate 32 0x30" by code_simp
  show ?thesis
  proof (rule nth_equalityI)
    fix i assume "i < length (map2 (+) d (blendv_epi8 (slli_epi64 (set1_epi8 0x06) 3) (set1_epi8 0x57)
        (slli_epi64 (map2 (AND) (map2 (+) d (set1_epi8 0x06)) (set1_epi8 0x10)) 3)))"
    then have i: "i < 32" using assms(1) by simp
    then have "d ! i < 16" using assms by simp
    from char_by_offset [OF this, of "r ! i"] show "map2 (+) d (blendv_epi8 (slli_epi64 (set1_epi8 0x06) 3)
        (set1_epi8 0x57) (slli_epi64 (map2 (AND) (map2 (+) d (set1_epi8 0x06)) (set1_epi8 0x10)) 3)) ! i =
        map hex_char d ! i"
      unfolding e c r(2) unfolding set1_epi8_def using i assms(1) r(1) by (simp add: blendv_epi8_def)
  qed (simp only: e r(2) c, use assms(1) r(1) in \<open>simp add: blendv_epi8_def set1_epi8_def\<close>)
qed

lemma explicit16: "length x = 16 \<Longrightarrow> \<exists>a b c d e f g h i j k l m n p q. x = [a, b, c, d, e, f, g, h, i, j, k, l, m, n, p, q]"
  by (auto simp: numeral_eq_Suc length_Suc_conv)

lemma insert_dashes:
  assumes "length h = 32" "length mem = 36"
  shows "store (store (store mem 0 (map2 (OR) (shuffle_epi8 h (set_epi32 [0x0b0a0908, 0x07060504, 0x80030201, 0x00808080,
      0x0d0c800b, 0x0a090880, 0x07060504, 0x03020100])) (set_epi64x [0x0000000000000000, 0x2d000000002d0000,
      0x00002d000000002d, 0x0000000000000000]))) 16 (to_lane 2 (extract_at 2 h 7))) 32 (to_lane 4 (extract_at 4 h 7)) =
    dashed h"
proof -
  have h: "h = take 16 h @ drop 16 h" by simp
  have m: "mem = take 16 mem @ drop 16 mem" by simp
  have c: "set_epi32 [0x0b0a0908, 0x07060504, 0x80030201, 0x00808080, 0x0d0c800b, 0x0a090880, 0x07060504, 0x03020100] =
      [0, 1, 2, 3, 4, 5, 6, 7, 0x80, 8, 9, 0x0a, 0x0b, 0x80, 0x0c, 0x0d, 0x80, 0x80, 0x80, 0, 1, 2, 3, 0x80, 4, 5, 6, 7,
       8, 9, 0x0a, 0x0b]"
    "set_epi64x [0x0000000000000000, 0x2d000000002d0000, 0x00002d000000002d, 0x0000000000000000] =
      [0, 0, 0, 0, 0, 0, 0, 0, 0x2d, 0, 0, 0, 0, 0x2d, 0, 0, 0, 0, 0x2d, 0, 0, 0, 0, 0x2d, 0, 0, 0, 0, 0, 0, 0, 0]"
    by code_simp+
  have b: "\<not> bit (0x0a :: 8 word) 7" "bit (0x80 :: 8 word) 7" by code_simp+
  obtain a0 a1 a2 a3 a4 a5 a6 a7 a8 a9 a10 a11 a12 a13 a14 a15 where a: "take 16 h =
      [a0, a1, a2, a3, a4, a5, a6, a7, a8, a9, a10, a11, a12, a13, a14, a15]"
    using explicit16 [of "take 16 h"] assms(1) by auto
  obtain b0 b1 b2 b3 b4 b5 b6 b7 b8 b9 b10 b11 b12 b13 b14 b15 where b': "drop 16 h =
      [b0, b1, b2, b3, b4, b5, b6, b7, b8, b9, b10, b11, b12, b13, b14, b15]"
    using explicit16 [of "drop 16 h"] assms(1) by auto
  have hh: "h = [a0, a1, a2, a3, a4, a5, a6, a7, a8, a9, a10, a11, a12, a13, a14, a15, b0, b1, b2, b3, b4, b5, b6, b7, b8,
      b9, b10, b11, b12, b13, b14, b15]" using a b' by (metis append_Cons append_Nil append_take_drop_id)
  have e: "to_lane 2 (extract_at 2 h 7) = [a14, a15]" "to_lane 4 (extract_at 4 h 7) = [b12, b13, b14, b15]"
    unfolding hh by (simp_all add: extract_at_def to_lane_lane del: lane.simps)
  show ?thesis unfolding c e unfolding hh
    by (simp add: shuffle_epi8_def lanes_Cons store_def dashed_def b assms(2))
qed

lemma m128itos_text:
  assumes "length x = 16" "length upper = 16" "length mem = 36"
  shows "m128itos upper x mem = dashed (hex_text x)"
proof -
  let ?a = "x @ upper" let ?as = "srli_epi64 ?a 4"
  let ?c = "take 16 (unpacklo_epi8 ?as ?a) @ take 16 (unpackhi_epi8 ?as ?a)"
  have n: "map (\<lambda>b. b AND 0x0F) ?c = nibbles x" by (rule unpack_nibbles [OF assms(1,2)])
  have "length ?c = 32" using arg_cong [OF n, of length] unfolding length_map length_nibbles assms(1) by linarith
  then have d: "map2 (AND) ?c (set1_epi8 0x0F) = nibbles x" using n by (simp add: set1_epi8_def map2_replicate)
  have len: "length (nibbles x) = 32" using assms(1) by simp
  have "\<forall>v \<in> set (nibbles x). v < 16" using nibbles_small by blast
  note r = bytes_to_chars [OF len this]
  have "length (hex_text x) = 32" using len by (simp add: hex_text_def)
  from insert_dashes [OF this assms(3)] show ?thesis unfolding m128itos_def Let_def d r hex_text_def .
qed

section \<open>Parsing\<close>

lemma remove_dashes:
  assumes "length h = 32" "m = dashed h @ rest"
  shows "insert_at 4 (insert_at 2 (shuffle_epi8 (take 32 m) (set_epi32 [0x80808080, 0x0f0e0d0c, 0x0b0a0908, 0x06050403,
      0x80800f0e, 0x0c0b0a09, 0x07060504, 0x03020100])) (lane (take 2 (drop 16 m))) 7) (lane (take 4 (drop 32 m))) 7 = h"
proof -
  have c: "set_epi32 [0x80808080, 0x0f0e0d0c, 0x0b0a0908, 0x06050403, 0x80800f0e, 0x0c0b0a09, 0x07060504, 0x03020100] =
      [0, 1, 2, 3, 4, 5, 6, 7, 9, 0x0a, 0x0b, 0x0c, 0x0e, 0x0f, 0x80, 0x80, 3, 4, 5, 6, 8, 9, 0x0a, 0x0b, 0x0c, 0x0d,
       0x0e, 0x0f, 0x80, 0x80, 0x80, 0x80]" by code_simp
  have b: "\<not> bit (0x0a :: 8 word) 7" "bit (0x80 :: 8 word) 7" by code_simp+
  obtain a0 a1 a2 a3 a4 a5 a6 a7 a8 a9 a10 a11 a12 a13 a14 a15 where a: "take 16 h =
      [a0, a1, a2, a3, a4, a5, a6, a7, a8, a9, a10, a11, a12, a13, a14, a15]"
    using explicit16 [of "take 16 h"] assms(1) by auto
  obtain b0 b1 b2 b3 b4 b5 b6 b7 b8 b9 b10 b11 b12 b13 b14 b15 where b': "drop 16 h =
      [b0, b1, b2, b3, b4, b5, b6, b7, b8, b9, b10, b11, b12, b13, b14, b15]"
    using explicit16 [of "drop 16 h"] assms(1) by auto
  have hh: "h = [a0, a1, a2, a3, a4, a5, a6, a7, a8, a9, a10, a11, a12, a13, a14, a15, b0, b1, b2, b3, b4, b5, b6, b7, b8,
      b9, b10, b11, b12, b13, b14, b15]" using a b' by (metis append_Cons append_Nil append_take_drop_id)
  show ?thesis unfolding c assms(2) unfolding hh
    by (simp add: shuffle_epi8_def lanes_Cons insert_at_def dashed_def b to_lane_lane del: lane.simps)
qed

lemma chars_to_bytes:
  assumes "length d = 32" "\<forall>v \<in> set d. v < 16"
  defines "a \<equiv> map2 (-) (map hex_char d) (set1_epi8 0x2F)"
  shows "map2 (-) a (blendv_epi8 (set1_epi8 0x01) (set1_epi8 0x28) (slli_epi64 (map2 (AND) a (set1_epi8 0x20)) 2)) = d"
proof -
  let ?a = "map (\<lambda>v. hex_char v - 0x2F) d" let ?e = "map (\<lambda>v. (hex_char v - 0x2F) AND 0x20) d"
  have a: "a = ?a" "map2 (AND) a (set1_epi8 0x20) = ?e"
    using assms(1) by (simp_all add: a_def set1_epi8_def map2_replicate comp_def)
  have "length ?e = 8 * 4" using assms(1) by simp
  from slli_bytes [OF this, of 2] obtain r where r: "length r = length ?e"
    "slli_epi64 ?e 2 = map2 (\<lambda>b b'. push_bit 2 b OR drop_bit 6 b') ?e r" by auto
  have "map2 (-) ?a (blendv_epi8 (replicate 32 0x01) (replicate 32 0x28)
      (map2 (\<lambda>b b'. push_bit 2 b OR drop_bit 6 b') ?e r)) = d" (is "?l = d")
  proof (rule nth_equalityI)
    fix i assume "i < length ?l"
    then have i: "i < 32" using assms(1) by simp
    then have "d ! i < 16" using assms by simp
    from digit_by_offset [OF this, of "r ! i"] show "?l ! i = d ! i"
      using i assms(1) r(1) by (simp add: blendv_epi8_def)
  qed (use assms(1) r(1) in \<open>simp add: blendv_epi8_def\<close>)
  then show ?thesis unfolding a(2) r(2) unfolding a(1) unfolding set1_epi8_def .
qed

text \<open>Two digits of 4 bits make a byte.\<close>

lemma join_nibbles:
  "push_bit 4 (drop_bit 4 b) OR (b AND 0x0F) = (b :: 8 word)" "push_bit 4 (drop_bit 4 b) AND (b AND 0x0F) = 0"
  "drop_bit 4 (drop_bit 4 b) = 0"
proof -
  show "push_bit 4 (drop_bit 4 b) OR (b AND 0x0F) = b" "push_bit 4 (drop_bit 4 b) AND (b AND 0x0F) = 0"
    unfolding and_low by (auto intro!: bit_eqI simp del: push_bit_of_0
      simp: bit_or_iff bit_and_iff bit_push_bit_iff bit_drop_bit_eq bit_take_bit_iff dest: bit_imp_le_length)
  show "drop_bit 4 (drop_bit 4 b) = 0"
    by (rule bit_eqI) (auto simp: bit_drop_bit_eq simp del: drop_bit_drop_bit dest: bit_imp_le_length)
qed

lemma join_lanes:
  assumes "length p = 4"
  shows "to_lane 4 (lane (to_lane 4 (lane (map (drop_bit 4) p) * 2 ^ 4)) + lane (to_lane 4 (lane (map (\<lambda>b. b AND 0x0F) p)))) = p"
proof -
  obtain a b c d where p: "p = [a, b, c, d]" using assms by (auto simp: numeral_eq_Suc length_Suc_conv)
  have "to_lane 4 (lane (map (drop_bit 4) p) * 2 ^ 4) = map (\<lambda>b. push_bit 4 (drop_bit 4 b)) p"
    using lane_shift_left [of 4 "map (drop_bit 4) p" 4] unfolding p
    by (simp add: join_nibbles(3) del: lane.simps drop_bit_drop_bit)
  moreover have "to_lane 4 (lane (map (\<lambda>b. b AND 0x0F) p)) = map (\<lambda>b. b AND 0x0F) p"
    using assms by (intro to_lane_lane) simp
  moreover have "lane (map (\<lambda>b. push_bit 4 (drop_bit 4 b)) p) + lane (map (\<lambda>b. b AND 0x0F) p) =
      lane (map2 (OR) (map (\<lambda>b. push_bit 4 (drop_bit 4 b)) p) (map (\<lambda>b. b AND 0x0F) p))"
    by (rule lane_add) (simp_all add: join_nibbles(2))
  moreover have "map2 (OR) (map (\<lambda>b. push_bit 4 (drop_bit 4 b)) p) (map (\<lambda>b. b AND 0x0F) p) = p"
    unfolding p by (simp add: join_nibbles(1))
  ultimately show ?thesis using to_lane_lane [OF assms] by simp
qed

lemma pack_nibbles:
  assumes "length bs = 16"
  shows "take 16 (permute4x64_epi64 (hadd_epi32 (sllv_epi32 (shuffle_epi8 (nibbles bs) (set_epi32 [0x0f0d0b09, 0x0e0c0a08,
      0x07050301, 0x06040200, 0x0f0d0b09, 0x0e0c0a08, 0x07050301, 0x06040200])) (set_epi32 [0, 4, 0, 4, 0, 4, 0, 4]))
      (replicate 32 0)) 8) = bs"
proof -
  let ?h = "drop_bit 4 :: 8 word \<Rightarrow> 8 word" and ?l = "\<lambda>b :: 8 word. b AND 0x0F"
  obtain a0 a1 a2 a3 a4 a5 a6 a7 a8 a9 a10 a11 a12 a13 a14 a15 where bs: "bs =
      [a0, a1, a2, a3, a4, a5, a6, a7, a8, a9, a10, a11, a12, a13, a14, a15]"
    using explicit16 [OF assms] by blast
  have c: "set_epi32 [0x0f0d0b09, 0x0e0c0a08, 0x07050301, 0x06040200, 0x0f0d0b09, 0x0e0c0a08, 0x07050301, 0x06040200] =
      [0, 2, 4, 6, 1, 3, 5, 7, 8, 0x0a, 0x0c, 0x0e, 9, 0x0b, 0x0d, 0x0f, 0, 2, 4, 6, 1, 3, 5, 7, 8, 0x0a, 0x0c, 0x0e, 9, 0x0b, 0x0d, 0x0f]"
    "set_epi32 [0, 4, 0, 4, 0, 4, 0, 4] = [4, 0, 0, 0, 0, 0, 0, 0, 4, 0, 0, 0, 0, 0, 0, 0,
       4, 0, 0, 0, 0, 0, 0, 0, 4, 0, 0, 0, 0, 0, 0, 0]" by code_simp+
  define H L where "H = (\<lambda>p. to_lane 4 (lane (map ?h p) * 2 ^ 4))" and "L = (\<lambda>p. to_lane 4 (lane (map ?l p)))"
  have shuffled: "shuffle_epi8 (nibbles bs) [0, 2, 4, 6, 1, 3, 5, 7, 8, 0x0a, 0x0c, 0x0e, 9, 0x0b, 0x0d, 0x0f, 0, 2, 4, 6, 1, 3, 5, 7,
      8, 0x0a, 0x0c, 0x0e, 9, 0x0b, 0x0d, 0x0f] =
    map ?h [a0, a1, a2, a3] @ map ?l [a0, a1, a2, a3] @ map ?h [a4, a5, a6, a7] @ map ?l [a4, a5, a6, a7] @
    map ?h [a8, a9, a10, a11] @ map ?l [a8, a9, a10, a11] @ map ?h [a12, a13, a14, a15] @ map ?l [a12, a13, a14, a15]"
    unfolding bs nibbles_def by (simp add: shuffle_epi8_def lanes_Cons)
  have shifted: "sllv_epi32 (map ?h [a0, a1, a2, a3] @ map ?l [a0, a1, a2, a3] @ map ?h [a4, a5, a6, a7] @ map ?l [a4, a5, a6, a7] @
      map ?h [a8, a9, a10, a11] @ map ?l [a8, a9, a10, a11] @ map ?h [a12, a13, a14, a15] @ map ?l [a12, a13, a14, a15])
      [4, 0, 0, 0, 0, 0, 0, 0, 4, 0, 0, 0, 0, 0, 0, 0, 4, 0, 0, 0, 0, 0, 0, 0, 4, 0, 0, 0, 0, 0, 0, 0] =
    H [a0, a1, a2, a3] @ L [a0, a1, a2, a3] @ H [a4, a5, a6, a7] @ L [a4, a5, a6, a7] @
    H [a8, a9, a10, a11] @ L [a8, a9, a10, a11] @ H [a12, a13, a14, a15] @ L [a12, a13, a14, a15]"
    unfolding H_def L_def sllv_epi32_def by (simp add: lanes_append lanes_one lanes_Cons)
  have len: "length (H p) = 4" "length (L p) = 4" for p by (simp_all add: H_def L_def)
  have join: "to_lane 4 (lane (H [a, b, c, d]) + lane (L [a, b, c, d])) = [a, b, c, d]" for a b c d
    unfolding H_def L_def by (rule join_lanes) simp
  have zero: "hadd_lanes (lanes 4 (replicate 16 0)) = replicate 8 0" "replicate 32 (0 :: 8 word) = replicate 16 0 @ replicate 16 0"
    by code_simp+
  have zero8: "replicate 8 (0 :: 8 word) = [0, 0, 0, 0, 0, 0, 0, 0]" by code_simp
  have upt: "[0..<4] = [0, 1, 2, 3]" by (simp add: upt_rec)
  have "lanes 16 (H p @ L p @ H q @ L q @ v) = (H p @ L p @ H q @ L q) # lanes 16 v" for p q v
    using lanes_append [of "H p @ L p @ H q @ L q" 16 v] by (simp add: len)
  from this [where v = "[]"] this have "hadd_epi32 (H p @ L p @ H q @ L q @ H r @ L r @ H s @ L s) (replicate 32 0) =
      hadd_lanes (lanes 4 (H p @ L p @ H q @ L q)) @ replicate 8 0 @ hadd_lanes (lanes 4 (H r @ L r @ H s @ L s)) @ replicate 8 0"
    for p q r s unfolding zero(2) by (simp add: hadd_epi32_def lanes_append [of "replicate 16 0"] lanes_one zero(1))
  moreover have "hadd_lanes (lanes 4 (H p @ L p @ H q @ L q)) =
      to_lane 4 (lane (H p) + lane (L p)) @ to_lane 4 (lane (H q) + lane (L q))" for p q
    by (simp add: lanes_append lanes_one len)
  ultimately show ?thesis unfolding c shuffled shifted
    by (simp add: join permute4x64_epi64_def lanes_Cons bs upt zero8)
qed

lemma stom128i_text:
  assumes "length bs = 16"
  shows "stom128i (dashed (hex_text bs) @ rest) = bs"
proof -
  have len: "length (nibbles bs) = 32" "length (hex_text bs) = 32" using assms by (simp_all add: hex_text_def)
  have "\<forall>v \<in> set (nibbles bs). v < 16" using nibbles_small by blast
  note r = chars_to_bytes [OF len(1) this, folded hex_text_def]
  from remove_dashes [OF len(2) refl] pack_nibbles [OF assms] show ?thesis
    unfolding stom128i_def Let_def by (simp only: r)
qed

section \<open>Data, text and bytes\<close>

lemma length_uuid_data [simp]: "length (uuid_data u) = 16"
  by (cases u) simp

lemma of_int_lane: "of_int (lane (to_lane 8 x)) = (of_int x :: 64 word)"
proof (rule bit_eqI)
  fix n assume "possible_bit TYPE(64 word) n"
  then have n: "n < 64" by simp
  then have d: "n div 8 < 8" "8 * (n div 8) + n mod 8 = n" by (simp_all add: less_mult_imp_div_less)
  have "bit (lane (to_lane 8 x)) n \<longleftrightarrow> bit x n"
    using n unfolding bit_lane length_to_lane bit_to_lane [OF d(1)] d(2) by simp
  then show "bit (of_int (lane (to_lane 8 x)) :: 64 word) n = bit (of_int x :: 64 word) n"
    using n by (simp add: bit_word_of_int_iff)
qed

lemma uuid_of_data [simp]: "uuid_of_vec (uuid_data u) = u"
  by (cases u) (simp add: uuid_of_vec_def of_int_lane)

lemma to_lane_of_int: "length l = 8 \<Longrightarrow> to_lane 8 (uint (of_int (lane l) :: 64 word)) = l"
proof -
  assume l: "length l = 8"
  have "to_lane 8 (uint (of_int (lane l) :: 64 word)) = to_lane 8 (lane l)"
  proof (rule nth_equalityI)
    fix i assume "i < length (to_lane 8 (uint (of_int (lane l) :: 64 word)))"
    then have i: "i < 8" by simp
    show "to_lane 8 (uint (of_int (lane l) :: 64 word)) ! i = to_lane 8 (lane l) ! i"
      by (rule bit_eqI) (use i in \<open>auto simp: bit_to_lane bit_uint_iff bit_word_of_int_iff bit_lane l\<close>)
  qed simp
  then show ?thesis using to_lane_lane [OF l] by simp
qed

lemma lane_and: "map2 (AND) (to_lane k x) (to_lane k y) = to_lane k (x AND y)"
  and lane_or: "map2 (OR) (to_lane k x) (to_lane k y) = to_lane k (x OR y)"
  by (auto simp: list_eq_iff_nth_eq bit_to_lane bit_and_iff bit_or_iff intro!: bit_eqI)

lemma data_of_uuid: "length v = 16 \<Longrightarrow> uuid_data (uuid_of_vec v) = v"
  by (simp add: uuid_of_vec_def to_lane_of_int)

lemma bytes_of_string [simp]: "bytes_of (string_of v) = v"
  by (induction v) (simp_all add: bytes_of_def string_of_def unsigned_less [where 'b = 8, where 'a = nat, simplified])

text \<open>The reference text of a UUID.\<close>

definition uuid_digit :: "nat \<Rightarrow> char" where
  "uuid_digit n = ''0123456789abcdef'' ! n"

definition uuid_text :: "uuid \<Rightarrow> string" where
  "uuid_text u =
     (let h = concat (map (\<lambda>b. [uuid_digit (unat b div 16), uuid_digit (unat b mod 16)]) (uuid_data u))
      in take 8 h @ ''-'' @ take 4 (drop 8 h) @ ''-'' @ take 4 (drop 12 h) @ ''-'' @ take 4 (drop 16 h) @ ''-'' @
         drop 20 h)"

lemma hex_chars:
  "string_of (hex_text bs) = concat (map (\<lambda>b. [uuid_digit (unat b div 16), uuid_digit (unat b mod 16)]) bs)"
proof -
  have "\<forall>v \<in> set (map of_nat [0..<16]) :: 8 word set. char_of (unat (hex_char v)) = uuid_digit (unat v)" by code_simp
  then have c: "char_of (unat (hex_char v)) = uuid_digit (unat v)" if "v < 16" for v
    using small_word [OF that] by blast
  have n: "unat (drop_bit 4 b) = unat b div 16" "unat (b AND 0x0F) = unat b mod 16" for b :: "8 word"
    unfolding and_low by (simp_all add: drop_bit_eq_div take_bit_eq_mod unat_div_distrib unat_mod_distrib)
  have "char_of (unat (hex_char (drop_bit 4 b))) = uuid_digit (unat b div 16)"
    "char_of (unat (hex_char (b AND 0x0F))) = uuid_digit (unat b mod 16)" for b
    using nibbles_small [of _ "[b]"] c [of "drop_bit 4 b"] c [of "b AND 0x0F"] unfolding n by (auto simp: nibbles_def)
  then show ?thesis by (induction bs) (simp_all add: hex_text_def nibbles_def string_of_def)
qed

lemma text_chars: "string_of (dashed (hex_text (uuid_data u))) = uuid_text u"
proof -
  have "char_of (unat (0x2D :: 8 word)) = CHR ''-''" by code_simp
  then have "string_of (dashed h) = take 8 (string_of h) @ ''-'' @ take 4 (drop 8 (string_of h)) @ ''-'' @
      take 4 (drop 12 (string_of h)) @ ''-'' @ take 4 (drop 16 (string_of h)) @ ''-'' @ drop 20 (string_of h)" for h
    by (simp add: dashed_def string_of_def take_map drop_map)
  then show ?thesis by (simp add: uuid_text_def Let_def hex_chars)
qed

lemma text_nth:
  "uuid_text u ! 14 = uuid_digit (unat (uuid_data u ! 6) div 16)"
  "uuid_text u ! 19 = uuid_digit (unat (uuid_data u ! 8) div 16)"
proof -
  obtain a0 a1 a2 a3 a4 a5 a6 a7 a8 a9 a10 a11 a12 a13 a14 a15 where d: "uuid_data u =
      [a0, a1, a2, a3, a4, a5, a6, a7, a8, a9, a10, a11, a12, a13, a14, a15]"
    using explicit16 [OF length_uuid_data [of u]] by blast
  show "uuid_text u ! 14 = uuid_digit (unat (uuid_data u ! 6) div 16)"
    "uuid_text u ! 19 = uuid_digit (unat (uuid_data u ! 8) div 16)"
    by (simp_all add: uuid_text_def Let_def d)
qed

lemma str_text: "length upper = 16 \<Longrightarrow> uuid_str upper u = uuid_text u"
  unfolding uuid_str_def text_chars [symmetric] by (simp add: m128itos_text)

lemma fromStr_text: "fromStr (uuid_text u) = Inr u"
proof -
  let ?d = "dashed (hex_text (uuid_data u))"
  have "length ?d = 36" by (simp add: dashed_def hex_text_def)
  then have "fromStr (string_of ?d) = Inr u" by (simp add: fromStr_def Let_def stom128i_text)
  then show ?thesis unfolding text_chars .
qed

text \<open>
  C39. The vector code prints a UUID like the reference, whatever the undefined half of the register holds.
\<close>

theorem uuid_prints_text:
  assumes "length upper = 16"
  shows "uuid_str upper u = uuid_text u"
  by (rule str_text [OF assms])

theorem uuid_prints_text_witness:
  "uuid_str (replicate 16 0xAB) (uuid_of_vec (map of_nat [0..<16])) = ''00010203-0405-0607-0809-0a0b0c0d0e0f''"
proof -
  have "length (replicate 16 (0xAB :: 8 word)) = 16" by simp
  from uuid_prints_text [OF this, of "uuid_of_vec (map of_nat [0..<16])"]
  have "uuid_str (replicate 16 0xAB) (uuid_of_vec (map of_nat [0..<16])) = uuid_text (uuid_of_vec (map of_nat [0..<16]))" .
  also have "\<dots> = ''00010203-0405-0607-0809-0a0b0c0d0e0f''" by code_simp
  finally show ?thesis .
qed

text \<open>
  C40. A UUID is read back from the text that it prints and from its bytes.
\<close>

theorem uuid_round_trip:
  assumes "length upper = 16"
  shows "fromStr (uuid_str upper u) = Inr u \<and> uuid_of_bytes (uuid_bytes u) = Inr u"
proof -
  have "uuid_of_bytes (uuid_bytes u) = Inr u"
    by (simp add: uuid_of_bytes_def uuid_bytes_def) (simp add: string_of_def)
  then show ?thesis by (simp add: str_text [OF assms] fromStr_text)
qed

theorem uuid_round_trip_witness:
  "fromStr (uuid_str (replicate 16 0) (UUID 0x1234567890ABCDEF 0xFEDCBA0987654321)) =
    Inr (UUID 0x1234567890ABCDEF 0xFEDCBA0987654321)"
  using uuid_round_trip [of "replicate 16 0" "UUID 0x1234567890ABCDEF 0xFEDCBA0987654321"] by simp

text \<open>
  The text of a generated UUID shows version 4 and variant 1, and only those bits are not taken from the two
  random numbers.
\<close>

theorem generated_version:
  "uuid_text (getUUID r s) ! 14 = CHR ''4'' \<and> uuid_text (getUUID r s) ! 19 \<in> set ''89ab'' \<and>
   getUUID r s = UUID (s AND 0xFF0FFFFFFFFFFFFF OR 0x0040000000000000) (r AND 0xFFFFFFFFFFFFFF3F OR 0x80)"
proof -
  let ?x = "s AND 0xFF0FFFFFFFFFFFFF OR 0x0040000000000000" and ?y = "r AND 0xFFFFFFFFFFFFFF3F OR 0x80"
  let ?a = "uuid_data (UUID ?x ?y) ! 6" and ?b = "uuid_data (UUID ?x ?y) ! 8"
  have u: "getUUID r s = UUID ?x ?y"
    by (simp add: getUUID_def Let_def set_epi64x_def map2_append lane_and lane_or uuid_of_vec_def of_int_lane
        of_int_and_eq of_int_or_eq del: zip_append)
  have bits: "bit ?a j \<longleftrightarrow> j < 8 \<and> bit ?x (48 + j)" "bit ?b j \<longleftrightarrow> j < 8 \<and> bit ?y j" for j
    using bit_to_lane [of 6 8 "uint ?x" j] bit_to_lane [of 0 8 "uint ?y" j]
    by (auto simp: nth_append bit_uint_iff simp del: bit_or_iff)
  have m: "\<forall>n \<in> set [0..<4]. \<not> bit (0xFF0FFFFFFFFFFFFF :: 64 word) (52 + n) \<and>
      (bit (0x0040000000000000 :: 64 word) (52 + n) \<longleftrightarrow> n = 2) \<and> (bit (4 :: 8 word) n \<longleftrightarrow> n = 2) \<and>
      (n < 2 \<or> \<not> bit (0xFFFFFFFFFFFFFF3F :: 64 word) (4 + n)) \<and> (bit (0x80 :: 64 word) (4 + n) \<longleftrightarrow> n = 3)" by code_simp
  have four: "bit (4 :: 8 word) j \<longleftrightarrow> j = 2" for j
  proof -
    have "(4 :: 8 word) = push_bit 2 1" by simp
    then show ?thesis by (simp only: bit_push_bit_iff bit_1_iff) auto
  qed
  have "bit (drop_bit 4 ?a) j = bit (4 :: 8 word) j" for j
  proof (cases "j < 4")
    case True
    then have "j \<in> set [0..<4]" by simp
    with m have "\<not> bit (0xFF0FFFFFFFFFFFFF :: 64 word) (52 + j)" "bit (0x0040000000000000 :: 64 word) (52 + j) \<longleftrightarrow> j = 2"
      by blast+
    then have "bit ?x (52 + j) \<longleftrightarrow> j = 2" unfolding bit_or_iff bit_and_iff by blast
    moreover have "48 + (4 + j) = 52 + j" by simp
    ultimately show ?thesis using True unfolding bit_drop_bit_eq comp_def bits(1) four by auto
  qed (auto simp only: bit_drop_bit_eq comp_def bits(1) four)
  then have "drop_bit 4 ?a = 4" by (intro bit_eqI)
  then have "unat (drop_bit 4 ?a) = 4" by simp
  then have a: "unat ?a div 16 = 4" by (simp add: drop_bit_eq_div unat_div_distrib del: uuid_data.simps)
  have "bit (drop_bit 4 ?b) 3" "\<not> bit (drop_bit 4 ?b) 2"
    using m unfolding bit_drop_bit_eq comp_def bits(2) bit_or_iff bit_and_iff by auto
  moreover have "\<forall>v \<in> set (map of_nat [0..<16]) :: 8 word set. bit v 3 \<and> \<not> bit v 2 \<longrightarrow> uuid_digit (unat v) \<in> set ''89ab''"
    by code_simp
  moreover have "drop_bit 4 ?b \<in> set (map of_nat [0..<16])"
    by (rule small_word [OF nibbles_small [of _ "[?b]"]]) (simp add: nibbles_def)
  ultimately have "uuid_digit (unat (drop_bit 4 ?b)) \<in> set ''89ab''" by blast
  then have b: "uuid_digit (unat ?b div 16) \<in> set ''89ab''"
    by (simp add: drop_bit_eq_div unat_div_distrib del: uuid_data.simps)
  show ?thesis unfolding u text_nth a using b by (simp add: uuid_digit_def del: uuid_data.simps)
qed

section \<open>Comparing and hashing\<close>

theorem uuid_eq_iff: "uuid_eq u v \<longleftrightarrow> u = v"
proof -
  have z: "a XOR b = 0 \<longleftrightarrow> a = b" for a b :: "8 word" by (metis bit.xor_left_self xor.right_neutral xor_self_eq)
  have "list_all (\<lambda>b. b = 0) (map2 (AND) (map2 (XOR) x y) (map2 (XOR) x y)) \<longleftrightarrow> x = y"
    if "length x = length y" for x y :: vec
    using that by (induction x y rule: list_induct2) (simp_all add: z)
  from this [of "uuid_data u" "uuid_data v"] show ?thesis
    by (simp add: uuid_eq_def Let_def) (metis uuid_of_data)
qed

text \<open>The comparison operators of the class, a linear order.\<close>

instantiation uuid :: linorder
begin

definition less_uuid :: "uuid \<Rightarrow> uuid \<Rightarrow> bool" where
  "less_uuid lhs rhs = uuid_less lhs rhs"

definition less_eq_uuid :: "uuid \<Rightarrow> uuid \<Rightarrow> bool" where
  "less_eq_uuid lhs rhs = (\<not> uuid_less rhs lhs)"

instance
proof
  fix u v w :: uuid
  obtain a b c d e f where s: "u = UUID a b" "v = UUID c d" "w = UUID e f" by (metis uuid.exhaust)
  show "u < v \<longleftrightarrow> u \<le> v \<and> \<not> v \<le> u" "u \<le> u" "u \<le> v \<or> v \<le> u"
    by (auto simp: s less_uuid_def less_eq_uuid_def)
  show "u \<le> v \<Longrightarrow> v \<le> u \<Longrightarrow> u = v" "u \<le> v \<Longrightarrow> v \<le> w \<Longrightarrow> u \<le> w"
    by (auto simp: s less_uuid_def less_eq_uuid_def)
qed

end

text \<open>
  The hash reads 64 bytes behind the first number of the UUID, past its data: equal UUIDs can have different
  hashes, and the second number does not count.
\<close>

lemma hash_depends_on_padding:
  "p \<noteq> q \<Longrightarrow> uuid_hash p u \<noteq> uuid_hash q u" "uuid_hash p (UUID x y) = uuid_hash p (UUID x z)"
  by (cases u; simp; metis bit.xor_left_self)+

text \<open>The constructor from two numbers puts the first one into the upper half.\<close>

lemma words_are_swapped: "uuid_of_words x y = UUID y x"
  by (simp add: uuid_of_words_def set_epi64x_def uuid_of_vec_def of_int_lane)

text \<open>A text with capital letters is read as another UUID.\<close>

lemma capitals_are_misread:
  "fromStr ''F0120034-0A56-0B78-0C12-0D3400560078'' \<noteq> fromStr ''f0120034-0a56-0b78-0c12-0d3400560078''"
  by code_simp

end
