(* ===== verification/UuidStream.thy ===== *)
theory UuidStream
  imports UuidProps Pdu
begin

text \<open>
  The rest of \<open>uuid_v4/uuid_v4.h\<close>: the other comparisons and constructors, the stream operators, the generator
  with its source of random numbers, and \<open>std::hash\<close>. A stream is the text that was written to it or is
  left to be read.
\<close>

section \<open>Comparisons and constructors\<close>

definition uuid_neq :: "uuid \<Rightarrow> uuid \<Rightarrow> bool" where
  "uuid_neq lhs rhs \<longleftrightarrow> \<not> uuid_eq lhs rhs"

definition uuid_greater :: "uuid \<Rightarrow> uuid \<Rightarrow> bool" where
  "uuid_greater lhs rhs \<longleftrightarrow> uuid_less rhs lhs"

definition uuid_less_eq :: "uuid \<Rightarrow> uuid \<Rightarrow> bool" where
  "uuid_less_eq lhs rhs \<longleftrightarrow> \<not> uuid_greater lhs rhs"

definition uuid_greater_eq :: "uuid \<Rightarrow> uuid \<Rightarrow> bool" where
  "uuid_greater_eq lhs rhs \<longleftrightarrow> \<not> uuid_less lhs rhs"

text \<open>Copying loads the 16 bytes and stores them; so does the constructor from a pointer, to at least 16 bytes.\<close>

definition uuid_copy :: "uuid \<Rightarrow> uuid" where
  "uuid_copy other = uuid_of_vec (uuid_data other)"

definition uuid_of_pointer :: "vec \<Rightarrow> uuid res" where
  "uuid_of_pointer bytes = (if length bytes < 16 then Inl (Undefined_behaviour ''bytes past the end'')
     else Inr (uuid_of_vec (take 16 bytes)))"

definition std_hash :: "64 word \<Rightarrow> uuid \<Rightarrow> 64 word" where
  "std_hash padding u = uuid_hash padding u"

section \<open>Streams\<close>

definition uuid_out :: "vec \<Rightarrow> string \<Rightarrow> uuid \<Rightarrow> string" where
  "uuid_out upper stream u = stream @ uuid_str upper u"

text \<open>\<open>stream >> s\<close> skips spaces and takes a word; the new value and the rest of the stream are the result.\<close>

definition uuid_in :: "string \<Rightarrow> (uuid \<times> string) res" where
  "uuid_in stream =
     (let rest = dropWhile is_space stream; s = takeWhile (\<lambda>c. \<not> is_space c) rest
      in bindr (fromStr s) (\<lambda>u. Inr (u, dropWhile (\<lambda>c. \<not> is_space c) rest)))"

section \<open>The generator\<close>

text \<open>
  \<open>draw\<close> gives the next number of the distribution and the new state of the random number engine. In which order
  the two arguments are drawn is left to the compiler: \<open>upper_first\<close> says that the first one is.
\<close>

definition next_uuid :: "('g \<Rightarrow> 64 word \<times> 'g) \<Rightarrow> bool \<Rightarrow> 'g \<Rightarrow> uuid \<times> 'g" where
  "next_uuid draw upper_first g =
     (let (a, g1) = draw g; (b, g2) = draw g1
      in (if upper_first then getUUID a b else getUUID b a, g2))"

section \<open>What they do\<close>

theorem uuid_comparisons:
  "uuid_neq u v \<longleftrightarrow> u \<noteq> v" "uuid_greater u v \<longleftrightarrow> u > v" "uuid_less_eq u v \<longleftrightarrow> u \<le> v" "uuid_greater_eq u v \<longleftrightarrow> u \<ge> v"
  by (simp_all add: uuid_neq_def uuid_eq_iff uuid_greater_def uuid_less_eq_def uuid_greater_eq_def less_uuid_def
      less_eq_uuid_def)

theorem uuid_copies: "uuid_copy u = u" "uuid_of_pointer (uuid_data u @ rest) = Inr u"
  by (simp_all add: uuid_copy_def uuid_of_pointer_def)

lemma digit_no_space: "n < 16 \<Longrightarrow> \<not> is_space (uuid_digit n)"
proof -
  have "\<forall>n \<in> set [0..<16]. \<not> is_space (uuid_digit n)" by code_simp
  then show "n < 16 \<Longrightarrow> \<not> is_space (uuid_digit n)" by simp
qed

lemma text_no_space: "\<forall>c \<in> set (uuid_text u). \<not> is_space c"
proof -
  let ?h = "concat (map (\<lambda>b. [uuid_digit (unat b div 16), uuid_digit (unat b mod 16)]) (uuid_data u))"
  have "unat b div 16 < 16" for b :: "8 word" using unsigned_less [of b, where ?'a = nat] by (simp add: less_mult_imp_div_less)
  then have "\<forall>c \<in> set ?h. \<not> is_space c" by (auto simp: digit_no_space)
  then have h: "\<forall>c \<in> set (take m (drop n ?h)). \<not> is_space c" "\<forall>c \<in> set (drop n ?h). \<not> is_space c" for m n
    by (meson in_set_takeD in_set_dropD)+
  moreover have "\<not> is_space CHR ''-''" by code_simp
  ultimately show ?thesis using h(1) [of _ 0] by (auto simp: uuid_text_def Let_def)
qed

text \<open>
  A UUID that was written to a stream is read back from it, after any spaces, and what follows it stays; so
  several that are written with spaces between them are read one after the other.
\<close>

theorem uuid_stream_round_trip:
  assumes "length upper = 16" "list_all is_space spaces" "rest = [] \<or> is_space (hd rest)"
  shows "uuid_in (uuid_out upper spaces u @ rest) = Inr (u, rest)"
proof -
  have "uuid_text u \<noteq> []" by (simp add: uuid_text_def Let_def)
  then have hd: "\<not> is_space (hd (uuid_text u))" using text_no_space [of u] by simp
  have "dropWhile is_space (spaces @ uuid_text u @ rest) = uuid_text u @ rest"
    using assms(2) hd \<open>uuid_text u \<noteq> []\<close> by (induction spaces) (auto simp: neq_Nil_conv)
  moreover have "takeWhile (\<lambda>c. \<not> is_space c) (uuid_text u @ rest) = uuid_text u"
    "dropWhile (\<lambda>c. \<not> is_space c) (uuid_text u @ rest) = rest"
    using text_no_space [of u] assms(3) by (cases rest; auto simp: takeWhile_append dropWhile_append)+
  ultimately show ?thesis by (simp add: uuid_in_def uuid_out_def str_text [OF assms(1)] fromStr_text)
qed

theorem uuid_stream_round_trip_witness:
  "uuid_in (uuid_out (replicate 16 0) '' '' (UUID 1 2) @ '' next'') = Inr (UUID 1 2, '' next'')"
proof -
  have "list_all is_space '' ''" "is_space (hd '' next'')" by code_simp+
  then show ?thesis using uuid_stream_round_trip [of "replicate 16 0" "'' ''" "'' next''" "UUID 1 2"] by simp
qed

text \<open>An empty stream gives an empty text, which is read past its end.\<close>

lemma uuid_in_empty: "list_all is_space s \<Longrightarrow> uuid_in s = Inl (Undefined_behaviour ''text past the end'')"
proof -
  assume "list_all is_space s"
  then have d: "dropWhile is_space s = []" by (induction s) simp_all
  show ?thesis unfolding uuid_in_def d by (simp add: fromStr_def bytes_of_def)
qed

text \<open>What the generator gives shows version 4 and variant 1, whatever the random numbers and their order.\<close>

theorem next_uuid_version:
  "uuid_text (fst (next_uuid draw b g)) ! 14 = CHR ''4'' \<and> uuid_text (fst (next_uuid draw b g)) ! 19 \<in> set ''89ab''"
proof -
  obtain a g1 where a: "draw g = (a, g1)" by fastforce
  obtain c g2 where c: "draw g1 = (c, g2)" by fastforce
  have "fst (next_uuid draw b g) = getUUID (if b then a else c) (if b then c else a)"
    by (simp add: next_uuid_def a c)
  then show ?thesis using generated_version by metis
qed

end
