(* ===== verification/Endian.thy ===== *)
theory Endian
  imports UuidProps
begin

text \<open>
  \<open>uuid_v4/endianness.h\<close>: the conversions between the byte order of the machine and little-endian. On a
  little-endian machine the macros return their argument; on a big-endian one they reverse bytes, by the
  functions below where the compiler has none of its own. The intrinsics of a compiler and the tests of its
  macros are left out.
\<close>

unbundle bit_operations_syntax

section \<open>Reversing bytes\<close>

text \<open>A \<open>uint16_t\<close> is computed in the 32 bits of an unsigned integer and cut off.\<close>

definition swap_u16 :: "16 word \<Rightarrow> 16 word" where
  "swap_u16 v = (let w = ucast v :: 32 word in
     ucast (drop_bit 8 (w AND 0xFF00) OR push_bit 8 (w AND 0x00FF)))"

definition swap_u32 :: "32 word \<Rightarrow> 32 word" where
  "swap_u32 v =
     drop_bit 24 (v AND 0xFF000000) OR drop_bit 8 (v AND 0x00FF0000) OR
     push_bit 8 (v AND 0x0000FF00) OR push_bit 24 (v AND 0x000000FF)"

definition swap_u64 :: "64 word \<Rightarrow> 64 word" where
  "swap_u64 v =
     drop_bit 56 (v AND 0xFF00000000000000) OR drop_bit 40 (v AND 0x00FF000000000000) OR
     drop_bit 24 (v AND 0x0000FF0000000000) OR drop_bit 8 (v AND 0x000000FF00000000) OR
     push_bit 8 (v AND 0x00000000FF000000) OR push_bit 24 (v AND 0x0000000000FF0000) OR
     push_bit 40 (v AND 0x000000000000FF00) OR push_bit 56 (v AND 0x00000000000000FF)"

definition swap_u128 :: "vec \<Rightarrow> vec" where
  "swap_u128 v = shuffle_epi8 v (set_epi64x [0x0001020304050607, 0x08090a0b0c0d0e0f])"

definition swap_u256 :: "vec \<Rightarrow> vec" where
  "swap_u256 v = shuffle_epi8 v
     (set_epi64x [0x0001020304050607, 0x08090a0b0c0d0e0f, 0x0001020304050607, 0x08090a0b0c0d0e0f])"

text \<open>The macros, on a machine of either byte order that uses these functions.\<close>

definition betole16 :: "bool \<Rightarrow> 16 word \<Rightarrow> 16 word" where
  "betole16 big x = (if big then swap_u16 x else x)"

definition betole32 :: "bool \<Rightarrow> 32 word \<Rightarrow> 32 word" where
  "betole32 big x = (if big then swap_u32 x else x)"

definition betole64 :: "bool \<Rightarrow> 64 word \<Rightarrow> 64 word" where
  "betole64 big x = (if big then swap_u64 x else x)"

definition betole128 :: "bool \<Rightarrow> vec \<Rightarrow> vec" where
  "betole128 big x = (if big then swap_u128 x else x)"

definition betole256 :: "bool \<Rightarrow> vec \<Rightarrow> vec" where
  "betole256 big x = (if big then swap_u256 x else x)"

section \<open>What they compute\<close>

text \<open>The bytes of a word, the lowest first.\<close>

definition le_bytes :: "nat \<Rightarrow> 'a::len word \<Rightarrow> vec" where
  "le_bytes k v = map (\<lambda>i. ucast (drop_bit (8 * i) v)) [0..<k]"

lemma le_bytes_nth: "i < k \<Longrightarrow> le_bytes k v ! i = ucast (drop_bit (8 * i) v)"
  by (simp add: le_bytes_def)

lemma le_bytes_inj:
  fixes v w :: "'a::len word"
  assumes "le_bytes k v = le_bytes k w" "LENGTH('a) \<le> 8 * k"
  shows "v = w"
proof (rule bit_word_eqI)
  fix n assume "n < LENGTH('a)"
  then have i: "n div 8 < k" using assms(2) by auto
  from arg_cong [OF assms(1), of "\<lambda>bs. bit (bs ! (n div 8)) (n mod 8)"]
  show "bit v n = bit w n" by (simp add: le_bytes_nth [OF i] bit_simps)
qed

lemma byte_eqI: "(\<And>n. n < 8 \<Longrightarrow> bit x n = bit y n) \<Longrightarrow> x = (y :: 8 word)"
  by (rule bit_word_eqI) simp

text \<open>The constants as masks of one byte.\<close>

lemma byte_masks:
  "0xFF00000000000000 = push_bit 56 (mask 8 :: 64 word)" "0x00FF000000000000 = push_bit 48 (mask 8 :: 64 word)"
  "0x0000FF0000000000 = push_bit 40 (mask 8 :: 64 word)" "0x000000FF00000000 = push_bit 32 (mask 8 :: 64 word)"
  "0x00000000FF000000 = push_bit 24 (mask 8 :: 64 word)" "0x0000000000FF0000 = push_bit 16 (mask 8 :: 64 word)"
  "0x000000000000FF00 = push_bit 8 (mask 8 :: 64 word)" "0x00000000000000FF = (mask 8 :: 64 word)"
  "0xFF000000 = push_bit 24 (mask 8 :: 32 word)" "0x00FF0000 = push_bit 16 (mask 8 :: 32 word)"
  "0x0000FF00 = push_bit 8 (mask 8 :: 32 word)" "0x000000FF = (mask 8 :: 32 word)"
  by (simp_all add: mask_eq_exp_minus_1 push_bit_eq_mult)

lemma swap_u16_bytes: "le_bytes 2 (swap_u16 v) = rev (le_bytes 2 v)"
  unfolding swap_u16_def Let_def byte_masks
  by (simp add: le_bytes_def upt_rec del: push_bit_numeral) (intro conjI; rule byte_eqI; simp add: bit_simps)

lemma swap_u32_bytes: "le_bytes 4 (swap_u32 v) = rev (le_bytes 4 v)"
  unfolding swap_u32_def byte_masks
  by (simp add: le_bytes_def upt_rec del: push_bit_numeral) (intro conjI; rule byte_eqI; simp add: bit_simps)

lemma swap_u64_bytes: "le_bytes 8 (swap_u64 v) = rev (le_bytes 8 v)"
  unfolding swap_u64_def byte_masks
  by (simp add: le_bytes_def upt_rec del: push_bit_numeral) (intro conjI; rule byte_eqI; simp add: bit_simps)

text \<open>The control bytes of the two shuffles reverse the 16 bytes of each half.\<close>

definition rev_control :: vec where
  "rev_control = [0x0f, 0x0e, 0x0d, 0x0c, 0x0b, 0x0a, 9, 8, 7, 6, 5, 4, 3, 2, 1, 0]"

lemma length_rev_control [simp]: "length rev_control = 16"
  by (simp add: rev_control_def)

lemma reverse_control: "to_lane 8 0x08090a0b0c0d0e0f @ to_lane 8 0x0001020304050607 = rev_control"
  unfolding rev_control_def by code_simp

lemma reverse_lane:
  assumes "length x = 16"
  shows "map (\<lambda>c. if bit c 7 then 0 else x ! unat (c AND 0x0F)) rev_control = rev x"
proof -
  from explicit16 [OF assms] obtain a b c d e f g h i j k l m n p q where
    x: "x = [a, b, c, d, e, f, g, h, i, j, k, l, m, n, p, q]" by blast
  show ?thesis by (simp add: x rev_control_def)
qed

lemma swap_u128_bytes: "length x = 16 \<Longrightarrow> swap_u128 x = rev x"
  using reverse_lane [of x]
  by (simp add: swap_u128_def shuffle_epi8_def set_epi64x_def reverse_control lanes_one)

lemma swap_u256_bytes:
  assumes "length x = 16" "length y = 16"
  shows "swap_u256 (x @ y) = rev x @ rev y"
proof -
  have c: "set_epi64x [0x0001020304050607, 0x08090a0b0c0d0e0f, 0x0001020304050607, 0x08090a0b0c0d0e0f] =
      rev_control @ rev_control"
    using reverse_control by (simp add: set_epi64x_def flip: append_assoc)
  have "lanes 16 (x @ y) = [x, y]" "lanes 16 (rev_control @ rev_control) = [rev_control, rev_control]"
    using lanes_append [of x 16 y] lanes_append [of rev_control 16 rev_control] assms
    by (simp_all add: lanes_one)
  then show ?thesis using assms by (simp add: swap_u256_def shuffle_epi8_def c reverse_lane)
qed

text \<open>
  The macros that swap the bytes of a word, and those of a register, are their own inverses on a machine of
  either byte order; a value that is converted and stored has its bytes in the order of a little-endian
  machine. The 32 bytes of a register are reversed in halves, each on its own.
\<close>

theorem betole_inverse:
  "betole16 big (betole16 big a) = a" "betole32 big (betole32 big b) = b" "betole64 big (betole64 big c) = c"
  by (auto simp: betole16_def betole32_def betole64_def swap_u16_bytes swap_u32_bytes swap_u64_bytes
      intro: le_bytes_inj [of 2] le_bytes_inj [of 4] le_bytes_inj [of 8])

theorem betole_vec_inverse:
  "length x = 16 \<Longrightarrow> betole128 big (betole128 big x) = x"
  "length x = 16 \<Longrightarrow> length y = 16 \<Longrightarrow> betole256 big (betole256 big (x @ y)) = x @ y"
  by (simp_all add: betole128_def betole256_def swap_u128_bytes swap_u256_bytes)

theorem betole_little_endian:
  "le_bytes 2 (betole16 big a) = (if big then rev else id) (le_bytes 2 a)"
  "le_bytes 4 (betole32 big b) = (if big then rev else id) (le_bytes 4 b)"
  "le_bytes 8 (betole64 big c) = (if big then rev else id) (le_bytes 8 c)"
  by (simp_all add: betole16_def betole32_def betole64_def swap_u16_bytes swap_u32_bytes swap_u64_bytes)

end
