(* ===== verification/SerializeTuple.thy ===== *)
theory SerializeTuple
  imports Prelude
begin

text \<open>
  The serialization of tuples, \<open>serialize-tuple/serialize_tuple.h\<close>. A tuple is the list of its elements. The
  archive comes from Boost: its operator \<open>&\<close> is a parameter, which takes the archive and an element and
  gives the archive and the element after it. A saving archive appends the element and leaves it as it is,
  a loading archive replaces it by the next one it holds.
\<close>

fun Serialize :: "('a \<Rightarrow> 'v \<Rightarrow> 'a \<times> 'v) \<Rightarrow> nat \<Rightarrow> 'a \<Rightarrow> 'v list \<Rightarrow> 'a \<times> 'v list" where
  "Serialize amp 0 ar t = (ar, t)"
| "Serialize amp (Suc n) ar t = (case amp ar (t ! n) of (ar', x) \<Rightarrow> Serialize amp n ar' (t[n := x]))"

definition serialize_tuple :: "('a \<Rightarrow> 'v \<Rightarrow> 'a \<times> 'v) \<Rightarrow> 'a \<Rightarrow> 'v list \<Rightarrow> 'a \<times> 'v list" where
  "serialize_tuple amp ar t = Serialize amp (length t) ar t"

text \<open>
  Documented behaviour of the archives over a stream of items: \<open>enc\<close> gives what an element is stored as, and
  loading an element of the same type from there gives it back.
\<close>

definition archives_ok :: "('i list \<Rightarrow> 'v \<Rightarrow> 'i list \<times> 'v) \<Rightarrow> ('i list \<Rightarrow> 'v \<Rightarrow> 'i list \<times> 'v) \<Rightarrow>
    ('v \<Rightarrow> 'v \<Rightarrow> bool) \<Rightarrow> ('v \<Rightarrow> 'i list) \<Rightarrow> bool" where
  "archives_ok save load same_type enc \<longleftrightarrow> (\<forall>ar x. save ar x = (ar @ enc x, x)) \<and>
     (\<forall>rest x y. same_type x y \<longrightarrow> load (enc x @ rest) y = (rest, x))"

lemma Serialize_save:
  "archives_ok save load same_type enc \<Longrightarrow> n \<le> length t \<Longrightarrow>
    Serialize save n ar t = (ar @ concat (map enc (rev (take n t))), t)"
proof (induction n arbitrary: ar)
  case (Suc n)
  then have "rev (take (Suc n) t) = t ! n # rev (take n t)" by (simp add: take_Suc_conv_app_nth)
  with Suc show ?case by (simp add: archives_ok_def)
qed simp

lemma Serialize_load:
  "archives_ok save load same_type enc \<Longrightarrow> n \<le> length t \<Longrightarrow> length u = length t \<Longrightarrow>
    \<forall>i < n. same_type (t ! i) (u ! i) \<Longrightarrow>
    Serialize load n (concat (map enc (rev (take n t))) @ rest) u = (rest, take n t @ drop n u)"
proof (induction n arbitrary: u)
  case (Suc n)
  have n: "n < length t" "n < length u" using Suc.prems(2,3) by simp_all
  have r: "rev (take (Suc n) t) = t ! n # rev (take n t)" using n by (simp add: take_Suc_conv_app_nth)
  have "load (enc (t ! n) @ rest') (u ! n) = (rest', t ! n)" for rest'
    using Suc.prems(1,4) by (simp add: archives_ok_def)
  moreover have "take n t @ drop n (u[n := t ! n]) = take (Suc n) t @ drop (Suc n) u"
    using n by (simp add: take_Suc_conv_app_nth drop_update_cancel Cons_nth_drop_Suc [symmetric])
  ultimately show ?case unfolding r using Suc.IH [of "u[n := t ! n]"] Suc.prems by simp
qed simp

text \<open>
  A tuple that is saved is stored with its last element first and is not changed; loading into a tuple of the
  same types gives it back and leaves what follows in the archive.
\<close>

theorem tuple_round_trip:
  assumes "archives_ok save load same_type enc" "list_all2 same_type t u"
  shows "serialize_tuple save [] t = (concat (map enc (rev t)), t) \<and>
    serialize_tuple load (concat (map enc (rev t)) @ rest) u = (rest, t)"
  using Serialize_save [OF assms(1), of "length t" t "[]"]
    Serialize_load [OF assms(1), of "length t" t u rest] assms(2)
  by (simp add: serialize_tuple_def list_all2_conv_all_nth)

theorem tuple_round_trip_witness:
  "serialize_tuple (\<lambda>ar x. (ar @ [x], x)) [] [1, 2, 3 :: nat] = ([3, 2, 1], [1, 2, 3]) \<and>
   serialize_tuple (\<lambda>ar y. (tl ar, hd ar)) [3, 2, 1, 9] [0, 0, 0 :: nat] = ([9], [1, 2, 3])"
proof -
  have "archives_ok (\<lambda>ar x. (ar @ [x], x)) (\<lambda>ar y. (tl ar, hd ar)) (\<lambda>x y. True) (\<lambda>x :: nat. [x])"
    by (simp add: archives_ok_def)
  from tuple_round_trip [OF this, of "[1, 2, 3]" "[0, 0, 0]" "[9]"] show ?thesis by simp
qed

end
