(* ===== verification/BloomExamples.thy ===== *)
theory BloomExamples
  imports BloomParams Pdu
begin

text \<open>
  The three example programs of the Bloom filter, \<open>bloom/bloom_filter_example01.cpp\<close> to \<open>03.cpp\<close>: the word
  lists and the outliers they make of them, and the programs with what they print. The parameters are computed
  by \<open>optimal_parameters\<close> of theory BloomParams over the arithmetic \<open>D\<close> of \<open>double\<close>; averages and probabilities, which are
  only printed, are left out.
\<close>

section \<open>The first program\<close>

text \<open>The bytes of an object of \<open>n\<close> bytes that \<open>insert\<close> and \<open>contains\<close> hash, on a little-endian machine.\<close>

definition pod_bytes :: "nat \<Rightarrow> 'a::len word \<Rightarrow> string" where
  "pod_bytes n w = map (\<lambda>i. char_of (unat (drop_bit (8 * i) w))) [0..<n]"

definition str_list :: "string list" where
  "str_list = [''AbC'', ''iJk'', ''XYZ'']"

definition invalid_str_list :: "string list" where
  "invalid_str_list = [''AbCX'', ''iJkX'', ''XYZX'']"

text \<open>A loop of queries: \<open>ks\<close> has the bytes of every key and its text, which is printed when it is contained.\<close>

fun query_loop :: "string \<Rightarrow> (string \<times> string) list \<Rightarrow> bloom_filter \<Rightarrow> string list res" where
  "query_loop msg [] f = Inr []"
| "query_loop msg ((k, shown) # ks) f =
     bindr (bloom_contains compute_indices k f) (\<lambda>b.
     bindr (query_loop msg ks f) (\<lambda>out. Inr (if b then (msg @ shown) # out else out)))"

definition number_keys :: "(string \<times> string) list" where
  "number_keys = map (\<lambda>i. (pod_bytes 8 (of_nat i :: size_t), to_string (int i))) [0..<100]"

definition invalid_number_keys :: "(string \<times> string) list" where
  "invalid_number_keys = map (\<lambda>i. (pod_bytes 4 (of_int i :: 32 word), to_string i)) (rev [- 99..- 1])"

text \<open>\<open>main\<close>: the exit code and the lines that are printed; the literal \<open>0.0001\<close> is the argument \<open>fpp\<close>.\<close>

definition example01 :: "'d doubles \<Rightarrow> 'd \<Rightarrow> (nat \<Rightarrow> bloom_type) \<Rightarrow> nat \<Rightarrow> (int \<times> string list) res" where
  "example01 D fpp rnd fuel =
     (let parameters = default_parameters\<lparr>param_element_count := 1000, param_random_seed := 0xA5A5A5A5\<rparr> in
      if bad_parameters (fpp_bad D fpp) parameters
      then Inr (1, [''Error - Invalid set of bloom filter parameters!''])
      else
        bindr (optimal_parameters D fpp parameters) (\<lambda>(_, optimal).
        bindr (bloom_filter_new rnd fuel optimal) (\<lambda>f0.
        bindr (insert_range compute_indices str_list f0) (\<lambda>f1.
        bindr (insert_range compute_indices (map fst number_keys) f1) (\<lambda>f.
        bindr (query_loop ''BF contains: '' (map (\<lambda>s. (s, s)) str_list) f) (\<lambda>a.
        bindr (query_loop ''BF contains: '' number_keys f) (\<lambda>b.
        bindr (query_loop ''BF falsely contains: '' (map (\<lambda>s. (s, s)) invalid_str_list) f) (\<lambda>c.
        bindr (query_loop ''BF falsely contains: '' invalid_number_keys f) (\<lambda>d.
        Inr (0, a @ b @ c @ d))))))))))"

section \<open>The word lists\<close>

text \<open>\<open>atoi\<close>, which is undefined when the number is not an \<open>int\<close>.\<close>

definition atoi :: "string \<Rightarrow> int res" where
  "atoi s =
     (let t = dropWhile is_space s;
          neg = (t \<noteq> [] \<and> hd t = CHR ''-'');
          ds = (if t \<noteq> [] \<and> (hd t = CHR ''-'' \<or> hd t = CHR ''+'') then tl t else t);
          i = (if neg then - int (read_nat 0 ds) else int (read_nat 0 ds))
      in if int_range i then Inr i else Inl (Undefined_behaviour ''atoi''))"

text \<open>The lines that \<open>std::getline\<close> reads from a text; \<open>toupper\<close> in the C locale.\<close>

fun getlines :: "string \<Rightarrow> string \<Rightarrow> string list" where
  "getlines buffer [] = (if buffer = [] then [] else [rev buffer])"
| "getlines buffer (c # cs) =
     (if c = CHR 0x0A then rev buffer # getlines [] cs else getlines (c # buffer) cs)"

definition uppercase :: "string \<Rightarrow> string" where
  "uppercase str = map (\<lambda>c. let n = of_char c :: nat in
     if 97 \<le> n \<and> n \<le> 122 then char_of (n - 32) else c) str"

text \<open>
  \<open>read_file\<close> of the second and of the third program; \<open>contents\<close> gives the text of a file that can be
  opened.
\<close>

definition read_file_upper :: "(string \<Rightarrow> string option) \<Rightarrow> string \<Rightarrow> string list option" where
  "read_file_upper contents file_name =
     map_option (\<lambda>s. concat (map (\<lambda>buffer. [buffer, uppercase buffer]) (getlines [] s))) (contents file_name)"

definition read_file :: "(string \<Rightarrow> string option) \<Rightarrow> string \<Rightarrow> string list option" where
  "read_file contents file_name = map_option (getlines []) (contents file_name)"

definition wl_list :: "string list" where
  "wl_list = [''word-list.txt'', ''word-list-large.txt'', ''word-list-extra-large.txt'', ''random-list.txt'']"

text \<open>\<open>load_word_list\<close>: the words, or the message with which it fails.\<close>

definition load_word_list :: "(string \<Rightarrow> string list option) \<Rightarrow> string list \<Rightarrow> (string + string list) res" where
  "load_word_list read argv =
     bindr (if length argv = 2 then atoi (argv ! 1) else Inr 0) (\<lambda>i.
     let index = of_int i :: size_t in
     if length argv = 2 \<and> index \<ge> of_nat (length wl_list)
     then Inr (Inl (''Invalid world list index: '' @ show_nat (unat index)))
     else (case read (wl_list ! unat index) of
         None \<Rightarrow> Inr (Inl (''Error: Failed to open file '' @ [CHR 0x27] @ wl_list ! unat index @ [CHR 0x27]))
       | Some word_list \<Rightarrow>
           if word_list = []
           then Inr (Inl ''No word list - Either none requested, or desired word list could not be loaded.'')
           else Inr (Inr word_list)))"

section \<open>The outliers\<close>

text \<open>The condition of the inversion is never true, since \<open>i & 0x00\<close> is 0.\<close>

definition invert_chars :: "string \<Rightarrow> string" where
  "invert_chars ns = map (\<lambda>(i, c). if 1 = (of_nat i AND 0x00 :: 32 word) then char_of (255 - of_char c :: nat) else c)
     (enumerate 0 ns)"

definition word_outliers :: "string \<Rightarrow> string list" where
  "word_outliers w = (if w \<noteq> rev w then [w @ rev w, w @ w, rev w @ w @ rev w] else []) @ [invert_chars w]"

definition rand_str :: "string list" where
  "rand_str = [
     ''oD5l'', ''pccW'', ''5yHt'', ''ndaN'', ''OaJh'', ''tWPc'', ''Cr9C'', ''a9zE'', ''H1wL'', ''yo1V'',
     ''16D7'', ''f2WR'', ''0MVQ'', ''PkKn'', ''PlVa'', ''MvzL'', ''9Csl'', ''JQTv'', ''IveD'', ''FDVS'',
     ''Q7HE'', ''QgcF'', ''Q9Vo'', ''V8zJ'', ''EJWT'', ''GuLC'', ''rM3d'', ''PJF4'', ''HXPW'', ''qKx3'',
     ''ztRP'', ''t4KP'', ''m1zV'', ''fn12'', ''B1QP'', ''Jr4I'', ''Mf8M'', ''4jBd'', ''anGR'', ''Pipt'',
     ''QHon'', ''GNlc'', ''UeXM'', ''mVM5'', ''ABI8'', ''RhB3'', ''5h2s'', ''hOYo'', ''gaId'', ''DX40'',
     ''THMu'', ''EwlP'', ''n9Mz'', ''oC1S'', ''BfMl'', ''uCZ1'', ''G2bA'', ''MOH9'', ''zZ0O'', ''PKDO'',
     ''3nRU'', ''Z6ie'', ''4cso'', ''LnQO'', ''MJTtT'', ''td3rC'', ''A5JNR'', ''1yL5B'', ''rQnJk'', ''jNKYF'',
     ''CD0XD'', ''pFLSG'', ''fxO1a'', ''CAjBE'', ''ORk4e'', ''0LERI'', ''R7d0x'', ''Qqd7v'', ''6Kih5'',
     ''9tTCB'', ''yCg9U'', ''D2Tv7'', ''XpNHn'', ''6zeFQ'', ''BT2cs'', ''WGhKW'', ''zTv6B'', ''TTPFk'',
     ''XjNVX'', ''pg9yW'', ''4pKiZ'', ''mQUhL'', ''xrXzR'', ''kVRm5'', ''NSyC4'', ''olXm9'', ''UWkYy'',
     ''8Ys6r'', ''yd4Fl'', ''5L4mB'', ''nP3nH'', ''f0DFb'', ''glnQa'', ''DlXQa'', ''cQdH6'', ''eBmIN'',
     ''fDj6F'', ''ezLow'', ''C15vu'', ''I2Z2j'', ''BQgzg'', ''eVBid'', ''hn5TO'', ''WZyQN'', ''xXgsE'',
     ''sL6nK'', ''8DKD8'', ''jcrbp'', ''AcRak'', ''h8N5o'', ''LViwC'', ''ThEKf'', ''O7fd5'', ''oN0Id'',
     ''OM1m0'', ''4OLiR'', ''VIa8N'', ''bJZFG'', ''9j3rL'', ''SzW0N'', ''7m7pY'', ''mY9bg'', ''k1p3e'',
     ''3OFm1'', ''r45se'', ''VYwz3'', ''pDjXt'', ''ZcqcJ'', ''npPHx'', ''hA3bw'', ''w7lSO'', ''jEmZL'',
     ''1x3AZ'', ''FN47G'', ''kThNf'', ''aC4fq'', ''rzDwi'', ''CYRNG'', ''gCeuG'', ''wCVqO'', ''d1R60'',
     ''bEauW'', ''KeUwW'', ''lIKhO'', ''RfPv3'', ''dK5wE'', ''1X7qu'', ''tRwEn'', ''1c03P'', ''GwHCl'',
     ''CsJaO'', ''zl4j1'', ''e0aEc'', ''Uskgi'', ''rgTGR'', ''jyR4g'', ''Tt6l4'', ''lRoaw'', ''94ult'',
     ''qZwBX'', ''eYW8S'', ''Qf6UH'', ''AbV56'', ''N1hJq'', ''JIaVe'', ''8LHEx'', ''DeNbS'', ''30I0a'',
     ''hm6qw'', ''3jcaO'', ''4WkuA'', ''mQ219'', ''Gb81C'', ''yx4HM'', ''Chlqfi9S1y'', ''BMwUgVFu2X'',
     ''ZmpEGOVrVe'', ''13ggJxrPkC'', ''fcJJpyMGjm'', ''9T00Dv4ZAb'', ''p3YRcP7M2o'', ''sR0qNUXCHv'',
     ''gCxWZbJ6rb'', ''R4YtzRXXUl'', ''vwyYz5j6pY'', ''XPWUvLXhJ7'', ''7PwfnVVb7U'', ''1f34Q6hOYz'',
     ''1EM2abZY61'', ''0a6Ivi4S0a'', ''Teq2LrQs2T'', ''dWXLCgWHc8'', ''LawMv7ujn4'', ''N8VFgbZQx5'',
     ''tfvHHxoDgi'', ''ImwYgXA2tf'', ''KkIES9NqZO'', ''ajcz0qjjda'', ''6Vz28vlGs9'', ''VMCc5W8cCt'',
     ''BiQB8BRJ98'', ''43CpOJSMpA'', ''jfBJdqwXcU'', ''ecHR9EO2ib'', ''LH7CcXyCZ7'', ''JntqGSgSpa'',
     ''0MbTMpZPFW'', ''5FJSdiCXzR'', ''5gda2AhA2x'', ''lrDFc1lnXk'', ''zrEwECHvjs'', ''B0JldDxFa1'',
     ''6DYal4QxKa'', ''Hsqx6kP2S4'', ''zZwnALSuFh'', ''Shh4ISZcKW'', ''P9VDaNSk7Z'', ''mEI2PLSCO6'',
     ''WyTyrQORtu'', ''IvJyMMRgh3'', ''Q6pgJq8Nkv'', ''dhOgR3tDAD'', ''Y9h6bVgbxO'', ''wA15tiOPTm'',
     ''8TaIKf1zCO'', ''z75dzabHBs'', ''AS6OPnwoJI'', ''2DSZka9Auj'', ''QLzUjV2CWs'', ''KZSN2SVhia'',
     ''7ttYKWF2ue'', ''1Zxfu7B2ST'', ''RnkpmwjsCi'', ''YpcSIzaqx5'', ''RDEwFD9gmX'', ''Nlx3V4Cjw4'',
     ''9ZdvITOj8M'', ''httUPWMNXO'', ''Ypv9PjxGwa'', ''LlwyNolNnH'', ''6xpJOht47a'', ''tbmz4WIdcG'',
     ''OwzuVDlb7D'', ''PBQKJxo8DQ'', ''uVnMQn7hK6'', ''rlnZINuDUa'', ''2feyyYukPa'', ''teOlpKuDBn'',
     ''LxBSWh0dL1'', ''Onyb7r4Jp0'', ''bZxXE6xOXg'', ''d9NSvNTunQ'', ''ONerLBic32'', ''8mar4rKmFk'',
     ''5cCN9uwaCg'', ''ElVrYOHHMv'', ''YF6Og8DX40'', ''OgiCwpCQ5a'', ''K6nSRZVxdR'', ''gqyXXXoVFW'',
     ''ulyRYizcBP'', ''khUx31K5UR'', ''qZFRzVthju'', ''pQBh0vnB20'', ''dk8NIN7ajy'', ''XP7ed1OjZx'',
     ''IRYNwA5iFR'', ''hiSEBhTukC'', ''Ns4jJ3jzGo'', ''dYoCSxjIvM'', ''HzGLbl5i1g'', ''baizENd4ko'',
     ''6rCqGBO8t1'', ''QWGfC8UaA7'', ''JFhRfxQe4K'', ''8R4W6IWANz'', ''2TnWf1w7JH'', ''0z69e0wcoG'',
     ''8SN1mRHCY7'', ''oFGCYHHwGX'', ''G8xqnBgxjO'', ''6B3SAOayHt'', ''XRW3ZSG1gw'', ''WcIjTxMxOM'',
     ''wNqCAIaTb2'', ''gO4em4HW8H'', ''TgGFSMEtbG'', ''WiwmbEw3QA'', ''D2xshYUgpu'', ''xRUZCQVzBs'',
     ''nCnUmMgIjE'', ''p4Ewt1yCJr'', ''MeOjDcaMY5'', ''1XelMeXiiI'']"

definition rand_outliers :: "nat \<Rightarrow> string list" where
  "rand_outliers i =
     (let s = (\<lambda>j. rand_str ! ((i + j) mod length rand_str));
          a = [s 0, s 0 @ s 1, s 0 @ s 2 @ s 4, s 0 @ s 1 @ s 3, s 0 @ s 1 @ s 2 @ s 3 @ s 4 @ s 5,
               s 0 @ s 1 @ s 2 @ s 3 @ s 4 @ s 5 @ s 6]
      in a @ map rev a)"

text \<open>What \<open>purify_outliers\<close> uses of the standard library: sets, their intersection, and binary search.\<close>

definition std_set :: "string list \<Rightarrow> string list" where
  "std_set xs = sort (remdups xs)"

fun set_intersection :: "string list \<Rightarrow> string list \<Rightarrow> string list" where
  "set_intersection [] ys = []"
| "set_intersection (x # xs) [] = []"
| "set_intersection (x # xs) (y # ys) =
     (if x < y then set_intersection xs (y # ys)
      else if y < x then set_intersection (x # xs) ys
      else x # set_intersection xs ys)"

function binary_search :: "string list \<Rightarrow> string \<Rightarrow> bool" where
  "binary_search xs x =
     (if xs = [] then False
      else (let m = length xs div 2 in
        if xs ! m < x then binary_search (drop (Suc m) xs) x
        else if x < xs ! m then binary_search (take m xs) x else True))"
  by auto
termination by (relation "measure (\<lambda>(xs, x). length xs)") auto

declare binary_search.simps [simp del]

definition purify_outliers :: "string list \<Rightarrow> string list \<Rightarrow> string list" where
  "purify_outliers word_list outliers =
     (let intersect_list = sort (set_intersection (std_set word_list) (std_set outliers)) in
      if intersect_list \<noteq> [] then filter (\<lambda>w. \<not> binary_search intersect_list w) outliers else outliers)"

definition generate_outliers :: "string list \<Rightarrow> string list" where
  "generate_outliers word_list =
     purify_outliers word_list (sort (concat (map word_outliers word_list) @
       concat (map rand_outliers [0..<length rand_str])))"

text \<open>The number of outliers that a filter contains.\<close>

fun count_contained :: "('a bloom_filter_scheme \<Rightarrow> bloom_type \<Rightarrow> size_t res) \<Rightarrow> string list \<Rightarrow>
    'a bloom_filter_scheme \<Rightarrow> 'c::len word \<Rightarrow> 'c word res" where
  "count_contained ci [] f n = Inr n"
| "count_contained ci (w # ws) f n =
     bindr (bloom_contains ci w f) (\<lambda>b. count_contained ci ws f (if b then n + 1 else n))"

section \<open>The second program\<close>

text \<open>Its counters, and of every round the seed, the number of queries and the number of false positives.\<close>

record fp_stats =
  total_number_of_queries :: size_t
  max_false_positive_count :: "32 word"
  min_false_positive_count :: "32 word"
  total_false_positive :: "32 word"
  total_zero_fp :: "32 word"
  bloom_filter_size :: size_t
  printed_rounds :: "(32 word \<times> size_t \<times> 32 word) list"

definition new_stats :: fp_stats where
  "new_stats = \<lparr>total_number_of_queries = 0, max_false_positive_count = 0, min_false_positive_count = - 1,
     total_false_positive = 0, total_zero_fp = 0, bloom_filter_size = 0, printed_rounds = []\<rparr>"

definition count_round :: "32 word \<Rightarrow> size_t \<Rightarrow> size_t \<Rightarrow> 32 word \<Rightarrow> fp_stats \<Rightarrow> fp_stats" where
  "count_round seed n filter_size fp st =
     (let queries = total_number_of_queries st + n in
      \<lparr>total_number_of_queries = queries,
       max_false_positive_count =
         (if fp < min_false_positive_count st then max_false_positive_count st
          else if fp > max_false_positive_count st then fp else max_false_positive_count st),
       min_false_positive_count = (if fp < min_false_positive_count st then fp else min_false_positive_count st),
       total_false_positive = total_false_positive st + fp,
       total_zero_fp = (if 0 = fp then total_zero_fp st + 1 else total_zero_fp st),
       bloom_filter_size = filter_size,
       printed_rounds = printed_rounds st @ [(seed, queries, fp)]\<rparr>)"

text \<open>\<open>1.0 / word_list.size()\<close>.\<close>

definition desired_probability :: "'d doubles \<Rightarrow> string list \<Rightarrow> 'd" where
  "desired_probability D word_list = d_div D (lit D 1) (of_size D (of_nat (length word_list)))"

text \<open>
  The loop over the seeds. \<open>rnd seed\<close> is the sequence of \<open>rand()\<close> in the round of that seed; an \<open>Inl\<close> is the
  message with which the program ends early, with exit code 1.
\<close>

function example02_rounds :: "'d doubles \<Rightarrow> (32 word \<Rightarrow> nat \<Rightarrow> bloom_type) \<Rightarrow> nat \<Rightarrow> string list \<Rightarrow>
    string list \<Rightarrow> 32 word \<Rightarrow> fp_stats \<Rightarrow> (string + fp_stats) res" where
  "example02_rounds D rnd fuel word_list outliers seed0 st =
     (if seed0 < 1000 then
        (let seed = seed0 + 1;
             fpp = desired_probability D word_list;
             parameters = default_parameters\<lparr>param_element_count := of_nat (length word_list),
               param_random_seed := ucast seed\<rparr> in
         if bad_parameters (fpp_bad D fpp) parameters
         then Inr (Inl ''Error - Invalid set of bloom filter parameters!'')
         else
           bindr (optimal_parameters D fpp parameters) (\<lambda>(_, optimal).
           bindr (bloom_filter_new (rnd seed) fuel optimal) (\<lambda>f0.
           bindr (insert_range compute_indices word_list f0) (\<lambda>f.
           bindr (contains_all compute_indices word_list f) (\<lambda>it.
           if it \<noteq> length word_list
           then Inr (Inl (''ERROR: key not found in bloom filter! =>'' @ word_list ! it))
           else
             bindr (count_contained compute_indices outliers f 0) (\<lambda>fp.
             example02_rounds D rnd fuel word_list outliers seed
               (count_round seed (of_nat (length outliers + length word_list)) (table_size f) fp st)))))))
      else Inr (Inr st))"
  by auto
termination
proof (relation "measure (\<lambda>(D, r, u, w, os, seed, st). 1000 - unat seed)", goal_cases)
  case (2 D rnd fuel word_list outliers seed0 st seed)
  then have "unat seed0 < 1000" by (simp add: word_less_nat_alt)
  moreover then have "unat (seed0 + 1) = unat seed0 + 1" by (simp add: unat_word_ariths)
  ultimately show ?case using 2 by simp
qed simp

declare example02_rounds.simps [simp del]

text \<open>\<open>main\<close>; with the counters it gives the size of all words, which it prints too.\<close>

definition example02 :: "'d doubles \<Rightarrow> (string \<Rightarrow> string option) \<Rightarrow> (32 word \<Rightarrow> nat \<Rightarrow> bloom_type) \<Rightarrow> nat \<Rightarrow>
    string list \<Rightarrow> (string + (fp_stats \<times> size_t)) res" where
  "example02 D contents rnd fuel argv =
     bindr (load_word_list (read_file_upper contents) argv) (\<lambda>loaded.
     case loaded of
       Inl msg \<Rightarrow> Inr (Inl msg)
     | Inr word_list \<Rightarrow>
         let outliers = generate_outliers word_list;
             word_list_storage_size = sum_list (map (\<lambda>w. of_nat (length w)) word_list)
         in bindr (example02_rounds D rnd fuel word_list outliers 0 new_stats) (\<lambda>r.
            case r of Inl msg \<Rightarrow> Inr (Inl msg) | Inr st \<Rightarrow> Inr (Inr (st, word_list_storage_size))))"

section \<open>The third program\<close>

lemma compress_shrinks:
  "compress True p f = Inr r \<Longrightarrow> fst r \<Longrightarrow> last (size_list (snd r)) < last (size_list f)"
  by (auto simp: compress_def Let_def bindr_Inr_iff not_le split: if_splits)

text \<open>The loop that compresses by 5 percent; it prints the size and the number of false positives.\<close>

function example03_loop :: "string list \<Rightarrow> string list \<Rightarrow> compressible_bloom_filter \<Rightarrow> (size_t \<times> size_t) list \<Rightarrow>
    (string + (size_t \<times> size_t) list) res" where
  "example03_loop word_list outliers f rows =
     (if compressible_size f > 1 then
        bindr (contains_all compute_indices_list word_list f) (\<lambda>it.
        if it \<noteq> length word_list
        then Inr (Inl (''ERROR: key not found in bloom filter! =>'' @ word_list ! it))
        else
          bindr (count_contained compute_indices_list outliers f 0) (\<lambda>total_false_positive.
          let printed = rows @ [(compressible_size f, total_false_positive)] in
          bindr (compress True (five_percent_off (compressible_size f)) f) (\<lambda>r.
          if fst r then example03_loop word_list outliers (snd r) printed else Inr (Inr printed))))
      else Inr (Inr rows))"
  by auto
termination
  by (relation "measure (\<lambda>(w, os, f, rows). unat (compressible_size f))")
    (auto simp: compressible_size_def word_less_nat_alt [symmetric] dest: compress_shrinks)

declare example03_loop.simps [simp del]

definition example03 :: "'d doubles \<Rightarrow> (string \<Rightarrow> string option) \<Rightarrow> (nat \<Rightarrow> bloom_type) \<Rightarrow> nat \<Rightarrow>
    string list \<Rightarrow> (string + (size_t \<times> size_t) list) res" where
  "example03 D contents rnd fuel argv =
     bindr (load_word_list (read_file contents) argv) (\<lambda>loaded.
     case loaded of
       Inl msg \<Rightarrow> Inr (Inl msg)
     | Inr word_list \<Rightarrow>
         let outliers = generate_outliers word_list;
             fpp = desired_probability D word_list;
             parameters = default_parameters\<lparr>param_element_count := of_nat (length word_list),
               param_random_seed := 0xA57EC3B2, maximum_number_of_hashes := 7\<rparr>
         in if bad_parameters (fpp_bad D fpp) parameters
            then Inr (Inl ''Error - Invalid set of bloom filter parameters!'')
            else
              bindr (optimal_parameters D fpp parameters) (\<lambda>(_, optimal).
              bindr (bloom_filter_new rnd fuel optimal) (\<lambda>f0.
              bindr (insert_range compute_indices_list word_list (compressible_new f0)) (\<lambda>f.
              example03_loop word_list outliers f []))))"

end
