(* ===== verification/BloomExampleProps.thy ===== *)
theory BloomExampleProps
  imports BloomExamples BloomExact
begin

text \<open>
  What the example programs of the Bloom filter do: the best parameters are found, the outliers are those
  they are meant to be, no program ever misses a key, and compressing by 5 percent goes down to one cell.
\<close>

section \<open>The search for the best parameters\<close>

lemma search_best_from:
  assumes "1 \<le> k" "k \<le> 1000" and "\<forall>j \<in> {1..<k}. min_m \<le> curr_m j" "\<forall>j \<in> {1..<min_k}. min_m < curr_m j"
    and "1 \<le> min_k \<and> min_k < k \<and> curr_m min_k = min_m"
  shows "\<exists>b. search_best curr_m k min_k min_m = (b, curr_m b) \<and> 1 \<le> b \<and> b < 1000 \<and>
    (\<forall>j \<in> {1..<1000}. curr_m b \<le> curr_m j) \<and> (\<forall>j \<in> {1..<b}. curr_m b < curr_m j)"
  using assms
proof (induction curr_m k min_k min_m rule: search_best.induct)
  case (1 curr_m k min_k min_m)
  note IH = 1(1,2) and h = 1(3-7)
  have split: "j \<in> {1..<k + 1} \<longleftrightarrow> j \<in> {1..<k} \<or> j = k" for j using h(1) by auto
  consider (stop) "k = 1000" | (better) "k < 1000" "curr_m k < min_m" | (worse) "k < 1000" "\<not> curr_m k < min_m"
    using h(2) by linarith
  then show ?case
  proof cases
    case stop
    then have "search_best curr_m k min_k min_m = (min_k, min_m)" by (simp add: search_best.simps)
    then show ?thesis using h(3-5) stop by auto
  next
    case better
    have lt: "\<forall>j \<in> {1..<k}. curr_m k < curr_m j" using better(2) h(3) by fastforce
    then have "\<forall>j \<in> {1..<k + 1}. curr_m k \<le> curr_m j" unfolding Ball_def split by (metis order.refl order.strict_implies_order)
    with lt show ?thesis using IH(1) better h(1) by (subst search_best.simps) simp
  next
    case worse
    have "\<forall>j \<in> {1..<k + 1}. min_m \<le> curr_m j" using worse(2) h(3) unfolding Ball_def split by fastforce
    then show ?thesis using IH(2) worse h(1,4,5) by (subst search_best.simps) simp
  qed
qed

text \<open>
  The search ends with the first of the numbers of hashes below 1000 for which the computed number of bits is
  smallest, and that number of bits.
\<close>

theorem search_finds_first_minimum:
  assumes "curr_m 1 < infinity"
  shows "\<exists>b. search_best curr_m 1 0 infinity = (b, curr_m b) \<and> 1 \<le> b \<and> b < 1000 \<and>
    (\<forall>j \<in> {1..<1000}. curr_m b \<le> curr_m j) \<and> (\<forall>j \<in> {1..<b}. curr_m b < curr_m j)"
proof -
  have "search_best curr_m 1 0 infinity = search_best curr_m 2 1 (curr_m 1)"
    using assms by (subst search_best.simps) (simp add: numeral_2_eq_2)
  moreover have "\<forall>j \<in> {1..<2}. curr_m 1 \<le> curr_m j" by (simp add: numeral_2_eq_2)
  ultimately show ?thesis using search_best_from [of 2 "curr_m 1" curr_m 1] by simp
qed

theorem search_finds_first_minimum_witness:
  "\<exists>b. search_best (\<lambda>k. if k = 1 then 9 else if k = 7 then 4 else 5 :: nat) 1 0 10 = (b, 4) \<and> b = 7"
proof -
  let ?c = "\<lambda>k::nat. if k = 1 then 9 else if k = 7 then 4 else 5 :: nat"
  from search_finds_first_minimum [of ?c 10] obtain b where
    b: "search_best ?c 1 0 10 = (b, ?c b)" "\<forall>j \<in> {1..<1000}. ?c b \<le> ?c j" unfolding if_True by fastforce
  have "?c b \<le> 4" using bspec [OF b(2), of 7] by simp
  then have "b = 7" by (auto split: if_splits)
  with b(1) show ?thesis by simp
qed

section \<open>The outliers\<close>

lemma invert_chars_id: "invert_chars w = w"
  by (simp add: invert_chars_def case_prod_unfold map_snd_enumerate [unfolded snd_def])

lemma set_set_intersection:
  "sorted xs \<Longrightarrow> sorted ys \<Longrightarrow> set (set_intersection xs ys) = set xs \<inter> set ys"
proof (induction xs ys rule: set_intersection.induct)
  case (3 x xs y ys)
  consider "x < y" | "y < x" | "x = y" by fastforce
  then show ?case
  proof cases
    case 1
    then have "x \<notin> set (y # ys)" using 3(5) by auto
    then show ?thesis using 3 1 by auto
  next
    case 2
    then have "y \<notin> set (x # xs)" using 3(4) by auto
    then show ?thesis using 3 2 by auto
  qed (use 3 in auto)
qed simp_all

lemma binary_search_iff: "sorted xs \<Longrightarrow> binary_search xs x \<longleftrightarrow> x \<in> set xs"
proof (induction xs x rule: binary_search.induct)
  case (1 xs x)
  show ?case
  proof (cases "xs = []")
    case False
    let ?m = "length xs div 2"
    have m: "?m < length xs" using False by (cases xs) auto
    have s: "set xs = set (take ?m xs) \<union> {xs ! ?m} \<union> set (drop (Suc ?m) xs)"
      by (subst id_take_nth_drop [OF m]) simp
    have sorted: "sorted (take ?m xs)" "sorted (drop (Suc ?m) xs)"
      using 1(3) sorted_wrt_take sorted_wrt_drop by blast+
    have "sorted (take ?m xs @ xs ! ?m # drop (Suc ?m) xs)" using 1(3) id_take_nth_drop [OF m] by simp
    then have le: "\<forall>y \<in> set (take ?m xs). y \<le> xs ! ?m" "\<forall>y \<in> set (drop (Suc ?m) xs). xs ! ?m \<le> y"
      by (auto simp: sorted_append)
    consider "xs ! ?m < x" | "x < xs ! ?m" | "x = xs ! ?m" by fastforce
    then show ?thesis
    proof cases
      case 1
      then have "x \<in> set xs \<longleftrightarrow> x \<in> set (drop (Suc ?m) xs)" using s le(1) by fastforce
      then show ?thesis using 1 False "1.IH"(1) sorted(2) by (subst binary_search.simps) (simp add: Let_def)
    next
      case 2
      then have "x \<in> set xs \<longleftrightarrow> x \<in> set (take ?m xs)" using s le(2) by fastforce
      moreover have "\<not> xs ! ?m < x" using 2 by simp
      ultimately show ?thesis using 2 False "1.IH"(2) sorted(1) by (subst binary_search.simps) (simp add: Let_def)
    next
      case 3
      then show ?thesis using False s by (subst binary_search.simps) (simp add: Let_def)
    qed
  qed (simp add: binary_search.simps)
qed

lemma purify_outliers_filter: "purify_outliers ws os = filter (\<lambda>w. w \<notin> set ws) os"
proof -
  let ?i = "sort (set_intersection (std_set ws) (std_set os))"
  have s: "set ?i = set ws \<inter> set os" by (simp add: set_set_intersection std_set_def)
  have "filter (\<lambda>w. \<not> binary_search ?i w) os = filter (\<lambda>w. w \<notin> set ws) os"
    using s by (intro filter_cong) (auto simp: binary_search_iff)
  moreover have "filter (\<lambda>w. w \<notin> set ws) os = os" if "?i = []"
    using s that by (intro filter_True) auto
  ultimately show ?thesis by (simp add: purify_outliers_def Let_def)
qed

text \<open>
  The outliers are, in order and with repetitions, the doubled words and the combinations of the random strings
  that are not in the word list; the words with inverted characters, which the code adds too, contribute
  nothing.
\<close>

theorem outliers_reference:
  "generate_outliers ws = sort (filter (\<lambda>w. w \<notin> set ws)
     (concat (map (\<lambda>w. if w \<noteq> rev w then [w @ rev w, w @ w, rev w @ w @ rev w] else []) ws) @
      concat (map rand_outliers [0..<length rand_str])))"
proof -
  have drop: "filter (\<lambda>w. w \<notin> A) (concat (map word_outliers us)) = filter (\<lambda>w. w \<notin> A)
      (concat (map (\<lambda>w. if w \<noteq> rev w then [w @ rev w, w @ w, rev w @ w @ rev w] else []) us))"
    if "set us \<subseteq> A" for us A
    using that by (induction us) (auto simp: word_outliers_def invert_chars_id)
  show ?thesis
    unfolding generate_outliers_def purify_outliers_filter filter_sort filter_append drop [OF subset_refl] ..
qed

section \<open>Queries\<close>

lemma query_loop_ok:
  assumes "\<forall>p \<in> set ks. bloom_contains compute_indices (fst p) f = Inr (P (fst p))"
  shows "query_loop msg ks f = Inr (map (\<lambda>p. msg @ snd p) (filter (\<lambda>p. P (fst p)) ks))"
  using assms by (induction msg ks f rule: query_loop.induct) auto

lemma count_contained_ok:
  assumes "\<forall>w \<in> set ws. bloom_contains ci w f = Inr (P w)"
  shows "count_contained ci ws f n = Inr (n + of_nat (length (filter P ws)))"
  using assms by (induction ci ws f n rule: count_contained.induct) auto

lemma example01_parameters:
  "\<not> bad_parameters False (default_parameters\<lparr>param_element_count := 1000, param_random_seed := 0xA5A5A5A5\<rparr>)"
  by code_simp

text \<open>
  The first program ends with exit code 0; it prints that the filter contains each of the 3 strings and of the
  100 numbers, in this order, and after that only lines on keys that it falsely contains.
\<close>

theorem example01_finds_all:
  assumes "best_found D 1000 fpp best" and best: "fst best \<le> 128" "0 < snd best" "snd best \<le> - 8"
  shows "\<exists>xs. example01 D fpp rnd fuel = Inr (0, map ((@) ''BF contains: '') (str_list @ map snd number_keys) @
    map ((@) ''BF falsely contains: '') xs) \<and> set xs \<subseteq> set (invalid_str_list @ map snd invalid_number_keys)"
proof -
  let ?p = "default_parameters\<lparr>param_element_count := 1000, param_random_seed := 0xA5A5A5A5\<rparr>" and ?ci = compute_indices
  have d: "minimum_size ?p = 1" "maximum_size ?p = - 1" "minimum_number_of_hashes ?p = 1"
    by (simp_all add: default_parameters_def)
  have "best_found D (param_element_count ?p) fpp best" using assms(1) by simp
  note opt = optimal_parameters_found [OF this example01_parameters]
  from optimal_filter [OF example01_parameters d disjI1 [OF best(1)] best(2,3)] obtain f0 where
    f0: "bloom_filter_new rnd fuel (snd (compute_optimal_parameters False best ?p)) = Inr f0" "bloom_ok f0" by blast
  from plain.insert_range_ok [OF f0(2), of str_list] obtain f1 where f1: "insert_range ?ci str_list f0 = Inr f1" by blast
  note c1 = plain.inserted [OF f0(2) f1]
  from plain.insert_range_ok [OF c1(1), of "map fst number_keys"] obtain f where
    f: "insert_range ?ci (map fst number_keys) f1 = Inr f" by blast
  note c = plain.inserted [OF c1(1) f]
  define P where "P k \<longleftrightarrow> bloom_contains ?ci k f = Inr True" for k
  have P: "bloom_contains ?ci k f = Inr (P k)" for k using plain.contains_iff [OF c(1), of k] by (simp add: P_def)
  have all: "k \<in> set str_list \<union> fst ` set number_keys \<Longrightarrow> P k" for k
    using c1(4) [of k] c(4) [of k] by (auto simp: P_def)
  let ?s = "\<lambda>xs. map (\<lambda>s. (s, s)) xs :: (string \<times> string) list"
  have q: "query_loop msg ks f = Inr (map (\<lambda>p. msg @ snd p) (filter (\<lambda>p. P (fst p)) ks))" for msg ks
    by (rule query_loop_ok) (simp add: P)
  let ?xs = "map snd (filter (\<lambda>p. P (fst p)) (?s invalid_str_list @ invalid_number_keys))"
  have t: "filter (\<lambda>p. P (fst p)) (?s str_list) = ?s str_list" "filter (\<lambda>p. P (fst p)) number_keys = number_keys"
    using all by (auto intro!: filter_True)
  have "example01 D fpp rnd fuel = Inr (0, map ((@) ''BF contains: '') (str_list @ map snd number_keys) @
      map ((@) ''BF falsely contains: '') ?xs)"
    unfolding example01_def Let_def if_not_P [OF opt(1)] opt(2) bindr_simps prod.case f0(1) f1 f q t by (simp add: comp_def)
  moreover have "set ?xs \<subseteq> set (invalid_str_list @ map snd invalid_number_keys)" by auto
  ultimately show ?thesis by blast
qed

section \<open>The second program\<close>

text \<open>The counters after rounds with the given seeds, filter sizes and numbers of false positives.\<close>

abbreviation count_rounds :: "size_t \<Rightarrow> (32 word \<times> size_t \<times> 32 word) list \<Rightarrow> fp_stats \<Rightarrow> fp_stats" where
  "count_rounds n rs st \<equiv> fold (\<lambda>(seed, filter_size, fp). count_round seed n filter_size fp) rs st"

lemma count_rounds_min:
  "min_false_positive_count (count_rounds n rs st) \<le> min_false_positive_count st \<and>
   (\<forall>(s, z, fp) \<in> set rs. min_false_positive_count (count_rounds n rs st) \<le> fp)"
proof (induction rs arbitrary: st)
  case (Cons r rs)
  obtain s z fp where r: "r = (s, z, fp)" by (cases r)
  let ?st = "count_round s n z fp st"
  have "min_false_positive_count ?st \<le> fp" "min_false_positive_count ?st \<le> min_false_positive_count st"
    by (auto simp: count_round_def Let_def)
  moreover have "min_false_positive_count (count_rounds n rs ?st) \<le> min_false_positive_count ?st" using Cons by blast
  ultimately show ?case using Cons [of ?st] unfolding r by (auto intro: order_trans)
qed simp

lemma count_rounds_sums:
  "total_number_of_queries (count_rounds n rs st) = total_number_of_queries st + of_nat (length rs) * n \<and>
   total_false_positive (count_rounds n rs st) = total_false_positive st + sum_list (map (\<lambda>(s, z, fp). fp) rs) \<and>
   map (\<lambda>(s, q, fp). (s, fp)) (printed_rounds (count_rounds n rs st)) =
     map (\<lambda>(s, q, fp). (s, fp)) (printed_rounds st) @ map (\<lambda>(s, z, fp). (s, fp)) rs"
proof (induction rs arbitrary: st)
  case (Cons r rs)
  obtain s z fp where r: "r = (s, z, fp)" by (cases r)
  show ?case using Cons [of "count_round s n z fp st"] unfolding r
    by (simp add: count_round_def Let_def algebra_simps)
qed simp

lemma seed_is_good:
  assumes "ws \<noteq> []" "length ws < 2 ^ 64" "seed \<noteq> (0 :: 32 word)"
  shows "\<not> bad_parameters False (default_parameters\<lparr>param_element_count := of_nat (length ws),
    param_random_seed := ucast seed\<rparr>)"
proof -
  have "unat (of_nat (length ws) :: size_t) = length ws" using assms(2) by (simp add: unat_of_nat)
  then have "(of_nat (length ws) :: size_t) \<noteq> 0" using assms(1) by (metis length_0_conv unat_0)
  moreover have l: "unat seed < 2 ^ 32" using unsigned_less [of seed] by simp
  then have u: "unat (ucast seed :: size_t) = unat seed" by (simp add: unsigned_ucast_eq take_bit_nat_eq_self)
  then have "(ucast seed :: size_t) \<noteq> 0" using assms(3) by (metis unsigned_0 unsigned_eq_0_iff)
  moreover have "(ucast seed :: size_t) \<noteq> 0xFFFFFFFFFFFFFFFF"
  proof
    assume "(ucast seed :: size_t) = 0xFFFFFFFFFFFFFFFF"
    then have "unat seed = unat (0xFFFFFFFFFFFFFFFF :: size_t)" unfolding u [symmetric] by (rule arg_cong)
    with l show False by simp
  qed
  ultimately show ?thesis by (simp add: bad_parameters_def default_parameters_def)
qed

lemma example02_rounds_ok:
  assumes ws: "ws \<noteq> []" "length ws < 2 ^ 64" and found: "best_found D (of_nat (length ws)) (desired_probability D ws) best"
    and best: "fst best \<le> 128" "0 < snd best" "snd best \<le> - 8" and n: "unat seed + n = 1000"
  shows "\<exists>rs. map fst rs = map of_nat [unat seed + 1..<1001] \<and> example02_rounds D rnd fuel ws os seed st =
    Inr (Inr (count_rounds (of_nat (length os + length ws)) rs st))"
  using n
proof (induction n arbitrary: seed st)
  case 0
  then have "\<not> seed < 1000" by (simp add: word_less_nat_alt)
  then show ?case using 0 by (intro exI [of _ "[]"]) (simp add: example02_rounds.simps [of D rnd fuel ws os seed])
next
  case (Suc n)
  let ?s = "seed + 1" let ?p = "default_parameters\<lparr>param_element_count := of_nat (length ws), param_random_seed := ucast ?s\<rparr>"
  have s: "seed < 1000" "unat ?s = unat seed + 1"
    using Suc.prems by (simp_all add: word_less_nat_alt unat_word_ariths)
  then have "?s \<noteq> 0" by (metis add_is_0 one_neq_zero unat_0)
  note good = seed_is_good [OF ws this]
  have d: "minimum_size ?p = 1" "maximum_size ?p = - 1" "minimum_number_of_hashes ?p = 1"
    by (simp_all add: default_parameters_def)
  have "best_found D (param_element_count ?p) (desired_probability D ws) best" using found by simp
  note opt = optimal_parameters_found [OF this good]
  from optimal_filter [OF good d disjI1 [OF best(1)] best(2,3)] obtain f0 where
    f0: "bloom_filter_new (rnd ?s) fuel (snd (compute_optimal_parameters False best ?p)) = Inr f0" "bloom_ok f0" by blast
  from plain.insert_range_ok [OF f0(2), of ws] obtain f where f: "insert_range compute_indices ws f0 = Inr f" by blast
  note c = plain.inserted [OF f0(2) f]
  have all: "contains_all compute_indices ws f = Inr (length ws)" using c(4) by (intro contains_range(1)) blast
  have "\<forall>w \<in> set os. bloom_contains compute_indices w f =
      Inr (positions (\<lambda>h. ucast h mod table_size f) (salt f) w \<subseteq> set_bits f)" using plain.contains_iff [OF c(1)] by blast
  note q = count_contained_ok [OF this]
  obtain fp :: "32 word" where fp: "count_contained compute_indices os f 0 = Inr fp" unfolding q by blast
  let ?k = "of_nat (length os + length ws) :: size_t"
  have step: "example02_rounds D rnd fuel ws os seed st =
      example02_rounds D rnd fuel ws os ?s (count_round ?s ?k (table_size f) fp st)"
    by (subst example02_rounds.simps) (simp add: s(1) Let_def opt f0(1) f all fp)
  from Suc.IH [of ?s "count_round ?s ?k (table_size f) fp st"] Suc.prems s(2) obtain rs where
    rs: "map fst rs = map of_nat [unat ?s + 1..<1001]" "example02_rounds D rnd fuel ws os ?s (count_round ?s ?k (table_size f) fp st)
      = Inr (Inr (count_rounds ?k rs (count_round ?s ?k (table_size f) fp st)))" by auto
  have "[unat seed + 1..<1001] = unat ?s # [unat ?s + 1..<1001]" using Suc.prems s(2) by (simp add: upt_conv_Cons)
  then show ?case using rs step
    by (intro exI [of _ "(?s, table_size f, fp) # rs"]) simp
qed

lemma load_nonempty: "load_word_list read argv = Inr (Inr ws) \<Longrightarrow> ws \<noteq> []"
  by (auto simp: load_word_list_def Let_def bindr_Inr_iff split: if_splits option.splits)

text \<open>
  With a word list that can be loaded the second program runs all its 1000 rounds and never reports a missing
  key. The seeds it prints are 1 to 1000, the queries add up, the smallest number of false positives is below
  all of them and the total is their sum.
\<close>

theorem example02_completes:
  assumes "load_word_list (read_file_upper contents) argv = Inr (Inr ws)" "length ws < 2 ^ 64"
    and "best_found D (of_nat (length ws)) (desired_probability D ws) best"
    and "fst best \<le> 128" "0 < snd best" "snd best \<le> - 8"
  shows "\<exists>st sz. example02 D contents rnd fuel argv = Inr (Inr (st, sz)) \<and>
    map fst (printed_rounds st) = map of_nat [1..<1001] \<and>
    total_number_of_queries st = 1000 * of_nat (length (generate_outliers ws) + length ws) \<and>
    (\<forall>(s, q, fp) \<in> set (printed_rounds st). min_false_positive_count st \<le> fp) \<and>
    total_false_positive st = sum_list (map (\<lambda>(s, q, fp). fp) (printed_rounds st))"
proof -
  let ?os = "generate_outliers ws" let ?n = "of_nat (length ?os + length ws) :: size_t"
  have "unat (0 :: 32 word) + 1000 = 1000" by simp
  from example02_rounds_ok [OF load_nonempty [OF assms(1)] assms(2-6) this, of rnd fuel ?os new_stats] obtain rs where
    rs: "map fst rs = map of_nat [1..<1001]" "example02_rounds D rnd fuel ws ?os 0 new_stats =
      Inr (Inr (count_rounds ?n rs new_stats))" by auto
  let ?st = "count_rounds ?n rs new_stats"
  note sums = count_rounds_sums [of ?n rs new_stats]
  have p: "map (\<lambda>(s, q, fp). (s, fp)) (printed_rounds ?st) = map (\<lambda>(s, z, fp). (s, fp)) rs"
    using sums by (simp add: new_stats_def)
  have fst: "map fst xs = map fst (map (\<lambda>(s, q, fp). (s, fp)) xs)" and snd: "map (\<lambda>(s, q, fp). fp) xs =
      map snd (map (\<lambda>(s, q, fp). (s, fp)) xs)" for xs :: "(32 word \<times> size_t \<times> 32 word) list" by auto
  have "map fst (printed_rounds ?st) = map fst rs" using arg_cong [OF p, of "map fst"] unfolding fst [symmetric] .
  moreover have fps: "map (\<lambda>(s, q, fp). fp) (printed_rounds ?st) = map (\<lambda>(s, q, fp). fp) rs"
    using arg_cong [OF p, of "map snd"] unfolding snd [symmetric] .
  moreover have "length rs = 1000" using arg_cong [OF rs(1), of length] by simp
  moreover have "min_false_positive_count ?st \<le> fp" if "(s, q, fp) \<in> set (printed_rounds ?st)" for s q fp
  proof -
    have "fp \<in> set (map (\<lambda>(s, q, fp). fp) rs)" using that unfolding fps [symmetric] by force
    then show ?thesis using count_rounds_min [of ?n rs new_stats] by auto
  qed
  ultimately show ?thesis
    using rs sums assms(1) by (auto simp: example02_def Let_def new_stats_def)
qed

text \<open>
  The maximum that the second program reports does not look at a round that sets a new minimum: when every
  round has fewer false positives than the one before, the reported maximum is 0.
\<close>

theorem maximum_of_decreasing_counts:
  assumes "sorted_wrt (>) (- 1 # map (\<lambda>(s, z, fp). fp) rs)"
  shows "max_false_positive_count (count_rounds n rs new_stats) = 0"
proof -
  have "max_false_positive_count (count_rounds n rs st) = max_false_positive_count st"
    if "sorted_wrt (>) (min_false_positive_count st # map (\<lambda>(s, z, fp). fp) rs)" for st
    using that
  proof (induction rs arbitrary: st)
    case (Cons r rs)
    obtain s z fp where r: "r = (s, z, fp)" by (cases r)
    show ?case using Cons.IH [of "count_round s n z fp st"] Cons.prems unfolding r by (simp add: count_round_def Let_def)
  qed simp
  from this [of new_stats] assms show ?thesis by (simp add: new_stats_def)
qed

theorem maximum_of_decreasing_counts_witness:
  "max_false_positive_count (count_rounds 10 [(1, 64, 7), (2, 64, 5), (3, 64, 2)] new_stats) = 0"
  using maximum_of_decreasing_counts [of "[(1, 64, 7), (2, 64, 5), (3, 64, 2)]" 10] by simp

section \<open>Compressing by 5 percent\<close>

lemma excess_bits_le: "2 ^ 53 \<le> n \<Longrightarrow> 2 ^ 52 * 2 ^ excess_bits n \<le> n"
proof (induction n rule: excess_bits.induct)
  case (1 n)
  show ?case
  proof (cases "n div 2 < 2 ^ 53")
    case True
    then have "excess_bits n = 1" using 1(2) by (simp add: excess_bits.simps [of n] excess_bits.simps [of "n div 2"])
    then show ?thesis using 1(2) by simp
  next
    case False
    then have "2 ^ 52 * 2 ^ excess_bits (n div 2) \<le> n div 2" using 1 by simp
    moreover have "excess_bits n = Suc (excess_bits (n div 2))" using 1(2) by (simp add: excess_bits.simps [of n])
    ultimately show ?thesis by simp
  qed
qed

text \<open>Rounding to a \<open>double\<close> changes a number by at most its \<open>2 ^ 53\<close>-th part.\<close>

lemma round_double_error:
  "2 ^ 53 * round_double n \<le> (2 ^ 53 + 1) * n" "(2 ^ 53 - 1) * n \<le> 2 ^ 53 * round_double n"
proof -
  define P where "P = (2 :: nat) ^ excess_bits n"
  define q m where "q = n div P" and "m = n mod P"
  have n: "n = q * P + m" "m < P" unfolding q_def m_def by (simp_all only: div_mult_mod_eq) (simp add: P_def)
  have P: "P = 1 \<or> 2 ^ 52 * P \<le> n"
    using excess_bits_le [of n] unfolding P_def by (cases "n < 2 ^ 53") (simp_all add: excess_bits.simps [of n])
  have "round_double n = (if 2 * m > P \<or> 2 * m = P \<and> odd q then q + 1 else q) * P"
    by (simp add: round_double_def Let_def P_def q_def m_def)
  then consider "round_double n = q * P" "2 * m \<le> P" | "round_double n = q * P + P" "P \<le> 2 * m"
    by (auto simp: not_less split: if_splits)
  then have r: "2 * round_double n \<le> 2 * n + P \<and> 2 * n \<le> 2 * round_double n + P \<and> (P = 1 \<longrightarrow> round_double n = n)"
    using n by cases auto
  from P show "2 ^ 53 * round_double n \<le> (2 ^ 53 + 1) * n" using r by auto
  from P show "(2 ^ 53 - 1) * n \<le> 2 ^ 53 * round_double n" using r by auto
qed

lemma five_percent_bounds:
  assumes "s \<noteq> 0"
  shows "unat (five_percent_off s) < unat s" "9 * unat s \<le> 10 * unat (five_percent_off s) + 10"
proof -
  let ?s = "unat s"
  define a where "a = round_double ?s"
  define b where "b = round_double (a * 8556839292003942)"
  note ra = round_double_error [of ?s, folded a_def]
  note rb = round_double_error [of "a * 8556839292003942", folded b_def]
  have "0 < ?s" using assms unfolding unat_gt_0 .
  then have lt: "b < ?s * 2 ^ 53" using ra(1) rb(1) by simp
  then have d: "b div 2 ^ 53 < ?s" by (simp add: less_mult_imp_div_less)
  have off: "unat (five_percent_off s) = b div 2 ^ 53"
    using less_trans [OF d, of "2 ^ 64"] unsigned_less [of s, where 'a = nat] by (simp add: five_percent_off_def a_def [symmetric] b_def [symmetric] unat_of_nat)
  have "9 * ?s * 9007199254740992 \<le> 10 * b" using ra(2) rb(2) by simp
  moreover have "b = 9007199254740992 * (b div 9007199254740992) + b mod 9007199254740992"
    "b mod 9007199254740992 < 9007199254740992" by simp_all
  ultimately have "9 * ?s \<le> 10 * (b div 9007199254740992) + 10" by linarith
  with d off show "unat (five_percent_off s) < ?s" "9 * ?s \<le> 10 * unat (five_percent_off s) + 10" by simp_all
qed

lemma rounded_down:
  fixes p :: size_t
  shows "unat (p - p mod 8) = 8 * (unat p div 8)"
proof -
  have "p mod 8 \<le> p" by (simp add: word_le_nat_alt unat_mod_distrib)
  from unat_sub [OF this] show ?thesis by (simp add: unat_mod_distrib minus_mod_eq_mult_div)
qed

lemma compressible_cells:
  assumes "compressible_ok f"
  shows "unat (compressible_size f) = 8 * length (bit_table f)" "compressible_size f \<noteq> 0" "1 \<le> length (bit_table f)"
proof -
  show n: "unat (compressible_size f) = 8 * length (bit_table f)"
    using assms by (simp add: compressible_ok_def compressible_size_def)
  show z: "compressible_size f \<noteq> 0"
    using assms unfolding compressible_ok_def compressible_size_def by (metis last_in_set)
  have "0 < unat (compressible_size f)" using z unfolding unat_gt_0 .
  then show "1 \<le> length (bit_table f)" unfolding n by (simp add: Suc_le_eq)
qed

text \<open>A usable filter of one cell is not compressed any further, a larger one to at least half of its size.\<close>

lemma five_percent_product:
  assumes "compressible_ok f"
  defines "p \<equiv> five_percent_off (compressible_size f)"
  shows "length (bit_table f) = 1 \<Longrightarrow> compress True p f = Inr (False, f)"
    and "length (bit_table f) \<noteq> 1 \<Longrightarrow> 8 \<le> p \<and> p - p mod 8 < last (size_list f) \<and>
      unat (last (size_list f)) \<le> 2 * unat (p - p mod 8)"
proof -
  let ?l = "length (bit_table f)"
  note c = compressible_cells [OF assms(1)]
  note b = five_percent_bounds [OF c(2), folded p_def, unfolded c(1)]
  show "compress True p f = Inr (False, f)" if "?l = 1"
  proof -
    have "unat (p - p mod 8) = 0" unfolding rounded_down using b(1) that by simp
    then show ?thesis by (simp add: compress_def Let_def word_less_nat_alt)
  qed
  show "8 \<le> p \<and> p - p mod 8 < last (size_list f) \<and> unat (last (size_list f)) \<le> 2 * unat (p - p mod 8)" if "?l \<noteq> 1"
  proof -
    define q where "q = unat p div 8"
    have q: "unat p = 8 * q + unat p mod 8" "unat p mod 8 < 8" by (simp_all add: q_def)
    have l: "2 \<le> ?l" using c(3) that by simp
    have "?l \<le> 2 * q"
    proof (rule ccontr)
      assume "\<not> ?l \<le> 2 * q"
      then have "2 * q + 1 \<le> ?l" by simp
      with q b(2) l show False by linarith
    qed
    moreover have "8 \<le> unat p" "8 * q < 8 * ?l" using q b l by linarith+
    ultimately show ?thesis unfolding q_def
      using c(1) rounded_down [of p] by (simp add: word_le_nat_alt word_less_nat_alt compressible_size_def)
  qed
qed

lemma five_percent_step:
  assumes "compressible_ok f" "length (bit_table f) \<noteq> 1"
  obtains f' where "compress True (five_percent_off (compressible_size f)) f = Inr (True, f')" "compressible_ok f'"
    "compressible_size f' < compressible_size f"
    "\<And>k. bloom_contains compute_indices_list k f = Inr True \<Longrightarrow> bloom_contains compute_indices_list k f' = Inr True"
proof -
  note p = five_percent_product(2) [OF assms]
  from compress_in_half [OF assms(1) conjunct1 [OF p] conjunct1 [OF conjunct2 [OF p]] conjunct2 [OF conjunct2 [OF p]]]
  obtain f' where f': "compress True (five_percent_off (compressible_size f)) f = Inr (True, f')" "compressible_ok f'"
    "size_list f' = size_list f @ [five_percent_off (compressible_size f) - five_percent_off (compressible_size f) mod 8]"
    "\<And>k. bloom_contains compute_indices_list k f = Inr True \<Longrightarrow> bloom_contains compute_indices_list k f' = Inr True"
    by blast
  have "compressible_size f' < compressible_size f" using p f'(3) by (simp add: compressible_size_def)
  from that [OF f'(1,2) this f'(4)] show thesis .
qed

text \<open>
  Compressing a usable filter by 5 percent never goes wrong: a table of one cell is left as it is, and any
  other one is made smaller without losing a key.
\<close>

theorem five_percent_keeps_keys:
  assumes "compressible_ok f"
  shows "if length (bit_table f) = 1
    then compress True (five_percent_off (compressible_size f)) f = Inr (False, f)
    else \<exists>f'. compress True (five_percent_off (compressible_size f)) f = Inr (True, f') \<and> compressible_ok f' \<and>
      compressible_size f' < compressible_size f \<and>
      (\<forall>k. bloom_contains compute_indices_list k f = Inr True \<longrightarrow>
        bloom_contains compute_indices_list k f' = Inr True)"
proof (cases "length (bit_table f) = 1")
  case False
  from five_percent_step [OF assms this] show ?thesis using False by (metis (full_types))
qed (simp add: five_percent_product(1) [OF assms])

theorem five_percent_keeps_keys_witness:
  "\<exists>f'. compress True (five_percent_off 32) full_filter = Inr (True, f') \<and>
    bloom_contains compute_indices_list ''key'' f' = Inr True"
proof -
  have ok: "compressible_ok full_filter" by (simp add: compressible_ok_def full_filter_def)
  have "bloom_contains compute_indices_list ''key'' full_filter = Inr True" by code_simp
  then show ?thesis
    using five_percent_keeps_keys [OF ok] by (auto simp: full_filter_def compressible_size_def)
qed

section \<open>The third program\<close>

lemma example03_loop_ok:
  assumes "compressible_ok f" "\<forall>w \<in> set ws. bloom_contains compute_indices_list w f = Inr True"
  shows "\<exists>out. example03_loop ws os f rows = Inr (Inr (rows @ out)) \<and> out \<noteq> [] \<and>
    fst (hd out) = compressible_size f \<and> sorted_wrt (>) (map fst out) \<and> fst (last out) = 8"
  using assms
proof (induction "unat (compressible_size f)" arbitrary: f rows rule: less_induct)
  case less
  note c = compressible_cells [OF less.prems(1)]
  have "1 < unat (compressible_size f)" using c(1,3) by simp
  then have big: "compressible_size f > 1" by (simp add: word_less_nat_alt)
  have all: "contains_all compute_indices_list ws f = Inr (length ws)" by (rule contains_range(1) [OF less.prems(2)])
  have "\<forall>w \<in> set os. bloom_contains compute_indices_list w f =
      Inr (positions (list_index (size_list f)) (salt f) w \<subseteq> set_bits f)"
    using folded.contains_iff [OF less.prems(1)] by blast
  note q = count_contained_ok [OF this]
  obtain fp :: size_t where fp: "count_contained compute_indices_list os f 0 = Inr fp" unfolding q by blast
  let ?row = "(compressible_size f, fp)"
  show ?case
  proof (cases "length (bit_table f) = 1")
    case True
    then have "example03_loop ws os f rows = Inr (Inr (rows @ [?row]))"
      using five_percent_product(1) [OF less.prems(1) True]
      by (subst example03_loop.simps) (simp add: big all fp)
    moreover have "compressible_size f = 8" using c(1) True by (simp add: word_unat_eq_iff)
    ultimately show ?thesis by (intro exI [of _ "[?row]"]) simp
  next
    case False
    from five_percent_step [OF less.prems(1) False]
    obtain f' where f': "compress True (five_percent_off (compressible_size f)) f = Inr (True, f')" "compressible_ok f'"
      "compressible_size f' < compressible_size f"
      "\<And>k. bloom_contains compute_indices_list k f = Inr True \<Longrightarrow> bloom_contains compute_indices_list k f' = Inr True"
      by blast
    have "\<forall>w \<in> set ws. bloom_contains compute_indices_list w f' = Inr True" using f'(4) less.prems(2) by blast
    with less.hyps [of f' "rows @ [?row]"] f'(2,3) obtain out where
      out: "example03_loop ws os f' (rows @ [?row]) = Inr (Inr ((rows @ [?row]) @ out))" "out \<noteq> []"
        "fst (hd out) = compressible_size f'" "sorted_wrt (>) (map fst out)" "fst (last out) = 8"
      by (auto simp: word_less_nat_alt)
    have "example03_loop ws os f rows = example03_loop ws os f' (rows @ [?row])"
      by (subst example03_loop.simps) (simp add: big all fp f'(1))
    moreover have "\<forall>x \<in> set (map fst out). x < compressible_size f"
      using out(2-4) f'(3) by (cases out) auto
    ultimately show ?thesis using out by (intro exI [of _ "?row # out"]) auto
  qed
qed

lemma example03_runs:
  assumes "load_word_list (read_file contents) argv = Inr (Inr ws)" "length ws < 2 ^ 64"
    and found: "best_found D (of_nat (length ws)) (desired_probability D ws) best"
    and best: "0 < snd best" "snd best \<le> - 8"
  shows "\<exists>rows. example03 D contents rnd fuel argv = Inr (Inr rows) \<and> rows \<noteq> [] \<and>
    sorted_wrt (>) (map fst rows) \<and> fst (last rows) = 8"
proof -
  let ?p = "default_parameters\<lparr>param_element_count := of_nat (length ws), param_random_seed := 0xA57EC3B2,
      maximum_number_of_hashes := 7\<rparr>"
  have "unat (of_nat (length ws) :: size_t) = length ws" using assms(2) by (simp add: unat_of_nat)
  then have "(of_nat (length ws) :: size_t) \<noteq> 0" using load_nonempty [OF assms(1)] by (metis length_0_conv unat_0)
  then have good: "\<not> bad_parameters False ?p" by (simp add: bad_parameters_def default_parameters_def)
  have d: "minimum_size ?p = 1" "maximum_size ?p = - 1" "minimum_number_of_hashes ?p = 1"
    "fst best \<le> 128 \<or> maximum_number_of_hashes ?p \<le> 128" by (simp_all add: default_parameters_def)
  have "best_found D (param_element_count ?p) (desired_probability D ws) best" using found by simp
  note opt = optimal_parameters_found [OF this good]
  from optimal_filter [OF good d best] obtain f0 where
    f0: "bloom_filter_new rnd fuel (snd (compute_optimal_parameters False best ?p)) = Inr f0" "bloom_ok f0"
    by blast
  have ok: "compressible_ok (compressible_new f0)"
    using f0(2) by (simp add: compressible_ok_def compressible_new_def bloom_ok_def bloom_filter.defs)
  from folded.insert_range_ok [OF ok, of ws] obtain f where
    f: "insert_range compute_indices_list ws (compressible_new f0) = Inr f" by blast
  note c = folded.inserted [OF ok f]
  have "\<forall>w \<in> set ws. bloom_contains compute_indices_list w f = Inr True" using c(4) by blast
  from example03_loop_ok [OF c(1) this, of "generate_outliers ws" "[]"]
  show ?thesis using assms(1) opt f0(1) f by (auto simp: example03_def Let_def)
qed

text \<open>
  C26. The third program on a list of words that can be loaded: when the search for the best parameters finds for the
  size of the list a number of bits that is positive and leaves room for rounding it up, the program ends; the
  filter gets smaller in every round, the last round has a table of 8 bits, and no word is ever reported missing.
  A list of one word is not such a list (\<open>one_word_list\<close>); without rounding errors, every other list of less
  than \<open>2 ^ 31\<close> words is (\<open>example03_exact\<close>).
\<close>

theorem example03_completes:
  assumes "load_word_list (read_file contents) argv = Inr (Inr ws)" "length ws < 2 ^ 64"
    and found: "best_found D (of_nat (length ws)) (desired_probability D ws) best"
    and best: "0 < snd best" "snd best \<le> - 8"
  shows "\<exists>rows. example03 D contents rnd fuel argv = Inr (Inr rows) \<and> rows \<noteq> [] \<and>
    sorted_wrt (>) (map fst rows) \<and> fst (last rows) = 8"
  by (rule example03_runs [OF assms])

text \<open>In exact arithmetic the search is good for every list of two words or more.\<close>

lemma exact_probability:
  assumes "length ws < 2 ^ 64"
  shows "desired_probability exact_doubles ws = Fin (1 / real (length ws))"
proof -
  have "unat (of_nat (length ws) :: size_t) = length ws" using assms by (simp add: unat_of_nat)
  then show ?thesis by (simp add: desired_probability_def exact_doubles_def del: of_nat_unat)
qed

theorem example03_exact:
  assumes "load_word_list (read_file contents) argv = Inr (Inr ws)" "2 \<le> length ws" "length ws < 2 ^ 31"
  shows "\<exists>rows. example03 exact_doubles contents rnd fuel argv = Inr (Inr rows) \<and> rows \<noteq> [] \<and>
    sorted_wrt (>) (map fst rows) \<and> fst (last rows) = 8"
proof -
  have n: "length ws < 2 ^ 64" using assms(3) by simp
  obtain best where "best_found exact_doubles (of_nat (length ws)) (Fin (1 / real (length ws))) best"
    "0 < snd best" "snd best \<le> - 8" by (rule exact_best_for_list [OF assms(2,3)])
  from example03_runs [OF assms(1) n this(1) [folded exact_probability [OF n]] this(2,3)] show ?thesis .
qed

theorem example03_completes_witness:
  "\<exists>rows. example03 exact_doubles (\<lambda>_. Some (''ab'' @ [CHR 0x0A] @ ''cd'')) (\<lambda>_. 0) 0 [''example03''] = Inr (Inr rows) \<and>
    fst (last rows) = 8"
proof -
  let ?ws = "[''ab'', ''cd'']"
  have l: "load_word_list (read_file (\<lambda>_. Some (''ab'' @ [CHR 0x0A] @ ''cd''))) [''example03''] = Inr (Inr ?ws)" by code_simp
  have n: "length ?ws < 2 ^ 64" "2 \<le> length ?ws" "length ?ws < 2 ^ 31" by simp_all
  obtain best where "best_found exact_doubles (of_nat (length ?ws)) (Fin (1 / real (length ?ws))) best"
    "0 < snd best" "snd best \<le> - 8" by (rule exact_best_for_list [OF n(2,3)])
  from example03_completes [OF l n(1) this(1) [folded exact_probability [OF n(1)]] this(2,3)] show ?thesis by blast
qed

text \<open>
  A list of one word gives the probability 1. Then the logarithm is that of 0 and every number of hashes needs 0
  bits, so that the search finds one hash and 0 bits; the size is clamped to 1 bit, the table has no cell, and
  inserting the word writes behind it.
\<close>

lemma one_word_list:
  assumes "best_found D 1 (desired_probability D [''ab'']) (1, 0)"
  shows "example03 D (\<lambda>_. Some ''ab'') (\<lambda>_. 0) 0 [''example03''] = Inl (Undefined_behaviour ''bit_table index'')"
proof -
  have l: "load_word_list (read_file (\<lambda>_. Some ''ab'')) [''example03''] = Inr (Inr [''ab''])" by code_simp
  let ?p = "default_parameters\<lparr>param_element_count := 1, param_random_seed := 0xA57EC3B2, maximum_number_of_hashes := 7\<rparr>"
  have good: "\<not> bad_parameters False ?p" by code_simp
  have run: "bindr (bloom_filter_new (\<lambda>_. 0) 0 (snd (compute_optimal_parameters False (1, 0) ?p)))
      (\<lambda>f0. insert_range compute_indices_list [''ab''] (compressible_new f0)) =
    Inl (Undefined_behaviour ''bit_table index'')" by code_simp
  have "best_found D (param_element_count ?p) (desired_probability D [''ab'']) (1, 0)" using assms by simp
  note opt = optimal_parameters_found [OF this good]
  show ?thesis
    using run opt
    by (cases "bloom_filter_new (\<lambda>_. 0) 0 (snd (compute_optimal_parameters False (1, 0) ?p))")
      (simp_all add: example03_def l Let_def)
qed

end
