(* ===== verification/Integrity.thy ===== *)
theory Integrity
  imports Runs ProtoWire
begin

text \<open>
  What the hash in the name of a block protects (\<open>fakeCapsule.cc\<close>, \<open>engine.cc\<close>): when somebody changes,
  truncates or removes the files of the blocks, a lookup still returns what it would have returned, or it throws.
\<close>

section \<open>Changed files\<close>

text \<open>
  The files of \<open>w'\<close> instead of those of \<open>w\<close>: no changed file parses to a message whose bytes before the first
  zero byte have the digest of those of the file that it replaces. This is what a digest is for; theorem
  \<open>tampering_after_zero_byte\<close> shows the changes behind the zero byte, which it does not cover.
\<close>

definition digests_differ :: "env \<Rightarrow> world \<Rightarrow> world \<Rightarrow> bool" where
  "digests_differ E w w' \<longleftrightarrow> (\<forall>h s s' m t.
     files w h = Some s \<and> files w' h = Some s' \<and> s' \<noteq> s \<and>
     parse E (Some s') = Some m \<and> serialize E m = Some t \<longrightarrow>
     sha256 E (c_str t) \<noteq> sha256 E (c_str s))"

text \<open>The two exceptions of a read.\<close>

definition read_errors :: "db_error set" where
  "read_errors = {Logic_error ''Failed to deserialize retreived block.'',
     Invalid_argument ''Hash mismatch on retrieval, possible tampering detected.''}"

lemma changed_block:
  assumes w: "world_ok E w" and apart: "digests_differ E w w'" and get: "getCapsuleBlock E h w = Inr b"
  shows "getCapsuleBlock E h w' = Inr b \<or> (\<exists>e \<in> read_errors. getCapsuleBlock E h w' = Inl e)"
proof -
  have env: "env_ok E" using w by (simp add: world_ok_def)
  then have none: "parse E None = None" by (simp add: env_ok_def)
  then obtain s where s: "files w h = Some s" using get by (cases "files w h") (simp_all add: getCapsuleBlock_def)
  then have name: "h = sha256_string E s" using w by (auto simp: world_ok_def written_by_def)
  show ?thesis
  proof (cases "files w' h")
    case None
    then show ?thesis by (simp add: getCapsuleBlock_def none read_errors_def)
  next
    case (Some s')
    show ?thesis
    proof (cases "s' = s \<or> parse E (Some s') = None")
      case True
      then show ?thesis using s Some get by (auto simp: getCapsuleBlock_def read_errors_def)
    next
      case False
      then obtain m where m: "s' \<noteq> s" "parse E (Some s') = Some m" by auto
      obtain t where t: "serialize E m = Some t" using env unfolding env_ok_def by blast
      have "sha256 E (c_str t) \<noteq> sha256 E (c_str s)"
        using apart s Some m t unfolding digests_differ_def by blast
      then have "sha256_string E t \<noteq> h" using sha256_string_inj [OF env] unfolding name by metis
      then show ?thesis using Some m(2) t by (simp add: getCapsuleBlock_def read_errors_def)
    qed
  qed
qed

section \<open>Lookups\<close>

text \<open>A search over a store in which every block reads the same or fails gives the same or fails.\<close>

lemma search_changed:
  assumes "\<And>h b. readIn S h w = Inr b \<Longrightarrow> readIn S h w' = Inr b \<or> (\<exists>e \<in> X. readIn S h w' = Inl e)"
    and "search_levels S k ix w i n = Inr r"
  shows "search_levels S k ix w' i n = Inr r \<or> (\<exists>e \<in> X. search_levels S k ix w' i n = Inl e)"
  using assms(2)
proof (induction n arbitrary: i)
  case (Suc n)
  from Suc.prems obtain g where g: "Index_getBlock (int i) k ix = Inr g" by (auto simp: bindr_Inr_iff)
  show ?case
  proof (cases "g = ''''")
    case True
    then show ?thesis using Suc g by simp
  next
    case False
    with Suc.prems g obtain b where b: "readIn S g w = Inr b" by (auto simp: bindr_Inr_iff)
    from assms(1) [OF b] show ?thesis
      using Suc.prems Suc.IH [of "Suc i"] g b False by (auto split: option.splits)
  qed
qed simp

lemma get_changed:
  assumes read: "\<And>h b. readIn S h w = Inr b \<Longrightarrow> readIn S h w' = Inr b \<or> (\<exists>e \<in> X. readIn S h w' = Inl e)"
    and get: "CapsuleDB_get S k u db w = Inr r"
  shows "CapsuleDB_get S k u db w' = Inr r \<or> (\<exists>e \<in> X. CapsuleDB_get S k u db w' = Inl e)"
proof -
  from get obtain kv mt where kv: "Memtable_get k u (db_memtable db) = Inr (kv, mt)"
    by (auto simp: CapsuleDB_get_def bindr_Inr_iff)
  let ?db = "db\<lparr>db_memtable := mt\<rparr>" let ?n = "nat (getNumLevels (db_index ?db))"
  show ?thesis
  proof (cases "key kv = ''''")
    case True
    with get kv obtain z where z: "search_levels S k (db_index ?db) w 0 ?n = Inr z"
      by (auto simp: CapsuleDB_get_def Let_def bindr_Inr_iff)
    from search_changed [of S w w' X, OF read z] show ?thesis
      using get kv True z by (auto simp: CapsuleDB_get_def Let_def)
  next
    case False
    then show ?thesis using get kv by (simp add: CapsuleDB_get_def Let_def)
  qed
qed

text \<open>
  C34. End-to-end integrity. In a well-formed database, for instance any that a new one has become by puts and
  gets, let the files of the blocks be changed, truncated, removed or added in any way that does not collide with
  the digests. A lookup of any key then returns exactly what it would have returned before, or throws one of the two
  exceptions of a read: it never returns a forged, an older or no record. A key in the memtable is not affected.
\<close>

theorem changed_files_never_answer:
  assumes "db_ok (capsule_ops E) (world_ok E) w db" and "digests_differ E w w'"
  shows "\<exists>q. db_get (capsule_ops E) k u (db, w) = Inr (q, (db, w)) \<and>
    (db_get (capsule_ops E) k u (db, w') = Inr (q, (db, w')) \<or>
     mem_map (db_memtable db) k = None \<and> (\<exists>e \<in> read_errors. db_get (capsule_ops E) k u (db, w') = Inl e))"
proof -
  obtain q where q: "CapsuleDB_get (capsule_ops E) k u db w = Inr (q, db)"
    using get_ok [OF assms(1), of k u] by blast
  have w: "world_ok E w" and mt: "memtable_ok (db_memtable db)" using assms(1) by (simp_all add: db_ok_def)
  have "CapsuleDB_get (capsule_ops E) k u db w' = Inr (q, db) \<or>
      (\<exists>e \<in> read_errors. CapsuleDB_get (capsule_ops E) k u db w' = Inl e)"
    using changed_block [OF w assms(2)] by (intro get_changed [OF _ q]) (simp add: readIn_def)
  moreover have "\<exists>r. CapsuleDB_get (capsule_ops E) k u db w' = Inr r" if "mem_map (db_memtable db) k = Some p" for p
    using that Memtable_get_ok [OF mt, of k u] memtable_ok_key [OF mt, of k] by (auto simp: CapsuleDB_get_def Let_def)
  ultimately show ?thesis using q by (cases "mem_map (db_memtable db) k") (fastforce simp: db_get_def)+
qed

text \<open>
  Two puts into a memtable of one record put the first record into a file. All files are then replaced by a
  block of another counter that claims to hold the second record.
\<close>

definition first_put :: kvs_payload where
  "first_put = \<lparr>key = ''a'', val = ''1'', txn_timestamp = 1, txn_msgType = ''PUT''\<rparr>"

definition second_put :: kvs_payload where
  "second_put = \<lparr>key = ''b'', val = ''2'', txn_timestamp = 2, txn_msgType = ''PUT''\<rparr>"

definition forge :: "string \<Rightarrow> world \<Rightarrow> world" where
  "forge s w = w\<lparr>files := (\<lambda>h. case files w h of None \<Rightarrow> None | Some t \<Rightarrow> Some s)\<rparr>"

definition forged_file :: "int \<Rightarrow> string" where
  "forged_file c = put_block (block_to_msg c \<lparr>level = 0, startKey = ''a'', endKey = ''a'', kvPairs = [second_put\<lparr>key := ''a''\<rparr>]\<rparr>)"

lemma forged_differs:
  assumes "world_ok wire_env w"
  shows "digests_differ wire_env w (forge (forged_file (counter w)) w)"
  unfolding digests_differ_def
proof (intro allI impI, elim conjE)
  let ?m = "block_to_msg (counter w) \<lparr>level = 0, startKey = ''a'', endKey = ''a'', kvPairs = [second_put\<lparr>key := ''a''\<rparr>]\<rparr>"
  fix h s s' m t
  assume a: "files w h = Some s" "files (forge (forged_file (counter w)) w) h = Some s'"
    "parse wire_env (Some s') = Some m" "serialize wire_env m = Some t"
  have ser: "serialize wire_env ?m = Some (forged_file (counter w))" by (simp add: wire_env_def forged_file_def)
  have env: "env_ok wire_env" by (rule wire_env_ok)
  then have "parse wire_env (Some (forged_file (counter w))) = Some ?m"
    using ser unfolding env_ok_def by (metis option.inject)
  then have m: "m = ?m" "t = forged_file (counter w)" using a ser by (auto simp: forge_def)
  from a(1) assms obtain c m0 where c: "0 \<le> c" "c < counter w" "int_range (counter w)"
      "serialize wire_env m0 = Some s" "f_counter m0 = Some (of_int c)"
    unfolding world_ok_def written_by_def by blast
  have "int_range c" "c \<noteq> counter w" "0 \<le> counter w" using c by (auto simp: int_range_def)
  note r = c(1,3) this
  have "counters_apart wire_env" using env by (simp add: env_ok_def)
  moreover have "f_counter ?m = Some (of_int (counter w))" by (simp add: block_to_msg_def)
  ultimately have "sha256 wire_env (c_str s) \<noteq> sha256 wire_env (c_str (forged_file (counter w)))"
    using ser c(4,5) r unfolding counters_apart_def by blast
  then show "sha256 wire_env (c_str t) \<noteq> sha256 wire_env (c_str s)" unfolding m by simp
qed

lemma forged_run:
  "(case put_all (db_put (capsule_ops wire_env)) [first_put, second_put] (spawnDB 1, initial_world) of
     Inr (db, w) \<Rightarrow> (case db_get (capsule_ops wire_env) ''a'' 0 (db, forge (forged_file (counter w)) w) of
       Inl e \<Rightarrow> e = Invalid_argument ''Hash mismatch on retrieval, possible tampering detected.'' | _ \<Rightarrow> False)
   | _ \<Rightarrow> False)"
  by code_simp

theorem changed_files_never_answer_witness:
  "\<exists>db w. put_all (db_put (capsule_ops wire_env)) [first_put, second_put] (spawnDB 1, initial_world) = Inr (db, w) \<and>
    db_get (capsule_ops wire_env) ''a'' 0 (db, w) = Inr (first_put, (db, w)) \<and>
    db_get (capsule_ops wire_env) ''a'' 0 (db, forge (forged_file (counter w)) w) =
      Inl (Invalid_argument ''Hash mismatch on retrieval, possible tampering detected.'')"
proof -
  have keys: "\<forall>p \<in> set [first_put, second_put]. key p \<noteq> ''''" by (simp add: first_put_def second_put_def)
  have inc: "increasing Map.empty [first_put, second_put]" by (simp add: first_put_def second_put_def fresh_def)
  obtain s where s: "put_all (db_put (capsule_ops wire_env)) [first_put, second_put] (new_db 1) = Inr s"
    "db_good (capsule_ops wire_env) (world_ok wire_env) world_room 0 s"
    "db_view (capsule_ops wire_env) s = apply_puts [first_put, second_put] Map.empty"
    by (rule new_db_puts [OF wire_env_ok _ _ keys, of 1]) (use inc in \<open>simp_all add: max_flushes_def\<close>)
  obtain db w where [simp]: "s = (db, w)" by (cases s)
  let ?w = "forge (forged_file (counter w)) w"
  have ok: "db_ok (capsule_ops wire_env) (world_ok wire_env) w db" using s(2) by (simp add: db_good_def)
  then have "digests_differ wire_env w ?w" by (intro forged_differs) (simp add: db_ok_def)
  from changed_files_never_answer [OF ok this, of "''a''" 0] obtain q where
    q: "db_get (capsule_ops wire_env) ''a'' 0 (db, w) = Inr (q, (db, w))" by blast
  have "q = first_put" using q db_get_ok [OF s(2), of "''a''" 0] s(3) by (simp add: first_put_def second_put_def)
  then show ?thesis using s(1) q forged_run by (auto split: sum.splits)
qed

end
