(* ===== verification/Enclave.thy ===== *)
theory Enclave
  imports Runs
begin

text \<open>
  \<open>src/src/enclave\<close>: the database inside an enclave (\<open>capsuleDB_enclave.cc\<close>) and the driver outside it
  (\<open>capsuleDB_driver.cc\<close>), which talk through the messages of \<open>capsuleDBRequest.proto\<close> and
  \<open>capsuleDBSetup.proto\<close>. Asylo's enclave manager is a parameter; \<open>asylo_ok\<close> states what the driver
  relies on. The driver is shown to be a database in the sense of the locale of theory Database, except
  that it does not keep the message type of a record.
\<close>

section \<open>Messages\<close>

record DBRequest =
  f_requestingEnclaveID :: "int option"
  f_requestedkey :: "string option"
  f_payload :: "Kvs_payload_msg option"

definition Kvs_payload_empty :: Kvs_payload_msg where
  "Kvs_payload_empty = \<lparr>f_key = None, f_value = None, f_txn_timestamp = None, f_txn_msgtype = None\<rparr>"

definition DBRequest_empty :: DBRequest where
  "DBRequest_empty = \<lparr>f_requestingEnclaveID = None, f_requestedkey = None, f_payload = None\<rparr>"

text \<open>The extensions of Asylo's messages that the program declares; a getter of an absent one gives the empty message.\<close>

record EnclaveInput =
  request_input :: "DBRequest option"

record EnclaveOutput =
  request_output :: "DBRequest option"

record EnclaveConfig =
  capsuledb_size :: "int64 option"

section \<open>Inside the enclave\<close>

text \<open>\<open>Initialize\<close> makes the database, of the size in the configuration or of size 50.\<close>

definition Initialize :: "EnclaveConfig \<Rightarrow> CapsuleDB" where
  "Initialize cfg = (case capsuledb_size cfg of Some n \<Rightarrow> spawnDB n | None \<Rightarrow> spawnDB 50)"

text \<open>
  \<open>Run\<close> serves one request: an empty or absent requested key means a put. \<open>u\<close> is the indeterminate
  time stamp of a payload that \<open>get\<close> does not find.
\<close>

definition Run :: "'w store_ops \<Rightarrow> int64 \<Rightarrow> EnclaveInput \<Rightarrow> 'w db_state \<Rightarrow>
    (EnclaveOutput \<times> 'w db_state) res" where
  "Run S u input s =
     (let req = get_field DBRequest_empty (request_input input) in
      if get_field '''' (f_requestedkey req) = ''''
      then
        (let pl = get_field Kvs_payload_empty (f_payload req);
             payload = (kvs_payload_default 0)\<lparr>key := get_field '''' (f_key pl),
               val := get_field '''' (f_value pl),
               txn_timestamp := get_field 0 (f_txn_timestamp pl)\<rparr>
         in bindr (db_put S payload s) (\<lambda>s'. Inr (\<lparr>request_output = None\<rparr>, s')))
      else
        bindr (db_get S (get_field '''' (f_requestedkey req)) u s) (\<lambda>(r, s').
        Inr (\<lparr>request_output = Some (DBRequest_empty\<lparr>f_payload := Some (Kvs_payload_empty\<lparr>
            f_key := Some (key r), f_value := Some (val r),
            f_txn_timestamp := Some (txn_timestamp r)\<rparr>)\<rparr>)\<rparr>, s')))"

section \<open>The driver\<close>

text \<open>
  The enclave manager: whether it starts, loads and destroys the enclave, and the entry into the
  enclave, which runs the application's \<open>Run\<close> (\<open>None\<close> is a status that is not ok).
\<close>

record 's asylo =
  manager_ok :: bool
  load_ok :: bool
  destroy_ok :: bool
  enter :: "(EnclaveInput \<Rightarrow> 's \<Rightarrow> (EnclaveOutput \<times> 's) res) \<Rightarrow> EnclaveInput \<Rightarrow> 's \<Rightarrow>
    (EnclaveOutput option \<times> 's) res"

definition asylo_ok :: "'s asylo \<Rightarrow> bool" where
  "asylo_ok A \<longleftrightarrow> manager_ok A \<and> load_ok A \<and> destroy_ok A \<and>
     (\<forall>run i s. enter A run i s = bindr (run i s) (\<lambda>(out, s'). Inr (Some out, s')))"

definition CapsuleDB_Driver_new :: "'s asylo \<Rightarrow> size_t \<Rightarrow> CapsuleDB res" where
  "CapsuleDB_Driver_new A memtable_size =
     (if \<not> manager_ok A then Inl (Fatal ''Could not obtain EnclaveManager'')
      else if \<not> load_ok A then Inl (Fatal ''LoadEnclave failed with: '')
      else Inr (Initialize \<lparr>capsuledb_size = Some memtable_size\<rparr>))"

definition EnterAndRun :: "'w db_state asylo \<Rightarrow> 'w store_ops \<Rightarrow> int64 \<Rightarrow> EnclaveInput \<Rightarrow>
    'w db_state \<Rightarrow> (EnclaveOutput \<times> 'w db_state) res" where
  "EnterAndRun A S u input s =
     bindr (enter A (Run S u) input s) (\<lambda>(out, s').
     case out of None \<Rightarrow> Inl (Fatal ''EnterAndRun failed with: '') | Some o' \<Rightarrow> Inr (o', s'))"

definition driver_put :: "'w db_state asylo \<Rightarrow> 'w store_ops \<Rightarrow> kvs_payload \<Rightarrow> 'w db_state \<Rightarrow>
    'w db_state res" where
  "driver_put A S payload s =
     (let user_input = DBRequest_empty\<lparr>f_requestingEnclaveID := Some 25,
            f_payload := Some \<lparr>f_key = Some (key payload), f_value = Some (val payload),
              f_txn_timestamp = Some (txn_timestamp payload), f_txn_msgtype = Some ''PUT''\<rparr>\<rparr>
      in bindr (EnterAndRun A S 0 \<lparr>request_input = Some user_input\<rparr> s) (\<lambda>(out, s'). Inr s'))"

definition driver_get :: "'w db_state asylo \<Rightarrow> 'w store_ops \<Rightarrow> string \<Rightarrow> int64 \<Rightarrow> 'w db_state \<Rightarrow>
    (kvs_payload \<times> 'w db_state) res" where
  "driver_get A S k u s =
     (let user_input = DBRequest_empty\<lparr>f_requestingEnclaveID := Some 25, f_requestedkey := Some k\<rparr>
      in bindr (EnterAndRun A S u \<lparr>request_input = Some user_input\<rparr> s) (\<lambda>(out, s').
         let output_data = get_field Kvs_payload_empty (f_payload
               (get_field DBRequest_empty (request_output out)))
         in Inr (msg_to_kvs output_data, s')))"

definition driver_finalize :: "'s asylo \<Rightarrow> unit res" where
  "driver_finalize A = (if destroy_ok A then Inr () else Inl (Fatal ''DestroyEnclave failed with: ''))"

section \<open>The driver is a database\<close>

definition no_type :: "kvs_payload \<Rightarrow> kvs_payload" where
  "no_type p = p\<lparr>txn_msgType := ''''\<rparr>"

definition enclave_view :: "'w store_ops \<Rightarrow> 'w db_state \<Rightarrow> kv_fun" where
  "enclave_view S s = map_option no_type \<circ> db_view S s"

definition enclave_held :: "'w store_ops \<Rightarrow> 'w db_state \<Rightarrow> kvs_payload set" where
  "enclave_held S s = no_type ` db_held S s"

lemma no_type_fields [simp]:
  "key (no_type p) = key p" "val (no_type p) = val p" "txn_timestamp (no_type p) = txn_timestamp p"
  "txn_msgType (no_type p) = ''''" "no_type (no_type p) = no_type p"
  "no_type (kvs_payload_default u) = kvs_payload_default u"
  by (simp_all add: no_type_def kvs_payload_default_def)

lemma enter_runs:
  assumes "asylo_ok A"
  shows "EnterAndRun A S u i s = Run S u i s"
proof -
  have "enter A (Run S u) i s = bindr (Run S u i s) (\<lambda>(out, s'). Inr (Some out, s'))"
    using assms unfolding asylo_ok_def by blast
  then show ?thesis by (cases "Run S u i s") (auto simp: EnterAndRun_def)
qed

lemma payload_parts:
  "(kvs_payload_default 0)\<lparr>key := key p, val := val p, txn_timestamp := txn_timestamp p\<rparr> = no_type p"
  "(kvs_payload_default 0)\<lparr>key := [], val := [], txn_timestamp := 0\<rparr> = kvs_payload_default 0"
  "msg_to_kvs Kvs_payload_empty = kvs_payload_default 0"
  by (simp_all add: kvs_payload_default_def no_type_def msg_to_kvs_def Kvs_payload_empty_def get_field_def)

lemma driver_put_runs:
  assumes "asylo_ok A"
  shows "driver_put A S p s = db_put S (no_type p) s"
proof -
  have "driver_put A S p s = bindr (bindr (db_put S (no_type p) s)
      (\<lambda>s'. Inr (\<lparr>request_output = None\<rparr>, s'))) (\<lambda>(out, s'). Inr s')"
    using payload_parts(1) [of p]
    by (simp add: driver_put_def enter_runs [OF assms] Run_def Let_def DBRequest_empty_def get_field_def)
  then show ?thesis by (cases "db_put S (no_type p) s") simp_all
qed

lemma driver_get_runs:
  assumes "asylo_ok A" "k \<noteq> ''''"
  shows "driver_get A S k u s = bindr (db_get S k u s) (\<lambda>(q, s'). Inr (no_type q, s'))"
proof (cases "db_get S k u s")
  case (Inr r)
  obtain q s' where "r = (q, s')" by (cases r)
  with assms Inr show ?thesis
    by (simp add: driver_get_def enter_runs Run_def Let_def DBRequest_empty_def
        Kvs_payload_empty_def msg_to_kvs_def get_field_def no_type_def)
qed (use assms in \<open>simp add: driver_get_def enter_runs Run_def Let_def DBRequest_empty_def get_field_def\<close>)

text \<open>A lookup of the empty key is taken for a put and stores a record with an empty key.\<close>

lemma driver_get_empty_key:
  assumes "asylo_ok A"
  shows "driver_get A S '''' u s = bindr (db_put S (kvs_payload_default 0) s)
    (\<lambda>s'. Inr (kvs_payload_default 0, s'))"
proof -
  have "driver_get A S [] u s = bindr (bindr (db_put S (kvs_payload_default 0) s)
      (\<lambda>s'. Inr (\<lparr>request_output = None\<rparr>, s'))) (\<lambda>(out, s'). Inr (msg_to_kvs (get_field Kvs_payload_empty
        (f_payload (get_field DBRequest_empty (request_output out)))), s'))"
    using payload_parts(2)
    by (simp add: driver_get_def enter_runs [OF assms] Run_def Let_def DBRequest_empty_def get_field_def
        Kvs_payload_empty_def)
  then show ?thesis
    by (cases "db_put S (kvs_payload_default 0) s")
      (simp_all add: payload_parts(3) get_field_def DBRequest_empty_def)
qed

lemma fresh_enclave_view [simp]: "fresh (enclave_view S s) p = fresh (db_view S s) p"
  by (cases "db_view S s (key p)") (simp_all add: fresh_def enclave_view_def)

lemma driver_is_database:
  assumes A: "asylo_ok A"
  shows "kv_database (driver_put A (capsule_ops E)) (driver_get A (capsule_ops E))
    (enclave_view (capsule_ops E)) (enclave_held (capsule_ops E)) (db_sorted (capsule_ops E))
    (db_good (capsule_ops E) (world_ok E) world_room) no_type"
proof
  fix n s and p :: kvs_payload
  assume good: "db_good (capsule_ops E) (world_ok E) world_room (Suc n) s" and k: "key p \<noteq> ''''"
  have "key (no_type p) \<noteq> ''''" using k by simp
  from fdb.put_spec [OF good this] obtain s' where s': "db_put (capsule_ops E) (no_type p) s = Inr s'"
    "db_good (capsule_ops E) (world_ok E) world_room n s'"
    "dom (db_view (capsule_ops E) s') = insert (key p) (dom (db_view (capsule_ops E) s))"
    "db_held (capsule_ops E) s' \<subseteq> insert (no_type p) (db_held (capsule_ops E) s)"
    "db_sorted (capsule_ops E) s \<and> fresh (db_view (capsule_ops E) s) (no_type p) \<longrightarrow>
      db_sorted (capsule_ops E) s' \<and>
      db_view (capsule_ops E) s' = (db_view (capsule_ops E) s)(key p \<mapsto> no_type p)"
    unfolding no_type_fields by (elim exE conjE) (rule that)
  have dom: "dom (enclave_view (capsule_ops E) t) = dom (db_view (capsule_ops E) t)" for t
    by (auto simp: enclave_view_def)
  have held: "enclave_held (capsule_ops E) s' \<subseteq> insert (no_type p) (enclave_held (capsule_ops E) s)"
    using s'(4) by (auto simp: enclave_held_def)
  have fr: "fresh (db_view (capsule_ops E) s) (no_type p) = fresh (db_view (capsule_ops E) s) p"
    by (cases "db_view (capsule_ops E) s (key p)") (simp_all add: fresh_def)
  have view: "enclave_view (capsule_ops E) s' = (enclave_view (capsule_ops E) s)(key p \<mapsto> no_type p)"
    if "db_view (capsule_ops E) s' = (db_view (capsule_ops E) s)(key p \<mapsto> no_type p)"
    using that by (auto simp: enclave_view_def)
  show "\<exists>s'. driver_put A (capsule_ops E) p s = Inr s' \<and>
      db_good (capsule_ops E) (world_ok E) world_room n s' \<and>
      dom (enclave_view (capsule_ops E) s') = insert (key p) (dom (enclave_view (capsule_ops E) s)) \<and>
      enclave_held (capsule_ops E) s' \<subseteq> insert (no_type p) (enclave_held (capsule_ops E) s) \<and>
      (db_sorted (capsule_ops E) s \<and> fresh (enclave_view (capsule_ops E) s) p \<longrightarrow>
       db_sorted (capsule_ops E) s' \<and>
       enclave_view (capsule_ops E) s' = (enclave_view (capsule_ops E) s)(key p \<mapsto> no_type p))"
    unfolding dom fresh_enclave_view driver_put_runs [OF A]
    using s'(1,2,3) held s'(5) [unfolded fr] view by blast
next
  fix n s u and k :: string
  assume good: "db_good (capsule_ops E) (world_ok E) world_room n s" and k: "k \<noteq> ''''"
  show "driver_get A (capsule_ops E) k u s =
      Inr (case enclave_view (capsule_ops E) s k of None \<Rightarrow> kvs_payload_default u | Some p \<Rightarrow> p, s)"
    using driver_get_runs [OF A k] fdb.get_spec [OF good k]
    by (simp add: enclave_view_def split: option.split)
next
  fix n s k p
  assume good: "db_good (capsule_ops E) (world_ok E) world_room n s"
    and "enclave_view (capsule_ops E) s k = Some p"
  then obtain q where "db_view (capsule_ops E) s k = Some q" "p = no_type q"
    by (auto simp: enclave_view_def)
  with fdb.view_held [OF good this(1)] show "p \<in> enclave_held (capsule_ops E) s \<and> key p = k"
    by (auto simp: enclave_held_def)
qed simp_all

text \<open>An enclave manager that enters the application directly.\<close>

definition direct_asylo :: "'s asylo" where
  "direct_asylo = \<lparr>manager_ok = True, load_ok = True, destroy_ok = True,
     enter = (\<lambda>run i s. bindr (run i s) (\<lambda>(out, s'). Inr (Some out, s')))\<rparr>"

lemma direct_asylo_ok: "asylo_ok direct_asylo"
  by (simp add: asylo_ok_def direct_asylo_def)

interpretation edb: kv_database "driver_put direct_asylo (capsule_ops E)"
    "driver_get direct_asylo (capsule_ops E)" "enclave_view (capsule_ops E)" "enclave_held (capsule_ops E)"
    "db_sorted (capsule_ops E)" "db_good (capsule_ops E) (world_ok E) world_room" no_type for E
  by (rule driver_is_database [OF direct_asylo_ok])

end
