(* ===== verification/Server.thy ===== *)
theory Server
  imports Enclave ProtoWire
begin

text \<open>
  \<open>src/src/network\<close>: the two servers, \<open>capsuleDB_server.cc\<close> over the engine and
  \<open>capsuleDB_enclave_server.cc\<close> over the enclave driver, which answer serialized requests that come in
  over a socket. The socket is the list of messages that arrive and the list of replies that are sent;
  the protobuf parser and printer of requests are a parameter \<open>C\<close>. The service of the two programs is
  the same text over different databases, so it is proved once in the locale \<open>kv_database\<close>.
\<close>

section \<open>Serving requests\<close>

record codec =
  parse_request :: "string \<Rightarrow> DBRequest option"
  serialize_request :: "DBRequest \<Rightarrow> string option"

definition codec_ok :: "codec \<Rightarrow> bool" where
  "codec_ok C \<longleftrightarrow> (\<forall>r. \<exists>s. serialize_request C r = Some s \<and> parse_request C s = Some r)"

text \<open>
  The body of the loop: a request without a requested key is a put and gets no reply; any other is a
  get, whose reply carries the payload.
\<close>

definition serve_request :: "codec \<Rightarrow> (kvs_payload \<Rightarrow> 's \<Rightarrow> 's res) \<Rightarrow>
    (string \<Rightarrow> int64 \<Rightarrow> 's \<Rightarrow> (kvs_payload \<times> 's) res) \<Rightarrow> int64 \<Rightarrow> string \<Rightarrow> 's \<Rightarrow>
    (string list \<times> 's) res" where
  "serve_request C put get u incoming_message s =
     (case parse_request C incoming_message of
        None \<Rightarrow> Inl (Logic_error ''Failed to deserialize incoming request.'')
      | Some parsedRequest \<Rightarrow>
          if get_field '''' (f_requestedkey parsedRequest) = ''''
          then bindr (put (msg_to_kvs (get_field Kvs_payload_empty (f_payload parsedRequest))) s)
                 (\<lambda>s'. Inr ([], s'))
          else
            bindr (get (get_field '''' (f_requestedkey parsedRequest)) u s) (\<lambda>(retrievedPayload, s').
            case serialize_request C (DBRequest_empty\<lparr>f_payload := Some (kvs_to_msg retrievedPayload)\<rparr>) of
              None \<Rightarrow> Inl (Logic_error ''Request serialization failure.'')
            | Some outgoing_payload \<Rightarrow> Inr ([outgoing_payload], s')))"

fun serve_all :: "codec \<Rightarrow> (kvs_payload \<Rightarrow> 's \<Rightarrow> 's res) \<Rightarrow>
    (string \<Rightarrow> int64 \<Rightarrow> 's \<Rightarrow> (kvs_payload \<times> 's) res) \<Rightarrow> int64 \<Rightarrow> string list \<Rightarrow> 's \<Rightarrow>
    (string list \<times> 's) res" where
  "serve_all C put get u [] s = Inr ([], s)"
| "serve_all C put get u (m # ms) s =
     bindr (serve_request C put get u m s) (\<lambda>(out, s1).
     bindr (serve_all C put get u ms s1) (\<lambda>(outs, s2). Inr (out @ outs, s2)))"

text \<open>The two programs, up to the messages that arrive: \<open>MEMTABLE_SIZE\<close> is 50 in both.\<close>

definition server_main :: "codec \<Rightarrow> 'w store_ops \<Rightarrow> int64 \<Rightarrow> string list \<Rightarrow> 'w \<Rightarrow>
    (string list \<times> 'w db_state) res" where
  "server_main C S u msgs w = serve_all C (db_put S) (db_get S) u msgs (spawnDB 50, w)"

definition enclave_server_main :: "codec \<Rightarrow> 'w db_state asylo \<Rightarrow> 'w store_ops \<Rightarrow> string \<Rightarrow> int64 \<Rightarrow>
    string list \<Rightarrow> 'w \<Rightarrow> (string list \<times> 'w db_state) res" where
  "enclave_server_main C A S enclave_path u msgs w =
     (if enclave_path = '''' then Inl (Fatal ''Empty --enclave_path flag.'')
      else bindr (CapsuleDB_Driver_new A 50) (\<lambda>db.
           serve_all C (driver_put A S) (driver_get A S) u msgs (db, w)))"

section \<open>What a client sees\<close>

text \<open>The messages of a client, and how it reads a reply.\<close>

definition put_message :: "codec \<Rightarrow> kvs_payload \<Rightarrow> string" where
  "put_message C p = the (serialize_request C (DBRequest_empty\<lparr>f_payload := Some (kvs_to_msg p)\<rparr>))"

definition get_message :: "codec \<Rightarrow> string \<Rightarrow> string" where
  "get_message C k = the (serialize_request C (DBRequest_empty\<lparr>f_requestedkey := Some k\<rparr>))"

definition read_reply :: "codec \<Rightarrow> string \<Rightarrow> kvs_payload option" where
  "read_reply C r = map_option (\<lambda>m. msg_to_kvs (get_field Kvs_payload_empty (f_payload m))) (parse_request C r)"

lemma msg_to_kvs_to_msg: "msg_to_kvs (kvs_to_msg p) = p"
  by (simp add: msg_to_kvs_def kvs_to_msg_def)

lemma parse_messages:
  assumes "codec_ok C"
  shows "parse_request C (put_message C p) = Some (DBRequest_empty\<lparr>f_payload := Some (kvs_to_msg p)\<rparr>)"
    "parse_request C (get_message C k) = Some (DBRequest_empty\<lparr>f_requestedkey := Some k\<rparr>)"
    "serialize_request C (DBRequest_empty\<lparr>f_payload := Some (kvs_to_msg p)\<rparr>) = Some (put_message C p)"
    "read_reply C (put_message C p) = Some p"
proof -
  have c: "serialize_request C r = Some (the (serialize_request C r)) \<and>
      parse_request C (the (serialize_request C r)) = Some r" for r
    using assms unfolding codec_ok_def by (metis option.sel)
  show 1: "parse_request C (put_message C p) = Some (DBRequest_empty\<lparr>f_payload := Some (kvs_to_msg p)\<rparr>)"
    "parse_request C (get_message C k) = Some (DBRequest_empty\<lparr>f_requestedkey := Some k\<rparr>)"
    using c by (simp_all add: put_message_def get_message_def)
  show "serialize_request C (DBRequest_empty\<lparr>f_payload := Some (kvs_to_msg p)\<rparr>) = Some (put_message C p)"
    using c by (simp add: put_message_def)
  show "read_reply C (put_message C p) = Some p" by (simp add: read_reply_def 1 msg_to_kvs_to_msg)
qed

lemma serve_put:
  "codec_ok C \<Longrightarrow> serve_request C put get u (put_message C p) s = bindr (put p s) (\<lambda>s'. Inr ([], s'))"
  by (simp add: serve_request_def parse_messages DBRequest_empty_def get_field_def msg_to_kvs_to_msg)

lemma serve_get:
  "codec_ok C \<Longrightarrow> k \<noteq> '''' \<Longrightarrow> serve_request C put get u (get_message C k) s =
    bindr (get k u s) (\<lambda>(q, s'). Inr ([put_message C q], s'))"
  by (simp add: serve_request_def parse_messages)

text \<open>What a client asks for, in the order it asks, and the answers that a finite map gives to its gets.\<close>

datatype client_op = PutOp kvs_payload | GetOp string

fun op_message :: "codec \<Rightarrow> client_op \<Rightarrow> string" where
  "op_message C (PutOp p) = put_message C p"
| "op_message C (GetOp k) = get_message C k"

fun op_key :: "client_op \<Rightarrow> string" where
  "op_key (PutOp p) = key p"
| "op_key (GetOp k) = k"

fun op_puts :: "client_op list \<Rightarrow> kvs_payload list" where
  "op_puts [] = []"
| "op_puts (PutOp p # os) = p # op_puts os"
| "op_puts (GetOp k # os) = op_puts os"

fun answers :: "(kvs_payload \<Rightarrow> kvs_payload) \<Rightarrow> int64 \<Rightarrow> kv_fun \<Rightarrow> client_op list \<Rightarrow> kvs_payload list" where
  "answers keep u m [] = []"
| "answers keep u m (PutOp p # os) = answers keep u (m(key p \<mapsto> keep p)) os"
| "answers keep u m (GetOp k # os) =
     (case m k of None \<Rightarrow> kvs_payload_default u | Some p \<Rightarrow> p) # answers keep u m os"

lemma increasing_times:
  "increasing m ps \<Longrightarrow> (\<And>k. map_option txn_timestamp (m k) = map_option txn_timestamp (m' k)) \<Longrightarrow>
    increasing m' ps"
proof (induction ps arbitrary: m m')
  case (Cons p ps)
  have "fresh m' p" using Cons.prems(1) Cons.prems(2) [of "key p"]
    by (auto simp: fresh_def split: option.splits)
  moreover have "increasing (m'(key p \<mapsto> p)) ps"
    by (rule Cons.IH [of "m(key p \<mapsto> p)"]) (use Cons.prems in \<open>simp_all del: fun_upd_apply\<close>, simp)
  ultimately show ?case by simp
qed simp

lemma read_replies: "codec_ok C \<Longrightarrow> map (read_reply C) (map (put_message C) qs) = map Some qs"
  by (simp add: parse_messages)

context kv_database
begin

text \<open>
  A client that puts and gets in any order, its time stamps increasing per key, gets the answers of a
  finite map, one reply for every get.
\<close>

lemma conversation:
  assumes "codec_ok C" "ok (length (op_puts os)) s" "ordered s"
    and "\<forall>e \<in> set os. op_key e \<noteq> ''''" "increasing (view s) (op_puts os)"
  shows "\<exists>s'. serve_all C put get u (map (op_message C) os) s =
    Inr (map (put_message C) (answers keep u (view s) os), s')"
  using assms
proof (induction os arbitrary: s)
  case (Cons e os)
  show ?case
  proof (cases e)
    case (PutOp p)
    with Cons.prems have pr: "ok (Suc (length (op_puts os))) s" "key p \<noteq> ''''" "fresh (view s) p"
      "increasing ((view s)(key p \<mapsto> p)) (op_puts os)" "\<forall>e \<in> set os. op_key e \<noteq> ''''" by simp_all
    from put_spec [OF pr(1,2)] pr(3) Cons.prems(3) obtain s1 where
      s1: "put p s = Inr s1" "ok (length (op_puts os)) s1" "ordered s1"
        "view s1 = (view s)(key p \<mapsto> keep p)" by blast
    have "increasing (view s1) (op_puts os)"
      by (rule increasing_times [OF pr(4)]) (simp add: s1(4) keep_time)
    from Cons.IH [OF Cons.prems(1) s1(2,3) pr(5) this] show ?thesis
      using PutOp s1(1) Cons.prems(1) unfolding s1(4) by (auto simp: serve_put simp del: fun_upd_apply)
  next
    case (GetOp k)
    with Cons.prems have pr: "ok (length (op_puts os)) s" "k \<noteq> ''''"
      "increasing (view s) (op_puts os)" "\<forall>e \<in> set os. op_key e \<noteq> ''''" by simp_all
    from Cons.IH [OF Cons.prems(1) pr(1) Cons.prems(3) pr(4,3)] show ?thesis
      using GetOp get_spec [OF pr(1,2), of u] pr(2) Cons.prems(1) by (auto simp: serve_get)
  qed
qed simp

end

text \<open>A message that is not a request ends the server, and nothing after it is served.\<close>

lemma serve_all_append:
  "serve_all C put get u (ms @ ns) s = bindr (serve_all C put get u ms s) (\<lambda>(out, s1).
    bindr (serve_all C put get u ns s1) (\<lambda>(outs, s2). Inr (out @ outs, s2)))"
proof (induction ms arbitrary: s)
  case (Cons m ms)
  then show ?case
    by (cases "serve_request C put get u m s")
      (auto simp: bindr_def split: sum.splits prod.splits)
qed (auto simp: bindr_def split: sum.splits)

lemma serve_bad_message:
  "parse_request C m = None \<Longrightarrow> serve_all C put get u (m # ms) s =
    Inl (Logic_error ''Failed to deserialize incoming request.'')"
  by (simp add: serve_request_def)

section \<open>A concrete codec\<close>

text \<open>Requests in the wire format of theory ProtoWire, for the witnesses.\<close>

definition put_int :: "int \<Rightarrow> string" where
  "put_int i = varint (nat (if 0 \<le> i then 2 * i else - 2 * i - 1))"

definition get_int :: "string \<Rightarrow> (int \<times> string) option" where
  "get_int s = map_option (\<lambda>(n, t). (if even n then int (n div 2) else - int (n div 2) - 1, t)) (get_varint s)"

lemma get_int_put [simp]: "get_int (put_int i @ s) = Some (i, s)"
proof (cases "0 \<le> i")
  case True
  then show ?thesis by (simp add: get_int_def put_int_def nat_mult_distrib)
next
  case False
  define j where "j = nat (- i - 1)"
  then have "nat (- 2 * i - 1) = 2 * j + 1" "i = - int j - 1" using False by simp_all
  then show ?thesis using False by (simp add: get_int_def put_int_def)
qed

definition put_sub :: "Kvs_payload_msg \<Rightarrow> string" where
  "put_sub m = put_bytes (put_kvs m)"

definition get_sub :: "string \<Rightarrow> (Kvs_payload_msg \<times> string) option" where
  "get_sub s = Option.bind (get_bytes s) (\<lambda>(b, t). map_option (\<lambda>m. (m, t)) (get_kvs b))"

definition put_req :: "DBRequest \<Rightarrow> string" where
  "put_req r = put_opt CHR 0x08 put_int (f_requestingEnclaveID r) @
     put_opt CHR 0x12 put_bytes (f_requestedkey r) @ put_opt CHR 0x1A put_sub (f_payload r)"

definition get_req :: "string \<Rightarrow> DBRequest option" where
  "get_req s0 =
     Option.bind (get_opt CHR 0x08 get_int s0) (\<lambda>(i, s1).
     Option.bind (get_opt CHR 0x12 get_bytes s1) (\<lambda>(k, s2).
     Option.bind (get_opt CHR 0x1A get_sub s2) (\<lambda>(p, s3).
     if s3 = [] then Some \<lparr>f_requestingEnclaveID = i, f_requestedkey = k, f_payload = p\<rparr> else None)))"

lemma get_sub_put [simp]: "get_sub (put_sub m @ s) = Some (m, s)"
  by (simp add: get_sub_def put_sub_def)

lemma get_req_put: "get_req (put_req r) = Some r"
proof -
  have nt: "no_tag t (put_opt tag f x) \<longleftrightarrow> (if x = None then True else t \<noteq> tag)" for t tag f and x :: "'b option"
    using no_tag_put_opt [of t tag f x "[]"] by (simp add: no_tag_def)
  show ?thesis by (simp add: get_req_def put_req_def get_opt_end nt)
qed

definition wire_codec :: codec where
  "wire_codec = \<lparr>parse_request = get_req, serialize_request = (\<lambda>r. Some (put_req r))\<rparr>"

lemma wire_codec_ok: "codec_ok wire_codec"
  by (simp add: codec_ok_def wire_codec_def get_req_put)

end
