(* ===== verification/BenchOps.thy ===== *)
theory BenchOps
  imports Prelude
begin

text \<open>
  The calls that the macro \<open>M_BENCHMARK_HERE\<close> of \<open>src/src/shared/benchmark.h\<close> makes, and counting them.
  The class whose member functions \<open>put\<close> and \<open>get\<close> the macro calls is not in the repository: the two are
  parameters of \<open>bench_exec\<close>.
\<close>

datatype bench_op = Put string string | Get string

fun bench_exec :: "(string \<Rightarrow> string \<Rightarrow> 's \<Rightarrow> 's res) \<Rightarrow> (string \<Rightarrow> 's \<Rightarrow> 's res) \<Rightarrow> bench_op list \<Rightarrow>
    's \<Rightarrow> 's res" where
  "bench_exec put get [] s = Inr s"
| "bench_exec put get (Put k v # os) s = bindr (put k v s) (bench_exec put get os)"
| "bench_exec put get (Get k # os) s = bindr (get k s) (bench_exec put get os)"

text \<open>
  \<open>tally os p g n\<close>: counting on from \<open>p\<close> puts and \<open>g\<close> gets, the calls \<open>os\<close> lead to the numbers \<open>n\<close>, and
  all their keys are non-empty.
\<close>

fun tally :: "bench_op list \<Rightarrow> nat \<Rightarrow> nat \<Rightarrow> nat \<times> nat \<Rightarrow> bool" where
  "tally [] p g n \<longleftrightarrow> (p, g) = n"
| "tally (Put k v # os) p g n \<longleftrightarrow> k \<noteq> [] \<and> tally os (Suc p) g n"
| "tally (Get k # os) p g n \<longleftrightarrow> k \<noteq> [] \<and> tally os p (Suc g) n"

lemma tally_steps:
  "tally [] p g n \<longleftrightarrow> (p, g) = n"
  "tally (Put (c # k) v # os) p g n \<longleftrightarrow> tally os (Suc p) g n"
  "tally (Get (c # k) # os) p g n \<longleftrightarrow> tally os p (Suc g) n"
  by simp_all

text \<open>A congruence rule that keeps the simplifier out of the list while it counts.\<close>

lemma tally_cong: "p = p' \<Longrightarrow> g = g' \<Longrightarrow> tally os p g n = tally os p' g' n"
  by simp

lemma tally_shift:
  assumes "tally os 0 0 (a, b)"
  shows "tally (os @ os') p g n = tally os' (p + a) (g + b) n"
proof -
  have "tally (os @ os') (p + x) (g + y) n = tally os' (p + a) (g + b) n" if "tally os x y (a, b)" for x y
    using that
  proof (induction os arbitrary: x y)
    case (Cons e os)
    then show ?case by (cases e) (auto simp del: add_Suc_right simp flip: add_Suc_right)
  qed auto
  from this [OF assms] show ?thesis by simp
qed

lemma tally_counts:
  assumes "tally os p g (a, b)"
  shows "p + length (filter (\<lambda>x. \<exists>k v. x = Put k v) os) = a"
    "g + length (filter (\<lambda>x. \<exists>k. x = Get k) os) = b"
  using assms by (induction os p g "(a, b)" rule: tally.induct) auto

text \<open>
  Calls within a budget of puts succeed: \<open>ok n s\<close> says that \<open>n\<close> more puts are possible.
\<close>

lemma bench_exec_ok:
  assumes ops: "tally os p g (p + a, b)" and s: "ok (a + n) s"
    and put: "\<And>m k v s. ok (Suc m) s \<Longrightarrow> k \<noteq> [] \<Longrightarrow> \<exists>s'. put k v s = Inr s' \<and> ok m s'"
    and get: "\<And>m k s. ok m s \<Longrightarrow> k \<noteq> [] \<Longrightarrow> \<exists>s'. get k s = Inr s' \<and> ok m s'"
  shows "\<exists>s'. bench_exec put get os s = Inr s' \<and> ok n s'"
  using ops s
proof (induction os arbitrary: p g a s)
  case (Cons e os)
  show ?case
  proof (cases e)
    case (Put k v)
    have t: "k \<noteq> []" "tally os (Suc p) g (p + a, b)" using Cons.prems(1) Put by simp_all
    from tally_counts(1) [OF t(2)] obtain c where c: "a = Suc c" by (cases a) auto
    with Cons.prems(2) put [of "c + n" s k v] t(1) obtain s1 where
      s1: "put k v s = Inr s1" "ok (c + n) s1" by auto
    have "tally os (Suc p) g (Suc p + c, b)" using t(2) c by simp
    from Cons.IH [OF this s1(2)] show ?thesis using Put s1(1) by simp
  next
    case (Get k)
    have t: "k \<noteq> []" "tally os p (Suc g) (p + a, b)" using Cons.prems(1) Get by simp_all
    from get [OF Cons.prems(2) t(1)] obtain s1 where s1: "get k s = Inr s1" "ok (a + n) s1" by blast
    from Cons.IH [OF t(2) s1(2)] show ?thesis using Get s1(1) by simp
  qed
qed auto

end
