(* ===== verification/BenchLoad1.thy ===== *)
theory BenchLoad1
  imports BenchOps
begin

text \<open>
  The load phase of the benchmark (\<open>src/src/shared/benchmark.h\<close>, lines 7 to 2106), one list per stretch of
  the macro, with the number of its puts and gets.
\<close>

definition load_1 :: "bench_op list" where
  "load_1 = [
    Put ''6284781860667377'' '':Sg3Ow5-v.6f>Q7)'',
    Put ''8517097267634966'' ([CHR 0x27] @ ''Uw'.6(&1''),
    Put ''1820151046732198'' ''/M%=,z23$,Gu:W%8'',
    Put ''4052466453699787'' ''&#4%Vc!=~*($?901'',
    Put ''3232700585171816'' ''5,b?7&)H;C!!-n+'',
    Put ''1000385178204227'' ''212,z+>h.We<5n'',
    Put ''7697331399106995'' ''0&f*Ye3J#,?,:Oq2'',
    Put ''5465015992139406'' ''8B{6%!P=,@m-K+<'',
    Put ''6873002678636213'' ''9Oe>E-*Pc'4|?6$4'',
    Put ''9105318085603802'' ''=RuFi'',
    Put ''2408371864701034'' ''<0d'Fo1*&!O5;Eg7'',
    Put ''4640687271668624'' ''5+6<:0,=d&44-4,'',
    Put ''2644479767202980'' '';Y-)[o))h2)3@i'',
    Put ''4121643602353910'' '',8>1O1**h'68'',
    Put ''7109110581138159'' '')6|.Cs=_!!^s:?&%'',
    Put ''4876795174170569'' ''!Z1=O{$R#(!t,14'',
    Put ''7461223496605049'' ''/!<)Rs7(r#,&:$:!'',
    Put ''8753205170136912'' ''&;<%@k(4r+Li6J90'',
    Put ''2996592682669871'' ''*:8!E!(),842M{&'',
    Put ''5228908089637460'' ''$4=1)-r/.v6(6%'',
    Put ''2056258949234144'' ''+7(=/*$V)=Cm3H;1'',
    Put ''1760564577334453'' ''/N#<3|<:t;P?7U#1'',
    Put ''6520889763169322'' ''6:d>T+#7`'+hIm+'',
    Put ''4288574356201733'' ''<92!W1=?x(t9*|#'',
    Put ''8049444314573886'' ''#&x)(+>=@s:Zg2'',
    Put ''8164984352168075'' ''+?~:7v(H'<-d/Ce?'',
    Put ''3584813500638707'' ''!/!@7'',
    Put ''5817128907606296'' ''4%&9-0'',
    Put ''1468038131265307'' ''.2n/Kw!S+(Hw+T'9'',
    Put ''7642772757022816'' ''!5(08&+8v/:p+32$'',
    Put ''5932668945200486'' '''',
    Put ''3700353538232897'' ''0K=14d3),!Wg=r7'',
    Put ''3931898588792031'' ''?Zc+Y)4+|3%0$81'',
    Put ''6164213995759621'' ''40z7Ve'9(('',
    Put ''5327322251431469'' ''(4~#W+'',
    Put ''1699583181824442'' ''4)21'',
    Put ''5585583857047162'' '',X74(`)D/$L}S5='',
    Put ''3353268450079572'' ''+Mc*4d<J?!G7$)$$'',
    Put ''8396529402727210'' ''.V!->2&<`.v0$04'',
    Put ''7817899264014751'' ''&X=8#</?t#!l>$2('',
    Put ''4520119406760868'' '')]e/Ua4^y*Ig<d*'',
    Put ''6752434813728457'' ('')@'' @ ''{2Gy-?<$Wy:?,''),
    Put ''5548859282568936'' (''(O'(0<1N.>n'' @ [CHR 0x27, CHR 0x27] @ ''v+''),
    Put ''2287803999793278'' (''*Ik.b9<x&P;?Py'' @ [CHR 0x27]),
    Put ''4997363039078325'' '',V95W=$..,:t!Tq>'',
    Put ''2765047632110736'' ''5Xu/F-::h/!b):r/'',
    Put ''8984750220696046'' ''*8*-%(30^/$E+4'',
    Put ''7229678446045915'' ''&I-0'j8Q3($8&?1'',
    Put ''5108340224729704'' ''**9Ku*X}3S?;E-='',
    Put ''7340655631697293'' ''2?x682#3r'>h<I}/'',
    Put ''6437094107945257'' '')%t>C-;F{*%x#^;-'',
    Put ''2876024817762115'' ''>=00(,--=I-!=z*'',
    Put ''4409142221109489'' ''89f#?94<(J//F-)'',
    Put ''2176826814141900'' ''&8.%A!+0v61Jm/'',
    Put ''8873773035044668'' '':#.!+n<;--b3)'',
    Put ''6641457628077078'' ''8'25(h7Pq23n=S3$'',
    Put ''5696561042698540'' ''*_9$O}'',
    Put ''7928876449666130'' ''6_y6.:1La*'z&@q3'',
    Put ''1231930228763362'' ''3;x>9%4:<C9=20,'',
    Put ''3464245635730951'' ''8'',
    Put ''3820921403140653'' ''6/.),p0%4S;49>-'',
    Put ''1588605996173063'' ''(-j$'',
    Put ''8285552217075831'' ''(.~+<)T1$.21'',
    Put ''6053236810108242'' ''$]?<$r4La+1,)7z:'',
    Put ''7456195669291483'' ''19*4O#<P/4,0?Ge/'',
    Put ''5223880262323894'' ''?1p'4>#j.Ho!6f:'',
    Put ''6525917590482889'' ''-7f;U582h'Im<,b?'',
    Put ''8758232997450478'' '''',
    Put ''1473065958578873'' ''/E=$4,2Io>2*8a2'',
    Put ''3705381365546463'' ''!Yq#'n'-x3Yy1R+1'',
    Put ''2991564855356304'' '':L+4^7#X5<S':)9'',
    Put ''7592494483887154'' ''12v&-`65~&944Q7,'',
    Put ''6867974851322647'' ''&Vo##&&X'-!<;^k&'',
    Put ''4635659444355057'' ''3'<9J#31vJ;4^1='',
    Put ''7114138408451725'' ''!^+53x;>(52f(3d*'',
    Put ''9100290258290236'' ''=5nQo'',
    Put ''2061286776547710'' ''+(<5#$'@71=8$?6%'',
    Put ''4293602183515299'' '':<:'',
    Put ''2403344037387468'' ''8Ta;W#2So&>($/.)'',
    Put ''1710286304198790'' ''(Qc24`&m*Zw&N!$'',
    Put ''6279754033353810'' ''22'',
    Put ''4047438626386221'' '';Q)!1|7M9%%t'M;5'',
    Put ''7702359226420561'' ''5T31T774x>+|)Mo3'',
    Put ''8512069440321400'' ''8:(<1t):>-5$12$8'',
    Put ''2649507594516546'' ''1%24@o6$45E}?Oc7'',
    Put ''4881823001484136'' '';9('',
    Put ''1815123219418632'' '',;*-_}=28!!n7Gu#'',
    Put ''4171921875489572'' ''1Ba2.,+0<,!x%8$0'',
    Put ''5691533215384974'' ''=+2);l&,=R)+T-'',
    Put ''3459217808417385'' ''>!251&30n*Qo5`.'',
    Put ''8290580044389398'' ''2'',
    Put ''7923848622352564'' ''9R19'b,!j7We/9<<'',
    Put ''3237728412485383'' ''+*%Z}(;v3.:1^q&'',
    Put ''5470043819452972'' ''+Qk*Ja<P!<7j'Vs>'',
    Put ''1226902401449795'' ''<U-9$:-B#!=$;*60'',
    Put ''1005413005517793'' ''4/6'',
    Put ''8637665132542722'' ''/?6-Vy--8(/>0Q=0'',
    Put ''7576763534199239'' ''&)|?G)/2z;B-.)t7'',
    Put ''4173034318607543'' '''',
    Put ''6405349725575133'' ''(7v7O!1Zu#907*<9'',
    Put ''8798173132964713'' ''?Cm+),%(h;P7#Zq:'',
    Put ''1352498093671118'' (''4$`>T?+5$%2.Bk'' @ [CHR 0x27]),
    Put ''5344448127231650'' ''2YmJo).:-'l9/6<'',
    Put ''3112132720264060'' ''9!x33h6B;$5t/!28'',
    Put ''9220858123197992'' ''0J}32j!M58Kw(/x?'',
    Put ''6988542716230403'' ''9X;)Ek2K+!9,2]}>'',
    Put ''4761255136576380'' ([CHR 0x27] @ ''-<-J#.K{G=>9''),
    Put ''6993570543543969'' '',A39!2?%&4-j1!$8'',
    Put ''2915964953276350'' ''6_o?A{4/*%.z<Qw3'',
    Put ''1940718911639954'' ''<40$6f%9>1Jk*#d'',
    Put ''4756227309262813'' ''4[+4H=:B#,8M*'',
    Put ''2523911902295224'' ([CHR 0x27] @ ''B'0a,A3-J%*W}#''),
    Put ''8632637305229156'' ([CHR 0x27] @ ''J1%Tk,U1,Gi<Le>''),
    Put ''6400321898261566'' ''!B11S}$Twq6$z>'',
    Put ''5349475954545216'' ''.X!4v<B=49$$+d#'',
    Put ''7581791361512805'' ''/*n;'d?#h+8`&Y)<'',
    Put ''2966243226412012'' ''8J%!S/=5885h$5<'',
    Put ''2528939729608790'' '',#4%V72D{#.x%]5,'',
    Put ''4168006491293977'' ''+Q%8%h',z>Dg'',
    Put ''1935691084326388'' ''(Zq>'',
    Put ''8044416487260319'' ''>[;=('',
    Put ''5812101080292730'' ''$V)=G7.D++2#2:4'',
    Put ''5937696772514052'' ''>-49I)+Q5%S7)4t:'',
    Put ''8170012179481642'' ''7K}&D18T10]w=,x:'',
    Put ''8848451406100376'' ''-2$,7:)?f.Xk$S2'',
    Put ''3117160547577627'' '',1n;_+;_m.(=2,!'',
    Put ''3579785673325141'' (''>Ou'7j96v+36:Qk'' @ [CHR 0x27]),
    Put ''1347470266357551'' ''Ss>20![k;/j2=`#'',
    Put ''2750429125540792'' '';<b>@u'Q?0/x5$j+'',
    Put ''5181137185732034'' ''*&'',
    Put ''7215059939475971'' ''?R-8(*S7-8$2g+'',
    Put ''4982744532508382'' ''-^a'H13X!5D3>Wo+'',
    Put ''6178832502329564'' ''=#,Ve'',
    Put ''8411147909297154'' ''$@q&K-'3t?E#9Gi+'',
    Put ''1714201688394385'' ''7L3!8~7Ng?&2-F{#'',
    Put ''3946517095361975'' ''>5t;L/06j3[e/$x#'',
    Put ''2162208307571956'' ([CHR 0x27] @ ''J)!Ww%Mk?U=*=(5''),
    Put ''7010709939563285'' ''=#<</:)]k3D/5Lw>'',
    Put ''6626839121507135'' ''9L#9%j*Do.]g)Ky2'',
    Put ''4394523714539545'' ''9;*<Z17/`7*:25d>'',
    Put ''6767053320298401'' ''/L/0Te)Lq2f)1,'',
    Put ''8999368727265990'' '';P9!8|?Fu;1l_a:'',
    Put ''2302422506363222'' (''<3=,<+@50Fc!1l'' @ [CHR 0x27]),
    Put ''4534737913330811'' ''#,*'',
    Put ''1573987489603120'' ''*A/0)6;B+57v;R'-'',
    Put ''6583279173644691'' ''#'',
    Put ''6038618303538299'' ''4@i'1p*Aa6%<5G)0'',
    Put ''3806302896570709'' '']30/h-:>%$|'',
    Put ''7355274138267237'' '',9:'',
    Put ''8859154528474724'' '';Ds6Xg+C?(T7>[a6'']"

definition load_2 :: "bench_op list" where
  "load_2 = [
    Put ''2890643324332058'' ''65('',
    Put ''5122958731299648'' '';>v*S#>[+1$t%2n>'',
    Put ''9857666716342838'' ''+?p6d/&*)(x0$&5'',
    Put ''1246548735333305'' ''&L#<;8#X#%Wg)Ge6'',
    Put ''5450397485569462'' ''83.%$+Fk#Tc>8|7'',
    Put ''3218082078601873'' ''2[e+L%=8v&/,0Uc6'',
    Put ''7943494956236073'' ''<W/0Ew38~2^q+'f+'',
    Put ''8270933710505888'' ''*]50,,20*0,f7A)4'',
    Put ''3478864142300894'' ''-,`/Be.A%8Gc.%d?'',
    Put ''5711179549268484'' '',W)'',
    Put ''5103312397416138'' ''4A)4Qe*L-5M'/Qi;'',
    Put ''2870996990448548'' '',9~:Nm;:j7'',
    Put ''8878800862358234'' '',K!!#*5/d*K#,&~&'',
    Put ''7335627804383727'' ''/06$!$.Kk7U?+.'',
    Put ''3825949230454219'' ([CHR 0x27] @ ''5v2H9$1f*;t8/v7''),
    Put ''6058264637421808'' ''1;f2Jk=684u53l*'',
    Put ''6386815834809594'' '')6&$G+/Iu6Ro6=~:'',
    Put ''1593633823486629'' ''?>>!*h!.0M35*`.'',
    Put ''4515091579447301'' ''+%.423(r;KY;-'',
    Put ''2282776172479712'' ''>X?4F5:6h3/|>;d?'',
    Put ''8979722393382480'' ''9Lk&.</9|6]s(7|7'',
    Put ''6747406986414891'' ''5h;-:)2h3_a8&'',
    Put ''4414170048423055'' ''5>t.e'&4,?t+.$<'',
    Put ''6646485455390645'' ''7'',
    Put ''5046076551212311'' ''2(d#Am$}+<|'',
    Put ''2181854641455466'' ''<^?:f$?W+/'',
    Put ''3926870761478465'' ''9't?G?2O/)A;0Zk/'',
    Put ''1694555354510876'' ''#<n;0v)$|20%Ps2'',
    Put ''8391501575413644'' ([CHR 0x27] @ '']34Z5!@}2-f:2l6''),
    Put ''6159186168446054'' ''3l&9&5Mc7Tk?9'',
    Put ''5002390866391892'' ''-Am3'',
    Put ''7234706273359481'' ''&.(<'|=O/<O3=(&0'',
    Put ''5377600524567132'' ''/8~+;'',
    Put ''2770075459424302'' ''+@c.4r<Gq7[m='4'',
    Put ''3338649943509629'' ''&&,0B{154<RcUm*'',
    Put ''1106334536542039'' ''%T!([;0;,4Xo4D'('',
    Put ''7803280757444808'' ''>A?18t5?&(]}(@g3'',
    Put ''5570965350477218'' ''*R}*W;;]9$Oq(Cu7'',
    Put ''5590611684360728'' ''8*~+%l&7&9=(+d/'',
    Put ''7822927091328317'' ''$%$-K-#S'-7Ro'',
    Put ''1125980870425549'' '');x/6n-2fGq75n'',
    Put ''3358296277393138'' ''4Lk7$`24$5Ou/@90'',
    Put ''1955337418209897'' ''9]c':v6.j&Hc>':%'',
    Put ''4187652825177487'' ''*2:0606Tk>(3,.9'',
    Put ''2509293395725280'' ''&'',
    Put ''2769779887576915'' ''.=f/@kCs']1<=$9'',
    Put ''7562145027629296'' ''>Ge3Lu1;|&'',
    Put ''5329829620661706'' '';&d>Fa,Pa>O96U;9'',
    Put ''6419968232145076'' ''(&2$=l0.<!!f4%p6'',
    Put ''8652283639112666'' ''>Li2Ws-ReF}?Ca?'',
    Put ''2543558236178734'' ''<+f>6`)/r/7|.R/8'',
    Put ''4775873643146323'' '';G)<H-$(r#_++;l*'',
    Put ''1921072577756444'' ''&=>,C=:|6*=M9<'',
    Put ''3112428292111447'' '')=~.7n3=~73>E--'',
    Put ''6973924209660459'' ([CHR 0x27] @ ''F{':p/M{.7pXm6''),
    Put ''4741608802692870'' ''14.-7t'',
    Put ''7008189050113913'' ''4N'9H3'&6=+l3Eu2'',
    Put ''9206239616628049'' ''2*:4$b61h7&n5]s/'',
    Put ''3131779054147570'' ''5M;=Hg3K'=Ag:30='',
    Put ''5364094461115159'' '''',
    Put ''1332851759787608'' ([CHR 0x27] @ ''>,-Po!O)$5$4<<8''),
    Put ''8994636471799811'' ''!Ki/@q6-v?/b#T?<'',
    Put ''6385703391691623'' '';26'',
    Put ''4153387984724034'' ''//v'!f(:|;3'',
    Put ''7596409868082749'' ''5)2)6$<E=!4(;,h#'',
    Put ''8618018798659212'' ''8.((N/4B+'',
    Put ''3719999872116406'' ''-'',
    Put ''5952315279083996'' ''!>f?6h6>*'',
    Put ''7446309418187719'' ''1(p*8r'Ma?O/'Za:'',
    Put ''1487684465148817'' ''??v2'r2S;=)$&F#0'',
    Put ''5797482573722787'' ''!;*'',
    Put ''3565167166755197'' ''<X{;*l,W5(Y7;5f?'',
    Put ''8184630686051585'' ''2Li2J/4Y3-T55Ry#'',
    Put ''8029797980690376'' ''8B+=/l0U3'',
    Put ''3975458536654475'' '',!.5[#+H;;68z7'',
    Put ''1834769553302141'' ''%!6)2*+R}>42402('',
    Put ''4862176667600626'' '',!>8F95Q#=*t'',
    Put ''2629861260633036'' ''*U%-Wm/Oy*Ve3Vs'',
    Put ''8531715774204910'' ''#,().j'_m;,h'',
    Put ''7682712892537052'' ''Rk/'~3O?<Ky;=|6'',
    Put ''4067084960269731'' ''4,'',
    Put ''6299400367237320'' '':/&'',
    Put ''1906749643033888'' '':-l7$|(14%!*09,'',
    Put ''2422990371270978'' ''6@;$96'Ay.Zu=Zu2'',
    Put ''4273955849631789'' '''',
    Put ''2041640442664200'' '',$'',
    Put ''9119936592173746'' ([CHR 0x27] @ ''3<1-?Q/<Kw.)l7''),
    Put ''7094492074568215'' ([CHR 0x27] @ ''?11&&+,<Jk(/~*''),
    Put ''4655305778238567'' ''#_'<N?3.6-S<Vm&'',
    Put ''6887621185206157'' ''%_+,O?'',
    Put ''7788957822722251'' ''>B?=4h<F;,5`8.48'',
    Put ''3011211189239814'' '':-&5$n2#$<?r'L=,'',
    Put ''3685735031662953'' ''43~*[u*>~*F9#5h#'',
    Put ''1453419624695364'' ''+&>%Ly/*8(&v,_s/'',
    Put ''8738586663566968'' ''6]18Le2Gw&Q%,^/'',
    Put ''6506271256599379'' ''4X?1U'-R7,%6(-r#'',
    Put ''5243526596207403'' ([CHR 0x27] @ ''Ym/Zu*(dJ=9Ci?''),
    Put ''7475842003174993'' ''#Z9'',
    Put ''1367116600241061'' ''>~(6/=*=E7$W+9'',
    Put ''3599432007208650'' '':Yu'#t61n7Ww87j?'',
    Put ''3097514213694117'' ''17lD)?r:Sc<V;!'',
    Put ''8651988067265279'' ''14d7*<*<,Vu(.$8'',
    Put ''8150365845598132'' ''7Xo79h'Di/7j'',
    Put ''5918050438630543'' ''1H/L-/Me:0|%;4%'',
    Put ''5831747414176240'' ''(0|&=d%Ge&)x(L3='',
    Put ''8064062821143829'' '':I{33b'Y/8>v??61'',
    Put ''2056600594528442'' '',a&Fk))t6#d<Qi&'',
    Put ''5701465539935650'' ''>U3%[8C19Kc:04('',
    Put ''2408030219406736'' '''',
    Put ''8280647719838722'' ''$H%->5@?-F{.H#$'',
    Put ''7460881851310751'' ''41:88~&,!!4Cc7'',
    Put ''3227796087934707'' ''&M2Fm4Dc;N=&<v&'',
    Put ''6521231408463621'' ''-Y{/9(,7x2Nw0G54'',
    Put ''1236834726000471'' ''37h']{.Is#;d0&<'',
    Put ''2644821412497278'' ''%;:'',
    Put ''5113244721966814'' ''-S7(];#Rm'Kw5*f2'',
    Put ''1819809401437899'' ''&/r+'.36(G#&;x3'',
    Put ''8868868537807558'' '',:~>923.x>*&'I5='',
    Put ''6872661033341914'' ''3Us*U18C9'',
    Put ''3816016905903543'' '':'.<E5%@'4C#43>'',
    Put ''7109452226432457'' '''',
    Put ''6486139080316352'' ''5L'<H+$=`D=*Po&'',
    Put ''3233042230466115'' ''4Wy:Ck/Q3<5&,[5)'',
    Put ''4525023903997977'' ''1#f/'t<4n6(t/8'',
    Put ''1231588583469063'' ''.Ms.[c=]u/Qk',>('',
    Put ''8989654717933156'' ''3D=,.fTi#2:+t:'',
    Put ''6284440215373078'' ''=Qy2f%/<0Vi:=p7'',
    Put ''4404237723872379'' (''79&<Hi*(0<[=5Dg'' @ [CHR 0x27]),
    Put ''7697673044401294'' ([CHR 0x27] @ ''W{;_3!]q#8p,S;1''),
    Put ''6039309006279892'' ''*Ri'u.$>)Js,v7'',
    Put ''3821263048434951'' ''#O+=-d,Vg/;x5H?0'',
    Put ''3936803086029141'' ''07p/72.$(0H#2M98'',
    Put ''6433677655002271'' ''?>>45*&%45V+%F#('',
    Put ''8401433899964320'' ''??8496*1<4U-/K/0'',
    Put ''5696219397404242'' '':Sg#L#4245Ry<4<8'',
    Put ''4992458541841216'' ''#D1$E/*E'!#l32'',
    Put ''8285893862370130'' ''+6<%Tw>Js?T702j2'',
    Put ''5278277279060374'' ''81.$K#7O9(I'/.40'',
    Put ''2962826773469027'' ''8^y'9b0!r>X'*Ee.'',
    Put ''8054348811810995'' ''3'',
    Put ''4760913491282081'' '''',
    Put ''5927764447963376'' '':%8%),4&d&=:/#*('',
    Put ''8632978950523454'' ''2(6-6.29*|=F)1'',
    Put ''8749128160593618'' ([CHR 0x27] @ ''(b>1h.?<))n6''),
    Put ''4168348136588276'' ''4<n7Og(;~;)t-!&('',
    Put ''3589717997875816'' '')4b+Vm%/j'1.;x?'',
    Put ''2919381406219336'' (''=#l#L1'' @ [CHR 0x27]),
    Put ''7466127993842159'' ''Pa*>07*'',
    Put ''4172692673313245'' '':Pg:Ie<('',
    Put ''6515985265932213'' ''*O-4D1(4|&0r'']"

definition load_3 :: "bench_op list" where
  "load_3 = [
    Put ''9221199768492291'' ''-=z7/$;2`/U;%C#%'',
    Put ''1463133634028198'' ''*'|;<=^+<Yg%R/4'',
    Put ''4756568954557112'' '')?j&`&:p/24+Wo2'',
    Put ''3001497179906980'' ''#C?!Z/'',
    Put ''8801589585907699'' ''8[e7w*;88;45I3!'',
    Put ''6877907175873323'' ''%Wk?6f'',
    Put ''3584471855344408'' ''5[5!H+8=f#-l'',
    Put ''7104206083901049'' ''85x.Dg-:*(Xm-I7<'',
    Put ''8637323487248424'' ''2_g/0,X!9Y)=X{&'',
    Put ''2051354451997034'' ''6n/2l'',
    Put ''5344789772525948'' ''33&5%x!4~/B=3+n;'',
    Put ''2413276361938144'' ''.'j3,21+x&2x-.r6'',
    Put ''1468379776559606'' ''1#(<Y!2R{'4*;/>)'',
    Put ''6289686357904486'' ''#':,Nm?&()5`1Ky+'',
    Put ''2996251037375572'' ''9N1%^e4O}2Lc#8f2'',
    Put ''7692426901869886'' ''+2&0X{,9<'',
    Put ''8049102669279587'' ''*<,=+$+&r*#2,Wi+'',
    Put ''2639575269965870'' ''1[3<<~>N+%x',0$'',
    Put ''5933010590494785'' '';.t/-!565=l,U-,'',
    Put ''1825055543969307'' ''4J7'',
    Put ''6762367138279133'' ''2801#,'',
    Put ''9956989961849596'' ''&Q.Hm>A&'z6%,$'',
    Put ''2297736324343954'' ''.O+5T99:nP9,Ku#'',
    Put ''5460329810120138'' ''->05>:-Q)0T947>!'',
    Put ''2755115307560060'' ''>'',
    Put ''7933562631685397'' ''%36-*.'',
    Put ''7219746121495239'' ([CHR 0x27] @ ''&d6,,-)''),
    Put ''3468931817750219'' '';5f7!d4[w'!49(<8'',
    Put ''7350587956247969'' ''8z/Sy<:z2K{2'',
    Put ''4074781782161233'' (''4F{2((%[a3^g2Zw'' @ [CHR 0x27]),
    Put ''2885957142312790'' '';r/'',
    Put ''4872108992151302'' ''$3>0)'',
    Put ''2166894489591224'' ''3:l'Zc&/nT?0+81'',
    Put ''8521783449654234'' ''8*l'Jo.W+'',
    Put ''6631525303526403'' ''?.b&1&-];8Ui3&v?'',
    Put ''4057152635719055'' ''-Re#Gi63p:H'4_1%'',
    Put ''7938808774216806'' ''(_==U-/T35]'3I+9'',
    Put ''1807426397527130'' ''6X9)4|<J#5Fq0=d#'',
    Put ''3474177960281627'' '').05/(<-j>Uy.V!<'',
    Put ''4283888174182465'' ''9Ic>6&2-<8',%H3<'',
    Put ''1578673671622387'' ''4V75Om'R/,^m6?~;'',
    Put ''9110004267623070'' ''2#8<<`/M}6P9?-.('',
    Put ''6043304485557566'' ''->8)2h*=9#:0/$'',
    Put ''4645373453687891'' ''0).$.j-Ai>'f>+<='',
    Put ''8527029592185642'' (''-K/$Rm!B/-f6g'' @ [CHR 0x27]),
    Put ''7689634577215493'' ''384=Eu)I?(Ms5Aq6'',
    Put ''4062398778250463'' '''',
    Put ''3695667356213629'' ''4[?56v'R}#$~,%<<'',
    Put ''9904528536535515'' ''(z'V}+/*-L)29&!'',
    Put ''8748518988117644'' ''=^i#/l,:b6R)?7j;'',
    Put ''5455083667588730'' ''8).,*'',
    Put ''5233594271656728'' '',$hK#Uw*<|>8|?'',
    Put ''4409483866403788'' ''99`#(9Wi?'$%9<%'',
    Put ''3348582268060305'' ''572$/h7.z!<+:.('',
    Put ''5514694753139079'' ''(20).!9$)Mk%M'!'',
    Put ''7813213081995483'' ''=!b#As>P/10<>Tw+'',
    Put ''5107998579435405'' ''6*t>0d:*(-^q.H?,'',
    Put ''5580679359810052'' '''',
    Put ''8874114680338966'' ([CHR 0x27] @ ''&f.Z;:Q546t&7l>''),
    Put ''1116048545874873'' ''+Lg?S+<^{2Iy<Qi7'',
    Put ''4997704684372624'' ''4Ga?_#?Iy7]-(^k7'',
    Put ''2760361450091468'' ''G'5+&,3b3?.9Ze:'',
    Put ''5330738704374455'' '')5|*_9)**1'',
    Put ''7224992264026647'' ''<5$5]#>)v+'',
    Put ''4519777761466569'' ([CHR 0x27] @ '']c/Q/;Hk>A#1;<$''),
    Put ''6168900177778888'' ''Ba>P/89v3>$5]=8'',
    Put ''8984408575401748'' ''#I!8.~=>p/Hq/*>,'',
    Put ''1704269363843710'' ''4J--Oy$/>(Su'',
    Put ''5585925502341460'' ''%2<!54<,l/P!%+<1'',
    Put ''2172140632122632'' ''#8r:#41/n*Sy'6r;'',
    Put ''1121294688406281'' ''*Um#86)>8!/b1),8'',
    Put ''6636771446057811'' ''8P/59'',
    Put ''3931556943497733'' ''#Gc6X96-.'',
    Put ''6757120995747725'' '',L'=E77<2$Y);_-'',
    Put ''8396187757432912'' ''4G}/3,=H78L!6.='',
    Put ''2292490181812546'' ''.(h36p'>34*1'',
    Put ''6174146320310297'' ''5V{L584j.6*&_y3'',
    Put ''1583919814153796'' '''',
    Put ''1709515506375118'' ''4Ga6,f)1j'A;?#|/'',
    Put ''6048550628088974'' '':Kw:.8;K?8H?#Bk:'',
    Put ''3343336125528896'' ''2U),'4]%%?z-+r*'',
    Put ''7345341813716561'' ''&^u+*>2W}*Ke=%68'',
    Put ''7807966939464075'' ''!74,Ym'',
    Put ''2880710999781382'' ''Os*R;=C-<6t<4t#'',
    Put ''6978610391679727'' ''-2$'',
    Put ''3710067547565731'' ''!$2-Gm(Oy*Jc%Ki.'',
    Put ''7003502868094645'' ''0109Jg3_q3'',
    Put ''7545632663694477'' ''*'',
    Put ''1950651236190630'' '';Uk:>h=<~3Ki5&l:'',
    Put ''5807414898273462'' ''8X}6F;124!=~#S7!'',
    Put ''2513979577744548'' ''4L?)Je1Dw7),S?!'',
    Put ''8174698361500909'' ''8Gw>u=Hw>Bo$.v2'',
    Put ''6390389573710891'' ''2:1>,,$d*=l2Y%('',
    Put ''4298288365534567'' ''.!h+Zu,Cs:Re$K5<'',
    Put ''7591723686063481'' ''#Xq31`,E;'',
    Put ''1663424484006114'' ''0'2)A/>9l>*&,/t7'',
    Put ''2538872054159466'' ''(5:,1r8O?-'f&Co'',
    Put ''5219194080304626'' '')=|&_};U=1Zw5*('',
    Put ''1925758759775712'' ''3]1<M!6.h#8h!36('',
    Put ''8762919179469746'' ''8;h6-<,U;'',
    Put ''5802168755742054'' ''/$<=.23Tk*'l->$4'',
    Put ''4886509183503403'' ''.E9%-&?Oe'Gc$S;<'',
    Put ''8179944504032318'' ''8'',
    Put ''4218783695682249'' ''4Zo7Ku&:2(2t#)08'',
    Put ''3127092872128302'' ''?@%(#2.:f2'',
    Put ''4630973262335790'' ''->1^58)h7:.<O31'',
    Put ''1337537941806875'' ([CHR 0x27] @ ''_=%>''),
    Put ''9095604076270969'' '')4*<(n/Y/-Eq.X3<'',
    Put ''5213947937773218'' ''+U',L)9:6'',
    Put ''5474730001472240'' ''+Ag:^/)-t>&*,V!4'',
    Put ''8768165322001154'' ''6P3$I'2H+G)<=j6'',
    Put ''1010099187537061'' ''=R:F+(6b#+'',
    Put ''3715313690097139'' '')&6<Z9&A-!;l<<j?'',
    Put ''4042752444366953'' '',):0Pe26l#U/?Ey?'',
    Put ''7493171238380396'' ''8&2(Lo>841-0!Jo;'',
    Put ''8507383258302132'' ''5Zk#+x1%r&_s'',
    Put ''9115250410154478'' ''-2v:Eq&+*'',
    Put ''1357184275690385'' ''+&`2Z133l'#*$(b.'',
    Put ''4650619596219299'' ''$M1%Q3->n.g5$`3'',
    Put ''3107446538244793'' ''4I79=z+N?4:,+p'',
    Put ''4022320356847152'' (''-2v:!r)HcU!2Xm'' @ [CHR 0x27]),
    Put ''8160298170148808'' ''-Su2,d.$lHo'0.5'',
    Put ''4866862849619894'' ''.)z;Tw1Q}.+'',
    Put ''5821815089625564'' ''8(9Gm8)*)@w1My*'',
    Put ''8743272845586236'' ''>X?0K}!Z#$(82v3'',
    Put ''1945405093659222'' ''6%`7J{%[#$->5;,1'',
    Put ''5238840414188136'' ''+[;89j9i#N);Vi#'',
    Put ''2519225720275956'' ''!Xy>_78BuHo9Iq:'',
    Put ''1859887822841211'' ''5Rk&56>S3$[u0Rm6'',
    Put ''7572077352179971'' ''-,1007;p>.t:Q=1'',
    Put ''4278642031651057'' ''1<~?D-8<z+(v'P-)'',
    Put ''6410035907594400'' ''95j;W;,6h2Xq(,l*'',
    Put ''8155052027617400'' ''&F74'~2[y2S*S#1'',
    Put ''2533625911628058'' ''6Po'[;&<x7Se%$f3'',
    Put ''5827061232156972'' ''3'',
    Put ''1931004902307120'' '',7v.7|6381>r*+>)'',
    Put ''7742096002529574'' ''(Tw+F{.Ha'Lm=Y+!'',
    Put ''6983856534211135'' ''6U#K-3$.$Hm#N%='',
    Put ''3690421213682221'' ''(Ue2N+<&r*Hu$#>('',
    Put ''6998256725563237'' ''!]g*Xc6;&!3b-'n3'',
    Put ''7566831209648563'' ''-W-=&0#$|I#%%r.'',
    Put ''3121846729596894'' ''2Xc*La>N3)2$?Tg+'',
    Put ''6415282050125808'' ''$p.Ia#$>-Ok.Zo&'',
    Put ''1342784084338284'' (''=@k;/f.!(-_9>*j'' @ [CHR 0x27]),
    Put ''1362430418221793'' ''-$z2Ku!*(9Ms!>n?'',
    Put ''6395635716242299'' ''.P95Vq*'`'+p'(z;'',
    Put ''3102200395713384'' ''<H1'',
    Put ''7586477543532073'' ''$Wc>X)>I'=Ou)*|/'',
    Put ''2272843847929036'' '';I1(Q1:Gs>%p,7z7'',
    Put ''8415834091316421'' ''1N?!Ue7+$).v(!'']"

definition load_4 :: "bench_op list" where
  "load_4 = [
    Put ''6737474661864215'' ''&E?1,21%t.-n,Zc>'',
    Put ''3951203277381243'' ''<-'',
    Put ''6656417779941320'' ''-Po3'',
    Put ''1101648354522772'' ''?=h7#$%,l#O+0Ce#'',
    Put ''2191786966006142'' ''5La>949H!($'',
    Put ''5566279168457950'' (''(-n::(+Q58N'#@i'' @ [CHR 0x27]),
    Put ''1684623029960200'' ''7:,-2>?:'',
    Put ''9004054909285258'' ''<#rVi6Je2Ei*<r'',
    Put ''6149253843895379'' '''',
    Put ''4539424095350079'' ''0W--0,*To'1v,Q3,'',
    Put ''7244638597910157'' ''0E1)78.%0=A//964'',
    Put ''5134275365539358'' ''/_s3Se,;'',
    Put ''2780007783974978'' '';5r6Qw#9'',
    Put ''4978058350489114'' ''7He?%&5(&#T{2'',
    Put ''1096402211991364'' ''+'(12t;Q?<$d;96!'',
    Put ''8854468346455457'' '';)x#&D90,f,9x2'',
    Put ''5561033025926542'' '';$~>,h&Q;=7.8Z=9'',
    Put ''5127644913318915'' ''76-R{>9p:Vu6N#'',
    Put ''7832859415878993'' ''=P5(Xq8'&,U;)O!9'',
    Put ''7479328141490053'' ''&V-$Ck&=4)&`.**,'',
    Put ''3368228601943814'' ''69~Ho)Y)8K!4V+$'',
    Put ''4389837532520278'' ''72r+%06,v':l2101'',
    Put ''5081813940225276'' ''=,h;>z6@c;_w4Hu:'',
    Put ''8266247528486620'' ''6Q;52$-P+%<(7K'',
    Put ''4972812207957706'' ''?Ka?R9=S7,,6I9-'',
    Put ''5715865731287752'' '':%,(Fc,]o*$4#W'0'',
    Put ''8421080233847829'' ''>_/03b%('',
    Put ''6630140993837368'' ''.#6%Ee;9(%;63?'',
    Put ''3956449419912651'' ''--<<,n45>-]u8A+='',
    Put ''3801616714551441'' ''1T-4Z+$A-<]{7Cy;'',
    Put ''4625727119804382'' ''6H/(B37[w#s8T#8'',
    Put ''6062950819441076'' ''4,25Fe3G1(0~1F)$'',
    Put ''9090357933739560'' ''4)$$$h=$:0.>9V?1'',
    Put ''1598320005505897'' '''',
    Put ''4303534508065975'' ''9?0'',
    Put ''3454531626398117'' ''.(:)-v5Ye&P3=!('',
    Put ''1610963058692032'' '')F2'',
    Put ''7919162440333296'' '',7:57`7Oy:Uo:U{7'',
    Put ''4037506301835545'' ''=W{?-.&W#'',
    Put ''6651171637409912'' ''?+'',
    Put ''8502137115770724'' ''Cy>I?.@#$-2))h?'',
    Put ''2186540823474733'' '';5`6Te5>|#J%$Vq2'',
    Put ''4891755326034811'' ''7]%,1|&T};Nc#H)9'',
    Put ''2866310808429281'' ''-&4-*x9$>8D!3.9'',
    Put ''4271245120996330'' ''2Y7<8b73rI/3Hq;'',
    Put ''7330941622364460'' ''2D+8Os8(4)F1$S3-'',
    Put ''3449285483866709'' ''<Wi&Rk,G%%I7B}&'',
    Put ''7239392455378749'' ''='',
    Put ''7913916297801888'' ''0=n2Cm7Bk*-'',
    Put ''2774761641443570'' ''5)b/=6'',
    Put ''5479976144003648'' '''',
    Put ''2278089990460444'' ''4>*,1n2C-,L=>4(0'',
    Put ''1015345330068469'' ''0s.5`?Ms38>:20!'',
    Put ''6742720804395623'' '')E}'O+.<~2?d;Fq:'',
    Put ''2861064665897873'' ''9%r2Fy1'',
    Put ''7827613273347585'' ''7<p#@4A-'',
    Put ''7325695479833051'' ''(^1)B)!(<<8x2[5!'',
    Put ''3362982459412406'' ''4Qu6Qo$::5*-(l.'',
    Put ''6068196961972484'' ''<(r?+'',
    Put ''1689869172491608'' (''+2r37h&>65$~%3p'' @ [CHR 0x27]),
    Put ''1603566148037305'' ''+$>-D5,Uc7,.3'',
    Put ''6154499986426787'' '':|'*z#[#(Xu*9%'',
    Put ''2171580671610491'' ''=>*!#`=6'',
    Put ''1473284273796715'' ''5P;,.)Wc&0,?'d3'',
    Put ''8170230494699484'' ''0J+)Vq3L99^%:)b.'',
    Put ''4403896078578081'' ''!'l;#f*6(0Bk>'',
    Put ''6757680956259865'' ''2P5%H5#8=V3'D7'',
    Put ''7455977354073641'' ''9l7=2=<(4[#0L+)'',
    Put ''7590311331708735'' ''*&>$Wo&6b?+r%):('',
    Put ''4525365549292276'' ''-&`'[!<46%W{6^'4'',
    Put ''1583359853641655'' ''0@')Hs7>t>;j./~3'',
    Put ''8850634558278795'' ''>M-)3j%1<-8|$.d+'',
    Put ''7582009676730647'' ''1Ga&+'',
    Put ''3815675260609244'' ''$C%!Z;:Q}6'',
    Put ''7345901774228702'' '',+$,<'',
    Put ''8044198172042478'' ''(Qe&*4'',
    Put ''1347251951139709'' ''77x6F14<((068C;!'',
    Put ''5113586367261112'' ''*9n31x#Zs7-'',
    Put ''9951390356728192'' '':'v.8f'Ls/L/>;4)'',
    Put ''2968426378590431'' ''<E+$?h1'b67(0p&'',
    Put ''6993788858761811'' ''2:v6Ts1$`;?f;4~;'',
    Put ''3227454442640408'' ''$_+5$h;,z6>n=844'',
    Put ''7934122592197538'' ''0F=5])&Z1$Y'!]=0'',
    Put ''8632418990011314'' ''>^9<3<7Gg:Cy3=f'',
    Put ''1935472769108546'' ''8Mo3H9>Tg>N+5G;8'',
    Put ''5701807185229948'' ''8$z.0l'',
    Put ''4069182177039828'' ''#R%8?,6Sw.7r1'',
    Put ''2913781801097931'' ''5)&!&642(1Wa5!>4'',
    Put ''6405568040792975'' ''=(,)+0-0l7Sc#'',
    Put ''2639233624671572'' ''+TyEc5Gi2-.<.n'',
    Put ''8522343410166374'' ([CHR 0x27] @ ''O;1-2'$h'.<,?p;''),
    Put ''9220639807980150'' ''%Mq:?)D{79p;;25'',
    Put ''2523693587077382'' ''6='',
    Put ''6290028003198785'' ''!Ra=$:',,Ha!Du#'',
    Put ''4524463943485837'' ''2<>!-:,)v+;&0<:!'',
    Put ''3826167545672061'' ''2J}/>27*l*7b2U7,'',
    Put ''7923630307134722'' ''87~6881,j6#:1#:9'',
    Put ''6756779350453426'' ''?[3%$n1B=$0<&E3'',
    Put ''4404797684384520'' ''9Rw.:632h64d8$d7'',
    Put ''5103094082198296'' ''='',
    Put ''1593852138704471'' ''9<h&Se)L1'',
    Put ''2172482277416930'' ''+J11]!:Pm7.x7*$<'',
    Put ''3936243125517000'' ''0Di2Zo0A==Z!!Oy/'',
    Put ''3237946727703224'' '';Y;'',
    Put ''8511851125103558'' '',,h74z'U9)J#,&0<'',
    Put ''6168558532484590'' '')Om?8z7]q'-,W;4'',
    Put ''4993018502353356'' ''->f/Ps2Im>.b*#-'',
    Put ''5691314900167132'' '''',
    Put ''1005631320735635'' ''('',
    Put ''2760703095385767'' ''?61G{(Fe/Us3V7('',
    Put ''3348022307548164'' ''%'(-F+*02(Y/7|:'',
    Put ''2649725909734388'' ''8(:8-h<l3&~>1b+'',
    Put ''9100071943072394'' ''!,'',
    Put ''5580337714515754'' ''1'f+?p.9,41l8_5'',
    Put ''5581239320322193'' ''-_;=90+Mi:3l,U!5'',
    Put ''6279535718135969'' ''&G}>[35Y3((*-Tk#'',
    Put ''4174105027667991'' ''-]{7Zk'>>!E?$%z*'',
    Put ''3348923913354603'' ''%!|7><+8|'Zq>R'$'',
    Put ''2759801489579328'' ''9A=(;>$*v>Ei?4(5'',
    Put ''2061505091765552'' ''0(>$Y#-3n6De<'',
    Put ''8758451312668320'' ''?;:!Y+=h*#j)'-'',
    Put ''4992116896546917'' ''?=*1>2?U{*Bo1:$5'',
    Put ''6169460138291029'' ''?&!P5&Bi6B/%_3('',
    Put ''6867756536104805'' '';C5=6<&e3>,7F-5'',
    Put ''1708103152020371'' ''.Io7@78'hBc(4>4'',
    Put ''3937144731323439'' ''$204C#+7&=10>Ja3'',
    Put ''2534185872140198'' ''4Q%!I/$Ca'Y};&&-'',
    Put ''3232482269953974'' '',*z.T/?Q;%Q?+_)1'',
    Put ''3464463950948793'' ''.Ai*Xg9Te;H{<S5$'',
    Put ''3018704651726094'' ('':Ku;_?1Su3>.3`'' @ [CHR 0x27]),
    Put ''6983296573698995'' '',Vq/[?,L14'p=(v7'',
    Put ''6285000175885219'' ''(G{?D+:$.'',
    Put ''5464797676921564'' ''4Y)11>6L*A$X{6'',
    Put ''9215611980666584'' ''&3'',
    Put ''3122406690109035'' ''=3|+M72/$'',
    Put ''3820703087922811'' ''4_-0='',
    Put ''2876243132979956'' ''5A9)]o'',
    Put ''8900912831414457'' '',*,)Uu-2:$Rq)3t'',
    Put ''6395075755730158'' ''<&h#Ee%0'',
    Put ''5696779357916382'' ''5Re7Y!9;*'',
    Put ''6053018494890400'' ([CHR 0x27] @ ''#x?*:)9d?;2H'9''),
    Put ''8627391162697748'' ''1My6/v%=((.'',
    Put ''3710627508077871'' ''=%:,Ls7C+$8<4Ds3'',
    Put ''4408923905891647'' ''0Y%(Hs'',
    Put ''2288022315011120'' ''=!v>Bo'',
    Put ''1478312101110282'' '';Rc#P/;R3%7$8'$'',
    Put ''5806854937761322'' ''7!p.Vw8Q-%,*,Yq.'',
    Put ''5108558539947546'' ''*Gw#.`,I#5'.-I=<'',
    Put ''6641239312859236'' ''.[c*,x8Y10Go)[{?'',
    Put ''8039170344728911'' ''.JuKm/D3=;:6)*4'']"

definition load_5 :: "bench_op list" where
  "load_5 = [
    Put ''4298848326046707'' ''=D3)Y1;38-{Om?'',
    Put ''4997144723860483'' ''(I;,Q)'',
    Put ''1699801497042284'' ''.'h>M'!^)'',
    Put ''2066532919079118'' ''0^{.G%5r2Hy*[e7'',
    Put ''5218634119792486'' ''$4l/J3.5(-Ha3>:8'',
    Put ''4520337721978710'' ''/&'',
    Put ''7229460130828073'' ''3W38:t,:x#N;I9='',
    Put ''7450949526760075'' ''%S;8)(5Ys6Rm'',
    Put ''1813026002648534'' ''N9=N+%Ti:@%;Jo+'',
    Put ''8795989980786295'' ''$@5!A}?!1Ka(U!)'',
    Put ''5817347222824138'' ''074(Y=*U#%@y=Jc&'',
    Put ''2051012806702735'' ''2F#$Og*92!$:&Ie3'',
    Put ''9110564228135211'' '',+~#.p/?:),<8'',
    Put ''8637883447760564'' ''+Q=<$4-I190$&@u#'',
    Put ''3111914405046218'' ''<L+(6h,G%4Vo3($)'',
    Put ''6878248821167621'' ''=0'',
    Put ''7695234182336898'' ''7^{.X!=Xs/>l'7z>'',
    Put ''1467819816047465'' ''+/f*=:&M)$I}'',
    Put ''5229126404855302'' ''+W=<R;#[q*V1Nu&'',
    Put ''1462791988733899'' (''+$t?=:=_7%?4Lc'' @ [CHR 0x27]),
    Put ''8747959027605504'' ''84b>P=4f&10%O11'',
    Put ''8049662629791728'' ''(I9%Tq+,-<z!,8'',
    Put ''3700135223015055'' ''2Pk?=.!M{7#&1f/'',
    Put ''7466469639136458'' '''',
    Put ''1357744236202526'' ''#4&'',
    Put ''2056040634016302'' ''&(p>,0=<<)Mg8Qs.'',
    Put ''4640905586886466'' ''&,-Hg5K55:$=Q15'',
    Put ''8745711707650632'' ''!1v7$2'',
    Put ''8159738209636667'' ''-]s7E/7f;%j9l#'',
    Put ''7461441811822891'' '',/*$0<&&%Bm1,'',
    Put ''4288356040983891'' ''=W1'',
    Put ''8054690457105294'' ''40x6A)+/$04b4Ke.'',
    Put ''1945965054171362'' ''-+b'I7:@g*]i:>.0'',
    Put ''2644261451985138'' ''=[>Ie+$|?#z9Wc3'',
    Put ''4052684768917629'' ''+;>1C3(#(,Xi5=(4'',
    Put ''2863503527962269'' ''>E/T%>4.$R}(!(!'',
    Put ''7571517391667831'' ''6Ri&3v?Mo3r5-$<'',
    Put ''6873220993854055'' '''',
    Put ''4876576858952727'' ''$8x?6d(Ss/Yq0:0,'',
    Put ''8642911275074130'' ''E50Vw8^3<~'6&%'',
    Put ''7239952415890889'' ''>Au>Eo/,8%X)0841'',
    Put ''7938248813704665'' ''8[/(De9[/,6**G%$'',
    Put ''1241302592801897'' '''',
    Put ''5007637008923300'' ''(/-5*=Cu;'',
    Put ''2277530029948304'' '':!x/4n:[m/-6(;,'',
    Put ''1579233632134528'' ''++*9]i:#'',
    Put ''8276179853037296'' ''1&85L=*L;9H}7Ie&'',
    Put ''4509845436915893'' ''2S#%'>+M19[38A;-'',
    Put ''7828173233859725'' (''>T!<B2Ms>'' @ [CHR 0x27]),
    Put ''8526469631673501'' ''?X'(4v.[iYq3Ss*'',
    Put ''1829523410770733'' ''.='',
    Put ''5595857826892136'' ([CHR 0x27] @ ''Mw*-(%6*)B3%3~.''),
    Put ''1689309211979468'' '''',
    Put ''9910128141656919'' ''7#h?Lo6V9'',
    Put ''7687959035068460'' ''*8$40/x+G9'',
    Put ''3921624618947057'' '',E98W3+Ki'Ya0Y!9'',
    Put ''8416394051828562'' (''5!h.|+8*=%j?Se'' @ [CHR 0x27]),
    Put ''9114690449642338'' ''9$|/]a3;$$*`=O?-'',
    Put ''2417744228739570'' ''<Z/!Yo3Nu.U}=X)0'',
    Put ''6184078644860972'' ''%Rq+V+?+`/1'',
    Put ''1101088394010631'' ''11Y7/N=82~,D1!'',
    Put ''4027919961968556'' ''*O9!#f&Bm&J}:Ma&'',
    Put ''7099738217099623'' ''809Sy5',=2&1Q!='',
    Put ''3333403800978221'' ''8#x#**!I19+`6H/='',
    Put ''9004614869797398'' ''*Ee6Ic#!j*)|'Tk;'',
    Put ''8743832806098376'' ''/0.)A%/4$)?`//.('',
    Put ''3005965046708406'' ''4G)8*68;()4:,>'',
    Put ''6772299462829809'' ''(D'1E93%p#[3+!4'',
    Put ''5128675760417953'' ''5Nw7?~9[%8Bk-<n*'',
    Put ''1854288217719806'' (''-/v&8(1.r?G!'Tm'' @ [CHR 0x27]),
    Put ''6511517399130787'' ''#;(%Ra-B19>l4Xs#'',
    Put ''2745182983009384'' ''=W/%,84Vg;Tg3:l+'',
    Put ''4887069144015544'' ([CHR 0x27] @ ''=r2$b51#d:?4<''),
    Put ''5585365541829320'' '')Mm+Aw+^5'',
    Put ''1111580679073447'' ''<(z#D;&_i#,,=Lo2'',
    Put ''2654753737047954'' '':m.!>(C}6?b:1r/'',
    Put ''4630413301823649'' ''4Iy>/:.1r&Dw-+,='',
    Put ''3932116904009873'' ''(%d*$z'',
    Put ''7817680948796909'' ''36z+G52+:!<81Km:'',
    Put ''6862728708791239'' ''$+<86`-$t200-:8'',
    Put ''5475289961984380'' ''2&(<l/]k'Lm!Vk#'',
    Put ''6173586359798156'' ''/,4,R9/1n6'$,E5'',
    Put ''5233598611046116'' ''=Cm*1|$R/<%6-'',
    Put ''3242974555016791'' ''!5h;H?&Es6%0;6|.'',
    Put ''4042192483854813'' ''6@m'%,5S--/r4'',
    Put ''3343896086041037'' ''#2t2Ye:Ja?E{68x#'',
    Put ''8405901766765746'' ''0*n*3d,/t21n.!'',
    Put ''6274507890822402'' ''5F'(<84B'%0r.3&='',
    Put ''6063510779953216'' ''4>85V129b+]+#6~;'',
    Put ''6761807177766992'' '')_+8>8Fm6;8&B!$'',
    Put ''6486095686422472'' ''?=(%C#:Qu/6j2.h;'',
    Put ''3831195372985627'' ''&F')Ig7K'1[}6&>-'',
    Put ''3453971665885977'' ''Au:v7&z#Sg+K}>'',
    Put ''2755675268072201'' ''&7&%O/(+h.$((='',
    Put ''8994122584734582'' ''!Li;.$!:d'D151b>'',
    Put ''5686287072853566'' ''83&!'.0!z;#>>0>5'',
    Put ''6651731597922053'' ''5v3('',
    Put ''7350027995735829'' ''>Vi9z-T90!~*/81'',
    Put ''6530817748330610'' ''*14+$2Z=8E%4^}'',
    Put ''4419416190954463'' ''0)f7%2'',
    Put ''2865750847917140'' ''!80=D5<.t2(d9:x#'',
    Put ''2167454450103364'' ''85&9;01-|*#d7Gi>'',
    Put ''8864400671006132'' ''/0.)04<W)=.~-30-'',
    Put ''5098066254884730'' ''4[=(H))Qo&U3$^=)'',
    Put ''6501025114067971'' ''=O-0Pg>2j.E{:0.1'',
    Put ''5802728716254195'' ''8$p:>:74d>(*=_)-'',
    Put ''5947069136552588'' ''&Di3*<1H#9C1<7*4'',
    Put ''8733340521035560'' '')X/%-8,G+0U%;S'='',
    Put ''2428236513802386'' ('';2<$!b+P187f'^c'' @ [CHR 0x27]),
    Put ''3126532911616162'' ''O-,'',
    Put ''3570413309286605'' ''M=$'',
    Put ''1959211068347969'' ''3G}/Vo(B3'',
    Put ''5912804296099134'' ''3#*'',
    Put ''5214507898285358'' ''=9.!Kw)_g#>|)G9$'',
    Put ''6535289954521424'' ''::l+J}X998,1!20'',
    Put ''8145119703066724'' ''7+:)!x!]1<Qi5't#'',
    Put ''3016457331771222'' ''8^1)7x-O?-K/<D/%'',
    Put ''3714753729584998'' '',Da7(7Xi3H!([s.'',
    Put ''2982192491317769'' ''7r6=<>]',',2Hw?'',
    Put ''7841419248036332'' '';'',
    Put ''5324583478130298'' '''',
    Put ''4626287080316522'' ''6'<X)*,&5Gw58>$'',
    Put ''7123510772490260'' ''/%8),6*%.1%`<<9'',
    Put ''7556898885097888'' ''#]i#-|'8d;B1*Sa>'',
    Put ''3604678149740059'' '''',
    Put ''4302974547553835'' (''>6t?76#2h:Gm<Jg'' @ [CHR 0x27]),
    Put ''2393971673348933'' ''7#(4S=7>z22f.*'',
    Put ''1372362742772469'' ''50v.6(7H?'',
    Put ''4736362660161462'' '',S/$Cc0[o6;'',
    Put ''4038066262347686'' ''+_s'60#T+=T!)'(-'',
    Put ''7711731590459097'' (''-Ic2%p4,f'3h$#v'' @ [CHR 0x27]),
    Put ''6968678067129051'' ''5Eo.+$'Y%=.r!2v>'',
    Put ''4192898967708895'' '':^/96~(Wch;8'',
    Put ''4891195365522671'' '''',
    Put ''1805750855380096'' ''((44<h3#v>0f;Z5<'',
    Put ''1960583560741305'' '')'',
    Put ''8853908385943316'' ''?I6^q#A3>h.[?<'',
    Put ''8155611988129540'' ''#2:-&&;.,=[=.&x#'',
    Put ''3594185864677242'' ''<Kc3+'',
    Put ''7360520280798645'' ''5^'9=&)'',
    Put ''7535324192704098'' ''0-<=Gu1Hs6='',
    Put ''7736496397408170'' ''98(%-v6Uw_!?Es2'',
    Put ''5923296581161951'' ''>9j#8$=8t7E=1l'',
    Put ''2156962165040548'' ''?88=!:=6.1Vk'5,<'',
    Put ''8265687567974480'' ''!!!)~$Oi7;&/+'',
    Put ''7567391170160704'' ([CHR 0x27] @ ''Q98T%;4f3Ge+)&)''),
    Put ''4182406682646079'' ''$2j:P3(:651,+]'0'',
    Put ''7948741098767481'' ''+A6264Mg2<b5U;1'',
    Put ''6635740598958773'' ''(:93`-(f.'48Pu*'',
    Put ''1361870457709653'' ''3*p+$&-P#1D?7z#'']"

definition load_6 :: "bench_op list" where
  "load_6 = [
    Put ''5335075763193114'' ''!.<4N:J+'',
    Put ''1568741347071712'' ''>#|?]w0!`6!`:L91'',
    Put ''7677466750005643'' ''9F3$Z+<Ym.Ui,?(8'',
    Put ''6979170352191867'' '''',
    Put ''4770627500614915'' '',!((Q-$Y74P3;Es7'',
    Put ''8536961916736318'' ''>&,4<1A95;t#1b;'',
    Put ''1251794877864713'' ''+J3%V!$[g>52)Lg7'',
    Put ''1950091275678489'' ''4^e*87&~/=&4F;<'',
    Put ''4746854945224278'' ''99v:F35Eg:9,;Ki/'',
    Put ''9805205291028757'' ''/*z3188Na;!8<B'9'',
    Put ''7089245932036807'' ''1',5E?3Uc7<p,V5,'',
    Put ''6390949534223031'' ''4Yo?@}2C+=E.'$!'',
    Put ''5358848318583751'' ''>^'$/'',
    Put ''9125182734705154'' ''7(t+88'<:%E33,~?'',
    Put ''1840015695833550'' '''',
    Put ''2538312093647326'' ''%V};Xs='',
    Put ''4158634127255442'' ''.2d7)'',
    Put ''3922997111340393'' '':5>)2f>N}:Vc4B{.'',
    Put ''6399761937749426'' ''/;-Sw1V{.~7O'4'',
    Put ''2754896992342218'' ''+E/%E/9}>U;$)l.'',
    Put ''6048332312871132'' '''',
    Put ''1757148124391467'' ''>?(8C!?];9,p-C?<'',
    Put ''2529499690120931'' ''1I3-#:'',
    Put ''6762585453496975'' (''-28!Yo'' @ [CHR 0x27, CHR 0x27] @ '':!Vc:&l2''),
    Put ''3469150132968061'' ''(M-1W}?F!93r:4`7'',
    Put ''8753546815431210'' ([CHR 0x27] @ ''Oa>O#*Rg;42+W/,''),
    Put ''5811541119780590'' ''<_i?G/=P:]16*$!'',
    Put ''3343117810311055'' ''/B7,)p'B;8Qk3;('',
    Put ''6636553130839969'' '';9p>F'8H&/f:#<1'',
    Put ''4125060055296895'' '';Ei+$>'',
    Put ''3117720508089767'' ''$[?5-*6.*96>)T79'',
    Put ''6174364635528138'' ''64d7-`<A3Tk;^s2'',
    Put ''2880929314999224'' ''._5),'',
    Put ''9104976440309504'' (''>_g+#|#)<0^'' @ [CHR 0x27, CHR 0x27] @ '',4=''),
    Put ''5223320301811753'' '''',
    Put ''3931338628279891'' ([CHR 0x27] @ '',-Hq%Lm20|!2(''),
    Put ''7224773948808805'' (''6AcFo&=jL?/'|'' @ [CHR 0x27]),
    Put ''1000726823498525'' ''63`?=&37d2$*!Pw;'',
    Put ''3705941326058603'' ''#Us.^?'W)'',
    Put ''5586143817559302'' ''&><%Fu$Y9<'',
    Put ''2292708497030388'' '')^?,48<^a?K?>%,('',
    Put ''8516755622340668'' ([CHR 0x27] @ ''1$''),
    Put ''4635099483842917'' ''/f;+:'',
    Put ''4519559446248727'' '':U7$6:2h'C18?r;'',
    Put ''7812994766777641'' '';,j&Vc4M-15f!$j7'',
    Put ''1588947641467362'' ''6h+Y!'',
    Put ''4294162144027440'' ''4$j#M+;'&%O-=3$)'',
    Put ''4997922999590466'' ''&Pi:0d(5r;6d#Oi'',
    Put ''1704487679061551'' ''!_))1&=]+16|6O3<'',
    Put ''7928534804371831'' ''),v2#<>1$4T14#48'',
    Put ''8752645209624771'' '',42!&(Ci#Qg5]#4'',
    Put ''4020137204668733'' ''1.0)Ka/Ni+2v?7,%'',
    Put ''3695449040995787'' ''0'',
    Put ''2528598084314492'' ''$L%9:|.P+Kk>0.<'',
    Put ''1766164182455857'' ''?V{?1'',
    Put ''9115468725372320'' ''>K6%f0>:)_g:-,%'',
    Put ''5822033404843406'' ''>V/!.d+/x#Rw'Y5$'',
    Put ''6400663543555865'' ''-Z)42x0$~;9n4<6%'',
    Put ''8164424391655935'' ''$?|#No>-01(|17l+'',
    Put ''9902345384357096'' ''4]i?E-,Wu.L'?Mu#'',
    Put ''4283669858964623'' ''>!j'&21S+,V3>D}&'',
    Put ''1940377266345655'' ''(Ik7He&98072#)45'',
    Put ''7648372362144221'' ''.Y}#W+)2t;(/_s>'',
    Put ''8527247907403484'' ''62'',
    Put ''5233812586874570'' ([CHR 0x27] @ ''[)!$(-_c?S}:94)''),
    Put ''6988884361524701'' '';$8%I90+.5@s:B94'',
    Put ''7576203573687099'' ''3Li#6>+7j+0l(O)1'',
    Put ''1578455356404546'' ''*4d+^s8%<!$z?Ta+'',
    Put ''4871890676933460'' ''-V3'',
    Put ''1352156448376819'' ''*S9-B=/*()&|$@w>'',
    Put ''1353058054183258'' ([CHR 0x27] @ ''9b7X-4T34,p;;~;''),
    Put ''7939027089434647'' ''6%|;Ni*Yk6_=3H%0'',
    Put ''4645591768905733'' ''&!.1/:,Zc+Qs6Hw?'',
    Put ''7577105179493538'' '';Tg+Xa%7>=K1.A35'',
    Put ''6987982755718262'' ''!:x2@a6S7<Ie#$><'',
    Put ''2166676174373382'' (''=#f'0&<149=<'@'' @ ''{2''),
    Put ''5460111494902296'' ''%Cu;_#1<|*4t0@#%'',
    Put ''7639356304079831'' ''2C=1F/2$<=Cm&Q9='',
    Put ''1941278872152094'' ''4#:<5>!0j?%d>P=-'',
    Put ''7350806271465811'' ''%&.-Cy-[c/'',
    Put ''4057370950936897'' ''!>n+T%0,f27x#=h:'',
    Put ''8165325997462374'' ''5S+'',
    Put ''1693995393998735'' ''5Di+-v(W/%C/)U3!'',
    Put ''7460663536092909'' ''3=`*Lq?S2N='',
    Put ''7692645217087727'' ''.M?!6,:@-9?r,Fc*'',
    Put ''4530051731311543'' ''(So:)6G+'',
    Put ''7235266233871621'' '';%0(16:(>=J;'',
    Put ''2056818909746284'' '',U?!Hq3+*4Ae>*:'',
    Put ''1236616410782629'' ''!'<-Ry'',
    Put ''4987430714527649'' ''0*$,7b/=29-(5x/'',
    Put ''1105774576029899'' ''9Iu?]%(6$=Bmx'',
    Put ''8048884354061745'' ''52t:*p*Dg7I=00d&'',
    Put ''7104424399118891'' ''/:'',
    Put ''5118272549280380'' ''3[w3]i$Tu/Fk2.2<'',
    Put ''7823487051840458'' ''%-.1A=$C-%D-*B)-'',
    Put ''1468598091777448'' ''34&84v$R}>WgK7!'',
    Put ''1824837228751466'' ''.10J'$'*!-:1Sa>'',
    Put ''4399209896558813'' ''5B?4G)58v;Ju1'',
    Put ''5175537580610630'' (''3F50.8?Da7Da6)~'' @ [CHR 0x27]),
    Put ''8637105172030582'' ''+T-$.0$[}?>2<0!'',
    Put ''6516203581150055'' ''1/$5#r%Vo'D=6&>5'',
    Put ''5706493367249216'' ''<Ui3&v$*$<3$,Qw*'',
    Put ''8411707869809294'' ''9F{&R?)#.(Co#]{6'',
    Put ''8803772738086118'' ''%&=Z=*7d:98;.(8'',
    Put ''2413058046720302'' ''/Rk622%H%0(<D9='',
    Put ''3810989078589977'' '',%64>b09z2=0/1n;'',
    Put ''7066705990777330'' '',X='',
    Put ''9221418083710133'' ''=Se+5`6P:Hw;8%'',
    Put ''5927982763181218'' ''<1r/H;7?4=Wc3/n;'',
    Put ''6294714185218053'' ''+[%,#b=Ii+56'[y3'',
    Put ''8999928687778130'' ''!'',
    Put ''2921564558397754'' ''!(.'',
    Put ''3001278864689138'' ''._=%[y+1v/Eo%7`7'',
    Put ''3222768260621140'' ''=;0,3h)P5(6'',
    Put ''4046878665874081'' '',<'',
    Put ''5107780264217564'' ''3Bc?>0'=p.J?%:,!'',
    Put ''8401215584746478'' ''8&08=z2Cs7:l52,,'',
    Put ''2177168459436198'' ''(%z#`7S;#r-G%8'',
    Put ''4882382961996276'' ''#Fk#^;$&'',
    Put ''4409702181621629'' ''7^{'('',
    Put ''1116266861092715'' ''1M=8Bu=N)4#~'',
    Put ''7340313986402995'' ''0O#9&|(-f3p5Pk:'',
    Put ''3458657847905244'' '';Om+)~;9$(R/':d>'',
    Put ''5696001082186400'' ''4Q90[?!Y?<=b'36!'',
    Put ''8989436402715314'' ''-S+Ze>]q6Tm$W?8'',
    Put ''2765389277405034'' '':L!!L%;Gk*Q/&1z?'',
    Put ''5470603779965112'' ''(&,4]-)1<$0*:L5!'',
    Put ''3821481363652793'' ''.Jy#1:>Pa&<l-0.('',
    Put ''5280460431238793'' ''!2j2;j$--[s>!89'',
    Put ''6752093168434159'' '',Io&Rk4'',
    Put ''2870437029936408'' '''',
    Put ''6284221900155236'' '')R)%0v)<)R/)7|?'',
    Put ''8869086853025400'' '']?8(+28(b)$t'',
    Put ''3353610095373871'' ''+Kc*R31Fy3J/8So.'',
    Put ''6058824597933949'' ''8M7-W%(S!19|'',
    Put ''3233260545683957'' '',L}<|C5-Ak'Cs3'',
    Put ''6017477484495704'' ''&Bc2_{(8~'&.$(`3'',
    Put ''6163872350465322'' '';2$Fq5Z54#84,6('',
    Put ''2282216211967572'' ''%Zo2-z<^i/?l.Ho#'',
    Put ''6872442718124073'' '':5`*Is)_99Y'4908'',
    Put ''8280866035056564'' ''!I-5Cg&'.<Ds+A{/'',
    Put ''3941830913342707'' ''!:t.>`'',
    Put ''6647045415902785'' '';)d8z*P#!7*>Yu/'',
    Put ''2645039727715120'' '':%l&)*!]'</&=)6<'',
    Put ''6483955928137933'' ''(S!)Ue/<45V%<M)-'',
    Put ''5575651532496486'' ''#588X34+'',
    Put ''3011771149751955'' ''0+4!1r#5*8Yw.A'!'',
    Put ''6280313993865951'' ''/M9(=)Zm>G//My>'',
    Put ''2986878673337037'' ''0<`2B14.8%B/25*'',
    Put ''9210925798647316'' ''%R7'']"

definition load_7 :: "bench_op list" where
  "load_7 = [
    Put ''6505711296087238'' ''8G'4467Lo.&t;;20'',
    Put ''2648947634004406'' ''?765!.#Gw>G17G9-'',
    Put ''5942382954533320'' ''.Z=,$:$&4-'',
    Put ''2816641707769592'' ''-Yy6$d9Cy+Fe-_%='',
    Put ''3599991967720791'' ''*!'',
    Put ''5692093175897115'' ''0J{;^'0%p2?b&20'',
    Put ''2398657855368200'' ''8<p.6.1=<'',
    Put ''8622704980678480'' ''?,z'('',
    Put ''5917490478118402'' ''9Tq*;x6L+,+h?Nw?'',
    Put ''3237168451973242'' ''%D{22r1I)0V3=_15'',
    Put ''6530603772502156'' ''!-,,Zo-Ae20r?4f+'',
    Put ''3065566471918771'' '''',
    Put ''4188212785689627'' '':82%T?#.h67(0Si.'',
    Put ''5103872357928278'' ''$>:!@1'Y;!1>6Vk*'',
    Put ''1810437037399364'' '''',
    Put ''8034484162709644'' ''6C948:8O'!2>*W5'',
    Put ''5329269660149566'' ''$^q#4'',
    Put ''3825389269942078'' ''2+d.7&3Lm>Z/8Uk;'',
    Put ''7118824590470993'' ''*@?&3:(4U#;D{7'',
    Put ''8947774651607134'' ''&M?(P-3*0=7$?B!)'',
    Put ''4776433603658464'' (''*O)<':-Yc.+8#Ko'' @ [CHR 0x27]),
    Put ''4515651539959442'' ''4Y91D}6-4,H-2Rk;'',
    Put ''1222216219430528'' ''2X/(<<?Ba&x8Ew?'',
    Put ''7446263344740807'' ''4/<5Qk=F//.9.0)'',
    Put ''4741048842180729'' ''Q3)Q=,Hi?)*=%24'',
    Put ''4413610087910915'' ''//j:T10X;,=p/,f3'',
    Put ''7707045408439829'' ''.)$-Y%=]y77h(Qq?'',
    Put ''1482998283129549'' ''%Ou.N3898W;%?*8'',
    Put ''6588878778766096'' '''',
    Put ''8633197265741296'' ''(.f/Do$;f++(>,,9'',
    Put ''5339761945212382'' ''4^{#Qi>Q50F=%_+-'',
    Put ''6882935003186889'' ''?)z*56$*$%5r1B'4'',
    Put ''8858594567962584'' '';:~&0f3,t?k((2!'',
    Put ''2960643621290608'' ''$12'',
    Put ''3589499682657975'' ''8]'<Ck4Wk7'',
    Put ''2634547442652304'' ''&X9(02#Q+4>4*1~7'',
    Put ''1247108695845445'' ''&Ng>Eq=2*-a13<$'',
    Put ''8044976447772460'' ''(-<=>n99h2G!Y=4'',
    Put ''4751541127243546'' ''/FJw.Ym*Q??Sc2'',
    Put ''7471155821155725'' '''',
    Put ''8270373749993747'' ''6H99I7,%b/0:9Xm3'',
    Put ''8842851800978971'' ''91.4(~=K%!=22)('',
    Put ''4177720500626811'' ''/2r*Qw?3*(Tg5;('',
    Put ''2046326624683468'' ''1Qu.A;<@;'',
    Put ''1835329513814282'' ''Qy*B93)j:<=B}7'',
    Put ''7456755629803624'' ''<'d69>Ay60x'*$-'',
    Put ''4163320309274709'' ''+5'',
    Put ''8059376639124562'' ''?N==Wi7U/=;n!,'',
    Put ''7682152932024911'' ''=G%(3t'',
    Put ''1472505998066733'' ''6R}'Ee=#>!=4.680'',
    Put ''4765941318595647'' '':i/Am'_{>7`&*8,'',
    Put ''1458105806714631'' ''.D:Y;*9j/N'.D%0'',
    Put ''2423550331783118'' (''<Ge;T'' @ [CHR 0x27, CHR 0x27] @ ''7>''),
    Put ''6868534811834787'' ''+O38Ba;K?1Na5Sy#'',
    Put ''3575099491305873'' ''00$,T}'',
    Put ''8647597457093398'' ''$Lo&B/3>(5>l)Xs2'',
    Put ''7093932114056075'' ''6%4.67E+-!r2!$'',
    Put ''2060726816035569'' ''Uk?+:9%<'',
    Put ''5354162136564484'' ''2p2Ee3%>1Ko(Q'8'',
    Put ''8698849887457955'' ''%Zy?Ku5J=8_?>[}&'',
    Put ''7717537693502645'' ''>/x&%r00=*2'Tu:'',
    Put ''1574547450115260'' ''?4l5v7/,%[12(,1'',
    Put ''1718887870413653'' ''&]k+Mo2=-^u-?~'',
    Put ''4505159254896626'' ''6<t?*`0T5$A);-d2'',
    Put ''1799944752336548'' ''*/l/K98U75+`*8l;'',
    Put ''7354714177755096'' ''&Z1%Nc89$-Lm#=|'',
    Put ''7798594575425540'' ''/'&!U},3h?0p$)*$'',
    Put ''4424102372973731'' ''=[u:#l&%>!M#,Vk2'',
    Put ''8305758511471482'' ''/&~>F-+H!$Y?54d&'',
    Put ''9863266321464243'' ''>I?'',
    Put ''2307108688382489'' ''4@5'',
    Put ''3916938436927789'' ''?9$,S{7We?E5?Go:'',
    Put ''1211723934367711'' ''!R}/W5,K)(He(:60'',
    Put ''7942934995723933'' (''*#v?U%(&$8f,]w'' @ [CHR 0x27]),
    Put ''7210373757456704'' '')R'!R;:Tk/D1!)&1'',
    Put ''5012323190942567'' ''?20(5x%Ya>1t'',
    Put ''8893979329440318'' ''6(~Ro+T+$?(?C-$'',
    Put ''3981058141775879'' ''1_g&(..F+<(d>A-<'',
    Put ''2895329506351326'' ''#@;5#0/Ka'J{'',
    Put ''3328717618958953'' ''%=89*0(2)D;=!f3'',
    Put ''6235031163988755'' ''[k#_=:J'4(46Vu#'',
    Put ''8531155813692769'' ''6Q+!Q'',
    Put ''6622152939487867'' ''8'.%>d$609Dw'(f:'',
    Put ''5600544008911404'' ''3(49:69V%4Ug#A99'',
    Put ''8964543926300396'' ''<S}3K;*Hc.:2,Aw7'',
    Put ''1901150037912483'' ''?&0<:9I+0H=<L!0'',
    Put ''3483550324320162'' '';'',
    Put ''2740496800990117'' ''1_?,'',
    Put ''3528229843003917'' ''77j#>+Xq*]o<c&'',
    Put ''9119376631661606'' ''2&2'',
    Put ''6033932121519031'' ''#=0!?03#z'K>]9)'',
    Put ''6188764826880240'' ''!&8%Ds+.pE;<'&!'',
    Put ''5364654421627300'' '')%>(^-/844'h$Lo.'',
    Put ''3927430721990606'' ''21n:Rg$H/%@c+P.'',
    Put ''6339954014616917'' ''$H;-22.Ay7F7)&28'',
    Put ''6858042526771971'' ''*Z9%$l6Sq/M})h&'',
    Put ''4152828024211893'' ''&5*)@&Xa:8'',
    Put ''5001830905879751'' ''%C7)8.7Cu:Pk!9p>'',
    Put ''8295266226408665'' ''3Gc>2..Ic;S//!6-'',
    Put ''2071219101098386'' ''14'',
    Put ''5952875239596136'' ''$:~#6Ye3Ns/#h7'',
    Put ''3339209904021769'' ''00f7M-69t9|2?~.'',
    Put ''4577458349285543'' ''&;|&F+#Fc>T1-;<='',
    Put ''6269821708803135'' '':F{#n3Nc/@9&_?='',
    Put ''3564607206243057'' ''8@yR'4Ni;I!,Cq3'',
    Put ''5590051723848587'' ''8(t3Pm'',
    Put ''8883487044377502'' ''15,Ua>3`/U=!*t*'',
    Put ''2659439919067222'' ''*=~*Sq'L!-$l1P-<'',
    Put ''6541096057564973'' ''7O;'',
    Put ''2750989086052933'' ''#5h>'76b/3::-,4'',
    Put ''5424462344759809'' ''(_)4Ya0Ae2<x'-t3'',
    Put ''5681600890834298'' ([CHR 0x27] @ ''^;=2(Xo.1''),
    Put ''2976386388274220'' (''5'' @ [CHR 0x27]),
    Put ''6178272541817424'' ''48p39.<;j?P+**1'',
    Put ''8975036211363213'' ''1v;3v*O?=)j=N30'',
    Put ''3247660737036058'' ''6I1,&dSa>Ug<H3)'',
    Put ''7129316875533809'' ''(Cm32,5y#:h'',
    Put ''2162768268084097'' ''10r#G/07h64<)Ni&'',
    Put ''1130667052444817'' ''49n:?6>/h?L>z2'',
    Put ''5093380072865462'' '';9`>'p*0<$.d8::4'',
    Put ''2388165570305384'' ''%W'!M1(Pe>+h:'v*'',
    Put ''6766493359786260'' ''>3'',
    Put ''8386815393394376'' ''1Zo*2,;'&%Fq)Gw.'',
    Put ''3835881555004895'' '';Bc%&:4<8:8?2:4'',
    Put ''7818800869821190'' '''',
    Put ''8395627796920771'' ''4n7Dq)T+Eg)4l'',
    Put ''3354170055886011'' ''0/48R{4-05;#4-'',
    Put ''2518447444545974'' ''<R{++447x2Ug=/h3'',
    Put ''4766719594325630'' ''038G==C;=]s,C-9'',
    Put ''2534404187358040'' ''!<d:)h0Cw+V'$K9)'',
    Put ''9215393665448742'' (''%N)=_59)4(Bm/*h'' @ [CHR 0x27]),
    Put ''3930996982985592'' ''2,44,8!&,4j?Y=,'',
    Put ''8407021687790026'' ([CHR 0x27] @ ''Yc+X9#5''),
    Put ''7807406978951935'' '''',
    Put ''3942390873854848'' ''%F!=/d;68-7>$Wm#'',
    Put ''3106668262514810'' ''2B+%l'.<%J}3C+-'',
    Put ''4178498776356793'' ''=$&0F{%?j3Z%D{?'',
    Put ''1946183369389204'' ''$Rk7A+7-x6H1/C=1'',
    Put ''8643129590291972'' ''%!(1[/+!b71p7/t#'',
    Put ''3342776165016756'' ''2@s+7n#*:5V=&)l2'',
    Put ''8995242505758863'' ''%Vk?_w77n#1z!;<1'',
    Put ''7219186160983098'' ''18h2Du9p3,*:=(9'',
    Put ''4530611691823684'' '':88Du:'6-B?#D74'',
    Put ''3694889080483647'' ([CHR 0x27] @ ''B;1#b,4(=3$1|7''),
    Put ''3590277958387957'' ''5=<$2(&$,?z.Y}>'',
    Put ''1357962551420368'' ''.Wo?Pq2',K9/M{&'',
    Put ''8054908772323136'' '':H-0Ho9:`.Ks'..('',
    Put ''2754555347047920'' ''57h#+($>~&2(;+j+'',
    Put ''8863280749981852'' ''&n.?d*D+8D')N)9'',
    Put ''6630965343014262'' ''?;|;Tg!%h:3;'84'']"

definition load_8 :: "bench_op list" where
  "load_8 = [
    Put ''5118832509792520'' ''9Jy3+'',
    Put ''4283109898452483'' (''!+d6?~+J'-R57Sk'' @ [CHR 0x27]),
    Put ''3002057140419121'' '''',
    Put ''7697417334515316'' (''(My+2((X-4Rm+,d'' @ [CHR 0x27]),
    Put ''7466687954354299'' '',Z7%S%-B;=!4)]-)'',
    Put ''2166334529079083'' ''1@m>W{.(.4&Mq7'',
    Put ''5465917597945845'' ''%Fu.E{$/*-^#;('',
    Put ''7698233004913434'' ''0L/!U7($.!X!,$z#'',
    Put ''1001286784010666'' ''(#!X#Ra3;~!H3)'',
    Put ''1655641726706290'' ''*6,(V1+Pk#_g5&|#'',
    Put ''7119602866200975'' ''&5)Zc=(l*[+-^/9'',
    Put ''4887287459233386'' '':T}+>p!I;1#(,C=1'',
    Put ''6862510393573397'' ''#K#1E;,$4-+.$T/='',
    Put ''6283880254860938'' ''0$l;N1&*<<260X/$'',
    Put ''6054138415914681'' (''7S'' @ [CHR 0x27]),
    Put ''8286453822882270'' ''-[+-Y/6XgF!6&.!'',
    Put ''1589507601979502'' (''01l2Sa<#v'Lo0M'' @ [CHR 0x27]),
    Put ''7537849906394654'' ''(=&$=v4Fq*?n%E'='',
    Put ''6531382048232139'' ''/N?='',
    Put ''4299066641264549'' '',/>9%x'7*%*'',
    Put ''7450731211542233'' ''&0h;+'',
    Put ''5695659436892101'' ''7L'867B-(#f'',
    Put ''6642359233883517'' '''',
    Put ''8874674640851107'' ''=9j>I%4Zc62|'',
    Put ''2177728419948339'' ''9Z/,Jm-Nm*H+4)n?'',
    Put ''1342005808608301'' ''$9r>6>0M}.Fo/*z>'',
    Put ''5943161230263302'' ''-|J!=-'',
    Put ''3710845823295713'' ''%>j.?'',
    Put ''8038952029511069'' ''?><)Iu2Hm3Ce'Ve'',
    Put ''5107438618923265'' ''1B-52z>'>0'n?9t2'',
    Put ''7230580051852354'' ''(L;!7t(O?)$d&=>('',
    Put ''8983848614889607'' ''*Yq;4>*z:H=2)41'',
    Put ''2765949237917175'' ''+$`;'~?M9<+*6Ci'',
    Put ''1930226626577138'' ''%C=990%%>!H%<1x#'',
    Put ''5354940412294466'' ''(>(8:z</6-Ac6,f#'',
    Put ''3122625005326877'' ''/B3Ss4L%!@u7Ys6'',
    Put ''8627172847479906'' (''4Ls3'' @ [CHR 0x27, CHR 0x27] @ ''C1-Z1>/,$''),
    Put ''4519217800954429'' (''%/(,Ai#*$G=3Fa'' @ [CHR 0x27]),
    Put ''5922176660137670'' ''7Q{7=j,=l'Uo6-49'',
    Put ''3689861253170080'' '':J3(1(?Gk6'250n3'',
    Put ''8059936599636702'' ''.3.$Cu:>$%Aa=~;'',
    Put ''7224213988296665'' ''5T?9Eo;-j>9*2Vy*'',
    Put ''6095305057493937'' '')Oq./`'W=0$z#]g:'',
    Put ''2171362356392650'' ''0]#<D-,$r&Qw81,'',
    Put ''4525583864510118'' ''.N{34()I{74t/.:$'',
    Put ''7747695607650979'' '':[1'',
    Put ''5333955842168833'' (''49d3R+>N;1Xm9!h'' @ [CHR 0x27]),
    Put ''3101640435201244'' ''6?.9Q9<Ca;0t/Jk*'',
    Put ''8648157417605538'' '')Mi>[%]s20z1.'',
    Put ''7812434806265501'' '':F!8Kw;',&x<3j*'',
    Put ''5272677673938969'' ''-M?9,'',
    Put ''2759583174361486'' ''1Po2Lg0Z#$8<&R5-'',
    Put ''3937363046541281'' ''5Ya?Tu'',
    Put ''1362990378733934'' '':16%(%&:<^7?Oy:'',
    Put ''4745735024199997'' '')A/1)`'X55Ge88l>'',
    Put ''2513419617232408'' ''&Iq&'$(.n+&8*Js'',
    Put ''9210365838135176'' ''%W;'',
    Put ''8400655624234337'' ''=Ru6#,3.$.?D-$'',
    Put ''1115488585362733'' ''<Ey&@7:F1=78:J=<'',
    Put ''3347803992330322'' '':<$1T'Wa._})^o'',
    Put ''3349142228572445'' ''0#p6*|3H}?0<Vg&'',
    Put ''1951211196702770'' ''+:pB92'',
    Put ''4157514206231161'' ''<Eo2-&/M>'',
    Put ''1925198799263571'' ''2X3'',
    Put ''8622145020166340'' ''*Vm;*x.3(='d!H3!'',
    Put ''8988876442203174'' ''&R=5S!7Pa6Zu%%x:'',
    Put ''1703709403331569'' ''=%-P{47$'',
    Put ''3936024810299159'' ''3#44Ne:|.-<'Yi>'',
    Put ''2760921410603609'' '')A-<Pq+:'',
    Put ''2539432014671606'' ''5^'%A=8<(':%/'',
    Put ''8275059932013015'' ''6Dw+9f=B5=#`&,.('',
    Put ''6042744525045426'' ''!?<$*n0Og#&x)09'',
    Put ''5707053327761357'' '''',
    Put ''4871330716421319'' ''==f'&>$'',
    Put ''2413836322450284'' '':::$>29^wZ{.O3-'',
    Put ''1815209154826953'' ''#&z/?x0%l+Ji*&05'',
    Put ''6878467136385463'' ''&(|'%'',
    Put ''1578113711110247'' ''(p7Ky-_o3H}!_u.'',
    Put ''7686839114044179'' (''>Z5<_s9,,)=p'' @ [CHR 0x27, CHR 0x27] @ ''*=''),
    Put ''5454523707076589'' ''=-'',
    Put ''6295274145730193'' ''/)'',
    Put ''5459551534390156'' ''*/,!Qq:!0!0$7_+9'',
    Put ''1825615504481448'' ''91`:Ti0@m3x/4(='',
    Put ''4066999024861410'' ''3E!'',
    Put ''6290246318416627'' ''0->8,.(_e7@;5<24'',
    Put ''9898928931414111'' ''9?j2T/+$b3X?$>48'',
    Put ''7098618296075342'' (''>EwEo-_3%C=Bu'' @ [CHR 0x27]),
    Put ''4866302889107753'' '',6~6.*5-'',
    Put ''6883494963699029'' ''>'f/.b.o2E15'',
    Put ''6047772352358992'' ''4_54+`6|&:*4Pk7'',
    Put ''1237394686512612'' ''#X-'',
    Put ''9949207204549773'' ''+#'',
    Put ''5702025500447790'' ''/F1,Hy=J)-0f%@#%'',
    Put ''4016720751725747'' ''!/f29|?7$8T}5W=('',
    Put ''6510397478106506'' ''<$-F3>N3%A!!<:4'',
    Put ''4278082071138917'' ''7I%1^1(Lw3+8/%n7'',
    Put ''7471715781667866'' ''70,(z%=|?2f!/r*'',
    Put ''6635993170327828'' ''$(x>52#]1$@m3='',
    Put ''6491738685437757'' ''?Zy'S15$b60>'0&-'',
    Put ''1583141538423813'' ''3@;'',
    Put ''5113804682478954'' ''+H/09&77)@c'K;,'',
    Put ''1865487427962615'' ''#_}*2>0*r:*.<Ve+'',
    Put ''1216410116386979'' ''!/13f7O+0Tq,4l.'',
    Put ''1015905290580609'' ''&9n63$9J3(Gw4]e&'',
    Put ''5681040930322158'' '''',
    Put ''6516763541662195'' ''Bu>.*&7n/V?<!l.'',
    Put ''4644813493175751'' ''7Gy/<'',
    Put ''6877128900143340'' ''3>4#<,9)L=!1l3'',
    Put ''1801826792405725'' ''+(p76.>Qa;Lw54'',
    Put ''5480536104515788'' ([CHR 0x27] @ ''Yy;N#',.=4!G7(''),
    Put ''6281892984181432'' ''5G5=Vs>U5$X/)*`.'',
    Put ''1604126108549446'' '''',
    Put ''5092820112353322'' ''Va?Y)44r>;p10j6'',
    Put ''5928542723693359'' ''6F;(;x2D;)7$8Xa7'',
    Put ''5233034311144587'' ''1K};,%Fi?Ra<3b7'',
    Put ''7465349718112177'' ''3^5)Ai-.,(Zk1I54'',
    Put ''7684034972094089'' ''8;(-P99%n>/2>4,<'',
    Put ''6068756922484625'' ''5Fo#Fw+Me3Yg-S1<'',
    Put ''3996848044930685'' '''',
    Put ''2192346926518282'' ''/Qu#Vk;(*($6/'`:'',
    Put ''4504599294384485'' ''$]98Kk<#l'Uw%R#'',
    Put ''5340321905724522'' ''(/f;[q0%h'D-.]k.'',
    Put ''5821255129113424'' ''63t'0&1,r2V!9*(-'',
    Put ''8053570536081013'' '':A>,&'',
    Put ''1356624315178245'' '';7j*%60_)=(`$f7'',
    Put ''6656977740453461'' ''40'',
    Put ''5482523375195294'' ''*3t&4v7#$4Ig>+~.'',
    Put ''2780567744487118'' ''9<h;I=<X#1*05?84'',
    Put ''3916378476415649'' ''0C'=2f%;n?)(7Hu:'',
    Put ''4752101087755686'' ''?T?04>(Z/0X7&Ki#'',
    Put ''6409475947082260'' ''.-j:,l?Fw>$(.94%'',
    Put ''8641791354049849'' ''1)v3W;/4h3-47Nc+'',
    Put ''1944845133147081'' '':1$('&,K/4Ts;3h7'',
    Put ''7245198558422297'' ''.@}&+,<N#%(|8Mg#'',
    Put ''3569293388262324'' '':'',
    Put ''1336977981294735'' ([CHR 0x27] @ ''I+%%l<I.A{+^51''),
    Put ''8033924202197503'' '',.6-Mg7Vq>7&-[u+'',
    Put ''8869646813537541'' ''$1|6n!Cu'+,)]-8'',
    Put ''2291930221300406'' ''!Fg;_i89(53vO;'',
    Put ''4524245628267995'' '''',
    Put ''2172700592634772'' ''=^!5/'',
    Put ''3127652832640443'' '')?'',
    Put ''2981072570293488'' ''9O}>A/+Z?=<x!;('',
    Put ''7487571633258991'' ''!(x21:#4r?4h96f6'',
    Put ''7445703384228667'' ''!#r*9`92$5<*110%'',
    Put ''8281425995568704'' ''?>#d$'',
    Put ''2880151039269242'' ''7*0%@i#I11R=>:d&'',
    Put ''5112466446236831'' ''/+p>No'',
    Put ''1584479774665936'' ''.T+($j3J=4Lc=A!$'',
    Put ''3715873650609279'' ''.Vu6@?#1$-%<;_%0'']"

definition load_9 :: "bench_op list" where
  "load_9 = [
    Put ''2392851752324652'' ''/=x;W33+0((l79>,'',
    Put ''1605363453570628'' ''/*8(6*:/<'',
    Put ''6857482566259831'' (''7Fa'Ay3+00U%*Ry'' @ [CHR 0x27]),
    Put ''7693205177599868'' ''8Q94L'8Qq>/(-;$('',
    Put ''3468371857238078'' ''7((<4$)Y3</'',
    Put ''5700687264205668'' (''%($4>p2No'*d49l'' @ [CHR 0x27]),
    Put ''9962589566971001'' ''3Gg6+&,V79?>7L?<'',
    Put ''4304094468578115'' ''$Oq?)v#Cy#Se?!b*'',
    Put ''1804630934355815'' ''$G{;8b9[9(=`0Q#-'',
    Put ''4276844726117735'' ''8A!5Jm)5$5!4'',
    Put ''6269261748290994'' ''6^'=8l/=v>/z!%j7'',
    Put ''7104984359631032'' ''7(&1Nm&X;$..>]g>'',
    Put ''4056592675206915'' ''*-n>%$2.,1,~+2*('',
    Put ''6288908082174504'' '',.(0X}'',
    Put ''4080381387282637'' ''5Mw#2|+E?5S!$Yw;'',
    Put ''4892315286546952'' ''5Rw*=d!60</*8#|.'',
    Put ''3489356427363711'' '''',
    Put ''5721671834331300'' ''%?4!9~7{&M;';&<'',
    Put ''9752743865714676'' ''&Pg*h2Ds2I-=0`2'',
    Put ''1810996997911504'' ''$[o.O%5Si.78:Qs3'',
    Put ''9096164036783109'' ''9E:;%-0'',
    Put ''6863848629815520'' ''*_u*>81+2!;b=H+)'',
    Put ''4885949222991263'' ''<[{:=46C+'',
    Put ''8260441425443072'' ([CHR 0x27] @ ''*x!$:6$C'00&%''),
    Put ''4077577245332547'' ''*C)1:j!Js7=j-)b#'',
    Put ''6309892652300136'' (''?S#)12-^;,F%';f'' @ [CHR 0x27]),
    Put ''3870535686026312'' ''.'',
    Put ''1222776179942668'' ''&B-<O!.Dk7=v(2$9'',
    Put ''8507943218814273'' '')_3$5t+Y-4,$5Ym>'',
    Put ''6275627811846683'' ''(<25^'-)v?&:0)0'',
    Put ''5474170040960099'' ''0Gq>S+5]k:F!03>)'',
    Put ''7672220607474235'' ''$?01Co5_?89n/3(%'',
    Put ''4665798063301383'' ''+P'1$3P;>0!H}2'',
    Put ''6898113470268973'' ''+Qi*K-2Rg.Xm'U#!'',
    Put ''2011672493662050'' ''74f+(l3Cu&2$1p6'',
    Put ''6345553619738322'' ''&W!4!~9J9-+:1:l+'',
    Put ''7919722400845436'' ''%Gc&]9+W+5Ca-9r?'',
    Put ''5687406993877847'' ''.&21_;=1$9(8)65'',
    Put ''6062390858928936'' ''9Eq>,:2?*4^q'',
    Put ''7083999789505399'' ''2Z+4+x;V))0x;7>,'',
    Put ''5254018881270220'' ''+.21%4$G=)]u7<h2'',
    Put ''7486334288237809'' ''4(0<Y-/1j&?d/<j3'',
    Put ''7893880673350414'' '')Ry3G;!T-(.,'',
    Put ''4633454400499588'' '',3~+.(=&645x;Es&'',
    Put ''7331501582876600'' ''4*`6&..+*-9r<*&='',
    Put ''5099186175909011'' (''$_3!Y))M7=S;;Le'' @ [CHR 0x27]),
    Put ''6650611676897772'' ''>+r+9825*1(8K7,'',
    Put ''6495778971536563'' '':%'',
    Put ''1136473155488365'' ''2Zk&.4;A9-[c9&24'',
    Put ''3368788562455955'' ''!+n#M#,S9(%'',
    Put ''3328157658446812'' '',^+<M/7Ja;3n!M3'',
    Put ''4163880269786850'' '''',
    Put ''6997696765051096'' ''=V{*'f;9,Ia+]'4'',
    Put ''9216731901690865'' ''1Ge?_o8#>5=6#6z3'',
    Put ''2533065951115917'' '')/h+6r'',
    Put ''7833419376391134'' ''#*2$*n([a6)p?Qa?'',
    Put ''1724693973457202'' ''(22-)'',
    Put ''3957009380424791'' ''9Ig#%4002%2x9_w;'',
    Put ''2739936840477976'' ''(^/,_s=#(%Co0C'0'',
    Put ''3575659451818013'' '')F5!/*2AqF)82~>'',
    Put ''7585917583019933'' '')9b/)*;Fg+*b!'',
    Put ''8628511083722029'' ''>'',
    Put ''3121286769084754'' '''',
    Put ''8421640194359970'' ''7P3!I%?(x6N;'^/5'',
    Put ''2312914791426038'' ''52b#_!=4z3(r?7*$'',
    Put ''4545230198393627'' ''%V+44p$!<,(6+b6'',
    Put ''2151716022509140'' ''$7t>14=;r*=v3>r;'',
    Put ''2987438633849177'' ''1Oq3Is2'',
    Put ''8174138400988769'' '''',
    Put ''8040290265753192'' ''3L+0H=Cs_c'',
    Put ''3709507587053590'' '',B39!4'',
    Put ''9009861012328806'' ''<b:&`,I#<=Xu3'',
    Put ''2901135609394874'' '''',
    Put ''5133451016362464'' ''-Ay736/]e3S'$?>8'',
    Put ''1563495204540303'' ''*.&4)t<Nk/To4%$4'',
    Put ''2399217815880341'' ''>D;5).-V:Mq>R!5'',
    Put ''8762359218957605'' ''*5z*603M99K-#3&4'',
    Put ''7452069447784356'' ''8K{:Bw,<'',
    Put ''4297728405022426'' ''4/#`#,j2T54Y5$'',
    Put ''8848662243411908'' '';I)8[76La*Dm)-x?'',
    Put ''3590619603682256'' ''2B?5#49K=4T+352('',
    Put ''4167446530781837'' ''9y*b9=(5Fe.Ie7'',
    Put ''8740112102529228'' '''',
    Put ''6746628710684909'' ''9_c>Ce(CM-,&$0'',
    Put ''8994900860464564'' ''.Iw.2n:/(1W'?A?)'',
    Put ''1693777078780893'' ''5?0(A!9Q?94:.9r7'',
    Put ''4987212399309808'' '')20U{2^;53v$J1!'',
    Put ''2971842831533417'' ''<Na2Bi%#2'',
    Put ''4178840421651092'' ''3,44F1)+8<Rk%_a>'',
    Put ''3579225712813000'' ''1Ye;:,,:&<)b14`.'',
    Put ''2857903922840864'' ''/,2)[y=6*$H=.4t6'',
    Put ''7334849528653745'' ''*9j77.'6,^w-@g6'',
    Put ''8406680042495728'' ''6Hw$'',
    Put ''2281997896749730'' ''1)z.W%2Ke&:|#2z*'',
    Put ''5575433217278644'' ''<<.5Y6N)9Bi6Do2'',
    Put ''8854051011221780'' ([CHR 0x27] @ ''[/<Fi#]m.Vk$0r''),
    Put ''4767061239619928'' ''+4$,-d/(*4Gm3Ye*'',
    Put ''2991004894844164'' ''<Ha;4<.+*!Y)3S19'',
    Put ''3024304256847498'' ''>]u&$/$%/p7Jo*'',
    Put ''7923070346622581'' ''8J;5>8%#&'',
    Put ''7818459224526892'' ''(@9'',
    Put ''2870218714718566'' ''6*21%0?Q10[w-$0'',
    Put ''6163654035247480'' ''+M7%*z7(d3)n0'',
    Put ''1473625919091014'' ''#8&'',
    Put ''5355282057588765'' ''!7<9G%47n2^c$$.%'',
    Put ''2402784076875328'' ''#=4W?'Ig2Q'>Y-('',
    Put ''8906512436535862'' ''7B99'',
    Put ''8511291164591418'' ''--n+A'56x:?*%Ui*'',
    Put ''7230238406558055'' ''-]w.;6!%b&2p?Z)%'',
    Put ''3458439532687402'' ''*Da7R7'-l*E13S#,'',
    Put ''6751874853216317'' ''7/*)^!<86,/n<Ta&'',
    Put ''2061846737059850'' '':N%-36&%0Ue9@-('',
    Put ''1237736331806910'' ''?1&1Do'',
    Put ''6520329802657182'' ''.$z?7'',
    Put ''3226894482128268'' '''',
    Put ''4393745438809563'' ''/Zi;_e(Ba3;r,&|>'',
    Put ''7098959941369641'' ''--l20d_)1'',
    Put ''6591061930944515'' ''6W{;Wy3Eg?8(>:!'',
    Put ''2634329127434462'' ''(Y#=>`.+d&C?9*='',
    Put ''2055698988722003'' ''2(x.+l<!h:t->.'',
    Put ''1825957149775746'' ''+Bi/Y{:<:4Bk1F%<'',
    Put ''5932108984688346'' ''%Sa3#4'',
    Put ''2638673664159431'' ''#[/'',
    Put ''4981966256778399'' ([CHR 0x27] @ ''+`._5#F;<4*&+t3''),
    Put ''7687180759338477'' ''/]+%K{792)<r8#b>'',
    Put ''7088537512561518'' ''&d'Zc*#<8z4Um*'',
    Put ''3222549945403299'' ''%_{&+v4Li:S}(D?9'',
    Put ''1467478170753167'' ''4.x?-'',
    Put ''2414177967744583'' ''.%h/c+;6){<<,5'',
    Put ''5343888166719509'' ''09l:1x1A#8Zq!9x7'',
    Put ''2050452846190595'' ''%94'',
    Put ''5570187074747236'' ''=X1%Fi0,-x:^?('',
    Put ''8275401577307314'' ''=:()K)&Y/4K}8F3'',
    Put ''5173354428432211'' ''5Pi>U)5.n#@i?Nm7'',
    Put ''3810770763372135'' ''86()Mm7H{8~8Me:'',
    Put ''8792573527843309'' ''(*l>Fa8J;(M/<l#'',
    Put ''3002398785713419'' ''08d>+f:m.9**@+!'',
    Put ''4755667348750673'' ''7Ha*Hu8D?!N;=}7'',
    Put ''1462232028221759'' ''1_{'&*.1~'62<04,'',
    Put ''6158407892716072'' ''9<*1!87Wa?>r1a/'',
    Put ''8863622395276150'' ''=2r;;d7A-)I}/2.0'',
    Put ''1105556260812057'' ''9X'9Xk;/*1U{'R}6'',
    Put ''4398991581340971'' ([CHR 0x27] @ ''5|7^+?+(<&r9Li;''),
    Put ''2910365348154946'' (''5D'' @ [CHR 0x27]),
    Put ''8296386147432946'' ''88|.'v0584S=$0(='',
    Put ''5383200129688536'' ''!Rq2D+?-~7$<)H58'',
    Put ''3831755333497767'' ''.369T-;Nm&Ye-)f'',
    Put ''6994348819273951'' ''Pe]s'',
    Put ''4289134316713873'' ''8R5)S54W/5Hw&Vk2'',
    Put ''6399543622531584'' ''4_g6Lk%Oe?4'']"

definition load_10 :: "bench_op list" where
  "load_10 = [
    Put ''8753765130649052'' '';Og+=v38)?z4X;-'',
    Put ''5002950826904032'' ''%Gi&F/+'$!v+)n/'',
    Put ''8884606965401783'' ''0Ck.8.49h&E=1Ks6'',
    Put ''1126540830937690'' ''7F=4S?.5*5.(..2<'',
    Put ''4419976151466604'' ''#:2(H=8!l*B#+6<<'',
    Put ''6406128001305115'' '',h>(x2-`f%C}3'',
    Put ''3700913498745037'' ''6G;$$d_u?)h#Aw'',
    Put ''6987764440500420'' ''/&`.Rm;T}7S!*#(-'',
    Put ''8165544312680216'' ''<[54Om;8*9'',
    Put ''5591171644872868'' ''>Z?0*b5Es3*z.Ic'',
    Put ''8973916290338932'' ''>Ug7*./=((Ey91~>'',
    Put ''1714761648906526'' ''!8p64>-36%'',
    Put ''5008196969435440'' ''9X;)h.F7('|>^o;'',
    Put ''5817907183336279'' ''?I'50z5.r&642B%5'',
    Put ''3112692680776201'' ''>^i6]/+<6,^c06('',
    Put ''7575985258469257'' ''2Ns',,$):807Ws#'',
    Put ''7577323494711380'' ''1Nq29:'',
    Put ''6179392462841705'' '')I%4N=49b?Jm'',
    Put ''8385695472370095'' ''+Mg&Uw)5|?3p%'',
    Put ''2302982466875362'' ([CHR 0x27] @ ''W%5K+#''),
    Put ''5596417787404276'' ''9T9)*$9d'0d/J=1'',
    Put ''5229686365367442'' ''C#4!x2I{:(v9'',
    Put ''2524471862807364'' '':Ee3k73b#<65I3='',
    Put ''8164206076438093'' ''$Y1,86)T+5Jm?r3'',
    Put ''6989102676742543'' ''$='',
    Put ''6767613280810541'' ''.;`+,f1Si?%>'Us.'',
    Put ''5943502875557601'' ''?&<-Ry)5`66><;z/'',
    Put ''1814563258906491'' ''05b;C?8Se7&n?!,9'',
    Put ''1478872061622422'' ''(Sq?9'',
    Put ''9099511982560254'' ''2P)9A#1^u/I3<!|:'',
    Put ''6642017588589219'' ''0I-0Ka.)b/n8%>'',
    Put ''4046660350656239'' ''/'8<;~1>j;%j,(p&'',
    Put ''7340095671185153'' '';'=B)'',
    Put ''2650067555028687'' ''4:&,Oy3Cg+4f.7f:'',
    Put ''6531723693526437'' ''@u*I=71j;#l&>*$'',
    Put ''1226342440937655'' ''&D{2Bw5F;$J!53(5'',
    Put ''2067092879591258'' ''1Y%!:*3Y{&{)'t7'',
    Put ''8759011273180460'' ''9K5(Vm9-f3(p)Xw;'',
    Put ''6053796770620382'' '')W6S97!x&.b#F+,'',
    Put ''4634881168625075'' ''9:p=6%0z6d%+p:'',
    Put ''7928316489153989'' (''?Bg;V5+#f>H3,Aw'' @ [CHR 0x27]),
    Put ''3238288372997523'' ''%08=#l#Z#9>4:0~?'',
    Put ''7119944511495274'' ('';U}6E{=>(,?d,Hy'' @ [CHR 0x27]),
    Put ''6381216229688190'' ''/To;)pQu&^?+'',
    Put ''2655313697560095'' '';Lu7.b;_m+]'!G1,'',
    Put ''8170790455211624'' ''=-n?Ys3W94Y-/W)$'',
    Put ''5465575952651546'' (''-<v7]m:@?-=h>Ys'' @ [CHR 0x27]),
    Put ''5223101986593911'' ''+4r&.<,Qe6#:3Ni6'',
    Put ''8516537307122826'' ''8$|7D13/x;3n&Bw&'',
    Put ''3826509190966359'' ([CHR 0x27] @ ''%$)U-)Gq(r5L{6''),
    Put ''7708165329464110'' ''4E>'',
    Put ''4990080499998266'' ''4W-<*2&+45Ai*[{7'',
    Put ''3243534515528931'' ''-2|2T##%t>N38F/,'',
    Put ''7582569637242788'' ''(P)(D#&%)E%8:<1'',
    Put ''4877355134682710'' ''$&j?!~'',
    Put ''5811322804562748'' ''-U!$(r/*`.C}=U'='',
    Put ''9104758125091662'' ''.Wa>(>?D=1R522f3'',
    Put ''4414730008935196'' ''#Ce/<f,[)(G%&6r?'',
    Put ''5444591382525914'' ''3L?4:|+<:5L=)Q%!'',
    Put ''5244086556719544'' ''=^/9((*-`3<h97j'',
    Put ''8537521877248458'' ''0/4=L95Ea6Wk3-$!'',
    Put ''2288582275523261'' '''',
    Put ''4166322270368168'' ''5!n*I-1$j7.,'',
    Put ''7341433907427276'' ([CHR 0x27] @ ''?.<4h6#(=Zy+$l#''),
    Put ''4047998586898362'' ''(P/=(n7Oc***7)~&'',
    Put ''8738026703054828'' ''!S#<^w4Fq6Qq68.8'',
    Put ''4856370564557077'' ''!H!%A3$5h&&*1.*$'',
    Put ''5832307374688380'' ''1[}&+(5O+,Nq'',
    Put ''9125742695217295'' '',I31Z)7='',
    Put ''1700361457554424'' ''-Z95/49Vm/5t1:z7'',
    Put ''1004853045005653'' ''*39]e4Qa*Y/8B}>'',
    Put ''6753213089458439'' '''',
    Put ''3459777768929525'' ''0$z>W/$38A7=^{'',
    Put ''8149805885085992'' '')>t;<4+Y3(U3,?.1'',
    Put ''4268149746588241'' ''&5$)J3O?9%h4P;8'',
    Put ''6420528192657217'' '':^+='',
    Put ''8732780560523420'' '')%l+.x1)x7Y3:-&%'',
    Put ''1112140639585588'' ''9Ty&)`)-)8j1-$-'',
    Put ''1593073862974489'' '')#*%K#2605Pq'',
    Put ''6164992271489603'' ''R)<Ts-7'',
    Put ''2871556950960689'' '',Is7+4.V/'',
    Put ''7561585067117155'' (''N;,0`6C'-By0U'' @ [CHR 0x27]),
    Put ''3679928928619405'' '')1&=;`!@+$(z:689'',
    Put ''7008749010626053'' ''>Y;-2*6r>M+866<'',
    Put ''8144559742554583'' ''.Ho>C?,E%)!85589'',
    Put ''5239198216167520'' ''*4p*7n3_!-Fw41,)'',
    Put ''2181294680943325'' '';#<1/2Wo>'?66%'',
    Put ''5576771453520767'' ''3]y:1b/By:P!?:d7'',
    Put ''2283336132991852'' ''%Ti>@-<Jq7Q=.@y2'',
    Put ''6973364249148319'' ''6+f6[e'',
    Put ''7797474654401259'' ''49`3Dk6Z/</(,@g.'',
    Put ''2891203284844199'' ''&^;5$`4J3.(8Yw+'',
    Put ''6184638605373113'' ''$X))N}/->4Lu5A-5'',
    Put ''4641465547398606'' ''*2t:Rm>Mo&2'',
    Put ''1936251044838528'' ''(+r#<8=Xo/m=_34'',
    Put ''8752426894406929'' ''<6n*:<3Nm654/Fq+'',
    Put ''6400881858773707'' '':h>/|7%l*W)(;,'',
    Put ''7355834098779377'' ''+'',
    Put ''7209253836432423'' ''-+j&$h9S+!R50,0='',
    Put ''3479424102813035'' '':g3K{.'',
    Put ''6772859423341949'' ''4Y%)4~#^3$T=#9r+'',
    Put ''4053244729429770'' ''?'h6(.386=_'?9<<'',
    Put ''1348030226869692'' ''7&r2%r:>:<I+#Gk&'',
    Put ''9106096361333785'' ''%_98=.$$h*,t*)$9'',
    Put ''5812661040804871'' ''-Py+1`&3,'',
    Put ''7944054916748214'' ''*U'(S!+Sc2C!E+'',
    Put ''6621033018463586'' ''=C70Da3?4=1x1Zc#'',
    Put ''4067644920781871'' ''!'(8L77O7<.)X#('',
    Put ''7361080241310786'' ''$2j.]u03n>Sc'#>'',
    Put ''3465023911460933'' ''2N;5Pc9?,<Gm8Tk.'',
    Put ''7598094089008558'' ''2#~>$t2-4(.p7[}#'',
    Put ''8517875543364948'' ''57:1Lu(+|&Dg:F};'',
    Put ''5224440222836034'' '',L!8Rq2_w?7&)Yw6'',
    Put ''8532275734717050'' '';S}6P'=>$!R?/Iu+'',
    Put ''6032812200494750'' '','',
    Put ''4655865738750708'' ''%.r?1x7PiC;*:l*'',
    Put ''7949301059279622'' (''<&|/Nq=)0)<d'' @ [CHR 0x27, CHR 0x27] @ ''h?''),
    Put ''2876803093492097'' ''*?j?S}9#01H/4-f#'',
    Put ''1715885909320195'' ''?N5$H)-)x&>j#-28'',
    Put ''7929654725396112'' ''6A}32*',f#6t'0,'',
    Put ''4636219404867198'' '')C#%;x7,1Ci?J!'',
    Put ''9120496552685886'' ''%E715n-S)9Ec358)'',
    Put ''7388248387752233'' ''!>z>C+*'',
    Put ''8496890973239316'' '',C)'',
    Put ''5203455652710402'' ''&]{?Uc3]31Q'-L/)'',
    Put ''2417184268227429'' ''13`:C%:D'5Hi:?4)'',
    Put ''5122398770787507'' ([CHR 0x27] @ ''6t/Rq2V;''),
    Put ''2635667363676585'' ''.^y#Bc*O+'',
    Put ''6577679568523287'' ''**>9?<?%%-<.=,0'',
    Put ''4032260159304137'' ''22$084A=03z5Tg6'',
    Put ''1506040208063870'' ''&:j?Eu7]{.+<%H{>'',
    Put ''7908670155270480'' ''?W;!%f?H-5&(&$n7'',
    Put ''4615234834741565'' ''(Zg?H#9Jm+<l'',
    Put ''3005405086196265'' ''-Ds'',
    Put ''5710619588756343'' ''2Fu/-z*9l:,'',
    Put ''2047446545707749'' ''&O7'',
    Put ''1245988774821165'' ''7Vo6H%18(5*b?'`2'',
    Put ''3444039341335301'' ''(E#)@9%X3-Y-=Qi>'',
    Put ''4376167971624493'' ''!R/8/l;^q+;<6p?'',
    Put ''7320449337301643'' ''&=&0Cg7P{2^302b;'',
    Put ''4027014016772729'' '',C;1Oa8M)8)8)7f#'',
    Put ''3593625904165102'' ([CHR 0x27] @ ''+f?Mm!_y/H5$]u.''),
    Put ''6298840406725180'' ''(M-,)<<524Z)$F'5'',
    Put ''1459225727738912'' ''&5(84b;<(-9'',
    Put ''1834209592790001'' '':=p'Es?Zi+u9!f*'',
    Put ''2855818523366464'' ''0F}&B+=H+()z48:4'',
    Put ''1025837615131285'' '';.%^}>W=1)~#f*'',
    Put ''6732228519332807'' '')$t/<x&Ki'!b6d?'',
    Put ''3438793198803893'' ''8]m2A77n*;j.+l*'',
    Put ''4181846722133938'' ([CHR 0x27] @ ''Ak3^3880)R9>'')]"

definition load_11 :: "bench_op list" where
  "load_11 = [
    Put ''6887061224694016'' ''0709M1Pm2*6=(='',
    Put ''8710049097700764'' ''5Qm:Z?87x6(x3[/0'',
    Put ''2422430410758837'' ''94x:0r2Yg#E)%.-'',
    Put ''2267597705397628'' ''2_i;0x3#*1l!4l&'',
    Put ''3091708110650568'' ''<)h7;2']k'^m/+h7'',
    Put ''7596969828594889'' ''0^90V34Pk/S'%B7('',
    Put ''7556338924585747'' ''4Nu&S'?%:(G39]94'',
    Put ''6430099635208427'' ''5?~3%~/Pq?#t8F10'',
    Put ''2769515498912162'' ''3Ro*:f0-6<?x6(60'',
    Put ''4988550635551930'' ''=E3-5*:52<=j%=p:'',
    Put ''1695115315023016'' (''>0z2'' @ [CHR 0x27]),
    Put ''6385143431179482'' ''6Ym3:8.X3<r,O%-'',
    Put ''2503487292681732'' '',D=(Ig>94`.Qi?'',
    Put ''8185190646563726'' ''];$<'',
    Put ''6968118106616911'' ''*[c3Q;8Se3(225f/'',
    Put ''6525218143209206'' ''9?l;_)0&04=4)P7<'',
    Put ''3357736316880998'' '':Kw&WaQ?%=.6&v+'',
    Put ''4400329817583094'' ''$SsE'?h/Yg#P}?'',
    Put ''1106894497054180'' ''/Gg;J'%<`?4,03|*'',
    Put ''5796922613210646'' ''#^y+Xw77d;'',
    Put ''1915266474712896'' ''2/h36f-=~?70)3`/'',
    Put ''8773411464532562'' ''(1*1>~0=l><*<'',
    Put ''6379897288648074'' ''!)h//p)Ha&_3'',
    Put ''1240742632289756'' ''::,=).#[),D%5V9<'',
    Put ''3945957134849834'' ''*02=U#/_s.Hw%L18'',
    Put ''3812108999614258'' ''3Z5('',
    Put ''5186736790853439'' ''5-,<545X=<G?R;-'',
    Put ''5208701795241810'' ''6,$,>61:44x=2n?'',
    Put ''1327045656744059'' ''7H#!Ko9'',
    Put ''9085111791208152'' ''*L#$(t-5<Jm?9$!'',
    Put ''5791676470679238'' '''',
    Put ''1828963450258593'' ''!Jc;F+/.$0Tm#52('',
    Put ''4534177952818671'' ''.-h:Ac>7(_o,(v#'',
    Put ''3223888181645421'' ''2]-!.~#5'',
    Put ''6954713888349240'' ''78t/Ba*B;8Ia'',
    Put ''4620480977272973'' '';J14/:2Vk63x31t7'',
    Put ''6375616624566785'' ''$Mc#^{-!$$5`0G%5'',
    Put ''6073473535709749'' ''0?p'_o*Yyl3(64'',
    Put ''6636211485545670'' ''0<`+L=5Vi?4,;E{6'',
    Put ''5937915087731894'' ''6&b768=@o2#~;&r;'',
    Put ''5223661947106052'' ''-P}7'',
    Put ''5921958344919828'' '')=<40>R34I'81x#'',
    Put ''7749878759829398'' ''?]g3]1,%8($d:S;-'',
    Put ''6059384558446089'' ''6%`?2$3V+'',
    Put ''4934084448784221'' ''?Y{#'',
    Put ''6489555533259338'' ''<j6Xy.!4$9h'',
    Put ''6047990667576834'' ''9,$,>h'',
    Put ''5349694269763058'' ''!*()]s5Ra32j&G=('',
    Put ''5811882765074888'' ''.F35#f#V{*Do?!0)'',
    Put ''6510179162888664'' ''?:0%'',
    Put ''1867670580141034'' ''32j>+0N--D15Cs*'',
    Put ''6647605376414926'' '';/>%+$Bw^;#Ag6'',
    Put ''5388799734809941'' ''0,|;2'+d?;(%r:'',
    Put ''1237176371294770'' ([CHR 0x27] @ ''Su/Zo&|#>,3)''),
    Put ''5459769849607998'' ''#3|'?:#3.0^},;$1'',
    Put ''4761473451794221'' ''*Ma38j>C}P%+Qm/'',
    Put ''6400103583043725'' '':g*'r*:'',
    Put ''7098399980857501'' ''>7$$Uo,961)f+Ea?'',
    Put ''4014537599547328'' ''<+>4>65(l6Bw:<f:'',
    Put ''7235826194383762'' ''22~>Ps'I3'',
    Put ''1127100791449830'' ''!2%Rs><x:J9'',
    Put ''1825397189263606'' ''(6b+N3-_e7Dq!Vs>'',
    Put ''4871549031639161'' ''5T)'',
    Put ''4173252633825385'' ''8)f3'f'',
    Put ''6988324401012561'' ''9@78D74^?8}/M{#'',
    Put ''7686620798826337'' '',5'',
    Put ''9896745779235692'' ''_!<W5,A?%[+06n:'',
    Put ''7824047012352598'' ''W&O*<.4J!+>f3'',
    Put ''2990444934332023'' ''87&1L7<<880x&=r2'',
    Put ''2292148536518247'' ''-60,$d8%.-Dg&[=1'',
    Put ''8989094757421016'' ''86h_%4?:!Ho2Ta7'',
    Put ''8290798359607240'' ''48<9@3$&`#1l$0.5'',
    Put ''2870778675230706'' (''3?x#2f'' @ [CHR 0x27, CHR 0x27] @ '':''),
    Put ''3569075073044483'' ''2Ty.C9$4>9780L#='',
    Put ''3127871147858285'' ''-A1-?l/D)55b?G','',
    Put ''3706501286570744'' ''4&n6Ai1K!4/.).4!'',
    Put ''2402224116363187'' ''?J!9K-(_14W%'',
    Put ''1703927718549411'' ''>D+8E)+1:1&($6'',
    Put ''8400873939452179'' ''5^396>1:4(&~4c.'',
    Put ''7702577541638403'' ''&S7<8(27v/H/([;'',
    Put ''3458999493199543'' ''0Fc3t.X)<Yu=$'',
    Put ''4157295891013319'' ''8V18/d-Aa(40_/('',
    Put ''2539650329889448'' (''$($,'~(>&8=6/(r'' @ [CHR 0x27]),
    Put ''4294722104539580'' ''0J#5C#'G+4O-Cs;'',
    Put ''1814003298394351'' ''<X%5-t+8*5965Rc3'',
    Put ''1115706900580575'' ''#3j'W)-Zy/$f:04'',
    Put ''7812653121483343'' ''21%Xo&^)(8&-Kw+'',
    Put ''7114356723669567'' ''62v*Y/1)4,Ji&]'%'',
    Put ''4047220311168379'' ''7h2Yc/Va*Z7'+5'',
    Put ''4745516708982155'' ''%]w3L9*Dy2Y!%!<!'',
    Put ''1951429511920612'' ''1Hq7'',
    Put ''4882942922508416'' ''>Ke.No2_5-];?H{/'',
    Put ''1225782480425514'' ''7>t/,,<b2->.-b.'',
    Put ''5274860826117388'' ''#2t:Ks'Yc75,(Z7-'',
    Put ''7224432303514507'' ''74h*P7<&,4?4H%,'',
    Put ''6526135905700731'' '',0&'',
    Put ''4635441129137216'' ''1Aw.V72%n:1d(6='',
    Put ''5333737526950992'' ''#)(%Da#Es'Y;7T+,'',
    Put ''1363208693951776'' '':7*'',
    Put ''5471163740477253'' ''&T'$(z;$t?22(*z6'',
    Put ''4068204881294012'' '':9,8W!4?25Bw2/4'',
    Put ''4766501279107788'' ''(S{/G/'',
    Put ''1930444941794979'' ''.M7)@c;0&%T!=Y;$'',
    Put ''1232148543981203'' ''0Ea;X}$Pe.@112<0'',
    Put ''8517315582852808'' ''&0<!Z-!*t3K=(969'',
    Put ''7819019185039032'' ''8[+808?+d&E3,]w;'',
    Put ''3930778667767750'' ''(+'',
    Put ''7681592971512771'' ''/,*%t)G!5;d/2r&'',
    Put ''4656425699262848'' ''+'(95*6l-2)_98'',
    Put ''5354722097076624'' ''8G?4Q%!Yc.+`-9$'',
    Put ''1342224123826143'' ''=@}2Yu*8|;3,%(.8'',
    Put ''6439277260123675'' '')Km.>f(%09)b.)!'',
    Put ''7929094764883972'' ''>[a:D}!(25#80?d7'',
    Put ''7230798367070196'' ''-6x27&Ak#r.>.('',
    Put ''4518999485736587'' ''#8>8?v7e?[!?1('',
    Put ''7093372153543934'' ''>z>'j$W!(.n<L{&'',
    Put ''5244646517231684'' ''4D?)_e74z6Am;T31'',
    Put ''5942942915045460'' ''<'',
    Put ''7540033058573072'' ''.4$8*h2Yk&#l#:t*'',
    Put ''5570690804353124'' '''',
    Put ''7340873946915135'' ''!R-='|<C?=J-'$f'',
    Put ''6642577549101359'' ''*Z1(3*!-nFk%[s#'',
    Put ''5107220303705423'' ''2So2D3.?z/U'.:x6'',
    Put ''6505151335575098'' ([CHR 0x27] @ ''R31]=6Dc&W)8D!%''),
    Put ''5832867335200521'' '';.&$n#/'',
    Put ''6531163733014297'' '';O;0@y92l'.4V7,'',
    Put ''1657824878884709'' ([CHR 0x27] @ ''-v<|;Pi#]o=6,4''),
    Put ''5325139099253051'' ''=-v.Vy-46!Pw'',
    Put ''6752653128946299'' ''6?b>Um:A+,;*56$9'',
    Put ''6054356731132523'' ''6H'0.287~Eu76~*'',
    Put ''5695441121674259'' ''?R9$Q!*B;=9*.=.-'',
    Put ''5916930517606262'' ''&R;%Ny$'',
    Put ''1715321609418666'' ('')#p7?659z2:`25z'' @ [CHR 0x27]),
    Put ''2413618007232442'' ''?%4)M-'',
    Put ''4283328213670325'' ''0Pw&<j,:d&S9>%x7'',
    Put ''3585031815856549'' ''(]!!_/>N?8Om$>2('',
    Put ''7576545218981397'' ([CHR 0x27] @ ''2b.Cs#F?%<j#&0''),
    Put ''8274841616795173'' '';v6.r2Iu:@s.4<<'',
    Put ''1577895395892405'' ''0+'',
    Put ''8412267830321435'' ([CHR 0x27] @ ''Gg?*$9Y+1Vy:Y=$''),
    Put ''2303542427387503'' ''%?*=245H?%*<&?f;'',
    Put ''3001838825201279'' ''.Ti>M7/('',
    Put ''3695107395701489'' ''3#j7<'',
    Put ''2996810997887712'' ''(|>$(8+n'+$:Z}.'',
    Put ''8164766036950234'' '':Vi37&>T=9U/8A}6'',
    Put ''8863062434764010'' ''?)h3Ne8*t>9(1W/,'',
    Put ''2166116213861241'' ''.2$!?|/9b*06#0d;'',
    Put ''9000488648290271'' ''1Z70Yu;A;=,21-61'',
    Put ''2891763245356339'' ''9?-/*-0|?B#68`7'',
    Put ''3590059643170115'' ''2,|:l.&55p<#*9'']"

definition load_12 :: "bench_op list" where
  "load_12 = [
    Put ''3106886577732652'' ''7Km:><'5l+<|.W+9'',
    Put ''2408590179918876'' ([CHR 0x27] @ ''6l2Fi#+0%92+(*=''),
    Put ''8752986854919070'' ''8:r;L;3R!%Vc<8$)'',
    Put ''8995460820976705'' ''+?t;(d2Cg&7<)C/5'',
    Put ''2754337031830078'' ''!]#<9<(&l;L9(.|?'',
    Put ''8858034607450443'' ''.U;0R%2H{;=46Ko:'',
    Put ''3479984063325175'' ''+B!0J7%:%4p)!t2'',
    Put ''4178280461138951'' ''1_y3O%$<p'Dw%[9!'',
    Put ''2518665759763816'' ''#N=<O;_3'',
    Put ''1820369361950040'' ''+2h32:)M;0)b>Ac&'',
    Put ''9105536400821644'' ''(K50Ac+C?5$~8Ze&'',
    Put ''8407240003007868'' ([CHR 0x27] @ ''$''),
    Put ''3342557849798914'' ''1@99(b&$$8I)=C+('',
    Put ''8269813789481607'' ''$!.-P;'>&5I;1_=4'',
    Put ''8773971425044702'' ''$D+53&?:80Fa'X1!'',
    Put ''8974476250851072'' ''3><9]k:A5%0*>[g;'',
    Put ''2775321601955710'' '''',
    Put ''3473617999769486'' ''=Oq:>:02.0'8;h?'',
    Put ''3811549039102117'' ''4U%,X{.K#1&,3Vc3'',
    Put ''3113252641288341'' '';9z6&(?!!L!5!8%'',
    Put ''8636545211518441'' ''%R{&'',
    Put ''2975826427762080'' ''<Fw?M=Sa?2n*4,4'',
    Put ''9084551830696012'' ('',d&=(*&21He9o'' @ [CHR 0x27]),
    Put ''8386255432882236'' '';l.Om7/`&G-/Yo'',
    Put ''3363542419924547'' ''6Ve.-'',
    Put ''4061838817738323'' ''%(v6N5'',
    Put ''3223328221133281'' ''Gu+I##/442~5;f?'',
    Put ''2525031823319505'' ''.A#!_u#Nm2Fc9:x#'',
    Put ''9221978044222273'' [CHR 0x27, CHR 0x27],
    Put ''2387605609793244'' ''=/,'',
    Put ''8496331012727175'' ''+Z+942+;84J9&N),'',
    Put ''7798034614913399'' ''$&~6!$$^m/02!'b3'',
    Put ''3951763237893383'' ''-G'-3x%A%'',
    Put ''4650059635707159'' ''*4r?I5'v.^55G?$'',
    Put ''2635107403164445'' ''<,2$B13R1<U;'9|7'',
    Put ''1936811005350669'' ''*c.@=;Ws+G?2)40'',
    Put ''8633757226253437'' ''=4x27n+_9%Rs6Zo#'',
    Put ''1799384791824407'' ''1%p;;(;>(Ao8-|;'',
    Put ''7908110194758339'' '')I'La+.x&+6+~/'',
    Put ''7209813796944563'' ''#121_)(E!=Z;7d;'',
    Put ''4539984055862219'' '','(4$r2!d'8:3L!%'',
    Put ''5238280453675995'' ''6Mo*#8>V5-)t!z#'',
    Put ''2046886585195608'' ''(4(866%:r&'v0^7<'',
    Put ''1348590187381832'' ''5Ku7Ta.Bm+_m'1j?'',
    Put ''8045536408284600'' ''0Ps7+$+?(+6!7b:'',
    Put ''1211163973855571'' ''>P1$9#Ou/22=H{2'',
    Put ''6421088153169357'' ''-,8'',
    Put ''7119384550983133'' ''%-8(D=,=f;z%_q/'',
    Put ''4224383300803653'' ''<[u>(t(V{;Pu>Qq2'',
    Put ''1120734727894141'' ''/-b>.>;J3)Z?80r?'',
    Put ''6164432310977463'' ''.*'',
    Put ''5466135913163687'' ''80<-5z%6z*Z7!5p#'',
    Put ''6283661939643096'' ([CHR 0x27] @ ''/|?)f8G{7!z%_9=''),
    Put ''5328709699637425'' ''-;l*X;$C#<]5?Q54'',
    Put ''7009308971138193'' '''',
    Put ''7707605368951969'' ''3Kk'.08>t.Y#'Py?'',
    Put ''1010659148049201'' ''&*z&0v.[;'',
    Put ''1708955545862977'' ''>,n&I;!C{346'',
    Put ''5576211493008626'' ''8<>(W#1F?8J3'='',
    Put ''4877915095194850'' '':Lk+&r';&!Um&80%'',
    Put ''6871882757611932'' '',&<<=~:-x2/j+J'9'',
    Put ''4740488881668589'' ''&Nk+R3'x79x(4>4'',
    Put ''7597529789107030'' ''*$415'',
    Put ''8295826186920806'' ''4]3,!,3!j20<*^?)'',
    Put ''1598879966018038'' ''07<9>l,M-5,*#^;'',
    Put ''2297176363831814'' ''+E#)M!:_a?S$8t:'',
    Put ''4987990675039790'' '',8&8@1;S7)R#&5,$'',
    Put ''4289694277226014'' ''%A!)@5=9$(#.'',
    Put ''7460103575580769'' ''%+8<[o7:<8<r:Oa'',
    Put ''4152268063699753'' ''1R#)G97,n/+<'',
    Put ''8185750607075866'' ''3S;(]e=Zc2Nq8+2'',
    Put ''8884047004889642'' (''2T'' @ [CHR 0x27]),
    Put ''2187100783986874'' ''I!,J+,(29=8-S+0'',
    Put ''2885397181800650'' ''>O=8[/+!f#>:)G/)'',
    Put ''4399769857070954'' ''4Jw.20(6.5J9<Q9<'',
    Put ''3701473459257178'' ''?Ni2+p.:p?Ew7)p#'',
    Put ''8048324393549605'' ''<Rs>%8::&,Wy:&$-'',
    Put ''3564047245730916'' ''618<Mi8h7!:-Qs?'',
    Put ''4967006104914157'' ''#,20(,.Sy7).0:~#'',
    Put ''4268709707100381'' ''3Ai&/,8L18Q-1>d&'',
    Put ''7481088145706401'' ''&D),&>3He2B5=Q+1'',
    Put ''8179384543520177'' ''>Eg*1|?'.!E/97(<'',
    Put ''8942175046485730'' ''6@-5)b?Qy>Zu2Bs+'',
    Put ''1592513902462349'' ''2W=8*>#%011$1>l+'',
    Put ''5104432318440419'' ''7Rm&@q)Z-5;p4&p'',
    Put ''1729940115988610'' ''<4z*2('',
    Put ''4378785286945321'' ''!K#16-C;1F;=P/!'',
    Put ''3680488889131545'' '''',
    Put ''8069308963675237'' (''.28@'' @ ''{,*:,.>:@#4''),
    Put ''8767605361489013'' ''5@w&M}<3*(9r;$>-'',
    Put ''1482438322617409'' '';G!9]+)+f=l.V)!'',
    Put ''2180734720431185'' ''$#)5`$Bq6#z8_=0'',
    Put ''4516211500471582'' ''>?15'',
    Put ''2318160933957446'' '',Eg7Dg4B}#Q3,:8('',
    Put ''3790564468976485'' ''7-6'',
    Put ''3092268071162709'' ''!#'',
    Put ''8657529781644074'' '''',
    Put ''9090917894251701'' '')90!(0*%t7+r8I!%'',
    Put ''2070659140586245'' ''*-j>@'-&<9A{:<2,'',
    Put ''2768955538400021'' ''>=.=!j89*9I{40v/'',
    Put ''3927990682502746'' '';O-(,$-Hm&Za3]#'',
    Put ''2906381751926282'' ''.,(97l?,*9'',
    Put ''3202343651007648'' (''+1p7Bi8:d.Ce/1n'' @ [CHR 0x27]),
    Put ''2504047253193872'' ''>Y;=+(<Vg;V=59n;'',
    Put ''9200993474096641'' ''&Cs/H1.Cw#6=,>,'',
    Put ''8502697076282865'' ''#Ie+:'',
    Put ''2658879958555082'' ''-^;5P54G;!%`>Di.'',
    Put ''3357176356368858'' ([CHR 0x27] @ ''>~2!v(T}:6n+4~/''),
    Put ''3339769864533910'' ''4Wc7*01O1%])(#~3'',
    Put ''3494602569895119'' ''*Su/O5&I'F}#I='',
    Put ''7319889376789503'' ''&Ss#463J-)48%Zq>'',
    Put ''6621592978975727'' (''>Kq*02<?$!SkJg'' @ [CHR 0x27]),
    Put ''5128204873831056'' ''<X74Wk(S#)M92Xa#'',
    Put ''5826501271644832'' ''*)2%S-<Y?<N1?G!0'',
    Put ''1458665767226772'' ''*(&06|%3|;1>'',
    Put ''7603693694129963'' '')>'',
    Put ''7457315590315764'' ''3L9<+&#'*1;.7.:='',
    Put ''6229431558867350'' ''(C34_m4G+$Vq8Vo.'',
    Put ''6731668558820666'' ''/0><Ou<b3P7.G#5'',
    Put ''6033372161006890'' ''+*$$4:$4<%)'>j*'',
    Put ''5716425691799892'' '',2xR/2U{/1h4Q{'',
    Put ''6414722089613668'' ''(38>*/='',
    Put ''8704449492579360'' ''*8618&)-r36~*W*'',
    Put ''1721485514441599'' ''*?.9/$:2<%#d/A'-'',
    Put ''6869094772346928'' ''>C?!Dc([+0B='7.5'',
    Put ''3472233791789872'' ''/%21Zm/8f[;4W2'',
    Put ''6143447740851830'' ''0F-9-&=W!=P;3X9<'',
    Put ''5445151343038054'' ''+F%=Fa<Ku+9<,)&('',
    Put ''6304646509768728'' (''=4d.'' @ [CHR 0x27]),
    Put ''7002942907582504'' ''#'',
    Put ''2822241312890996'' ''5[w&:j(ZgI7$'',
    Put ''4160722665246763'' ''30$R+,'6$L3,1`.'',
    Put ''6280873954378091'' ''>2,U!+X#(.|'',
    Put ''5534984800509376'' '')Cq3/p?K38_7>V=4'',
    Put ''5555226922882994'' ''/28'',
    Put ''4856930525069218'' ([CHR 0x27] @ ''Q10E)+?>8B{:>z&''),
    Put ''6892867327737565'' ''6%h2]a9B+5;f!)(0'',
    Put ''7591163725551341'' ''%I95H28*,2l)!n7'',
    Put ''3059966866797366'' ''3?p7L{)>`3Z94G%!'',
    Put ''1004293084493512'' '',)8,Ts:_#5+n%!|?'',
    Put ''5692653136409255'' '':..1T52*8'',
    Put ''1141719298019773'' ''<E{>9,-R;%I3>?.$'',
    Put ''4865742928595613'' ''516'',
    Put ''4288916001496032'' ([CHR 0x27] @ ''35<(:&2<_q8Q''),
    Put ''7582351322024946'' '''',
    Put ''1709733821592960'' ''4'v>,420())v+12='',
    Put ''9954806809671177'' ''+1&<O;4=z&#$=x2'',
    Put ''8296604462650788'' ''=4h'I%,Ds#-x4j6'',
    Put ''5003169142121874'' ''<,*-]{%>()0*/G'4'',
    Put ''8159178249124527'' ''16h#?j!<r3@c<]m/'']"

definition load_13 :: "bench_op list" where
  "load_13 = [
    Put ''4277522110626776'' ''*!:'',
    Put ''4877136819464868'' ''2X#4[)0:01Uu.U#'',
    Put ''8170572139993782'' ''#G7,Ns-8'',
    Put ''1121513003624123'' ''8Tc#-2;/>'',
    Put ''1583701498935954'' ([CHR 0x27] @ ''^90z3+82t<O!=''),
    Put ''7708383644681952'' ''-Fo#M1)]y*6t+-2)'',
    Put ''4414948324153038'' ''*B{3Wa-_m;264,'',
    Put ''7570957431155691'' ''/>~/=8Yu:-x!)5'',
    Put ''3689301292657940'' ''6>r6]m??|+Ru6Ta+'',
    Put ''5465357637433704'' ''2W%8666Re#$>%]{/'',
    Put ''8758792957962619'' ([CHR 0x27] @ '',0%88S{7q''),
    Put ''5332921856552874'' '';I-1:v6V--=l.Py:'',
    Put ''2171922316904790'' ''-S))#t+?'',
    Put ''7120162826713115'' ''%?f?0.9Rw7Ma)0n*'',
    Put ''3826727506184201'' ''-$b&+b2:x?24#C};'',
    Put ''6982736613186854'' '''',
    Put ''3101080474689104'' ''!'.9+h(T)9-h<My+'',
    Put ''6053578455402541'' ''-Jk&Z73'$15p$i?'',
    Put ''9099730297778096'' ''3@k/?.6&,!&:Ww7'',
    Put ''5492863231354891'' ''#'',
    Put ''2760143134873626'' ''&>0%A}'*(8]/'',
    Put ''6531942008744279'' ''.'',
    Put ''3238506688215365'' ''-(>%E;;[31!l#Bu.'',
    Put ''6394515795218018'' ''*Y{3D)-N=<M#>E?'',
    Put ''7218626200470958'' ''2Wu6Ji8^e*>$,Fi/'',
    Put ''1936032729620686'' '',Bs/,~0Qi3[53%41'',
    Put ''5229468050149600'' ''1Gq3.f,1'',
    Put ''4062617093468305'' '':P%,r!<h;O5;Cs/'',
    Put ''1357402590908227'' '':+(%m,A='',
    Put ''7797256339183417'' ''.K7,R'5Ta*8&@y+'',
    Put ''7356052413997219'' ''2Ck*,61/b#_q<@e2'',
    Put ''7934682552709678'' (''7^m:Jg'' @ [CHR 0x27, CHR 0x27] @ ''h:3(%(''),
    Put ''6630405382502122'' ''2-0%Xi6S27&0=*$'',
    Put ''2524253547589523'' ''70(%!>5H;=]{;,:'',
    Put ''5817688868118437'' ([CHR 0x27] @ ''<8%W7;@i><'#f#''),
    Put ''3474396275499469'' ''&5,8R5![c+*&)U=,'',
    Put ''7691817729393912'' ''0I%<5:%I{#;vPm#'',
    Put ''8385477157152253'' ''-Ag6W1Q9(2&,3&='',
    Put ''6767831596028383'' ''$Ka3%l;A!!T#76n#'',
    Put ''8522903370678515'' '','',
    Put ''6042184564533285'' '')&b;9b+G}3!d/R=-'',
    Put ''3112474365558359'' ''6&$-;4)%(%X%#E15'',
    Put ''6405909686087273'' ''>C9!<b#Ay6J{)[w.'',
    Put ''2886175457530632'' ''0Fa6Y%264Nu1%r;'',
    Put ''1809609549705548'' ''2$:%2.8%68Xu59|.'',
    Put ''8973697975121090'' ''5#v6Qa?K'D3+=f&'',
    Put ''6179610778059547'' ''*46<(:?d7X5::x*'',
    Put ''9111124188647351'' ''4'8,B,&n'8:0_?'',
    Put ''5453963746564449'' ''?^k>Eu>-><$$2De7'',
    Put ''3700695183527195'' ''0U+5'',
    Put ''6994130504056109'' ''=#f*[5+.b*4x(I;('',
    Put ''2297954639561796'' ''?]o.3x=R-$F}<O35'',
    Put ''4072598629982814'' ''&*69'.-[9(/j!<|2'',
    Put ''8884825280619624'' '',3'',
    Put ''5591389960090710'' ''-T=4%2.3|3-x0Do/'',
    Put ''8747399067093363'' ''6])'',
    Put ''1599763848449223'' (''<T+<;v8[;1&z?2j'' @ [CHR 0x27]),
    Put ''8994682545246722'' ''.N1(;j'',
    Put ''6158626207933914'' ''.A1<Z!<$0)>4-4~+'',
    Put ''2996032722157730'' ''=42,z)L!0H31O98'',
    Put ''5701247224717808'' ''5'f?@!.Nk3A7+F)8'',
    Put ''3590837918900097'' ''<Qo*B!8:n#Z!&B%0'',
    Put ''2974025983711836'' ''5'',
    Put ''3453411705373836'' ''9K5%X'&Yk>?d4E}7'',
    Put ''4282444331239139'' ([CHR 0x27] @ ''%|;Lg''),
    Put ''8863840710493992'' ''9B5!-.3.,-Oc,Ta+'',
    Put ''5570405389965078'' ''7!(%Es='',
    Put ''3584253540126566'' ''0$00U=?Nq:-z8?p:'',
    Put ''6289468042686644'' ([CHR 0x27] @ ''J3!,`''),
    Put ''3002617100931261'' ''+@9(-'',
    Put ''2908182195976527'' ''*.|3*:2R='',
    Put ''2865190887405000'' ([CHR 0x27] @ ''[g79:4Ze*&+Z!1''),
    Put ''1016465251092750'' '')M514*?=*)Aq=!l>'',
    Put ''8275619892525156'' ''7C#'',
    Put ''4982184571996241'' ''*v3U?7>`!*'?6,'',
    Put ''4172474358095403'' ''!&|#_m';&8009[{;'',
    Put ''6877688860655481'' ''$_#$m.])9Q1>O-1'',
    Put ''2414396282962425'' ''!'',
    Put ''8790390375664890'' ''42j>0j;5'',
    Put ''2276970069436163'' ''&U{(h7Aa#R304~>'',
    Put ''1604686069061586'' ''**,4!j=:j:0d=@34'',
    Put ''7687399074556319'' ''0Bu;R=/7z252'_)8'',
    Put ''4393963754027405'' ''5_c.U+1:69Z1,M!1'',
    Put ''4760695176064239'' ''8R7-;z(Qs2@9=>0='',
    Put ''7465909678624317'' ''3S;5Y/=!~#^36M59'',
    Put ''1826175464993588'' ''(2t','Mu?T!/T/,'',
    Put ''1467259855535325'' '':Bw&&~)Ak+.n2S;='',
    Put ''1688749251467327'' ''>8=?r8^s.Mu,?4='',
    Put ''2512859656720267'' ''2920.|!P#<3((Y-8'',
    Put ''6641799273371377'' ''.P18Gc)28<7z91,0'',
    Put ''8511509479809259'' ''9'6%H%40v'265v3'',
    Put ''6431494502823852'' ''=#p&'f*12,#d+$|3'',
    Put ''3348363952842463'' ''=4:%#484n/;'',
    Put ''5943721190775443'' ([CHR 0x27] @ ''X3%)t4F+13:0J5''),
    Put ''2650285870246529'' ''%Te;D1#!h;Nk5Um>'',
    Put ''5806294977249182'' ''9M18W!?!>-O#'F{6'',
    Put ''1924638838751431'' '')X7<)t31*14|&*>)'',
    Put ''7230020091340213'' ''7^k;*d*<t*&$#;4'',
    Put ''7923288661840423'' ''5Go*(6(]gYk-_=8'',
    Put ''1231370268251221'' ''82'',
    Put ''3936584770811299'' ''*0~6]9%Z}#^g-'>$'',
    Put ''5355500372806606'' ''%Sg:>p+Wa&4h=Mc/'',
    Put ''2062065052277692'' ''=;v2*`2!|3~:H{6'',
    Put ''5218074159280345'' ''>>h3N!3[')#.'4<5'',
    Put ''1336418020782595'' ''7C'-/t=3.(R+'',
    Put ''7818240909309050'' ''4>$=Za:-f#9,-1t3'',
    Put ''7335067843871587'' ''3$n?3,4k:.f:Qc6'',
    Put ''1819591086220057'' ''0805Z{40'',
    Put ''4524805588780135'' ''S!4U!,6f7C-;A-='',
    Put ''4767279554837770'' ''+D'(&*7'd>A=?A1('',
    Put ''1473844234308856'' ''*/(!Mu>.$4Wy)D38'',
    Put ''4629853341311509'' ''4?,1*f<;,6$6Ty;'',
    Put ''7481972028137587'' ''#Y)(Pk$Kw?-f<Ra/'',
    Put ''8406461727277886'' ''-!j?-<?,1[?'',
    Put ''6746847025902750'' ''9Co.I9!+<-Aw$48%'',
    Put ''2407811904188894'' ''.Nu'Ja+0r#]g#S3)'',
    Put ''5113026406748972'' ''-J{#Oc6M=0G}!/41'',
    Put ''4179058736868934'' ''!-6$12>?&'',
    Put ''8856234163400199'' ''4Cu+>(.Uw#*(?(4'',
    Put ''4041632523342672'' ''$98-Gk#S))28;Rg3'',
    Put ''4545790158905768'' ''6Ue:Ku3K%)F#%Iq7'',
    Put ''4746294984712138'' ''*Xu?Sm*H1(*b#J=8'',
    Put ''1452859664183223'' ''0J+<S%6$,$E93Ms;'',
    Put ''7701799265908421'' '':-0(6*$;<=:0+Rq#'',
    Put ''8039730305241052'' ''3#'',
    Put ''1114928624850592'' ''/.f+Jo(H'=7.?(p'',
    Put ''4408363945379507'' ''.t;A;*A%-)t!Q5-'',
    Put ''1252354838376854'' ''64t.Uo0Q>&|?90$'',
    Put ''5134010976874604'' ''8V=(Xc0)r.#'',
    Put ''4158074166743301'' ''3T/,I/9A%(A+>S/8'',
    Put ''8646388462143874'' '''',
    Put ''8290020083877257'' ''</p3!~'Q'-*n${:'',
    Put ''7451509487272215'' '';Ka:B!2^a'Sy2^?'',
    Put ''1703149442819429'' ''<I51Po>H+4_i-By#'',
    Put ''4996584763348343'' ''>C{30b;>t6M%<0v/'',
    Put ''1840575656345690'' ''2[59't*Gq:D?(54)'',
    Put ''5722231794843441'' ''1Y1(;l#905Sk75z3'',
    Put ''3569853348774465'' ''/',8Y18C#'',
    Put ''2764180282455511'' ''1Ck&0::*2().#l>'',
    Put ''8878240901846094'' ''<M1-'`;R#'',
    Put ''6863288669303379'' ''.P--Ri4@u/:d-_9'',
    Put ''2291370260788265'' ''1'',
    Put ''5584805581317179'' ''.:z#.2):(5'',
    Put ''2428796474314526'' ''?6~'S5:$4<&f!Pg'',
    Put ''6310452612812277'' ''(;~.2`5.l#701J/9'',
    Put ''2981632530805629'' ''(Bm.2'',
    Put ''3118027897232852'' ''*'',
    Put ''8980282353894621'' ''!!<8A7(@k:1v.q:'',
    Put ''6275067851334543'' ''4^/5_8.`?Va'',
    Put ''2879591078757101'' ''73h21t-4$-Qo/1t+'']"

definition load_14 :: "bench_op list" where
  "load_14 = [
    Put ''6173026399286016'' '';&<,6;?:0]-4W%5'',
    Put ''3017017292283363'' ([CHR 0x27] @ ''0>9%':&=,''),
    Put ''2192906887030423'' ([CHR 0x27] @ ''9~',$.^)!'7R3!''),
    Put ''7099178256587483'' ''$6`&Eu%6!/<2.$%'',
    Put ''3805742936058569'' ''59:524'',
    Put ''5348915994033076'' ''4&)'',
    Put ''8054130496593153'' ''5C10/('M515<2?2'',
    Put ''1237954647024752'' ''4$*0?6O38,,2-|'',
    Put ''2055480673504161'' ''-><!Ce:;~'1~#-h&'',
    Put ''1100528433498491'' ''0Pq+8$:7p/%x<04'',
    Put ''2781127704999259'' ''40()Pu5<&'',
    Put ''6510957438618647'' ''+4b7:8O-'',
    Put ''3217522118089732'' ''8To+.8*<18n(Fw/'',
    Put ''5937136812001912'' ''=+r7Na0?p6/8.`/'',
    Put ''8642351314561990'' ''9,602n('',
    Put ''6497338290559161'' ''04d>9n*D99>vQ1<'',
    Put ''2643701491472998'' ''+Vs#O)-:'',
    Put ''5123076155296549'' ''#A!(W5;-b&H!/-`6'',
    Put ''3369348522968095'' ''8^o&Xq3]9<6$Zw2'',
    Put ''5922736620649810'' ([CHR 0x27] @ ''N;-54/%4),(+.$$''),
    Put ''2629301300120896'' ''<V71:`)9,=+8?B?'',
    Put ''6525357629970748'' ''$6p6+d:1p.$/%'',
    Put ''9216171941178725'' ([CHR 0x27, CHR 0x27] @ ''0E)$L}'05821''),
    Put ''6151301108707982'' ''5D7!+r2:h3_)&?r>'',
    Put ''3231922309441834'' ''>#,,,b='&-*>+0|&'',
    Put ''7591320243918142'' ([CHR 0x27] @ ''Kc>Fu1Lu6?b06>%''),
    Put ''3957569340936932'' '';'',
    Put ''5334515802680974'' ''?4`?#p4]q:Q;'',
    Put ''2041080482152060'' ''(E79!z:8|6'',
    Put ''7113578447939585'' ''1Z=%/t>P=!?<?*9'',
    Put ''8627951123209888'' ''('',
    Put ''5267078068817565'' '')Vm34>6:>-X}';t+'',
    Put ''3820143127410670'' ''/<(8781Pm.Kg5,`+'',
    Put ''6641340204080177'' ''&X{3_+$$l>C(7,8'',
    Put ''9195187371053092'' ''$480Wg2X94Qc>Es;'',
    Put ''4052844096144730'' '':9t;#~8O7842&/(5'',
    Put ''3252906879567466'' ''&Eo/0t4E'<(&-A51'',
    Put ''6039178264050439'' '',Rc'Ai$=~:<~89n3'',
    Put ''3333963761490361'' ''$%(4_5,_iJc4D9<'',
    Put ''5820695168601283'' ''5Ja2Ig=,'',
    Put ''9114130489130197'' ''$U)($l2'',
    Put ''5958121382127544'' ''&1z:B!=$2%D5>:|2'',
    Put ''8606966553084256'' ''=5r.Yi#;0(3n4C2'',
    Put ''5476923770073890'' ''!N'%48$4>5(`$T=='',
    Put ''3841127697536303'' ''<[=--x>[3B#51$8'',
    Put ''5450957446081603'' ''<680'',
    Put ''2745742943521525'' ''##8(#n(/z3Q};3n&'',
    Put ''6408915986570119'' ''#x6%*/Y;!~<I38'',
    Put ''8744392766610517'' ''%Ck6_u($x:G/>N/'',
    Put ''6546342200096381'' ''1?|#*j$_{#!b:,6,SET'',
    Put ''8517097267634966'' ([CHR 0x27] @ ''Uw'.6(&1''),
    Put ''1820151046732198'' ''/M%=,z23$,Gu:W%8'',
    Put ''4052466453699787'' ''&#4%Vc!=~*($?901'',
    Put ''3232700585171816'' ''5,b?7&)H;C!!-n+'',
    Put ''1000385178204227'' ''212,z+>h.We<5n'',
    Put ''7697331399106995'' ''0&f*Ye3J#,?,:Oq2'',
    Put ''5465015992139406'' ''8B{6%!P=,@m-K+<'',
    Put ''6873002678636213'' ''9Oe>E-*Pc'4|?6$4'',
    Put ''9105318085603802'' ''=RuFi'',
    Put ''2408371864701034'' ''<0d'Fo1*&!O5;Eg7'',
    Put ''4640687271668624'' ''5+6<:0,=d&44-4,'',
    Put ''2644479767202980'' '';Y-)[o))h2)3@i'',
    Put ''4121643602353910'' '',8>1O1**h'68'',
    Put ''7109110581138159'' '')6|.Cs=_!!^s:?&%'',
    Put ''4876795174170569'' ''!Z1=O{$R#(!t,14'',
    Put ''7461223496605049'' ''/!<)Rs7(r#,&:$:!'',
    Put ''8753205170136912'' ''&;<%@k(4r+Li6J90'',
    Put ''2996592682669871'' ''*:8!E!(),842M{&'',
    Put ''5228908089637460'' ''$4=1)-r/.v6(6%'',
    Put ''2056258949234144'' ''+7(=/*$V)=Cm3H;1'',
    Put ''1760564577334453'' ''/N#<3|<:t;P?7U#1'',
    Put ''6520889763169322'' ''6:d>T+#7`'+hIm+'',
    Put ''4288574356201733'' ''<92!W1=?x(t9*|#'',
    Put ''8049444314573886'' ''#&x)(+>=@s:Zg2'',
    Put ''8164984352168075'' ''+?~:7v(H'<-d/Ce?'',
    Put ''3584813500638707'' ''!/!@7'',
    Put ''5817128907606296'' ''4%&9-0'',
    Put ''1468038131265307'' ''.2n/Kw!S+(Hw+T'9'',
    Put ''7642772757022816'' ''!5(08&+8v/:p+32$'',
    Put ''5932668945200486'' '''',
    Put ''3700353538232897'' ''0K=14d3),!Wg=r7'',
    Put ''3931898588792031'' ''?Zc+Y)4+|3%0$81'',
    Put ''6164213995759621'' ''40z7Ve'9(('',
    Put ''5327322251431469'' ''(4~#W+'',
    Put ''1699583181824442'' ''4)21'',
    Put ''5585583857047162'' '',X74(`)D/$L}S5='',
    Put ''3353268450079572'' ''+Mc*4d<J?!G7$)$$'',
    Put ''8396529402727210'' ''.V!->2&<`.v0$04'',
    Put ''7817899264014751'' ''&X=8#</?t#!l>$2('',
    Put ''4520119406760868'' '')]e/Ua4^y*Ig<d*'',
    Put ''6752434813728457'' ('')@'' @ ''{2Gy-?<$Wy:?,''),
    Put ''5548859282568936'' (''(O'(0<1N.>n'' @ [CHR 0x27, CHR 0x27] @ ''v+''),
    Put ''2287803999793278'' (''*Ik.b9<x&P;?Py'' @ [CHR 0x27]),
    Put ''4997363039078325'' '',V95W=$..,:t!Tq>'',
    Put ''2765047632110736'' ''5Xu/F-::h/!b):r/'',
    Put ''8984750220696046'' ''*8*-%(30^/$E+4'',
    Put ''7229678446045915'' ''&I-0'j8Q3($8&?1'',
    Put ''5108340224729704'' ''**9Ku*X}3S?;E-='',
    Put ''7340655631697293'' ''2?x682#3r'>h<I}/'',
    Put ''6437094107945257'' '')%t>C-;F{*%x#^;-'',
    Put ''2876024817762115'' ''>=00(,--=I-!=z*'',
    Put ''4409142221109489'' ''89f#?94<(J//F-)'',
    Put ''2176826814141900'' ''&8.%A!+0v61Jm/'',
    Put ''8873773035044668'' '':#.!+n<;--b3)'',
    Put ''6641457628077078'' ''8'25(h7Pq23n=S3$'',
    Put ''5696561042698540'' ''*_9$O}'',
    Put ''7928876449666130'' ''6_y6.:1La*'z&@q3'',
    Put ''1231930228763362'' ''3;x>9%4:<C9=20,'',
    Put ''3464245635730951'' ''8'',
    Put ''3820921403140653'' ''6/.),p0%4S;49>-'',
    Put ''1588605996173063'' ''(-j$'',
    Put ''8285552217075831'' ''(.~+<)T1$.21'',
    Put ''6053236810108242'' ''$]?<$r4La+1,)7z:'',
    Put ''7456195669291483'' ''19*4O#<P/4,0?Ge/'',
    Put ''5223880262323894'' ''?1p'4>#j.Ho!6f:'',
    Put ''6525917590482889'' ''-7f;U582h'Im<,b?'',
    Put ''8758232997450478'' '''',
    Put ''1473065958578873'' ''/E=$4,2Io>2*8a2'',
    Put ''3705381365546463'' ''!Yq#'n'-x3Yy1R+1'',
    Put ''2991564855356304'' '':L+4^7#X5<S':)9'',
    Put ''7592494483887154'' ''12v&-`65~&944Q7,'',
    Put ''6867974851322647'' ''&Vo##&&X'-!<;^k&'',
    Put ''4635659444355057'' ''3'<9J#31vJ;4^1='',
    Put ''7114138408451725'' ''!^+53x;>(52f(3d*'',
    Put ''9100290258290236'' ''=5nQo'',
    Put ''2061286776547710'' ''+(<5#$'@71=8$?6%'',
    Put ''4293602183515299'' '':<:'',
    Put ''2403344037387468'' ''8Ta;W#2So&>($/.)'',
    Put ''1710286304198790'' ''(Qc24`&m*Zw&N!$'',
    Put ''6279754033353810'' ''22'',
    Put ''4047438626386221'' '';Q)!1|7M9%%t'M;5'',
    Put ''7702359226420561'' ''5T31T774x>+|)Mo3'',
    Put ''8512069440321400'' ''8:(<1t):>-5$12$8'',
    Put ''2649507594516546'' ''1%24@o6$45E}?Oc7'',
    Put ''4881823001484136'' '';9('',
    Put ''1815123219418632'' '',;*-_}=28!!n7Gu#'',
    Put ''4171921875489572'' ''1Ba2.,+0<,!x%8$0'',
    Put ''5691533215384974'' ''=+2);l&,=R)+T-'',
    Put ''3459217808417385'' ''>!251&30n*Qo5`.'',
    Put ''8290580044389398'' ''2'',
    Put ''7923848622352564'' ''9R19'b,!j7We/9<<'',
    Put ''3237728412485383'' ''+*%Z}(;v3.:1^q&'',
    Put ''5470043819452972'' ''+Qk*Ja<P!<7j'Vs>'',
    Put ''1226902401449795'' ''<U-9$:-B#!=$;*60'',
    Put ''1005413005517793'' ''4/6'',
    Put ''8637665132542722'' ''/?6-Vy--8(/>0Q=0'',
    Put ''7576763534199239'' ''&)|?G)/2z;B-.)t7'',
    Put ''4173034318607543'' '''',
    Put ''6405349725575133'' ''(7v7O!1Zu#907*<9'',
    Put ''8798173132964713'' ''?Cm+),%(h;P7#Zq:'']"

lemma load_1_tally: "tally load_1 0 0 (150, 0)"
  by (unfold load_1_def) (simp only: tally_steps cong: tally_cong, simp)

lemma load_2_tally: "tally load_2 0 0 (150, 0)"
  by (unfold load_2_def) (simp only: tally_steps cong: tally_cong, simp)

lemma load_3_tally: "tally load_3 0 0 (150, 0)"
  by (unfold load_3_def) (simp only: tally_steps cong: tally_cong, simp)

lemma load_4_tally: "tally load_4 0 0 (150, 0)"
  by (unfold load_4_def) (simp only: tally_steps cong: tally_cong, simp)

lemma load_5_tally: "tally load_5 0 0 (150, 0)"
  by (unfold load_5_def) (simp only: tally_steps cong: tally_cong, simp)

lemma load_6_tally: "tally load_6 0 0 (150, 0)"
  by (unfold load_6_def) (simp only: tally_steps cong: tally_cong, simp)

lemma load_7_tally: "tally load_7 0 0 (150, 0)"
  by (unfold load_7_def) (simp only: tally_steps cong: tally_cong, simp)

lemma load_8_tally: "tally load_8 0 0 (150, 0)"
  by (unfold load_8_def) (simp only: tally_steps cong: tally_cong, simp)

lemma load_9_tally: "tally load_9 0 0 (150, 0)"
  by (unfold load_9_def) (simp only: tally_steps cong: tally_cong, simp)

lemma load_10_tally: "tally load_10 0 0 (150, 0)"
  by (unfold load_10_def) (simp only: tally_steps cong: tally_cong, simp)

lemma load_11_tally: "tally load_11 0 0 (150, 0)"
  by (unfold load_11_def) (simp only: tally_steps cong: tally_cong, simp)

lemma load_12_tally: "tally load_12 0 0 (150, 0)"
  by (unfold load_12_def) (simp only: tally_steps cong: tally_cong, simp)

lemma load_13_tally: "tally load_13 0 0 (150, 0)"
  by (unfold load_13_def) (simp only: tally_steps cong: tally_cong, simp)

lemma load_14_tally: "tally load_14 0 0 (150, 0)"
  by (unfold load_14_def) (simp only: tally_steps cong: tally_cong, simp)

end
