(* ===== verification/BenchRun1.thy ===== *)
theory BenchRun1
  imports BenchOps
begin

text \<open>
  The run phase of the benchmark (\<open>src/src/shared/benchmark.h\<close>, lines 6006 to 8105), one list per stretch of
  the macro, with the number of its puts and gets.
\<close>

definition run_1 :: "bench_op list" where
  "run_1 = [
    Put ''1127100791449830'' ''7G95@})*'',
    Get ''8507943218814273'',
    Put ''1127100791449830'' (''%UoAa$7t:-v<Mc'' @ [CHR 0x27]),
    Put ''8386815393394376'' ''!(`*'t0A'47b!7`.'',
    Get ''7928534804371831'',
    Get ''1348590187381832'',
    Put ''7556898885097888'' ''+A/!.0Z59Je*'',
    Put ''2180734720431185'' ''>D-$<6(:z7+b<+r7'',
    Get ''1010659148049201'',
    Put ''8748518988117644'' ''2V!):r0)f2>:%3<1'',
    Put ''7749878759829398'' '',.d36r%I+-3j%Qg+'',
    Get ''9221978044222273'',
    Get ''2302982466875362'',
    Put ''2302422506363222'' ''8Q%='',
    Put ''7354714177755096'' ''70b?Ey,&r#Rw<[{:'',
    Put ''6159186168446054'' ''+Y-)G?$).%Ym?/`;'',
    Get ''7215059939475971'',
    Get ''5797482573722787'',
    Put ''3349142228572445'' ''(Xm#A99_{Fc'6<0'',
    Put ''6042744525045426'' ''9Iy#'',
    Get ''3945957134849834'',
    Get ''6285000175885219'',
    Get ''1583141538423813'',
    Put ''6651171637409912'' ''+S#'',
    Get ''2408590179918876'',
    Put ''2051012806702735'' ''*Dm/]e<s#O!'',
    Put ''3575659451818013'' ''$:v3,::52%E{5!r>'',
    Put ''4534737913330811'' ''86l..'',
    Put ''6983856534211135'' ''2Q3-Mc0+:-:806n:'',
    Put ''7465909678624317'' ''6+:'',
    Get ''4534737913330811'',
    Get ''3127092872128302'',
    Put ''8266247528486620'' ''5-~*[y'_59#b;'',
    Get ''2513979577744548'',
    Get ''2414177967744583'',
    Get ''8758792957962619'',
    Put ''8179944504032318'' ''7-n:[+$Y;(Uk'2'',
    Get ''6310452612812277'',
    Get ''6073473535709749'',
    Put ''1840575656345690'' '')]o&C37T)5Zs.Nw6'',
    Get ''7934682552709678'',
    Get ''7576545218981397'',
    Put ''7681592971512771'' '')4*,J?;<(!Vq7-'',
    Put ''8863062434764010'' ''1U',G;1i?T},:f2'',
    Put ''5721671834331300'' '';[c*Yq4Z!4>p1)|?'',
    Get ''8270373749993747'',
    Get ''1127100791449830'',
    Put ''6235031163988755'' ''(Yy2G5(Lw.#*?;(1'',
    Get ''6151301108707982'',
    Get ''7355834098779377'',
    Get ''1704487679061551'',
    Put ''1478872061622422'' ''$Eq6H+>,&=n1Fc'',
    Get ''3701473459257178'',
    Put ''2156962165040548'' ''#P!4Eu>;x.Vw/;='',
    Get ''6732228519332807'',
    Put ''9220858123197992'' ''-+883`<#h#[g)Rs'',
    Get ''6767053320298401'',
    Get ''7576763534199239'',
    Get ''8415834091316421'',
    Get ''3237168451973242'',
    Put ''7335627804383727'' ''$@q;&x!I=1%v'P3%'',
    Put ''8270373749993747'' ''!Ei*.~:I5-9h,[34'',
    Get ''3569075073044483'',
    Get ''6047772352358992'',
    Get ''5332921856552874'',
    Put ''5008196969435440'' ''>S/=M',&25+246|:'',
    Get ''4891195365522671'',
    Get ''5377600524567132'',
    Get ''5208701795241810'',
    Put ''3585031815856549'' ''&?`6w#U{&$+7n>'',
    Put ''5817907183336279'' ''<6&-Q=3Wi'Vq!!*('',
    Put ''6642577549101359'' ''#Zq2Jw2=l/M5M{.'',
    Put ''4656425699262848'' ([CHR 0x27] @ ''.l:I3<2|/Vq+''),
    Put ''3942390873854848'' '')5(8Cs#>j2S#(/`7'',
    Put ''6983856534211135'' '')P-$#n=$9Ms+7*='',
    Put ''8873773035044668'' ''$Oo:;81L{?[=D2'',
    Get ''9215611980666584'',
    Put ''2413058046720302'' '';Di*A{/D!(5'',
    Put ''5912804296099134'' ''<]?))8!?6!P)54b6'',
    Get ''7928534804371831'',
    Put ''3468931817750219'' ''0Y9!Ca?3*<N#:n/'',
    Get ''2070659140586245'',
    Get ''1924638838751431'',
    Get ''7556898885097888'',
    Get ''1336418020782595'',
    Put ''6073473535709749'' ''=^=$>2&r#>f0]99'',
    Put ''5590051723848587'' (''(@'' @ ''{6Fq;J15[+''),
    Put ''4173034318607543'' ''-?00Aa0085$'8$!'',
    Put ''4525023903997977'' ''61r>B9F7,Vc$Gy6'',
    Get ''2388165570305384'',
    Put ''2071219101098386'' '''',
    Put ''5354162136564484'' ''2@u+V;3&|6H;Xg?'',
    Put ''8270373749993747'' ''$B!-Pc4:0-K+;4'',
    Get ''2643701491472998'',
    Put ''4539984055862219'' '''',
    Put ''8517315582852808'' ''<S9,W;<!d2X/?=t>'',
    Put ''1452859664183223'' ''-4|6'',
    Put ''8295266226408665'' ''0Wa7<,1V3-F1)X)!'',
    Get ''2291930221300406'',
    Put ''4047220311168379'' ''52(4+8(Bo'Bk'%t.'',
    Get ''6979170352191867'',
    Put ''7929094764883972'' ''+Qa6]!'',
    Put ''6159186168446054'' ''=;n736)X!=Y1%N+5'',
    Get ''5348915994033076'',
    Put ''2996251037375572'' '')Hy*#&(<r/C=7<l7'',
    Put ''2635107403164445'' ''>Kw.K995*-P5'C;5'',
    Put ''5695659436892101'' '')Pi?Sy6j3R;&Kq7'',
    Get ''2525031823319505'',
    Get ''2428236513802386'',
    Put ''6159186168446054'' ''(H}2Q9#Gw.Jw#P38'',
    Put ''5122958731299648'' ''5.>1^58+$'',
    Put ''1605363453570628'' ''9Mm#Is0Ii]s0.<,'',
    Put ''2041640442664200'' ''$0|#;2'Pw'[=3I;,'',
    Put ''5937136812001912'' ([CHR 0x27] @ ''>(43v8*<''),
    Put ''8738026703054828'' ''%@i.:'',
    Put ''7928534804371831'' ''!96(!4%[a/:.P!%'',
    Get ''7596969828594889'',
    Get ''5233598611046116'',
    Put ''1826175464993588'' ''5'',
    Put ''8165325997462374'' ''0Vo>Tw$7x&,*7H!'',
    Put ''5821255129113424'' '')!>,Oa$H':l#]3'',
    Get ''3459217808417385'',
    Get ''3122625005326877'',
    Get ''6159186168446054'',
    Get ''4534177952818671'',
    Get ''8054348811810995'',
    Put ''8502137115770724'' ''?@}*2r'',
    Put ''3343336125528896'' '';<.(4z4!6%B!(Lu>'',
    Get ''6656977740453461'',
    Get ''5332921856552874'',
    Put ''5128675760417953'' ([CHR 0x27] @ ''R%(M',Cq*d9=2!''),
    Get ''7224992264026647'',
    Put ''5364654421627300'' '':Qi.;n'',
    Put ''1127100791449830'' ''0.*4Vo!Z),L),Da.'',
    Put ''7817899264014751'' ''?.v#Jw=)r2*d<2&='',
    Get ''1004853045005653'',
    Get ''3223328221133281'',
    Put ''5586143817559302'' ''J+?0;$f>Fe;'',
    Get ''2166894489591224'',
    Get ''2523693587077382'',
    Get ''6636211485545670'',
    Get ''8270373749993747'',
    Put ''8270373749993747'' ''+J?=No,:4)@m;I'-'',
    Get ''7590311331708735'',
    Put ''2056040634016302'' ''/R3(Yq-A358d:4b6'',
    Get ''5696219397404242'',
    Put ''7475842003174993'' ''('',
    Put ''1127100791449830'' ''&Ti6:<6A718t$Ue&'',
    Get ''7908670155270480'',
    Get ''7224773948808805'']"

definition run_2 :: "bench_op list" where
  "run_2 = [
    Get ''1127100791449830'',
    Get ''8407240003007868'',
    Get ''2423550331783118'',
    Put ''8174138400988769'' ''+=0=B)4Gi3:<T'4'',
    Put ''4187652825177487'' ''%Zm2K1+70'',
    Put ''6642017588589219'' ''*#b6Z5'4>-Fy3,~3'',
    Get ''2861064665897873'',
    Put ''2056600594528442'' ''+Ck?&p.('',
    Get ''3237168451973242'',
    Get ''6968678067129051'',
    Put ''4525583864510118'' '')Ti2Vs&=&4Bk<0.$'',
    Get ''9221199768492291'',
    Put ''8386815393394376'' ''*&*9B+9*r2Y#-N}#'',
    Put ''2523911902295224'' ''3929Kc0=v:U{'#n#'',
    Put ''2513979577744548'' ''(?(5C7<r;>b1W9'',
    Put ''9898928931414111'' ''/#r6A#>M}6Xu)&('',
    Get ''4404797684384520'',
    Put ''1127100791449830'' '''',
    Get ''8801589585907699'',
    Get ''2528939729608790'',
    Get ''5832307374688380'',
    Put ''4745735024199997'' '':Ay*T76M)<6n8A%)'',
    Get ''3695667356213629'',
    Put ''5127644913318915'' ''*HeCa56f?Z--3$$'',
    Put ''8270373749993747'' ''<(dLu%Bg9$$7&='',
    Get ''8270373749993747'',
    Get ''9090357933739560'',
    Put ''5822033404843406'' ''69$$I3/Mu37f?*t#'',
    Put ''6982736613186854'' '')F!0@;!%p7O71[-('',
    Get ''4997704684372624'',
    Get ''5696219397404242'',
    Put ''7450731211542233'' ''8B?4J'(;r2V?%G!5'',
    Put ''4166322270368168'' ''0<l0b;>.!!$!-h'',
    Put ''8274841616795173'' ''80j;Yw1X)=Le:*8!'',
    Get ''6520329802657182'',
    Get ''1757148124391467'',
    Put ''7698233004913434'' ''-G9!7$->f/B7&*&8'',
    Get ''6546342200096381'',
    Put ''2302422506363222'' ''-3(9E9=5h7Bw7W)8'',
    Put ''6525218143209206'' ''!.40101Pu2/l4?'',
    Get ''3705941326058603'',
    Get ''8942175046485730'',
    Put ''8507943218814273'' ''$'',
    Get ''2278089990460444'',
    Get ''3825949230454219'',
    Get ''2050452846190595'',
    Put ''2417744228739570'' '':7f+Ae9=p6-85/t'',
    Get ''1478312101110282'',
    Get ''5092820112353322'',
    Get ''7010709939563285'',
    Put ''4877355134682710'' ''-!b;E%$E=0^y0#'',
    Get ''8906512436535862'',
    Put ''7457315590315764'' ''5$n3%'Eo+2r1-b;'',
    Get ''7098399980857501'',
    Put ''4047998586898362'' ''Dg+(z7L6A;38b'',
    Get ''2303542427387503'',
    Get ''1715321609418666'',
    Get ''3945957134849834'',
    Put ''6742720804395623'' ''?E9=+~:0`>!2?T/5'',
    Get ''2180734720431185'',
    Put ''6339954014616917'' ''=?*5%h$(~'Eg3U-9'',
    Put ''1101648354522772'' '':&r&_+'',
    Put ''1127100791449830'' ''4I70Is./$$:&#=p>'',
    Put ''3232482269953974'' ''3Su$t,51De+7<)'',
    Put ''7239952415890889'' ''!E34H11:t;[--0l&'',
    Put ''6164992271489603'' '',+x;^{'V?!4;Jm/'',
    Get ''1111580679073447'',
    Put ''5716425691799892'' ''=;v/Lm1Ma.j>'',
    Put ''5943161230263302'' ''24~>?f>Q3%2$/#x;'',
    Get ''4972812207957706'',
    Get ''6042744525045426'',
    Put ''8270933710505888'' ''>'v.4h)/*,Y)>}+'',
    Put ''7239392455378749'' ''.'&1N;.A#16'',
    Put ''5937136812001912'' '':Ea/Re92x&A%44h.'',
    Get ''6437094107945257'',
    Get ''5122398770787507'',
    Put ''9100290258290236'' ''4@i+#<+Dm>5t'',
    Put ''5686287072853566'' ''07l'K)-Lo/Wq7$4-'',
    Put ''4181846722133938'' ''?C%!Ju6Z-8M1+Yk2'',
    Get ''4041632523342672'',
    Get ''6867974851322647'',
    Get ''7596969828594889'',
    Get ''6235031163988755'',
    Put ''4881823001484136'' ''!'',
    Get ''3690421213682221'',
    Get ''5339761945212382'',
    Get ''5208701795241810'',
    Put ''4877355134682710'' ''&N-=Jg)O!$0~9b6'',
    Get ''8994122584734582'',
    Get ''6635740598958773'',
    Get ''1357184275690385'',
    Put ''5223661947106052'' ([CHR 0x27] @ ''Xa2/b''),
    Get ''4041632523342672'',
    Put ''1111580679073447'' ''.Nc>'/::'',
    Put ''6994348819273951'' (''>@'' @ ''{>6`3C;5%x''),
    Get ''1657824878884709'',
    Put ''6163654035247480'' ''2Li+766Oo:2f4^14'',
    Get ''4178498776356793'',
    Get ''9216731901690865'',
    Put ''8637323487248424'' ''!T#<.<-,l6>$*(b2'',
    Put ''2971842831533417'' ''*4*8#0+Ds?'',
    Get ''6154499986426787'',
    Get ''4016720751725747'',
    Get ''6159186168446054'',
    Put ''4886509183503403'' '';%,,,,=-`3@w*%f&'',
    Get ''1112140639585588'',
    Put ''4179058736868934'' ''63'',
    Put ''3945957134849834'' ''3[;#`<4n/6n?:b7'',
    Get ''5692653136409255'',
    Get ''6275067851334543'',
    Get ''1130667052444817'',
    Get ''1799944752336548'',
    Put ''9004054909285258'' '',A)97t/Yy6G//8t6'',
    Get ''2760703095385767'',
    Get ''6032812200494750'',
    Get ''3945957134849834'',
    Get ''3927990682502746'',
    Put ''7833419376391134'' ''1I==-,3:jL)-Vy6'',
    Put ''4987990675039790'' ''>B'=#8?G?$3>;Aa/'',
    Put ''6863848629815520'' ''>4x'Ys&Bs'+v2_18'',
    Put ''6399543622531584'' ''#$*8Ea$Qo'[c0G1)'',
    Get ''6630405382502122'',
    Put ''8033924202197503'' ''#/.4T==)*9Ty!Kg:'',
    Put ''6309892652300136'' ''&Sw6@34a#:>43,('',
    Get ''6294714185218053'',
    Put ''3091708110650568'' '''',
    Get ''2302422506363222'',
    Get ''7598094089008558'',
    Put ''8531155813692769'' ''+*8'',
    Get ''1127100791449830'',
    Get ''3593625904165102'',
    Get ''4525583864510118'',
    Put ''7224992264026647'' ''='',
    Get ''2408590179918876'',
    Get ''2278089990460444'',
    Put ''8803772738086118'' ''8J3-0j5%2)H;-B!5'',
    Put ''8622704980678480'' ''-8d65..$<'',
    Put ''8606966553084256'' '',O#1,x%4x37z.H!4'',
    Put ''2755115307560060'' ''#Y#(!?D5!6v19f*'',
    Put ''3339209904021769'' '';P}..`/'8-C?1]!9'',
    Get ''4766501279107788'',
    Put ''7928534804371831'' ''=F-42n5Ag7*&#:='',
    Get ''8270373749993747'',
    Get ''6151301108707982'',
    Put ''4577458349285543'' ''0?88F9&54%)85_w/'',
    Get ''8400655624234337'',
    Get ''3710627508077871'',
    Put ''6898113470268973'' ('',]'' @ [CHR 0x27]),
    Put ''2880151039269242'' ''#@%<'&4#v2H!$_w*'',
    Get ''6495778971536563'']"

definition run_3 :: "bench_op list" where
  "run_3 = [
    Get ''2765047632110736'',
    Get ''6415282050125808'',
    Get ''3945957134849834'',
    Get ''1583359853641655'',
    Get ''8270373749993747'',
    Put ''5474730001472240'' ''0'h6Bc%*~>9r<V14'',
    Put ''4871890676933460'' ''+/*=&r99p6+p2Gu:'',
    Put ''2966243226412012'' ''4G7!]-01v/Rw1F71'',
    Put ''3223888181645421'' ''#^#03.$#f.Oc*E+4'',
    Get ''2408371864701034'',
    Get ''3714753729584998'',
    Get ''3339209904021769'',
    Put ''8260441425443072'' '',(z7K-;[k2Ls9Kc#'',
    Get ''2180734720431185'',
    Put ''1363208693951776'' ''<@7)3b=T=(Wq::>'',
    Get ''5576771453520767'',
    Get ''7923288661840423'',
    Put ''9220639807980150'' ''(S+,We.O+!'p4.f2'',
    Put ''1578673671622387'' '',Xy:I+'',
    Get ''2870437029936408'',
    Put ''7465909678624317'' '';F/!92!6h/64,Lg+'',
    Get ''8878800862358234'',
    Get ''7556898885097888'',
    Put ''8759011273180460'' '':Zs7Lg%N/9To;Ay.'',
    Get ''1116266861092715'',
    Put ''2417744228739570'' '';?6!Z='',
    Put ''6159186168446054'' ''.B=8+r9]79%>?'',
    Get ''3945957134849834'',
    Put ''5007637008923300'' ''!I!!b+)(<[u0]{/'',
    Get ''4515091579447301'',
    Put ''2171362356392650'' ''!^',7l)Ma2(:(N)('',
    Get ''4273955849631789'',
    Put ''1592513902462349'' ''/-01(4(J9,Bi>#$$'',
    Get ''6857482566259831'',
    Put ''3821481363652793'' (''7J3-Ts6Z?0;>*Ps'' @ [CHR 0x27]),
    Put ''4645591768905733'' '')Vu*#d0P%9=~'',
    Get ''3252906879567466'',
    Get ''2906381751926282'',
    Get ''8270373749993747'',
    Put ''6269261748290994'' '',$$4',7P}&M39?:)'',
    Get ''6385703391691623'',
    Get ''5233598611046116'',
    Put ''3468931817750219'' '')Tc2Sa.Za*'*)R=)'',
    Get ''8884047004889642'',
    Get ''2857903922840864'',
    Get ''9216171941178725'',
    Get ''3975458536654475'',
    Get ''1010099187537061'',
    Get ''7361080241310786'',
    Get ''5476923770073890'',
    Put ''3065566471918771'' ''$P%1=4*<`:N'*Iy'',
    Put ''2906381751926282'' ''/Xy7,4=)n358+L%('',
    Put ''5333955842168833'' ''9/z&2(13:,>0F+'',
    Put ''5797482573722787'' ''-;j6]w/F34Xg#H!-'',
    Get ''8743272845586236'',
    Put ''5233598611046116'' ''+K#)'',
    Get ''7707045408439829'',
    Get ''8633757226253437'',
    Put ''1766164182455857'' ''<A)1^32'`2(45I3-'',
    Get ''7466687954354299'',
    Put ''3951203277381243'' ''0Xq30<:Lo.W+$;04'',
    Get ''1105556260812057'',
    Put ''8270373749993747'' ''3S%0P/!@#-W7:V#'',
    Put ''8798173132964713'' ''.:$5'',
    Get ''6420528192657217'',
    Get ''8270373749993747'',
    Put ''7455977354073641'' ''9V70>:!)<4B='0(5'',
    Put ''5233598611046116'' ('';_10Sc7Gy?-;Li'' @ [CHR 0x27]),
    Get ''5686287072853566'',
    Get ''3945957134849834'',
    Put ''1695115315023016'' ''%Nw2)j'$j&N5,Dy>'',
    Get ''1940718911639954'',
    Put ''2278089990460444'' ''8'z6'z!U39V9#%5'',
    Put ''4178498776356793'' ''2,.<;<!3p.-|:]i?'',
    Put ''1127100791449830'' ''6209Y?&Nq7&.('',
    Get ''5927764447963376'',
    Get ''6414722089613668'',
    Get ''5696779357916382'',
    Put ''1663424484006114'' '';V/,^1-&$(]a4B59'',
    Put ''1828963450258593'' '')+<=Vk1Z?'',
    Get ''6159186168446054'',
    Get ''2167454450103364'',
    Get ''7928534804371831'',
    Get ''3001278864689138'',
    Get ''5492863231354891'',
    Get ''2413276361938144'',
    Get ''7556898885097888'',
    Get ''4389837532520278'',
    Get ''2981072570293488'',
    Get ''6151301108707982'',
    Get ''8033924202197503'',
    Put ''8274841616795173'' (''?3|#6r(;d#?2#@c'' @ [CHR 0x27]),
    Put ''7938248813704665'' ''5<$1Qq<P?<!j8Q),'',
    Put ''7798034614913399'' ''-0jQ)<$l2>j#S91'',
    Put ''2162208307571956'' ''(F/7t8D3'',
    Get ''1472505998066733'',
    Put ''3579785673325141'' ''P?$&&!Q%09d.*f.'',
    Get ''8994636471799811'',
    Put ''1127100791449830'' ''.0f23x%&r#W;!6z.'',
    Put ''6979170352191867'' ''((,%Pm2H7!'',
    Put ''1127100791449830'' ''=J}>Oy9Hq2=j=>j?'',
    Put ''7571517391667831'' ''2H3(G#*-&,D=2L+5'',
    Get ''7446263344740807'',
    Get ''6159186168446054'',
    Get ''8270373749993747'',
    Put ''5383200129688536'' ''-We3-(-]71-|7_1,'',
    Put ''1593852138704471'' ''*f':(2Qe2h5%,='',
    Get ''7576545218981397'',
    Get ''5186736790853439'',
    Get ''8270373749993747'',
    Put ''3701473459257178'' ''&4.0:&'',
    Put ''1127100791449830'' (''8]'5P=91`.8,'' @ [CHR 0x27, CHR 0x27] @ ''$''),
    Put ''1127100791449830'' ''%T59'`':,8.<60t+'',
    Put ''7928534804371831'' ''*$'',
    Put ''5354940412294466'' ([CHR 0x27] @ ''.<4%j8Rc?5<3W#)''),
    Put ''7562145027629296'' '')7d/Q77B+$1h7$x&'',
    Get ''4766501279107788'',
    Put ''8531715774204910'' ''+;,)#p'',
    Put ''6235031163988755'' ''43t*464Bu+B/9'',
    Get ''8396187757432912'',
    Put ''1760564577334453'' ''/$6$@3#6r';4#Hi'',
    Get ''3951763237893383'',
    Put ''4067644920781871'' ''78*0Ny1$*!=8'',
    Get ''2774761641443570'',
    Get ''4047998586898362'',
    Get ''1025837615131285'',
    Get ''7104424399118891'',
    Get ''8502697076282865'',
    Get ''1106894497054180'',
    Get ''1127100791449830'',
    Get ''1828963450258593'',
    Get ''8270373749993747'',
    Get ''8642351314561990'',
    Put ''3931556943497733'' ''5&((D-)Xi?x>J'!'',
    Put ''6772299462829809'' '')Oa6%>,];!8>'',
    Put ''7475842003174993'' '':)v.?*68n3X/+Iu7'',
    Put ''4887069144015544'' ''.#d'Qq0]s2<0,Yw6'',
    Put ''5696219397404242'' (''1>|;Uq;8r7Y}=7d'' @ [CHR 0x27]),
    Put ''5464797676921564'' ''<*p.V=6C5!;d*Rm&'',
    Get ''5229126404855302'',
    Get ''1025837615131285'',
    Put ''5118272549280380'' ''0I%-',*7x+B)7g#'',
    Get ''1105556260812057'',
    Get ''2765949237917175'',
    Get ''8842851800978971'',
    Put ''7461441811822891'' ''9!r+.0)M1(8'',
    Get ''6042744525045426'',
    Get ''8516537307122826'',
    Put ''6184078644860972'' ''=Z'0!~*589Aa';j?'',
    Get ''9752743865714676'']"

definition run_4 :: "bench_op list" where
  "run_4 = [
    Put ''3247660737036058'' '';Z?5(l#Lo?(<8M}:'',
    Put ''4080381387282637'' ''+:$,+8<=.,No-Mw6'',
    Put ''3594185864677242'' ''7,d*Og5T/=?>>164'',
    Get ''1361870457709653'',
    Put ''7325695479833051'' ''#V=8S14%6,D=*0j/'',
    Put ''8773411464532562'' ''7:$%Ek6=>-92=%&!'',
    Get ''5590611684360728'',
    Get ''7556898885097888'',
    Put ''1955337418209897'' ''!E!('6.{>;>&Je+'',
    Put ''6149253843895379'' '''',
    Put ''8269813789481607'' ''-'',
    Put ''4042752444366953'' ''&Pa>Zm1((,S3);x&'',
    Put ''4187652825177487'' ''5><-(l$#6=[k3-'',
    Get ''4981966256778399'',
    Get ''3112428292111447'',
    Get ''1924638838751431'',
    Get ''8618018798659212'',
    Put ''2519225720275956'' ''%/*$':760]-3?v:'',
    Put ''3922997111340393'' ''+1p#Pi:,*,5'',
    Put ''4635441129137216'' ''5M?%8f0868'',
    Put ''6867756536104805'' ''%S599j$3'',
    Get ''6506271256599379'',
    Get ''8270933710505888'',
    Get ''7235266233871621'',
    Get ''6173026399286016'',
    Get ''3106668262514810'',
    Get ''8405901766765746'',
    Put ''7224773948808805'' ''60$(%n-::9.n(X+='',
    Get ''3945957134849834'',
    Put ''6159186168446054'' ''-Fq#C=)Ry*M!?Gk?'',
    Put ''5702025500447790'' ''1I=!C=>3l[m)Sk3'',
    Put ''7788957822722251'' ''#Ua+7f76'',
    Get ''5681040930322158'',
    Put ''1127100791449830'' (''3U{#Nu?.(,[+--t'' @ [CHR 0x27]),
    Put ''4515651539959442'' ''.T}?;8.Zi.7|!A+%'',
    Put ''8400655624234337'' ''+P1=(4$16!Su0Y1-'',
    Get ''4866302889107753'',
    Get ''1945965054171362'',
    Get ''4636219404867198'',
    Get ''4504599294384485'',
    Put ''6042744525045426'' ''%(:5/t;-&!>x-5h.'',
    Put ''1001286784010666'' '''',
    Get ''7707605368951969'',
    Get ''4168006491293977'',
    Put ''4518999485736587'' ''%[95$d5'~'^)3Z','',
    Get ''4404797684384520'',
    Put ''8874114680338966'' ''?<x34l&Jc/).4^s'',
    Get ''2277530029948304'',
    Put ''6858042526771971'' ''$@/'',
    Get ''2775321601955710'',
    Get ''1462791988733899'',
    Put ''2278089990460444'' ''!V!0:'',
    Put ''1362990378733934'' ''.=`3<:96t3Zi?A-,'',
    Put ''7693205177599868'' ''0Vc>+l<#:4M7;Gk7'',
    Put ''7355834098779377'' '';Y}?B{>Uw;(p<Z-<'',
    Get ''8738586663566968'',
    Put ''4997363039078325'' '';Uc@s<#:,(h1Ry/'',
    Put ''3001278864689138'' ''!B%9_u--(!;0,@e&'',
    Put ''6385703391691623'' ''3Tc;<8#=8<6z3>2%'',
    Put ''8159738209636667'' ''=M}>Ki3>%5h=94='',
    Get ''3479984063325175'',
    Get ''3690421213682221'',
    Put ''4413610087910915'' ''$,f61~1J5(Jq9Uq/'',
    Get ''6521231408463621'',
    Put ''5585365541829320'' '',5'',
    Get ''1232148543981203'',
    Get ''6017477484495704'',
    Put ''8033924202197503'' '''',
    Get ''6280873954378091'',
    Put ''8280866035056564'' ''*X=!D9>Dy+@;$La3'',
    Get ''6385703391691623'',
    Put ''7681592971512771'' ''+Nq#]!:><-j?3>1'',
    Put ''7818459224526892'' ''4;(<A'.n#O=<Xk7'',
    Get ''5476923770073890'',
    Put ''5570965350477218'' ''+:t*D-!=`7Yk!^e.'',
    Put ''1127100791449830'' '')'h*:j1%,8So(=(<'',
    Get ''3945957134849834'',
    Get ''8270373749993747'',
    Get ''7684034972094089'',
    Get ''6345553619738322'',
    Get ''2644479767202980'',
    Put ''2281997896749730'' ''1Ui+9.'',
    Put ''1372362742772469'' ([CHR 0x27] @ ''6t*<d.^{']{''),
    Get ''1127100791449830'',
    Put ''5695441121674259'' ''8*h*(z>H9(.<5Z1('',
    Put ''1127100791449830'' ''!^*N-$B%<&&D=-'',
    Put ''3926870761478465'' ''9Q-$U1;R'-Cm%8('',
    Get ''6737474661864215'',
    Put ''6379897288648074'' ''8)*=4,6).%(`5.l/'',
    Put ''3922997111340393'' ''X79'',
    Get ''5692093175897115'',
    Put ''6732228519332807'' ''/Hc*=2;Ao?(81v&'',
    Get ''3956449419912651'',
    Put ''6184078644860972'' ''3V75_i._u>$r;1n6'',
    Put ''7098618296075342'' '';*>%Da:P3(S'->r?'',
    Get ''1015905290580609'',
    Put ''6385703391691623'' (''!U+,C=4>f>F5Ga'' @ [CHR 0x27]),
    Put ''2755675268072201'' ''>Vu;S5&26%R-.Z'-'',
    Put ''6159186168446054'' ''--d7X3++0=C;,(`/'',
    Get ''8633757226253437'',
    Get ''3936243125517000'',
    Put ''4997363039078325'' ''3%zW?=9|6N?0N5<'',
    Get ''1936032729620686'',
    Get ''8854468346455457'',
    Get ''4046878665874081'',
    Get ''4981966256778399'',
    Put ''1924638838751431'' ''3?'',
    Get ''5244086556719544'',
    Get ''2181294680943325'',
    Put ''3930996982985592'' ''>!>1R-/&(<?>--&4'',
    Get ''6630405382502122'',
    Put ''9752743865714676'' ''%Y9'',
    Put ''5585365541829320'' '''',
    Put ''7334849528653745'' ''Lg>@-*K5=.488'',
    Get ''6400881858773707'',
    Put ''8637883447760564'' ''>'',
    Get ''2180734720431185'',
    Put ''8412267830321435'' '';C+$Xi!1:0=n<6r?'',
    Put ''5797482573722787'' '').&9N{5B'-d16b>'',
    Get ''5333737526950992'',
    Get ''2921564558397754'',
    Get ''7707605368951969'',
    Get ''8386815393394376'',
    Put ''6988884361524701'' '')<,)5z2Zc'Jm#!>,'',
    Get ''9099511982560254'',
    Put ''6501025114067971'' ''-4r2V+9|3)2/Vy3'',
    Get ''7010709939563285'',
    Put ''1583141538423813'' '',9vV-#3(56:'M{?'',
    Get ''7120162826713115'',
    Put ''6631525303526403'' ''<0>0@a1#:(Ve'A!('',
    Put ''5466135913163687'' ''36>-B3>1~6=62.8('',
    Get ''5820695168601283'',
    Put ''1577895395892405'' ''?*d>'',
    Put ''7119944511495274'' (''%Qo&8v<Ee6]+%'' @ [CHR 0x27]),
    Get ''7798594575425540'',
    Get ''7577105179493538'',
    Put ''1127100791449830'' ''#Cy/l'Rs/?:>$8'',
    Put ''1704487679061551'' ''3!:<%l>Ds6J!8X30'',
    Put ''8984408575401748'' '':^{?m7B9-W1+:,8'',
    Get ''6179392462841705'',
    Get ''1809609549705548'',
    Put ''3483550324320162'' ''-:)]):]-4J3,#|7'',
    Put ''1604686069061586'' ''#.r(x(7n+_o<$d7'',
    Get ''1703149442819429'',
    Put ''7572077352179971'' ''6<&(E;.;v?Hq(Vu3'',
    Put ''4188212785689627'' ''$@5);p8M}?,2,j.'',
    Get ''2393971673348933'',
    Put ''6043304485557566'' ''0A}#Kc8,=;*?_=<'',
    Put ''7235826194383762'' '''',
    Put ''1225782480425514'' ''+C-,%'']"

definition run_5 :: "bench_op list" where
  "run_5 = [
    Get ''3599991967720791'',
    Get ''2643701491472998'',
    Put ''7682712892537052'' ''9O5'',
    Put ''8396187757432912'' ''<,n#88#*4(n9{3'',
    Put ''7576763534199239'' '')9n/)p._g>B%*>v&'',
    Get ''6511517399130787'',
    Get ''1458105806714631'',
    Get ''3941830913342707'',
    Get ''7708383644681952'',
    Get ''6184638605373113'',
    Get ''3459777768929525'',
    Get ''6437094107945257'',
    Get ''3926870761478465'',
    Put ''2650067555028687'' ''#B5!L;2J#8<6&T5-'',
    Put ''2186540823474733'' '')8*-@)&B1'',
    Put ''3227796087934707'' '':Aa;287=r&Dm)U-'',
    Get ''4056592675206915'',
    Put ''1453419624695364'' ''8:21]s$M?!Gy47x:'',
    Put ''8738586663566968'' ''4T!'',
    Put ''8496890973239316'' '')%4([&5h'^a1S)<'',
    Get ''1127100791449830'',
    Get ''5716425691799892'',
    Put ''1127100791449830'' ''=K)!W{.'',
    Put ''5696219397404242'' ''(/|>$t-Ii#Ye(*.<'',
    Get ''4756568954557112'',
    Get ''7556338924585747'',
    Put ''2056040634016302'' ''*7'',
    Get ''3825389269942078'',
    Get ''2402784076875328'',
    Get ''8627172847479906'',
    Get ''8270373749993747'',
    Put ''1715885909320195'' ''_o?G-4>d*#:#$n&'',
    Put ''6285000175885219'' '''',
    Put ''9206239616628049'' ''(*`:L!!7j2O%<D7-'',
    Get ''8049444314573886'',
    Put ''8054908772323136'' ([CHR 0x27] @ '')40>v.@#55:Q=0''),
    Get ''6188764826880240'',
    Put ''6184078644860972'' ''2^#(68/EwDu:2z7'',
    Put ''7320449337301643'' ''?.*9W{4,88)'',
    Put ''1367116600241061'' ''+'',
    Put ''1127100791449830'' ''7$'',
    Put ''3575099491305873'' ''(Im'B3$C}>!.#'',
    Put ''1127100791449830'' '')[{#Vm$;>-s/;0-'',
    Get ''2504047253193872'',
    Put ''1941278872152094'' ''.[7(;U%5?|?E?<'',
    Get ''6987764440500420'',
    Put ''4052684768917629'' ''8=09z7/-]c%X+'',
    Get ''4997704684372624'',
    Get ''4504599294384485'',
    Put ''1799944752336548'' ''=Xu/6l/$%Na0L;<'',
    Get ''8405901766765746'',
    Put ''6531942008744279'' '')*>=,~,-v/[k'4h&'',
    Put ''8698849887457955'' '';S-4C!!?~7V'/@!!'',
    Put ''8516755622340668'' ''6]%%+l-^k&Y78Z10'',
    Put ''2533065951115917'' ''7'',
    Put ''6284221900155236'' ''.W9-Hk?'r+!4!3>('',
    Put ''6878467136385463'' '',Ye*Ho)6()8n;Bu>'',
    Put ''6164992271489603'' ''2]%!D9.($-Ju04z.'',
    Get ''4665798063301383'',
    Get ''3930778667767750'',
    Get ''8421640194359970'',
    Get ''1127100791449830'',
    Get ''7099738217099623'',
    Put ''7114356723669567'' ''//d;%6$T71B#'M'',
    Put ''4163320309274709'' '':!$0/.-C?>4&Pq+'',
    Put ''1127100791449830'' ''3^e'<6,6~/W)<,`'',
    Put ''7934122592197538'' ''0Xy7!,94~7L/.$29'',
    Put ''4990080499998266'' ''(P!1'j$#1Cw*M5='',
    Put ''5238840414188136'' (''>R59B#$t-n'' @ [CHR 0x27]),
    Get ''1840575656345690'',
    Get ''7708383644681952'',
    Put ''1010099187537061'' ''?)h&:z4-:)S#3E78'',
    Put ''7119602866200975'' ''=-x37f,P9$5p/8|:'',
    Get ''5233034311144587'',
    Get ''2302982466875362'',
    Put ''7893880673350414'' ''6L5$K+/Vs.?&64n6'',
    Put ''1472505998066733'' ''(:2<[}/96=>&222$'',
    Put ''1453419624695364'' ''2#%&j97<)+*1'v7'',
    Get ''6752434813728457'',
    Get ''1825397189263606'',
    Put ''7686839114044179'' ''-b;'',
    Put ''6752093168434159'' ''5(:5So(+`3W/'',
    Get ''1593073862974489'',
    Put ''5459551534390156'' ''4&$P34%x*/v9Jw2'',
    Get ''7591163725551341'',
    Get ''6053796770620382'',
    Put ''6742720804395623'' ([CHR 0x27] @ ''>$,,|!''),
    Get ''6994130504056109'',
    Get ''8416394051828562'',
    Get ''5233812586874570'',
    Put ''4066999024861410'' ([CHR 0x27] @ ''B'' @ [CHR 0x27]),
    Put ''2921564558397754'' ([CHR 0x27] @ ''Xq=$%$''),
    Get ''1689309211979468'',
    Put ''1348590187381832'' ''8S?=7,']y'14#Vm3'',
    Put ''8400873939452179'' ''0&0},@5(;~9Va7'',
    Put ''5107438618923265'' ''6-x3J;)O%0&*&$08'',
    Put ''2976386388274220'' '')-x6&,?PiM-5^k2'',
    Put ''5358848318583751'' '';00!E{-#p+;n*X9,'',
    Get ''6159186168446054'',
    Put ''7350587956247969'' ''9N'=Gi0'',
    Put ''3111914405046218'' ''-$|2)*4F11Ww-U18'',
    Put ''4378785286945321'' ''1I-5Dy;*~+-b*:$!'',
    Put ''3468371857238078'' ''.Ow+Ue6Ca+G18T!='',
    Get ''8863622395276150'',
    Put ''3870535686026312'' ''?+4)9(#B70[5+2'',
    Put ''4615234834741565'' '':&x>;7810j7H-('',
    Put ''7639356304079831'' '';_?4'f4=64Hi+(z2'',
    Put ''5464797676921564'' ''65z>=06Y)%=*;N1('',
    Put ''1819809401437899'' ''+[#0F9'',
    Put ''4283669858964623'' ''8Na?.`$I5$.x)Iw*'',
    Put ''5325139099253051'' ''6+&(2j!{'=`$Co2'',
    Put ''5590611684360728'' ''*_#8,r'=,'',
    Get ''7803280757444808'',
    Put ''1721485514441599'' ''&T'=Z!!3-/l*h7'',
    Get ''7697673044401294'',
    Get ''3936584770811299'',
    Get ''3363542419924547'',
    Put ''2518665759763816'' ''*9~/Pm'',
    Put ''6184638605373113'' ''1La'*<,^982p!So.'',
    Get ''6168558532484590'',
    Put ''6766493359786260'' ''(;v:5t.Q)!3:2[)!'',
    Put ''5696219397404242'' ''(G?03l,R74Qw6Y?)'',
    Get ''1467819816047465'',
    Put ''9120496552685886'' ''$_-8/p7Z5)<p,Yg&'',
    Put ''5460329810120138'' ''%De;(t7:b;Rs38'',
    Put ''8054348811810995'' ''-5|G!(,244n'6('',
    Get ''3570413309286605'',
    Put ''2865750847917140'' ([CHR 0x27] @ ''D};[c21<!=&:Au:''),
    Put ''3831195372985627'' ''5)j/4,5-08P?;.l*'',
    Put ''5686287072853566'' '''',
    Put ''8270373749993747'' ''<Ly+Uu?Da2/4*S%-'',
    Put ''6656977740453461'' ''2.(4Wi#C};F5,A/1'',
    Get ''2046326624683468'',
    Put ''8628511083722029'' ''*?t'/p2&0'',
    Put ''8400873939452179'' ''$[%=Nc=;4<1~(>>8'',
    Get ''7581791361512805'',
    Get ''1127100791449830'',
    Get ''7002942907582504'',
    Put ''1578113711110247'' ''.;r3I7>%l6_%2Tc+'',
    Get ''1936811005350669'',
    Put ''7596409868082749'' ''=Ey6S55V=%-&]9-'',
    Put ''5108558539947546'' ''8@=$#t'_'5&$0G!='',
    Get ''6526135905700731'',
    Put ''6235031163988755'' ''5n:i%D-,!/*80'',
    Get ''3590277958387957'',
    Get ''5444591382525914'',
    Put ''5112466446236831'' ''7Pw?K;6'',
    Get ''4871549031639161'',
    Put ''1468379776559606'' ''1.t/,t?6:%/r8/`.'',
    Get ''1825055543969307'']"

definition run_6 :: "bench_op list" where
  "run_6 = [
    Get ''4303534508065975'',
    Put ''8274841616795173'' ''90x//h*H!!Y5<'48'',
    Get ''4534177952818671'',
    Get ''6968118106616911'',
    Get ''2166676174373382'',
    Get ''4288356040983891'',
    Put ''1482998283129549'' ''41.,Us2_o7^+)C94'',
    Get ''8275619892525156'',
    Put ''3810989078589977'' ''<!d&E-%!`>R7/]'1'',
    Put ''7832859415878993'' ''<.f7R/;9$)B)$Aw3'',
    Get ''5933010590494785'',
    Put ''1332851759787608'' '':('',
    Put ''2302982466875362'' ''!=<)#<#R#8]712p:'',
    Get ''9004614869797398'',
    Put ''3357176356368858'' ''*Fk77'',
    Get ''5566279168457950'',
    Put ''3811549039102117'' ''#K1-H?6B9$%v9[k/'',
    Get ''8270373749993747'',
    Put ''4741608802692870'' ''$u&58)'',
    Get ''1865487427962615'',
    Get ''8270373749993747'',
    Get ''2307108688382489'',
    Get ''4403896078578081'',
    Get ''4978058350489114'',
    Put ''6053236810108242'' ''%+vEa)U{3'',
    Put ''7687399074556319'' ''1'',
    Put ''4655865738750708'' ''/2*5!z2I+0'0&1r/'',
    Put ''4173252633825385'' ''9Jo#40')2)[y$=l+'',
    Get ''3444039341335301'',
    Get ''6521231408463621'',
    Get ''2645039727715120'',
    Get ''4080381387282637'',
    Get ''2525031823319505'',
    Put ''4997144723860483'' ''<2b2*(0Ki&O124z2'',
    Put ''7639356304079831'' ''3>00)+?$!U)1944'',
    Put ''3945957134849834'' ''^7@)(^5<$j/1,0'',
    Get ''6409475947082260'',
    Put ''3483550324320162'' '':8l';8';r*'/4b7'',
    Put ''5092820112353322'' '':F{/S-)W/-B}'',
    Put ''8040290265753192'' ([CHR 0x27] @ ''Lo//>-+0,N7^e?''),
    Get ''1760564577334453'',
    Put ''1127100791449830'' ''&H-100'',
    Put ''2180734720431185'' ''$?8A;+Fg&E3$'*!'',
    Put ''9119376631661606'' ''+#z6D%;Fg2!'',
    Get ''3338649943509629'',
    Get ''6154499986426787'',
    Get ''6042744525045426'',
    Get ''4414730008935196'',
    Put ''7456755629803624'' ''<+&)5f>=r;Ci&*d#'',
    Get ''8698849887457955'',
    Put ''3438793198803893'' ''6Wi#4h.>,4L5:7>1'',
    Get ''4871549031639161'',
    Get ''7224432303514507'',
    Put ''5046076551212311'' ''+IaN567~7F#-Ys'',
    Get ''3237168451973242'',
    Put ''3564047245730916'' ''=Xy>.*[k316-K)!'',
    Put ''3238506688215365'' ''#Hy*Tg#J-4n);6='',
    Put ''8773971425044702'' ''32f2Rs#=(9Am;.'',
    Put ''4052466453699787'' ''!!d:'f>3'',
    Put ''5831747414176240'' '';:f#Rw9=$82(!$>5'',
    Put ''6415282050125808'' ''37z;^;9Jg3/d6@}/'',
    Put ''7340873946915135'' '''',
    Put ''4635441129137216'' (''4'28?l41442*#'' @ [CHR 0x27]),
    Get ''8270373749993747'',
    Put ''4152268063699753'' ''>7d?-~7R+4>()/>$'',
    Put ''8900912831414457'' ''$Ga7!d/N%9Ao0)*'',
    Get ''7083999789505399'',
    Get ''3472233791789872'',
    Put ''8270373749993747'' ''4^?5Ye!+<%@!.Qq7'',
    Put ''8174138400988769'' ''3];4Fq-_=(&><?p*'',
    Put ''2635107403164445'' ''0,v;D1,^q2Zm0U9$'',
    Put ''1127100791449830'' ''+L}&/l#Mq;!n4P9%'',
    Put ''6179392462841705'' ''.-$41v;X;9H3-%j;'',
    Get ''6988324401012561'',
    Put ''4187652825177487'' ''4Nc.-*24j./p2Gs/'',
    Get ''6757120995747725'',
    Get ''6339954014616917'',
    Put ''4625727119804382'' (''0!j;C'.%*9%(%M{'' @ [CHR 0x27]),
    Get ''7788957822722251'',
    Get ''6431494502823852'',
    Put ''9195187371053092'' ''+$l':(Ag:6r.!p+'',
    Put ''2180734720431185'' (''.Y}26p+@'' @ ''{7Z/(Wg/''),
    Get ''8980282353894621'',
    Put ''7928534804371831'' ''2_y?HkPq#T/(Q-$'',
    Get ''7340095671185153'',
    Get ''8059936599636702'',
    Get ''6505711296087238'',
    Put ''6621592978975727'' ''86$<=t)[384b9^{&'',
    Put ''1127100791449830'' ''!.z25p?Gu3?d.#(0'',
    Get ''9100290258290236'',
    Get ''7355274138267237'',
    Get ''5113804682478954'',
    Get ''2649725909734388'',
    Get ''1127100791449830'',
    Get ''7224992264026647'',
    Put ''2283336132991852'' ''686%I-4+t7+|,'z3'',
    Get ''7736496397408170'',
    Put ''1336418020782595'' ''4N;%No0De/0l0Z5)'',
    Put ''4775873643146323'' ''650-:&:F=9[=:3$5'',
    Get ''5213947937773218'',
    Put ''8748518988117644'' ''=@c*;8'Ow27,,T'('',
    Get ''9104758125091662'',
    Get ''2861064665897873'',
    Put ''6531163733014297'' ''(74!C5$X-%!v:#*-'',
    Put ''6159186168446054'' ''%.~3d99>,$j!Ak6'',
    Get ''7687959035068460'',
    Put ''1703709403331569'' ''<N'(G'-2hE)7P%,'',
    Put ''8740112102529228'' '':2<8^-8Ek*F#0N','',
    Put ''8947774651607134'' ''Km.K-4,,0T31?j*'',
    Put ''2414177967744583'' ''2Ea3V%-C7$M!1B/8'',
    Put ''8753546815431210'' ''%C-)X-4Qg;F{+J!'',
    Get ''7093932114056075'',
    Get ''7571517391667831'',
    Get ''1463133634028198'',
    Get ''6269261748290994'',
    Put ''3121846729596894'' ''08f*S+)H+)T{73*)'',
    Get ''3589717997875816'',
    Get ''2745182983009384'',
    Put ''5186736790853439'' ''>)t>E;%4b&:6*W1<'',
    Put ''3092268071162709'' ''+GmU7*Be?)x-(z;'',
    Put ''1337537941806875'' ''8Ic?>&(S{3)&3W98'',
    Put ''1000385178204227'' ''7?|3=t(38-88'',
    Put ''7446263344740807'' ''(?<5'',
    Get ''8040290265753192'',
    Get ''1105774576029899'',
    Put ''8174138400988769'' ''>V18Y-60'',
    Put ''7354714177755096'' ''22,)V196n30n);|>'',
    Put ''6998256725563237'' ''72>=Xs,F7-9d$(4-'',
    Get ''6159186168446054'',
    Get ''8270373749993747'',
    Get ''7949301059279622'',
    Get ''1721485514441599'',
    Put ''3579225712813000'' ''!H}*K{5B'5;'',
    Put ''7923288661840423'' ''%C=1Pm9'n#q.Uy*'',
    Put ''6877688860655481'' '';@9-+,>:%F'#<t>'',
    Put ''8743272845586236'' ''7Zi:>|8G3!&.=64='',
    Put ''4378785286945321'' ''&A34E5/Dc;+h+L--'',
    Put ''8738586663566968'' ''#6&89*'Y1!Q95K%8'',
    Put ''6516203581150055'' '';60C+10t/Jw!6(-'',
    Get ''4032260159304137'',
    Get ''8290798359607240'',
    Put ''1130667052444817'' ''7Ou+M#!2$,E),I%1'',
    Put ''8270373749993747'' ''?&('',
    Put ''5548859282568936'' ''=9n/,,8N:p']-4'',
    Get ''2297736324343954'',
    Put ''4882382961996276'' (''2#$<Qg.*t6,.)/x'' @ [CHR 0x27]),
    Get ''8512069440321400'',
    Put ''2966243226412012'' '')4`.X=/Q{.Ak68z+'',
    Get ''4665798063301383'',
    Get ''4865742928595613'']"

definition run_7 :: "bench_op list" where
  "run_7 = [
    Get ''3931338628279891'',
    Put ''5696219397404242'' ''$$p.8,++&)?$%V94'',
    Get ''1931004902307120'',
    Get ''3700913498745037'',
    Put ''3024304256847498'' ''9V74Fk'',
    Get ''8040290265753192'',
    Put ''4534737913330811'' ''2+h+]#=.f7.85M/8'',
    Put ''2645039727715120'' ''/E+58h+'298.9(r3'',
    Put ''3835881555004895'' ''8!h#-,=&<7><=~:'',
    Put ''6486095686422472'' ''57b+_a%%:=3l&X5,'',
    Put ''1867670580141034'' ''>Oc+Dg/0t?I9$Sw:'',
    Put ''5274860826117388'' ''<1b6+z<,<(,x#&d+'',
    Get ''2650067555028687'',
    Get ''8517315582852808'',
    Put ''3222549945403299'' ''$W)(U%)#v&=x-K/$'',
    Put ''9220639807980150'' ''>>j?]33@95Fs?%r&'',
    Put ''2509293395725280'' ''1,:0?z>G;0L3#6(8'',
    Put ''3122406690109035'' ''?%r7]s;O!!G#9Cs.'',
    Put ''2393971673348933'' ''-(>58>#*!S1>6l'',
    Put ''1865487427962615'' ([CHR 0x27] @ ''4l3@e(*8''),
    Put ''2297176363831814'' ''2P#!Fo>Ni/,*&M9-'',
    Get ''7928534804371831'',
    Put ''5333955842168833'' ''#><1^u;+r/Y<Bu.'',
    Put ''1356624315178245'' ''9Eo62.!U}3T/&7)'',
    Get ''2192906887030423'',
    Get ''1757148124391467'',
    Get ''6163654035247480'',
    Get ''7245198558422297'',
    Put ''1604686069061586'' ''*P{'Ci5Om3?9[m+'',
    Put ''5128204873831056'' '')P'(>`2Rw>!|#=l7'',
    Get ''7556898885097888'',
    Put ''1834769553302141'' ''-Z+$Ls6?t&^}4G1)'',
    Get ''3593625904165102'',
    Put ''2513979577744548'' ''$W1$A!>X+<So.#&-'',
    Put ''2408371864701034'' ''1@-1(r<Nc&_+:469'',
    Put ''7928534804371831'' ''0F-'',
    Put ''5383200129688536'' ''*$.!F!*]%(X')Uu.'',
    Put ''5707053327761357'' ''-!&%E->O%%0l!7|+'',
    Put ''5093380072865462'' ''(9,=W![!-?b79d2'',
    Put ''6520889763169322'' ''!.(%8`*Sg366X;%'',
    Get ''4177720500626811'',
    Get ''6968678067129051'',
    Get ''4871549031639161'',
    Get ''6772859423341949'',
    Get ''7355834098779377'',
    Put ''2519225720275956'' '';C}#X=69<$'f8Xs+'',
    Put ''6299400367237320'' ''8-&9U5$,h*.(_!'',
    Get ''6375616624566785'',
    Get ''2177728419948339'',
    Get ''3835881555004895'',
    Put ''5329269660149566'' ''#)t'E9&,b3E)0U=5'',
    Put ''7807406978951935'' '';X!,=t#Ra#;d0M!%'',
    Get ''4987212399309808'',
    Get ''4062617093468305'',
    Put ''2659439919067222'' '':X%-8`6=>8:2?H;%'',
    Put ''9956989961849596'' ''%GsL5;Ds;C+=^w7'',
    Put ''3464463950948793'' ''=M3<F}%>l6Gs&c?'',
    Put ''4891755326034811'' ''*Hi#N%:'b+64&G11'',
    Put ''4636219404867198'' ([CHR 0x27] @ ''(885p*[1)Cc7P-%''),
    Get ''5716425691799892'',
    Get ''6591061930944515'',
    Put ''6772859423341949'' ''-E74$$./4$U-.'',
    Put ''3222768260621140'' ''2R1%R;_1%/'',
    Get ''9100290258290236'',
    Put ''6622152939487867'' ''93p/1#D?=2r1L;9'',
    Put ''5213947937773218'' ''.'',
    Get ''2760143134873626'',
    Get ''4419976151466604'',
    Get ''7928534804371831'',
    Put ''8285552217075831'' ''1920_o('',
    Put ''6042744525045426'' (''%e+*$$324?,5E'' @ [CHR 0x27]),
    Put ''5008196969435440'' ''#Hy.(t-a#Z/;7n/'',
    Get ''5686287072853566'',
    Put ''2910365348154946'' '',K!(T#=H{7Fu9e&'',
    Get ''1473065958578873'',
    Get ''7556898885097888'',
    Get ''4740488881668589'',
    Get ''5012323190942567'',
    Get ''8632418990011314'',
    Put ''3826509190966359'' '').h'<8$>,8_q1F14'',
    Get ''7928534804371831'',
    Put ''9100290258290236'' ([CHR 0x27] @ ''4:$W-;Ze>T#.''),
    Get ''6867756536104805'',
    Get ''5327322251431469'',
    Put ''7537849906394654'' '',Fu'%'',
    Put ''8527247907403484'' ''<$:$;(&Lo'F1(C7$'',
    Put ''1016465251092750'' '';)<8V1!Ei62b1=:9'',
    Put ''8884047004889642'' '',#r>Ny:N;1Cg7+v6'',
    Put ''2413836322450284'' '';.0,!t=,b;9z6E1!'',
    Put ''7736496397408170'' ''!:(%54,M/%'',
    Get ''6339954014616917'',
    Put ''1950651236190630'' ''<h>Qy<V+4663O!<'',
    Get ''4157295891013319'',
    Put ''2518447444545974'' ''20d'^a>;`/7n=,,$'',
    Get ''8407021687790026'',
    Get ''5113586367261112'',
    Get ''4534737913330811'',
    Get ''5334515802680974'',
    Put ''1819809401437899'' ''.&(5Z#*,b>T7;.r3'',
    Put ''6767831596028383'' ''.Im>Ry2[-4329_-$'',
    Get ''5219194080304626'',
    Get ''1950651236190630'',
    Put ''5696219397404242'' '':&&)S)(,.9Oo!#x.'',
    Put ''5937136812001912'' '''',
    Get ''1935691084326388'',
    Put ''5831747414176240'' ''6'&$Wm>Zk=<0X+$'',
    Put ''8641791354049849'' ''(1z/[e1869?l9Om+'',
    Get ''5464797676921564'',
    Put ''3690421213682221'' ''#(h>Wq#9d:Bq=Dq;'',
    Get ''6159186168446054'',
    Get ''6042744525045426'',
    Get ''8040290265753192'',
    Get ''2267597705397628'',
    Put ''3945957134849834'' ''#4h?Ak6D/-Go;.('',
    Get ''3599991967720791'',
    Put ''8893979329440318'' ''!2,&p02>8<:1!'',
    Get ''3981058141775879'',
    Get ''4615234834741565'',
    Get ''7340655631697293'',
    Put ''4887287459233386'' (''&%69><&t>Yy'' @ [CHR 0x27]),
    Put ''7928534804371831'' '''',
    Put ''6636553130839969'' ''/,`*?r8#.13(1-~'',
    Get ''6987764440500420'',
    Put ''8174698361500909'' ''0I3=[!784)Ae6Z1!'',
    Get ''8758232997450478'',
    Get ''8270373749993747'',
    Put ''3328717618958953'' ''9P1<1h%9n2W-.3b#'',
    Get ''7749878759829398'',
    Put ''5104432318440419'' '':h6<'',
    Put ''4046878665874081'' ''0F'5/|%%d&Og.[y*'',
    Put ''3005405086196265'' ''*K}2'',
    Put ''1467259855535325'' ''K&,8)602:-T?'',
    Put ''7682152932024911'' (''&#*$>(?;&-E74He'' @ [CHR 0x27]),
    Get ''5272677673938969'',
    Get ''3689301292657940'',
    Put ''6381216229688190'' ''6He+%l-Q{6,h5#`*'',
    Put ''2524253547589523'' ''>'',
    Put ''4047998586898362'' ''3E)%Re;Dg:)8?7,8'',
    Put ''3941830913342707'' '';1(9?+!*4)><Zk#'',
    Put ''2281997896749730'' '':+($9d9Oq:<:n?'',
    Put ''5686287072853566'' ''$Vs+Jm<%&%Y?#3d#'',
    Put ''7109452226432457'' ''58|3&.:Vg;=<:*t+'',
    Put ''7230580051852354'' '';Vi:Hc&E'(X+3^g2'',
    Get ''6541096057564973'',
    Get ''3113252641288341'',
    Put ''4876795174170569'' ''&Y908n)_e*9j$%,,'',
    Put ''8274841616795173'' ''-).)?'',
    Get ''1714761648906526'',
    Put ''1840575656345690'' ''4*l*=d,Nc2M=*[m+'',
    Put ''3005405086196265'' '':^k:3l%Ds>$x+:5'']"

definition run_8 :: "bench_op list" where
  "run_8 = [
    Put ''4283109898452483'' ''&A#9So6Gy6T{-)4)'',
    Put ''6375616624566785'' ''=V355::'',
    Get ''6275067851334543'',
    Put ''1356624315178245'' ''+[==/Fm+7b<L1-'',
    Get ''5600544008911404'',
    Get ''7224432303514507'',
    Get ''1127100791449830'',
    Put ''1724693973457202'' ''&'',
    Put ''6873220993854055'' ''0($!_';?t;*j;49'',
    Put ''1695115315023016'' ''<P=<Ay+:$-^a1]+('',
    Put ''6229431558867350'' ''9%p&Rs>*n:K77C;('',
    Get ''5791676470679238'',
    Get ''1453419624695364'',
    Put ''1715885909320195'' ''Xg/1l>G7,.z'',
    Get ''2639233624671572'',
    Get ''1352156448376819'',
    Get ''7639356304079831'',
    Get ''6339954014616917'',
    Put ''4080381387282637'' ''%[#(K17!|?-,8-n#'',
    Get ''1337537941806875'',
    Put ''9221199768492291'' ''6+j&@e1A}>?6:U?5'',
    Put ''1695115315023016'' ''G1$',(1(=Om>,d/'',
    Get ''8401215584746478'',
    Get ''3122625005326877'',
    Put ''5344789772525948'' ''0'',
    Put ''3217522118089732'' ''!2,'',
    Get ''6283661939643096'',
    Get ''3368228601943814'',
    Get ''3122625005326877'',
    Get ''1116048545874873'',
    Put ''4424102372973731'' ''=R'-2>0;>'',
    Get ''4534737913330811'',
    Get ''4997704684372624'',
    Put ''3565167166755197'' ''&C{6(0&'',
    Put ''2297176363831814'' ''=C3'',
    Get ''8792573527843309'',
    Get ''8270373749993747'',
    Put ''1127100791449830'' ''<?d';2'',
    Get ''8411707869809294'',
    Put ''5922736620649810'' ''/L;)Xe%Z==R/2$&5'',
    Get ''1237176371294770'',
    Get ''1127100791449830'',
    Put ''3358296277393138'' ''6Qu/^+':n.?,)+1'',
    Get ''5233598611046116'',
    Put ''5811882765074888'' ''1Ow3*z17*$Se-Im7'',
    Get ''2523693587077382'',
    Get ''9125182734705154'',
    Get ''2861064665897873'',
    Get ''1237954647024752'',
    Get ''7209253836432423'',
    Put ''5003169142121874'' '')<|79h8&n6;n322$'',
    Get ''3700695183527195'',
    Get ''8049102669279587'',
    Get ''5466135913163687'',
    Put ''4167446530781837'' ''/4d3=6#Qk'=z#%<4'',
    Put ''6873220993854055'' ''#&|&C9!Vs4z#@;('',
    Put ''6039309006279892'' '')R-=3&!'',
    Get ''1583141538423813'',
    Put ''1960583560741305'' ''/A?=Nq/My+i21$)'',
    Put ''2061286776547710'' '',_%%2,)Qa6Q+$Hk6'',
    Get ''7460663536092909'',
    Put ''7109452226432457'' ''!:4(3`<F=4><8Ya:'',
    Put ''1116266861092715'' ''6)p+@-&J;-]c23l*'',
    Put ''8385477157152253'' '':Y)(9j4:6$-|23&<'',
    Put ''1016465251092750'' '';Q{#L))%x>]%+I{>'',
    Get ''4877915095194850'',
    Get ''2171362356392650'',
    Get ''5464797676921564'',
    Put ''3975458536654475'' ''+Ho>;87[c+9&<<84'',
    Get ''1352156448376819'',
    Get ''7749878759829398'',
    Get ''2890643324332058'',
    Get ''4067084960269731'',
    Put ''8803772738086118'' ''(V18Sg&W3$Ok%Oq.'',
    Put ''8994900860464564'' (''<La#_++D/%/n!Mw'' @ [CHR 0x27]),
    Get ''1127100791449830'',
    Get ''1935691084326388'',
    Put ''2880151039269242'' ''(Uw*S+;4b.:n:U%4'',
    Get ''5348915994033076'',
    Put ''7928534804371831'' '',>.!?<3PuF#)625'',
    Get ''5696219397404242'',
    Put ''2648947634004406'' ''.30,=f3Oq>32Qm#'',
    Put ''5817128907606296'' ''=S541|&@)'',
    Put ''4886509183503403'' ''-Ay&P=;5,5F98Io6'',
    Get ''7113578447939585'',
    Get ''4885949222991263'',
    Put ''3232700585171816'' (''/_!,J5(Ls>?::H{'' @ [CHR 0x27]),
    Get ''3333963761490361'',
    Get ''2996810997887712'',
    Get ''8385695472370095'',
    Put ''7827613273347585'' (''2I{+#r#R/)Pg-4n'' @ [CHR 0x27]),
    Get ''8275401577307314'',
    Put ''1010099187537061'' ''9Xg'><+&>8<T19'',
    Put ''4934084448784221'' ''><.9Ia8+>9?:Wa&'',
    Get ''7345901774228702'',
    Get ''2422990371270978'',
    Put ''3599991967720791'' ''7[g#?r$@i/4r1T+0'',
    Get ''8516537307122826'',
    Get ''7928876449666130'',
    Put ''8396187757432912'' ''8Ns7J%7&>(Mo)Um#'',
    Get ''6149253843895379'',
    Get ''5214507898285358'',
    Get ''3700135223015055'',
    Put ''4630973262335790'' ''(8,(Q5,Xa2Ie$>f.'',
    Get ''8848662243411908'',
    Put ''3936024810299159'' ''9Ks;O/#I7!O58@u2'',
    Put ''5103872357928278'' ''&Be;;2-(f7A{-@i:'',
    Get ''2919381406219336'',
    Put ''1950651236190630'' ''8[>%2;I#)),420'',
    Put ''8850634558278795'' ''39b#I##[c##,87h+'',
    Get ''3127652832640443'',
    Put ''9752743865714676'' ''%;v?[{,Hc?J31S)='',
    Get ''2278089990460444'',
    Get ''7928534804371831'',
    Put ''5464797676921564'' ([CHR 0x27] @ ''8!/`;F-59n'<!''),
    Get ''8054348811810995'',
    Get ''3719999872116406'',
    Put ''3579785673325141'' ''?S)1b?J%(=*'[#4'',
    Get ''6867974851322647'',
    Put ''5575433217278644'' '')Mw.F?#>2$Uw50p;'',
    Put ''1573987489603120'' '',9$5Fm6O-'',
    Get ''2523693587077382'',
    Get ''8269813789481607'',
    Put ''3444039341335301'' ([CHR 0x27] @ '';04E'.>(-#l9)24''),
    Put ''6033932121519031'' ''?Qk6Aw)Um*D+7<&)'',
    Get ''8989094757421016'',
    Put ''2402784076875328'' ''6Tq6;f,8j/O)#K;1'',
    Put ''9009861012328806'' ''3)|3@'!M;0'x>Ry&'',
    Get ''8532275734717050'',
    Put ''4741608802692870'' ''(X98$z0Tq'-0'',
    Get ''8270373749993747'',
    Put ''5228908089637460'' '':Ls+K7?B3-Os#)<%'',
    Put ''3821481363652793'' ''0Cq.O}#Z7)~<-n;'',
    Get ''5470043819452972'',
    Get ''7642772757022816'',
    Get ''4891755326034811'',
    Get ''3002617100931261'',
    Get ''3127092872128302'',
    Get ''6621592978975727'',
    Get ''9206239616628049'',
    Get ''5797482573722787'',
    Put ''6516203581150055'' ''3Va:V+'',
    Put ''4278082071138917'' (''<-l'Fs-$p'' @ [CHR 0x27, CHR 0x27] @ ''z*@2''),
    Put ''4534737913330811'' ''5-fw#H/-6>2D%('',
    Put ''2413276361938144'' ''%^#0Z'-Aa'<,98.('',
    Put ''2278089990460444'' ''+)8().!U#=;b(?f2'',
    Put ''6987982755718262'' ''3649u.T9-O+6.z*'',
    Put ''6873220993854055'' ''?%2<N).01?r1=b:'',
    Put ''7818800869821190'' ''*9t>O}53<5Ia2G1='',
    Get ''7098399980857501'']"

definition run_9 :: "bench_op list" where
  "run_9 = [
    Put ''1940377266345655'' ([CHR 0x27] @ ''+b;.,,I;4Im*=f7''),
    Put ''1487684465148817'' ''X-03<#;t;'',
    Get ''4047438626386221'',
    Put ''7928534804371831'' ''7J-0Jy$?8)J1'548'',
    Get ''7689634577215493'',
    Put ''6184638605373113'' '';Y#<V-0$:13*==f>'',
    Get ''3001278864689138'',
    Put ''7639356304079831'' ''6Z)09>3'',
    Get ''4877136819464868'',
    Get ''2180734720431185'',
    Put ''4067084960269731'' '')_5,9'4p;4|3&,5'',
    Get ''4856370564557077'',
    Put ''5460111494902296'' ''!0t#Fy-:j3]e=*9'',
    Put ''5244086556719544'' ''6]y7]'9Uw&Mg;Sa#'',
    Put ''8385695472370095'' (''#Ae*Ee3_'' @ [CHR 0x27, CHR 0x27] @ ''45+v>''),
    Put ''6994130504056109'' ''.8*1Ys36t&#|#@}*'',
    Get ''3348582268060305'',
    Get ''2966243226412012'',
    Put ''4767279554837770'' ''5_9=La0Am'7.9B7<'',
    Get ''6048550628088974'',
    Get ''6983296573698995'',
    Get ''6973364249148319'',
    Get ''5696219397404242'',
    Put ''2422990371270978'' ''7.>0.j+:'',
    Put ''6486095686422472'' ''#G1)3h'',
    Get ''6159186168446054'',
    Put ''5340321905724522'' ''#'z3>b&*p&#d3W14'',
    Put ''7708383644681952'' ([CHR 0x27] @ ''H!,,6>_'8/d#Yy.''),
    Get ''6983856534211135'',
    Put ''2282776172479712'' ''=:$9Yu&R')To1Fk7'',
    Put ''3599991967720791'' '',+&([i/2z'&'',
    Put ''1472505998066733'' ''-[')'t'O-86n87>-'',
    Put ''6636553130839969'' ''3@e+0l+Iq'Ny0<89'',
    Get ''4393745438809563'',
    Get ''8416394051828562'',
    Get ''7928534804371831'',
    Get ''5223661947106052'',
    Get ''5354722097076624'',
    Get ''5008196969435440'',
    Put ''5479976144003648'' ''&*&<@7-Q%4>b>7'',
    Get ''5233034311144587'',
    Put ''4856930525069218'' ''20l6&&=V%468?Cq3'',
    Put ''8536961916736318'' ''->h;)6)#j>v&:|/'',
    Put ''7545632663694477'' ''5K10%`2K50Na/1l'',
    Put ''4297728405022426'' '':Hs>;&&&,(2*</:='',
    Get ''8733340521035560'',
    Get ''8401215584746478'',
    Get ''3101640435201244'',
    Put ''5695659436892101'' '')R5(%p&1.,Vq'',
    Get ''6525357629970748'',
    Get ''5229686365367442'',
    Put ''5098066254884730'' '',Jk'+&'',
    Get ''8170572139993782'',
    Get ''4224383300803653'',
    Put ''7928534804371831'' ''2K%5Bi6Vi+[w*@k#'',
    Put ''7572077352179971'' ''=<,!<<!R10P=3W34'',
    Put ''6414722089613668'' ''34!>b23.4@%@o?'',
    Get ''8848662243411908'',
    Put ''2855818523366464'' ''7P+=2~41('',
    Put ''1357184275690385'' ''50'',
    Put ''2291370260788265'' ''15t2C?*Gk+D-3P!9'',
    Get ''7093372153543934'',
    Get ''6280313993865951'',
    Put ''5796922613210646'' (''14(4!03Do+Ne7Hq'' @ [CHR 0x27]),
    Get ''5802728716254195'',
    Get ''5464797676921564'',
    Get ''5696219397404242'',
    Put ''1574547450115260'' ([CHR 0x27] @ ''Jy+>n-2''),
    Put ''7123510772490260'' ''/Cy:401Y+<):$]5<'',
    Get ''1127100791449830'',
    Get ''1468038131265307'',
    Get ''8270373749993747'',
    Get ''7540033058573072'',
    Put ''1710286304198790'' ''#$>'',
    Put ''7639356304079831'' ''<Y/60=2~*'61H/%'',
    Get ''7235266233871621'',
    Get ''1336977981294735'',
    Get ''4530611691823684'',
    Put ''1583919814153796'' ''!'',
    Get ''4400329817583094'',
    Put ''1482438322617409'' ''&Iq.'b>6=;*'Lm;'',
    Put ''2528939729608790'' ''7^;-K?!><L1$*l/'',
    Get ''4978058350489114'',
    Put ''8749128160593618'' ''*]w;8.0W+$P+9p'',
    Get ''3202343651007648'',
    Get ''1689309211979468'',
    Put ''2303542427387503'' ''(G5,Ao-*v&M%#;1'',
    Get ''6043304485557566'',
    Put ''1599763848449223'' ''9&6!!z%!n+Am1)b6'',
    Get ''6059384558446089'',
    Put ''4886509183503403'' ''7@7$;x+M-(A)(8%'',
    Get ''3975458536654475'',
    Put ''5711179549268484'' ''<r+9*,T'=W=!#v>'',
    Get ''1121294688406281'',
    Get ''1930226626577138'',
    Put ''8270373749993747'' ''1<'',
    Put ''7928534804371831'' ('',T390b$]y/Y)4H}'' @ [CHR 0x27]),
    Get ''5002390866391892'',
    Put ''1106894497054180'' '''',
    Put ''5104432318440419'' ''2Y%-<~$:$,J+;2:)'',
    Get ''5942942915045460'',
    Put ''8290580044389398'' '':-=!`D%<Ea$;<<'',
    Get ''7350587956247969'',
    Get ''1231930228763362'',
    Get ''6229431558867350'',
    Get ''2523693587077382'',
    Get ''5470043819452972'',
    Put ''3247660737036058'' ''83d7I%;7f77`)R5%'',
    Get ''8164766036950234'',
    Get ''6408915986570119'',
    Get ''3957569340936932'',
    Get ''2654753737047954'',
    Get ''3231922309441834'',
    Put ''6405349725575133'' ''6Xe?6(*[51z,]=0'',
    Get ''7556898885097888'',
    Get ''8270373749993747'',
    Put ''3945957134849834'' ''?K)<2x/>l352=C5'',
    Get ''2760703095385767'',
    Put ''4626287080316522'' ''),x&Ly3$2=@).381'',
    Get ''3226894482128268'',
    Put ''1127100791449830'' (''=&&0>f4Z;)Ig%]o'' @ [CHR 0x27]),
    Get ''3018704651726094'',
    Get ''8165544312680216'',
    Get ''5092820112353322'',
    Put ''5107220303705423'' ''!K-1:~;L)'',
    Put ''4172692673313245'' '''',
    Get ''7591723686063481'',
    Get ''6159186168446054'',
    Get ''9004054909285258'',
    Put ''1025837615131285'' ''&Zm2;z0Rs'Uu!Tk2'',
    Put ''3065566471918771'' '')z/1j'',
    Put ''3690421213682221'' '':,&5R9/H'4O{>&l?'',
    Put ''3222768260621140'' ''*<`6:4+8&,M#?+h;'',
    Get ''7245198558422297'',
    Get ''1695115315023016'',
    Put ''8270373749993747'' ''%'41T%(/`7$,(O/'',
    Get ''7355834098779377'',
    Get ''3565167166755197'',
    Get ''1579233632134528'',
    Get ''1127100791449830'',
    Put ''2051012806702735'' ''9'',
    Get ''3957569340936932'',
    Put ''4650059635707159'' '':Ss&C7(Q=$h8'&-'',
    Put ''7356052413997219'' ''9W;(@y6Ty*Em*2:4'',
    Get ''7098618296075342'',
    Get ''5715865731287752'',
    Get ''3835881555004895'',
    Put ''9898928931414111'' ''.!v'?&Ky*Ek5+:0'',
    Get ''3700353538232897'',
    Get ''2644821412497278'']"

definition run_10 :: "bench_op list" where
  "run_10 = [
    Get ''3242974555016791'',
    Put ''1106334536542039'' ''+74$Fw:<.=#$>'',
    Put ''9962589566971001'' ''$My*+?:t><'',
    Get ''2281997896749730'',
    Get ''7581791361512805'',
    Get ''6954713888349240'',
    Get ''2156962165040548'',
    Get ''4886509183503403'',
    Put ''5334515802680974'' ''<D7%:z%=89?l2J=0'',
    Get ''4665798063301383'',
    Get ''2307108688382489'',
    Get ''2422990371270978'',
    Put ''8527247907403484'' (''+Z#-60#9v/])'Jy'' @ [CHR 0x27]),
    Put ''4283669858964623'' '')@)'',
    Get ''9000488648290271'',
    Put ''1240742632289756'' ''9X?9:t,;`;?l&<'',
    Get ''4862176667600626'',
    Get ''4545790158905768'',
    Put ''7944054916748214'' ''['92`7:b/:*'',
    Put ''3951203277381243'' ''1r3,$+4$Ug6Bg2'',
    Put ''8517875543364948'' ''.+<%!>9>`?T'?O54'',
    Get ''7450949526760075'',
    Put ''6033372161006890'' ''7+l>28)R/!Oe4C+9'',
    Get ''7008749010626053'',
    Put ''6038618303538299'' ''+*81Wi,0<47b(#d3'',
    Put ''3118027897232852'' ''(($5W?Rw2#&('',
    Put ''1222776179942668'' ''4Ga2Y!'',
    Put ''3945957134849834'' ''<'`.>4*D9)H{*K7,'',
    Put ''4534737913330811'' ''.4nX7+$!^3#2z*'',
    Get ''5335075763193114'',
    Get ''1127100791449830'',
    Get ''1804630934355815'',
    Get ''7493171238380396'',
    Put ''3468931817750219'' ''&7x2?t%Q-8K+%P:'',
    Get ''8652283639112666'',
    Get ''4187652825177487'',
    Put ''4751541127243546'' ''Bm/'',
    Get ''6993570543543969'',
    Get ''6394515795218018'',
    Put ''5348915994033076'' ''.F?,&(3'41P#3_y:'',
    Put ''8884825280619624'' ''8M2(n/L/<Yy/Yu3'',
    Put ''1840575656345690'' ''2<h*b'',
    Get ''7582351322024946'',
    Put ''6400321898261566'' ''%E-4%,1;,1As98b.'',
    Get ''1127100791449830'',
    Get ''3604678149740059'',
    Get ''2644479767202980'',
    Get ''7479328141490053'',
    Put ''2528939729608790'' ''#J'$Ho%[3%Nm-1h:'',
    Put ''8732780560523420'' '';9247f'3`'3&&T{;'',
    Get ''1467478170753167'',
    Get ''9896745779235692'',
    Get ''2414177967744583'',
    Put ''3937363046541281'' '''',
    Get ''7479328141490053'',
    Get ''1362990378733934'',
    Put ''4997704684372624'' ''($4,5|=&t>'',
    Get ''7928534804371831'',
    Put ''6583279173644691'' ''4R!=Na>Q/!!p:Kq6'',
    Put ''3349142228572445'' ''83~+%*8U%)0*->:,'',
    Put ''8632418990011314'' '',(>$)z'+8)T'+]g.'',
    Put ''7083999789505399'' ([CHR 0x27] @ ''C!88t+0,D/.Kk>''),
    Get ''2769515498912162'',
    Put ''1231588583469063'' ''&[+$2$!'',
    Put ''7893880673350414'' ''5#$)P3+[3!3j<Q'',
    Put ''3575659451818013'' ''$/z.3f52x+%:=z&'',
    Put ''4409142221109489'' ''7N#<;j?Qm/Mo*8~6'',
    Put ''4871330716421319'' '')D#-Y?+4~?)`%^w3'',
    Put ''3584253540126566'' ''<^o&'',
    Get ''2402224116363187'',
    Put ''5328709699637425'' ([CHR 0x27] @ ''_+80r8Kc6Cw(Zg?''),
    Get ''4741608802692870'',
    Get ''5827061232156972'',
    Put ''5807414898273462'' ''!66)Yg&/x#^u%.,<'',
    Put ''1805750855380096'' ''#h:$,2X/%2nP=5'',
    Get ''3945957134849834'',
    Get ''5349475954545216'',
    Put ''2408030219406736'' ''(Wa+O)?Ag/7j-<j7'',
    Get ''3454531626398117'',
    Get ''7577105179493538'',
    Put ''8994682545246722'' ([CHR 0x27] @ ''=4,Su5C{>HyY*''),
    Put ''1950651236190630'' ''!:x'Be81(<!015&<'',
    Get ''5335075763193114'',
    Put ''2172700592634772'' ''%'',
    Put ''1237394686512612'' ''9:>0#2#10$3:$Wg&'',
    Get ''2644821412497278'',
    Put ''2644479767202980'' ''(A'4E>7n*-f15n;'',
    Put ''8704449492579360'' ([CHR 0x27] @ ''C+''),
    Get ''5208701795241810'',
    Get ''3599991967720791'',
    Get ''6173586359798156'',
    Put ''2968426378590431'' '')!n'B!?J/4Tk>Vq#'',
    Put ''1467478170753167'' ''$Hc+'',
    Get ''2056600594528442'',
    Put ''1127100791449830'' (''.<`&$h<[;={2$`'' @ [CHR 0x27]),
    Get ''7707605368951969'',
    Put ''7575985258469257'' ''--v'1h6_5=$x3V?'',
    Get ''1105774576029899'',
    Put ''3005405086196265'' ([CHR 0x27] @ ''We:S#=:(!]m4H)9''),
    Put ''1453419624695364'' ''$M/!'',
    Put ''4393745438809563'' '':Uo/'',
    Get ''1459225727738912'',
    Put ''8994900860464564'' ''8T9,+j%,8Wo(:`+'',
    Put ''3810770763372135'' ''+Cu'_?$U=(]k.+j2'',
    Put ''5937136812001912'' ''&=r#Ue*S?(Pw#94<'',
    Put ''5122398770787507'' ''>Ge>Q#3&(5C};V%('',
    Get ''2187100783986874'',
    Get ''5695441121674259'',
    Put ''1583359853641655'' '')+(9.t9/&<Xg8V{3'',
    Get ''2422990371270978'',
    Put ''4545230198393627'' ''674-^k2T)03&.6`2'',
    Put ''7010709939563285'' ''=41^4(<4^c(@=%'',
    Get ''2509293395725280'',
    Put ''7591320243918142'' ''19h?>2%Co'',
    Get ''7493171238380396'',
    Put ''1130667052444817'' '''',
    Get ''3810989078589977'',
    Get ''1111580679073447'',
    Put ''3479424102813035'' ''5Y+1Y/:&f&i>K{>'',
    Put ''2745182983009384'' ''*%x8((!0<,>?O)%'',
    Get ''8633197265741296'',
    Put ''4409142221109489'' ''?.t&*t4C%(:b%U{7'',
    Get ''5937136812001912'',
    Get ''8170790455211624'',
    Get ''6400321898261566'',
    Get ''7229678446045915'',
    Put ''5233598611046116'' ''2H;=_m7V9)Ue<)<$'',
    Get ''5937136812001912'',
    Get ''2639233624671572'',
    Get ''5811322804562748'',
    Put ''3223328221133281'' ''8<r.K16128><!Po'',
    Put ''4037506301835545'' ''3@w'$6.t&089+4'',
    Put ''4997922999590466'' ''#Q10Zm9E/(=,?U?,'',
    Get ''8637105172030582'',
    Get ''1859887822841211'',
    Put ''4877136819464868'' ''**f>Nu()&4_c,21'',
    Get ''2861064665897873'',
    Put ''6163654035247480'' ''#>:%&>1Pu:U+$+(4'',
    Get ''4168006491293977'',
    Get ''6421088153169357'',
    Get ''5595857826892136'',
    Get ''3599991967720791'',
    Get ''1116048545874873'',
    Put ''8386255432882236'' ''&'',
    Get ''8974476250851072'',
    Put ''6390389573710891'' ''2P7-N})3~&$>(*>%'',
    Get ''6042744525045426'',
    Get ''7582569637242788'',
    Put ''4746854945224278'' ''7X;=&v)m6'',
    Get ''2518665759763816'']"

definition run_11 :: "bench_op list" where
  "run_11 = [
    Put ''7099738217099623'' ''>5d2->?>&0'h+5*'',
    Put ''9111124188647351'' ''&N=(I/7-01Ze->$-'',
    Get ''5937136812001912'',
    Put ''4534737913330811'' ''.7x6'9^)'',
    Put ''1127100791449830'' '';Z15%~;5n&O9(G;,'',
    Get ''6042744525045426'',
    Get ''2976386388274220'',
    Get ''8964543926300396'',
    Get ''8792573527843309'',
    Get ''2870437029936408'',
    Get ''3945957134849834'',
    Put ''7928534804371831'' '')Fw.^$;l6%2'',
    Get ''7841419248036332'',
    Put ''9216731901690865'' ''#E'1V9('',
    Put ''3333963761490361'' ''#Lu'(t+;0)]?.y*'',
    Put ''3945957134849834'' ''#Sq>:r%'',
    Get ''6163872350465322'',
    Put ''8637323487248424'' ''$!r;n75h/$%).!'',
    Put ''6281892984181432'' ''+Cg:Ba3Zk.<t5Qo;'',
    Get ''6408915986570119'',
    Put ''6400321898261566'' ''.':4Kw(Xq*5>'',
    Get ''3680488889131545'',
    Get ''1463133634028198'',
    Get ''1105774576029899'',
    Get ''2533625911628058'',
    Get ''4534177952818671'',
    Get ''5274860826117388'',
    Put ''3579225712813000'' ''&2b&)b1*l/'',
    Put ''1130667052444817'' ''!9,=]i5Ck>$.;6`>'',
    Get ''7642772757022816'',
    Put ''9084551830696012'' ''7,x']'-Po?Fc#D98'',
    Get ''6630965343014262'',
    Get ''6746628710684909'',
    Get ''6039309006279892'',
    Get ''1105774576029899'',
    Get ''5103312397416138'',
    Get ''8637105172030582'',
    Get ''8747399067093363'',
    Put ''8854051011221780'' ''%J=92t2S+$94#_?!'',
    Put ''8517097267634966'' ''-G}J{5!x2Ju4S?1'',
    Get ''2534404187358040'',
    Get ''1112140639585588'',
    Put ''1829523410770733'' ''8)09$,<4r:[a6B#%'',
    Get ''2910365348154946'',
    Put ''6656977740453461'' ''7Qm2R=;'',
    Get ''5098066254884730'',
    Get ''7702359226420561'',
    Put ''1127100791449830'' ([CHR 0x27] @ ''R95=b#''),
    Get ''1025837615131285'',
    Put ''3694889080483647'' ''/1$5O'<B==#|&Wm?'',
    Get ''6163654035247480'',
    Get ''5812661040804871'',
    Get ''3453971665885977'',
    Put ''6650611676897772'' ''0'f*'r'',
    Get ''7596969828594889'',
    Put ''7928534804371831'' ''8W=$Pe-+$<j*'&$'',
    Put ''3820703087922811'' ''5<f'?8-<*,Y-%>1'',
    Get ''3937144731323439'',
    Get ''1363208693951776'',
    Get ''3599991967720791'',
    Put ''5093380072865462'' ''&V-,O?<7&-B+-]a.'',
    Get ''3821481363652793'',
    Put ''3599991967720791'' ''#A74=j8*r:[?Qo'',
    Get ''1901150037912483'',
    Put ''3107446538244793'' ''7O%<7z+,$782Wa;'',
    Put ''7928534804371831'' ''9,l2&2<X/5'13&!'',
    Get ''7797474654401259'',
    Put ''1127100791449830'' ''1*b3@q;Y}3/,*P--'',
    Put ''4534737913330811'' '''',
    Put ''7928534804371831'' ''<?r'Fw9I;8D95Ui6'',
    Get ''6279535718135969'',
    Put ''4424102372973731'' ''.V'</.1Z%-*`;<8!'',
    Put ''6309892652300136'' '';?|+(n8X%48p3$t2'',
    Get ''8792573527843309'',
    Get ''1004853045005653'',
    Put ''1693995393998735'' ''4B#!-|0&b:$|!?p:'',
    Put ''7928534804371831'' ''1^c>;(>2`L1%!>0'',
    Get ''3458657847905244'',
    Get ''8989094757421016'',
    Get ''6772859423341949'',
    Get ''1127100791449830'',
    Get ''7788957822722251'',
    Get ''6032812200494750'',
    Get ''2423550331783118'',
    Put ''2538312093647326'' ''?,4Y3?#>%4`5P}*'',
    Put ''8512069440321400'' ''/>|?5r+F?8]a1Su.'',
    Get ''1357744236202526'',
    Put ''6511517399130787'' ''04j?,l$L/<B/08:5'',
    Put ''1127100791449830'' '')):=&#Iu::>:+>4'',
    Get ''2870996990448548'',
    Put ''8973697975121090'' ''$_g]{(U+5![;'',
    Get ''3831195372985627'',
    Get ''4014537599547328'',
    Get ''6163654035247480'',
    Get ''6288908082174504'',
    Get ''7355834098779377'',
    Put ''1925758759775712'' ''=#p:Sm(C#4@},V/%'',
    Put ''7822927091328317'' ''5]!$2r/3.=R:>8%'',
    Get ''7708383644681952'',
    Put ''4972812207957706'' ''*,65Ri0V{#:6)!:='',
    Get ''4635441129137216'',
    Put ''3348582268060305'' ''(C}6)|('',
    Put ''6588878778766096'' ''8q&@m'',
    Get ''6163654035247480'',
    Put ''7581791361512805'' ''5%h71r/'',
    Get ''3930996982985592'',
    Put ''6882935003186889'' ''29b&)8&_!%34)605'',
    Get ''6281892984181432'',
    Put ''1001286784010666'' ''=_-1Hm$)z6D9%;'',
    Put ''8536961916736318'' ([CHR 0x27] @ ''Oc#+r57x.Ge+3j;''),
    Get ''3694889080483647'',
    Get ''5008196969435440'',
    Get ''7928534804371831'',
    Get ''2539650329889448'',
    Put ''6159186168446054'' ''23|*%>6Cy*H15A:'',
    Put ''6410035907594400'' ''3R%4!&(,$7x<)j3'',
    Put ''7928534804371831'' (''=#|+8,?l[{2!b'' @ [CHR 0x27]),
    Put ''8185190646563726'' ''8>b&?`&6j:'',
    Put ''1127100791449830'' ''+4.'',
    Get ''2919381406219336'',
    Get ''7692645217087727'',
    Get ''4163320309274709'',
    Put ''3945957134849834'' ''&Io#.f:1l:^w0Pa?'',
    Get ''2171362356392650'',
    Get ''2870778675230706'',
    Put ''6486095686422472'' ''<9-N#'',
    Get ''6073473535709749'',
    Put ''6642017588589219'' ''5Ry;+&-'('',
    Get ''1127100791449830'',
    Get ''3122406690109035'',
    Get ''6062390858928936'',
    Put ''1578113711110247'' ''.%.<B{'',
    Get ''8637323487248424'',
    Put ''1482438322617409'' ''.%d'Gq>1801f:M'%'',
    Get ''3227796087934707'',
    Get ''3599991967720791'',
    Get ''1809609549705548'',
    Get ''2056818909746284'',
    Put ''6635993170327828'' ''>$|3?4=2`?)f/!<-'',
    Put ''2061505091765552'' ''9'',
    Get ''2278089990460444'',
    Get ''8270373749993747'',
    Put ''7928534804371831'' '''',
    Put ''2755675268072201'' '')Hi&<03&l>Yo(H)='',
    Put ''8400873939452179'' ''5Uy3Yq*4,9!41Vs#'',
    Get ''3820703087922811'',
    Put ''2870778675230706'' ''+'',
    Put ''6298840406725180'' '',+`+Lg4O1=^{5$)'',
    Get ''3106886577732652'',
    Get ''6858042526771971'']"

definition run_12 :: "bench_op list" where
  "run_12 = [
    Get ''2991564855356304'',
    Put ''3945957134849834'' ''/Lo&r%(lDm9244'',
    Put ''3328157658446812'' ''0%j#<<(!=T!$#$,'',
    Get ''3831755333497767'',
    Get ''6235031163988755'',
    Put ''4297728405022426'' ([CHR 0x27, CHR 0x27] @ ''r27,-Xa>:v8)d2''),
    Get ''1724693973457202'',
    Put ''8285552217075831'' '')(v?B%3Tg3*.$->-'',
    Put ''6143447740851830'' ''7E2Pq(>|>F{#F7'',
    Get ''8628511083722029'',
    Put ''3453411705373836'' ''4A-'',
    Get ''2428796474314526'',
    Put ''4518999485736587'' ''+,<'',
    Get ''2523911902295224'',
    Put ''8636545211518441'' ''/(4$Sm4%,!=93,1'',
    Get ''8758792957962619'',
    Get ''7330941622364460'',
    Put ''3354170055886011'' ''?P#=A?7]s6Dq6J98'',
    Get ''8874674640851107'',
    Put ''7813213081995483'' ''<[o*@s,J/$,&?-`6'',
    Get ''1901150037912483'',
    Put ''7749878759829398'' ''0-~6,l-J?52n5W+('',
    Put ''5586143817559302'' ''1Y14H;2Ti'+87K5$'',
    Get ''6516203581150055'',
    Put ''2523693587077382'' ''(Hi7@m,62,<&:B='',
    Get ''2996251037375572'',
    Put ''4766719594325630'' ''(K30Ru22l>:l<5-'',
    Put ''5681600890834298'' '''',
    Get ''8270373749993747'',
    Get ''1815123219418632'',
    Put ''3825949230454219'' ''1<(%Cy:Z!4>(..='',
    Put ''3700353538232897'' ''4Ns*Z9<K%<#&#Zi:'',
    Put ''4047220311168379'' ''/Vo262-$t.#d9E;<'',
    Get ''2413836322450284'',
    Put ''5339761945212382'' ''>F{/B7*H-8%x67|.'',
    Get ''1336418020782595'',
    Get ''2171922316904790'',
    Get ''7009308971138193'',
    Get ''2422990371270978'',
    Put ''2422430410758837'' ''1Aw'Nu%]i*.$+..<'',
    Get ''4856930525069218'',
    Put ''5081813940225276'' (''40%Xm=?)Qg$0z'' @ [CHR 0x27]),
    Put ''9954806809671177'' ''/T+4Zq)a'Kg2W=-'',
    Get ''7591320243918142'',
    Put ''4871330716421319'' ''!#`6Zy?Us;F'&3h7'',
    Get ''7571517391667831'',
    Get ''9896745779235692'',
    Get ''8270373749993747'',
    Get ''1950651236190630'',
    Get ''1589507601979502'',
    Get ''2292148536518247'',
    Get ''8507383258302132'',
    Get ''4626287080316522'',
    Put ''3117160547577627'' ''*XuGw*.>$G#$B3<'',
    Put ''4289694277226014'' '')!08_s(Wy+M%;R%'',
    Put ''9099511982560254'' '''',
    Get ''7928534804371831'',
    Put ''9221978044222273'' ''>1&1Ce!/`7#`87~2'',
    Get ''7919162440333296'',
    Put ''1337537941806875'' ''04x2E'!!~;Va5By6'',
    Put ''1946183369389204'' '';!:'',
    Put ''3946517095361975'' ''<+h+A3(E;1Su/;'',
    Put ''1915266474712896'' ''-^#0,|'9`*Mc<P?$'',
    Put ''9857666716342838'' ''8E#!?0,,%Mm3R91'',
    Put ''5450397485569462'' '',3.$F!$G)!O?8Pk?'',
    Put ''5696219397404242'' '')Ig?G906'',
    Put ''8842851800978971'' ([CHR 0x27] @ '':~6K9#9$$U}>9j3''),
    Get ''8270373749993747'',
    Get ''3820921403140653'',
    Put ''2417184268227429'' ''<];%&v+Ky.As)Rs&'',
    Put ''3247660737036058'' ''=L)%!6>-p*2t$$z3'',
    Put ''5480536104515788'' ''09p3;`!380h!A9)'',
    Put ''9221978044222273'' ([CHR 0x27] @ ''4&<@##0v.U3$Xo6''),
    Get ''7451509487272215'',
    Get ''7465349718112177'',
    Get ''1100528433498491'',
    Get ''1127100791449830'',
    Get ''3694889080483647'',
    Get ''1127100791449830'',
    Put ''6635740598958773'' ''2Pc&$82Au7=x9^i:'',
    Get ''3790564468976485'',
    Get ''8622704980678480'',
    Put ''7934682552709678'' '',p'N122n+)z9Q91'',
    Put ''3700353538232897'' ''45&-Pq*[1%&f8885'',
    Put ''1684623029960200'' ''(W7!#d0Yk'&:4X9='',
    Put ''1127100791449830'' ([CHR 0x27] @ '';(-Qs8p#Ag?B%4''),
    Put ''2880710999781382'' ''(6,'',
    Put ''3005405086196265'' ''+@y>3|.G}2&$/&<'',
    Put ''5238280453675995'' ''%R11H1=N-!/00%j*'',
    Get ''2822241312890996'',
    Get ''9220639807980150'',
    Get ''1127100791449830'',
    Put ''2754337031830078'' '';Ky*T)#N;9!*>-v*'',
    Put ''2172700592634772'' '';Ou3S5:A9%4p?F-!'',
    Get ''7460881851310751'',
    Get ''2292148536518247'',
    Get ''7350587956247969'',
    Get ''1715321609418666'',
    Put ''8170790455211624'' ''74213x-'',
    Get ''7929654725396112'',
    Put ''3801616714551441'' ''4(v7P%//'',
    Get ''8415834091316421'',
    Get ''1592513902462349'',
    Put ''7562145027629296'' ''(`21d'_{8r>&l#'',
    Put ''7537849906394654'' ''$I%57>#%6'',
    Put ''6073473535709749'' ''Jq'L54$,#,)>%'',
    Get ''8033924202197503'',
    Get ''5817347222824138'',
    Put ''3584813500638707'' ''.C/-L'=F-9A#.(|;'',
    Put ''4056592675206915'' ''/:b:R9*^%8Z=0@y#'',
    Get ''8044416487260319'',
    Get ''7928876449666130'',
    Put ''7639356304079831'' ''2Z1)S5*Eu:]=8Te&'',
    Get ''1105774576029899'',
    Get ''6159186168446054'',
    Put ''7928534804371831'' ''1Vk:108T}.Eq'',
    Put ''1127100791449830'' ''4Re3$8?Q{7E#%0j#'',
    Put ''1950651236190630'' ''$^-9?&)$(5Ks<)t*'',
    Get ''1246548735333305'',
    Get ''7928876449666130'',
    Put ''8637883447760564'' ''9Ra/V9'9|&_'7Uq'',
    Get ''8045536408284600'',
    Get ''6269821708803135'',
    Put ''8753765130649052'' '')Tc::$'',
    Get ''6742720804395623'',
    Put ''4886509183503403'' ''5O3)Py)V3!'~>0<8'',
    Put ''5937696772514052'' ''-Ec6-t8Ig>7x31`.'',
    Get ''6159186168446054'',
    Put ''8531155813692769'' ''<'',
    Get ''7098959941369641'',
    Put ''1127100791449830'' '''',
    Put ''4997704684372624'' ''=)8$Py9='',
    Get ''8759011273180460'',
    Get ''8270373749993747'',
    Get ''7841419248036332'',
    Get ''2166334529079083'',
    Get ''8768165322001154'',
    Put ''2181294680943325'' ''(9t+4*+6v2Po=:l?'',
    Put ''7747695607650979'' ''?K=-/4&(-[%6$j#'',
    Get ''3465023911460933'',
    Get ''1127100791449830'',
    Get ''7230238406558055'',
    Put ''1945405093659222'' ''+*l#'>8,Nm/8v7'',
    Get ''6636553130839969'',
    Get ''2056600594528442'',
    Put ''2885397181800650'' ''0V:#6h+R%7%8)'',
    Put ''7698233004913434'' ''5M54Yk4F1'',
    Put ''2422990371270978'' ''&T--H3'',
    Get ''7687959035068460'',
    Put ''8848662243411908'' '';M58'']"

definition run_13 :: "bench_op list" where
  "run_13 = [
    Get ''1342224123826143'',
    Put ''2392851752324652'' (''$Fm7+|Gm.J94)t'' @ [CHR 0x27]),
    Put ''5113804682478954'' ''15x;Jo+Zs#8%E+%'',
    Get ''8994682545246722'',
    Get ''1237736331806910'',
    Get ''8874674640851107'',
    Get ''1121513003624123'',
    Get ''7340313986402995'',
    Put ''8637323487248424'' '',[o.0`!]798h=-8'',
    Put ''6178832502329564'' ''/H/[?*Ng;(&2X=)'',
    Get ''1127100791449830'',
    Get ''3931898588792031'',
    Put ''3363542419924547'' ''628<3*2_7$/*)5$<'',
    Put ''1593073862974489'' ''#?$4%x'U2-*;])'',
    Put ''1127100791449830'' ''7Q!1(0>?>-2(!J'<'',
    Get ''4278082071138917'',
    Get ''1015345330068469'',
    Put ''1127100791449830'' ''#Ea63z2Z=!S3(W)!'',
    Get ''5701465539935650'',
    Put ''3700913498745037'' ''*,,9801&z;.nY+<'',
    Get ''7928534804371831'',
    Put ''4534737913330811'' ''=0.,P1;H3<Kw!'t#'',
    Get ''3005405086196265'',
    Put ''7334849528653745'' ''#H5<R-%Sa7=(5=.1'',
    Put ''6636211485545670'' ''6-45K{:Um:#69*0'',
    Get ''1959211068347969'',
    Get ''7581791361512805'',
    Put ''1693777078780893'' ''#5`&D9>(`#Ce+H=)'',
    Put ''7928534804371831'' ''89t?/j)S95E}9Cs;'',
    Get ''2915964953276350'',
    Get ''7114138408451725'',
    Put ''6489555533259338'' ''4Z?5C1![94B+9T-9'',
    Get ''4635099483842917'',
    Get ''8893979329440318'',
    Get ''5832307374688380'',
    Put ''1127100791449830'' ''(!%X%'U/)%r1I#$'',
    Put ''3112474365558359'' ''&J9(E7)K+=,`(6='',
    Put ''4168348136588276'' ''8O1-Rq9/d+Ey!Zs3'',
    Get ''4056592675206915'',
    Get ''3599991967720791'',
    Put ''8979722393382480'' ''59(='',
    Get ''4982744532508382'',
    Get ''1603566148037305'',
    Get ''7695234182336898'',
    Put ''8869086853025400'' ''8$h65f,.b?*d.Su2'',
    Get ''1865487427962615'',
    Get ''5701465539935650'',
    Put ''2414396282962425'' ''8'',
    Get ''2534185872140198'',
    Get ''2387605609793244'',
    Get ''7928534804371831'',
    Get ''5937136812001912'',
    Put ''3468371857238078'' ''#921Vi^?5K%<B7'',
    Put ''7823487051840458'' ''0[a3]?#Na.&t<<:,'',
    Put ''1127100791449830'' ''!6:9R%/8p+8d&:n6'',
    Get ''4997704684372624'',
    Put ''8049662629791728'' ''6Ocp$'68@a>'',
    Get ''7556898885097888'',
    Get ''4629853341311509'',
    Get ''4882382961996276'',
    Put ''9104758125091662'' ''6N%-C'6Io'-86[q'',
    Get ''4067084960269731'',
    Get ''1127100791449830'',
    Get ''1951429511920612'',
    Put ''7893880673350414'' ''6Vi?]1;!`/_q*<>$'',
    Get ''9206239616628049'',
    Get ''1819591086220057'',
    Put ''2760921410603609'' ''3@o>X5%Bg#2'',
    Get ''8884825280619624'',
    Get ''9962589566971001'',
    Get ''5113586367261112'',
    Get ''5797482573722787'',
    Put ''3223328221133281'' ''?P-(Kc?Ky+O7,:0!'',
    Get ''2171580671610491'',
    Get ''2055480673504161'',
    Put ''2278089990460444'' ''<Jk:*n&?(5A)3%.%'',
    Get ''8989654717933156'',
    Get ''6872442718124073'',
    Put ''8270373749993747'' ''(!>,%`/To#To+?6!'',
    Get ''7466127993842159'',
    Put ''7335067843871587'' ''*8$,'',
    Put ''2523693587077382'' '')G6Ww(Re/W;?Q/9'',
    Put ''5722231794843441'' '')125Tw80,Ce<!f*'',
    Get ''6279535718135969'',
    Put ''6857482566259831'' ''626)I{81.$(0(+64'',
    Get ''2428236513802386'',
    Get ''1127100791449830'',
    Get ''5475289961984380'',
    Get ''6954713888349240'',
    Put ''5103094082198296'' ''>*d6F!))<$7j4&(8'',
    Get ''7597529789107030'',
    Get ''6420528192657217'',
    Put ''1127100791449830'' '',!j*4<%O}:Q9?51'',
    Put ''5928542723693359'' (''67($'.5V/,10'' @ [CHR 0x27, CHR 0x27] @ ''*0''),
    Get ''1834769553302141'',
    Get ''3922997111340393'',
    Put ''6505711296087238'' ''$}'j'',
    Put ''8636545211518441'' ''0Fo#Zo%:~./?#8'',
    Put ''3065566471918771'' '';/21Z/.F-0+d=^e.'',
    Put ''6872661033341914'' ''-2r3Z;&Wo:!>)Ys&'',
    Get ''1127100791449830'',
    Put ''1915266474712896'' ''=Ku'909P5)5d0X'='',
    Put ''2151716022509140'' ''7Us+(.3<f+%8!(d*'',
    Get ''8270373749993747'',
    Put ''1940377266345655'' ''.L5$,.7G7I)/H)1'',
    Put ''1127100791449830'' ''77n#=r+>l#[u/$v#'',
    Put ''7591723686063481'' ''$P;%Z?/'',
    Get ''6973924209660459'',
    Get ''3820143127410670'',
    Get ''5118272549280380'',
    Get ''5134010976874604'',
    Get ''9119376631661606'',
    Get ''2413618007232442'',
    Get ''1931004902307120'',
    Get ''1467819816047465'',
    Put ''7567391170160704'' ''6A=,G%;'<-6n2M=4'',
    Get ''7929094764883972'',
    Get ''8792573527843309'',
    Get ''3528229843003917'',
    Put ''1127100791449830'' ''=)vOi,T?(Vc'Gq*'',
    Get ''3956449419912651'',
    Get ''3101640435201244'',
    Get ''8270373749993747'',
    Put ''1127100791449830'' '';z'S3@}+Mk:Hg3'',
    Put ''2278089990460444'' ''+8<9So$+|7Aq0':<'',
    Put ''2634329127434462'' ''3H5)G-7*0=Ee(5b+'',
    Put ''1127100791449830'' '')'',
    Put ''5464797676921564'' ''89$4]?'#p7<6*f>'',
    Get ''7219746121495239'',
    Get ''8738586663566968'',
    Put ''8265687567974480'' ''>(48U-?&<9L*Mg*'',
    Put ''5173354428432211'' ''(!046r*#j2E=;$&('',
    Get ''2399217815880341'',
    Put ''6159186168446054'' ''4N9=?>1:&,8p7Gc*'',
    Get ''2891763245356339'',
    Put ''6954713888349240'' ''%T#)2f'',
    Get ''1127100791449830'',
    Get ''7639356304079831'',
    Get ''5324583478130298'',
    Put ''2981632530805629'' ''&1~/9:>/8U).44'',
    Put ''5686287072853566'' ''1#h>[i#0r'&6<C=8'',
    Put ''5797482573722787'' ''01&->6!K{_o44$('',
    Get ''5806294977249182'',
    Put ''3821481363652793'' ''%.b3L(A{/_y>A{*'',
    Get ''6174364635528138'',
    Get ''6636211485545670'',
    Get ''5229126404855302'',
    Get ''6062950819441076'',
    Put ''2282216211967572'' ''2Z=83p?<d>'p7'6$'',
    Get ''3604678149740059'']"

definition run_14 :: "bench_op list" where
  "run_14 = [
    Put ''6159186168446054'' ''.Sy#}3F=!Cm)B+='',
    Get ''6982736613186854'',
    Get ''6179392462841705'',
    Put ''6521231408463621'' ''(Eq'_a%I3,Mw#=p:'',
    Put ''5711179549268484'' ''(&z7;$-S9-]i2^!='',
    Get ''4635441129137216'',
    Get ''7230798367070196'',
    Get ''3957009380424791'',
    Put ''5692653136409255'' ''(Xg;Y511(,14:-8-'',
    Get ''5826501271644832'',
    Get ''2639233624671572'',
    Get ''7919162440333296'',
    Get ''2876243132979956'',
    Put ''1810437037399364'' '';4(4H%9Dk*)>3p.'',
    Put ''3348582268060305'' ''*_k&*h'',
    Put ''8710049097700764'' ''9*}-!f##l7E)%'',
    Get ''4163320309274709'',
    Put ''2865750847917140'' ''#>88J!0Ek+'',
    Get ''7576763534199239'',
    Get ''1010099187537061'',
    Put ''2408590179918876'' ''?P/V'',
    Put ''4545230198393627'' ''5Ae*Na>[c*P7;%z&'',
    Put ''3369348522968095'' ''4,$9Y{(7f+%p7Pc:'',
    Put ''3005405086196265'' '';N/_i(V1(:2/Ro2'',
    Get ''4167446530781837'',
    Put ''6408915986570119'' ''1_5-F'&C2]92Ga7'',
    Get ''7093932114056075'',
    Put ''9206239616628049'' ''7Qa/Xm+@9=k5=88'',
    Get ''1236834726000471'',
    Put ''4967006104914157'' ''=D#%:b,3.,-0.Kg+'',
    Put ''2816641707769592'' ''&[w6A1$Uw&O!)3*<'',
    Get ''8265687567974480'',
    Get ''4997704684372624'',
    Put ''9949207204549773'' ''2(283,6W;)20-Y:'',
    Get ''7672220607474235'',
    Put ''2180734720431185'' ''/'',
    Put ''3242974555016791'' ''7G+%?,><vV#$Lq.'',
    Put ''3700353538232897'' '':1,(Py=&v+Tc!Yk/'',
    Put ''1216410116386979'' '':]k'A;&985(x+6.5'',
    Put ''6642359233883517'' '';H+(3t>)24-.?]!5'',
    Put ''7008749010626053'' ''>!z.Wq?O}66*N%$'',
    Get ''3479424102813035'',
    Get ''5113586367261112'',
    Get ''5329829620661706'',
    Put ''6982736613186854'' '':6l/Ho!,8=-|)~+'',
    Get ''2180734720431185'',
    Get ''9962589566971001'',
    Get ''4289694277226014'',
    Put ''8743832806098376'' ''878<8&)%b>7&=.|7'',
    Put ''6143447740851830'' (''0:4!:%e#Li82j'' @ [CHR 0x27]),
    Put ''4074781782161233'' ''/V'u>7~6c=^5('',
    Put ''6631525303526403'' ''-->$['>2p2^y;^k:'',
    Put ''1127100791449830'' '')]/-0h'',
    Get ''5355282057588765'',
    Put ''3956449419912651'' '';205,'',
    Put ''8973916290338932'' ''1Ni/|2(`2V18Au&'',
    Put ''6521231408463621'' ''#/&8%f$O#<'',
    Get ''1689309211979468'',
    Get ''2191786966006142'',
    Get ''6073473535709749'',
    Get ''2047446545707749'',
    Put ''6410035907594400'' ''%Qi?#,0[#'',
    Get ''8406680042495728'',
    Get ''5710619588756343'',
    Put ''9206239616628049'' '')N!(He4Tq>F!2_e/'',
    Put ''5272677673938969'' ''[%,W=%?85)t<X5$'',
    Get ''7591163725551341'',
    Put ''8768165322001154'' ''#>`6Y;8]-$s?Z5,'',
    Put ''4886509183503403'' ''/Do?Ge?7>'',
    Put ''5455083667588730'' ''!$(,Me5B!=Yy3N/-'',
    Get ''6274507890822402'',
    Get ''3956449419912651'',
    Get ''7788957822722251'',
    Get ''5464797676921564'',
    Put ''8270373749993747'' ''50|#Bc('f=62*:$'',
    Get ''8270373749993747'',
    Put ''3222768260621140'' ''.=)%>4?(%Xg)48,'',
    Put ''8270373749993747'' ''(!v.Lc;]1)0z4Ow3'',
    Get ''6630140993837368'',
    Get ''5937136812001912'',
    Get ''3715873650609279'',
    Put ''2759801489579328'' ''<#f+80<Po]%:E{&'',
    Put ''7938808774216806'' ''&M1(Qq7.<=!h7!*='',
    Get ''1583141538423813'',
    Put ''4518999485736587'' ''0Zw+1x++.)%>$N/-'',
    Get ''3122625005326877'',
    Get ''1241302592801897'',
    Get ''3444039341335301'',
    Get ''7582351322024946'',
    Get ''2539432014671606'',
    Put ''5696219397404242'' ''%>$%O$]{.Rq)<|>'',
    Get ''6525218143209206'',
    Get ''6039178264050439'',
    Get ''8270373749993747'',
    Get ''1362990378733934'',
    Put ''1834769553302141'' ''&R;,&`.$:!%,(%f*'',
    Put ''2056258949234144'' ''8W-5E7Dm+Mu1Sm7'',
    Put ''1105774576029899'' ''?Tu'_-1(n3C)%0v>'',
    Put ''8285893862370130'' ''6(z'Nc)Cc&-(3C!8'',
    Get ''4027919961968556'',
    Put ''1815209154826953'' (''.(>)8t.Qm?Km'Lu'' @ [CHR 0x27]),
    Put ''3805742936058569'' ''>-)]w'$$'',
    Get ''6339954014616917'',
    Get ''4172692673313245'',
    Get ''5181137185732034'',
    Put ''1699583181824442'' ''&^1'',
    Get ''8260441425443072'',
    Get ''2760921410603609'',
    Get ''5218634119792486'',
    Get ''1105774576029899'',
    Get ''7450731211542233'',
    Put ''7913916297801888'' ''Q5)Ke1F7<-<-Cs.'',
    Get ''7797256339183417'',
    Get ''4409142221109489'',
    Get ''1815123219418632'',
    Get ''3479424102813035'',
    Put ''6062390858928936'' (''#=j'' @ [CHR 0x27, CHR 0x27] @ ''r=*j#Hs#I{&''),
    Get ''2392851752324652'',
    Put ''1583141538423813'' ([CHR 0x27] @ ''$z+S/4J7-/>?;<''),
    Put ''5921958344919828'' '':H#!Nk.Hy;1l!,v.'',
    Put ''5937136812001912'' ''!W/!F?,5x'^w;!:-'',
    Put ''8270373749993747'' ''./f2Lm0Ve6Du)S-$'',
    Get ''8270373749993747'',
    Put ''5233594271656728'' ''#~2Ys,%p.P%!G!%'',
    Put ''9898928931414111'' ''=Xe>6d'T&(b'Ag/'',
    Put ''8632418990011314'' ''/Y51[k')&47xBg;'',
    Put ''4636219404867198'' ''?Q'=9|3'8@#3T-'',
    Get ''1724693973457202'',
    Put ''1462232028221759'' ''?Dw3Ws8<tTc0Sw7'',
    Put ''3468931817750219'' ''/+t/>n<605*~?5>1'',
    Put ''5354162136564484'' (''*8x6$6,Ay;Zu8Yw'' @ [CHR 0x27]),
    Get ''1112140639585588'',
    Put ''5822033404843406'' ''/=~;;p%D+-;2=$z6'',
    Put ''6883494963699029'' ''6`>;r8S}>>.'N=<'',
    Get ''1703709403331569'',
    Get ''6159186168446054'',
    Get ''9119376631661606'',
    Put ''8522903370678515'' (''7_q>7`7!v.69O'' @ [CHR 0x27]),
    Get ''7693205177599868'',
    Put ''6761807177766992'' ''/Ca;/`'+*1,r.?&8'',
    Get ''5244646517231684'',
    Get ''5590611684360728'',
    Get ''2649507594516546'',
    Get ''1127100791449830'',
    Put ''4178498776356793'' '''',
    Get ''5696219397404242'',
    Put ''7582009676730647'' ''#Vo&I16n2Tm:#$,'',
    Put ''8633757226253437'' ''67n:!8#Ca*&'',
    Get ''6280873954378091'',
    Get ''6746628710684909'']"

lemma run_1_tally: "tally run_1 0 0 (79, 71)"
  by (unfold run_1_def) (simp only: tally_steps cong: tally_cong, simp)

lemma run_2_tally: "tally run_2 0 0 (71, 79)"
  by (unfold run_2_def) (simp only: tally_steps cong: tally_cong, simp)

lemma run_3_tally: "tally run_3 0 0 (66, 84)"
  by (unfold run_3_def) (simp only: tally_steps cong: tally_cong, simp)

lemma run_4_tally: "tally run_4 0 0 (81, 69)"
  by (unfold run_4_def) (simp only: tally_steps cong: tally_cong, simp)

lemma run_5_tally: "tally run_5 0 0 (87, 63)"
  by (unfold run_5_def) (simp only: tally_steps cong: tally_cong, simp)

lemma run_6_tally: "tally run_6 0 0 (79, 71)"
  by (unfold run_6_def) (simp only: tally_steps cong: tally_cong, simp)

lemma run_7_tally: "tally run_7 0 0 (85, 65)"
  by (unfold run_7_def) (simp only: tally_steps cong: tally_cong, simp)

lemma run_8_tally: "tally run_8 0 0 (69, 81)"
  by (unfold run_8_def) (simp only: tally_steps cong: tally_cong, simp)

lemma run_9_tally: "tally run_9 0 0 (66, 84)"
  by (unfold run_9_def) (simp only: tally_steps cong: tally_cong, simp)

lemma run_10_tally: "tally run_10 0 0 (73, 77)"
  by (unfold run_10_def) (simp only: tally_steps cong: tally_cong, simp)

lemma run_11_tally: "tally run_11 0 0 (65, 85)"
  by (unfold run_11_def) (simp only: tally_steps cong: tally_cong, simp)

lemma run_12_tally: "tally run_12 0 0 (74, 76)"
  by (unfold run_12_def) (simp only: tally_steps cong: tally_cong, simp)

lemma run_13_tally: "tally run_13 0 0 (63, 87)"
  by (unfold run_13_def) (simp only: tally_steps cong: tally_cong, simp)

lemma run_14_tally: "tally run_14 0 0 (72, 78)"
  by (unfold run_14_def) (simp only: tally_steps cong: tally_cong, simp)

end
