(* ===== verification/BenchRun3.thy ===== *)
theory BenchRun3
  imports BenchOps
begin

text \<open>
  The run phase of the benchmark (\<open>src/src/shared/benchmark.h\<close>, lines 10206 to 12305), one list per stretch of
  the macro, with the number of its puts and gets.
\<close>

definition run_29 :: "bench_op list" where
  "run_29 = [
    Put ''1127100791449830'' ''9.01L)6!x*-b;2z*'',
    Get ''8496890973239316'',
    Get ''7450949526760075'',
    Put ''9009861012328806'' '',]{&Rg$7h28|4Y=)'',
    Get ''5937136812001912'',
    Get ''2982192491317769'',
    Get ''3059966866797366'',
    Put ''4167446530781837'' ''*0j*C3L}32p!Y{:'',
    Get ''3465023911460933'',
    Get ''3117720508089767'',
    Put ''1127100791449830'' ''9,'',
    Put ''7461441811822891'' ''1Ei2Ke5)()H-=6,'',
    Get ''3599991967720791'',
    Get ''8749128160593618'',
    Put ''8276179853037296'' ''=605?d*8,'',
    Get ''8768165322001154'',
    Put ''2278089990460444'' ''$Hm3@o:'d:M#&0h3'',
    Put ''3927990682502746'' ('';Q;5J!(-(/.M'' @ [CHR 0x27]),
    Put ''7928534804371831'' ''!5l+O%*^s.V7>D!$'',
    Put ''1703709403331569'' ''?#(8E7<]+)'',
    Get ''4041632523342672'',
    Get ''3368788562455955'',
    Put ''6883494963699029'' ''3Ce#6('=04!l>T31'',
    Get ''4057152635719055'',
    Get ''3579225712813000'',
    Get ''2523693587077382'',
    Put ''2523693587077382'' '';Ru/:40H!$2j$Ji7'',
    Get ''4152268063699753'',
    Get ''3599991967720791'',
    Get ''1960583560741305'',
    Put ''7577323494711380'' '''',
    Get ''5333737526950992'',
    Get ''1688749251467327'',
    Get ''6275627811846683'',
    Get ''1127100791449830'',
    Get ''6530603772502156'',
    Get ''6762367138279133'',
    Put ''7556898885097888'' ''-?4$'8?S?-S=#8n:'',
    Get ''4042192483854813'',
    Get ''2991004894844164'',
    Put ''1714761648906526'' ''%L?5I5-$*!3*%O?5'',
    Get ''7711731590459097'',
    Put ''4997704684372624'' '''',
    Get ''6159186168446054'',
    Get ''3001497179906980'',
    Put ''1487684465148817'' ''/Q70R}0NsO9'',
    Put ''3584471855344408'' ''6T9'',
    Put ''3945957134849834'' ''$Sw:'',
    Get ''3564607206243057'',
    Put ''6073473535709749'' '':&v&Iu'',
    Put ''4886509183503403'' ''25(4M98;24@;1Ua3'',
    Put ''6650611676897772'' ''4q3:*W;4]95'',
    Put ''7928534804371831'' ''3-t6Tw($:'',
    Put ''5937136812001912'' ''?Ju>Y/!G3Yy%0f>'',
    Put ''5344789772525948'' ''<4d:b'',
    Get ''6159186168446054'',
    Put ''4182406682646079'' ''+Ki>3p:+,'',
    Put ''2388165570305384'' ''4x&8(>Z#(O!=]:'',
    Put ''1363208693951776'' '')Q+-Iq8J=,8`24(!'',
    Get ''7486334288237809'',
    Get ''7639356304079831'',
    Get ''8994682545246722'',
    Put ''6858042526771971'' ([CHR 0x27] @ ''Eo/7p$9r#!r4X)''),
    Get ''4997704684372624'',
    Put ''4534737913330811'' ''4'4'',
    Get ''8280647719838722'',
    Get ''3715873650609279'',
    Put ''3945957134849834'' ''##((5.2,64L3!K98'',
    Get ''1467819816047465'',
    Get ''3945957134849834'',
    Get ''9206239616628049'',
    Get ''5921958344919828'',
    Put ''1127100791449830'' ''%[?5<l:'',
    Put ''2996032722157730'' ([CHR 0x27] @ ''4`+Xo)!`>,,:0.<''),
    Get ''4067084960269731'',
    Get ''1936251044838528'',
    Put ''1592513902462349'' ''5m;<'',
    Get ''2417744228739570'',
    Put ''8270373749993747'' ''O/1Cg)&t;:l>%,'',
    Put ''5476923770073890'' ''08(4B9!Ou3Jm::|?'',
    Get ''4518999485736587'',
    Get ''1805750855380096'',
    Put ''3458439532687402'' ''?W750So6A?9Ue6'',
    Put ''5233812586874570'' ''$QyE5=Q5<&`<Xm3'',
    Get ''8652283639112666'',
    Get ''3101640435201244'',
    Put ''2503487292681732'' ''2+:0Sg.W194p.N#('',
    Put ''5344448127231650'' ''=Ug#16%1v35:=Pe6'',
    Get ''7340873946915135'',
    Get ''2866310808429281'',
    Put ''1127100791449830'' ''+'',
    Get ''9902345384357096'',
    Get ''2910365348154946'',
    Put ''7944054916748214'' ''4Qw;>2'>6'',
    Get ''4515651539959442'',
    Put ''6526135905700731'' '',Sk3S!Ra3Lq(8`>'',
    Get ''2870778675230706'',
    Get ''2913781801097931'',
    Get ''6163654035247480'',
    Put ''8386255432882236'' ''7H#%>&9>&!6(%Pg'',
    Put ''2180734720431185'' '';6$<Mw>$z'A{(,n2'',
    Put ''7928534804371831'' ''!+p'Zi2,2)>>83l&'',
    Get ''3957569340936932'',
    Put ''6159186168446054'' ''>2'',
    Get ''8034484162709644'',
    Get ''2066532919079118'',
    Put ''8527247907403484'' ''=/l6'*:*.(2~66.('',
    Get ''8511291164591418'',
    Get ''8270373749993747'',
    Get ''8270373749993747'',
    Put ''1226902401449795'' ''3[74-p4Bm/&6)Lg'',
    Get ''5595857826892136'',
    Get ''7355834098779377'',
    Get ''6621592978975727'',
    Get ''8155052027617400'',
    Put ''2863503527962269'' ''8^5=U=(R%(D7:S)8'',
    Get ''4656425699262848'',
    Get ''2180734720431185'',
    Put ''5330738704374455'' ''=26'',
    Get ''1115706900580575'',
    Put ''8651988067265279'' ''<Mu+9d=#2%M-27j&'',
    Get ''1453419624695364'',
    Put ''1127100791449830'' ''5;8,+x9,*$S#*Lo>'',
    Put ''5707053327761357'' ''0`:,*)8419$75<1'',
    Get ''1127100791449830'',
    Get ''2278089990460444'',
    Get ''5122958731299648'',
    Put ''5937136812001912'' ''6Ws.Ek!XiK95('',
    Get ''5239198216167520'',
    Get ''1825957149775746'',
    Put ''5238280453675995'' ''&2:)Mk([y+C?5]}#'',
    Get ''2629301300120896'',
    Put ''3945957134849834'' ''/&'',
    Put ''9100290258290236'' ''0Kk&'',
    Get ''3002398785713419'',
    Get ''8033924202197503'',
    Put ''6054138415914681'' ''72j?'',
    Put ''8395627796920771'' ''3>(5]#>6p6'.&&|&'',
    Put ''8753546815431210'' ''<Pm7>Pu6.b'*r&'',
    Get ''8618018798659212'',
    Get ''5239198216167520'',
    Put ''6651731597922053'' ''3?!Si>@/06p*%44'',
    Get ''8054348811810995'',
    Get ''4378785286945321'',
    Get ''4047438626386221'',
    Put ''4283669858964623'' ''Qs+N/7,.'',
    Get ''3002057140419121'',
    Get ''4519559446248727'',
    Get ''1372362742772469'',
    Get ''1127100791449830'']"

definition run_30 :: "bench_op list" where
  "run_30 = [
    Get ''3584471855344408'',
    Get ''1025837615131285'',
    Get ''8527029592185642'',
    Get ''4283109898452483'',
    Put ''5333955842168833'' ''$(`?8d64*$.<!W9)'',
    Get ''5107998579435405'',
    Put ''1814563258906491'' '';6h:7~59z2*44!8%'',
    Get ''7928534804371831'',
    Put ''5470603779965112'' ''?<r.V=21f*Zg=+j;'',
    Put ''4283888174182465'' ''#]y3B=;[#,7<;@+)'',
    Put ''4302974547553835'' ''!Dq7K;$4t#!t=Do;'',
    Put ''9962589566971001'' ''/*.)&b8:h+Bg=L=9'',
    Put ''2910365348154946'' ''(('',
    Get ''1452859664183223'',
    Put ''3945957134849834'' ''5)0$B;-!);<-V{+'',
    Put ''6430099635208427'' ''3>6)%d1='',
    Put ''1240742632289756'' ([CHR 0x27] @ ''1x/Ca3&|+O5,''),
    Get ''7113578447939585'',
    Put ''1813026002648534'' ''<3:8/'',
    Get ''8798173132964713'',
    Put ''5239198216167520'' ''1n+Pm'4|'32*%.%'',
    Get ''6979170352191867'',
    Get ''8270373749993747'',
    Get ''1127100791449830'',
    Get ''6772299462829809'',
    Put ''2523693587077382'' ''$,.!3f<@518~(?v?'',
    Put ''6641457628077078'' ''39|.[}=D94Gm5Y+$'',
    Put ''5355282057588765'' ''/Z#90&&Au:.:3Uk:'',
    Put ''7682152932024911'' ''<r'?&9M{:6'',
    Get ''8270373749993747'',
    Put ''6159186168446054'' ''5L9%H;9:-Ui&'',
    Get ''8637323487248424'',
    Get ''3328157658446812'',
    Get ''2399217815880341'',
    Get ''4992116896546917'',
    Get ''5581239320322193'',
    Get ''2281997896749730'',
    Get ''5134010976874604'',
    Put ''1015345330068469'' '')'',
    Get ''8059376639124562'',
    Put ''2991004894844164'' '';>48D;9R7(n5J')'',
    Get ''1357744236202526'',
    Get ''8395627796920771'',
    Get ''1592513902462349'',
    Get ''6641457628077078'',
    Get ''3584253540126566'',
    Put ''6531382048232139'' '',O#-?p9?49'h'=h*'',
    Put ''7224773948808805'' ''.%5+|%N;E-'Mw:'',
    Put ''6159186168446054'' ''$,z/2`'6f>4$'P30'',
    Get ''4877355134682710'',
    Get ''6394515795218018'',
    Put ''1127100791449830'' ''24t#=04B'!;|*_6'',
    Put ''3951763237893383'' ''/%0,'',
    Put ''7209253836432423'' ''(I+)S50Mm**6%Ku3'',
    Put ''9085111791208152'' ''>5~6Ra:Da6Uw+G#5'',
    Get ''1096402211991364'',
    Get ''1684623029960200'',
    Get ''4871330716421319'',
    Get ''8401215584746478'',
    Put ''2413276361938144'' ([CHR 0x27] @ ''0~/*f'@7%0d8%l''),
    Put ''1342224123826143'' ''$%|.M76T?!'$5&*-'',
    Get ''2885397181800650'',
    Put ''7708383644681952'' '',]3%I17Ms&9:Dc+'',
    Put ''1127100791449830'' ''1'',
    Get ''1127100791449830'',
    Get ''8868868537807558'',
    Put ''4062617093468305'' ''6'',
    Get ''3816016905903543'',
    Put ''8164984352168075'' ''9Sq6T7<K;0>$%'',
    Get ''1127100791449830'',
    Put ''5233812586874570'' '',]10B);)*0?t#W%,'',
    Put ''7812653121483343'' ''/?vYg0,r>#h%*f:'',
    Put ''6651731597922053'' ''%>21#l/<:<(f(.h6'',
    Get ''2895329506351326'',
    Get ''1584479774665936'',
    Get ''2649725909734388'',
    Put ''5686287072853566'' ''?0`.C71P?)Z1#0p+'',
    Get ''2759801489579328'',
    Get ''6280873954378091'',
    Put ''3575099491305873'' ''!Nc9'',
    Get ''7692426901869886'',
    Get ''4052466453699787'',
    Put ''5570405389965078'' ''85h2X;-=65&h,O99'',
    Get ''1362430418221793'',
    Put ''8900912831414457'' ''48*=F329$(Be!'x.'',
    Get ''4178498776356793'',
    Get ''3816016905903543'',
    Get ''4987430714527649'',
    Get ''7350027995735829'',
    Get ''3815675260609244'',
    Put ''8646388462143874'' ''/-j69d-A!'',
    Put ''7597529789107030'' ''*70%Lq<[#$5f.Fe;'',
    Get ''2171362356392650'',
    Get ''3922997111340393'',
    Put ''1127100791449830'' ''0/:)=(>]}#U!:^+9'',
    Get ''3700913498745037'',
    Get ''5229686365367442'',
    Get ''1127100791449830'',
    Put ''3590277958387957'' '')<x+@%72x/0x5[71'',
    Put ''6042744525045426'' ([CHR 0x27] @ ''['Xa!^}&=v3Ii.''),
    Get ''8632978950523454'',
    Put ''6058264637421808'' ''<+<'',
    Get ''9951390356728192'',
    Put ''1951211196702770'' ''8S'0*22C3(W9,'$<'',
    Get ''1703149442819429'',
    Get ''7224213988296665'',
    Get ''5696219397404242'',
    Put ''1583141538423813'' ''*Cy;!`4..5P}.7t7'',
    Get ''1127100791449830'',
    Get ''4655305778238567'',
    Get ''2062065052277692'',
    Get ''2278089990460444'',
    Put ''6757680956259865'' ''9Jg7Ha$Sc7S5..'',
    Put ''4057152635719055'' ''/]k#Oi,Aq#Gq-P;4'',
    Put ''8762919179469746'' ''$)~^g,@a+-b#)p#'',
    Get ''8637883447760564'',
    Put ''2982192491317769'' ''85n'(6*96(V;/I-!'',
    Put ''2187100783986874'' ''9(,-g.<!?~;Ug7'',
    Get ''6877688860655481'',
    Get ''5716425691799892'',
    Get ''8296604462650788'',
    Put ''8270373749993747'' '',Om#K?'-v6?n3_i>'',
    Get ''8270373749993747'',
    Get ''1127100791449830'',
    Put ''8637665132542722'' ([CHR 0x27] @ ''>t:4,<3:$X1;%b+''),
    Put ''1010099187537061'' ''2C3-Gi&Y?(1>2&f'',
    Get ''1105556260812057'',
    Put ''1921072577756444'' ''%7~6Tw6(~'Cw%#%'',
    Put ''7104206083901049'' ''&Fc+p7G'!4&</9'',
    Get ''7008189050113913'',
    Get ''6279535718135969'',
    Get ''1819809401437899'',
    Put ''4074781782161233'' ''5>b;Gc3/61Zo$6t3'',
    Put ''2880929314999224'' '''',
    Put ''8853908385943316'' ''/'',
    Get ''1127100791449830'',
    Get ''7695234182336898'',
    Get ''2760703095385767'',
    Put ''6495778971536563'' ''#P)!I5%#>(.r!X#1'',
    Put ''3715873650609279'' ''$8$868>G=9D++?0'',
    Get ''4525023903997977'',
    Get ''2518447444545974'',
    Put ''4746294984712138'' ([CHR 0x27] @ ''Ac*7l!P!5z7N=)''),
    Put ''1729940115988610'' '')T!$($'.p.d8G?'',
    Get ''1127100791449830'',
    Put ''8773411464532562'' ''%Es.U7Bg;?|7.r+'',
    Get ''6159186168446054'',
    Get ''3328717618958953'',
    Get ''8269813789481607'',
    Get ''3479984063325175'']"

definition run_31 :: "bench_op list" where
  "run_31 = [
    Get ''8527247907403484'',
    Put ''6073473535709749'' ''=/b;:0(',)8&_=-'',
    Put ''6530817748330610'' (''#.j;D'R3d4Vk'' @ [CHR 0x27]),
    Get ''1598879966018038'',
    Get ''4378785286945321'',
    Get ''4414730008935196'',
    Get ''9221978044222273'',
    Get ''6871882757611932'',
    Get ''4052466453699787'',
    Put ''4177720500626811'' ''4Zi7]%?S9<>*,(|*'',
    Put ''7591163725551341'' ''(2t#<h'',
    Put ''3202343651007648'' '''',
    Put ''1127100791449830'' ''!Nq;>p'9f($26.<'',
    Get ''8270373749993747'',
    Get ''3222549945403299'',
    Put ''5340321905724522'' ''!E?)'8$W1'',
    Get ''8155052027617400'',
    Get ''3494602569895119'',
    Put ''6993570543543969'' ''7)t6.>8I9(Hs%P91'',
    Put ''8632978950523454'' ''.Tu25x'',
    Get ''2278089990460444'',
    Put ''4080381387282637'' ''2H#,.($54(Zi2J)4'',
    Get ''1605363453570628'',
    Get ''1236834726000471'',
    Get ''1127100791449830'',
    Get ''1693777078780893'',
    Get ''5092820112353322'',
    Get ''5932108984688346'',
    Put ''8893979329440318'' ''9X58%>6>,!=j/M&'',
    Get ''8637883447760564'',
    Put ''8973697975121090'' ''17&!Lg'd:4t6W;1'',
    Get ''7701799265908421'',
    Put ''2654753737047954'' ''1Cs7Iy:Zk&Um5L#,'',
    Put ''8698849887457955'' ''>^#>(!70874$;:4'',
    Get ''2278089990460444'',
    Put ''9752743865714676'' ''2P+)0n#Ru:U=7=$,'',
    Put ''5570690804353124'' ''95v.;60$)Pe4'',
    Put ''1127100791449830'' '')E+!%*0X!9Gc4t7'',
    Get ''5470603779965112'',
    Put ''2187100783986874'' ''2>x2Ce5+2)_q2Fu'',
    Put ''1906749643033888'' ''5E-<.z+/*<Z+!Jc7'',
    Get ''1468379776559606'',
    Put ''5585365541829320'' ''3V7'',
    Get ''8738586663566968'',
    Get ''4886509183503403'',
    Put ''8270373749993747'' ''>/05l&/2=<!Si.'',
    Put ''8863840710493992'' '';])<R57Zo3R-2Y+%'',
    Put ''3001278864689138'' ''6U%'',
    Put ''5943161230263302'' ''.K',8,>'85?p,By*'',
    Put ''7928534804371831'' ''*::%!&*2h3G)7@i7'',
    Put ''1361870457709653'' ''9%d']'/Uw?<|%:d&'',
    Get ''2278089990460444'',
    Put ''4886509183503403'' ''2',):|'',
    Get ''3945957134849834'',
    Put ''6588878778766096'' '')%~2Eo)G#'',
    Get ''2780567744487118'',
    Put ''5244646517231684'' ''7b+#d(?|#Qm3&4%'',
    Put ''4655305778238567'' ''>A)8*,.#*=Py9A1,'',
    Get ''8270373749993747'',
    Get ''5333737526950992'',
    Put ''2765047632110736'' ''V=(Q+'&j>-h<92'',
    Get ''3599991967720791'',
    Put ''6767831596028383'' ''?50'',
    Put ''6068196961972484'' ''*2>1M9$$(9[g<+b#'',
    Get ''7545632663694477'',
    Put ''1453419624695364'' ''/G%)9*'',
    Put ''5686287072853566'' ''/#,$&j*]g?B%47n3'',
    Put ''1468598091777448'' '',Fq&'',
    Put ''2760143134873626'' ''!1.$R;/Hi>9j'',
    Put ''1127100791449830'' ''5R'8O)(Am?0r5?2='',
    Get ''4192898967708895'',
    Put ''7928534804371831'' '':%$)b*?%R'=.4%'',
    Put ''6283880254860938'' ''+D{>%.:L#'',
    Put ''3113252641288341'' ''%,b*Ns.};90.R?'',
    Get ''1589507601979502'',
    Get ''1127100791449830'',
    Put ''8511509479809259'' ''(_g/3`'',
    Get ''7747695607650979'',
    Put ''1127100791449830'' '';225!~<+l#>p7O91'',
    Put ''3472233791789872'' ''+3(!Oq=<8$Vm9G?9'',
    Get ''7928534804371831'',
    Get ''6039309006279892'',
    Put ''3715873650609279'' ''8G14L%$Gm.Fu0P{3'',
    Get ''1010099187537061'',
    Get ''1579233632134528'',
    Get ''8842851800978971'',
    Put ''8391501575413644'' '')2:9*'',
    Put ''7928534804371831'' ''&P#1X)1>|+/n/[))'',
    Get ''5327322251431469'',
    Put ''8745711707650632'' ''*=|:=h-@o24()N35'',
    Put ''2745182983009384'' '';1`1.2/![)23d2'',
    Get ''3348022307548164'',
    Get ''7928534804371831'',
    Get ''7596969828594889'',
    Get ''2180734720431185'',
    Get ''5464797676921564'',
    Put ''6151301108707982'' ''$)z<*<$p3$x,;z;'',
    Put ''4630413301823649'' ''&Si;1<()x+Iy]94'',
    Put ''9805205291028757'' ''<S;1P=4&f*E957l>'',
    Get ''1127100791449830'',
    Put ''2403344037387468'' ''/Yo:Dg=(t;.f<8<!'',
    Put ''2050452846190595'' ([CHR 0x27] @ ''Ss36<+)&(70V/(''),
    Put ''1127100791449830'' ''5Js6P1+Lg:I17:0<'',
    Get ''1589507601979502'',
    Get ''8296604462650788'',
    Get ''5355282057588765'',
    Put ''6284221900155236'' ''#R18G96'',
    Put ''8164424391655935'' ''1F=1W%(+$P+5'',
    Put ''4519777761466569'' ''9D}7=4%+<1#<0Ji2'',
    Put ''7928534804371831'' ''(7r6Xg444<,80!'',
    Get ''4414730008935196'',
    Get ''6757680956259865'',
    Put ''7928534804371831'' (''#C7$C1.1l:Uu';t'' @ [CHR 0x27]),
    Put ''3339769864533910'' ''>=0%Q&9f?-'',
    Get ''8270373749993747'',
    Get ''2780567744487118'',
    Get ''1473284273796715'',
    Get ''6516763541662195'',
    Put ''3599991967720791'' ''-!h#7.4H!0,j<K7%'',
    Put ''7094492074568215'' ''2!h?#p6}#$0*[m7'',
    Get ''1127100791449830'',
    Get ''4534737913330811'',
    Get ''5003169142121874'',
    Put ''3018704651726094'' ''+)`+_5?Eq+[7=3(('',
    Put ''1127100791449830'' ''3,l;])1?l;5~Y'-'',
    Get ''7928534804371831'',
    Get ''7104206083901049'',
    Put ''5696219397404242'' '':1`2L}&$l?!n-T{+'',
    Put ''1859887822841211'' '';#65>h2.49+,7345'',
    Put ''6546342200096381'' ''9Z38$.+q3_i/T11'',
    Put ''8270373749993747'' (''+<(),`=Qc:56*7f'' @ [CHR 0x27]),
    Get ''8421080233847829'',
    Put ''6753213089458439'' ''+Zq6a?O/-5`(.<%'',
    Put ''6756779350453426'' ''6Gk'0.,L5'',
    Put ''5812661040804871'' '')B+,H}8C};_-#,$-'',
    Get ''2180734720431185'',
    Get ''1127100791449830'',
    Put ''7592494483887154'' ''1%&$>t9_{*%~+8>('',
    Put ''5534984800509376'' ''_g3W936-L+6?9'',
    Get ''1016465251092750'',
    Get ''1588605996173063'',
    Get ''3018704651726094'',
    Get ''5575651532496486'',
    Put ''5937915087731894'' ''?I/)X1?A%-:l>M?8'',
    Get ''1127100791449830'',
    Get ''8522903370678515'',
    Put ''6033932121519031'' ([CHR 0x27] @ ''U'-Y%.^}71:*=:5''),
    Put ''2865190887405000'' ''*9t5*/)x.Ja5D#)'',
    Put ''1453419624695364'' ''7*x*Ui>*j;.,.2('',
    Put ''3348923913354603'' ''*Z=5#6(Z1$Aw9R3('']"

definition run_32 :: "bench_op list" where
  "run_32 = [
    Get ''6406128001305115'',
    Get ''8039730305241052'',
    Get ''7360520280798645'',
    Put ''5238280453675995'' ''7Sy?O7?_k.$h<$:,'',
    Get ''4987990675039790'',
    Get ''5223101986593911'',
    Put ''6179610778059547'' '''',
    Get ''5001830905879751'',
    Put ''6048332312871132'' ''#@?=S/;)~/S58Ni>'',
    Get ''1901150037912483'',
    Put ''4525365549292276'' ''9(d7V=-I!0V%:*1'',
    Put ''6269261748290994'' ([CHR 0x27] @ ''+<M=<14(Sm#<80''),
    Put ''5696219397404242'' ''!=.=>0%S!%-|&Ks>'',
    Get ''3930778667767750'',
    Put ''4408923905891647'' ''#4p?C}%4v6*&/I>'',
    Get ''3494602569895119'',
    Get ''4157295891013319'',
    Get ''2987438633849177'',
    Get ''4534737913330811'',
    Get ''5933010590494785'',
    Put ''2166334529079083'' '')&t6G!:D?,Z-6_;1'',
    Get ''6515985265932213'',
    Get ''2417744228739570'',
    Put ''6381216229688190'' ''>Zc2Eo$)n'-.6X5%'',
    Get ''4419416190954463'',
    Put ''3689861253170080'' ''1'',
    Get ''2055480673504161'',
    Put ''5584805581317179'' ''<H&20?N};=|;5,='',
    Get ''6159186168446054'',
    Get ''8270373749993747'',
    Get ''6577679568523287'',
    Get ''8637665132542722'',
    Get ''2879591078757101'',
    Get ''2760921410603609'',
    Put ''7928534804371831'' ''La+>2P#$,$0,|>'',
    Put ''5208701795241810'' ''/40]o%@#5M)/U}6'',
    Put ''8165325997462374'' ''X'=42'',
    Put ''6636771446057811'' ''?n+Ve5:d3Q)3.>'',
    Get ''1657824878884709'',
    Get ''6954713888349240'',
    Put ''8798173132964713'' '';B;9Bq&+:<@s+W?1'',
    Get ''5349475954545216'',
    Put ''6767053320298401'' ''9'.-..'',
    Put ''8704449492579360'' ''7]#1?j'm'Y/%Lk+'',
    Get ''4534737913330811'',
    Get ''6968118106616911'',
    Get ''2066532919079118'',
    Put ''6385143431179482'' ''=G)!-5#:5i'$n'',
    Get ''2292148536518247'',
    Get ''3945957134849834'',
    Get ''6159186168446054'',
    Get ''4534737913330811'',
    Put ''3957569340936932'' (''1^e'' @ [CHR 0x27, CHR 0x27] @ ''.!Q'' @ [CHR 0x27]),
    Get ''3715873650609279'',
    Get ''7566831209648563'',
    Put ''6762585453496975'' ''+]-(J%)2<Mo7[}#'',
    Put ''2278089990460444'' ''2N?45:$]i*Qu'!4!'',
    Get ''3252906879567466'',
    Get ''4052466453699787'',
    Get ''4182406682646079'',
    Put ''4534737913330811'' ''/So*76;0$^33H'8'',
    Get ''5344448127231650'',
    Get ''1112140639585588'',
    Put ''1015905290580609'' ''<8n#Ao2A%!Y;5;.,'',
    Get ''3945957134849834'',
    Get ''3453971665885977'',
    Put ''3453411705373836'' '''',
    Put ''7083999789505399'' ''59)V1!^}2!*<U1,'',
    Get ''7099738217099623'',
    Put ''7334849528653745'' ''/1t.-~>Tk#8</E18'',
    Put ''6275627811846683'' ''&D?<Fy87:<0l+&$-'',
    Put ''7330941622364460'' ''<4t7A}1Dy:S9$'',
    Put ''1105774576029899'' ''>u&'l:_9%(l(l.'',
    Put ''6163654035247480'' ''5F?<1.5I}Dc4Ze.'',
    Get ''1127100791449830'',
    Get ''1105774576029899'',
    Put ''6762585453496975'' ''!D6($1Nu3[=/6l7'',
    Put ''3951203277381243'' ''1E+,Jk1=65Kw7T;!'',
    Put ''1127100791449830'' ''#Ym'7r1K}2:.)Hu'',
    Put ''4067644920781871'' ''2'',
    Put ''2046326624683468'' ''&Bo&T1#A.@-+1x#'',
    Put ''7493171238380396'' ''!Oo.*.8Ny#4:4O-'',
    Get ''3579785673325141'',
    Put ''3333963761490361'' ''2W!8<l.U+'',
    Get ''1950091275678489'',
    Put ''6530603772502156'' ''2#,<'*2A;0K+1?~7'',
    Get ''8854468346455457'',
    Put ''2041080482152060'' ''*Ve7Ti$B'='',
    Put ''6516763541662195'' ''#Bk7Bk!^{.Xm1)(5'',
    Get ''2051012806702735'',
    Put ''7698233004913434'' ''-%$=E9+04;.3+b.'',
    Put ''3464245635730951'' ''2,*5]o4,:,:j-Yc.'',
    Get ''3223328221133281'',
    Get ''6042744525045426'',
    Get ''8421640194359970'',
    Get ''7119384550983133'',
    Get ''5233594271656728'',
    Get ''1127100791449830'',
    Put ''9100290258290236'' ''4^k&I}'_k6%(,<*$'',
    Put ''1467478170753167'' ''8-'',
    Put ''2533065951115917'' ''))|:?89'*(-,-]{6'',
    Get ''3945957134849834'',
    Get ''3820143127410670'',
    Get ''7818459224526892'',
    Put ''7833419376391134'' '';F19:l2%.=&v>#v#'',
    Put ''3328157658446812'' '')'',
    Put ''5103312397416138'' ''3,b2R3>7x&N</z;'',
    Put ''4534737913330811'' ''?M)=@%?q#q?@e'',
    Put ''8295826186920806'' ''1$t?0p9+>!K;.Oq6'',
    Get ''3599991967720791'',
    Get ''8270373749993747'',
    Get ''7591163725551341'',
    Put ''7355834098779377'' ''6'',
    Put ''5103872357928278'' [CHR 0x27],
    Put ''1127100791449830'' '''',
    Get ''7465349718112177'',
    Put ''8265687567974480'' '')0h//p4+,-%`5'&-'',
    Get ''3689301292657940'',
    Put ''5470603779965112'' '')]c#Zc-&*05./-b#'',
    Put ''5812101080292730'' '';W)4]5+;6,]?+5n'',
    Get ''8850634558278795'',
    Get ''6651731597922053'',
    Put ''2180734720431185'' ''?Q+,!,#<nSa'M+!'',
    Put ''8511851125103558'' ''$E=0Mu<'v.}6C50'',
    Put ''3453971665885977'' ''/Uy;G%7>j;V};^+('',
    Put ''1946183369389204'' (''*>v')|>4:1Y/!Bc'' @ [CHR 0x27]),
    Get ''3715313690097139'',
    Put ''1361870457709653'' ''&?x;.24K%1Iq/'',
    Get ''7687180759338477'',
    Get ''7586477543532073'',
    Get ''3368228601943814'',
    Get ''1127100791449830'',
    Get ''3107446538244793'',
    Put ''7591723686063481'' ''%B--#v11l;Q=4/x+'',
    Put ''1367116600241061'' ''54r;Ha.S+(Z'+R}7'',
    Get ''2774761641443570'',
    Get ''6636211485545670'',
    Get ''8651988067265279'',
    Get ''1603566148037305'',
    Get ''7481088145706401'',
    Put ''1127100791449830'' ''G99A%:A?-62(&8-'',
    Put ''8637883447760564'' ''1F{##r/#<(=21V79'',
    Put ''8039170344728911'' ''2/6-=,'',
    Get ''6058824597933949'',
    Put ''8401433899964320'' ''%Ea2:b77('',
    Get ''6994348819273951'',
    Put ''1362990378733934'' ''*W3<-(,=8'',
    Get ''3825389269942078'',
    Get ''2644261451985138'',
    Put ''7119944511495274'' ''>+z#(2%*`;H3<p.'']"

definition run_33 :: "bench_op list" where
  "run_33 = [
    Put ''6385143431179482'' ''#141M-'',
    Put ''4278082071138917'' '';.<=p3@c>)612|7'',
    Put ''1715885909320195'' (''!(8%7l,Ku#D#<>d'' @ [CHR 0x27]),
    Get ''5802168755742054'',
    Put ''8622145020166340'' '''',
    Put ''6761807177766992'' ''0@78D59Uo:Dm*/0)'',
    Get ''8270373749993747'',
    Get ''2392851752324652'',
    Put ''3941830913342707'' '':-r3;|*%:5Gm19|3'',
    Put ''3001838825201279'' ''!+<<?d&n37?7b;'',
    Get ''3931898588792031'',
    Get ''6405349725575133'',
    Put ''6042744525045426'' ''*H{;Oe:<<0<r8Em3'',
    Put ''9099511982560254'' ''<>t3Ni81t7Kq5Rg+'',
    Put ''2186540823474733'' ''9<~:Bk&_i/E-/Ii;'',
    Get ''1930444941794979'',
    Get ''1356624315178245'',
    Get ''3927990682502746'',
    Get ''9215611980666584'',
    Get ''7908110194758339'',
    Get ''5937136812001912'',
    Get ''3936243125517000'',
    Put ''2302422506363222'' ''4<>83~?'hRg9Hu.'',
    Put ''4934084448784221'' ''=1n.Zk'',
    Get ''2649507594516546'',
    Put ''5817128907606296'' ''/30=?>-b/Ds.Ts?'',
    Get ''8305758511471482'',
    Get ''5687406993877847'',
    Put ''5806294977249182'' '',E#=/2-]#!#`28.('',
    Get ''6235031163988755'',
    Get ''7591320243918142'',
    Get ''4665798063301383'',
    Put ''5943721190775443'' ''3Vg6:f+(b+A'5Pk&'',
    Put ''8048884354061745'' ''*G%9W'$Hc/F/56p3'',
    Get ''4876576858952727'',
    Put ''3589499682657975'' ''%Z+Yw2^k30d7,4'',
    Get ''6405909686087273'',
    Put ''2760921410603609'' ''<;,1B74L9(Y/7;4'',
    Get ''7812653121483343'',
    Put ''5464797676921564'' '''',
    Get ''5937136812001912'',
    Get ''6339954014616917'',
    Get ''2650285870246529'',
    Put ''8270373749993747'' '''',
    Put ''8048324393549605'' ''4%|+?4**x#@71#j/'',
    Get ''2764180282455511'',
    Put ''4167446530781837'' ''%Nm6Nm%Nm>[!5&n/'',
    Put ''6399761937749426'' ''$/l2x%-,-7l.B%0'',
    Get ''4520337721978710'',
    Get ''6531382048232139'',
    Put ''1960583560741305'' ''5<>00*,*x;?b%z2'',
    Put ''2880151039269242'' ''6Vq6I:'.!_7,$5'',
    Get ''4856930525069218'',
    Put ''1951429511920612'' ('');08+f&Fo?7<<Vi'' @ [CHR 0x27]),
    Put ''1005631320735635'' ''-)t>@s&Ty&9f0Fg/'',
    Put ''2524471862807364'' ''4&,(V79$.%2t(Mk6'',
    Get ''3946517095361975'',
    Get ''8033924202197503'',
    Get ''2880151039269242'',
    Get ''6531163733014297'',
    Put ''8747959027605504'' ''1)t'Tw1H1,@%&E{;'',
    Get ''1246548735333305'',
    Put ''1452859664183223'' ''6T/'',
    Put ''4419416190954463'' ''>:d>!'',
    Get ''8270373749993747'',
    Put ''8859154528474724'' ''<&4$3z$[=)Y{&'d2'',
    Get ''4539984055862219'',
    Put ''7928534804371831'' ''>Xm>Vm?Y95Zk)V-!'',
    Put ''6033372161006890'' ''!;:,R;,&:0Va$N>'',
    Get ''4741608802692870'',
    Put ''4997704684372624'' ''=&b73.2$r3Q;<=<)'',
    Put ''3945957134849834'' '''',
    Get ''7702577541638403'',
    Put ''8270373749993747'' ''%:`+26,%h:0&>?2$'',
    Get ''6631525303526403'',
    Get ''2407811904188894'',
    Get ''8295266226408665'',
    Get ''2991564855356304'',
    Put ''7556898885097888'' ''L};5v'Pe&Nc/9l;'',
    Get ''4886509183503403'',
    Put ''9206239616628049'' ''-_'Ba3Ky+82,M!1'',
    Get ''2885397181800650'',
    Get ''1127100791449830'',
    Put ''3931338628279891'' ''>04<!n36$-&r3-'',
    Put ''8033924202197503'' ''<E=,Ca/&x>Ve,6*,'',
    Put ''5474170040960099'' ''1/n?Wc$0&!5b;Ye6'',
    Put ''6408915986570119'' (''%Y;%?<'Gi&;v%1r'' @ [CHR 0x27]),
    Put ''8270373749993747'' ''0=$0#n1Em.E{0;1'',
    Get ''4515091579447301'',
    Put ''2277530029948304'' ''4-z;Ts0)>'',
    Put ''1127100791449830'' ''=+z*>87801Ag%U%0'',
    Get ''6526135905700731'',
    Get ''8502137115770724'',
    Get ''4626287080316522'',
    Get ''1004853045005653'',
    Put ''1453419624695364'' ''7G=1.|5]s.M3(1,0'',
    Put ''6766493359786260'' ''%;p/Dq'Wg#E-00*)'',
    Put ''2288582275523261'' '',Eo:Ki,1&5Jm.E+4'',
    Put ''6630405382502122'' ''0R+4;n>'',
    Put ''2750429125540792'' (''7F1%8t3R'-Ws=Uu'' @ [CHR 0x27]),
    Put ''7749878759829398'' (''1Dw+-(?2|'<6:[k'' @ [CHR 0x27]),
    Put ''6173026399286016'' ''$Wi*868)%X!69`2'',
    Get ''3106668262514810'',
    Put ''4160722665246763'' ''7]o75x2Ti.HkC/%'',
    Put ''1127100791449830'' '':!'',
    Put ''2056818909746284'' ''34*!Na=6r*$0*W}'',
    Put ''1709515506375118'' ''6_'<Iu-Oo3Q},C+0'',
    Put ''1127100791449830'' ''99,%2*7P{21.#12)'',
    Get ''6159186168446054'',
    Get ''7698233004913434'',
    Put ''8270373749993747'' ''&)v?L)'',
    Put ''4414948324153038'' '''',
    Get ''9105536400821644'',
    Put ''4283109898452483'' '''',
    Get ''3599991967720791'',
    Get ''5832867335200521'',
    Get ''8507943218814273'',
    Get ''5482523375195294'',
    Get ''1721485514441599'',
    Get ''1016465251092750'',
    Get ''5681600890834298'',
    Get ''6414722089613668'',
    Put ''7639356304079831'' ''8]i>6|5985z)5(4'',
    Put ''4419976151466604'' ''=M?'',
    Put ''7928534804371831'' ''/:.(U)'',
    Get ''2876243132979956'',
    Put ''4987212399309808'' ''1&&04(;B!0-p=(*1'',
    Put ''1247108695845445'' '')Bm;@q3Ig+(|9N9'',
    Get ''5937136812001912'',
    Get ''1127100791449830'',
    Get ''1127100791449830'',
    Get ''1127100791449830'',
    Get ''3564047245730916'',
    Get ''5354162136564484'',
    Put ''8295266226408665'' ''9F/-@==Y1$=t>D!5'',
    Get ''6406128001305115'',
    Get ''1222776179942668'',
    Get ''2754896992342218'',
    Get ''6535289954521424'',
    Get ''2655313697560095'',
    Get ''7460663536092909'',
    Get ''6863288669303379'',
    Get ''6867756536104805'',
    Put ''7797474654401259'' ''?*~.Pq(#848:+>4('',
    Put ''4414948324153038'' ''&E'-K33[k2Wi.'',
    Get ''5122398770787507'',
    Put ''5695441121674259'' ([CHR 0x27] @ ''D;,Ds2H/8>|;#(''),
    Get ''3127652832640443'',
    Put ''8994636471799811'' ''%-~*]/4'',
    Get ''2056818909746284'']"

definition run_34 :: "bench_op list" where
  "run_34 = [
    Put ''8511851125103558'' ([CHR 0x27] @ ''C+,Da&:b&,&>.<0''),
    Put ''1699801497042284'' ([CHR 0x27] @ ''%05S96,>''),
    Get ''6433677655002271'',
    Get ''2769515498912162'',
    Get ''1216410116386979'',
    Get ''4047220311168379'',
    Put ''3599991967720791'' '';Vk?J=<Y#-S/'',
    Put ''4047220311168379'' ''#N-1Q7(Cu+{,5$)'',
    Put ''6767613280810541'' ''*Ui7>0'929>&7Hy/'',
    Get ''2276970069436163'',
    Put ''6757680956259865'' ''/])'',
    Get ''3458999493199543'',
    Get ''1127100791449830'',
    Put ''2764180282455511'' ''!,4-Cc<&2)[++@3)'',
    Get ''1115488585362733'',
    Put ''8033924202197503'' '':T#(Oy![{>5n>!z&'',
    Get ''1589507601979502'',
    Put ''1467478170753167'' ''1&l*Au7Ik;'',
    Get ''5707053327761357'',
    Get ''3222768260621140'',
    Get ''1127100791449830'',
    Put ''8269813789481607'' ''$,j&]o$4'',
    Get ''9949207204549773'',
    Put ''6621033018463586'' ''9Vo?4$*,(<_)?Ke*'',
    Put ''2267597705397628'' ''1G#5*:>3>->4'',
    Get ''1127100791449830'',
    Get ''6636553130839969'',
    Get ''8164206076438093'',
    Get ''6647045415902785'',
    Put ''6973364249148319'' (''&@/%'x.6t2<8,W}'' @ [CHR 0x27]),
    Put ''2056600594528442'' ''<_c2Pq.>,50`=':5'',
    Get ''5324583478130298'',
    Get ''1695115315023016'',
    Put ''1127100791449830'' ''$$p?N=4'',
    Get ''7361080241310786'',
    Put ''5722231794843441'' ''?%n>187Ou:%j40<8'',
    Put ''8995460820976705'' ''-Xe;;,)&l.U{&=<)'',
    Get ''2518665759763816'',
    Get ''1127100791449830'',
    Put ''1025837615131285'' ''2;j#5j8Gk6Zk8@o;'',
    Put ''6059384558446089'' ''74b&Oe/%p+c,^3'',
    Put ''2775321601955710'' ''(+~')>7Tq+Lu!Y%,'',
    Put ''9220639807980150'' '',;1!>7V+I,%t;'',
    Get ''7939027089434647'',
    Put ''5127644913318915'' '';3|&.4!W5(Y%&1p*'',
    Put ''8527247907403484'' ''&98(^a:2l3&'',
    Get ''4996584763348343'',
    Get ''1915266474712896'',
    Put ''5937915087731894'' ''+_i.R+-_c>C}<=='',
    Put ''6159186168446054'' ''5+z2!(-54=[;34<0'',
    Put ''8286453822882270'' ([CHR 0x27] @ ''Ag>!|%:z772+Be?''),
    Put ''8637105172030582'' ([CHR 0x27] @ ''!4%L'=P#5I{:Lk2''),
    Get ''1960583560741305'',
    Get ''2180734720431185'',
    Put ''1125980870425549'' ''34(8W}93|3D/'',
    Put ''7707605368951969'' ''=Ik.M9.I%%K}:.j3'',
    Put ''3569853348774465'' '';Ig'1z'#n;$29#b/'',
    Get ''6622152939487867'',
    Get ''6285000175885219'',
    Get ''3449285483866709'',
    Get ''3956449419912651'',
    Get ''6164213995759621'',
    Put ''6988884361524701'' ''#M')_=%'>99&?Qi#'',
    Get ''1930444941794979'',
    Put ''3695107395701489'' ''&(65Me3Mc;78;E/,'',
    Get ''7687399074556319'',
    Put ''7331501582876600'' ''/)r:l6>*)V#;@19'',
    Put ''4767279554837770'' ''1#.$$*#-j3*'',
    Get ''7928534804371831'',
    Get ''8270373749993747'',
    Get ''8406461727277886'',
    Get ''1708955545862977'',
    Get ''6390949534223031'',
    Get ''4767279554837770'',
    Get ''2162208307571956'',
    Put ''4504599294384485'' ''<?$^y(Q-=>`8K{&'',
    Get ''5933010590494785'',
    Get ''2523693587077382'',
    Get ''1468598091777448'',
    Get ''8632418990011314'',
    Put ''2292490181812546'' '';Z+'',
    Get ''3348582268060305'',
    Get ''7928534804371831'',
    Get ''1127100791449830'',
    Get ''4982184571996241'',
    Put ''1342784084338284'' ''9L7(_!8h#Ae<4|:'',
    Put ''5092820112353322'' ''?_e.F%8J1-1l2@y?'',
    Put ''7833419376391134'' ''2R;!Ty+#0Xw7R'4'',
    Get ''8276179853037296'',
    Get ''4158634127255442'',
    Put ''9120496552685886'' '')'',
    Get ''6159186168446054'',
    Put ''5218634119792486'' ''%'t*D=!C14k>Be;'',
    Get ''4181846722133938'',
    Get ''3059966866797366'',
    Put ''3870535686026312'' ''$O3,5(#<8B}=$2'',
    Get ''5134010976874604'',
    Get ''2755115307560060'',
    Put ''5354162136564484'' ''<Hm3<0'(85;|#W}6'',
    Put ''1695115315023016'' ''6Z75H#8'<1Qy'',
    Get ''1825957149775746'',
    Get ''2171580671610491'',
    Put ''2282216211967572'' ''0U=9Q=0_-%6f8)d*'',
    Get ''2861064665897873'',
    Get ''7812653121483343'',
    Get ''6772299462829809'',
    Get ''3945957134849834'',
    Get ''8850634558278795'',
    Put ''2408590179918876'' ''&Y%(8&9Bw#'',
    Put ''4871890676933460'' ''+=v>*8?O;1!|(K31'',
    Put ''3222768260621140'' '''',
    Get ''7603693694129963'',
    Get ''5570965350477218'',
    Put ''1815123219418632'' '')5.-(>=Ag;):6^58'',
    Get ''6068756922484625'',
    Put ''5947069136552588'' ''?W%$5f'',
    Put ''3575099491305873'' ''-E};_o-J3'',
    Get ''5943161230263302'',
    Put ''3233042230466115'' ''0Uc']e29x'*.6X;8'',
    Get ''8391501575413644'',
    Put ''1245988774821165'' ''/4p6$v;Pc:C56:,!'',
    Put ''2754896992342218'' ([CHR 0x27] @ ''Y-%^/'!2%30'1j2''),
    Put ''8527247907403484'' ''-Xq/$z!Xo.)-1~?'',
    Put ''7822927091328317'' ''$Cg:Mk?>n?K109t.'',
    Get ''5335075763193114'',
    Put ''9110004267623070'' ''57f.6z%):5#x9-j>'',
    Put ''8980282353894621'' ''8;n+Y16?&)925S+'',
    Put ''8039730305241052'' ''3v*N=>G19%2&'f?'',
    Put ''8516755622340668'' '')B'Ja6#.40`&+j'',
    Get ''6497338290559161'',
    Get ''4545230198393627'',
    Put ''4545230198393627'' ''34b.:'',
    Get ''4047998586898362'',
    Get ''8270373749993747'',
    Get ''8753765130649052'',
    Get ''8269813789481607'',
    Put ''3483550324320162'' ''5=~2((>S5=>nT7)'',
    Get ''7562145027629296'',
    Put ''1829523410770733'' ''*Se&*n5B)5Ti;Lk&'',
    Put ''1950091275678489'' ''(@o>N31Ls&+:+Um.'',
    Put ''8884047004889642'' ''<9l;To)7l334>'',
    Get ''6169460138291029'',
    Get ''5701465539935650'',
    Put ''5585925502341460'' ''7]e?8f-S#5P9/0~.'',
    Get ''3589717997875816'',
    Put ''1583141538423813'' ''*Ns>7z0)~3%d#9>)'',
    Put ''9009861012328806'' '''',
    Put ''6168558532484590'' (''0Wg60z(H39;4Do'' @ [CHR 0x27]),
    Get ''6400881858773707'',
    Get ''8884606965401783'']"

definition run_35 :: "bench_op list" where
  "run_35 = [
    Get ''6280313993865951'',
    Get ''1583141538423813'',
    Put ''1935472769108546'' ''4<d#G12Wk^/*G?$'',
    Put ''2399217815880341'' ''-Cg?X)?)p/Dq41l6'',
    Get ''7083999789505399'',
    Get ''3715873650609279'',
    Put ''4077577245332547'' ([CHR 0x27] @ ''#f61:6?b65n7@m''),
    Get ''6159186168446054'',
    Put ''6043304485557566'' '',|*;p/<l&a!:*%'',
    Put ''9100071943072394'' (''1D7)=v([k>A'' @ [CHR 0x27]),
    Put ''8863280749981852'' ''/7,4Ng'',
    Put ''1136473155488365'' ''%='',
    Get ''5464797676921564'',
    Get ''3599991967720791'',
    Get ''2413836322450284'',
    Put ''1000726823498525'' ([CHR 0x27] @ ''Sy'=|',r.A/47v>''),
    Get ''8285552217075831'',
    Get ''8983848614889607'',
    Get ''7928534804371831'',
    Put ''3328717618958953'' ''4<z31l3J5-.6/Oa/'',
    Put ''3695667356213629'' ''!D'$q8Yu/+x)3*<'',
    Put ''1127100791449830'' ''/$f'-:%S/8;n#}+'',
    Get ''1237176371294770'',
    Get ''4967006104914157'',
    Put ''4876795174170569'' ''1V)<Z#-['1Gu<2(0'',
    Get ''8984408575401748'',
    Get ''2524471862807364'',
    Get ''4047220311168379'',
    Put ''1127100791449830'' ''%R};7f(Fa+4h/8~?'',
    Put ''3528229843003917'' (''!*&=-n!;2!Z'' @ [CHR 0x27]),
    Get ''8054130496593153'',
    Get ''3122406690109035'',
    Get ''2879591078757101'',
    Get ''7109452226432457'',
    Put ''7702359226420561'' (''3I'' @ [CHR 0x27]),
    Put ''7350806271465811'' ''&3%%p&1p26t7$l&'',
    Get ''7450731211542233'',
    Get ''6410035907594400'',
    Put ''9220639807980150'' '')Fy?O3*?d>9>+>r#'',
    Get ''4876576858952727'',
    Get ''6390949534223031'',
    Put ''5093380072865462'' ''>H#'',
    Put ''7345901774228702'' ''7D+4&l=S=1U5<Y5<'',
    Get ''4046878665874081'',
    Put ''1804630934355815'' ''<Y)=Gu'O?9Oe:5v&'',
    Put ''7119384550983133'' ''(R#09r'',
    Put ''3916938436927789'' ''0C9'',
    Put ''3238288372997523'' ''1Qw+<t3-$!p5]#,'',
    Get ''1025837615131285'',
    Get ''7230798367070196'',
    Put ''1237736331806910'' ''3X),/*-r'N;46<4'',
    Get ''1342005808608301'',
    Put ''3353268450079572'' ''66`6]u#]s+P+8E7%'',
    Put ''5118832509792520'' '';}*@i>G;<r<&&'',
    Put ''1906749643033888'' ''+Wo*H=>R10Qu-W'%'',
    Get ''7487571633258991'',
    Get ''7928534804371831'',
    Put ''3468931817750219'' '',34,7.5&'',
    Get ''3453411705373836'',
    Put ''1593073862974489'' '',W;Um#]-%,h('<='',
    Get ''6173026399286016'',
    Put ''6858042526771971'' ''?T#(Vo9R{._#97.<'',
    Get ''2768955538400021'',
    Put ''5332921856552874'' ''))~;U1?0~:,2&Q)('',
    Put ''5947069136552588'' ''10~&=d4B9'',
    Put ''1684623029960200'' ''=;d3<47.n/Y/8='',
    Get ''4635659444355057'',
    Put ''1452859664183223'' ''*?:8Mk(I)1H?;~6'',
    Put ''7698233004913434'' '',6h7^w<B-49$27:!'',
    Put ''2525031823319505'' (''1>j/9j'A}?+p5Ew'' @ [CHR 0x27]),
    Get ''7824047012352598'',
    Get ''9216171941178725'',
    Get ''1348590187381832'',
    Get ''8059936599636702'',
    Put ''1593633823486629'' ''=R#,-n'Gg>+81,n*'',
    Put ''2423550331783118'' ''8Ru;;44/x'M;7!z;'',
    Put ''2056600594528442'' ''7)>(Bs>W=!w9l.'',
    Put ''4173252633825385'' ''?@s+%d7@g?U)7Ra*'',
    Put ''4178498776356793'' ''C%4Hc)'',
    Put ''2870218714718566'' ''59$<Za66z+987'(4'',
    Get ''5112466446236831'',
    Put ''1362990378733934'' '')]c;&,+Su'1v,K/8'',
    Put ''6541096057564973'' '';><4Ri/E;!8-7<='',
    Get ''1121294688406281'',
    Get ''6751874853216317'',
    Put ''5238280453675995'' ''5@;4Rw'',
    Get ''5586143817559302'',
    Put ''7939027089434647'' ''4Q+9Dm'C==Q9*Dc>'',
    Get ''7689634577215493'',
    Put ''1950651236190630'' ''9V5)V70%|6/,>]c3'',
    Put ''6053796770620382'' ''?[))O1:2$%0:*8t#'',
    Get ''5173354428432211'',
    Get ''5464797676921564'',
    Put ''4891195365522671'' ([CHR 0x27] @ ''Cm/+66?&-Ly<6d#''),
    Put ''2056818909746284'' ''#'',
    Get ''7582569637242788'',
    Get ''9215393665448742'',
    Get ''4047220311168379'',
    Put ''6641340204080177'' ''7P98P798$Lq$.*0'',
    Get ''4655865738750708'',
    Get ''3916378476415649'',
    Get ''5208701795241810'',
    Put ''5103312397416138'' ''+W74?|(%f7Bk0Y#'',
    Put ''6159186168446054'' ''>Wq3721<r7V%0A?$'',
    Put ''6535289954521424'' (''0X/,O3610%A'' @ [CHR 0x27]),
    Put ''8285552217075831'' '',]wX-:04<0p/'',
    Get ''5470603779965112'',
    Put ''3700353538232897'' '':F!%),:8n>j'',
    Put ''3710627508077871'' ''>J-)3j=1>'',
    Get ''7928534804371831'',
    Get ''1127100791449830'',
    Get ''2759801489579328'',
    Put ''8744392766610517'' ''(/x&Gk'',
    Get ''3590837918900097'',
    Get ''7908670155270480'',
    Put ''4047220311168379'' '''',
    Put ''5570187074747236'' ''8Vu;9h9U7(3<68&!'',
    Get ''2180734720431185'',
    Get ''3458439532687402'',
    Put ''4655305778238567'' ''0r;@#0%>'',
    Put ''8044976447772460'' ''7Ne6(%#:,_c:Ne?'',
    Put ''1127100791449830'' ''6[}+:t/U?Qk'',
    Put ''8633197265741296'' ''1E14Ji(($0Uu;J-('',
    Put ''8270373749993747'' ''(Bs:D/-;89M=3Q#!'',
    Get ''3348923913354603'',
    Put ''3464463950948793'' '';=,'',
    Put ''1363208693951776'' ''8?,-Bw+Ys6P+<-b'',
    Get ''2504047253193872'',
    Put ''1101648354522772'' '')=f?6`&=b&Mm96r/'',
    Get ''7928534804371831'',
    Put ''7923070346622581'' ''066(V7'',
    Get ''6168558532484590'',
    Get ''2523693587077382'',
    Get ''3826167545672061'',
    Put ''9220639807980150'' ''6_!%%d8#z'Da,T)0'',
    Get ''2990444934332023'',
    Put ''6772859423341949'' ''$*$'',
    Put ''6163872350465322'' '',Q+'',
    Get ''7933562631685397'',
    Get ''5937136812001912'',
    Put ''4629853341311509'' ''8721Y#%'l3+63H7!'',
    Put ''5181137185732034'' ('';6n:B=0V99,z>Fk'' @ [CHR 0x27]),
    Get ''9111124188647351'',
    Put ''5696561042698540'' ''(Kq/96,Mi61~,.&5'',
    Get ''1603566148037305'',
    Get ''6163654035247480'',
    Put ''8869646813537541'' ''-5>5De>Fo?b,^u>'',
    Put ''7010709939563285'' ''<Y-16*=-j6$>>@;4'',
    Get ''9119936592173746'',
    Put ''1472505998066733'' ''2P-9!::8<:6[-0'']"

definition run_36 :: "bench_op list" where
  "run_36 = [
    Get ''1127100791449830'',
    Get ''8386815393394376'',
    Put ''2634547442652304'' ''>Ms&?f0e7?n7Uo+'',
    Put ''7224773948808805'' ''&E#%1*2O=$9f*'',
    Put ''2281997896749730'' ''?4l&&d9A#!Qo$+0%'',
    Put ''3593625904165102'' ''8L--*.?0:1/t8R+,'',
    Get ''4288574356201733'',
    Get ''9898928931414111'',
    Put ''5686287072853566'' ''%Pq;1./B1-Io4H;9'',
    Put ''6577679568523287'' ''0>><E38&>-Tg0#08'',
    Get ''6636553130839969'',
    Get ''1105774576029899'',
    Get ''5802728716254195'',
    Get ''6163654035247480'',
    Put ''8803772738086118'' ([CHR 0x27] @ ''[!5Z/=Sq&_1.6$,''),
    Get ''2513419617232408'',
    Put ''3002398785713419'' ''8c>6l&8<=Pm7>r&'',
    Get ''4414948324153038'',
    Get ''1352498093671118'',
    Get ''1700361457554424'',
    Put ''7537849906394654'' ''0(.(B++/`*:64S%'',
    Get ''8270373749993747'',
    Put ''6656417779941320'' ''(Wk*'',
    Put ''7928534804371831'' ''*$0!E#!@'<G/';<5'',
    Get ''1718887870413653'',
    Get ''4886509183503403'',
    Put ''1472505998066733'' ''.Nm*1'Fc&3l'$`;'',
    Put ''3528229843003917'' ([CHR 0x27] @ ''#4%D%),<)?6.L!<''),
    Put ''5807414898273462'' ''+2p:<h'',
    Get ''5464797676921564'',
    Put ''7928534804371831'' ''!+l:La,Y}#K{6P}6'',
    Put ''5224440222836034'' ''?p20-U?%*p/Y3-'',
    Get ''6641799273371377'',
    Put ''9090357933739560'' ''8=n30j0J')W{2U54'',
    Get ''6621592978975727'',
    Put ''6063510779953216'' ''&Jo'9+^7$/'',
    Get ''1610963058692032'',
    Put ''8537521877248458'' ''+8b6P?9=j.0p>X+$'',
    Get ''2870996990448548'',
    Get ''4056592675206915'',
    Put ''6766493359786260'' ''%)r;#z=6-]a$N18'',
    Put ''3930996982985592'' ''#Ue3_'=!'',
    Put ''1127100791449830'' ''*Hu**:?'',
    Get ''8069308963675237'',
    Get ''6531382048232139'',
    Put ''6968678067129051'' '')T{72(15`+Wk,'',
    Put ''6163654035247480'' ''&Eq!<'',
    Get ''5696219397404242'',
    Put ''1467819816047465'' ''6D-0F{44t?Fu&,d?'',
    Get ''5514694753139079'',
    Put ''5570965350477218'' '')R74+z5Y9=5~#M94'',
    Get ''1568741347071712'',
    Put ''8743272845586236'' (''.-~#Mo)Ge;M1#3d'' @ [CHR 0x27]),
    Put ''1127100791449830'' ''9C?4{04(8>'',
    Get ''1452859664183223'',
    Put ''2180734720431185'' '',C)0P7.6|3Ee%_!,'',
    Put ''3494602569895119'' ''!24-X57Da'?)1('',
    Put ''3222768260621140'' ''*;:)-'-$)^/+Vy7'',
    Get ''2011672493662050'',
    Get ''5364094461115159'',
    Get ''5701465539935650'',
    Put ''5181137185732034'' ''1[m?Jy#-f33*1D/'',
    Get ''4032260159304137'',
    Put ''2172700592634772'' ([CHR 0x27] @ ''S584$#F>Du<q2''),
    Put ''2278089990460444'' ''5<:<?Tc>+9=`/'',
    Get ''1468038131265307'',
    Put ''1105774576029899'' ''*Y%$Q72&|L;.T?9'',
    Put ''7475842003174993'' ''>^i?3<'3($Re5_-5'',
    Get ''4182406682646079'',
    Put ''5576771453520767'' ''=0<=:0=M!8U9<f*'',
    Put ''6486095686422472'' ''9V7898$!,,84M!'',
    Get ''2388165570305384'',
    Get ''1127100791449830'',
    Put ''8400655624234337'' ''%Ii2Sa?C54^e&X}3'',
    Put ''8270373749993747'' ''>'j&8|;2b/5:<8(9'',
    Put ''7209253836432423'' '')^y&$b#]q>I{5['-'',
    Put ''6159186168446054'' ''#W385z?[k;C',5f;'',
    Put ''5364094461115159'' ''&&h&$>=D}6$x<P3-'',
    Put ''4877136819464868'' ''/<`;T3+=l6D{(@3-'',
    Get ''2283336132991852'',
    Put ''5330738704374455'' ''29b2`=Ys7Mu8Vu?'',
    Put ''6742720804395623'' ''2%&$2*6?.9%*36,5'',
    Put ''7114138408451725'' ([CHR 0x27] @ ''%r*;*0U)9B5+/64''),
    Get ''1854288217719806'',
    Get ''7736496397408170'',
    Get ''5002950826904032'',
    Get ''7582569637242788'',
    Get ''1805750855380096'',
    Put ''4518999485736587'' ''.Z?-6~#^?,J{;?~2'',
    Get ''1010099187537061'',
    Put ''5817907183336279'' ''$f23b6Cs;(0/e2'',
    Put ''6878467136385463'' ''?Ha?1~,5&<$(4;.('',
    Put ''3252906879567466'' '':Ks:T7+Fy+X&-:)'',
    Put ''4633454400499588'' ''$Ec/J&X3,!v8T{>'',
    Get ''1944845133147081'',
    Get ''6873002678636213'',
    Get ''7749878759829398'',
    Put ''3936584770811299'' ''*H)'',
    Get ''5464797676921564'',
    Put ''3945957134849834'' ''/!%968R+-14:?*!'',
    Put ''1930444941794979'' ''3&6'',
    Get ''1127100791449830'',
    Put ''4967006104914157'' ''-Z?8Hy%Pe.A{35d>'',
    Get ''7742096002529574'',
    Get ''6184638605373113'',
    Get ''7537849906394654'',
    Get ''1127100791449830'',
    Get ''5335075763193114'',
    Put ''5681600890834298'' '':J'=/.+(r6[m4[s/'',
    Put ''4736362660161462'' (''-Q)<..>W/5@u:c'' @ [CHR 0x27]),
    Put ''2186540823474733'' ''%.t2Yy8O#16n#B&'',
    Put ''2041640442664200'' ''#7,%$p;$0#l940'',
    Put ''2528598084314492'' ''/L5%Wg56x3C56;)'',
    Get ''2539650329889448'',
    Put ''8768165322001154'' ''&Vi75&=To&Ek88<'',
    Put ''3117720508089767'' ''-..5)v;1)(,;^95'',
    Put ''4192898967708895'' ''7L+=Ue!9$9W;.[/-'',
    Put ''6751874853216317'' '',7|%,!F%4W9+!69'',
    Get ''4736362660161462'',
    Get ''1684623029960200'',
    Put ''7596409868082749'' ''+m?5,13$07*83>='',
    Get ''4655305778238567'',
    Get ''2649725909734388'',
    Get ''6762585453496975'',
    Get ''6510179162888664'',
    Get ''5696219397404242'',
    Put ''8396529402727210'' '''',
    Get ''5098066254884730'',
    Put ''8868868537807558'' '';4.(8v%Ls.*05H74'',
    Put ''7639356304079831'' '''',
    Put ''1246548735333305'' ''89f*Um-&283*/E%('',
    Put ''3358296277393138'' ''1Zu34n.Qu.!6*P#='',
    Put ''2523911902295224'' ''9p/7:#L}6V!)U?'',
    Put ''5702025500447790'' ''(L+1&t'',
    Put ''7639356304079831'' ''?(f6K52.b&=j>:|?'',
    Get ''6746628710684909'',
    Get ''4996584763348343'',
    Put ''1655641726706290'' '')9'',
    Get ''1127100791449830'',
    Get ''8753205170136912'',
    Get ''5474170040960099'',
    Put ''9100290258290236'' ''#/l/Qc>C{;Ao:Ig#'',
    Get ''7948741098767481'',
    Put ''1127100791449830'' ''-,l3v;&*$6&+5f.'',
    Put ''1708103152020371'' ''82$<Q%)_1$FkQs;'',
    Get ''4997704684372624'',
    Get ''5127644913318915'',
    Get ''5722231794843441'',
    Put ''5332921856552874'' ''-*49P9;Xa?=:?,h:'',
    Get ''3715873650609279'']"

definition run_37 :: "bench_op list" where
  "run_37 = [
    Get ''3916938436927789'',
    Get ''1336418020782595'',
    Get ''8295826186920806'',
    Put ''6283880254860938'' ''1Wu*+6!We&J57?n>'',
    Put ''3238288372997523'' ''(S#4Wi+Yk2!vT'5'',
    Put ''1127100791449830'' ''6D;$O=Tm_c,(69'',
    Get ''3820703087922811'',
    Get ''5802168755742054'',
    Put ''8270373749993747'' ''&^w3V}3*'',
    Get ''2423550331783118'',
    Get ''7582009676730647'',
    Get ''6042744525045426'',
    Put ''2635107403164445'' ''=-`>M'0P=-::3Du+'',
    Get ''5229126404855302'',
    Put ''7928534804371831'' ''=0x;=f*Ps.[?1#:,'',
    Get ''7113578447939585'',
    Put ''6390949534223031'' ''6<t!7;d*Yw9_?0'',
    Put ''6767613280810541'' ''9Y)0['7=<-Ju1U9$'',
    Put ''2180734720431185'' ''(+j3%v%G{*Xs/D1='',
    Put ''2180734720431185'' ''9U!<X+:_/4E='/j'',
    Put ''8034484162709644'' ''<(p#[99U}2P/+0f'',
    Put ''6033372161006890'' (''2%08Gq=>l?Ww15v'' @ [CHR 0x27]),
    Put ''9951390356728192'' '''',
    Get ''6630965343014262'',
    Put ''3945957134849834'' ''%?n/[u>(f*^c0F74'',
    Get ''8648157417605538'',
    Get ''7687399074556319'',
    Put ''5802168755742054'' ''48l'b*3`;=$.5b6'',
    Get ''3931898588792031'',
    Put ''8999928687778130'' ''/;.)0z'%0%423O;0'',
    Put ''6269821708803135'' (''.+x&-0Pu#^'6Su'' @ [CHR 0x27]),
    Get ''4629853341311509'',
    Put ''2644821412497278'' ''>5|':b/Q{:!'',
    Put ''5820695168601283'' ''2Lq?E)7:|7($>'f3'',
    Put ''7928534804371831'' ''4)&$:&<^k7_+5T55'',
    Put ''5128675760417953'' ''4-f?U+5[+%3.7u:'',
    Get ''6284440215373078'',
    Put ''2525031823319505'' ''2;l/8.(U)4+x<G.'',
    Get ''3111914405046218'',
    Get ''4393963754027405'',
    Put ''1362430418221793'' ''$805)>6'',
    Put ''3122625005326877'' ''*Y5(W+,A'154=^o>'',
    Get ''3942390873854848'',
    Get ''2966243226412012'',
    Put ''3816016905903543'' ''*O+8K%#,4%8`,D#!'',
    Put ''5832307374688380'' ''#:9R9>Si#Q7,0v*'',
    Put ''7819019185039032'' '',2:=9b5C'G-$/r&'',
    Put ''1004853045005653'' ''3/=M9>+r*Fu+'',
    Get ''1708955545862977'',
    Put ''2533625911628058'' ''1#$<(h'',
    Get ''2192906887030423'',
    Put ''6159186168446054'' ''&@=0Z/)P38$~2Iq3'',
    Get ''6290028003198785'',
    Put ''3122625005326877'' ''=4p/To8Om?508Q5<'',
    Put ''8170012179481642'' '';J5-7,(+:%;,<6.4'',
    Put ''7219186160983098'' ''0R-$U/#0j3,x9^e.'',
    Put ''2981072570293488'' ''*W-<@7'',
    Get ''1684623029960200'',
    Put ''8270373749993747'' ''0,j';z)Ra+Ww95`6'',
    Get ''2659439919067222'',
    Put ''5103312397416138'' ''<V+-+r8=f2/(2#44'',
    Put ''8618018798659212'' '':Y1!?86B;%_)):$8'',
    Get ''7893880673350414'',
    Put ''7455977354073641'' ''4-d*82-Y+%[y#4.0'',
    Put ''4534177952818671'' ''?X'93h&]q+0z2/0,'',
    Put ''6752434813728457'' '':Ia*Oi32:0Du4U91'',
    Get ''2635107403164445'',
    Put ''4125060055296895'' ''>%t3B#.E;8Ty-X;9'',
    Put ''7818800869821190'' ''+%b#K!&Z{67h>1t2'',
    Put ''5570690804353124'' ''(Ga6D'-T{/:8,G99'',
    Get ''3343336125528896'',
    Get ''1127100791449830'',
    Get ''1357184275690385'',
    Put ''3700353538232897'' ''!0z+;r>$j+(4!>9'',
    Put ''1353058054183258'' ''-*0,Z+9D!$Z#*Iw/'',
    Put ''2303542427387503'' ''!)0)P?!N%41d?%(5'',
    Put ''7340873946915135'' ''-&*0W96U=1P=(Z:'',
    Put ''1127100791449830'' (''#/r2Bu-/l/6~'=j'' @ [CHR 0x27]),
    Get ''3121846729596894'',
    Get ''1211163973855571'',
    Get ''8040290265753192'',
    Put ''5329269660149566'' ''&I;$T7U58/41%(('',
    Put ''6997696765051096'' ''$=z#Ty5(<9Ei-H','',
    Put ''4765941318595647'' '',A7=]'$22'',
    Put ''7360520280798645'' ''>Rg+Gu(86-Gk*58,'',
    Get ''5354162136564484'',
    Put ''5223101986593911'' ''8/$'',
    Put ''8758792957962619'' ''(R{:-*?I-'',
    Put ''9090357933739560'' ''=6'',
    Get ''6385703391691623'',
    Put ''3719999872116406'' ''1%9.28.>(Te,.x7'',
    Put ''4404237723872379'' ''6Wo:3<.I!54p;A;-'',
    Put ''8270373749993747'' ''3[o7Ys([=,W3-(x6'',
    Put ''3690421213682221'' '')+f*<b$4:4;>3;6$'',
    Put ''4400329817583094'' ''#6<=%).b2A)'$&8'',
    Get ''8048884354061745'',
    Put ''7356052413997219'' '')Ya&30<@u/)r63l'',
    Get ''3011771149751955'',
    Put ''1332851759787608'' ''33b/(<:Fu7Z+:W#'',
    Get ''8753205170136912'',
    Get ''6983856534211135'',
    Get ''1452859664183223'',
    Get ''4172474358095403'',
    Put ''1347470266357551'' (''7]=-4*%0l;,4.9h'' @ [CHR 0x27]),
    Put ''7944054916748214'' '':44Ke%8j#',!>p*'',
    Put ''6772859423341949'' ''&#t!~$V;51n.O+('',
    Put ''4997704684372624'' ''16r:Ne;)<14</-`.'',
    Put ''1708103152020371'' '';:<'',
    Get ''1252354838376854'',
    Get ''8184630686051585'',
    Get ''2816641707769592'',
    Put ''6047990667576834'' ''9!&$B/'t?O1'%<<'',
    Get ''5570405389965078'',
    Put ''1473625919091014'' ''=J=1&$92&)_;Kk*'',
    Get ''8276179853037296'',
    Put ''8647597457093398'' '''',
    Put ''3483550324320162'' ''2H-9U;<Ta&6|!=8('',
    Put ''3951203277381243'' ''=M7%;:2U-8:h8Ho3'',
    Put ''9902345384357096'' ''(Uy./z.Hs/2&)74='',
    Get ''2402224116363187'',
    Put ''1809609549705548'' ''.#f7'',
    Get ''8039170344728911'',
    Get ''6641239312859236'',
    Get ''4629853341311509'',
    Get ''8989436402715314'',
    Put ''3242974555016791'' ''+J?<'v;B-9'.4;x6'',
    Put ''8274841616795173'' ([CHR 0x27] @ '':8''),
    Put ''3016457331771222'' ''=54Y?5!v6e9a>'',
    Get ''9099511982560254'',
    Put ''5118832509792520'' ''(L+(9x3,.)@/!I1$'',
    Put ''7928876449666130'' ''=KsB->4j:X?&J11'',
    Put ''1127100791449830'' ''=Wg.1&%@;(D{40|:'',
    Get ''5278277279060374'',
    Get ''8305758511471482'',
    Get ''7747695607650979'',
    Put ''6288908082174504'' ''6Gc.;|&4h*641+|&'',
    Put ''5332921856552874'' ''/+rI/:X=%(d#*'',
    Get ''4650619596219299'',
    Get ''5128675760417953'',
    Put ''2513419617232408'' ''&V?(+j,%.974;E30'',
    Put ''7943494956236073'' ''+;t+Dw,]+-^;)%'',
    Get ''5696219397404242'',
    Get ''4856930525069218'',
    Get ''7928534804371831'',
    Put ''4997704684372624'' ''.0f6+z5G3(Hi-$b>'',
    Put ''3237946727703224'' ''%&`/#8:Oc:@}1&x6'',
    Put ''3342557849798914'' ''$36!Wa*+t.r&W?='',
    Get ''7691817729393912'',
    Get ''2292708497030388'',
    Get ''2055698988722003'']"

definition run_38 :: "bench_op list" where
  "run_38 = [
    Put ''2765389277405034'' ''1'f&/(.6p2'|1(89'',
    Put ''7460663536092909'' ''.+l./>&&*!Ei':l*'',
    Put ''6143447740851830'' (''$N}&Gw7@?0(09Ho'' @ [CHR 0x27]),
    Get ''8627391162697748'',
    Put ''4655865738750708'' ''7'',
    Put ''1347251951139709'' '''',
    Get ''8893979329440318'',
    Get ''9220639807980150'',
    Get ''5474730001472240'',
    Get ''2534185872140198'',
    Get ''8064062821143829'',
    Get ''7928534804371831'',
    Get ''1695115315023016'',
    Get ''6159186168446054'',
    Get ''3589717997875816'',
    Get ''5701247224717808'',
    Put ''4766501279107788'' ''>Vs.0~1$(85x2:(0'',
    Get ''5046076551212311'',
    Put ''1578673671622387'' ''*;v*^w6]%8Hq)^k#'',
    Get ''4992458541841216'',
    Get ''4856370564557077'',
    Put ''3569853348774465'' ''+,p&#<@!)7*7^}+'',
    Get ''2519225720275956'',
    Get ''1840575656345690'',
    Get ''4378785286945321'',
    Get ''7540033058573072'',
    Put ''8942175046485730'' ''>?j5(6M!9W$K{>'',
    Get ''4856370564557077'',
    Get ''4393745438809563'',
    Get ''3117160547577627'',
    Put ''1459225727738912'' ''.U#95&?.f&Hy+>`?'',
    Get ''2061286776547710'',
    Get ''1127100791449830'',
    Get ''6290028003198785'',
    Put ''8411147909297154'' ''-I7=[y+:>'',
    Put ''1127100791449830'' ''!&h2(p:+69Hs;9*<'',
    Put ''5701465539935650'' ''(U9,V/(S{+46-|7'',
    Get ''4289694277226014'',
    Get ''6583279173644691'',
    Put ''5600544008911404'' ''/Z#=G;2^5%4v==<)'',
    Get ''3222768260621140'',
    Get ''1825957149775746'',
    Get ''2292490181812546'',
    Put ''2056818909746284'' ''(,4Qu7:&=Yi0G!9'',
    Get ''7355274138267237'',
    Get ''6651171637409912'',
    Put ''7695234182336898'' '''',
    Get ''5008196969435440'',
    Put ''7928534804371831'' ''<'2474,^a+(z')<)'',
    Get ''9004614869797398'',
    Put ''2523693587077382'' '':(&5%,=My&[q$R?'',
    Put ''1127100791449830'' ''$r+>:('51>>M?1'',
    Get ''3927990682502746'',
    Put ''1593073862974489'' ''+K#8<9&$9Mm#Y{?'',
    Put ''6520329802657182'' ''1Fu7Mc8'896n3S35'',
    Get ''1127100791449830'',
    Get ''3353268450079572'',
    Get ''1715321609418666'',
    Put ''1222776179942668'' ''!Ye6G1$D152t5&4='',
    Put ''2071219101098386'' '':[;93l)5l6*|'',
    Get ''3826167545672061'',
    Put ''2278089990460444'' ''-M'03|6J!-'.2(0$'',
    Get ''8270373749993747'',
    Get ''3002057140419121'',
    Put ''1127100791449830'' ''.+`?Do(^7--v2V-9'',
    Put ''2987438633849177'' ''(d'&b4-z&.>=6f;'',
    Put ''1010659148049201'' ''?'',
    Put ''8627391162697748'' '''',
    Put ''1921072577756444'' ''+Re/x(?&1C-'',
    Get ''3247660737036058'',
    Get ''6406128001305115'',
    Put ''5548859282568936'' ''1,<5'',
    Put ''8642911275074130'' ''#F+5R#3A;4.r2Uy?'',
    Get ''8270373749993747'',
    Put ''4865742928595613'' ''%&r):0Xk3-*>-j3'',
    Put ''3831195372985627'' ''%@w7+l548)r&S;,'',
    Put ''7939027089434647'' ''#3*%/2%Q=8<*'G/-'',
    Put ''4626287080316522'' ''&8p.Ho%O153v.=&<'',
    Get ''1458105806714631'',
    Get ''6309892652300136'',
    Get ''1127100791449830'',
    Put ''1127100791449830'' ''+>f*Gm6.=J=*W=-'',
    Get ''7833419376391134'',
    Put ''2822241312890996'' ''23h#X1>'2=%b1_a;'',
    Get ''2302982466875362'',
    Get ''2760361450091468'',
    Get ''4519559446248727'',
    Get ''3705381365546463'',
    Get ''3112692680776201'',
    Put ''7224773948808805'' ''7=d??&$:l7:&'',
    Put ''2278089990460444'' ''%(2)@y$#,j'',
    Get ''8507943218814273'',
    Put ''6235031163988755'' '',S+='',
    Get ''4297728405022426'',
    Put ''5580679359810052'' ''><l7'',
    Get ''7556898885097888'',
    Get ''4997704684372624'',
    Get ''4032260159304137'',
    Get ''1603566148037305'',
    Put ''3217522118089732'' ''64l67b,#f&'',
    Put ''8511509479809259'' ''$G50>h3?f+X9#P#5'',
    Get ''5002390866391892'',
    Get ''4304094468578115'',
    Put ''7452069447784356'' ''8'j7$&<[g;.,3C7('',
    Put ''6489555533259338'' ''-A;(08,Eo*G1+%<$'',
    Put ''6163654035247480'' '''',
    Put ''4934084448784221'' ''+Bu'5>4T9,Du01j#'',
    Get ''8270373749993747'',
    Get ''2278089990460444'',
    Get ''3937144731323439'',
    Get ''8752426894406929'',
    Put ''1004853045005653'' ''=E5!A/5&`>1,,[7$'',
    Get ''7592494483887154'',
    Put ''3458439532687402'' ''!T?-L{.O;<M70/v'',
    Get ''6531382048232139'',
    Put ''5812661040804871'' ([CHR 0x27] @ ''A9)]7=Co*W1%$v2''),
    Get ''5580679359810052'',
    Put ''6997696765051096'' '':Z1$>t1;h&4n'',
    Put ''7481088145706401'' ''?X)$Dk'DkL!02>5'',
    Put ''3941830913342707'' (''(?|&;r;U;-!0-Ou'' @ [CHR 0x27]),
    Get ''2768955538400021'',
    Put ''1127100791449830'' (''*?b2C1/W;<,>&X'' @ [CHR 0x27]),
    Put ''1127100791449830'' ''$^y21z,:.%3~(@w+'',
    Get ''7098959941369641'',
    Get ''2781127704999259'',
    Get ''5952315279083996'',
    Put ''3112132720264060'' ''30<47>4[o.Mc7]q>'',
    Get ''8989094757421016'',
    Put ''8270373749993747'' ''(Q/.p)Y;84h)N35'',
    Put ''3584471855344408'' ''+Gc'4$94`.F%0L%5'',
    Get ''2861064665897873'',
    Put ''1127100791449830'' (''9B%4Hc=%8)>4!Jg'' @ [CHR 0x27]),
    Get ''4419976151466604'',
    Put ''1578113711110247'' ''&Zi>.>3[+5I9;Wi'',
    Get ''3107446538244793'',
    Put ''9084551830696012'' ([CHR 0x27] @ ''O;(.00|'Ss5-''),
    Get ''1814003298394351'',
    Put ''5696219397404242'' ''00|;'&Ja*K{#Z7!'',
    Get ''8274841616795173'',
    Get ''2041640442664200'',
    Put ''8642911275074130'' ''%*<1Kw2[+-N{;X7%'',
    Get ''6159186168446054'',
    Get ''3002057140419121'',
    Get ''1236834726000471'',
    Get ''5923296581161951'',
    Put ''3122625005326877'' ''$L-4%|35`2Rc9&.,'',
    Get ''4997704684372624'',
    Put ''3584813500638707'' ''=C-1]a<0|6;6%70,'',
    Put ''6385143431179482'' ''#Z}&H;'',
    Put ''3127871147858285'' ''($&,60(&8!$&&_'('']"

definition run_39 :: "bench_op list" where
  "run_39 = [
    Get ''1950651236190630'',
    Put ''2171580671610491'' ''7Bw#D+%3z7Do,F7('',
    Get ''8266247528486620'',
    Put ''1709515506375118'' (''$%f3U}6G14**'' @ [CHR 0x27]),
    Get ''7120162826713115'',
    Put ''5213947937773218'' ''<2x7'',
    Get ''1472505998066733'',
    Get ''2775321601955710'',
    Get ''6159186168446054'',
    Put ''7582351322024946'' ''/Oa3+f$9f/?(>Q'!'',
    Put ''5471163740477253'' ''6?b?&j9Ga21248l.'',
    Get ''5918050438630543'',
    Get ''3579225712813000'',
    Put ''5585365541829320'' ''1A7-1h*)f;E{2=(1'',
    Put ''4062398778250463'' '':V%5L9(*b3T/?/r*'',
    Get ''7590311331708735'',
    Put ''1583141538423813'' '',Pw*(z>H#-Ec'Z7<'',
    Put ''1237394686512612'' ''>Ck+/l)#f:(<$)4<'',
    Get ''9000488648290271'',
    Put ''1356624315178245'' ''=>`3)v%7.);r$G#'',
    Get ''5701247224717808'',
    Put ''2528598084314492'' '';.<9Wa/Ug3R5%2>8'',
    Put ''7928876449666130'' ''<Si-d04:()>3.|3'',
    Get ''3945957134849834'',
    Put ''4577458349285543'' ''&':!]u/-p65.F=$'',
    Put ''4069182177039828'' '';P#<G%31(8Eo'Jc6'',
    Get ''7908110194758339'',
    Get ''8275059932013015'',
    Get ''1593852138704471'',
    Put ''1452859664183223'' '']y'Sa&,8!,l/_5,'',
    Put ''5943721190775443'' ''(F)(B9#1p6De?':-'',
    Put ''7923288661840423'' ''7n2Ec5Ky+j+_1'',
    Get ''7928534804371831'',
    Put ''7928534804371831'' ''0U988$6?~N=3.`'',
    Put ''1096402211991364'' ''7S7!A!Bi>Vk?-l7'',
    Get ''2910365348154946'',
    Put ''7639356304079831'' ''8^k7]1-149'',
    Get ''3127652832640443'',
    Get ''2162768268084097'',
    Put ''1352156448376819'' ''*8$5'',
    Put ''8270373749993747'' ''/Za;_e>260Z;%Jg/'',
    Get ''3826509190966359'',
    Get ''2046326624683468'',
    Get ''4886509183503403'',
    Put ''8285552217075831'' ''3]c_s6-.$I?;&`>'',
    Put ''4972812207957706'' ([CHR 0x27] @ ''Lc;'6D)''),
    Put ''7581791361512805'' '',?.!R)#K}.S!9-~2'',
    Put ''7797474654401259'' ([CHR 0x27] @ ''68V'0Y?4Za:%`?''),
    Put ''9902345384357096'' ''<+4%Ea8W%(.0>Xq>'',
    Put ''7928534804371831'' ''9Yc2Rq/&~;Q/<Se*'',
    Get ''4635099483842917'',
    Put ''8516755622340668'' '';1x2;*#Uw?:z%0z+'',
    Get ''6042744525045426'',
    Put ''7354714177755096'' ''?'$=l5I79f*Dk'',
    Put ''2906381751926282'' ''5/t.3:5#n2+n.?>$'',
    Get ''7708165329464110'',
    Get ''5696219397404242'',
    Get ''5947069136552588'',
    Put ''8270373749993747'' ''3L1<Ay;n26(!,j;'',
    Put ''5474170040960099'' ''(]?8W'*F--5h/((5'',
    Put ''2960643621290608'' ''<+*!Ps-;01,t([m2'',
    Put ''6994348819273951'' ''7O;5G-6'',
    Put ''4394523714539545'' ''7_-8$4//8)_k>:t.'',
    Get ''1127100791449830'',
    Put ''2278089990460444'' ''1S%5%$9No3*f*=8%'',
    Get ''3599991967720791'',
    Put ''2151716022509140'' ''5P94<n>B{6/&=H+<'',
    Get ''6039309006279892'',
    Put ''8164424391655935'' ''2]9%-f4Ws'.*48<'',
    Put ''3112428292111447'' ''5Kq:Q%)>E15U!!'',
    Get ''6898113470268973'',
    Get ''4520337721978710'',
    Put ''6872442718124073'' ''%^g+J;>>65Qu/Z3!'',
    Put ''8270373749993747'' ''+O{0Rs?^'$0t#'',
    Get ''5112466446236831'',
    Put ''5223101986593911'' ''>(><.>59>,(:!K#<'',
    Get ''1452859664183223'',
    Put ''7708383644681952'' ''#I};%6-Ua30>7%n7'',
    Get ''8744392766610517'',
    Get ''6439277260123675'',
    Put ''7481972028137587'' ''#%,9Z/1W79[s>?d+'',
    Get ''3820921403140653'',
    Put ''4876576858952727'' ''/5|:6p=/'',
    Get ''6339954014616917'',
    Put ''8527029592185642'' ''>Di?Km>Pk>&20H;$'',
    Put ''7230238406558055'' ''&%>9Uw&02(4(+A!!'',
    Get ''2895329506351326'',
    Get ''4856370564557077'',
    Get ''5687406993877847'',
    Put ''8386815393394376'' ''?(!_5'!f#<f--8%'',
    Put ''1127100791449830'' ''7b0~%49!x-Y=9'',
    Get ''3700695183527195'',
    Put ''7812434806265501'' ''.K#,-l!+b#2:-Wq+'',
    Get ''6159186168446054'',
    Get ''1127100791449830'',
    Put ''3590619603682256'' ''2E'$9p2'~;48$Ks.'',
    Get ''6179610778059547'',
    Put ''3710845823295713'' ''8Ka!'',
    Get ''4987212399309808'',
    Get ''2046886585195608'',
    Put ''1940718911639954'' ''8.*4@)3^!4Wg,>,%'',
    Get ''8033924202197503'',
    Put ''4636219404867198'' ''3Dq;7n538$2<=Li2'',
    Put ''1342224123826143'' '''',
    Get ''3715313690097139'',
    Put ''2855818523366464'' ''#66(0x$[=5v2E%0'',
    Get ''1127100791449830'',
    Get ''4997704684372624'',
    Get ''9090917894251701'',
    Get ''6269261748290994'',
    Get ''5118832509792520'',
    Get ''6892867327737565'',
    Get ''4188212785689627'',
    Get ''1760564577334453'',
    Put ''7320449337301643'' ''2Q{7A966$438.+&%'',
    Get ''6339954014616917'',
    Put ''1579233632134528'' ''5[y;-?C%,7z0D'9'',
    Put ''3217522118089732'' ''3@#,WoE-=^?70'',
    Put ''4525365549292276'' '',Ha&T'.P%=0.5Ca;'',
    Get ''2302982466875362'',
    Put ''4992458541841216'' ''6=t#<|*J5!Be7;.4'',
    Put ''9206239616628049'' ''0Lk#<<==p.^/!;x7'',
    Put ''4505159254896626'' ''/z;,z1Y}.'',
    Put ''7566831209648563'' ''4&`;<<<a#9`#*8<'',
    Get ''8286453822882270'',
    Put ''6877907175873323'' ''!;5<h948?x_#5'',
    Put ''2302982466875362'' ''<Q)92>$I=1B1/(5'',
    Put ''5590051723848587'' ''(G/5?p1%($.1-z6'',
    Get ''4404797684384520'',
    Get ''1815123219418632'',
    Get ''1240742632289756'',
    Put ''4633454400499588'' ''1681Hw5/r.&`5'',
    Get ''6235031163988755'',
    Get ''4271245120996330'',
    Get ''1940718911639954'',
    Put ''3710627508077871'' ''+Q59G}4#|.3h<%'',
    Get ''5711179549268484'',
    Put ''9105536400821644'' ([CHR 0x27] @ ''M#(&0)4(?l2]/!''),
    Get ''5108340224729704'',
    Get ''8842851800978971'',
    Put ''6375616624566785'' ''>H;9&:9!(C!'',
    Get ''1015905290580609'',
    Get ''5364654421627300'',
    Put ''5928542723693359'' ''6Y#8Ts3-x;::'6,0'',
    Put ''4218783695682249'' ''=>.(;x?&*)O?&2='',
    Get ''3599991967720791'',
    Put ''2643701491472998'' ''5Ps+<p8JeGm.V{.'',
    Put ''8884047004889642'' ''2Sg6Q3)Kk':<?R)4'',
    Get ''5696219397404242'',
    Put ''4408923905891647'' ''?Qi&Ja,',98~*>>5'']"

definition run_40 :: "bench_op list" where
  "run_40 = [
    Put ''7928534804371831'' ''?X!0Qw4Y;-T+!'',
    Get ''7008189050113913'',
    Put ''9099511982560254'' ''1P5,=652x6;f$%r*'',
    Get ''5584805581317179'',
    Get ''4997704684372624'',
    Put ''3243534515528931'' ''7@i3'>#Zo68j%_o'',
    Get ''4967006104914157'',
    Get ''8517097267634966'',
    Put ''1955337418209897'' ''+$2!H?9,*9Ha8H!'',
    Put ''1127100791449830'' ''1.&9'',
    Put ''3926870761478465'' '';%$$J!Fu.8b+!2!'',
    Get ''2408030219406736'',
    Put ''6636771446057811'' ''<$0(_)5C}/J33J'',
    Get ''2968426378590431'',
    Get ''9221978044222273'',
    Get ''6159186168446054'',
    Get ''8411147909297154'',
    Get ''4765941318595647'',
    Put ''5820695168601283'' ''#'',
    Get ''7819019185039032'',
    Put ''3357736316880998'' ''<Kw2^%:d*(v.0j>'',
    Put ''1101648354522772'' ''0P;(3<Zw7V3:'',
    Put ''4892315286546952'' ''0G='',
    Put ''7585917583019933'' ''8<l.<0:Ro*];!P35'',
    Get ''4157295891013319'',
    Get ''5464797676921564'',
    Put ''5274860826117388'' ''7Nm7S='',
    Get ''1127100791449830'',
    Get ''8155611988129540'',
    Get ''6394515795218018'',
    Get ''4987212399309808'',
    Get ''7812994766777641'',
    Get ''7361080241310786'',
    Get ''1828963450258593'',
    Get ''1127100791449830'',
    Get ''2765389277405034'',
    Get ''4168348136588276'',
    Put ''4625727119804382'' ''0+v#He070,@;;F%('',
    Put ''1025837615131285'' ''77'',
    Get ''6235031163988755'',
    Put ''7119944511495274'' ''?S}>W;*I-0Fm?3l7'',
    Get ''2166894489591224'',
    Get ''7355274138267237'',
    Get ''1127100791449830'',
    Put ''5459769849607998'' ''108!!4.Nm'M5&K)'',
    Put ''7224773948808805'' ''$Vy6Fe*'',
    Put ''6994348819273951'' ''2$l:)t<>8()b5(n&'',
    Get ''3127652832640443'',
    Get ''1604686069061586'',
    Put ''6437094107945257'' ''4!`>%n4@+!l8'',
    Put ''3458999493199543'' ''.Hq>H?-Eq;>!We6'',
    Get ''5942942915045460'',
    Put ''6869094772346928'' '':O9!6>!/,4Yk7K=='',
    Get ''8170012179481642'',
    Get ''7923848622352564'',
    Put ''7686839114044179'' ''?E9'',
    Put ''7807966939464075'' ''3*jL10=v/Be;=`6'',
    Get ''5134010976874604'',
    Put ''8863062434764010'' ''2O7'',
    Put ''2413276361938144'' ''*V/0/f$!v&Ui&a'',
    Put ''2754555347047920'' ''6U!$F}-'',
    Get ''8033924202197503'',
    Put ''2644479767202980'' ''%=z'+..1'',
    Get ''5706493367249216'',
    Get ''5113804682478954'',
    Put ''7355834098779377'' '':>8)Xu+O}>Fc1U5('',
    Get ''5696219397404242'',
    Put ''1231930228763362'' ''(Iq:N%',j+O}:6b/'',
    Put ''7455977354073641'' '')6|#J9Ta2I--7j3'',
    Put ''8150365845598132'' ''='h;#03I#8Jc53:9'',
    Get ''6746628710684909'',
    Get ''3002617100931261'',
    Put ''4876795174170569'' ''?6(4.4<:f'(.;V?'',
    Get ''4871549031639161'',
    Put ''4992116896546917'' ''0B71<t1|S+)6<'',
    Put ''7575985258469257'' '';&(,^o.Y#,,6D%$'',
    Put ''6179392462841705'' ''%589P#5#&%&>+])1'',
    Put ''7537849906394654'' ''+T}'%`3'',
    Put ''6591061930944515'' ''(v?,r1)2(/0*Ze/'',
    Get ''8270373749993747'',
    Get ''9200993474096641'',
    Get ''3945957134849834'',
    Get ''3101640435201244'',
    Put ''1105556260812057'' ''/Wy>Uc4Q/(]{4@)8'',
    Put ''6043304485557566'' ''$2x.A?4$08]}.8*8'',
    Put ''1127100791449830'' ''18(0?t;L;C93)&<'',
    Put ''7747695607650979'' ''<4<4Wa8Vk>L{.Dy?'',
    Get ''3835881555004895'',
    Get ''1127100791449830'',
    Put ''6039309006279892'' ''+^'1Mg368'',
    Get ''8752426894406929'',
    Put ''1127100791449830'' ([CHR 0x27] @ ''R%(/(2Pw6^o%,$$''),
    Get ''8421640194359970'',
    Get ''1757148124391467'',
    Get ''7684034972094089'',
    Put ''1487684465148817'' ''<F3-Kc$Le&H1Ry7'',
    Get ''5686287072853566'',
    Get ''4069182177039828'',
    Get ''8636545211518441'',
    Get ''3714753729584998'',
    Put ''2650285870246529'' '')X?0$69'',
    Get ''6159186168446054'',
    Get ''2288022315011120'',
    Put ''5701465539935650'' ''8O='',
    Get ''7639356304079831'',
    Get ''4524245628267995'',
    Get ''3599991967720791'',
    Put ''1105774576029899'' ''$Bq>+f11*(CcYa?'',
    Put ''2857903922840864'' ''$*.8^o982=:j$(d3'',
    Get ''7355834098779377'',
    Get ''5364094461115159'',
    Put ''7672220607474235'' ''*[k*96&(2%F'1,'',
    Put ''9105318085603802'' (''-@u2N{$Y#,R=/]m'' @ [CHR 0x27]),
    Get ''9863266321464243'',
    Put ''2011672493662050'' ''/'h>(j*Q3(,>?,n#'',
    Put ''7944054916748214'' ''('p#'',
    Put ''2291930221300406'' ''5=&(C}35>9A5(L'',
    Get ''1356624315178245'',
    Put ''8536961916736318'' ''+Fq'Jm3'.8Z)18|7'',
    Get ''7948741098767481'',
    Put ''4047220311168379'' ''.6f.-68Y{6-*8P&'',
    Put ''8767605361489013'' (''*=6-D'' @ [CHR 0x27, CHR 0x27] @ ''P9''),
    Put ''7933562631685397'' ''0Ma'5f8G9'',
    Put ''6863848629815520'' ''&2n>h2%|>%n'P!4'',
    Put ''5238840414188136'' '')001&<5'',
    Get ''7465909678624317'',
    Put ''9004614869797398'' (''&K{*'' @ [CHR 0x27]),
    Put ''4881823001484136'' ''6Cw:[y#;d2H78Iy:'',
    Get ''2968426378590431'',
    Get ''3127652832640443'',
    Put ''2282216211967572'' ''-'x2(p<@9'',
    Get ''4052684768917629'',
    Get ''5570187074747236'',
    Get ''5333955842168833'',
    Put ''5233812586874570'' ''9E}>T})%48#h#Do'',
    Get ''1704487679061551'',
    Put ''7928534804371831'' ''2D;,;.;E#%%l'',
    Put ''1127100791449830'' ''9Tq:7,$)`N?>Wm?'',
    Get ''4636219404867198'',
    Get ''6761807177766992'',
    Put ''8270373749993747'' '''',
    Get ''8266247528486620'',
    Put ''5103872357928278'' ([CHR 0x27] @ ''G/!;*$!h&;l1[w>''),
    Get ''8270373749993747'',
    Put ''3252906879567466'' ''1T;4C9As2E?:Ye7'',
    Get ''5576771453520767'',
    Put ''5081813940225276'' ''1Ko3Dy?Fk/Pe:2~3'',
    Get ''1700361457554424'',
    Put ''6159186168446054'' ''8S+8'',
    Get ''1127100791449830'']"

definition run_41 :: "bench_op list" where
  "run_41 = [
    Put ''3217522118089732'' ''.H)=;|:B5,%l9Po2'',
    Put ''1347470266357551'' ''(**,:v+RcKc1?z?'',
    Get ''2885957142312790'',
    Get ''8275059932013015'',
    Get ''4972812207957706'',
    Put ''8884047004889642'' ''%;n/Ci6+f?[7#4h+'',
    Put ''1867670580141034'' '',1'',
    Get ''7210373757456704'',
    Get ''4047220311168379'',
    Get ''9215393665448742'',
    Get ''7576545218981397'',
    Put ''1574547450115260'' ''0^u39d-188'.74.)'',
    Put ''9114130489130197'' ''9^a25$(9b;3d&>6)'',
    Put ''4294162144027440'' ''7<8-+|$Gs77'',
    Put ''2855818523366464'' '';Q=5Jm-6,8Ga'J!9'',
    Put ''5470603779965112'' ''*5h/='',
    Put ''3927990682502746'' ''<Ga*^m6Wa>0~3R)9'',
    Put ''3001497179906980'' ''![)8!4#S/1!|!X=5'',
    Get ''5203455652710402'',
    Get ''7099738217099623'',
    Put ''1589507601979502'' ''?Q!!E=.V}&j6L!4'',
    Get ''6235031163988755'',
    Get ''4294722104539580'',
    Put ''1127100791449830'' '',6z+!>4Le*1f+-$$'',
    Get ''8618018798659212'',
    Put ''1005631320735635'' ''=,z?%N)0Y2Qs;'',
    Put ''4297728405022426'' ''[s/;<#Hi7+:0L}:'',
    Put ''1015345330068469'' ''4C:Gc0X/,_c#V}*'',
    Get ''7537849906394654'',
    Get ''1453419624695364'',
    Put ''1467819816047465'' ''*Qs+'',
    Get ''4997704684372624'',
    Get ''3931556943497733'',
    Put ''9009861012328806'' ''.8`3?r>I9($b8(('',
    Get ''5464797676921564'',
    Get ''4655305778238567'',
    Put ''7928534804371831'' ''/#4=_wR='',
    Put ''3599991967720791'' ''$_y.?2/+$4Yk8;j7'',
    Get ''5233598611046116'',
    Put ''8045536408284600'' ''=),9)7Cc*&b.:`;'',
    Get ''6762585453496975'',
    Get ''5916930517606262'',
    Put ''9195187371053092'' ''>O-<9>K+'',
    Get ''3444039341335301'',
    Put ''7928534804371831'' ''(6<-I'55<=Zc3>,9'',
    Put ''4871549031639161'' ''*D/58b-C/Sg=-j/'',
    Put ''7350587956247969'' ([CHR 0x27] @ ''>69Zk-A+0+`;;z3''),
    Get ''7481088145706401'',
    Get ''6178832502329564'',
    Get ''4414730008935196'',
    Put ''6042184564533285'' ''..t#Nk7K{Eu9080'',
    Get ''4518999485736587'',
    Put ''3936584770811299'' '':2)O/<Cq2Ge=&28'',
    Put ''8280647719838722'' ''9P)9Uu*Ou3Lk31,)'',
    Put ''2413058046720302'' ''7Hq:G1)!.$=j3+t;'',
    Put ''4634881168625075'' '',0l.Kc8*.)X{+;j#'',
    Get ''3222768260621140'',
    Get ''2312914791426038'',
    Put ''1127100791449830'' ''96l/00)Y5!D};#n.'',
    Get ''8270373749993747'',
    Put ''6892867327737565'' '''',
    Get ''7812994766777641'',
    Put ''6042744525045426'' ''8Yi*U12&~?Ha:<r;'',
    Get ''1127100791449830'',
    Get ''3343896086041037'',
    Get ''2644261451985138'',
    Get ''4038066262347686'',
    Put ''8270373749993747'' ''(?f>_s/K7<2:<?$='',
    Put ''3126532911616162'' '''',
    Put ''7119944511495274'' ''&!&(+4,Aw+Qg#U;='',
    Get ''7009308971138193'',
    Get ''7642772757022816'',
    Get ''7591163725551341'',
    Get ''6973924209660459'',
    Get ''6159186168446054'',
    Put ''1699801497042284'' ''%2n/?*!Ba+'*<+l>'',
    Put ''9898928931414111'' ''?Ra/K?).*(=,6<8'',
    Get ''3945957134849834'',
    Get ''8045536408284600'',
    Get ''6159186168446054'',
    Put ''4424102372973731'' '')^-,4r75`?F9468,'',
    Get ''7928534804371831'',
    Put ''6151301108707982'' ''5#f':v=..112'',
    Get ''2302982466875362'',
    Put ''4022320356847152'' ''7U74_a%(>8P7(/x'',
    Put ''9119376631661606'' ''$P59*r/Vk.6`9+'',
    Put ''5238280453675995'' ''+!r2f37&9E5=.2-'',
    Get ''1453419624695364'',
    Put ''7571517391667831'' ''*<4,*'',
    Put ''3018704651726094'' '')Z1,Z'?1>$_y%Ci:'',
    Put ''5459551534390156'' ''&'>-->(6*)Yw#7'',
    Get ''1584479774665936'',
    Put ''5233598611046116'' ''(><!Z915h#6f'',
    Get ''2768955538400021'',
    Get ''2388165570305384'',
    Get ''1105774576029899'',
    Put ''2387605609793244'' ''+O}/)(9Ug36l%$j>'',
    Put ''1709733821592960'' '''',
    Get ''7456755629803624'',
    Put ''4982744532508382'' '';&$0:<%r#:(7:z;'',
    Get ''5590611684360728'',
    Put ''3590619603682256'' ''/$l;-8!:2=:d?Wo*'',
    Put ''5233598611046116'' '',Xw'3n:O72t%80$'',
    Get ''4178840421651092'',
    Put ''8803772738086118'' ''45.'',
    Get ''8029797980690376'',
    Get ''7209253836432423'',
    Get ''8848662243411908'',
    Get ''6159186168446054'',
    Put ''4268149746588241'' ''&C!8Ji)5b'_#*Mm6'',
    Put ''5424462344759809'' ''1C?)Ok*'',
    Put ''2659439919067222'' ''%]m*!j7N-(~$-0('',
    Put ''7209813796944563'' ''/-<<2<0W!9La#Dy'',
    Get ''3127092872128302'',
    Put ''2312914791426038'' ''5'',
    Put ''5233594271656728'' ''3#`?M+'',
    Put ''7466469639136458'' (''0M+4&,/=(1Zm=+n'' @ [CHR 0x27]),
    Get ''4886509183503403'',
    Get ''7457315590315764'',
    Put ''4524463943485837'' ''6C'=#,&&>%Egw3'',
    Put ''5696219397404242'' ''1;h7S}'K7(h9F)0'',
    Put ''6998256725563237'' ('':Vq?6:>Is&!&*D}'' @ [CHR 0x27]),
    Get ''6163654035247480'',
    Get ''3002398785713419'',
    Put ''5817688868118437'' ''.I3-W;9Q?5M}+;24'',
    Put ''8947774651607134'' ''+>t7]#'L?)8'',
    Get ''8878240901846094'',
    Get ''7949301059279622'',
    Get ''2634329127434462'',
    Put ''3584813500638707'' ''<]g;!6)(f2[#4,&='',
    Put ''3937363046541281'' ([CHR 0x27] @ ''=*4F#-Zu*Dm:]e+''),
    Put ''7928534804371831'' ''&t:%,?Lk7P-'',
    Get ''3926870761478465'',
    Get ''7707605368951969'',
    Put ''3579225712813000'' ''+I3)U#$;8,Zy226-'',
    Put ''1336977981294735'' '';Jq+G57Mo3R1#9|;'',
    Put ''8274841616795173'' ''7R/$'',
    Put ''8270373749993747'' ''(5'',
    Get ''1005631320735635'',
    Put ''3945957134849834'' ''-A?,j%_71H/,(`?'',
    Put ''5233598611046116'' ''1s&-l?W3<H{%_%!'',
    Put ''7596969828594889'' ''#;|3E=A7=L;$Ji.'',
    Put ''7928316489153989'' ''1F%)Q7+(b><8*79'',
    Put ''8270373749993747'' ''>H;$/2--j3.'',
    Get ''7537849906394654'',
    Put ''4378785286945321'' '''',
    Get ''8893979329440318'',
    Get ''5696219397404242'',
    Put ''3243534515528931'' ''3Ba>:~.L?8#4'',
    Get ''7008749010626053'']"

definition run_42 :: "bench_op list" where
  "run_42 = [
    Put ''8999928687778130'' (''-Pq.+t&I3$U'==d'' @ [CHR 0x27]),
    Put ''1127100791449830'' ''#5b'2j(A7Ew>S9<'',
    Put ''5586143817559302'' ''#:l6h,8<-Q%73.('',
    Get ''3131779054147570'',
    Get ''7446263344740807'',
    Put ''8743272845586236'' ''53l?Ae4L/$_-3Da#'',
    Put ''8034484162709644'' ''?!n3:60^{2H7'',
    Get ''1951211196702770'',
    Get ''5696219397404242'',
    Get ''4283109898452483'',
    Put ''7818800869821190'' ''*@s:?8:E!8C1%[94'',
    Put ''4534737913330811'' ''3Lo22h8V!8C/!Uo.'',
    Get ''4886509183503403'',
    Put ''5355282057588765'' ''+0r7@?><t'Sg2/&1'',
    Put ''7119602866200975'' (''>;f?I1-;,0I/)*l'' @ [CHR 0x27]),
    Get ''2046326624683468'',
    Put ''8400655624234337'' '';$$<'',
    Get ''4871330716421319'',
    Put ''6525917590482889'' ''8<h3Za+@}.V;.Lw>'',
    Get ''1693995393998735'',
    Get ''7597529789107030'',
    Get ''7934682552709678'',
    Put ''3820143127410670'' ('',Z#1O=6%6!&~//d'' @ [CHR 0x27]),
    Put ''7230580051852354'' ''$M;$^33,4)y!Sg6'',
    Put ''3222768260621140'' ''63<R7!9`>.2:Xu*'',
    Put ''5937915087731894'' [CHR 0x27],
    Put ''5952875239596136'' ''8I!%%l<1b2h+Ho*'',
    Put ''2398657855368200'' ''%K>',Zu:R3+P-$'',
    Get ''6304646509768728'',
    Get ''4022320356847152'',
    Get ''5450397485569462'',
    Get ''2913781801097931'',
    Get ''1121513003624123'',
    Put ''7355834098779377'' '',/t>@;(^39[%39p7'',
    Get ''8275401577307314'',
    Put ''5272677673938969'' ''5$<<H':7&8Xq..j.'',
    Get ''6505711296087238'',
    Get ''6867756536104805'',
    Put ''8385695472370095'' '';+b29f4Z/)E{55'',
    Put ''4997704684372624'' ''?X%='',
    Get ''8984750220696046'',
    Put ''1127100791449830'' ''<N{*Rs+2&)'',
    Get ''4534737913330811'',
    Get ''5797482573722787'',
    Put ''4399769857070954'' ''6P)!'b4J{'*%Sq#'',
    Put ''1810996997911504'' ''+2t:4t(K}>I'-_?!'',
    Put ''8412267830321435'' ''38$-56=&&'',
    Get ''4997704684372624'',
    Get ''6033372161006890'',
    Get ''3342776165016756'',
    Get ''3599991967720791'',
    Put ''7928534804371831'' ''(C5%Y?0>~7>|#-61'',
    Put ''5937915087731894'' ''>D=)M72;d;y4Go/'',
    Put ''2645039727715120'' '',A-9+j?;|*-'',
    Put ''6159186168446054'' ''(I50G%6=81Ok&9<!'',
    Get ''4066999024861410'',
    Get ''1362990378733934'',
    Put ''1241302592801897'' ''Tw[i'',
    Get ''7598094089008558'',
    Get ''7008189050113913'',
    Get ''6386815834809594'',
    Put ''6159186168446054'' (''3L}6[u-@38=4<9b'' @ [CHR 0x27]),
    Get ''4515651539959442'',
    Get ''6159186168446054'',
    Put ''5575651532496486'' ''!Dw*;>26zG?92<('',
    Put ''3936243125517000'' '';Jg(8);l>#l)`&'',
    Get ''1127100791449830'',
    Put ''7567391170160704'' ''-)&8Wk)[1'',
    Put ''6054356731132523'' ''=_c39n>Y9$;n/%.0'',
    Get ''4887069144015544'',
    Get ''3465023911460933'',
    Get ''1112140639585588'',
    Get ''2910365348154946'',
    Get ''7008749010626053'',
    Get ''7581791361512805'',
    Get ''2056040634016302'',
    Put ''2278089990460444'' '')1$1Ws'',
    Put ''1127100791449830'' ''>U),[u,Ty+E}&Am&'',
    Get ''2880929314999224'',
    Put ''5424462344759809'' ''2U>Po4Ow?X#6%t+'',
    Put ''4393745438809563'' (''5#t#B'' @ [CHR 0x27, CHR 0x27] @ ''G?$@q=.r6''),
    Put ''4166322270368168'' ''6T)'',
    Get ''7446309418187719'',
    Put ''9119376631661606'' ''4.t&3j=8z22*;/'',
    Get ''8270373749993747'',
    Get ''2745742943521525'',
    Put ''1225782480425514'' '':'z.0&<Xi';`.Nq'',
    Put ''2634547442652304'' ''$t#[?':%!~:Sg:'',
    Get ''1127100791449830'',
    Get ''7747695607650979'',
    Get ''7341433907427276'',
    Put ''3102200395713384'' '':Z--!2=G%58p'Zw#'',
    Put ''1222216219430528'' '',(85G/*R;$Ks.E'!'',
    Get ''8054690457105294'',
    Get ''3348022307548164'',
    Put ''4871549031639161'' ''0M}*2v)H)4O!%(><'',
    Put ''1799944752336548'' ''@w:0<(S+8)h1Jy2'',
    Put ''9752743865714676'' ''!Ay*0t>Wm?2<!&6%'',
    Get ''6042744525045426'',
    Put ''7234706273359481'' ''%2(M#/+'',
    Put ''3349142228572445'' ''3@c>J7%><47p0Tm:'',
    Put ''8798173132964713'' ''/:bT=?Q!%^k7Fm>'',
    Put ''8854051011221780'' ([CHR 0x27] @ ''Zi:A5/7tPg(Yw#''),
    Put ''7345341813716561'' '')O!,:r'A1,^a-Eo?'',
    Get ''3835881555004895'',
    Put ''2407811904188894'' ''=_-%0h,.04+:#41'',
    Get ''6746628710684909'',
    Get ''3584253540126566'',
    Get ''4178840421651092'',
    Get ''4524245628267995'',
    Put ''2861064665897873'' ''0]y?W-%Ug:As=8v&'',
    Get ''8864400671006132'',
    Get ''7797256339183417'',
    Get ''1106334536542039'',
    Get ''4047220311168379'',
    Get ''8396529402727210'',
    Put ''9220858123197992'' ''6Qq*%t9S!5i(Oe*'',
    Get ''3126532911616162'',
    Get ''7691817729393912'',
    Put ''8641791354049849'' '':-h#_i#]'!=l;Ty7'',
    Get ''3113252641288341'',
    Put ''5133451016362464'' ''6D7-J9'D58Vc=%0='',
    Put ''8758232997450478'' ''+5&$'',
    Put ''6511517399130787'' '';%*5M?'',
    Put ''1216410116386979'' '')84_%,&r*',00z'',
    Put ''7747695607650979'' ([CHR 0x27] @ ''<|./.*Hc?!x$Z9)''),
    Get ''1810437037399364'',
    Get ''1693995393998735'',
    Get ''5128204873831056'',
    Put ''4376167971624493'' ''3L;89d:Vk7Ou>O+8'',
    Put ''7928534804371831'' (''8J%)F?:@'' @ ''{/L5$&|2''),
    Get ''6752434813728457'',
    Put ''5827061232156972'' '')(&42|)6r*G!=)0$'',
    Put ''2523693587077382'' ''-#4)]q'$4S/+U='',
    Get ''3956449419912651'',
    Get ''6405568040792975'',
    Get ''4534737913330811'',
    Get ''6535289954521424'',
    Put ''1222216219430528'' ''#8~33|C9'',
    Put ''5470603779965112'' ''([{6Ko,<0<Xy91:1'',
    Put ''2655313697560095'' '')6p'L%.3$(^?5Kw7'',
    Put ''4997704684372624'' ''.U74[k>^'<T53<,)'',
    Get ''6173026399286016'',
    Get ''5817907183336279'',
    Put ''7450949526760075'' ''/6j&J}'',
    Put ''7098399980857501'' ''9,`2Hk4K%--.%(n7'',
    Get ''5932108984688346'',
    Get ''6390389573710891'',
    Get ''5817688868118437'',
    Get ''7942934995723933'']"

lemma run_29_tally: "tally run_29 0 0 (63, 87)"
  by (unfold run_29_def) (simp only: tally_steps cong: tally_cong, simp)

lemma run_30_tally: "tally run_30 0 0 (65, 85)"
  by (unfold run_30_def) (simp only: tally_steps cong: tally_cong, simp)

lemma run_31_tally: "tally run_31 0 0 (79, 71)"
  by (unfold run_31_def) (simp only: tally_steps cong: tally_cong, simp)

lemma run_32_tally: "tally run_32 0 0 (70, 80)"
  by (unfold run_32_def) (simp only: tally_steps cong: tally_cong, simp)

lemma run_33_tally: "tally run_33 0 0 (71, 79)"
  by (unfold run_33_def) (simp only: tally_steps cong: tally_cong, simp)

lemma run_34_tally: "tally run_34 0 0 (69, 81)"
  by (unfold run_34_def) (simp only: tally_steps cong: tally_cong, simp)

lemma run_35_tally: "tally run_35 0 0 (78, 72)"
  by (unfold run_35_def) (simp only: tally_steps cong: tally_cong, simp)

lemma run_36_tally: "tally run_36 0 0 (79, 71)"
  by (unfold run_36_def) (simp only: tally_steps cong: tally_cong, simp)

lemma run_37_tally: "tally run_37 0 0 (87, 63)"
  by (unfold run_37_def) (simp only: tally_steps cong: tally_cong, simp)

lemma run_38_tally: "tally run_38 0 0 (67, 83)"
  by (unfold run_38_def) (simp only: tally_steps cong: tally_cong, simp)

lemma run_39_tally: "tally run_39 0 0 (77, 73)"
  by (unfold run_39_def) (simp only: tally_steps cong: tally_cong, simp)

lemma run_40_tally: "tally run_40 0 0 (71, 79)"
  by (unfold run_40_def) (simp only: tally_steps cong: tally_cong, simp)

lemma run_41_tally: "tally run_41 0 0 (79, 71)"
  by (unfold run_41_def) (simp only: tally_steps cong: tally_cong, simp)

lemma run_42_tally: "tally run_42 0 0 (72, 78)"
  by (unfold run_42_def) (simp only: tally_steps cong: tally_cong, simp)

end
