(* ===== verification/BenchRun4.thy ===== *)
theory BenchRun4
  imports BenchOps
begin

text \<open>
  The run phase of the benchmark (\<open>src/src/shared/benchmark.h\<close>, lines 12306 to 14405), one list per stretch of
  the macro, with the number of its puts and gets.
\<close>

definition run_43 :: "bench_op list" where
  "run_43 = [
    Put ''2151716022509140'' ''!E)=5z$Vs*T}&7*'',
    Put ''6651731597922053'' '';z>1<-T3-Z>=4'',
    Put ''2634547442652304'' ''1'',
    Get ''1231588583469063'',
    Put ''1362990378733934'' ''<P1)_e1$&%?)T1$'',
    Put ''4288916001496032'' ''=Ni3*b3%h.Uy0#p2'',
    Get ''4167446530781837'',
    Put ''8733340521035560'' ''?#2!&l'2p6F;>Xe#'',
    Get ''4967006104914157'',
    Put ''1924638838751431'' ''/3h&I15_/,7.F;'',
    Get ''2192346926518282'',
    Put ''9099511982560254'' ''7/f-|)Ve>(~>%$5'',
    Put ''6630405382502122'' ''2Hw/p5(=G545.<'',
    Put ''4886509183503403'' ''3?4$.(%m3T-5T31'',
    Get ''6235031163988755'',
    Get ''5696219397404242'',
    Get ''7235266233871621'',
    Put ''6656977740453461'' ''-2b&F}%:l;7*+Be6'',
    Put ''1127100791449830'' (''?Wo.#z0+|>$h.@u'' @ [CHR 0x27]),
    Put ''1127100791449830'' '''',
    Get ''1721485514441599'',
    Get ''3001278864689138'',
    Get ''5233598611046116'',
    Get ''4887069144015544'',
    Put ''4650619596219299'' '':.n?Ys('',
    Put ''4178280461138951'' '',H'5/2#Wm?'$2{;'',
    Put ''6437094107945257'' ''.3b2(j+N+<]i!N%0'',
    Get ''1141719298019773'',
    Get ''8738586663566968'',
    Get ''4057370950936897'',
    Get ''8164424391655935'',
    Put ''5335075763193114'' ''72r.T9'<b7'',
    Get ''8270373749993747'',
    Get ''2855818523366464'',
    Get ''3474177960281627'',
    Get ''4042752444366953'',
    Put ''3368788562455955'' ''9H15<<1N9(V/.Cg*'',
    Put ''3459217808417385'' (''%8d?Xc9;$@!4'' @ [CHR 0x27]),
    Put ''5797482573722787'' ''4I+%Z'3W?$Ug=]%<'',
    Put ''2523693587077382'' '':U3=,z'>x+9&)^m'',
    Get ''9215611980666584'',
    Get ''2962826773469027'',
    Put ''3001497179906980'' ''07d#By7Q'%^c4%b7'',
    Get ''5802168755742054'',
    Put ''6591061930944515'' '''',
    Get ''1127100791449830'',
    Put ''2413276361938144'' '')Yu#Q;3%~+4f,V)('',
    Get ''1655641726706290'',
    Put ''4399769857070954'' ''+3v&Ka,G?$;+3h'',
    Get ''7708165329464110'',
    Get ''1463133634028198'',
    Put ''8979722393382480'' '',^!5?4(_{6T?=Jc+'',
    Put ''1804630934355815'' ''-Wm:Qc%#x6%f1Vk'',
    Get ''6414722089613668'',
    Put ''1945405093659222'' '')L+1R+07b+t+&1'',
    Put ''8622704980678480'' ''!Ja>/r<7|*K,d7'',
    Get ''5797482573722787'',
    Put ''5008196969435440'' ''7Z75A19U7<Sa4`+'',
    Get ''1815123219418632'',
    Put ''6400103583043725'' ''>:v**'.v:B?9M.'',
    Get ''8759011273180460'',
    Put ''3930778667767750'' ''l_9%H%)%z)Xg3'',
    Put ''5701247224717808'' ''>-l&O#?'',
    Get ''7535324192704098'',
    Put ''2278089990460444'' ''+Y54Vq)84'',
    Get ''4988550635551930'',
    Get ''7919722400845436'',
    Put ''1247108695845445'' ''7E9)90-74=)p)98-'',
    Get ''1127100791449830'',
    Put ''3483550324320162'' '':^7$V9&@c7Re8Fa:'',
    Get ''1246548735333305'',
    Get ''3333963761490361'',
    Put ''1574547450115260'' ''&80)K!)H-8Q}5$z#'',
    Put ''5460329810120138'' '':0x6N+0'',
    Put ''9216731901690865'' ''?Dy;'~<Lc;>8='x2'',
    Put ''1127100791449830'' ''(^50Y--'',
    Get ''2061846737059850'',
    Get ''5327322251431469'',
    Put ''8053570536081013'' ''=R/8Um4Zc*4x'',
    Put ''4173252633825385'' '';#'',
    Get ''2861064665897873'',
    Get ''7828173233859725'',
    Get ''5937136812001912'',
    Get ''6988884361524701'',
    Put ''8270373749993747'' ''=]s#?b%=z:-'',
    Put ''4056592675206915'' ''4A))7z4&9643&'',
    Get ''1357744236202526'',
    Get ''2267597705397628'',
    Get ''1693995393998735'',
    Put ''4378785286945321'' ''.D}+Fk%V-![;%]1,'',
    Get ''2740496800990117'',
    Get ''6862728708791239'',
    Put ''8975036211363213'' ''7!`.1*4U#(S+5Z#9'',
    Get ''1583141538423813'',
    Get ''6386815834809594'',
    Put ''7708165329464110'' ''+$61:4&D3-,*13n2'',
    Get ''8275059932013015'',
    Put ''7841419248036332'' ''39d2)4=R30)6)r&'',
    Put ''2921564558397754'' ''2<p2E/2&&!E-5U9,'',
    Put ''6274507890822402'' ''3I/0?(9E9)I'1,d*'',
    Put ''9195187371053092'' ''$1~6(,3+-M=%N!0'',
    Put ''1936032729620686'' ''(He>B-<<0?r'Oi3'',
    Put ''4158634127255442'' ''3Xe&D#5Ai>8l>X#='',
    Get ''6535289954521424'',
    Get ''6867756536104805'',
    Put ''3945957134849834'' ''2?n:E/'',
    Put ''7098959941369641'' ''/<,)((O1=.j<Lw&'',
    Put ''6430099635208427'' ''+1,=Vg)061[?'',
    Get ''7598094089008558'',
    Put ''1931004902307120'' ''#@#)O5++f*L=6<r?'',
    Put ''1605363453570628'' (''.F!$]e8]s']75r'' @ [CHR 0x27]),
    Get ''2529499690120931'',
    Get ''3449285483866709'',
    Get ''5715865731287752'',
    Get ''7944054916748214'',
    Get ''4273955849631789'',
    Put ''7944054916748214'' ''*[a?!d.A!!$~7S-'',
    Put ''2654753737047954'' (''?<-R%>8l:T#5Gm'' @ [CHR 0x27]),
    Get ''5118832509792520'',
    Put ''5590611684360728'' ''/F#1>`!Q=87.'',
    Put ''5233812586874570'' '';?x7]{07()160Ni?'',
    Get ''7803280757444808'',
    Put ''7471715781667866'' ''-Og'B?<_')Zs*P5='',
    Get ''4378785286945321'',
    Put ''8745711707650632'' '':L?%L-4$'',
    Put ''6042744525045426'' ''=Ie>Ks)*(5).88.)'',
    Get ''2966243226412012'',
    Put ''6063510779953216'' ''3^3%9(&$<<6n'@5$'',
    Put ''6275067851334543'' '';*b6%(/!|2**/):5'',
    Put ''6042744525045426'' ''4Z!9)~(P%=@?'Da:'',
    Put ''6159186168446054'' ''0W=(G)5=*,$8$Lu3'',
    Get ''5943721190775443'',
    Put ''6159186168446054'' ''&(l#c/9<)[a;x>'',
    Get ''1458105806714631'',
    Put ''8164424391655935'' '''',
    Put ''1120734727894141'' '':0,9=*;#<'',
    Put ''9221199768492291'' '''',
    Get ''1127100791449830'',
    Put ''9104976440309504'' ''0=4)*2:[!%(f*Q!0'',
    Get ''4656425699262848'',
    Get ''8733340521035560'',
    Put ''7345901774228702'' '''',
    Get ''9221199768492291'',
    Get ''6530817748330610'',
    Put ''8773971425044702'' ''*J-5@7*#)Jg#S-!'',
    Get ''3564607206243057'',
    Get ''3599991967720791'',
    Get ''6968118106616911'',
    Get ''2180734720431185'',
    Get ''8854051011221780'']"

definition run_44 :: "bench_op list" where
  "run_44 = [
    Get ''7083999789505399'',
    Get ''3700695183527195'',
    Get ''3113252641288341'',
    Put ''7648372362144221'' '':N!85|2)$9)2&@78'',
    Put ''6877907175873323'' ''$V-!Q;$o/!r([{.'',
    Put ''5586143817559302'' '':#j?8*4)&8Ze'',
    Get ''1825397189263606'',
    Put ''1579233632134528'' ''.&'',
    Get ''5219194080304626'',
    Put ''2166894489591224'' '')P/!9(:S/9M+;<`6'',
    Put ''2650067555028687'' ''3Dw/'z4P)=Z!%6n6'',
    Put ''8270373749993747'' ''<T?$(69=r&]i*$l:'',
    Put ''3092268071162709'' '':/88Pm(Do*Zi5>f>'',
    Get ''3328157658446812'',
    Get ''7129316875533809'',
    Put ''1127100791449830'' ''&;n*;`$D5'',
    Put ''7797474654401259'' (''5,95*8S5<.h!E'' @ [CHR 0x27]),
    Get ''5358848318583751'',
    Put ''3097514213694117'' ''0Mw+zEq'K3,3:8'',
    Put ''5274860826117388'' ''11.,#t)_;'',
    Get ''1709733821592960'',
    Put ''8270373749993747'' ''?Ge2M75>0(E15.:8'',
    Put ''6274507890822402'' ''7Z/Y#)u6-j>=04'',
    Get ''8884047004889642'',
    Get ''6386815834809594'',
    Put ''4736362660161462'' ''205N'%>b'O{8P=5'',
    Put ''9110564228135211'' ''7]?%*,*8&8H17Fe*'',
    Put ''4877915095194850'' ''.M)1>>'',
    Put ''4072598629982814'' ''989Ie4Uu*2d!B/4'',
    Get ''4394523714539545'',
    Put ''8038952029511069'' ''89`:Us6<($X=:L78'',
    Get ''6767053320298401'',
    Get ''6767831596028383'',
    Get ''5329269660149566'',
    Put ''3981058141775879'' ''71*==!B7'',
    Put ''7592494483887154'' ''8I+%_;=%:0;44_w3'',
    Put ''3237728412485383'' ''<]q7_!'',
    Put ''7083999789505399'' '':6(-->'1(9<;Be/'',
    Put ''4171921875489572'' ''*m.7`$&hD55>$('',
    Put ''2512859656720267'' ''&Na?Fa'',
    Get ''2891203284844199'',
    Get ''5534984800509376'',
    Get ''1473065958578873'',
    Put ''6159186168446054'' ''/H!(9f!)n/]q*$0'',
    Put ''4640905586886466'' ([CHR 0x27] @ ''Z7((4/F7<9,5Dg''),
    Put ''2915964953276350'' ''(D'0L->:r2)!D%4'',
    Put ''5695441121674259'' '''',
    Put ''8270373749993747'' ''45<!8l6)~5|&'',
    Get ''8040290265753192'',
    Get ''1714761648906526'',
    Get ''3700695183527195'',
    Get ''3945957134849834'',
    Put ''8260441425443072'' ([CHR 0x27] @ ''P?1Pc=[#9D}:[75''),
    Get ''7938808774216806'',
    Get ''5329269660149566'',
    Get ''3816016905903543'',
    Get ''8270373749993747'',
    Get ''6642577549101359'',
    Get ''6158407892716072'',
    Get ''1473844234308856'',
    Put ''1121294688406281'' ''#D3-^-5Wc/6&:8n>'',
    Get ''5696219397404242'',
    Get ''6531163733014297'',
    Get ''5464797676921564'',
    Put ''7350027995735829'' ''0I.:<6Yg?Do(*r2'',
    Get ''2413058046720302'',
    Put ''7841419248036332'' ''=0f/0>+U;(J3;V9'',
    Get ''1115488585362733'',
    Put ''5585583857047162'' ''8Ve&~:)n/Ju+$'',
    Put ''2162208307571956'' ''0U'!Bm?[3(Wm=@q:'',
    Put ''3715313690097139'' ''(/:,':'#5Pu%'x*'',
    Get ''7908670155270480'',
    Put ''4625727119804382'' ([CHR 0x27] @ ''7<9$,7-v+P;6&0%''),
    Get ''8170230494699484'',
    Get ''8270373749993747'',
    Put ''5590611684360728'' ''.Wk2!r4]/482!3.5'',
    Put ''1583141538423813'' '':D3,Om?Q3('',
    Put ''1468038131265307'' '';Aw?%63Q=(J#'',
    Put ''9106096361333785'' ''.Uk#B%:i+E31Z?%'',
    Get ''4518999485736587'',
    Put ''8276179853037296'' ''35v;Vu3Y9'',
    Get ''8295266226408665'',
    Put ''3570413309286605'' '':36'',
    Put ''3368788562455955'' '':72,H5=E?!,:'',
    Get ''5922176660137670'',
    Get ''6289468042686644'',
    Get ''8048884354061745'',
    Put ''5358848318583751'' ''872!Q/:,&%1x-z:'',
    Get ''6752653128946299'',
    Get ''1684623029960200'',
    Get ''5575433217278644'',
    Get ''5696219397404242'',
    Get ''8527247907403484'',
    Put ''6546342200096381'' ''5X54:~$6,!Ui11`.'',
    Put ''8039730305241052'' ''$K#%Ji*Uw7As(70<'',
    Get ''2885397181800650'',
    Get ''1610963058692032'',
    Put ''8275401577307314'' (''--n3;(3.,N'' @ [CHR 0x27, CHR 0x27] @ ''Ki:''),
    Put ''3358296277393138'' ''&#|?V#!*-@#2'',
    Put ''5344448127231650'' '':z'B/#]75Dg&5n/'',
    Get ''2303542427387503'',
    Get ''5233598611046116'',
    Get ''4524805588780135'',
    Get ''2750429125540792'',
    Put ''3112692680776201'' '')47.#J{;$`'=v7'',
    Get ''5099186175909011'',
    Put ''6279754033353810'' ''$4.8Jw/_?5<z?#*8'',
    Put ''1357402590908227'' ''!:z:N12I75Ie45f6'',
    Get ''7239952415890889'',
    Put ''4756568954557112'' ''<-b>Is:;<<Am4:f>'',
    Put ''1001286784010666'' ''/Zc:>85#4Em=5:%'',
    Put ''1603566148037305'' ''&Jo'9d$O/1B;+Nc*'',
    Put ''4891755326034811'' ''1(j?*p.[c&R)*:&5'',
    Get ''6506271256599379'',
    Get ''2302422506363222'',
    Get ''7943494956236073'',
    Get ''1834209592790001'',
    Get ''6289686357904486'',
    Put ''1127100791449830'' ''8Qc+<h9M?0Jo57p3'',
    Put ''2915964953276350'' ''=>%-6?_k7+8;Ki7'',
    Get ''6159186168446054'',
    Get ''5238840414188136'',
    Get ''7582569637242788'',
    Put ''2422990371270978'' ''&:$0Se$)>$'',
    Put ''3217522118089732'' ''3=:)Ya*Xi#Zs(1<'',
    Get ''5444591382525914'',
    Get ''7066705990777330'',
    Get ''8848662243411908'',
    Put ''7928876449666130'' ''M{3&(!G+'',
    Get ''7934122592197538'',
    Put ''8842851800978971'' ''!*4(#b*M15;r,%d/'',
    Put ''1127100791449830'' ''!.`?^i'',
    Get ''2302982466875362'',
    Put ''4766501279107788'' '':Qk.4<$0&'',
    Get ''7451509487272215'',
    Put ''2278089990460444'' ([CHR 0x27] @ ''U#-Y)8t:V)Tq&''),
    Put ''1453419624695364'' ''=2|3<zN5%Gc'60%'',
    Put ''7002942907582504'' '')2$4F95;n6*(/3&%'',
    Put ''8648157417605538'' ''=R=8^#7Q15Q5>8'',
    Put ''8270373749993747'' ''%&<<)p+'x3^-'',
    Get ''1342784084338284'',
    Get ''6588878778766096'',
    Put ''7928534804371831'' ''5Aq3_y<_'012.W9='',
    Put ''4404797684384520'' ''>Hu/]y5)>5Pi5P#8'',
    Put ''9084551830696012'' '':Cu?/h#90!Ek$C?,'',
    Get ''7928534804371831'',
    Get ''4282444331239139'',
    Get ''4061838817738323'',
    Put ''3465023911460933'' ''?H;'',
    Get ''6520889763169322'']"

definition run_45 :: "bench_op list" where
  "run_45 = [
    Get ''1700361457554424'',
    Put ''4625727119804382'' ''$%h&0p&V'<M=-V95'',
    Put ''4509845436915893'' ''1I>'',
    Get ''1116266861092715'',
    Put ''3700695183527195'' ''/$`>Ba6#6=H:E{&'',
    Get ''7008189050113913'',
    Get ''8270373749993747'',
    Get ''5952875239596136'',
    Put ''2987438633849177'' ''-N+!3((-v/<d1.2<'',
    Put ''3936803086029141'' ''%*25_5:I/55j!@%1'',
    Put ''7224773948808805'' ''7G/9M+:Hm2&(*5t.'',
    Get ''4741048842180729'',
    Put ''2523693587077382'' ([CHR 0x27] @ ''M?-T3D-8!p=4x>''),
    Get ''1130667052444817'',
    Get ''2759801489579328'',
    Put ''1715885909320195'' ([CHR 0x27] @ ''_#''),
    Put ''4534177952818671'' '',:z.=6!5-8:'.z'',
    Put ''8749128160593618'' ''#!89Dk03x3%f!Ua?'',
    Put ''9220639807980150'' '':840L7+&5b)A#5'',
    Get ''3690421213682221'',
    Put ''7942934995723933'' ''>a3W;$Pw')&8'',
    Put ''1127100791449830'' ''%7|?Z!+V?<X1'',
    Put ''8637323487248424'' ''<9p:Ik'',
    Get ''2996032722157730'',
    Put ''6531382048232139'' ([CHR 0x27] @ ''!8)G=;/f>[m=Y?%''),
    Put ''8657529781644074'' ''6S5'',
    Put ''1025837615131285'' ''5Xm6L'/%d#L:Fm;'',
    Get ''3101640435201244'',
    Get ''4515651539959442'',
    Put ''3710627508077871'' ''#%t3<8%45R;6':='',
    Put ''3353610095373871'' ''--z?P!!!n#Po2Ui2'',
    Put ''1941278872152094'' ''=E;4O==G55Qw8#z.'',
    Get ''5464797676921564'',
    Put ''8647597457093398'' ''!7>,K;5@i#4l0Ia6'',
    Get ''3930996982985592'',
    Get ''7356052413997219'',
    Put ''3112132720264060'' '''',
    Get ''1834209592790001'',
    Put ''1468598091777448'' ''1Ci*W7.E?15b9K)%'',
    Get ''3806302896570709'',
    Get ''8627172847479906'',
    Put ''6159186168446054'' (''0F&Z/![w&'' @ [CHR 0x27]),
    Put ''7388248387752233'' ''.]%)Y-1V#'',
    Put ''2650067555028687'' ''0:|2!~%Mg'<n9R#)'',
    Put ''6862510393573397'' ''?:p3Y/4N3(_y'',
    Get ''7239392455378749'',
    Put ''4876576858952727'' ('')%:-5p?$.)7&6^o'' @ [CHR 0x27]),
    Put ''5555226922882994'' ''6+f2?8<C1%Uc'7*8'',
    Get ''3127092872128302'',
    Put ''2177168459436198'' ''5%483x71j3=j'S-1'',
    Put ''8270373749993747'' ''(Y)!]+;<`33,?7p+'',
    Put ''3945957134849834'' ''45b/7t7*b3$~92'',
    Put ''5002950826904032'' (''3-z3A;=L9)J%2?|'' @ [CHR 0x27]),
    Get ''7566831209648563'',
    Get ''5112466446236831'',
    Get ''4978058350489114'',
    Get ''4534737913330811'',
    Get ''8517875543364948'',
    Put ''4871549031639161'' '''',
    Put ''4424102372973731'' '''',
    Get ''2302422506363222'',
    Put ''4283669858964623'' ''*%4N;37*-0t%L+5'',
    Put ''1462232028221759'' ''%/b;/n#+8'',
    Get ''8994682545246722'',
    Put ''2891763245356339'' ''3(~24`5&h:>28Hq/'',
    Put ''1101648354522772'' ''90'',
    Get ''5585583857047162'',
    Put ''7943494956236073'' ''!S9!?4+G{&$p$$d*'',
    Get ''8270373749993747'',
    Put ''6095305057493937'' ''+P1$R}(!'',
    Get ''3102200395713384'',
    Get ''1563495204540303'',
    Put ''1708955545862977'' ''9208,l'',
    Put ''2422990371270978'' ''(Q712<%Ns7(&<Eo>'',
    Put ''6531163733014297'' ''2F1$T-2Ya78`6Ok7'',
    Get ''7928534804371831'',
    Put ''4766501279107788'' ''6G?$)p=w.$r=8f2'',
    Put ''5464797676921564'' (''%5j;Yk67l?$&:@w'' @ [CHR 0x27]),
    Put ''4066999024861410'' ''3_?!r67295,6C9='',
    Put ''2061286776547710'' ''6R'(O';$$%(x<#r#'',
    Put ''4419976151466604'' '';O#,]84$-W)6$*!'',
    Get ''6283661939643096'',
    Put ''6163654035247480'' ''!t*!d6'',
    Get ''6511517399130787'',
    Put ''8633197265741296'' ''?.p+P=8V7-24-#('',
    Get ''5797482573722787'',
    Put ''1127100791449830'' ([CHR 0x27] @ ''X7!E;;U'),+Ck2''),
    Put ''4997704684372624'' ''0Xg?(&'',
    Put ''2765949237917175'' ('';Q=,82&X-((:88z'' @ [CHR 0x27]),
    Put ''5696219397404242'' ''+B3-2(0*n2V5&>,-'',
    Get ''2960643621290608'',
    Get ''2534185872140198'',
    Get ''8270373749993747'',
    Get ''7934682552709678'',
    Put ''3575659451818013'' ''&Yc*Au+E}*H%.+b#'',
    Get ''6386815834809594'',
    Put ''4871549031639161'' ''3=,0L;(&899f&;n:'',
    Put ''8145119703066724'' '';((02h2>>$'.'',
    Put ''4268709707100381'' ''6.p>>8/G'=2d8Ni>'',
    Put ''7556898885097888'' ''.I/(3~6To*Ac-:45'',
    Put ''4047220311168379'' ''-<v&^k4Du/C;:(<='',
    Put ''6973364249148319'' ''15n>By&3v&]y4#r7'',
    Get ''6054138415914681'',
    Get ''3348363952842463'',
    Get ''8305758511471482'',
    Get ''7098399980857501'',
    Put ''8637665132542722'' '',Yg3:8!;8!P95Xc.'',
    Get ''8522903370678515'',
    Put ''2885957142312790'' ''%565L)'[?=Z=(+.%'',
    Put ''7119384550983133'' ''*U=0'*?He.((5H{?'',
    Put ''5175537580610630'' ''&Hg./2+Gc6-(/(='',
    Get ''8396187757432912'',
    Put ''6042744525045426'' ''%7j:Bu;;>-]w>F-='',
    Get ''7585917583019933'',
    Get ''4630413301823649'',
    Put ''6042744525045426'' ''1*,'',
    Get ''3478864142300894'',
    Put ''8270373749993747'' ''%#h;H=!Oq/G{;5~#'',
    Put ''4519217800954429'' ''*M?5M%5Mq&R;<Uw*'',
    Put ''6381216229688190'' '';5>,Jw19r'Mw/P/,'',
    Put ''8270373749993747'' ''!7v2#n0R'3(,V3!'',
    Get ''7466469639136458'',
    Put ''5700687264205668'' ([CHR 0x27] @ ''Gs74j4,v;Lw1Wi/''),
    Put ''9910128141656919'' ''0Z186~)Ws.70'',
    Put ''2876803093492097'' ''-2x2Lu?+<5E)*!v+'',
    Put ''6159186168446054'' '')H}#Xo>.|#8.(5x3'',
    Put ''3369348522968095'' ''?L;$?r'B%0[;4M?4'',
    Put ''6872661033341914'' '':4$&'',
    Get ''7089245932036807'',
    Get ''1589507601979502'',
    Put ''2278089990460444'' (''5I-51j71n2::-=t'' @ [CHR 0x27]),
    Get ''6421088153169357'',
    Put ''1810437037399364'' ''5Rc&%h<.*0-8)'x#'',
    Put ''2634329127434462'' ''9Tc7v/(r#N=%.(%'',
    Put ''4534737913330811'' ''7>~&.&,Js*/$-'',
    Put ''5349694269763058'' ''(-~.C{/<'',
    Get ''6339954014616917'',
    Get ''6405909686087273'',
    Put ''6042744525045426'' ''=3'',
    Put ''4077577245332547'' ''!#`7/r0De3Ec'',
    Get ''8396529402727210'',
    Get ''6159186168446054'',
    Get ''1940718911639954'',
    Put ''2871556950960689'' ''*Sy6:47T51Ag*C1)'',
    Get ''1462232028221759'',
    Get ''6656977740453461'',
    Put ''1452859664183223'' ''7Ni*Z3*>6562-I51'',
    Put ''7230238406558055'' ''*&84:6#Gs?(r+'',
    Put ''5470043819452972'' ''(:<(R;>%v>!z11p;'',
    Put ''4515651539959442'' '''']"

definition run_46 :: "bench_op list" where
  "run_46 = [
    Put ''9896745779235692'' ''8'~:N;>N#<'',
    Get ''1363208693951776'',
    Put ''1950651236190630'' ''%16!<*+(~64f(Dw>'',
    Get ''3011211189239814'',
    Put ''3232700585171816'' ''%_#=6,+9|/]e)Sm/'',
    Put ''2171922316904790'' ''%Um>E/'',
    Put ''4424102372973731'' ([CHR 0x27] @ ''U),''),
    Get ''4891195365522671'',
    Get ''1222216219430528'',
    Get ''7943494956236073'',
    Get ''4125060055296895'',
    Put ''5233598611046116'' ''))240f-=0R#$:b#'',
    Get ''4752101087755686'',
    Put ''2428796474314526'' ''%Gs2x,(t;6n?.*9'',
    Put ''4524245628267995'' ''#'t9-9(,K5.F1!'',
    Put ''6630140993837368'' ''<0n&8>(Vo:Hy-2>-'',
    Get ''4393745438809563'',
    Get ''6520889763169322'',
    Get ''4057370950936897'',
    Get ''2166334529079083'',
    Get ''4626287080316522'',
    Get ''1127100791449830'',
    Get ''5937136812001912'',
    Get ''6650611676897772'',
    Put ''6269261748290994'' ''2Xs*2)7f>L39+z6'',
    Get ''3101080474689104'',
    Get ''7113578447939585'',
    Put ''2291930221300406'' ''(Hu'!>J+)3.&.t#'',
    Get ''3916938436927789'',
    Get ''4997144723860483'',
    Get ''4545230198393627'',
    Get ''8411707869809294'',
    Put ''2760143134873626'' ''=G#'*,B3$+24x3'',
    Get ''6149253843895379'',
    Get ''9085111791208152'',
    Put ''3599991967720791'' '''',
    Get ''7331501582876600'',
    Put ''7008749010626053'' ''51'',
    Get ''2402224116363187'',
    Put ''1127100791449830'' ''#Ka.Ne9Cw>I'/V'5'',
    Put ''5822033404843406'' ''4)x:]w'@/0;j&B}/'',
    Put ''1568741347071712'' ''4&|&S%'',
    Get ''5186736790853439'',
    Put ''4877136819464868'' ''9$.<N34Bw'Ng0'',
    Put ''3472233791789872'' '''',
    Get ''5570690804353124'',
    Put ''5470603779965112'' ''3:8%Mw1[+,*j2?~3'',
    Put ''3812108999614258'' ''$I{#628T1404$]-$'',
    Put ''2759583174361486'' ''8F1!_{+*l/Pu1$6)'',
    Put ''1127100791449830'' ''5.<5!'',
    Put ''2754337031830078'' ''->`#So$+~>V1?L>'',
    Get ''4053244729429770'',
    Get ''6042744525045426'',
    Put ''2906381751926282'' ''%J74$$?'',
    Put ''1936032729620686'' '';Xy+#89Q1'',
    Get ''8270373749993747'',
    Get ''3238288372997523'',
    Put ''5475289961984380'' ''!Kk;<~5;('',
    Get ''8995460820976705'',
    Get ''7239952415890889'',
    Put ''4741608802692870'' '')Q;!<f^'1U-942-'',
    Get ''7109110581138159'',
    Get ''3238288372997523'',
    Put ''1127100791449830'' '';4.8Hg2Dg'_a6.d>'',
    Get ''8532275734717050'',
    Put ''2388165570305384'' ''>]!%5&!Ba><'',
    Get ''4172474358095403'',
    Put ''4997704684372624'' ''13~*Da)>v%t&Wa6'',
    Put ''5696219397404242'' ''/Pg&H=.'',
    Put ''4635099483842917'' ''/Hi?J?<(v*<?Ru2'',
    Put ''8743272845586236'' ''80r?>p*Le:[76V9%'',
    Get ''2011672493662050'',
    Put ''5928542723693359'' ''-!09&&?):1F!8]98'',
    Put ''7094492074568215'' ''>D7'',
    Put ''1809609549705548'' ''4Uw.><(*|&C;484'',
    Put ''8305758511471482'' ''/We*Mg#Iw33`0!,4'',
    Put ''1950651236190630'' ''?3|&]u-!p#p1?p'',
    Put ''6868534811834787'' ''.>*)>0W-%;:&N)('',
    Put ''6400321898261566'' '',6b:M=(6p3,<51*!'',
    Put ''8698849887457955'' ''4=:$Ew&18)@;,Ei.'',
    Get ''7355274138267237'',
    Get ''4534737913330811'',
    Put ''8853908385943316'' ''4?~#M}4Gq>J19'.,'',
    Get ''3347803992330322'',
    Put ''1127100791449830'' ''0844M;85:-%:5%h&'',
    Get ''8260441425443072'',
    Put ''1130667052444817'' ''Ie3'|#'v:I74C+'',
    Get ''5229686365367442'',
    Put ''5692093175897115'' ''%H#(;'',
    Put ''9085111791208152'' ''=+(8.4'W'12l!d#'',
    Put ''2417184268227429'' ''1)b7*8)&r7D?.(6$'',
    Get ''6767613280810541'',
    Put ''3685735031662953'' ''!V%(*6=.1|=Wo*'',
    Get ''6159186168446054'',
    Get ''5696219397404242'',
    Put ''3001838825201279'' ''*Ns/&04'b*!n.K5$'',
    Put ''6641239312859236'' ''><|6Xw-E-%$:7No:'',
    Put ''6279754033353810'' ''.(&9&x#H2^+*Lq*'',
    Get ''1577895395892405'',
    Get ''3343336125528896'',
    Get ''3465023911460933'',
    Put ''8170572139993782'' ''!=&1Cg8861X?!T/('',
    Put ''6159186168446054'' '''',
    Get ''4178498776356793'',
    Put ''2910365348154946'' ''>%z>]y93~'=>)H#,'',
    Put ''4887069144015544'' ''?Xg3,00E/1Le>U+5'',
    Put ''2880929314999224'' ''%Aw+Tg.3j?D?>M)4'',
    Put ''2754896992342218'' ''<#l32bI?<(:Gc3'',
    Put ''5364654421627300'' ([CHR 0x27] @ ''G=(4d/86(&n(J31''),
    Put ''4174105027667991'' ''!Y!-Qg>W+'',
    Put ''5534984800509376'' ''4J18P!/K&&x7!%'',
    Get ''3599991967720791'',
    Get ''2996251037375572'',
    Put ''7008749010626053'' ''5:2-=8&@=83j.A+0'',
    Put ''6169460138291029'' ''+X{7@;!;:1'',
    Put ''1105774576029899'' ''87r7V)4C'-Q?9'',
    Put ''2171922316904790'' ''>/0<V9=.h&145Jy*'',
    Put ''3127652832640443'' '','0<=l/<&,O%,X9,'',
    Put ''3710845823295713'' ''1<<10>'t;4'',
    Get ''4524805588780135'',
    Put ''6546342200096381'' ''3$-,b?>>)^w1'f;'',
    Get ''5349694269763058'',
    Get ''6873002678636213'',
    Put ''4174105027667991'' ''.0h3L-;+~#)p;>$!'',
    Get ''3328157658446812'',
    Put ''5274860826117388'' ''=+,92:O=-Ju+Ca6'',
    Get ''7361080241310786'',
    Put ''1807426397527130'' ([CHR 0x27] @ ''=`+,.()9Is?%d;''),
    Put ''8606966553084256'' ''5,.-Xi'',
    Get ''1241302592801897'',
    Put ''1603566148037305'' ''&I)-#`$Zu+(h5B!4'',
    Put ''8632637305229156'' ''6S14A?'',
    Get ''6042744525045426'',
    Get ''7928534804371831'',
    Get ''6988542716230403'',
    Get ''4775873643146323'',
    Get ''2975826427762080'',
    Get ''1840015695833550'',
    Put ''4534737913330811'' ''1[!97~#Ve2&.6x:'',
    Get ''3469150132968061'',
    Put ''6998256725563237'' ''&Q-<.p98(8#p1;2%'',
    Put ''5722231794843441'' (''94r&R=6Fc?3078h'' @ [CHR 0x27]),
    Get ''3945957134849834'',
    Put ''6095305057493937'' ''2;8%'n8G991f:36('',
    Get ''7592494483887154'',
    Put ''2061846737059850'' ''&Mq>=8#Tk69v*Co7'',
    Get ''8974476250851072'',
    Get ''3584253540126566'',
    Get ''1478312101110282'',
    Put ''5332921856552874'' ''4/f+]963z2P+&&.='']"

definition run_47 :: "bench_op list" where
  "run_47 = [
    Get ''1100528433498491'',
    Put ''5696219397404242'' ([CHR 0x27] @ ''&8<7|.Ey.)l,>|6''),
    Put ''2760921410603609'' ''7/n>2'',
    Put ''6767053320298401'' ''$Na&1f=/,$Z+?E{>'',
    Put ''4633454400499588'' ''5Py:]-'',
    Put ''2186540823474733'' ''9@'14p0Aq;*'',
    Get ''8900912831414457'',
    Put ''3017017292283363'' '')'',
    Put ''5127644913318915'' ''>J99]%%;6!q=Ie#'',
    Put ''9000488648290271'' ''0'',
    Get ''4886509183503403'',
    Get ''6520889763169322'',
    Put ''2061505091765552'' ''7>j+Q1(;&=Ug2Eg2'',
    Put ''1127100791449830'' '')L7'',
    Get ''2387605609793244'',
    Put ''3931556943497733'' '';/d/G})-'',
    Get ''4615234834741565'',
    Put ''2981072570293488'' ''+%p2%n<':9Ie%=6-'',
    Get ''7702359226420561'',
    Put ''4997704684372624'' ''5=j::&>;n.Z=/&*5'',
    Put ''7687399074556319'' ([CHR 0x27] @ ''.,Ng#<,!Ga)b*''),
    Put ''2769515498912162'' ''=Fi?y95d&]e#Y'$'',
    Put ''2066532919079118'' ''==`.n&',!>.F))'',
    Get ''5596417787404276'',
    Get ''3921624618947057'',
    Get ''5424462344759809'',
    Put ''4520119406760868'' ''5(f.I$a/E9+.b'',
    Get ''1814563258906491'',
    Put ''1799384791824407'' ''#^/&|9Lc6=>!W'$'',
    Get ''2891203284844199'',
    Get ''7934122592197538'',
    Put ''4404797684384520'' ''0%68G'2]393<5T3%'',
    Get ''7457315590315764'',
    Get ''5695659436892101'',
    Put ''1357744236202526'' '')7,'',
    Get ''3945957134849834'',
    Put ''2181294680943325'' ''3>~*Ta9>-%|5Ea:'',
    Get ''2629301300120896'',
    Get ''1127100791449830'',
    Get ''5464797676921564'',
    Put ''4167446530781837'' '',Uu7F73<p+7b<')'',
    Put ''5791676470679238'' ''Da+Gk'-8=_y>-00'',
    Get ''2172700592634772'',
    Put ''1703709403331569'' ''31'',
    Put ''2176826814141900'' ''9104%<p7B5'',
    Put ''8618018798659212'' ''>&<)^}2%x&$n&0r.'',
    Get ''2913781801097931'',
    Put ''9896745779235692'' ''*M=4V=&O91(*/2t#'',
    Get ''4635099483842917'',
    Get ''2523693587077382'',
    Put ''5701247224717808'' ''<Fm+=t>@k:$(-::$'',
    Get ''3479984063325175'',
    Get ''5590051723848587'',
    Get ''7229460130828073'',
    Get ''2177728419948339'',
    Get ''1337537941806875'',
    Put ''3528229843003917'' ''$!b;<$;*v::8.)j/'',
    Get ''7687180759338477'',
    Get ''2061286776547710'',
    Put ''4752101087755686'' ''-^9!*2=@o*+n4Rs/'',
    Get ''4288916001496032'',
    Put ''7334849528653745'' ''#G1=*'',
    Put ''6987982755718262'' '';.4%=x*Wu*8z3+:8'',
    Put ''7928534804371831'' ''*'',
    Get ''5012323190942567'',
    Get ''3590837918900097'',
    Put ''1704487679061551'' ''.Hw;,h0,`7P?7'25'',
    Put ''3831195372985627'' ''1M;0^{(A}'C-<!t.'',
    Put ''8531155813692769'' ''9<(!;03D+80&6>(5'',
    Get ''1010099187537061'',
    Get ''1901150037912483'',
    Put ''6642017588589219'' ''2I=<S9$@=0OuJ?1'',
    Put ''4289134316713873'' ([CHR 0x27] @ ''G))a$_u2^i;@y'' @ [CHR 0x27]),
    Put ''8170230494699484'' ''03b6Lw?$*-]w$Pw:'',
    Get ''5927982763181218'',
    Put ''6159186168446054'' ''=#4=,t5%8.,2R=5'',
    Get ''7535324192704098'',
    Put ''4630973262335790'' ''P!(Sm8^7!F/9[/0'',
    Put ''1236834726000471'' '';Tg+V+.L?;*Kw*'',
    Put ''2524471862807364'' ''7H='',
    Get ''1766164182455857'',
    Get ''5327322251431469'',
    Get ''5806854937761322'',
    Get ''1120734727894141'',
    Put ''4163880269786850'' ''3/|:!(&+.-M)1%z/'',
    Put ''4534737913330811'' ''-2$^c99x#><>)|7'',
    Get ''3101080474689104'',
    Put ''6642577549101359'' ''+Wa&Yu>Km>5h$Zs7'',
    Get ''5280460431238793'',
    Get ''7545632663694477'',
    Get ''8747959027605504'',
    Put ''1127100791449830'' ''<165Ik3)`&S;5%f3'',
    Put ''6042744525045426'' ''%:p7C52J),(x#%&='',
    Get ''3951763237893383'',
    Put ''7928534804371831'' ''2H/,H}=M+570!B?$'',
    Get ''1127100791449830'',
    Get ''5701247224717808'',
    Get ''9105536400821644'',
    Get ''3936024810299159'',
    Put ''4761473451794221'' ''8U58@u3+f7Nm84x'',
    Get ''5811322804562748'',
    Put ''6178272541817424'' ''1!t?.$.D%<J76.j2'',
    Get ''5186736790853439'',
    Put ''7928316489153989'' ''?!j*2~090K)$P'4'',
    Put ''7639356304079831'' '':+p?2x+5&-8,1Eg'',
    Put ''7813213081995483'' ''51b:^!9E!(5,7760'',
    Put ''7827613273347585'' ''(R?1A105<!1~4H)1'',
    Get ''1834769553302141'',
    Get ''8873773035044668'',
    Get ''3353268450079572'',
    Get ''5464797676921564'',
    Put ''5218074159280345'' ''=9x+Zo((6,76'',
    Put ''7215059939475971'' ([CHR 0x27] @ ''<8(&f4@}'24/2-''),
    Get ''3937363046541281'',
    Get ''7648372362144221'',
    Put ''2639233624671572'' ''<U!<.8='',
    Get ''3790564468976485'',
    Put ''1840575656345690'' ''8R!8Jg3Dm7?(.N}?'',
    Put ''7088537512561518'' ''#&(!,,;86=8$;9~?'',
    Put ''9100290258290236'' ''/I{#Ce8&`:&0)?n&'',
    Put ''6656977740453461'' ''2Hu:47?0!M362n/'',
    Get ''5123076155296549'',
    Put ''1127100791449830'' ''2'6%5j(L?%:8!5:)'',
    Get ''6309892652300136'',
    Get ''4982744532508382'',
    Put ''3117720508089767'' (''+N#<?82(b2@)8Ys'' @ [CHR 0x27]),
    Get ''2151716022509140'',
    Get ''2278089990460444'',
    Put ''2181294680943325'' ''&Ie*!((J19@3-'>('',
    Put ''5802728716254195'' ''<+.(a;Q'@!!]{7'',
    Get ''6520329802657182'',
    Get ''3956449419912651'',
    Get ''7345341813716561'',
    Put ''3342776165016756'' ''=#n+Lo'A+1Zk,M#$'',
    Put ''5937136812001912'' '')N#1G32U}+L5+Ju#'',
    Put ''2781127704999259'' '':B3,P)8E{3A3*54('',
    Put ''1825397189263606'' (''<@e?D'' @ [CHR 0x27]),
    Get ''7812994766777641'',
    Get ''1921072577756444'',
    Put ''5274860826117388'' '',*5%~,S5$&z'Bi?'',
    Get ''1342005808608301'',
    Put ''7807966939464075'' '''',
    Get ''7642772757022816'',
    Put ''1127100791449830'' ''2W{;@k!'x:#,&Z}7'',
    Get ''3710845823295713'',
    Put ''7702577541638403'' ''39*)'`;_}?!h*#d2'',
    Put ''4636219404867198'' ''/A+<2p(Os*R5<'f2'',
    Put ''1127100791449830'' ''2Oy'-:9&4!M{7?80'',
    Get ''5691314900167132'',
    Get ''6048550628088974'']"

definition run_48 :: "bench_op list" where
  "run_48 = [
    Put ''2056600594528442'' ''6Wk*(&$*h?D?4B;1'',
    Get ''4172692673313245'',
    Put ''4997363039078325'' ''#E}3$`&/0)M%<Z3('',
    Get ''8646388462143874'',
    Get ''1127100791449830'',
    Get ''4042192483854813'',
    Put ''8698849887457955'' '';Uu>Jm<V=0.v(Tw+'',
    Get ''8854468346455457'',
    Get ''4745735024199997'',
    Put ''3126532911616162'' ''!5f/Om.&.0K}2<t2'',
    Put ''7928534804371831'' ''*h7b:T=$Bg!'*1'',
    Put ''8973697975121090'' '''',
    Put ''4856930525069218'' '';W/92.&(h22z0W}?'',
    Put ''7928534804371831'' ''9/:$Pu11|*/&9.|&'',
    Get ''6275067851334543'',
    Get ''1127100791449830'',
    Put ''8532275734717050'' ''=X7!W#&8f#<b$[/9'',
    Put ''2312914791426038'' ''+14,,h1M1!U92#.%'',
    Put ''2413276361938144'' ''!W-0#&:(*9Vu)?h3'',
    Get ''1127100791449830'',
    Put ''6033372161006890'' ''!=f/1'',
    Put ''4736362660161462'' '';:(01r'2t*:(=A/9'',
    Get ''2278089990460444'',
    Get ''4302974547553835'',
    Get ''8753546815431210'',
    Get ''7938808774216806'',
    Put ''1940718911639954'' ''8<~>B/#Rq6PeK1-'',
    Put ''2870996990448548'' ''>W;5.4)[}:(6)_&'',
    Put ''2509293395725280'' ''!#`2Fe$D5'',
    Put ''8281425995568704'' ''/Qu&K%#Q%)L/!0|?'',
    Put ''8973916290338932'' ''&Im*_91>>=)./7l&'',
    Get ''6299400367237320'',
    Get ''7928534804371831'',
    Put ''8040290265753192'' ''34d#.d#?b'0t3Zu6'',
    Get ''7928534804371831'',
    Put ''9100290258290236'' ''*':8T7&%>'',
    Get ''4640905586886466'',
    Get ''2156962165040548'',
    Put ''6867974851322647'' ''&3t6]e1&0510'',
    Get ''2991004894844164'',
    Put ''5696219397404242'' '':(r#!j72t#Yu%3j;'',
    Put ''7928534804371831'' ''%-,5Xy'`76&#6*$'',
    Get ''6525917590482889'',
    Put ''4409142221109489'' ''=A?$t&!p'Q=;,0('',
    Put ''3565167166755197'' ''2N#)<4:(8!10;_e3'',
    Get ''3369348522968095'',
    Put ''5233598611046116'' '')9><S3,A+=5'',
    Get ''5475289961984380'',
    Put ''1951429511920612'' ''8Ta'L{?4*.L-='',
    Get ''3368228601943814'',
    Get ''6158407892716072'',
    Put ''3464463950948793'' ''-3~*.*9>:,&bG/)'',
    Put ''6375616624566785'' ''/n'!&/0$Ma:S3-'',
    Get ''2192906887030423'',
    Put ''8305758511471482'' ''<#n;$z,+:!>v/:p'',
    Put ''4303534508065975'' ''/Dw!>/I+8Ts(Dc/'',
    Get ''7556338924585747'',
    Get ''6752653128946299'',
    Put ''5937915087731894'' ''*Xq32447d7^w!;x;'',
    Get ''7923848622352564'',
    Get ''7807406978951935'',
    Get ''7928534804371831'',
    Put ''6395075755730158'' ''.O'$=x<:,%Ci*O#,'',
    Get ''2974025983711836'',
    Put ''5580679359810052'' '':Ik::<7Tq6Z=!V+,'',
    Get ''9896745779235692'',
    Get ''1237176371294770'',
    Put ''4856370564557077'' ''&;*<H;76<4L}3?p>'',
    Put ''5128204873831056'' ''9Qq+T')Fe>X84b3'',
    Put ''5937136812001912'' ''#;|.#(*B7%?.*Fy'',
    Get ''4770627500614915'',
    Get ''5444591382525914'',
    Put ''7736496397408170'' ''#,'',
    Get ''8270373749993747'',
    Get ''8281425995568704'',
    Get ''1940377266345655'',
    Get ''8407021687790026'',
    Get ''4665798063301383'',
    Get ''7567391170160704'',
    Get ''2539432014671606'',
    Get ''2982192491317769'',
    Get ''7340095671185153'',
    Put ''8069308963675237'' ''57z6L3J%<8.54(%'',
    Get ''3930996982985592'',
    Get ''7556338924585747'',
    Get ''3599991967720791'',
    Put ''1815209154826953'' ''*[o;6~,))Z%;C1)'',
    Get ''1598320005505897'',
    Put ''7456195669291483'' ''/>t61v)Fy7S{?_70'',
    Put ''5575651532496486'' ''(1&5+:8(f2[g9I#4'',
    Put ''4409142221109489'' ''3Gq?9t4Yq&Zi=>d3'',
    Get ''1127100791449830'',
    Get ''3101080474689104'',
    Get ''3695449040995787'',
    Get ''2187100783986874'',
    Get ''2986878673337037'',
    Put ''2278089990460444'' ''8(0-7z1S9(Ra95f.'',
    Put ''2775321601955710'' ''7!$(G;>0v&*<74:='',
    Put ''9004614869797398'' ([CHR 0x27] @ ''As6Ye+&:''),
    Put ''9221978044222273'' ([CHR 0x27] @ ''32-g;_{'92(U+8''),
    Put ''7471155821155725'' ''([3,R=$F;<%b:Qc2'',
    Put ''9220639807980150'' ''/2p?!~-Oc6d.#d+'',
    Get ''5107220303705423'',
    Get ''2755115307560060'',
    Put ''7928534804371831'' ''8YmNc0]=5:6G9%'',
    Get ''4288356040983891'',
    Put ''4020137204668733'' '')Pk'#'U?!7x$8<'',
    Get ''7460881851310751'',
    Get ''3459777768929525'',
    Put ''7742096002529574'' ''0>0('6#x+)>'C+('',
    Put ''3347803992330322'' '''',
    Put ''8407240003007868'' '':0:0$~4K;$Y')C3!'',
    Get ''1216410116386979'',
    Put ''4032260159304137'' ''%18<+x71'',
    Get ''3604678149740059'',
    Get ''8994636471799811'',
    Get ''5806854937761322'',
    Put ''4121643602353910'' ''++x3X%</d?6t.K/('',
    Put ''5590611684360728'' ''&,x3Js.&$Eg![w.'',
    Put ''3715313690097139'' ''*)~*Y9![3'',
    Get ''3695449040995787'',
    Get ''2765389277405034'',
    Put ''7230580051852354'' ''/1b&;&'',
    Get ''7450731211542233'',
    Get ''5534984800509376'',
    Put ''6497338290559161'' ''-H?(?'',
    Put ''7119602866200975'' ''2=,!]a'!(0!f5Ug?'',
    Get ''5228908089637460'',
    Get ''3599991967720791'',
    Get ''4174105027667991'',
    Put ''9105536400821644'' ''3.r#<27Qk2]='',
    Put ''7450949526760075'' ''>^#8^;!?%59;,8'',
    Get ''6284440215373078'',
    Get ''2971842831533417'',
    Get ''2523693587077382'',
    Put ''6405349725575133'' (''7Hi'+v5@'' @ ''{?[g032(''),
    Get ''4877136819464868'',
    Get ''6235031163988755'',
    Get ''9004614869797398'',
    Get ''1237176371294770'',
    Put ''6390389573710891'' ''4T'<2|)9b'&0;L?$'',
    Put ''3826509190966359'' ''&)>)8d0K!!X?'6v6'',
    Put ''5364094461115159'' ''?=b.O3A?<3l79b#'',
    Put ''8853908385943316'' ''010<U5,Xq:.,(_/8'',
    Get ''1704487679061551'',
    Get ''2312914791426038'',
    Get ''5570187074747236'',
    Put ''4218783695682249'' ''?P+=0f%Ai.F-$>p#'',
    Put ''9206239616628049'' ''=Yc6!:,>~:j*N{>'',
    Get ''3936803086029141'']"

definition run_49 :: "bench_op list" where
  "run_49 = [
    Get ''6053236810108242'',
    Put ''1016465251092750'' ''!Bi&+:9),%Qm,(&<'',
    Put ''3790564468976485'' ''6Eo/Y71&.1T}6Fo;'',
    Get ''5566279168457950'',
    Put ''5695441121674259'' ''!)0!72$H3-$1?t.'',
    Get ''7592494483887154'',
    Get ''7928534804371831'',
    Get ''1588947641467362'',
    Put ''1805750855380096'' ''9R+5[a-$6$7|0E!1'',
    Get ''4393963754027405'',
    Get ''3584253540126566'',
    Get ''2769515498912162'',
    Get ''6235031163988755'',
    Get ''6279535718135969'',
    Get ''5327322251431469'',
    Put ''5575651532496486'' ''7<4'',
    Put ''6857482566259831'' ([CHR 0x27] @ ''f:4.=*r7?n2Re6''),
    Put ''2056600594528442'' ''0/`6M?5T-46`(C+4'',
    Get ''2962826773469027'',
    Put ''1599763848449223'' ''/'',
    Put ''6433677655002271'' ''/Aa.:22Ko.Q!7*09'',
    Put ''4525365549292276'' '''',
    Get ''1815209154826953'',
    Put ''3569293388262324'' ''6V-,H/%G=)E9<%d3'',
    Get ''3342776165016756'',
    Get ''8863840710493992'',
    Get ''4620480977272973'',
    Put ''1588947641467362'' ([CHR 0x27] @ ''Wu#]??I55Y!'4l'' @ [CHR 0x27]),
    Get ''1127100791449830'',
    Get ''3002057140419121'',
    Get ''8740112102529228'',
    Put ''6762585453496975'' ''?84-@1026-Ns'',
    Get ''2870437029936408'',
    Get ''8704449492579360'',
    Put ''1950651236190630'' ''4Ru6P3?*$5Qm2,.5'',
    Get ''3368228601943814'',
    Get ''5267078068817565'',
    Put ''7224773948808805'' '')?h7^q*)6$Ew'Ky*'',
    Get ''4505159254896626'',
    Put ''1127100791449830'' ''.=l.!~7Wi6Da8<0%'',
    Get ''5590611684360728'',
    Get ''4887069144015544'',
    Get ''1799384791824407'',
    Get ''7219746121495239'',
    Put ''1252354838376854'' ''+%p:Gk7|.Lw*9:0'',
    Put ''5450397485569462'' '':r'!b49f/+8...$'',
    Get ''7798034614913399'',
    Get ''1708955545862977'',
    Get ''3695107395701489'',
    Put ''2886175457530632'' ''8@w#Xi:)f+&4>]*'',
    Get ''2880929314999224'',
    Get ''7230020091340213'',
    Get ''8049662629791728'',
    Get ''8773971425044702'',
    Get ''6511517399130787'',
    Get ''1467259855535325'',
    Put ''7099178256587483'' '''',
    Get ''7833419376391134'',
    Put ''4160722665246763'' ''6W%=Os<P/4Q--^7%'',
    Put ''7224773948808805'' ''7Gy3=~48b669]q2'',
    Get ''5696219397404242'',
    Put ''8768165322001154'' ''+_;42$8Aq:K}3Na#'',
    Get ''1127100791449830'',
    Get ''3941830913342707'',
    Get ''8305758511471482'',
    Put ''4294722104539580'' ''?Pc7O;$045Pa.)p:'',
    Get ''4047220311168379'',
    Put ''5267078068817565'' '''',
    Put ''7009308971138193'' '':V+-'>'',
    Put ''3594185864677242'' ''2]u:'',
    Get ''5555226922882994'',
    Put ''6309892652300136'' ''7Se#**0v;Ck*&v*'',
    Put ''2908182195976527'' ''&2'',
    Get ''8536961916736318'',
    Put ''3368228601943814'' ''):dM+!-v#6|14>!'',
    Put ''2180734720431185'' ''6$r:Z=6Ww/2$.V-$'',
    Put ''6531942008744279'' ''!I};Je;+h:R96C};'',
    Put ''2870996990448548'' ''$V79Tc7;j79&8To3'',
    Get ''6737474661864215'',
    Put ''4218783695682249'' ''$P/$%r0T#54`:+25'',
    Get ''7466127993842159'',
    Put ''3806302896570709'' ''43.$D3&@e#*()2z>'',
    Get ''4067644920781871'',
    Get ''2765949237917175'',
    Get ''6290246318416627'',
    Get ''8974476250851072'',
    Get ''4993018502353356'',
    Get ''8385695472370095'',
    Get ''2524471862807364'',
    Get ''1127100791449830'',
    Put ''1452859664183223'' ''3@w2M;.S+=J'2&d3'',
    Put ''9949207204549773'' ''58r2,t<P+028-B','',
    Get ''5354940412294466'',
    Get ''7928876449666130'',
    Get ''5333737526950992'',
    Get ''6184078644860972'',
    Get ''3835881555004895'',
    Get ''3945957134849834'',
    Get ''8643129590291972'',
    Get ''1105774576029899'',
    Get ''3469150132968061'',
    Put ''1116266861092715'' ''=W+,2.)^w&)'',
    Put ''7597529789107030'' ''/4|3L9D>40Rs6'',
    Put ''4067084960269731'' ''=Ai'Ww8O#9Qc$*<,'',
    Get ''5224440222836034'',
    Put ''2996251037375572'' ''->*!'',
    Put ''3821263048434951'' '''',
    Get ''4775873643146323'',
    Get ''8733340521035560'',
    Get ''8507943218814273'',
    Get ''6414722089613668'',
    Put ''7747695607650979'' ''.'.'',
    Get ''4069182177039828'',
    Put ''5470603779965112'' ''48,=Cw27:<T?;^35'',
    Get ''3956449419912651'',
    Get ''2755115307560060'',
    Get ''1216410116386979'',
    Put ''7695234182336898'' ''.1,18$4,41$6('',
    Put ''1127100791449830'' ''0&5Yw4H{/X{9Uc:'',
    Get ''1127100791449830'',
    Put ''8994900860464564'' ''2~;^q2)`+U}*Gm/'',
    Get ''5575433217278644'',
    Put ''8296604462650788'' ([CHR 0x27] @ ''Tw7X?&7`+Ou''),
    Put ''1336977981294735'' ''5*4$;d:1>5-<-V))'',
    Get ''4509845436915893'',
    Get ''5203455652710402'',
    Put ''6159186168446054'' ''3&d3L/(B5'',
    Put ''4615234834741565'' ''&-`?9d+Sm?H=8Ku.'',
    Put ''6280873954378091'' '',;v7S7./'',
    Get ''4505159254896626'',
    Get ''8395627796920771'',
    Get ''3945957134849834'',
    Get ''4074781782161233'',
    Put ''3453411705373836'' ''46x:-p5'81(d78'',
    Get ''5349475954545216'',
    Get ''1120734727894141'',
    Get ''7561585067117155'',
    Get ''5812661040804871'',
    Put ''5470603779965112'' ''Vs;$l*Oo+7>'',
    Put ''1127100791449830'' ''794~-C?1!b),p2'',
    Get ''7566831209648563'',
    Put ''3700135223015055'' '''',
    Put ''5696219397404242'' ''4'',
    Get ''2644261451985138'',
    Get ''1130667052444817'',
    Put ''3217522118089732'' ''!J{;T#4Nc:/&57`?'',
    Get ''4014537599547328'',
    Get ''7229460130828073'',
    Get ''8260441425443072'',
    Get ''5492863231354891'']"

definition run_50 :: "bench_op list" where
  "run_50 = [
    Get ''1336977981294735'',
    Put ''8773411464532562'' ''(:l3>|<Vo%$,[90'',
    Put ''3710627508077871'' '';%$1'',
    Put ''8165325997462374'' ''5Z38:x0?r6_s$G{.'',
    Get ''5113026406748972'',
    Get ''2543558236178734'',
    Put ''2387605609793244'' '';'l7Ag:/4!>t1S{+'',
    Get ''3474177960281627'',
    Put ''6621592978975727'' ([CHR 0x27] @ ''I}710'4~#/<9J3=''),
    Get ''7330941622364460'',
    Put ''5600544008911404'' ''[;%~3U{&)j+56'',
    Put ''5223661947106052'' ('':_q+<v2v'[u7Xm'' @ [CHR 0x27]),
    Put ''9221418083710133'' ''!%j24(?|/]?1#.'',
    Put ''2913781801097931'' ''.'h+@o6R1(F=1U;('',
    Put ''7471155821155725'' ''<0,!4f53v6@e8*b3'',
    Put ''6525218143209206'' '')(v3;*%^&2('}:'',
    Put ''7697331399106995'' '')^1,7>4648Oa:C=8'',
    Get ''5534984800509376'',
    Get ''6988542716230403'',
    Get ''2414396282962425'',
    Put ''4168348136588276'' '';Z%!q)Km'^g1_-)'',
    Put ''4520119406760868'' ''#X+%_e/'',
    Get ''5081813940225276'',
    Get ''5806294977249182'',
    Get ''2816641707769592'',
    Get ''7707605368951969'',
    Put ''9857666716342838'' ''6Hw?:|/I/0/('',
    Put ''7109452226432457'' ''=:0!@}09z2$l6!t?'',
    Put ''6486139080316352'' (''080(7f)#4%07!t'' @ [CHR 0x27]),
    Get ''7944054916748214'',
    Get ''8270373749993747'',
    Get ''7119944511495274'',
    Put ''8622145020166340'' ''!'28]o>?|*Z1.].'',
    Get ''6063510779953216'',
    Put ''5118272549280380'' ''/}6:..H=,6p'!09'',
    Put ''1452859664183223'' ''72$-Jm%Ac3<r+='',
    Get ''7928534804371831'',
    Get ''1127100791449830'',
    Put ''7460103575580769'' ''&:>9Y91)&$Fg)5b:'',
    Put ''1357962551420368'' ''9P?9I+25$6f*F))'',
    Put ''8270373749993747'' ''=[)(4d$'h;F}0Xm*'',
    Get ''3222768260621140'',
    Get ''6872442718124073'',
    Get ''7684034972094089'',
    Get ''5333737526950992'',
    Get ''2398657855368200'',
    Get ''3831195372985627'',
    Get ''3590277958387957'',
    Get ''6531382048232139'',
    Put ''2759583174361486'' '',Q;054,9>,5(+0(1'',
    Get ''7345341813716561'',
    Put ''3579225712813000'' ''9N9(7>1W7(U7'',
    Get ''3368788562455955'',
    Put ''1695115315023016'' ''%W{/K'!=4!8.<F5,'',
    Get ''5459551534390156'',
    Get ''8743272845586236'',
    Put ''3945957134849834'' '':,25't1@q#C5'W=!'',
    Get ''6164213995759621'',
    Get ''5334515802680974'',
    Put ''5932668945200486'' ''+Fu>V{%1(<u/R+,'',
    Put ''1127100791449830'' ''9*8=+f8+r34v,90%'',
    Put ''4283888174182465'' ''=Bo>E?+O/$(0'*h?'',
    Put ''3112132720264060'' ''=G=$Rw'M=9&$(#<9'',
    Put ''2655313697560095'' ''?@}:B'6_'%%~6I}&'',
    Get ''5811322804562748'',
    Get ''2518665759763816'',
    Put ''6149253843895379'' ([CHR 0x27] @ ''S;5L5,#x.K%29t?''),
    Put ''9104758125091662'' ''#'',
    Put ''2976386388274220'' ''91|+Eg'',
    Get ''1111580679073447'',
    Put ''5108558539947546'' ''<^w6Mu9G%1Js'',
    Put ''5358848318583751'' ''/Yi:'',
    Put ''6229431558867350'' ''*(-Mw'M6Uq?.t>'',
    Put ''8270373749993747'' ''20r#*b38&,^?Uy6'',
    Put ''8606966553084256'' ''6R))W>+x.Q+;U+$'',
    Put ''3231922309441834'' ''1c:Xw7'',
    Put ''2061286776547710'' '':+z6Jm6]u6>62$b7'',
    Get ''1950091275678489'',
    Get ''4074781782161233'',
    Put ''4534737913330811'' (''2#`6(z9Bm3E=9`'' @ [CHR 0x27]),
    Get ''4163320309274709'',
    Get ''5474730001472240'',
    Put ''4997704684372624'' '';Tu;D-#.:)3'',
    Put ''2272843847929036'' ''9Ki'<26B!)9r6T1,'',
    Get ''7938808774216806'',
    Get ''6997696765051096'',
    Put ''6381216229688190'' ''9;p*Se5Lw/*`00x#'',
    Get ''2543558236178734'',
    Get ''5475289961984380'',
    Put ''7928534804371831'' ''L))+~5V%)Wo%98'',
    Put ''2759801489579328'' ''90h;Ta([e>Vg$[9$'',
    Put ''5802168755742054'' '''',
    Get ''4650619596219299'',
    Put ''6525357629970748'' ''*N/1]c<!j/_#1R)='',
    Put ''2282216211967572'' ''.^#(+~?'`:]u&)*5'',
    Put ''5952315279083996'' '',W/1.x9M)!W{=5*9'',
    Put ''6651731597922053'' ''1K!$Ci)Lw74n-L')'',
    Get ''6379897288648074'',
    Get ''6399761937749426'',
    Get ''4886509183503403'',
    Put ''7934122592197538'' (''49h&I?1J))Hu3Xi'' @ [CHR 0x27]),
    Put ''3715873650609279'' ''*|+Jy$_i+*n*4~:'',
    Get ''3489356427363711'',
    Put ''3945957134849834'' ''4M--::(<.$-(:]1'',
    Get ''2768955538400021'',
    Get ''8883487044377502'',
    Get ''2176826814141900'',
    Put ''8522903370678515'' ''6Ge+(d'$615h-5j?'',
    Put ''3945957134849834'' ''79h6I}*=*(_-#8:4'',
    Put ''1127100791449830'' ''#Jk:Mu)8<'',
    Put ''6983856534211135'' ''##|?R556:8!2/<p'',
    Get ''7230020091340213'',
    Get ''9009861012328806'',
    Get ''2503487292681732'',
    Put ''1467259855535325'' ''[k>2<0W1%!<6X;-'',
    Get ''7812434806265501'',
    Get ''3816016905903543'',
    Get ''2056818909746284'',
    Put ''2512859656720267'' ''%!r*9`?Oe>..&H=5'',
    Put ''3700913498745037'' ''7Q{;(h0Qi:So8C;5'',
    Get ''3589717997875816'',
    Put ''3584813500638707'' '',;08Bs6]?%X#.]c:'',
    Put ''9084551830696012'' ''0Ey'A75-~>Xm74b;'',
    Get ''6978610391679727'',
    Get ''6294714185218053'',
    Get ''8643129590291972'',
    Put ''6345553619738322'' ''<F}*Ai:W%9Pw,Fa+'',
    Put ''1127100791449830'' (''.N'' @ [CHR 0x27]),
    Put ''1940377266345655'' '')J1934'1'',
    Put ''7928534804371831'' ''8>,<Gy(_c?Uy7.`?'',
    Put ''4752101087755686'' ''4O'!=z%Z}?Na9^s/'',
    Put ''7245198558422297'' ''&B3'',
    Put ''4640687271668624'' ''>4,(;d&+$08p:r:'',
    Get ''3927990682502746'',
    Put ''6163654035247480'' '''',
    Get ''8270373749993747'',
    Put ''2281997896749730'' ''!9|?]!7B35J=/P3='',
    Put ''4052844096144730'' ''#.d2=h<Cw6_1%2z:'',
    Get ''8989094757421016'',
    Put ''8995460820976705'' ''1?'',
    Put ''4519777761466569'' ''(=(%*#-255z+.2%'',
    Get ''3218082078601873'',
    Get ''7928534804371831'',
    Put ''1826175464993588'' '';O-54>7U7)J3:Cq+'',
    Get ''1127100791449830'',
    Put ''1583141538423813'' ''(Rs3Am!P?6h358$'',
    Get ''1809609549705548'',
    Put ''8270373749993747'' ''3)2,A#498Ia4Vm.'',
    Get ''9100071943072394'',
    Put ''6284781860667377'' ''7#,(7(,P/!_o5>:'']"

definition run_51 :: "bench_op list" where
  "run_51 = [
    Put ''1127100791449830'' ''*.%E?*Fi6V/6Vc3'',
    Put ''6410035907594400'' ''68t/M3=K!%Tm'',
    Get ''3127652832640443'',
    Get ''7218626200470958'',
    Put ''2765389277405034'' '';GkE}(>4'',
    Put ''3821481363652793'' ''!$4I-$A34Xu~6'',
    Get ''8270373749993747'',
    Put ''7944054916748214'' '')nX-4Dg/E)7M%'',
    Put ''3065566471918771'' ''0(-:>8S1<Ou8?n?'',
    Get ''9096164036783109'',
    Put ''7118824590470993'' (''*W+%.,6X3=&j'Nc'' @ [CHR 0x27]),
    Get ''8270373749993747'',
    Get ''7928534804371831'',
    Put ''8155611988129540'' ''!1f*%&'Ne/<&?585'',
    Get ''1105556260812057'',
    Put ''6530603772502156'' ''/Zu>^)=L?9#$?5n7'',
    Get ''2302422506363222'',
    Get ''4641465547398606'',
    Get ''8980282353894621'',
    Get ''8285893862370130'',
    Put ''8421640194359970'' '''',
    Get ''5344789772525948'',
    Get ''8878800862358234'',
    Get ''7545632663694477'',
    Put ''5104432318440419'' ''21~/M!3/p**'+2('',
    Get ''5937136812001912'',
    Put ''2513979577744548'' ''#E'5%v8&z&&*3V)4'',
    Put ''6058824597933949'' ([CHR 0x27] @ '']!<&v)Ms;#`0Om.''),
    Get ''3916938436927789'',
    Get ''2906381751926282'',
    Get ''6746847025902750'',
    Put ''4047438626386221'' ''=Lo3B7*M6_1=L%('',
    Put ''3222768260621140'' ''1'',
    Put ''3459777768929525'' ''9G-(Mi:[e67`#B:'',
    Get ''6062390858928936'',
    Put ''3956449419912651'' ''#1&)2l1]#0:8%?81'',
    Put ''1127100791449830'' '';W;(9x-]o?Ty8G/!'',
    Put ''2968426378590431'' ''%Im+J?*--S'#T/$'',
    Get ''1714761648906526'',
    Get ''7692426901869886'',
    Get ''1127100791449830'',
    Put ''7928534804371831'' ''2?l*K3+.b&l1Pc?'',
    Put ''3945957134849834'' ''4Z544'',
    Put ''7944054916748214'' '')$b6Ym;K7,?x$Qu#'',
    Put ''4393745438809563'' ''?J)!Lq+Xg:-<2%<'',
    Put ''1004293084493512'' ''4P*2$/l&Zs+Ya#'',
    Get ''2181294680943325'',
    Put ''3117160547577627'' ''8.t;%v$7l'/fN7-'',
    Get ''2192906887030423'',
    Put ''5943502875557601'' ''.P'<^6N!<Zq*6(-'',
    Get ''2413058046720302'',
    Get ''1127100791449830'',
    Get ''1348590187381832'',
    Get ''1211723934367711'',
    Put ''2876024817762115'' ''/'',
    Get ''6345553619738322'',
    Get ''8854051011221780'',
    Put ''2402224116363187'' ''95:!Ry'',
    Get ''1127100791449830'',
    Put ''6973924209660459'' ''2>l>Pk25~&>69/04'',
    Put ''8999928687778130'' (''?Cc+'' @ [CHR 0x27]),
    Get ''4997704684372624'',
    Put ''2292148536518247'' ([CHR 0x27] @ ''O)!-6%7p3Zo43>1''),
    Get ''5696219397404242'',
    Put ''4866862849619894'' ''%My;&061<0-r(K#5'',
    Get ''8150365845598132'',
    Put ''5791676470679238'' ''#,6$4x!C9%5z$$,'',
    Put ''5958121382127544'' ''74r?;z0=0,-|=+24'',
    Get ''8033924202197503'',
    Get ''6510397478106506'',
    Put ''5383200129688536'' ''6'',
    Put ''7928534804371831'' ''%2f&'#~#Ce$>h;'',
    Put ''8270373749993747'' ''-1t3T!:3dSu?Eq#'',
    Put ''3232700585171816'' ''3Wk?1t7h#(.6;h?'',
    Put ''8155052027617400'' ''4O=1$f/J;,2p),n2'',
    Get ''8618018798659212'',
    Put ''2629301300120896'' ''((b2Te=A:@k.[/,'',
    Get ''7923070346622581'',
    Get ''2288022315011120'',
    Get ''1809609549705548'',
    Get ''7239392455378749'',
    Get ''6731668558820666'',
    Put ''7681592971512771'' ''=;n3De?Rk]m.Us7'',
    Get ''1468379776559606'',
    Put ''5470603779965112'' ''?Fm*V%!.z:^=2>`+'',
    Get ''6062390858928936'',
    Get ''1127100791449830'',
    Get ''5575433217278644'',
    Put ''1941278872152094'' '':~:D'$A;%Py1/~>'',
    Put ''3927990682502746'' ''(~&Gc?f6C+-/<'',
    Get ''2312914791426038'',
    Get ''5922736620649810'',
    Get ''8632418990011314'',
    Get ''2417184268227429'',
    Put ''8405901766765746'' '';]m7'',
    Put ''4268709707100381'' ''%He#R+8Y19*x>Qa6'',
    Get ''4400329817583094'',
    Put ''1127100791449830'' ''02p'E7/:&(?t'',
    Put ''8627172847479906'' ''*F;,]-9,*1Ls-;n&'',
    Get ''2180734720431185'',
    Put ''8044198172042478'' ''7Bi'Z9;?v*/)001'',
    Get ''4178280461138951'',
    Put ''2523693587077382'' ''>:(=0~-?z?<`7^y2'',
    Get ''5464797676921564'',
    Get ''2645039727715120'',
    Get ''2056600594528442'',
    Get ''7938808774216806'',
    Put ''4630973262335790'' ''.6r67l36:8M!-G?,'',
    Get ''6414722089613668'',
    Get ''5916930517606262'',
    Put ''5383200129688536'' ''3Dg.60%8b/Kc<Gi&'',
    Put ''8633197265741296'' ''&>r;0x)W%%Eg2-p*'',
    Put ''5223320301811753'' ''>|&/()h31b7$(4'',
    Put ''7465349718112177'' ''<Ao',99x2<v?->,'',
    Get ''3343896086041037'',
    Get ''8643129590291972'',
    Get ''7218626200470958'',
    Get ''5012323190942567'',
    Put ''4056592675206915'' ''?9'',
    Get ''1106894497054180'',
    Get ''2910365348154946'',
    Get ''8270373749993747'',
    Put ''6753213089458439'' ''%Lq'N/6D+0'',
    Get ''4042192483854813'',
    Put ''1336977981294735'' ''*Q3'',
    Get ''4014537599547328'',
    Get ''4856370564557077'',
    Get ''5952875239596136'',
    Put ''8651988067265279'' ''8D'9#,;]%1Ww&=d'',
    Get ''7942934995723933'',
    Put ''1598320005505897'' ([CHR 0x27] @ ''Io3Z'3(f6M%8!(!''),
    Put ''3946517095361975'' ''1vK{4Y1$M?3&%'',
    Get ''8275401577307314'',
    Put ''4182406682646079'' ''1:$!A-!X3=To/;-'',
    Put ''9114130489130197'' '')8j2_c,Ra?Cy03b'',
    Get ''8270373749993747'',
    Put ''2428236513802386'' ''6B5=!r9'',
    Put ''9956989961849596'' '':@u;P);.n7!h:/f'',
    Get ''4394523714539545'',
    Put ''7581791361512805'' ''8.p3=`.<>54x>Q#$'',
    Put ''4766501279107788'' ''44x/H#.F/(Z}-Vg*'',
    Put ''7245198558422297'' ''(K}6A5!!41V}?7,'',
    Get ''4505159254896626'',
    Put ''4394523714539545'' [CHR 0x27],
    Put ''8064062821143829'' ''>+'',
    Get ''9215393665448742'',
    Put ''3018704651726094'' ''510)Ya>;.=#v2^1%'',
    Get ''5937136812001912'',
    Put ''4042192483854813'' '',E?4W,Wg678?#<$'',
    Get ''3469150132968061'']"

definition run_52 :: "bench_op list" where
  "run_52 = [
    Get ''2151716022509140'',
    Put ''4283888174182465'' '':Ri2Em%Es7Xe3>'',
    Put ''3347803992330322'' ''%Hq#M=66('',
    Get ''2398657855368200'',
    Put ''2919381406219336'' ''1U7)Dk!H{?Ik:#h2'',
    Get ''2539432014671606'',
    Put ''1703149442819429'' ([CHR 0x27] @ ''(f><3Z;)<)%|'' @ [CHR 0x27]),
    Get ''4182406682646079'',
    Get ''1127100791449830'',
    Get ''6997696765051096'',
    Put ''6033372161006890'' ''.D%5I;#E?-/2*%(('',
    Get ''7698233004913434'',
    Get ''3091708110650568'',
    Get ''3956449419912651'',
    Get ''3599991967720791'',
    Put ''5218074159280345'' ''.Ec:<<3C+8)f)&`7'',
    Get ''8643129590291972'',
    Put ''5586143817559302'' ''64<<>*>1Ua&Z!'',
    Put ''6235031163988755'' ''<'d#.l'',
    Put ''7455977354073641'' ''!G}76<-;$)+|-S}>'',
    Get ''2166334529079083'',
    Get ''1127100791449830'',
    Get ''8854468346455457'',
    Put ''6295274145730193'' ''0b'Ho87!]+&O!'',
    Put ''8874674640851107'' ''+D9=Zs#Xm+<80_+8'',
    Get ''3584471855344408'',
    Get ''2151716022509140'',
    Get ''5377600524567132'',
    Put ''4042752444366953'' '';Oq:(f!Ze7%f'',
    Put ''8632418990011314'' ''2Ki+]k)!,5!:7'',
    Get ''8386255432882236'',
    Put ''6159186168446054'' ''&*80F!.Y-!Fo<)<9'',
    Put ''8421640194359970'' ''0^#(^%#Nk2H/2Ni:'',
    Get ''3700353538232897'',
    Get ''5937696772514052'',
    Put ''6275627811846683'' ''8D)(j-['<L+:!2,'',
    Get ''9216171941178725'',
    Put ''3005405086196265'' ''4Z.#n)L};_s-^u*'',
    Get ''2408590179918876'',
    Put ''9206239616628049'' '''',
    Put ''2986878673337037'' ([CHR 0x27] @ ''8*9]?)Ue>:x4Lw7''),
    Put ''9100290258290236'' ''=N5<J{-Cu&]=8428'',
    Get ''7923070346622581'',
    Put ''2278089990460444'' (''%+v++*.>,!Nm/<x'' @ [CHR 0x27]),
    Put ''3945957134849834'' ''=74%H'3I5-Nm>@9-'',
    Put ''8270373749993747'' ''&Z#1Jm&R+8*b;@a#'',
    Put ''4525583864510118'' ''6U7(?2)1f:a5&>9'',
    Put ''5827061232156972'' ''&_q3]i!Me35l!Hq'',
    Get ''1347470266357551'',
    Put ''5916930517606262'' ''5K'<V5<6<!6.>C34'',
    Put ''8048324393549605'' ''*=.1@sK70K'$Fe7'',
    Put ''8748518988117644'' ''(X{&Mi<Jo3Vs$U'0'',
    Put ''6159186168446054'' '':+45'*5:2,5('',
    Get ''2986878673337037'',
    Put ''6159186168446054'' ''6E/14j-V}/<|(Fy>'',
    Get ''3343896086041037'',
    Put ''4761473451794221'' '''',
    Put ''4766501279107788'' ''*>80Ms'',
    Put ''8801589585907699'' ''!5$Ew1<<'',
    Get ''5339761945212382'',
    Get ''3112474365558359'',
    Get ''6978610391679727'',
    Put ''4765941318595647'' ''>6v'225C7=!l<!v.'',
    Put ''4534737913330811'' ''8F%8#t0I;(Q/;B9!'',
    Get ''5459769849607998'',
    Put ''3945957134849834'' ''0#h>U;1%d+:h'',
    Get ''4887069144015544'',
    Get ''3011211189239814'',
    Put ''2177728419948339'' ''%M)97`-Y{7<)+<'',
    Get ''1799944752336548'',
    Get ''2658879958555082'',
    Get ''9114130489130197'',
    Put ''8270373749993747'' ''1,z.=z=2h?)l2-2('',
    Put ''6275627811846683'' ''.A%8^7=@m2+t1f?'',
    Get ''1127100791449830'',
    Get ''6642017588589219'',
    Put ''3333963761490361'' ''!%lFm,-*$80$=n.'',
    Put ''1804630934355815'' ''.+z+@)#U'6`&:z?'',
    Get ''2192906887030423'',
    Put ''5112466446236831'' '',):5R!=L?<'',
    Put ''1473625919091014'' ''2;r.Pm.U#(Ug&J=='',
    Put ''8270373749993747'' ''<%$5X'Eo&=8$1.='',
    Get ''7586477543532073'',
    Put ''1951211196702770'' ''<Y;)_5'Zu>4v*0f?'',
    Put ''5107220303705423'' ''6'',
    Put ''2046886585195608'' ''-]!-N{/!$'',
    Put ''6279754033353810'' (''9<t#.`?8f#5z%Mq'' @ [CHR 0x27]),
    Put ''6235031163988755'' ''/H3<%$5+n33vGa:'',
    Put ''5233598611046116'' ''%Fi'*|6/4'p+=r#'',
    Put ''2156962165040548'' '''',
    Get ''1115488585362733'',
    Put ''2528598084314492'' ''08j/&`3Wo:q::&8'',
    Put ''1100528433498491'' ''3Y=0%<.^w2791l;'',
    Get ''2639233624671572'',
    Get ''4171921875489572'',
    Get ''1578455356404546'',
    Put ''2388165570305384'' ''3J=)Nk=)z>T9#G%<'',
    Get ''7701799265908421'',
    Get ''6642577549101359'',
    Get ''4882382961996276'',
    Put ''7099738217099623'' ''9Ls:H}(Ao>'n5(41'',
    Get ''5470603779965112'',
    Get ''4520119406760868'',
    Get ''8270373749993747'',
    Put ''6179610778059547'' ''3;`.=0#3$5@;+Ce.'',
    Get ''4067084960269731'',
    Get ''7943494956236073'',
    Get ''1106334536542039'',
    Put ''8522903370678515'' ''2]--O;3*'',
    Get ''5470603779965112'',
    Put ''6280873954378091'' ''+('',
    Put ''7481972028137587'' ''/+f7N),0,<781K!%'',
    Get ''1950651236190630'',
    Get ''3117160547577627'',
    Put ''3599991967720791'' ''4C#=@9*Fo32<49r6'',
    Put ''5811541119780590'' '''',
    Put ''5570187074747236'' ''9!n_m+_3-+z*<n:'',
    Put ''5223101986593911'' ''0*$(~1R/9)82D+4'',
    Put ''2282776172479712'' ''1>~:Pc+4b#=*>F9)'',
    Put ''1684623029960200'' (''2N3%f{'>p;(t'' @ [CHR 0x27]),
    Get ''1940718911639954'',
    Get ''1127100791449830'',
    Put ''9206239616628049'' ''>0l+Ga!C{#1p'8l/'',
    Get ''3233042230466115'',
    Get ''8274841616795173'',
    Put ''2062065052277692'' ''#G94!'',
    Put ''2513979577744548'' ''4Yq#9.0[59Je</68'',
    Put ''1127100791449830'' ''$'d31p>S;-T9-G5,'',
    Put ''3347803992330322'' ''>I!9Bo.!t:<0Cw7'',
    Get ''8290580044389398'',
    Get ''1105774576029899'',
    Get ''5459769849607998'',
    Get ''9206239616628049'',
    Put ''7919722400845436'' (''#Xo6K18-|>1l)#~'' @ [CHR 0x27]),
    Put ''2976386388274220'' ''%;rEc?-<9V}1'-'',
    Get ''3217522118089732'',
    Put ''1127100791449830'' ''=6$16>?v+Ai*9`/'',
    Put ''4047220311168379'' ''5Vq&Uc9X-1Me<Y'',
    Get ''4061838817738323'',
    Get ''3700135223015055'',
    Get ''4378785286945321'',
    Put ''7450949526760075'' '';S7$,l0Gq*.0*J;('',
    Put ''1605363453570628'' ''.J+!Cs-,!7'',
    Put ''8164766036950234'' ''%Jo>V%7E;'',
    Put ''3599991967720791'' ''(7x;1h2f/7~&=>4'',
    Put ''1940377266345655'' ''!A%(Xo/Ji/:$$Im2'',
    Put ''6883494963699029'' ''8D5=0,;.h7r*/$4'',
    Get ''3091708110650568'',
    Put ''7355274138267237'' '')O%5X5.Lm/Z);:.9'',
    Get ''1141719298019773'']"

definition run_53 :: "bench_op list" where
  "run_53 = [
    Get ''6033372161006890'',
    Put ''2910365348154946'' ''%Gk';d$-z7K#<7(1'',
    Put ''6882935003186889'' ''(@70<f;<n#Z-%><,'',
    Get ''2855818523366464'',
    Put ''7913916297801888'' '':4`3I'%_=0I{<Qg3'',
    Put ''1715885909320195'' ''29n/M/1=:0/d;]/9'',
    Put ''2857903922840864'' ''7Ko;E5'',
    Get ''7928534804371831'',
    Put ''1693995393998735'' ''.'<5_%Sy?O5)5<'',
    Put ''1105774576029899'' ''*S-5-h9D!%]{)Gm>'',
    Put ''8270373749993747'' ''$(8/:/Ic+>9'',
    Get ''2056040634016302'',
    Put ''4400329817583094'' ''-;j'Za)Is.M?55<!'',
    Put ''2870778675230706'' ''5A/S;#G!,]7.C#'',
    Put ''5113244721966814'' ''2Uw+=f.3z&@5-Ju?'',
    Get ''2754337031830078'',
    Put ''3714753729584998'' ''=x;K?'',
    Get ''7340095671185153'',
    Get ''3018704651726094'',
    Get ''1127100791449830'',
    Put ''6510957438618647'' ''=J-9;60P5=Eg,3:%'',
    Put ''8738586663566968'' ''01b.120&x&Zs&P7!'',
    Put ''1105556260812057'' ''?-<!5<'',
    Put ''5937136812001912'' ''C?$%$3Mu:2|-'0'',
    Put ''8983848614889607'' ''>_144|#&>8v!!x7'',
    Get ''4534737913330811'',
    Get ''8270373749993747'',
    Get ''1336418020782595'',
    Get ''6168558532484590'',
    Get ''8270373749993747'',
    Get ''5943161230263302'',
    Get ''1950651236190630'',
    Get ''1805750855380096'',
    Put ''3112474365558359'' '':<,<Ks&J33|9Zo:'',
    Put ''9206239616628049'' ''8Bw7Ie1:=X5&Bu'',
    Put ''6159186168446054'' ''+G'5'',
    Get ''1136473155488365'',
    Put ''2769779887576915'' ''7Tu*.$/@q*8.<U}:'',
    Put ''4981966256778399'' ''+;&9=.=T1-6($@o6'',
    Put ''7230798367070196'' ''8#:<5p7,`2/2'$4%'',
    Put ''1473844234308856'' ''8#t:9p'',
    Get ''3932116904009873'',
    Get ''4997704684372624'',
    Put ''2288582275523261'' (''@q+4,?:(9.0;(j'' @ [CHR 0x27]),
    Get ''7707605368951969'',
    Get ''5696001082186400'',
    Put ''1946183369389204'' ''+!pM/0%413b:?h?'',
    Get ''1506040208063870'',
    Get ''2519225720275956'',
    Put ''5243526596207403'' ''8Bq+$v/[?%b)Nm*'',
    Get ''8744392766610517'',
    Get ''9752743865714676'',
    Put ''6058824597933949'' (''.Xm+CwC'' @ [CHR 0x27]),
    Get ''8698849887457955'',
    Put ''1718887870413653'' '')3,050#U}*Vu?!<-'',
    Put ''1127100791449830'' '''',
    Put ''5454523707076589'' '''',
    Get ''3011211189239814'',
    Get ''8270373749993747'',
    Get ''1960583560741305'',
    Put ''5817907183336279'' ''9S?<Je%V+'',
    Get ''6042744525045426'',
    Put ''5812101080292730'' ''(>l'Y#248B+0J:'',
    Get ''7451509487272215'',
    Put ''4876795174170569'' ''$=0-5~5;:!r+;j+'',
    Put ''5460111494902296'' ''<Y?)-:?@%)S?1<$!'',
    Get ''8054908772323136'',
    Put ''1127100791449830'' ''Y#%A9,$t;?`#}:'',
    Put ''2504047253193872'' ''!>.$Re1*j2[9$No#'',
    Get ''9220639807980150'',
    Put ''6173026399286016'' ''+Ai/C='%4<M5Y9%'',
    Put ''1127100791449830'' ''9,b7>*%F#9j4-l2'',
    Put ''1724693973457202'' ''?$-'.(Zk6W+'3v/'',
    Get ''3599991967720791'',
    Get ''3473617999769486'',
    Get ''6636553130839969'',
    Put ''1951211196702770'' ''9(2%P#>*():nNo6'',
    Get ''4047220311168379'',
    Put ''2267597705397628'' ''&<601,%g;6:;L?4'',
    Put ''6583279173644691'' '',>*$Y!_{68|%<b?'',
    Get ''3957569340936932'',
    Put ''4403896078578081'' ''8G!59|%*&5'',
    Get ''8496890973239316'',
    Get ''7928534804371831'',
    Put ''9898928931414111'' ([CHR 0x27] @ ''9''),
    Get ''4168006491293977'',
    Get ''3695667356213629'',
    Get ''6400881858773707'',
    Put ''8747959027605504'' '',_-=2(=O?84>>Tg+'',
    Get ''6997696765051096'',
    Put ''1127100791449830'' ''3=v7!|7Qk?=&?+t:'',
    Get ''3710067547565731'',
    Put ''3107446538244793'' ''.5*1>4*~:Z7.]e?'',
    Get ''5470603779965112'',
    Put ''2278089990460444'' ''73d6G=:Sq+*|(5`.'',
    Get ''2177168459436198'',
    Get ''6505151335575098'',
    Put ''7094492074568215'' ''?6r2%:='',
    Get ''7219186160983098'',
    Put ''3343117810311055'' ''&K;,S7'G=<2p0D74'',
    Get ''5952875239596136'',
    Put ''5576211493008626'' ([CHR 0x27] @ ''0l8n9@e#]77;.!''),
    Put ''5113244721966814'' ''4/,'',
    Get ''5103872357928278'',
    Get ''8270373749993747'',
    Get ''6400881858773707'',
    Put ''5921958344919828'' ''&]q7&|>0p6Ma4Uq&'',
    Get ''1004293084493512'',
    Get ''4534737913330811'',
    Put ''1372362742772469'' ''?D=!E/12<$=,:Be*'',
    Put ''8762359218957605'' ''?)43r%6d*I9>Yi.'',
    Put ''5596417787404276'' ''=U{'1>$;~?6(7#:,'',
    Put ''8038952029511069'' ''&%r:,b=/h6*!@g+'',
    Get ''1710286304198790'',
    Put ''1127100791449830'' ''0Q5%Z7<Lo#9+9<('',
    Get ''3333403800978221'',
    Get ''2398657855368200'',
    Put ''9210925798647316'' ''.J--#r'9h&Q='R;-'',
    Get ''1127100791449830'',
    Get ''7928534804371831'',
    Put ''1127100791449830'' ''8Vc;I3)R%(_c.u:'',
    Put ''7797256339183417'' ''&Qi;':6Hg3%nR5-'',
    Put ''5133451016362464'' '',,:=9f88n3;:4>='',
    Get ''8260441425443072'',
    Put ''4745735024199997'' ''3K-(O}:L-(B7*7j.'',
    Put ''1936811005350669'' ''<<,J+#L)%>*?&h6'',
    Put ''1563495204540303'' '');'',
    Get ''7224213988296665'',
    Put ''7230238406558055'' ''$=0%[-#>&9^#*H3!'',
    Put ''3820703087922811'' ''?FM=5<&)%p:2&'',
    Get ''6280873954378091'',
    Put ''4067084960269731'' ''/<|:9`9H?95<#M'!'',
    Put ''8049662629791728'' ''1)>(H?,'h*Nc6Wm*'',
    Get ''1357962551420368'',
    Put ''8411707869809294'' ''$Vi#)(<*b2Jg!V/9'',
    Put ''5464797676921564'' ''!Pi;/*01r2Mw.'v?'',
    Get ''5585583857047162'',
    Put ''2886175457530632'' ''49f3G+.'`/3<&/'',
    Get ''4047220311168379'',
    Put ''8854468346455457'' ''33f*2,9N3-Oc35b?'',
    Get ''4077577245332547'',
    Get ''1825615504481448'',
    Put ''3333963761490361'' ''-Fi2X-;+d';f+I}#'',
    Put ''1840575656345690'' '';Vc>Si2'd&!:0)p>'',
    Put ''1693777078780893'' ''6'h#Tk>N6[c8C%('',
    Get ''7109110581138159'',
    Put ''2278089990460444'' '':Am*G)(J}'9:<Y#='',
    Put ''6656417779941320'' ''#>$0Bq-B%%$*4>|/'',
    Get ''3348923913354603'',
    Get ''2060726816035569'']"

definition run_54 :: "bench_op list" where
  "run_54 = [
    Put ''8643129590291972'' ''7I#0-f3]m>^=*^#'',
    Get ''2870778675230706'',
    Get ''8850634558278795'',
    Get ''5596417787404276'',
    Put ''7234706273359481'' ''&c>)n32f2Vi-,~'',
    Get ''1004853045005653'',
    Get ''3945957134849834'',
    Put ''2629861260633036'' ''25`'70#W#,8p.Kk.'',
    Put ''5092820112353322'' ''43x>T)0Va:R?7*<'',
    Get ''8045536408284600'',
    Get ''6630965343014262'',
    Get ''5596417787404276'',
    Put ''7008749010626053'' ''#-8)P-'',
    Get ''3222768260621140'',
    Put ''2166894489591224'' ''.7`3P{9Yk?=`5Sq7'',
    Put ''2162768268084097'' ''?;*0I5('',
    Get ''5092820112353322'',
    Put ''4534737913330811'' ([CHR 0x27] @ ''T}3N+>0:89,:R-%''),
    Get ''6143447740851830'',
    Put ''5822033404843406'' (''.'' @ [CHR 0x27]),
    Put ''3957569340936932'' '';[c&Z?)&f7[7*'',
    Get ''3252906879567466'',
    Get ''7689634577215493'',
    Get ''6169460138291029'',
    Get ''1950651236190630'',
    Put ''3945957134849834'' ''.+=348Ye>F7)*~:'',
    Get ''8069308963675237'',
    Put ''2760361450091468'' ''84b>/j4&x*B!%A%<'',
    Put ''7235826194383762'' ''8:d;'x?[3'',
    Get ''6510397478106506'',
    Get ''7354714177755096'',
    Put ''2291370260788265'' ''6%d:0&,j2J/8@q*'',
    Put ''6531723693526437'' ''50|/%&80*'',
    Put ''2910365348154946'' ''.84=1`;3:,*41[=='',
    Put ''6968118106616911'' ''9Ja:-p?Og*+('',
    Put ''3710067547565731'' '':H!8Pc88b*G02v6'',
    Get ''5450397485569462'',
    Put ''1825615504481448'' ''(;h*Ai(9p2q*+25'',
    Put ''8874674640851107'' '')>r#W?=_5)$&/(j>'',
    Get ''2292490181812546'',
    Put ''3694889080483647'' ''<A!%14,_)!N31Qu#'',
    Put ''2525031823319505'' ''60x;(;L%=,47Xi&'',
    Put ''1352156448376819'' ''0%&5Vu:+|3<>>M{/'',
    Get ''6159186168446054'',
    Get ''6656977740453461'',
    Get ''7114138408451725'',
    Get ''3011771149751955'',
    Put ''5696219397404242'' ''2Cs3Fm!,'',
    Put ''7692426901869886'' (''!$n2'' @ [CHR 0x27]),
    Put ''4577458349285543'' ''*Fe/=x3>~2Bc;)b7'',
    Put ''8792573527843309'' ''3Gg220A)<$x!<h+'',
    Get ''2919381406219336'',
    Put ''7455977354073641'' ''?.'',
    Put ''1236616410782629'' '''',
    Put ''2518665759763816'' ''(S}+40,Gm6Wq(Ce;'',
    Put ''7591320243918142'' ''9;:<T)0&<N=%>`.'',
    Put ''5328709699637425'' '':;9F/+Wc??`9)p/'',
    Put ''8527029592185642'' ''6Au?3,=Qk#8<1749'',
    Put ''5107780264217564'' ''2&z6Bs'F%9_#3Pq7'',
    Get ''7556898885097888'',
    Put ''6163654035247480'' ''0)((`/.'',
    Put ''6516203581150055'' ''-/h*W%-7d#F=/&>4'',
    Get ''7493171238380396'',
    Put ''3252906879567466'' ''0*`.Cq'^30R;.Uu*'',
    Put ''4997704684372624'' ''.]9%3v8;&-%0!Ck#'',
    Put ''1593633823486629'' ''$>b+L'364<Ta$%x;'',
    Put ''7487571633258991'' ''0<<8Yc(2d?]a07:0'',
    Get ''5107780264217564'',
    Put ''8406680042495728'' ''<S!-P?.&n7*l2D;9'',
    Get ''5340321905724522'',
    Put ''8863062434764010'' ''*'',
    Get ''3112692680776201'',
    Put ''5383200129688536'' ''=?~*Mw(G!)T!>]w3'',
    Put ''5470603779965112'' ''9P)0'',
    Get ''5702025500447790'',
    Get ''2781127704999259'',
    Get ''2180734720431185'',
    Put ''2910365348154946'' ''*T9='`'',
    Get ''1127100791449830'',
    Get ''6154499986426787'',
    Put ''8270373749993747'' ''&A)0-b'Ke2U}12d.'',
    Put ''3101640435201244'' ([CHR 0x27] @ ''Ua&Xm(]g&Ia(D#<''),
    Put ''2760921410603609'' ''7Ga>3`:M'4$><?9'',
    Put ''1467819816047465'' ''(6p&.<7Sw'Mc?R#9'',
    Put ''5334515802680974'' ''-D)1Bo'5b;6*;x:'',
    Get ''7923070346622581'',
    Put ''8270373749993747'' ''$=h?'',
    Get ''5007637008923300'',
    Put ''1121513003624123'' '')^15F+8^e+^3=B+-'',
    Put ''2192906887030423'' ''81'',
    Get ''6408915986570119'',
    Get ''4056592675206915'',
    Put ''7822927091328317'' ''-&8)Vo/^m*588]y/'',
    Put ''1127100791449830'' ([CHR 0x27] @ ''T7(D+#4|&(276|&''),
    Get ''8270373749993747'',
    Get ''2180734720431185'',
    Put ''4887069144015544'' ''9,z&R;/Ao6'',
    Put ''5383200129688536'' ''/W#!La%z:,7*.9'',
    Put ''4273955849631789'' ''-Jg?!0>$>0Dy*'',
    Get ''4992458541841216'',
    Put ''2066532919079118'' ''#La+$$'',
    Put ''5802168755742054'' ''<_',/n'',
    Put ''9910128141656919'' '''',
    Get ''2528939729608790'',
    Get ''9114690449642338'',
    Put ''2278089990460444'' ''.0r6(b/Ss>)<!Z71'',
    Put ''1226902401449795'' '',.&82x<+~&':'L#'',
    Put ''1840575656345690'' ''&-d/+0$6=P37><='',
    Get ''7697673044401294'',
    Get ''3700695183527195'',
    Put ''6042744525045426'' ''*^)%H?=@w;_0Su2'',
    Get ''1583141538423813'',
    Get ''7576545218981397'',
    Put ''4534737913330811'' ''9<,8W%K'%E'7H)-'',
    Get ''1709733821592960'',
    Get ''8270373749993747'',
    Get ''3936024810299159'',
    Put ''4767279554837770'' ''7/<-Vu:2`>Ms>[?<'',
    Put ''4626287080316522'' '')Ug2A=:Z9$$4Y%'',
    Put ''7456755629803624'' ''/Yy#L9=.d'Ce.P?%'',
    Get ''1127100791449830'',
    Get ''5700687264205668'',
    Put ''7684034972094089'' '':Z#9Ug+:,!O!-%~'',
    Get ''3569293388262324'',
    Put ''9100290258290236'' ''.2b+Rk2$n6,:'M!$'',
    Put ''1115488585362733'' ''>+0)Uk3F7$8&'',
    Get ''7571517391667831'',
    Get ''3945957134849834'',
    Get ''8622145020166340'',
    Get ''8270373749993747'',
    Get ''1010099187537061'',
    Put ''7817899264014751'' ''.C'1O#$7:-<.&08'',
    Get ''7749878759829398'',
    Get ''5687406993877847'',
    Get ''6737474661864215'',
    Put ''6857482566259831'' ''+I-!I=1<<+43^%,'',
    Put ''6772859423341949'' ''T+=X1,J?$7?G;%'',
    Put ''8185190646563726'' '',;&<%,!J5%8(2Z1('',
    Put ''7697331399106995'' '';Ki3Oi/O;8,v+U74'',
    Get ''3706501286570744'',
    Get ''1583141538423813'',
    Get ''6280873954378091'',
    Put ''7943494956236073'' ''1-(8M=3:&(=h?='',
    Get ''1141719298019773'',
    Get ''8048324393549605'',
    Put ''2055480673504161'' ''13.5Da!1*5&p.3l.'',
    Get ''3117160547577627'',
    Put ''4042192483854813'' ''?Qq7<(+B)!^u&W!8'',
    Get ''8270373749993747'',
    Put ''5796922613210646'' ''9.-'']"

definition run_55 :: "bench_op list" where
  "run_55 = [
    Put ''4775873643146323'' ''1Vi.N+5B75M!2C}6'',
    Get ''5696219397404242'',
    Put ''7481088145706401'' ''%Gy>,0&Sw*%&0Oy+'',
    Get ''2407811904188894'',
    Put ''5046076551212311'' ''?c:Pk,*$-Ec3R-('',
    Put ''5358848318583751'' ''!>:9'',
    Get ''6043304485557566'',
    Get ''8396187757432912'',
    Put ''6636771446057811'' ''8!z*16'G{'O=8/t7'',
    Put ''3945957134849834'' ''$Ny>&v566<<,:Zm'',
    Get ''4997704684372624'',
    Put ''1127100791449830'' ''?Z71+~?N>F1,Z%)'',
    Put ''8048324393549605'' '':'',
    Put ''2523911902295224'' '')Tq6Di8_/%/6'',
    Get ''5681040930322158'',
    Put ''4393745438809563'' ''6Ak.;,,A}7/809v3'',
    Put ''6414722089613668'' ''32v/64?To2Co&Ea&'',
    Put ''1588605996173063'' ''6A%(Sw;X;!'t#6,-'',
    Get ''5229126404855302'',
    Get ''4066999024861410'',
    Get ''2968426378590431'',
    Get ''4997704684372624'',
    Put ''5134010976874604'' ''>Tc/Qy%D3!;0,)4$'',
    Get ''1105774576029899'',
    Put ''1935472769108546'' ''*.$(+f/*~6-1I{#'',
    Get ''2986878673337037'',
    Put ''1453419624695364'' ''.#`78z--v7A9,;*8'',
    Get ''7451509487272215'',
    Put ''6163654035247480'' ''%=4-N#!q#H+#Ey?'',
    Get ''3126532911616162'',
    Get ''5691533215384974'',
    Put ''3945957134849834'' ''5'0<_/2S9'',
    Get ''5932108984688346'',
    Get ''1127100791449830'',
    Get ''5203455652710402'',
    Get ''7465349718112177'',
    Put ''3584253540126566'' ''*(5R'MkX;0,9'',
    Put ''1101648354522772'' ''$I=(V1,2$!?n68,%'',
    Get ''4871549031639161'',
    Get ''3584253540126566'',
    Put ''5081813940225276'' '')E993'',
    Put ''4886509183503403'' '';@#8Nw!+>!)8*Cq?'',
    Put ''2041080482152060'' ''._s6!t)<.$$6/L{2'',
    Put ''9949207204549773'' '')>:,E8Bo#_m>W51'',
    Get ''4047998586898362'',
    Get ''1854288217719806'',
    Get ''4047220311168379'',
    Get ''2991004894844164'',
    Put ''3117160547577627'' ('':]q2Ce!R9-@w>Ua'' @ [CHR 0x27]),
    Put ''3599991967720791'' ''5Z+L#4X7-Fm9.|/'',
    Get ''7388248387752233'',
    Put ''4625727119804382'' ''/%>,Vi;#`/1j8+4<'',
    Get ''8618018798659212'',
    Get ''7928534804371831'',
    Get ''7356052413997219'',
    Put ''4767279554837770'' ''0L)56d7Vy2)*04p3'',
    Put ''7455977354073641'' '''',
    Put ''4997704684372624'' '''',
    Get ''7350027995735829'',
    Get ''5937696772514052'',
    Get ''7707605368951969'',
    Put ''1357402590908227'' (''6<d;V{#029B7($p'' @ [CHR 0x27]),
    Put ''1684623029960200'' ''8:r:Tg7]#4]k9]/)'',
    Get ''4534737913330811'',
    Put ''9902345384357096'' ''8&!4r9Yi&5z<6()'',
    Put ''2428236513802386'' ''+`#W;,7v?6*!&n3'',
    Get ''5476923770073890'',
    Put ''1245988774821165'' ''2D=<Kq:'',
    Get ''1336418020782595'',
    Get ''5476923770073890'',
    Get ''2745742943521525'',
    Put ''4886509183503403'' ''.M50H{(Nu.?~6L#='',
    Get ''8406680042495728'',
    Get ''8798173132964713'',
    Put ''1127100791449830'' ''/E?1+%W?%$p1680'',
    Get ''2523693587077382'',
    Put ''3005405086196265'' ''?@}*Oc=Eg28&9%.('',
    Get ''4037506301835545'',
    Get ''6159186168446054'',
    Put ''1127100791449830'' ''!Vu#'',
    Put ''4187652825177487'' ''(L/,1&/N30Xk8-&='',
    Get ''8496331012727175'',
    Get ''1684623029960200'',
    Get ''6033372161006890'',
    Get ''7817680948796909'',
    Get ''1361870457709653'',
    Put ''5590611684360728'' '',[!%%|?7j?Gk44d+'',
    Put ''3111914405046218'' ''8%~?]>@9,2~(7.('',
    Put ''3831755333497767'' (''*9`S7&/p/,<<Q'' @ [CHR 0x27]),
    Get ''6042184564533285'',
    Get ''6159186168446054'',
    Get ''1598879966018038'',
    Put ''8174138400988769'' ''4J?8,~'Xa7T+?4h.'',
    Get ''6042184564533285'',
    Get ''1578455356404546'',
    Get ''2754555347047920'',
    Put ''7245198558422297'' ''=$|3G?76r:4|<Iy3'',
    Put ''4534737913330811'' (''?:v'' @ [CHR 0x27, CHR 0x27] @ ''`)).))''),
    Put ''6887061224694016'' ''D/'',
    Put ''2180734720431185'' ''3Og2Xk&U{3'',
    Get ''5118272549280380'',
    Get ''3599432007208650'',
    Get ''8296604462650788'',
    Put ''2156962165040548'' ''9T}:>t:>6,%:-0j3'',
    Get ''2267597705397628'',
    Get ''7928534804371831'',
    Get ''6285000175885219'',
    Put ''4192898967708895'' '')CgN!$Pg*O9*'.8'',
    Get ''2392851752324652'',
    Put ''3368228601943814'' ([CHR 0x27] @ ''^/''),
    Put ''1921072577756444'' ''8%,Sy'$p?Mo$,j&'',
    Get ''5692653136409255'',
    Put ''3590837918900097'' ''?T;<J5*M5!J%(3v7'',
    Get ''5952315279083996'',
    Get ''9951390356728192'',
    Get ''2162768268084097'',
    Put ''2519225720275956'' ''7-d?Ha#185Co:V=)'',
    Get ''5514694753139079'',
    Put ''5806854937761322'' ''2J10=24Cu.B+2Vc?'',
    Put ''2525031823319505'' ''!5&<M-!'$<:,+L{?'',
    Put ''1708955545862977'' '''',
    Get ''2181854641455466'',
    Put ''7798034614913399'' '')/$0>l$Fs>L:N{6'',
    Get ''4866862849619894'',
    Get ''8974476250851072'',
    Put ''8386815393394376'' ''/7~H)4+n#M?8-z2'',
    Put ''6385703391691623'' ''+'',
    Get ''6954713888349240'',
    Get ''2288582275523261'',
    Put ''4121643602353910'' ''79z?&).8,&&8z;'',
    Get ''2863503527962269'',
    Get ''1592513902462349'',
    Put ''5239198216167520'' ''*Q5%7v6@/0C-9V/'',
    Get ''6400103583043725'',
    Get ''7104424399118891'',
    Get ''4741048842180729'',
    Put ''9100290258290236'' ''>.&-O}.'',
    Put ''6042744525045426'' '')>v*_y1Bq6?`3_%='',
    Get ''5696219397404242'',
    Get ''6510397478106506'',
    Get ''6867756536104805'',
    Get ''2658879958555082'',
    Get ''3590059643170115'',
    Get ''5325139099253051'',
    Get ''6042744525045426'',
    Put ''5233598611046116'' ''*G%)#$Pg!t&E/%'',
    Put ''5349694269763058'' '')Sw.Ae:+r?P9;'.='',
    Put ''7596969828594889'' ''4Za6-r=Oc3,(8S}*'',
    Get ''2655313697560095'',
    Get ''3945957134849834'']"

definition run_56 :: "bench_op list" where
  "run_56 = [
    Get ''8270373749993747'',
    Put ''4157514206231161'' ''5@}3D##Iq*.08,84'',
    Get ''5267078068817565'',
    Put ''2278089990460444'' ''#;6%Vm$2|6<v)s+'',
    Put ''5460329810120138'' '')5>%Nw0A91&*$W;8'',
    Put ''1240742632289756'' ''<Ck&Oy=5f.&<Rg*'',
    Put ''6042744525045426'' (''$Oi&<$>)b&Zw#+d'' @ [CHR 0x27]),
    Put ''2303542427387503'' ''.3,G#=Zg2O1&Gq7'',
    Put ''6630965343014262'' ''*0b25~>Nq'])&0(('',
    Get ''3237946727703224'',
    Put ''3945957134849834'' ''$+p;6h.0h?)6<D10'',
    Get ''1467259855535325'',
    Get ''5213947937773218'',
    Put ''8758451312668320'' ''&X?!6()#l'V-9C'1'',
    Get ''8295826186920806'',
    Get ''3363542419924547'',
    Put ''2180734720431185'' ''$Q7(Cy//|27d3f'',
    Put ''1453419624695364'' ''!%>4R}>K'$:`&/*)'',
    Put ''1950651236190630'' (''?/$9/.*W'' @ [CHR 0x27]),
    Get ''8386255432882236'',
    Get ''8850634558278795'',
    Put ''8270373749993747'' ''17$0R/Nm;_i<*9'',
    Get ''7822927091328317'',
    Get ''1473625919091014'',
    Put ''4615234834741565'' ''?N{'H4.h:u6[o;'',
    Put ''6621592978975727'' ''0)8<Ec!Qq.(8+,r+'',
    Put ''8270373749993747'' ''2*'',
    Put ''1468038131265307'' ''*^!5_w*:p>)*=269'',
    Put ''1482438322617409'' ''=15**8*.!*2;Lc+'',
    Get ''4047438626386221'',
    Get ''6656417779941320'',
    Put ''6535289954521424'' ''8Vu6$./2<)@u/:t>'',
    Get ''4756568954557112'',
    Get ''4393745438809563'',
    Get ''4282444331239139'',
    Put ''3347803992330322'' '')L/5V}2H5-!h$+.$'',
    Put ''7708383644681952'' '']/%&8$-z;V+,_m7'',
    Put ''4740488881668589'' ''<,4,<(,:&$7j7M-='',
    Get ''6168900177778888'',
    Get ''5134275365539358'',
    Get ''1757148124391467'',
    Put ''2288022315011120'' ''%H?(Y'.)60ZqGy'',
    Put ''1141719298019773'' ''9]s?8p?Q*0n3*<='',
    Get ''8801589585907699'',
    Get ''5104432318440419'',
    Put ''2402784076875328'' ''-_1(4h#4t3U3'$$!'',
    Put ''3599991967720791'' ''932%C?:Li36h*5x2'',
    Put ''5817907183336279'' ''%N75Q)2.l2T=/R=!'',
    Get ''4534737913330811'',
    Get ''9111124188647351'',
    Put ''6017477484495704'' ''%O#0]q'',
    Get ''9220639807980150'',
    Put ''8270373749993747'' ''>N#Kq#Um38j2p'',
    Get ''3438793198803893'',
    Get ''2921564558397754'',
    Put ''1127100791449830'' ''%2.)Xa>)*'',
    Put ''5585925502341460'' ''>2v7Yc>N1=?(@:'',
    Put ''2288582275523261'' ''5<|;Qc#G;)1>!<d>'',
    Put ''8749128160593618'' ''?-=Ya$3l.V1?6r:'',
    Get ''6647045415902785'',
    Get ''3575099491305873'',
    Get ''1127100791449830'',
    Get ''2166894489591224'',
    Put ''7928534804371831'' ''-[a*Qw<3f*Es,T)$'',
    Put ''8651988067265279'' ''69~76b=x2q;>-'',
    Put ''3252906879567466'' ''2Ui0>#%b.Hk4Gq?'',
    Put ''1854288217719806'' ([CHR 0x27] @ ''Mq#8t:<t#Xs;Eo+''),
    Get ''6159186168446054'',
    Get ''5113244721966814'',
    Get ''8276179853037296'',
    Get ''1810996997911504'',
    Put ''8295826186920806'' ''6#4=::&&=.t-:h3'',
    Put ''3458657847905244'' ''7Z3(/2!E9=;$1n#'',
    Put ''3458439532687402'' '''',
    Put ''5324583478130298'' ''-{*@g-Sc/P%Ai>'',
    Put ''7708165329464110'' ''&<|'5~5Oq.3*==v+'',
    Put ''4298288365534567'' ''-Jc&$z3r:@q$O-'',
    Get ''6188764826880240'',
    Put ''8045536408284600'' ''5<j3>t-7~)<5%.1'',
    Get ''8773971425044702'',
    Get ''3353268450079572'',
    Get ''6174146320310297'',
    Put ''7928534804371831'' ''-3$%N};7$0Du!r&'',
    Put ''6284781860667377'' ''16((Tk;I'92><-(%'',
    Put ''4515651539959442'' '''',
    Get ''6280873954378091'',
    Get ''1127100791449830'',
    Get ''5002950826904032'',
    Put ''6039178264050439'' ''<Qc^a+)24X+5[a>'',
    Get ''1127100791449830'',
    Put ''3131779054147570'' ''%14%4076r7]y-Ug'',
    Put ''7702359226420561'' '';%h:<E!5M)$r'',
    Get ''4620480977272973'',
    Put ''4289694277226014'' ''-Jq/Qw',p#.d9^)4'',
    Put ''6033932121519031'' ''F+<)0I{..$5d:'',
    Put ''8874114680338966'' ''!WJm#>&!0v0Ze.'',
    Get ''3599432007208650'',
    Get ''1478312101110282'',
    Put ''2523693587077382'' ''.+6-I+<((0'6/]o'',
    Get ''2051012806702735'',
    Get ''5003169142121874'',
    Put ''1453419624695364'' ''!5~/Ss.%j6Z{:*85'',
    Get ''4886509183503403'',
    Put ''4414170048423055'' '':(0!#d>+v*;n/_9('',
    Put ''4178498776356793'' ''#^k>>|'',
    Get ''3343336125528896'',
    Get ''8170572139993782'',
    Put ''5812661040804871'' ''.9r;5t='',
    Get ''1814563258906491'',
    Get ''7461441811822891'',
    Get ''8270373749993747'',
    Put ''4891755326034811'' '''',
    Get ''3820703087922811'',
    Get ''7129316875533809'',
    Get ''5826501271644832'',
    Put ''3357736316880998'' ''>9n;Qa2&h#@)$&<4'',
    Get ''7822927091328317'',
    Get ''1127100791449830'',
    Get ''4981966256778399'',
    Put ''7109110581138159'' ''-f?7:5%|H?=Zk6'',
    Get ''3354170055886011'',
    Put ''3348363952842463'' ''/@+$'t6<`/[}14:5'',
    Get ''2288582275523261'',
    Put ''6647605376414926'' ''495*f$W#,F#&C9)'',
    Get ''6641457628077078'',
    Get ''1473065958578873'',
    Put ''6530817748330610'' ''>+f>)v6;z*/~>Y'-'',
    Get ''4534737913330811'',
    Get ''2291930221300406'',
    Put ''6151301108707982'' ('')7p;(|,<0<)87>b'' @ [CHR 0x27]),
    Get ''7701799265908421'',
    Get ''2512859656720267'',
    Get ''6979170352191867'',
    Put ''4515651539959442'' ''$H{62<*'x728;@!-'',
    Put ''3362982459412406'' ''3E=)N;=R'<?b2Bq'',
    Put ''7928534804371831'' ''>L#-^?>L%)?.;Mw;'',
    Get ''1819591086220057'',
    Put ''3945957134849834'' ''0.p;9z920^%>I70'',
    Get ''5325139099253051'',
    Put ''3821263048434951'' ''-3v:5t'12<Ia,Vo:'',
    Put ''5715865731287752'' ''-Fq:7x-Xi6Vq#7f>'',
    Put ''8652283639112666'' ''=%:)P1(;v#<n+9l/'',
    Get ''2996032722157730'',
    Get ''2055698988722003'',
    Put ''1096402211991364'' ''8Nk#'',
    Put ''4047220311168379'' '''',
    Get ''5223661947106052'',
    Put ''2287803999793278'' ''46~;.$K/-?p%Nc>'',
    Get ''1724693973457202'',
    Get ''5128204873831056'']"

lemma run_43_tally: "tally run_43 0 0 (76, 74)"
  by (unfold run_43_def) (simp only: tally_steps cong: tally_cong, simp)

lemma run_44_tally: "tally run_44 0 0 (75, 75)"
  by (unfold run_44_def) (simp only: tally_steps cong: tally_cong, simp)

lemma run_45_tally: "tally run_45 0 0 (90, 60)"
  by (unfold run_45_def) (simp only: tally_steps cong: tally_cong, simp)

lemma run_46_tally: "tally run_46 0 0 (80, 70)"
  by (unfold run_46_def) (simp only: tally_steps cong: tally_cong, simp)

lemma run_47_tally: "tally run_47 0 0 (76, 74)"
  by (unfold run_47_def) (simp only: tally_steps cong: tally_cong, simp)

lemma run_48_tally: "tally run_48 0 0 (70, 80)"
  by (unfold run_48_def) (simp only: tally_steps cong: tally_cong, simp)

lemma run_49_tally: "tally run_49 0 0 (58, 92)"
  by (unfold run_49_def) (simp only: tally_steps cong: tally_cong, simp)

lemma run_50_tally: "tally run_50 0 0 (81, 69)"
  by (unfold run_50_def) (simp only: tally_steps cong: tally_cong, simp)

lemma run_51_tally: "tally run_51 0 0 (72, 78)"
  by (unfold run_51_def) (simp only: tally_steps cong: tally_cong, simp)

lemma run_52_tally: "tally run_52 0 0 (81, 69)"
  by (unfold run_52_def) (simp only: tally_steps cong: tally_cong, simp)

lemma run_53_tally: "tally run_53 0 0 (79, 71)"
  by (unfold run_53_def) (simp only: tally_steps cong: tally_cong, simp)

lemma run_54_tally: "tally run_54 0 0 (81, 69)"
  by (unfold run_54_def) (simp only: tally_steps cong: tally_cong, simp)

lemma run_55_tally: "tally run_55 0 0 (66, 84)"
  by (unfold run_55_def) (simp only: tally_steps cong: tally_cong, simp)

lemma run_56_tally: "tally run_56 0 0 (75, 75)"
  by (unfold run_56_def) (simp only: tally_steps cong: tally_cong, simp)

end
