(* ===== verification/BenchRun5.thy ===== *)
theory BenchRun5
  imports BenchOps
begin

text \<open>
  The run phase of the benchmark (\<open>src/src/shared/benchmark.h\<close>, lines 14406 to 16005), one list per stretch of
  the macro, with the number of its puts and gets.
\<close>

definition run_57 :: "bench_op list" where
  "run_57 = [
    Get ''5324583478130298'',
    Get ''3575099491305873'',
    Put ''5696219397404242'' '''',
    Put ''9119376631661606'' ''*!*9$~2Nw7/j;O?4'',
    Put ''2171362356392650'' '')J#8BaYe.I#&.68'',
    Put ''7219746121495239'' '';)8'',
    Get ''6143447740851830'',
    Put ''3916378476415649'' ''/M99R;4Y7'',
    Put ''8848662243411908'' ''%R='',
    Get ''1925758759775712'',
    Put ''3018704651726094'' '''',
    Put ''3252906879567466'' ''(?b'F})=&0Ne-,d3'',
    Get ''3701473459257178'',
    Put ''7928534804371831'' ''2:2'',
    Get ''1127100791449830'',
    Put ''4871330716421319'' ''#-f;#$3D11C-2)<!'',
    Get ''7083999789505399'',
    Get ''6042744525045426'',
    Put ''2745742943521525'' ''>-:$X+'.:'',
    Put ''7556898885097888'' '',7$![g38|6!83*<<'',
    Put ''4157295891013319'' '',Gi?+z5='',
    Get ''1854288217719806'',
    Get ''2172700592634772'',
    Get ''1458665767226772'',
    Get ''6033372161006890'',
    Put ''5555226922882994'' ''0R-9V7(=-8&_)-'',
    Put ''7681592971512771'' ''16f&Z1-0$%:f8_98'',
    Get ''3478864142300894'',
    Put ''7570957431155691'' ''/&j2@c&Yc'(/Rc.'',
    Get ''7118824590470993'',
    Get ''5923296581161951'',
    Get ''5580337714515754'',
    Put ''4987212399309808'' ''>?.)!r#M-9_!8];4'',
    Put ''9099730297778096'' ''1]}&z4_#=D%(A?%'',
    Get ''8170230494699484'',
    Put ''5332921856552874'' ''&_a.'j?/&4^%*`/'',
    Get ''1655641726706290'',
    Put ''4886509183503403'' ''#!b6G%$Ro#G333(!'',
    Get ''1583141538423813'',
    Get ''8994122584734582'',
    Get ''3685735031662953'',
    Put ''4766501279107788'' '')'*-*8:!,-h=Wu:'',
    Get ''1357184275690385'',
    Put ''1950091275678489'' (''1Em>D=9?`'8(8Ac'' @ [CHR 0x27]),
    Get ''5943161230263302'',
    Put ''3528229843003917'' ''-10<P}1ZuNg<7.1'',
    Put ''1127100791449830'' '';A)97x'',
    Put ''6988324401012561'' ''*^yv7T!-Y;<&('',
    Get ''3695449040995787'',
    Get ''6151301108707982'',
    Get ''4173252633825385'',
    Put ''2011672493662050'' ''67:1]?,.%%fPq:'',
    Put ''8386255432882236'' ''>Yk*G#:)p2*4Oa'',
    Get ''2523693587077382'',
    Get ''3005405086196265'',
    Put ''7928534804371831'' ''-'`:?'',
    Get ''4665798063301383'',
    Put ''4633454400499588'' ''<Y5$1$.E{/7t-X3-'',
    Get ''7928876449666130'',
    Get ''1824837228751466'',
    Put ''6651171637409912'' ''3Je?6&<(rBc?$|+'',
    Put ''8803772738086118'' ''9'',
    Put ''8999368727265990'' '',Q+9Ou5Ry>5*X#)'',
    Get ''4047220311168379'',
    Put ''4656425699262848'' ''6&n#Qc)[+5S/?^s+'',
    Put ''7229678446045915'' '';Ca*Hq)#v?;r!'r'',
    Get ''3338649943509629'',
    Put ''1101088394010631'' '',Jg:!h2'z3*b2*p*'',
    Put ''3945957134849834'' '''',
    Put ''5454523707076589'' ''=D11&:Aw&Y';^'9'',
    Put ''2654753737047954'' ([CHR 0x27] @ ''Za?<d&-''),
    Put ''1114928624850592'' ''.^s>K{8/=)x1'`.'',
    Put ''3357176356368858'' ''(8zVu950'',
    Get ''3342776165016756'',
    Put ''8270373749993747'' ''-G7<Ci2'`'/(!3z;'',
    Put ''1337537941806875'' ''0#>4Y?(/(0>0$5&='',
    Get ''5696219397404242'',
    Get ''6631525303526403'',
    Put ''8646388462143874'' ''$X30>:3B-=Tu#[%4'',
    Get ''4518999485736587'',
    Get ''2180734720431185'',
    Put ''3252906879567466'' ''=Uu2:~,J+=%>61*%'',
    Put ''7707605368951969'' ''4Zs2:z-!d:_{-3(0'',
    Get ''7938808774216806'',
    Get ''8848451406100376'',
    Put ''7556898885097888'' ''0[g3'n4*6'',
    Put ''2422990371270978'' ''#Xu><~'',
    Get ''2413276361938144'',
    Get ''1473284273796715'',
    Put ''6530603772502156'' '',:v+/f2Gs.'',
    Put ''7229460130828073'' ''.J35D')R317h4<,%'',
    Put ''1578455356404546'' ''&r&A3>4p>=0:'',
    Put ''4650619596219299'' ''?!>%&b'',
    Get ''4518999485736587'',
    Get ''7928534804371831'',
    Get ''4047998586898362'',
    Get ''7928534804371831'',
    Get ''3931898588792031'',
    Get ''8150365845598132'',
    Get ''4866862849619894'',
    Put ''1468038131265307'' '',+t+8$?Z-(CkTg&'',
    Put ''5107438618923265'' ''%,j#'',
    Get ''2302422506363222'',
    Get ''2422430410758837'',
    Get ''1819591086220057'',
    Get ''8059936599636702'',
    Get ''9195187371053092'',
    Get ''5806854937761322'',
    Put ''8270373749993747'' ''<B?,P!,C74)(4&8'',
    Get ''4534737913330811'',
    Put ''5928542723693359'' ([CHR 0x27] @ ''P9(Eg''),
    Put ''9100290258290236'' '')64<B%0Fa3]5;L3'',
    Put ''5238280453675995'' ''&;,02d>O{&&.3To#'',
    Put ''7235826194383762'' ''&Y}&]3;>*<R9&Ik;'',
    Put ''9220639807980150'' '':^-!M7>(,/$>]g+'',
    Put ''6989102676742543'' ''5J%4/:9uC!1Ou3'',
    Put ''7928534804371831'' '':c.B#!^/=V}2Ze6'',
    Get ''1127100791449830'',
    Get ''3353268450079572'',
    Put ''6732228519332807'' ''5f.:'',
    Put ''7450731211542233'' (''0Q'5Eg6.f.Es:r'' @ [CHR 0x27]),
    Put ''4171921875489572'' ''8*&14r/-j&J1=Ii&'',
    Get ''4934084448784221'',
    Get ''6290246318416627'',
    Put ''8395627796920771'' '''',
    Put ''1005413005517793'' ''-T{2'l.R}'W/J}&'',
    Get ''6339954014616917'',
    Put ''5464797676921564'' ([CHR 0x27] @ ''Pu?*z''),
    Put ''5802168755742054'' '')>l7:f,?&,'4;D3'',
    Get ''5548859282568936'',
    Get ''6159186168446054'',
    Put ''4509845436915893'' ''$_e7S-!O9'',
    Get ''5696219397404242'',
    Get ''5233598611046116'',
    Get ''8502137115770724'',
    Get ''4273955849631789'',
    Put ''7695234182336898'' '',Vu6*'',
    Get ''4177720500626811'',
    Get ''3001838825201279'',
    Put ''6883494963699029'' '';Iw#T'>3(5?0/548'',
    Get ''4534737913330811'',
    Get ''1703927718549411'',
    Put ''9111124188647351'' ''.=<4A75M#908'',
    Put ''4877355134682710'' ''=]{2L1;6l2L?1:h?'',
    Get ''4997704684372624'',
    Put ''7446309418187719'' '',#0B':(.-Uw:>(-'',
    Get ''1336418020782595'',
    Put ''5570187074747236'' ''1R-'',
    Get ''3468371857238078'',
    Get ''5127644913318915'']"

definition run_58 :: "bench_op list" where
  "run_58 = [
    Put ''4027014016772729'' '')30<%81=&'',
    Put ''5958121382127544'' ''15'',
    Get ''4074781782161233'',
    Get ''2292708497030388'',
    Get ''6143447740851830'',
    Put ''5716425691799892'' ''/U!9$r6Ew#,|%524'',
    Put ''4534737913330811'' ''98$0!,3<$<Xi:W#4'',
    Get ''1127100791449830'',
    Get ''9095604076270969'',
    Get ''2056600594528442'',
    Get ''8033924202197503'',
    Put ''5344448127231650'' ''#|?7b!P+8O33Uu>'',
    Get ''5460111494902296'',
    Get ''8710049097700764'',
    Put ''4655865738750708'' ''-6j2%Ck#;(?W}'',
    Get ''7104206083901049'',
    Get ''7928534804371831'',
    Get ''7818800869821190'',
    Get ''2519225720275956'',
    Put ''7582351322024946'' ''=,>0Oc0&<+(%]!%'',
    Put ''5008196969435440'' ''-[e'Nw&-~'1z.<='',
    Get ''6159186168446054'',
    Put ''1136473155488365'' ''/Ik'>>.:l*Qq83:%'',
    Put ''4766719594325630'' ''_}7J%2h2[i8,p?'',
    Put ''4053244729429770'' ''(Ju&A)1B%$Rk0'='',
    Put ''7120162826713115'' ''<Ak*Hs![g+/<,.5'',
    Put ''6406128001305115'' ''/7v2P59!tw%Po2'',
    Get ''7913916297801888'',
    Put ''8527029592185642'' ''>9l.Uu,]=,?b86.-'',
    Put ''9220639807980150'' ([CHR 0x27] @ ''&~'h9Eo/R#3P)9''),
    Put ''1127100791449830'' ''$^194,2^%(.$Mg7'',
    Put ''6646485455390645'' ''=,x?b=3b2N+<T'%'',
    Get ''4188212785689627'',
    Put ''8522903370678515'' ''#L!4Mm0Go&,f3I5)'',
    Put ''7928534804371831'' ''*Rs7;z0Ai.<|,<-'',
    Put ''7460663536092909'' '':4j+Ck<V)<+v'Zy/'',
    Put ''8270373749993747'' ''4>&,Q;7S%(F'@;4'',
    Put ''2055480673504161'' ''6)$1@q>W942z>#>,'',
    Get ''2278089990460444'',
    Put ''5354940412294466'' '',1v2N{%/20*2&L'<'',
    Put ''2176826814141900'' '''',
    Get ''8270373749993747'',
    Get ''3459217808417385'',
    Get ''1703149442819429'',
    Put ''8854051011221780'' '''',
    Get ''8048884354061745'',
    Put ''4424102372973731'' ''?48)=:'',
    Get ''2056600594528442'',
    Put ''5092820112353322'' ''*0l+Nc(($(,>,'n>'',
    Get ''6280873954378091'',
    Get ''3826167545672061'',
    Get ''1906749643033888'',
    Get ''8396187757432912'',
    Get ''5696219397404242'',
    Put ''4042192483854813'' '':O%'',
    Get ''2764180282455511'',
    Put ''4067644920781871'' ''07n?2`,.j:*,Cm3'',
    Put ''8160298170148808'' ''*,r3=`?T+<,t4Ga:'',
    Get ''4394523714539545'',
    Get ''2870996990448548'',
    Put ''8842851800978971'' ''&Fg*G#!;h[w%Bq#'',
    Get ''6379897288648074'',
    Put ''5696219397404242'' ''3Ek*Zg098=:.=t>'',
    Get ''1127100791449830'',
    Get ''1809609549705548'',
    Put ''8270373749993747'' ''9[e.1@!)&84N35'',
    Put ''5464797676921564'' ''65-[54*&$!r$Js;'',
    Get ''4871890676933460'',
    Put ''3002057140419121'' ''#.x29'',
    Put ''6054138415914681'' ''.,4-)6*!`.D9-F3,'',
    Get ''4886509183503403'',
    Put ''2634547442652304'' ''$K?)V7$Io#Ne0G{;'',
    Put ''2523911902295224'' ''/Ba/(89:v2J-#f3'',
    Put ''5696219397404242'' ([CHR 0x27] @ ''Pe&N/:&2$',*0>,''),
    Get ''2966243226412012'',
    Put ''1240742632289756'' ''+-0-(<'=h?TuT-,'',
    Get ''6887621185206157'',
    Get ''5233598611046116'',
    Get ''3358296277393138'',
    Get ''7928534804371831'',
    Put ''2512859656720267'' '',;.'',
    Put ''8856234163400199'' (''/1%Lq,-|D}/;v'' @ [CHR 0x27]),
    Get ''5696219397404242'',
    Get ''7493171238380396'',
    Get ''7817899264014751'',
    Get ''4997704684372624'',
    Get ''1231930228763362'',
    Get ''7928534804371831'',
    Put ''2990444934332023'' ''%_e?A%2'$Pu;Zi;'',
    Get ''3339209904021769'',
    Get ''6642017588589219'',
    Put ''7099738217099623'' ''9(8,Sm+U#1L#;^51'',
    Put ''5702025500447790'' ''._3(*`:@%-Dq#='',
    Get ''9956989961849596'',
    Get ''8657529781644074'',
    Get ''6988542716230403'',
    Get ''5797482573722787'',
    Get ''4278642031651057'',
    Put ''4645373453687891'' '';L7=-2;N!(+.<265'',
    Get ''5791676470679238'',
    Put ''2765047632110736'' ''.,x?'l<5j?S*A{.'',
    Put ''7493171238380396'' ''@c..$,21C36J9!'',
    Put ''4756568954557112'' ([CHR 0x27] @ ''+.$''),
    Put ''1840575656345690'' '''',
    Put ''1127100791449830'' ([CHR 0x27] @ ''-b7P{&Fk;!0!S!-''),
    Get ''6409475947082260'',
    Get ''9954806809671177'',
    Put ''5122398770787507'' ''+(f+M1.#v6*(03|'',
    Get ''8900912831414457'',
    Put ''6483955928137933'' ''/?'',
    Put ''8270373749993747'' ''-1n21|9A;<('Aw;'',
    Put ''7928534804371831'' ''6485S/(Zu'K/,%b2'',
    Get ''2634329127434462'',
    Put ''8801589585907699'' ('',$:<Oe(00=Cg1Fi'' @ [CHR 0x27]),
    Put ''2644479767202980'' '':6t7?`(3,5L7(Pk:'',
    Get ''5233598611046116'',
    Get ''5344448127231650'',
    Get ''6174364635528138'',
    Get ''8868868537807558'',
    Get ''8989436402715314'',
    Put ''3226894482128268'' ''<8r3Te'',
    Get ''5715865731287752'',
    Put ''6288908082174504'' ''!M3('',
    Get ''6887061224694016'',
    Put ''6235031163988755'' ''-M+!E=76.%Rk6[c+'',
    Get ''4178280461138951'',
    Get ''4160722665246763'',
    Put ''8290020083877257'' '','',
    Put ''1577895395892405'' ''#94$.<'',
    Put ''1810437037399364'' ''*H11$:3R%9*(-9'',
    Put ''6184638605373113'' ''.)p>C{#Fs7[e1W/$'',
    Put ''8170572139993782'' ''6.&4T7$?l6?.=f+'',
    Put ''1724693973457202'' ''<L;!M90Fw6G)?,l>'',
    Put ''3059966866797366'' ''7129$f5W))*v,+6$'',
    Get ''6892867327737565'',
    Get ''7939027089434647'',
    Get ''3599991967720791'',
    Get ''2764180282455511'',
    Get ''9114690449642338'',
    Put ''6042744525045426'' ''.*n7J3/)x*((,:*0'',
    Put ''8651988067265279'' ([CHR 0x27] @ ''+&,S':F94Fs#X#''),
    Get ''1757148124391467'',
    Get ''7230580051852354'',
    Get ''2503487292681732'',
    Get ''8758232997450478'',
    Get ''8270373749993747'',
    Put ''3951763237893383'' ''4@w&A%7#,'',
    Put ''1695115315023016'' '''',
    Get ''1127100791449830'',
    Get ''2186540823474733'']"

definition run_59 :: "bench_op list" where
  "run_59 = [
    Get ''8270373749993747'',
    Put ''7452069447784356'' ''5,80-v0@w/M/,S{6'',
    Put ''1127100791449830'' ''?.:5Be#(z'$f4?4'',
    Get ''7556898885097888'',
    Put ''5445151343038054'' '';U}P+(!d3Pu%-$5'',
    Get ''7813213081995483'',
    Get ''5328709699637425'',
    Get ''8859154528474724'',
    Put ''7235266233871621'' ''1?`Q'%$8=A3'I)!'',
    Put ''3599991967720791'' ''4#%$4?6`32d<Lk2'',
    Get ''5681600890834298'',
    Get ''8054130496593153'',
    Put ''7938808774216806'' ''!_=1T+1Rq*D!*M79'',
    Get ''6163654035247480'',
    Put ''2870218714718566'' ''=:p/'',
    Put ''1348030226869692'' ''7A7'',
    Put ''1703927718549411'' ''8D=8P?'',
    Put ''2645039727715120'' ''>Mm#C-63z&Xy(;`*'',
    Get ''8400655624234337'',
    Get ''1127100791449830'',
    Put ''8407021687790026'' ''+@i/T94E/-0b,M','',
    Get ''5696219397404242'',
    Get ''3217522118089732'',
    Put ''4866302889107753'' ''#A3!0n*L7<7t(Qu#'',
    Get ''3097514213694117'',
    Get ''3333963761490361'',
    Get ''9099511982560254'',
    Get ''8773971425044702'',
    Get ''2399217815880341'',
    Get ''1453419624695364'',
    Get ''2046886585195608'',
    Put ''6872661033341914'' ''<:r+L77$|7=h=M?5'',
    Put ''6381216229688190'' ''4I{/,'',
    Get ''7928534804371831'',
    Get ''4534737913330811'',
    Get ''7099738217099623'',
    Put ''6042744525045426'' ''$>>'',
    Get ''2192346926518282'',
    Get ''1715885909320195'',
    Put ''1106334536542039'' ''>901$2=@}?16'',
    Get ''1125980870425549'',
    Get ''4046878665874081'',
    Get ''5696219397404242'',
    Put ''7682152932024911'' ''5@?'',
    Get ''6878467136385463'',
    Put ''3494602569895119'' ''%028<t8%n+2(.00<'',
    Put ''7008749010626053'' ''1*p?Z}'',
    Put ''8636545211518441'' ([CHR 0x27] @ ''Ma>/:*!z&74(-0''),
    Put ''7119384550983133'' ''2]m&6d>M%=N1<Fw/'',
    Put ''2524253547589523'' ''#G?=7h!1n67<4<2'',
    Get ''5937136812001912'',
    Get ''8270373749993747'',
    Get ''1121294688406281'',
    Get ''6280873954378091'',
    Put ''1222776179942668'' ''$#>(%::8r2W/!S3<'',
    Put ''6281892984181432'' ''1[e'-'',
    Get ''2769515498912162'',
    Put ''4635659444355057'' ''&2d?K{u'Y}9p+'',
    Get ''1127100791449830'',
    Put ''4640687271668624'' ''2Sg/4,_=!#j*3d+'',
    Get ''6635740598958773'',
    Get ''2635107403164445'',
    Get ''5822033404843406'',
    Put ''1362990378733934'' ''3V!0/>.8v&G{7Ci3'',
    Put ''1840015695833550'' ''.Y3@}1>4+b#z:'',
    Put ''6642017588589219'' ([CHR 0x27] @ ''S}?L-#,,5_!(9d.''),
    Put ''5797482573722787'' ''&3x;9~.(2!Ao1H%,'',
    Put ''9090917894251701'' '':(=!.,b:I%%E/$'',
    Put ''1127100791449830'' ''1Oq;Bo(*8)-4&6d*'',
    Get ''4886509183503403'',
    Get ''3369348522968095'',
    Put ''6400881858773707'' '')5v&^q2U!!=>(<f'',
    Get ''2180734720431185'',
    Get ''2644479767202980'',
    Put ''7893880673350414'' '',9t;^#5*|'Am&X%5'',
    Put ''5811882765074888'' '')}'/t;:v#C?%.4-'',
    Get ''7822927091328317'',
    Get ''3715873650609279'',
    Put ''9100290258290236'' ('',)<R?#]m'' @ [CHR 0x27]),
    Put ''2414396282962425'' ''!329S%>(8'',
    Get ''5123076155296549'',
    Put ''4516211500471582'' ''1<p3=r-P?0Hc.$>,'',
    Get ''1663424484006114'',
    Put ''5324583478130298'' ''?P')R;-D54<h'',
    Get ''3121846729596894'',
    Put ''1473284273796715'' ''59f>Yc+?09J;3('',
    Put ''5335075763193114'' ''0Y%0!>#<`3E{#8$'',
    Put ''7335627804383727'' ''#J}Qg0[m:Dg>^7'',
    Put ''6635740598958773'' ''?2-5z'',
    Put ''8606966553084256'' (''8*t3!8#?n6#.(Ou'' @ [CHR 0x27]),
    Put ''7009308971138193'' ''+3:'',
    Get ''8878240901846094'',
    Get ''5349694269763058'',
    Put ''2407811904188894'' ''3=4,@y5'',
    Get ''7466127993842159'',
    Put ''3472233791789872'' ''%7:9]72#l?(t<'&-'',
    Put ''7591163725551341'' ''*E3,Ay=2$-Ma)Ee'',
    Put ''4767279554837770'' '''',
    Get ''1693995393998735'',
    Put ''1127100791449830'' ''3J!))0?9r/_%31f:'',
    Put ''6872661033341914'' ''(@=8Qi90.1Uq.1d&'',
    Put ''1721485514441599'' '',L2[i9<6=;:)#,5'',
    Get ''4181846722133938'',
    Put ''6489555533259338'' ''$P7Zo)A7%F3>=6$'',
    Get ''8973697975121090'',
    Put ''5696219397404242'' ''$S%(%&)D)1Hs=909'',
    Put ''6159186168446054'' ''+=<59$'',
    Get ''3217522118089732'',
    Get ''3127652832640443'',
    Put ''4770627500614915'' ''0N)58l-C{#Gg(A?!'',
    Put ''8627391162697748'' ''75%.($(*8P;8%l.'',
    Put ''7355834098779377'' ''-Q?1%::2x?3$/Bg7'',
    Get ''2278089990460444'',
    Put ''6421088153169357'' '';86(_58!:0U9>_?'',
    Put ''1353058054183258'' ''43&%,<&'h.9|+7$='',
    Get ''8054908772323136'',
    Get ''5219194080304626'',
    Get ''8270373749993747'',
    Get ''6159186168446054'',
    Put ''6290246318416627'' ''=(>,T=0=r6@m/2&%'',
    Put ''6489555533259338'' ''4R+)Jg'$8Ea$U;'',
    Get ''2066532919079118'',
    Get ''4303534508065975'',
    Get ''2876243132979956'',
    Put ''7493171238380396'' ''3WwH%-4<$A#27<0'',
    Get ''7923288661840423'',
    Put ''5464797676921564'' ''$X{.>j1T987|7Y?='',
    Put ''7089245932036807'' ([CHR 0x27] @ ''M5<P1;Ee&&<9Di/''),
    Get ''5203455652710402'',
    Put ''7456755629803624'' '')Z+%#v*5j69*-D),'',
    Get ''1127100791449830'',
    Put ''2855818523366464'' ''+]-'',
    Put ''1589507601979502'' ''3%,=!40Zu?<v*N#8'',
    Get ''1115706900580575'',
    Put ''1127100791449830'' '''',
    Get ''3444039341335301'',
    Get ''4626287080316522'',
    Put ''4746294984712138'' ''<J)5+f17'',
    Get ''8632418990011314'',
    Get ''2915964953276350'',
    Get ''1005413005517793'',
    Get ''7224432303514507'',
    Put ''1463133634028198'' ([CHR 0x27] @ ''F-$$j=J9$<`9.<,''),
    Put ''6280873954378091'' ''2#n#V13-,'',
    Get ''5811882765074888'',
    Put ''2046886585195608'' ''0+`>#d#O/$O}6.l'',
    Put ''8276179853037296'' ''!Q'<Zo<(h#0bI/='',
    Get ''9110564228135211'',
    Get ''1463133634028198'',
    Get ''4067084960269731'']"

definition run_60 :: "bench_op list" where
  "run_60 = [
    Get ''2760361450091468'',
    Put ''6982736613186854'' ''#[o6Km2,<,R3?Sg/'',
    Put ''1127100791449830'' ([CHR 0x27] @ ''A=<L)0<`6$&(6,$''),
    Put ''6892867327737565'' ''=*t/])>Q710|%$)'',
    Put ''1357184275690385'' ''(U)<T+*$n2S7>X>'',
    Put ''3715873650609279'' ''&.r:,(+H7Be?0x+'',
    Put ''4152828024211893'' ''.$`75:=W!990#_'%'',
    Get ''1111580679073447'',
    Put ''5922176660137670'' ''*u:2t#3~3^y2X{/'',
    Put ''7648372362144221'' ''!$84Oo9Y'4o=Q'-'',
    Put ''4545790158905768'' ''$b2<&/9>$Ge7N3)'',
    Put ''4047220311168379'' ''%Qi:UkPq3Gy%S%4'',
    Get ''5330738704374455'',
    Put ''1826175464993588'' ''5%x&/|/_y&C7<16-'',
    Put ''3113252641288341'' ''22n3<l-=.0O;3G5!'',
    Get ''7692645217087727'',
    Get ''8270373749993747'',
    Get ''7581791361512805'',
    Put ''3945957134849834'' ''4_}.Z+%:n#:t0j;'',
    Put ''8270373749993747'' ''?4z2Ug>!,5A},-,8'',
    Get ''3945957134849834'',
    Put ''7335067843871587'' '')F7-Y}->$,Zk'Sk/'',
    Get ''7356052413997219'',
    Put ''7455977354073641'' ''(9<4[-*Sg79839p6'',
    Get ''1467819816047465'',
    Get ''2816641707769592'',
    Get ''7928534804371831'',
    Get ''7689634577215493'',
    Put ''1700361457554424'' ([CHR 0x27] @ '':0-Au#92-,*=Me2''),
    Put ''5229686365367442'' ''2P=9]5(=8'',
    Get ''6863848629815520'',
    Put ''5692093175897115'' ''44&'',
    Put ''6642359233883517'' ''>Xy'!j?[o2?9C?'',
    Get ''3353268450079572'',
    Get ''7923848622352564'',
    Get ''4992458541841216'',
    Put ''3347803992330322'' ''7L'9M)L=$:~2'',
    Put ''1506040208063870'' ''!Eq)d%<|2Dg;;&4'',
    Get ''3339209904021769'',
    Put ''6409475947082260'' ''?]y&1d1W6.6%Uy3'',
    Get ''7340095671185153'',
    Put ''3237946727703224'' ''=`#J#%(b#&=#f*'',
    Put ''9084551830696012'' ''9=v2D8,,0&87,$9'',
    Put ''4413610087910915'' ('')Ci:Uw)V{'' @ [CHR 0x27]),
    Get ''4767279554837770'',
    Get ''1127100791449830'',
    Put ''3921624618947057'' ''-=n.)**<68S90@3'',
    Put ''6164432310977463'' ''-#$%<!?6<A-)Fg.'',
    Get ''1362990378733934'',
    Get ''9904528536535515'',
    Put ''5681600890834298'' '';Ro;h6%r;3b3Da:'',
    Get ''5254018881270220'',
    Get ''7942934995723933'',
    Put ''5696219397404242'' ''87>-&6<98)%&7]#9'',
    Get ''1116048545874873'',
    Put ''4866862849619894'' ''.=z>*l><b+[q)(2('',
    Get ''2635667363676585'',
    Get ''2191786966006142'',
    Get ''3679928928619405'',
    Put ''2047446545707749'' ''5'',
    Get ''4056592675206915'',
    Put ''5355500372806606'' ''6&z.C{(?r;Ns!:-'',
    Get ''9200993474096641'',
    Get ''2655313697560095'',
    Put ''7707045408439829'' ''-70,^q.Vu/3&0Va/'',
    Get ''3126532911616162'',
    Get ''5244086556719544'',
    Put ''1336418020782595'' ''0*j&*6>/d:963I{2'',
    Get ''3126532911616162'',
    Get ''1462791988733899'',
    Put ''1222216219430528'' '':O39):?.20R3'',
    Put ''7008749010626053'' ''-Ly6#(+]a:Bm'',
    Put ''3996848044930685'' ''26&(X3=]o3#<No>'',
    Get ''5591389960090710'',
    Get ''3590619603682256'',
    Get ''2523693587077382'',
    Put ''6982736613186854'' ''!-'',
    Put ''5243526596207403'' ''<'~*I31?`2^))k+'',
    Get ''9206239616628049'',
    Put ''5333737526950992'' ''.J#%'',
    Put ''7817680948796909'' ''.96'',
    Put ''1240742632289756'' ''=^!5Hc=@u;0>24|&'',
    Get ''3945957134849834'',
    Put ''5325139099253051'' '')2<,.f<?$'',
    Get ''7797256339183417'',
    Get ''3820143127410670'',
    Put ''9200993474096641'' '',Lk*[#6Oc/W+!;x2'',
    Put ''5464797676921564'' '':'',
    Put ''6898113470268973'' ''#E)$_3+Po7U{.'',
    Put ''1950651236190630'' ''.Ve26'',
    Get ''6068196961972484'',
    Put ''6174364635528138'' ''<E?=+b<8.,&p6.h:'',
    Get ''1127100791449830'',
    Get ''4534737913330811'',
    Put ''4993018502353356'' ''?@q+S9&-6)O?9.d&'',
    Get ''5223880262323894'',
    Put ''3127652832640443'' ''3Ek+,$*L'8#b-;1'',
    Get ''1699801497042284'',
    Get ''2047446545707749'',
    Get ''8790390375664890'',
    Put ''8034484162709644'' ''234!G74Ny/Ci<Aw2'',
    Get ''5590611684360728'',
    Get ''2413836322450284'',
    Put ''4072598629982814'' ''9Hs*%$+760Z15?$%'',
    Get ''4982744532508382'',
    Get ''2768955538400021'',
    Get ''3449285483866709'',
    Get ''8184630686051585'',
    Put ''3870535686026312'' ''-4|/%,<Uu.!(=(='',
    Get ''5681040930322158'',
    Get ''1688749251467327'',
    Put ''8406461727277886'' ''=:,0*($~2(&<':!'',
    Get ''5696219397404242'',
    Put ''4534737913330811'' ''($j*Nu=3b:((!Iu3'',
    Put ''4419976151466604'' ''?:z2Ly8'',
    Put ''5918050438630543'' ''$'',
    Get ''6280873954378091'',
    Get ''4746854945224278'',
    Get ''5108558539947546'',
    Get ''1583919814153796'',
    Put ''1599763848449223'' ''8p/&&*Fc?$.$Pu+'',
    Get ''1814003298394351'',
    Get ''5344789772525948'',
    Put ''6062950819441076'' ''8'',
    Get ''2518665759763816'',
    Put ''4534737913330811'' ''12r+Ia&R/5$:)#t/'',
    Put ''6867756536104805'' ''>Sy;9~'H{*7j>Vg;'',
    Get ''1941278872152094'',
    Get ''1924638838751431'',
    Get ''6872442718124073'',
    Get ''4056592675206915'',
    Put ''1367116600241061'' ''6d>T'3T5$/j:Lc.'',
    Put ''5122958731299648'' ''9'',
    Put ''5208701795241810'' ''1Js.^y0B78Ia&Kc7'',
    Get ''3841127697536303'',
    Get ''1709733821592960'',
    Get ''7215059939475971'',
    Get ''7224773948808805'',
    Get ''1116048545874873'',
    Get ''5103312397416138'',
    Put ''4997363039078325'' '';!h&U{4Ms*>~=8~'',
    Get ''1216410116386979'',
    Put ''8906512436535862'' ''+Wm#(&:L-4'x07:('',
    Put ''6039178264050439'' '''',
    Put ''5355282057588765'' '''',
    Get ''5822033404843406'',
    Put ''3981058141775879'' '')Va+.t,[o/V?<T?5'',
    Put ''4636219404867198'' '''',
    Get ''6163654035247480'',
    Put ''1127100791449830'' ''7Rq#E)E!4?6'']"

definition run_61 :: "bench_op list" where
  "run_61 = [
    Put ''4398991581340971'' ''6M%5E'5+4(@e'',
    Put ''6883494963699029'' ''!W5-3l3+t:(29A?8'',
    Get ''3916938436927789'',
    Put ''6159186168446054'' '')+0(%:!4$0r64$!'',
    Put ''4992458541841216'' ''<G?8.f=Z7-UgYs*'',
    Put ''1101648354522772'' ''+1t+)@e.)p9%*,'',
    Get ''5465917597945845'',
    Put ''5584805581317179'' ''8D31-b(B+4:n3>6%'',
    Get ''8270373749993747'',
    Get ''5581239320322193'',
    Get ''6433677655002271'',
    Put ''4067644920781871'' ''<;40/~.Q=5Pw1?r#'',
    Put ''3472233791789872'' ''%2l37x53b7D+[y3'',
    Put ''8164206076438093'' ''(+'',
    Put ''1467259855535325'' ''!:n.2$/Qc&44+98!'',
    Put ''3348022307548164'' ''?4b2!d:Jy2Q/#1.1'',
    Put ''4746854945224278'' ''=T;)M;!]9<;f)&|&'',
    Get ''6751874853216317'',
    Put ''6862510393573397'' ''8`?I;6G5(X'$:8)'',
    Get ''8270373749993747'',
    Get ''6525218143209206'',
    Put ''6042744525045426'' ''6{?6*/Ls#I=5c3'',
    Get ''6406128001305115'',
    Get ''1252354838376854'',
    Put ''8296386147432946'' '')+'',
    Put ''3227796087934707'' ([CHR 0x27] @ ''Je;Jo2^11B)5/6$''),
    Put ''7827613273347585'' ''/@w*D/*Ms#T?2Nk2'',
    Put ''8527247907403484'' ''%9'',
    Put ''7586477543532073'' ''178'',
    Put ''2880710999781382'' ''5-$-4|<3b&'',
    Put ''6053796770620382'' ''?Jq&9x57~;/>7;2('',
    Get ''9956989961849596'',
    Put ''2291930221300406'' ''>+b/7,45~3'$Ti>'',
    Get ''5802168755742054'',
    Get ''2968426378590431'',
    Get ''1578113711110247'',
    Get ''8275401577307314'',
    Put ''5822033404843406'' '')46<Qk3W;)04Dc+'',
    Put ''8637883447760564'' (''+Da+Bm;Re+=`8Tu'' @ [CHR 0x27]),
    Get ''7350027995735829'',
    Put ''9009861012328806'' '';F'(=44?9Ky-v7'',
    Get ''1127100791449830'',
    Put ''2528939729608790'' ''*L#%D7,6x??|9-$)'',
    Put ''4997704684372624'' ('';Eg&H#0J;=Go3/~'' @ [CHR 0x27]),
    Get ''1127100791449830'',
    Get ''3001278864689138'',
    Get ''1127100791449830'',
    Get ''6163654035247480'',
    Get ''8276179853037296'',
    Put ''4403896078578081'' ([CHR 0x27] @ '']9''),
    Put ''3701473459257178'' ''640(P;>.h/Y'+9$%'',
    Get ''4516211500471582'',
    Put ''7582569637242788'' ''2'',
    Get ''5822033404843406'',
    Put ''3930778667767750'' ''3848.d?F#52v-2|'',
    Put ''8878240901846094'' ''9M/81:4$h2'',
    Put ''2891203284844199'' ''#]5,T//..,!|1$h.'',
    Put ''2041080482152060'' '';7n?[;*Q/)4**=v*'',
    Put ''7928534804371831'' ''!B?4J/>3n+8z*P?1'',
    Get ''8507943218814273'',
    Get ''1605363453570628'',
    Get ''8407240003007868'',
    Put ''2645039727715120'' ''2&b?Du7<>!Ws8^a3'',
    Get ''6159186168446054'',
    Put ''3945957134849834'' ''3L)(I#&J!-Ge&K+('',
    Put ''3695667356213629'' ''!-~&5.0Bc::83Mi.'',
    Put ''7355274138267237'' ([CHR 0x27] @ '']#5<68%4)!`%Eo''),
    Put ''6767053320298401'' ''4E7)/&5Ge';d6$t2'',
    Get ''7598094089008558'',
    Put ''5349694269763058'' '':'',
    Get ''8773411464532562'',
    Put ''7466127993842159'' ''?!<)>28Vk7*b;V=%'',
    Get ''8622704980678480'',
    Get ''5791676470679238'',
    Get ''2192346926518282'',
    Put ''6505151335575098'' ''Ey:J<L!8>'',
    Get ''2644821412497278'',
    Put ''5555226922882994'' ''5&&$F/-->9/t+.0$'',
    Get ''8983848614889607'',
    Put ''3945957134849834'' ''5,`*F?)Qs6+.1^/%'',
    Get ''4168348136588276'',
    Get ''4987212399309808'',
    Put ''5912804296099134'' ''%1d2Cs'',
    Put ''2650067555028687'' ''-*>1!'',
    Put ''5812661040804871'' ''1:f/:$:<d;!$1;,0'',
    Put ''7928534804371831'' ''9Wq2M3.'',
    Get ''7591163725551341'',
    Put ''1347251951139709'' ''2?>5!j('j6Z};2.8'',
    Get ''4166322270368168'',
    Get ''9951390356728192'',
    Put ''8531155813692769'' ''8,$'',
    Put ''3815675260609244'' ''(Kg>H-]?'',
    Get ''8164424391655935'',
    Put ''6290028003198785'' '';F/8*'',
    Get ''8270373749993747'',
    Get ''1708103152020371'',
    Get ''5721671834331300'',
    Put ''5570690804353124'' ''90p#O&Xu6$d*:*)'',
    Get ''3328717618958953'',
    Put ''7928534804371831'' ''*%v6,.57t#,n>+&'',
    Get ''5475289961984380'',
    Put ''3474396275499469'' ([CHR 0x27] @ ''t37p4V{*+v:#.,''),
    Put ''1127100791449830'' ''#$(!5~=Ci#_%=I-8'',
    Get ''2312914791426038'',
    Put ''7702359226420561'' '';Py+Z1>N58H%-]%0'',
    Put ''3599991967720791'' '';.z:Lc0*<R#'',
    Get ''6437094107945257'',
    Put ''5807414898273462'' ''*K/(:`.Ri+Mu<Um;'',
    Get ''7562145027629296'',
    Get ''8854468346455457'',
    Get ''1724693973457202'',
    Put ''3357736316880998'' ''0-&<A):?n7I52Q;'',
    Put ''4157295891013319'' ''..0]-?Ik.(r'',
    Get ''4152268063699753'',
    Put ''1127100791449830'' ''%Zm/Ok*7<<$((=h:'',
    Get ''8516537307122826'',
    Put ''7123510772490260'' '':1p3Ky'',
    Get ''3479424102813035'',
    Get ''8159738209636667'',
    Get ''1453419624695364'',
    Put ''8507943218814273'' ''5Di30'',
    Get ''6621033018463586'',
    Get ''6179392462841705'',
    Get ''8270373749993747'',
    Put ''1357402590908227'' ''>!8=:2'Q?-816*('',
    Get ''4022320356847152'',
    Get ''8054130496593153'',
    Put ''9215611980666584'' ''5/.9K/5:5,<V)9'',
    Get ''8270373749993747'',
    Get ''1100528433498491'',
    Put ''3252906879567466'' ''?%69Qw.Fu2'h4+(4'',
    Get ''7487571633258991'',
    Put ''5696001082186400'' '')*0,L9%N7%=x;O30'',
    Get ''6073473535709749'',
    Put ''7556338924585747'' ''&.p2Bq=;*(Mu):*,'',
    Put ''9119376631661606'' ''3Ka'8z3Fg:Ki#V3-'',
    Get ''8652283639112666'',
    Get ''4524805588780135'',
    Get ''2739936840477976'',
    Put ''5681040930322158'' ''<G/)Y92Z}?*v%.|3'',
    Get ''3700353538232897'',
    Put ''8531155813692769'' ''8Y-9_=Zu;Ty#,z'',
    Put ''3122625005326877'' ([CHR 0x27] @ ''F'(!|Kk/2(%@'' @ ''{#''),
    Put ''4393745438809563'' ''M-<[e8'p>X'<='',
    Get ''6751874853216317'',
    Get ''1010099187537061'',
    Get ''8637665132542722'',
    Put ''6284440215373078'' ''.K7=S1$7`>Y'#:,='',
    Get ''6546342200096381'',
    Get ''3233260545683957'']"

definition run_62 :: "bench_op list" where
  "run_62 = [
    Get ''7817680948796909'',
    Put ''8753205170136912'' '')[w*P=5*$!J9'T%<'',
    Get ''8270373749993747'',
    Put ''7008189050113913'' ''-!2%6h07z'=~$'',
    Get ''5339761945212382'',
    Put ''6184638605373113'' ''7-`2<|5=x/Iw%=v:'',
    Get ''4178280461138951'',
    Put ''6399761937749426'' ''0Uq'&x;?d7'',
    Get ''2399217815880341'',
    Put ''3001838825201279'' ''/Ki2(=Ea?-t'',
    Put ''5465357637433704'' '']}+&l?(|3!v':$,'',
    Put ''1127100791449830'' ''#><=6~6:4120!+$<'',
    Get ''3018704651726094'',
    Put ''7692645217087727'' ''9:%7>&,05F==9v7'',
    Get ''4877355134682710'',
    Put ''7928534804371831'' ''8I',-v>%08M33F+4'',
    Get ''1453419624695364'',
    Get ''2278089990460444'',
    Get ''4740488881668589'',
    Put ''6993570543543969'' ''7M3)Z?.:j3Fy;[?%'',
    Get ''5586143817559302'',
    Put ''7817899264014751'' ''1Oe/)v#?x>+n)Dm/'',
    Put ''7597529789107030'' ''3Qm>+f:=|2P/*64'',
    Get ''3357176356368858'',
    Put ''5460329810120138'' ''#T#-64<[6E#/A{/'',
    Get ''4765941318595647'',
    Get ''8803772738086118'',
    Get ''5942942915045460'',
    Get ''8753205170136912'',
    Get ''4041632523342672'',
    Get ''6159186168446054'',
    Put ''8275401577307314'' ''*V7%4l'',
    Put ''3126532911616162'' ''-M?-@3*J?-[??46)'',
    Get ''6168558532484590'',
    Get ''3937144731323439'',
    Put ''6033372161006890'' ''8:<'',
    Put ''5003169142121874'' ''$-)F7+?&85$2B91'',
    Put ''2408371864701034'' ''4R;1Yu,#(<Cs9=t#'',
    Put ''2533625911628058'' '''',
    Put ''5348915994033076'' '''',
    Put ''9951390356728192'' ''9<&-0z$S1,Rc$U;('',
    Get ''7686620798826337'',
    Get ''6994130504056109'',
    Get ''6656417779941320'',
    Put ''6737474661864215'' ''<#(5Ao<6z#S/*$.9'',
    Get ''1115488585362733'',
    Put ''7118824590470993'' '')*.5]';Fe74>X/0'',
    Put ''3464245635730951'' ''70`3Jq4$*9Ru&^y:'',
    Put ''1127100791449830'' ''#J%9?$;D7'',
    Get ''3353268450079572'',
    Get ''2062065052277692'',
    Put ''3368788562455955'' ''/&<)!.9Wa2Vc1Q3'',
    Put ''5600544008911404'' ([CHR 0x27] @ ''D7(;(<(h:!|'<l&''),
    Get ''1127100791449830'',
    Get ''6274507890822402'',
    Get ''8854051011221780'',
    Put ''1127100791449830'' '',f#*`==>8q?^'-'',
    Put ''5175537580610630'' ''5N'$E%6C+=I-2%d;'',
    Put ''8270373749993747'' ''87'',
    Get ''5328709699637425'',
    Get ''5128204873831056'',
    Get ''1245988774821165'',
    Get ''1936811005350669'',
    Get ''1106894497054180'',
    Get ''4520119406760868'',
    Put ''5229126404855302'' '')E1<:h8_9534^+<'',
    Get ''1127100791449830'',
    Put ''2388165570305384'' ''7'd3_w0$x*!~?:l:'',
    Put ''7819019185039032'' (''5Zu'' @ [CHR 0x27]),
    Get ''6630405382502122'',
    Put ''9220639807980150'' ''%D'8=n%Kc*4&,2l+'',
    Get ''4047998586898362'',
    Get ''4886509183503403'',
    Get ''1127100791449830'',
    Put ''6159186168446054'' ''?S1'',
    Get ''1482438322617409'',
    Get ''6409475947082260'',
    Get ''6310452612812277'',
    Put ''2422430410758837'' ''!Hq'Go+];!'',
    Put ''5591171644872868'' ''<(6=Nw;>h31&)<r3'',
    Get ''3222768260621140'',
    Get ''6395635716242299'',
    Get ''8270373749993747'',
    Put ''2648947634004406'' ''#Ve'0+E5$@6Cw6'',
    Get ''7928534804371831'',
    Get ''1814003298394351'',
    Get ''6994348819273951'',
    Put ''8989654717933156'' ''+Yu3T99:$0Su2A=%'',
    Get ''4997704684372624'',
    Put ''7465349718112177'' ''.W?486&;n;`:92$'',
    Put ''4636219404867198'' ''(40!T})_;11`',$9'',
    Get ''2046886585195608'',
    Get ''1814563258906491'',
    Get ''6179392462841705'',
    Put ''4988550635551930'' ''*4.1S;$R-5%l>#f;'',
    Put ''6053578455402541'' ''Ka;1h/W;<5*462-'',
    Get ''8511509479809259'',
    Put ''7118824590470993'' ''$:,$'',
    Put ''3921624618947057'' ''<Ac-:,1j>'x>8.'',
    Get ''2167454450103364'',
    Get ''6290028003198785'',
    Get ''3599991967720791'',
    Put ''2870218714718566'' '',D-%6&/^1%Do<$|*'',
    Put ''2192906887030423'' ''8Ly#1$*A90'',
    Get ''3570413309286605'',
    Get ''1807426397527130'',
    Put ''6159186168446054'' '';2v?Xu%L)(/l$[q*'',
    Get ''4283328213670325'',
    Put ''3680488889131545'' ''*Ie682,H'-Wk09$!'',
    Get ''5927982763181218'',
    Get ''5233598611046116'',
    Get ''5122398770787507'',
    Get ''5343888166719509'',
    Put ''8150365845598132'' ''(Gi?W!7[i35>,|&'',
    Get ''4408923905891647'',
    Get ''2192346926518282'',
    Put ''6630405382502122'' ([CHR 0x27] @ ''X/)R3/$r7>.'0,(''),
    Put ''4057370950936897'' ''+Ru/@)-Lq&%~>Xw/'',
    Get ''7460663536092909'',
    Put ''2760921410603609'' ''*U9<*j6@!-V!>Si&'',
    Get ''1127100791449830'',
    Put ''1703927718549411'' ([CHR 0x27] @ ''5''),
    Get ''7562145027629296'',
    Get ''7104984359631032'',
    Put ''7702577541638403'' ''<F%!54!=`;#6!X*'',
    Get ''7923070346622581'',
    Get ''2417184268227429'',
    Get ''4288574356201733'',
    Put ''9863266321464243'' ''::|?(?1Z?Aq#'',
    Get ''5921958344919828'',
    Get ''3333963761490361'',
    Get ''1468379776559606'',
    Get ''3599991967720791'',
    Get ''5927982763181218'',
    Get ''7450731211542233'',
    Get ''2879591078757101'',
    Put ''8270373749993747'' '':&&)*x'Kq2?|'',
    Get ''7689634577215493'',
    Put ''5233812586874570'' ''6]+,4'(88W9?L34'',
    Put ''7586477543532073'' ''#Rw7~*>4(?r%C50'',
    Get ''6650611676897772'',
    Put ''7919162440333296'' ''+!0-2~'U31Q5+5x&'',
    Get ''6163654035247480'',
    Get ''8516755622340668'',
    Get ''2886175457530632'',
    Put ''8270373749993747'' ''+H;%L=-Nq;x/!t+'',
    Get ''3710627508077871'',
    Get ''4504599294384485'',
    Put ''7707605368951969'' ''(30!W>_q6Qq7<<9'',
    Get ''4615234834741565'']"

definition run_63 :: "bench_op list" where
  "run_63 = [
    Get ''7823487051840458'',
    Put ''9956989961849596'' '')=r/M#<T/,38?l?'',
    Put ''9104976440309504'' (''+%:5W5>$h;{6&l'' @ [CHR 0x27]),
    Get ''6405349725575133'',
    Put ''3835881555004895'' ''>^w.I9<,f#Wm6/.('',
    Put ''1799384791824407'' ([CHR 0x27] @ ''Qu;=p/2,4Xi5E)-''),
    Put ''4655305778238567'' ''#@}:Ro55z3X0Y5)'',
    Get ''5233598611046116'',
    Get ''6757680956259865'',
    Put ''4125060055296895'' '',Rk*4&'',
    Put ''3710845823295713'' ''8Bm?44++*0X57*d7'',
    Put ''5003169142121874'' ''01n2X/?U;1>d??$$'',
    Get ''8999368727265990'',
    Get ''8989436402715314'',
    Get ''9009861012328806'',
    Get ''1473625919091014'',
    Get ''7460103575580769'',
    Get ''1951429511920612'',
    Put ''1593073862974489'' ''9('',
    Get ''6188764826880240'',
    Put ''1127100791449830'' ''9S+4'',
    Get ''9100290258290236'',
    Get ''6033372161006890'',
    Get ''2991564855356304'',
    Put ''7928534804371831'' ''>-v#6n30~&?+:p.'',
    Put ''6068756922484625'' ''>Q%(&;Q}.Ea'7>4'',
    Put ''4062617093468305'' ''7<*$Pq05'',
    Put ''5791676470679238'' ''2X-43`/Zy/'',
    Put ''4304094468578115'' ''3Fc/[;794%Qc.3|3'',
    Put ''5922736620649810'' ''>M}.<:;?,9/6=:28'',
    Get ''5686287072853566'',
    Put ''8531155813692769'' '',2`#9.1To#I=(*n+'',
    Put ''8275059932013015'' ''@;)<<1'=4(,`>'',
    Put ''4074781782161233'' ''!'j*4z+{2P)(Jw:'',
    Put ''7456755629803624'' '''',
    Get ''7230798367070196'',
    Put ''5214507898285358'' ''430#2,!21Wq#G%<'',
    Get ''1810437037399364'',
    Get ''2417744228739570'',
    Put ''7913916297801888'' ''-<b?%t?S9(^c8A#'',
    Put ''3092268071162709'' ''4S;-Ec79j:/d:Kc#'',
    Get ''6294714185218053'',
    Put ''6163654035247480'' ''Gu>Ig3W--,`7Pi>'',
    Put ''1598879966018038'' ''1+v;Kc,_y6E92G/'',
    Get ''1901150037912483'',
    Put ''5008196969435440'' ''%.v7>$:Be!<2B{#'',
    Get ''3005965046708406'',
    Put ''7817899264014751'' ''&>r'?~'',
    Put ''3815675260609244'' '')L'-F%.Wi7<>#Ty7'',
    Get ''7009308971138193'',
    Put ''7596409868082749'' ([CHR 0x27] @ ''r;B-:*1Co/.d+''),
    Put ''4016720751725747'' ''<S%-Ja0)z>,`#4*8'',
    Put ''4518999485736587'' ''+149%-;*-&&)X6'',
    Get ''8270373749993747'',
    Get ''8984408575401748'',
    Get ''5817347222824138'',
    Get ''1583701498935954'',
    Put ''1241302592801897'' (''*$r+Hq;61-6$Q}'' @ [CHR 0x27]),
    Put ''4424102372973731'' ''!M>?<<U;-$p!;.1'',
    Put ''6168558532484590'' ''6T1!{6.v72<-~*'',
    Put ''3024304256847498'' '')Uy;S9<F?-1h)9*4'',
    Put ''5377600524567132'' ''.*)Fq:/49R2&>4'',
    Get ''5223320301811753'',
    Put ''5355500372806606'' ([CHR 0x27] @ ''Q+5Va+G=!D-#.<9''),
    Put ''1105556260812057'' ''=l/7`;,~/Y+#.j>'',
    Put ''6869094772346928'' ''!PaY-4K=%V='^5)'',
    Put ''3930996982985592'' ''3.t:%p)Z74(|5<x:'',
    Put ''3700353538232897'' ''%?$,]=90<5f)#$)'',
    Get ''2760921410603609'',
    Get ''9104976440309504'',
    Put ''5585365541829320'' ''>.0-..1G{#.f(H?9'',
    Put ''1593633823486629'' ''&1$$*t-f.[?!,*='',
    Put ''1127100791449830'' ''8[c_o)=%V?;4'',
    Put ''9221418083710133'' ''4)64Qk3H94Z'*W94'',
    Get ''2645039727715120'',
    Put ''6184078644860972'' ''%+,4Z54N5,Ui8Xs#'',
    Get ''1127100791449830'',
    Put ''6751874853216317'' ''%|'92'2h&Hq*p7'',
    Get ''7928534804371831'',
    Put ''1709515506375118'' ''*/6<+x$X#'',
    Put ''3835881555004895'' ''#!.,Ey#;6<[,?v+'',
    Get ''7493171238380396'',
    Put ''1356624315178245'' ''-^7<-<:Mq'Ds%&00'',
    Get ''8270373749993747'',
    Put ''3931338628279891'' ''+R'(#x>Oe7^!/00)'',
    Get ''3459217808417385'',
    Get ''6489555533259338'',
    Get ''5591171644872868'',
    Get ''7466127993842159'',
    Get ''7928534804371831'',
    Get ''5104432318440419'',
    Get ''2533625911628058'',
    Put ''8752645209624771'' ''.&(,Zo&'',
    Get ''8999928687778130'',
    Put ''9085111791208152'' ''?65B+?2'',
    Get ''5464797676921564'',
    Get ''6274507890822402'',
    Put ''2282216211967572'' ''%Uo;2f8Qm+_/'9t&'',
    Put ''4037506301835545'' '',Qq&^{4Na2*=A%4'',
    Put ''7008749010626053'' ''<24'',
    Get ''7686839114044179'',
    Put ''5112466446236831'' ([CHR 0x27] @ '':0-5n?!05_7&<`*''),
    Put ''1462791988733899'' ''$J1)Uc:S?<&>-*>0'',
    Put ''5711179549268484'' ''2G7)3v*[%!#~-H3='',
    Put ''6997696765051096'' ''21'',
    Put ''8401215584746478'' ''.9`6S14D}*!,-Wc+'',
    Put ''2915964953276350'' ''=.p$v+-&<@3%F+)'',
    Get ''6039178264050439'',
    Put ''2388165570305384'' '''',
    Get ''2534404187358040'',
    Put ''3001497179906980'' ''-Oq'[1Sw.P9<':9'',
    Get ''8170230494699484'',
    Put ''6761807177766992'' ''2=.8Yc0'',
    Put ''9125742695217295'' ''&F?((bD%!5h)?'',
    Put ''4153387984724034'' '',,2$K=1Ta&3`*A{'',
    Get ''5118832509792520'',
    Put ''5454523707076589'' '':Jc?~,/<116:B7='',
    Put ''6174364635528138'' ''>G5'',
    Put ''1724693973457202'' ''3088/>)%x;J;3Oc:'',
    Put ''5123076155296549'' ''=0>'',
    Put ''4534737913330811'' ''?D=,7~#+p6Q{>H;'',
    Put ''1951211196702770'' ''4W9$80)'j'#|(V'0'',
    Put ''1127100791449830'' ''2Q+$=06EwEo.Rg'',
    Get ''4053244729429770'',
    Get ''7008189050113913'',
    Get ''5466135913163687'',
    Put ''7457315590315764'' ''7%`+Uo3%((1d!0x>'',
    Get ''5686287072853566'',
    Put ''7928534804371831'' ''3:9S'Lg;Ts<<'',
    Get ''7642772757022816'',
    Get ''8421640194359970'',
    Put ''3816016905903543'' '')#f:'**Ec/>,97*4'',
    Put ''7545632663694477'' (''5Bo3#p)1.(5z*(l'' @ [CHR 0x27]),
    Get ''5459769849607998'',
    Get ''6892867327737565'',
    Get ''3811549039102117'',
    Get ''6983856534211135'',
    Put ''5112466446236831'' ''?5h&20,Z?)5t6Ia>'',
    Get ''1703149442819429'',
    Get ''7582351322024946'',
    Put ''5122398770787507'' '''',
    Put ''3242974555016791'' '':Hq'Ds'',
    Get ''6163654035247480'',
    Put ''5937696772514052'' ''%94-G%)/j2X9+E7='',
    Get ''1015905290580609'',
    Get ''2408590179918876'',
    Put ''6274507890822402'' ''<O{#6d8J%(4&(84,'',
    Get ''2171362356392650'',
    Put ''4177720500626811'' ''%3(,H%.I1!?p>36='',
    Put ''9805205291028757'' ''>*|?]q!!n66.<Xi.'']"

definition run_64 :: "bench_op list" where
  "run_64 = [
    Put ''6863848629815520'' ''8M;1V}:$,(Me'76='',
    Get ''4636219404867198'',
    Put ''2287803999793278'' ''6.p6'',
    Get ''4625727119804382'',
    Get ''5103312397416138'',
    Get ''6339954014616917'',
    Put ''8973697975121090'' ''3M358r>$'',
    Put ''3449285483866709'' ''$T9$P)'8b7#(?=n+'',
    Put ''2399217815880341'' (''!52-N37Y6X}3_'' @ [CHR 0x27]),
    Put ''2177728419948339'' ''/)v,>;;|6O30*d;'',
    Put ''6862728708791239'' ''%%-<j36'',
    Get ''5696219397404242'',
    Get ''5514694753139079'',
    Get ''1127100791449830'',
    Get ''3700135223015055'',
    Put ''8858594567962584'' ''1:$%Qs-Ga7Z?<(<'',
    Get ''6772859423341949'',
    Put ''1127100791449830'' ''&M/4E-?!:$]55>.$'',
    Get ''8281425995568704'',
    Put ''8759011273180460'' ''78b&&6.V>?5S9-'',
    Get ''8632978950523454'',
    Get ''6179392462841705'',
    Put ''8984408575401748'' '')#p3<,4N?8Lg50.)'',
    Put ''4288356040983891'' ''>Yg>Ra62f.'(2:|'',
    Put ''8848662243411908'' ''.5p;|>;8%Ni2#r&'',
    Get ''4067644920781871'',
    Get ''6867756536104805'',
    Put ''1127100791449830'' ''1.,,58'',
    Get ''3945957134849834'',
    Get ''3826167545672061'',
    Get ''3106668262514810'',
    Get ''6168558532484590'',
    Put ''8850634558278795'' ''$_'[73N!1Z5.1~&'',
    Get ''5575433217278644'',
    Get ''9120496552685886'',
    Get ''4545230198393627'',
    Put ''2966243226412012'' ''83x.Q)4*08@o:)l;'',
    Get ''8947774651607134'',
    Get ''7466469639136458'',
    Get ''5937136812001912'',
    Get ''6235031163988755'',
    Put ''1578673671622387'' ''/!v'Am6L90^+:V94'',
    Put ''2754337031830078'' ''7I)!=*'',
    Get ''8537521877248458'',
    Put ''1236834726000471'' ''%,~*>$M3(1,#W}7'',
    Put ''7923288661840423'' ''11z#.p,.:4;t4,~.'',
    Put ''2538872054159466'' ''<JyN?^#<Fw=3`7'',
    Put ''2781127704999259'' ''!t/4.85(<I12J%$'',
    Get ''1921072577756444'',
    Put ''8795989980786295'' ''1l2]'(Vi6X55Da*'',
    Put ''7672220607474235'' ''9>j+?20I30_3%5,,'',
    Get ''3937363046541281'',
    Put ''2041080482152060'' ''<<65Xo!Bi/H9.P+<'',
    Get ''5942382954533320'',
    Get ''1116048545874873'',
    Get ''7229460130828073'',
    Get ''7009308971138193'',
    Put ''6405568040792975'' ''-860Ao:A{36&1$f+'',
    Get ''8280866035056564'',
    Get ''1004293084493512'',
    Get ''1834209592790001'',
    Put ''7803280757444808'' ''4)<1Ic/[k/Ia-/h#'',
    Get ''4534737913330811'',
    Get ''3569293388262324'',
    Put ''6184078644860972'' ''3E/$J%E=5A!*Am2'',
    Get ''6651731597922053'',
    Get ''4389837532520278'',
    Get ''1854288217719806'',
    Get ''7109452226432457'',
    Put ''5229686365367442'' ''*H+1+23U5,,x4:$9'',
    Put ''6299400367237320'' ''1%d?T%:,r&.d9>n>'',
    Put ''8270373749993747'' ''3F{X-=Wc'*4&Yk:'',
    Get ''7123510772490260'',
    Get ''5175537580610630'',
    Put ''7094492074568215'' ''7=4F1'*v'C}5:'',
    Put ''5711179549268484'' ''*?4!Oo+<40Ls=As*'',
    Get ''9220639807980150'',
    Put ''6229431558867350'' ''2,'',
    Get ''4057152635719055'',
    Get ''1578455356404546'',
    Put ''3821481363652793'' ''=By?Yy=^;4A72S7%'',
    Get ''8159738209636667'',
    Put ''3790564468976485'' ''7Fo&(x)R9<163A7!'',
    Get ''1684623029960200'',
    Put ''4634881168625075'' ''*;rD/3K}?K%C)4'',
    Get ''8170230494699484'',
    Get ''6641239312859236'',
    Get ''3981058141775879'',
    Get ''1130667052444817'',
    Get ''2629861260633036'',
    Put ''3821481363652793'' '':-*'',
    Get ''7591163725551341'',
    Get ''8270373749993747'',
    Put ''1372362742772469'' ''/]3,Km-),$@y%=0'',
    Get ''1467819816047465'',
    Put ''7697331399106995'' ''66.0|$2|*9`Ri3'',
    Put ''5340321905724522'' '',Si*[/)R{+Cq!*d6'',
    Get ''7943494956236073'',
    Put ''6483955928137933'' ''5V9%A/-#.1!p'',
    Put ''6505711296087238'' ''1181Du<+x+[)+'60'',
    Put ''3223328221133281'' ''7W/%L39#*-^#306<'',
    Put ''1126540830937690'' '';B992j)L{&Tq6N}>'',
    Get ''2538872054159466'',
    Put ''5937915087731894'' ''6-4(Ua;6=('',
    Put ''8744392766610517'' (''1Bu#4*+30)4f']{'' @ [CHR 0x27]),
    Get ''1216410116386979'',
    Put ''1700361457554424'' ''!8p65$#;>(767H!('',
    Put ''8743832806098376'' ''-4|.2>=Oe388+('',
    Put ''8270373749993747'' ''#Lu27:$4l**,&B+4'',
    Put ''7319889376789503'' ''07,1?05-895n2I/-'',
    Get ''6375616624566785'',
    Put ''4303534508065975'' ''>.8%%66::5Dq,Q;('',
    Put ''3689301292657940'' ''4L58C-.90'',
    Put ''8034484162709644'' ''6'68_+-[7%-,4S{+'',
    Put ''8059936599636702'' ''<109'',
    Get ''1714761648906526'',
    Get ''6038618303538299'',
    Get ''1211163973855571'',
    Put ''4408923905891647'' ''1_=$K59W'<Z;&885'',
    Put ''3941830913342707'' ''2L3'',
    Put ''1127100791449830'' '':68B92Hi*2|O'4'',
    Put ''2398657855368200'' ''X}3X%8[m&Ke,X#$'',
    Get ''4288916001496032'',
    Get ''7934122592197538'',
    Put ''6400103583043725'' ''Ak?Vq=6h+)d;[}&'',
    Get ''7340095671185153'',
    Get ''5328709699637425'',
    Get ''2061505091765552'',
    Put ''6058824597933949'' ''.Re#b&Ws&.b-#p2'',
    Get ''1105774576029899'',
    Put ''8947774651607134'' ''(Pg3To0)8!He69l#'',
    Put ''6163654035247480'' ''&':,=x>(h&~6@c;'',
    Get ''8270373749993747'',
    Get ''3930996982985592'',
    Put ''9120496552685886'' ''>K}?W#;00!.l5U6'',
    Put ''4741048842180729'' '')5|+Am.?0,*n'',
    Get ''1105774576029899'',
    Put ''7361080241310786'' ''&U#'',
    Put ''4271245120996330'' ''4S71(v+,6(K}'',
    Get ''3449285483866709'',
    Get ''7562145027629296'',
    Get ''9215393665448742'',
    Get ''6857482566259831'',
    Put ''1352156448376819'' ([CHR 0x27] @ ''<.)5h''),
    Put ''1714761648906526'' ''#I?-.t;-&-L#5'',
    Get ''1801826792405725'',
    Put ''3348022307548164'' ''9.p.800Ii:6$=]39'',
    Put ''1819809401437899'' ''&f27.%D=5Y;.]+9'',
    Put ''1940718911639954'' ''1*`3K)'L!)!f#X51'',
    Get ''1332851759787608'']"

definition run_65 :: "bench_op list" where
  "run_65 = [
    Get ''1935472769108546'',
    Get ''2971842831533417'',
    Get ''5937136812001912'',
    Put ''3685735031662953'' ''*2:$,,9;,06*)=$4'',
    Get ''5122958731299648'',
    Put ''9100071943072394'' ([CHR 0x27] @ ''Zm.Sy)L#!i2Yu6''),
    Put ''3453971665885977'' ''<O#(As..&-.>!>8,'',
    Put ''6274507890822402'' ''6Es3N+2Fm;P7=[18'',
    Get ''2046886585195608'',
    Put ''4068204881294012'' ''.=4'',
    Put ''5821815089625564'' ''$Ou?K}??f>=:'F?,'',
    Put ''2765389277405034'' ''&J{#@e5Hi+?j,'v/'',
    Get ''1598879966018038'',
    Get ''8512069440321400'',
    Put ''6280873954378091'' ''&;n;R10>j*)j<Jq3'',
    Get ''7577105179493538'',
    Get ''6877907175873323'',
    Put ''1473065958578873'' ''7Q)=/b/Ks3(b&[1'',
    Put ''6339954014616917'' ''58n7N{#Ee&J1,O;4'',
    Put ''7556898885097888'' ''=F1==b8)t6,t><<'',
    Put ''4268149746588241'' ''6Ko6P!?)|:R?(9,0'',
    Put ''1921072577756444'' '''',
    Get ''7471715781667866'',
    Get ''7104206083901049'',
    Get ''8773971425044702'',
    Put ''4987990675039790'' ''2#j.9$;-l+Jw'9.5'',
    Put ''5942942915045460'' ''=Tg:!2&:,=Nm)1(='',
    Put ''2745182983009384'' ''3N%=Zw%4f;$z)V+4'',
    Put ''6385143431179482'' ''/B;'',
    Put ''1583919814153796'' '',A94R/'!p:O7+N;'',
    Put ''8164766036950234'' ''(7n&^;55<0]!!7n/'',
    Put ''7545632663694477'' ''7G-'',
    Get ''9099730297778096'',
    Put ''2644479767202980'' ''5Lu?Ne+_k*94Ru2'',
    Put ''9210925798647316'' ''#Kk>4f9Xy#F#<Ic#'',
    Put ''5233598611046116'' ''(O-,):.L=!J2K+-'',
    Get ''1935472769108546'',
    Get ''7591723686063481'',
    Get ''7692426901869886'',
    Get ''7354714177755096'',
    Put ''4656425699262848'' ''-:.)z7p6!l;/>,'',
    Get ''7824047012352598'',
    Put ''2055480673504161'' ''$.>$F##56-Ec-<.'',
    Get ''4047220311168379'',
    Get ''6399543622531584'',
    Get ''4515091579447301'',
    Put ''4534737913330811'' ''/9`3'',
    Get ''1473065958578873'',
    Get ''7465909678624317'',
    Put ''9221978044222273'' ''6P{2Q;%?t1.3P/4'',
    Get ''8974476250851072'',
    Get ''9951390356728192'',
    Put ''8999928687778130'' ''.B/0;#P&'',
    Get ''1760564577334453'',
    Put ''3945957134849834'' '':F7<;8%0f>-0>B79'',
    Get ''4505159254896626'',
    Get ''1127100791449830'',
    Put ''8270373749993747'' ''!1z35*68p#Qk+&:%'',
    Put ''6410035907594400'' ''4&d.18<7d3%l*Vm#'',
    Get ''3117720508089767'',
    Get ''9104758125091662'',
    Get ''5691533215384974'',
    Put ''4520119406760868'' ''&*&8_/#U{:u7A;5'',
    Put ''8406680042495728'' ''-)t3%t#@a#Bk&#r2'',
    Get ''7813213081995483'',
    Put ''7556898885097888'' ''6&*0Eq14(=K}$Fw:'',
    Put ''8054690457105294'' ''.@}.?6$Cu?]1'Qo*'',
    Put ''1593852138704471'' '''',
    Get ''8854468346455457'',
    Get ''5465917597945845'',
    Get ''3097514213694117'',
    Put ''4271245120996330'' ''5C14Xm)Aw3Qk9Gu*'',
    Put ''1127100791449830'' ''25h6+d7~+=f:;z3'',
    Put ''8407240003007868'' ''4!h;V?),f'$'',
    Put ''7893880673350414'' '')I}#->:H;$/j4>f2'',
    Get ''2885957142312790'',
    Get ''2192346926518282'',
    Put ''8627172847479906'' ''-Qy3Dq4$j#+$![;)'',
    Get ''3489356427363711'',
    Get ''8496890973239316'',
    Get ''5686287072853566'',
    Put ''3454531626398117'' ''%&.5J!=)r?Yu82j/'',
    Put ''8270373749993747'' ''-LuHsPyKq-:>)'',
    Get ''4152828024211893'',
    Get ''6641457628077078'',
    Put ''8274841616795173'' ''<48-:<G;(Zm/[a>'',
    Put ''8773971425044702'' ''9>j;P{/5`#K-+R#('',
    Put ''3238506688215365'' ''7I1%;/($4*&R/%'',
    Put ''4755667348750673'' ''8&zQ{;Fm3.n,G)$'',
    Put ''7235826194383762'' ''6I}:,(24$(|;&60'',
    Put ''1025837615131285'' ''9M%8^9!Cu/-~30(0'',
    Get ''1478312101110282'',
    Get ''6863848629815520'',
    Get ''6415282050125808'',
    Get ''3018704651726094'',
    Put ''7224992264026647'' ''0=b?Fa9)z:T!2B?'',
    Put ''1458665767226772'' ''$3nK;oH72(.!'',
    Put ''3252906879567466'' ([CHR 0x27] @ ''M%53l5U9%(~3A7,''),
    Get ''3945957134849834'',
    Put ''1603566148037305'' ''3_g7Z3#e/]7;Ra2'',
    Get ''7923288661840423'',
    Put ''8752986854919070'' ''-='',
    Get ''8848662243411908'',
    Put ''4032260159304137'' ''.Ao.T#7X}2Eq.O;)'',
    Put ''2996810997887712'' ''26.1'l:Sk/Gg(Nw+'',
    Put ''3695667356213629'' [CHR 0x27],
    Get ''8848451406100376'',
    Get ''2276970069436163'',
    Get ''8280647719838722'',
    Get ''1127100791449830'',
    Get ''4856930525069218'',
    Put ''6284221900155236'' '''',
    Get ''7098399980857501'',
    Put ''9956989961849596'' ''*#'',
    Get ''4891195365522671'',
    Get ''6159186168446054'',
    Put ''6179610778059547'' ''<Y%9=6-Jg3$n%&1'',
    Put ''1936811005350669'' ''5,z?Nc/2f*;|=8,)'',
    Get ''1127100791449830'',
    Get ''6752434813728457'',
    Put ''7209253836432423'' ''%.x2A!-*'',
    Put ''6520889763169322'' ''(!~>NiW#8%p:&l#'',
    Get ''1127100791449830'',
    Get ''1127100791449830'',
    Get ''3810989078589977'',
    Get ''2769779887576915'',
    Get ''3001278864689138'',
    Put ''4615234834741565'' '',8f*_31Cg&/r#W{;'',
    Put ''3217522118089732'' ''-X7!3<4,>5(`9%b#'',
    Get ''5344789772525948'',
    Put ''4276844726117735'' '';p3ZcY!<Hi,F}#'',
    Put ''6179610778059547'' ''*0l#&2%6t*-$7?z#'',
    Get ''2974025983711836'',
    Get ''5358848318583751'',
    Put ''5233812586874570'' ''8/.'',
    Put ''3127092872128302'' ''8>4,_g+)(<!p59'',
    Put ''6877907175873323'' ''#F5=G)'Y{6L9.W!4'',
    Get ''9956989961849596'',
    Put ''8884825280619624'' ''24'',
    Get ''6159186168446054'',
    Get ''7123510772490260'',
    Get ''5696219397404242'',
    Get ''6280873954378091'',
    Get ''4636219404867198'',
    Get ''8270373749993747'',
    Put ''6039178264050439'' ''(5%%|)9,-_c4=n#'',
    Get ''7948741098767481'',
    Get ''5922176660137670'',
    Get ''2303542427387503'',
    Put ''2180734720431185'' ''*6&)To&Ni6*2/T5,'']"

definition run_66 :: "bench_op list" where
  "run_66 = [
    Put ''9100290258290236'' ''07~26xZi2?x<<0$'',
    Get ''6154499986426787'',
    Get ''9110564228135211'',
    Put ''8792573527843309'' ''?Nq+*d0&*-O6S/$'',
    Get ''8155611988129540'',
    Put ''1462232028221759'' ''1C-9=z;G9'',
    Get ''4741048842180729'',
    Put ''1708103152020371'' ''&.>(3n?Oo75(=B-'',
    Get ''7486334288237809'',
    Get ''2523911902295224'',
    Get ''7934122592197538'',
    Get ''1709733821592960'',
    Get ''2422990371270978'',
    Put ''1127100791449830'' '''',
    Get ''1506040208063870'',
    Put ''6274507890822402'' ''&;`#-0$#0_?0*h'',
    Get ''6059384558446089'',
    Get ''7596969828594889'',
    Get ''8270373749993747'',
    Get ''5575433217278644'',
    Put ''3117720508089767'' ''>62=Nw&8$=Gi&^1!'',
    Get ''5118272549280380'',
    Put ''2428796474314526'' ''.Ie#)`:@y>:(Pu7'',
    Put ''4174105027667991'' ''!R3<-t2I;=B=)U=9'',
    Put ''8269813789481607'' ''0Qc2*6:Zw**x6@i6'',
    Put ''5339761945212382'' ''=T/=G3&(1.|'T3)'',
    Get ''4282444331239139'',
    Get ''8657529781644074'',
    Put ''7798594575425540'' ''(-25-$$2~&J91U7!'',
    Put ''3599991967720791'' ''87z#:-%.-V{:2'',
    Get ''6310452612812277'',
    Put ''3812108999614258'' ''%Y/K7628<4t$*'',
    Put ''3922997111340393'' ('',Z=-C#'' @ [CHR 0x27, CHR 0x27] @ ''p:3|!*2-''),
    Put ''3005405086196265'' ''1C)0Sm'',
    Put ''3112428292111447'' '';(('',
    Get ''6430099635208427'',
    Put ''2523693587077382'' ''5Yo:9$(T}>+'',
    Put ''2180734720431185'' ''#,,Z=-Oy3)f9Fu&'',
    Put ''6294714185218053'' ''#5d>:b:*t#@y8Ma#'',
    Get ''6159186168446054'',
    Get ''6510957438618647'',
    Put ''2422990371270978'' ''8Z%'',
    Put ''7928534804371831'' ''0!f+3j2g'_?s&'',
    Get ''2046326624683468'',
    Get ''7923630307134722'',
    Get ''3112428292111447'',
    Get ''2413276361938144'',
    Get ''6994130504056109'',
    Get ''8842851800978971'',
    Get ''6882935003186889'',
    Get ''5465015992139406'',
    Put ''1854288217719806'' ''<L+'',
    Put ''1467819816047465'' ''&]%,Oq7X7=:b7:%'',
    Get ''9106096361333785'',
    Put ''4992458541841216'' '',V6W-6->$5v&[q'',
    Get ''5937136812001912'',
    Get ''5223661947106052'',
    Get ''4504599294384485'',
    Put ''4158074166743301'' ''%Ku60>+2|2-v;_q/'',
    Get ''8752645209624771'',
    Put ''6184638605373113'' ''3Z}*+|/F/9&z*/$,'',
    Get ''8622145020166340'',
    Put ''4881823001484136'' ''/!(1/./:nQg,:,-'',
    Get ''1112140639585588'',
    Put ''1718887870413653'' '',C!,Y}6])%J5?n+'',
    Put ''7356052413997219'' '',/n',~3Zo;7n2Ny7'',
    Put ''3706501286570744'' ''!_7$U/(C9%[;>'<'',
    Get ''5099186175909011'',
    Put ''8411147909297154'' ''42-9'',
    Get ''7355274138267237'',
    Get ''4775873643146323'',
    Get ''1127100791449830'',
    Put ''3218082078601873'' ''56t2!p5&d2Y!'*l/'',
    Get ''8270373749993747'',
    Get ''4644813493175751'',
    Put ''4992458541841216'' ''<!|2.z7Y1)V7*E)$'',
    Get ''6163654035247480'',
    Get ''4077577245332547'',
    Get ''6531942008744279'',
    Get ''7747695607650979'',
    Put ''5464797676921564'' '',>~.Z90_i++*%G'0'',
    Put ''8270373749993747'' ''*'',
    Get ''8984750220696046'',
    Get ''5937136812001912'',
    Get ''6390389573710891'',
    Get ''9004054909285258'',
    Put ''4625727119804382'' ''?%'',
    Put ''8522903370678515'' '':Mc27$H==(6:(d*'',
    Put ''5113804682478954'' (''(E;!Bi0_q&X=(Vu'' @ [CHR 0x27]),
    Put ''8396187757432912'' ''7!.9L9'5<3p)Dy>'',
    Get ''3870535686026312'',
    Put ''4273955849631789'' ''#E'4Yk-Jq&[q;/2%'',
    Put ''8884047004889642'' ''28l/9p;S-5848*5'',
    Get ''6163654035247480'',
    Get ''1127100791449830'',
    Get ''5586143817559302'',
    Get ''5464797676921564'',
    Get ''8270373749993747'',
    Get ''3945957134849834'',
    Get ''4520337721978710'',
    Get ''9125742695217295'',
    Get ''1127100791449830'',
    Put ''2180734720431185'' '',Co#E#'',
    Put ''5470603779965112'' ''3$4=U'1:~#78'',
    Get ''7556898885097888'',
    Get ''7466127993842159'',
    Get ''7707605368951969'',
    Put ''6154499986426787'' ''#$'',
    Put ''5464797676921564'' ''69v;N?(@o&Ia=F9('',
    Put ''3232700585171816'' ''0S+$Ik+V+-V50B%5'',
    Get ''6381216229688190'',
    Get ''7707045408439829'',
    Put ''1710286304198790'' ''+i:(h1B=0R+.5<9'',
    Put ''5514694753139079'' ''4&0'',
    Put ''1578113711110247'' '''',
    Put ''7807966939464075'' '':44'',
    Get ''1473065958578873'',
    Put ''7687399074556319'' ''%3(=T;#Y/4!&+:0'',
    Put ''6159186168446054'' ''5Fm39d0(<$D'/Ho>'',
    Get ''7928534804371831'',
    Get ''7585917583019933'',
    Get ''4403896078578081'',
    Get ''8526469631673501'',
    Get ''5831747414176240'',
    Get ''1834769553302141'',
    Put ''1127100791449830'' ''1>,9:04G%1A})A+!'',
    Put ''6546342200096381'' '')?b/&j._3%Zu<_e2'',
    Get ''8747959027605504'',
    Get ''6762585453496975'',
    Put ''4885949222991263'' ''G?)H/4=~+]-!Da&'',
    Put ''8884047004889642'' ''/!84+z&?29$<.'$%'',
    Get ''8160298170148808'',
    Put ''9220639807980150'' ''!Us)|?J%1Z?9R+='',
    Get ''3339209904021769'',
    Get ''3590277958387957'',
    Get ''4394523714539545'',
    Get ''7008749010626053'',
    Get ''3927430721990606'',
    Get ''6159186168446054'',
    Put ''5832307374688380'' '';B-<*&=1d&*x1Y59'',
    Put ''8698849887457955'' ''69*,%l:%b2E143z>'',
    Put ''1000726823498525'' ''=<p!z7.&4-(=W'',
    Get ''1577895395892405'',
    Put ''5003169142121874'' ''?!r?4d/Q%-Bu!Ry2'',
    Put ''6431494502823852'' '''',
    Get ''7450731211542233'',
    Get ''3354170055886011'',
    Put ''6583279173644691'' (''%5!d3#|/&*%;d'' @ [CHR 0x27]),
    Put ''6179610778059547'' '',+48)n.Mw&V1*J'%'',
    Put ''5118832509792520'' ''6s.;(:R*F+=4,'']"

definition run_67 :: "bench_op list" where
  "run_67 = [
    Get ''7545632663694477'',
    Get ''6235031163988755'',
    Put ''8738026703054828'' '';#,'',
    Get ''8270373749993747'',
    Get ''3700695183527195'',
    Get ''5711179549268484'',
    Put ''5377600524567132'' ''8EkIw++04)x9Ci/'',
    Get ''7556898885097888'',
    Put ''3468931817750219'' ''!_u'[o3;l&!t&?<'',
    Get ''7104984359631032'',
    Get ''7471715781667866'',
    Get ''2422990371270978'',
    Get ''3936024810299159'',
    Put ''4409142221109489'' ''-7*9$*:#p>Gk'',
    Put ''7934122592197538'' ''*8j+<j<52<38.Sw;'',
    Get ''7465909678624317'',
    Get ''6505151335575098'',
    Get ''7577105179493538'',
    Put ''8170230494699484'' ''0+,9'|&(j/4b%344'',
    Put ''7928534804371831'' ''(74'',
    Put ''2774761641443570'' ''6i/F?392$4p//41'',
    Get ''4413610087910915'',
    Put ''7230580051852354'' ''6,.,+09Y=5'',
    Put ''1825055543969307'' '';3$=12B)%T3'A}6'',
    Get ''2180734720431185'',
    Put ''5471163740477253'' ''2%40Uu8_i.:`;Ho7'',
    Put ''1127100791449830'' ''5C#9)d[i.(v58|*'',
    Put ''8531155813692769'' ''=Zw;62?!2=&:'K;8'',
    Get ''7535324192704098'',
    Get ''8632418990011314'',
    Put ''5186736790853439'' ''3Fq?1'',
    Get ''4982184571996241'',
    Put ''7114138408451725'' ''*%h'%j6K=-Ls%]-$'',
    Put ''7556898885097888'' ''3Rk;(~'',
    Put ''3951203277381243'' ''!'',
    Get ''6642359233883517'',
    Get ''1127100791449830'',
    Get ''2639233624671572'',
    Get ''2525031823319505'',
    Put ''3816016905903543'' ([CHR 0x27] @ ''0p;F?4KaW%#M5$''),
    Put ''1211163973855571'' ''<&b+(r:(~3T9=Nu6'',
    Get ''2278089990460444'',
    Get ''3005965046708406'',
    Get ''9111124188647351'',
    Get ''4745516708982155'',
    Get ''8848662243411908'',
    Get ''5002390866391892'',
    Put ''6505151335575098'' (''>0,O5(R{944@}'' @ [CHR 0x27]),
    Get ''7928534804371831'',
    Put ''3599991967720791'' ''(P7$L76E99E{'',
    Get ''2303542427387503'',
    Get ''6577679568523287'',
    Get ''5233812586874570'',
    Get ''6993570543543969'',
    Put ''7093932114056075'' ''?Pm.%h<?&,:,-(~*'',
    Get ''8270373749993747'',
    Put ''1127100791449830'' ''.%>'',
    Get ''7692645217087727'',
    Put ''1473284273796715'' '')]o*?~3Qk2[94Z!,'',
    Get ''8747959027605504'',
    Put ''8270373749993747'' (''=Uc2$r*%j??b=J{'' @ [CHR 0x27]),
    Get ''4152268063699753'',
    Put ''8536961916736318'' '':8r+60'',
    Get ''3821263048434951'',
    Get ''6641340204080177'',
    Put ''5585365541829320'' ''4Oy&V='',
    Get ''4268709707100381'',
    Put ''1704269363843710'' ''4>>-E%;Ny*8h-:|#'',
    Put ''6042744525045426'' ''%0l22>29r.-(;1j3'',
    Get ''3349142228572445'',
    Get ''2172482277416930'',
    Put ''5692093175897115'' ''(F=$:85(d7Xm-O9'',
    Get ''1127100791449830'',
    Get ''1458665767226772'',
    Put ''7556898885097888'' ''%U9=D}/:|&S#!K=8'',
    Get ''6386815834809594'',
    Get ''4047220311168379'',
    Put ''4283888174182465'' ''>W=%;$,L#'',
    Put ''8270373749993747'' ''%<<%6:9+29O1$_!('',
    Get ''1704269363843710'',
    Put ''4881823001484136'' ''%!d;,r!Xq6/z+?<9'',
    Get ''1935691084326388'',
    Get ''3695449040995787'',
    Get ''1010659148049201'',
    Put ''5700687264205668'' ''#>,1=`#^{7!h#D+!'',
    Get ''2780007783974978'',
    Get ''3468371857238078'',
    Get ''6641239312859236'',
    Put ''9095604076270969'' ''?B}:A7(&b&d)Ag6'',
    Put ''4062617093468305'' ''(Ei;7,9'',
    Get ''7591320243918142'',
    Put ''6163654035247480'' '''',
    Put ''6752434813728457'' ''/'',
    Get ''5464797676921564'',
    Put ''2649725909734388'' ''1T7)A=:Ba#Q}:2$,'',
    Put ''5928542723693359'' ''5.r3)2=Vi;G;9Q)-'',
    Get ''1700361457554424'',
    Put ''5479976144003648'' ''9'v'F?.,(0Hw6Ok'',
    Get ''7556898885097888'',
    Get ''8863840710493992'']"

lemma run_57_tally: "tally run_57 0 0 (75, 75)"
  by (unfold run_57_def) (simp only: tally_steps cong: tally_cong, simp)

lemma run_58_tally: "tally run_58 0 0 (71, 79)"
  by (unfold run_58_def) (simp only: tally_steps cong: tally_cong, simp)

lemma run_59_tally: "tally run_59 0 0 (74, 76)"
  by (unfold run_59_def) (simp only: tally_steps cong: tally_cong, simp)

lemma run_60_tally: "tally run_60 0 0 (72, 78)"
  by (unfold run_60_def) (simp only: tally_steps cong: tally_cong, simp)

lemma run_61_tally: "tally run_61 0 0 (76, 74)"
  by (unfold run_61_def) (simp only: tally_steps cong: tally_cong, simp)

lemma run_62_tally: "tally run_62 0 0 (62, 88)"
  by (unfold run_62_def) (simp only: tally_steps cong: tally_cong, simp)

lemma run_63_tally: "tally run_63 0 0 (85, 65)"
  by (unfold run_63_def) (simp only: tally_steps cong: tally_cong, simp)

lemma run_64_tally: "tally run_64 0 0 (72, 78)"
  by (unfold run_64_def) (simp only: tally_steps cong: tally_cong, simp)

lemma run_65_tally: "tally run_65 0 0 (73, 77)"
  by (unfold run_65_def) (simp only: tally_steps cong: tally_cong, simp)

lemma run_66_tally: "tally run_66 0 0 (66, 84)"
  by (unfold run_66_def) (simp only: tally_steps cong: tally_cong, simp)

lemma run_67_tally: "tally run_67 0 0 (42, 58)"
  by (unfold run_67_def) (simp only: tally_steps cong: tally_cong, simp)

end
