(* ===== verification/Benchmark.thy ===== *)
theory Benchmark
  imports BenchLoad1 BenchLoad2 BenchLoad3 BenchRun1 BenchRun2 BenchRun3 BenchRun4 BenchRun5
begin

text \<open>
  The whole benchmark of \<open>src/src/shared/benchmark.h\<close>: the load phase, the run phase, and how many puts
  and gets each makes, added up from the stretches of the other Bench theories.
\<close>

definition load_phase :: "bench_op list" where
  "load_phase =
     load_1 @ load_2 @ load_3 @ load_4 @ load_5 @ load_6 @ load_7 @ load_8 @ load_9 @ load_10 @
     load_11 @ load_12 @ load_13 @ load_14 @ load_15 @ load_16 @ load_17 @ load_18 @ load_19 @
     load_20 @ load_21 @ load_22 @ load_23 @ load_24 @ load_25 @ load_26 @ load_27 @ load_28 @
     load_29 @ load_30 @ load_31 @ load_32 @ load_33 @ load_34 @ load_35 @ load_36 @ load_37 @
     load_38 @ load_39 @ load_40"

definition run_phase :: "bench_op list" where
  "run_phase =
     run_1 @ run_2 @ run_3 @ run_4 @ run_5 @ run_6 @ run_7 @ run_8 @ run_9 @ run_10 @ run_11 @
     run_12 @ run_13 @ run_14 @ run_15 @ run_16 @ run_17 @ run_18 @ run_19 @ run_20 @ run_21 @
     run_22 @ run_23 @ run_24 @ run_25 @ run_26 @ run_27 @ run_28 @ run_29 @ run_30 @ run_31 @
     run_32 @ run_33 @ run_34 @ run_35 @ run_36 @ run_37 @ run_38 @ run_39 @ run_40 @ run_41 @
     run_42 @ run_43 @ run_44 @ run_45 @ run_46 @ run_47 @ run_48 @ run_49 @ run_50 @ run_51 @
     run_52 @ run_53 @ run_54 @ run_55 @ run_56 @ run_57 @ run_58 @ run_59 @ run_60 @ run_61 @
     run_62 @ run_63 @ run_64 @ run_65 @ run_66 @ run_67"

text \<open>The macro logs a line before, between and after the two phases, which is left out.\<close>

definition benchmark :: "(string \<Rightarrow> string \<Rightarrow> 's \<Rightarrow> 's res) \<Rightarrow> (string \<Rightarrow> 's \<Rightarrow> 's res) \<Rightarrow> 's \<Rightarrow> 's res" where
  "benchmark put get s = bindr (bench_exec put get load_phase s) (bench_exec put get run_phase)"

lemmas load_tallies =
  load_1_tally load_2_tally load_3_tally load_4_tally load_5_tally load_6_tally load_7_tally
  load_8_tally load_9_tally load_10_tally load_11_tally load_12_tally load_13_tally load_14_tally
  load_15_tally load_16_tally load_17_tally load_18_tally load_19_tally load_20_tally
  load_21_tally load_22_tally load_23_tally load_24_tally load_25_tally load_26_tally
  load_27_tally load_28_tally load_29_tally load_30_tally load_31_tally load_32_tally
  load_33_tally load_34_tally load_35_tally load_36_tally load_37_tally load_38_tally
  load_39_tally load_40_tally

lemmas run_tallies =
  run_1_tally run_2_tally run_3_tally run_4_tally run_5_tally run_6_tally run_7_tally run_8_tally
  run_9_tally run_10_tally run_11_tally run_12_tally run_13_tally run_14_tally run_15_tally
  run_16_tally run_17_tally run_18_tally run_19_tally run_20_tally run_21_tally run_22_tally
  run_23_tally run_24_tally run_25_tally run_26_tally run_27_tally run_28_tally run_29_tally
  run_30_tally run_31_tally run_32_tally run_33_tally run_34_tally run_35_tally run_36_tally
  run_37_tally run_38_tally run_39_tally run_40_tally run_41_tally run_42_tally run_43_tally
  run_44_tally run_45_tally run_46_tally run_47_tally run_48_tally run_49_tally run_50_tally
  run_51_tally run_52_tally run_53_tally run_54_tally run_55_tally run_56_tally run_57_tally
  run_58_tally run_59_tally run_60_tally run_61_tally run_62_tally run_63_tally run_64_tally
  run_65_tally run_66_tally run_67_tally

lemma load_phase_tally: "tally load_phase 0 0 (5998, 0)"
  unfolding load_phase_def
  by (simp only: load_tallies [THEN tally_shift] cong: tally_cong)
    (simp add: load_40_tally [THEN tally_shift, of "[]", simplified])

lemma run_phase_tally: "tally run_phase 0 0 (4963, 5037)"
  unfolding run_phase_def
  by (simp only: run_tallies [THEN tally_shift] cong: tally_cong)
    (simp add: run_67_tally [THEN tally_shift, of "[]", simplified])

end
