(* ===== verification/Anomalies.thy ===== *)
theory Anomalies
  imports Runs
begin

text \<open>
  Runs of the database (\<open>engine.cc\<close>, \<open>memtable.cc\<close>, \<open>index.cc\<close>) outside the hypothesis that time
  stamps increase per key, evaluated in the kernel with a memtable of one record: what a lookup
  returns then depends on flushes and compactions. The engine is run over a store that keeps the
  blocks in a list and names them by their position in unary, which is all that the index needs.
\<close>

definition list_ops :: "CapsuleBlock list store_ops" where
  "list_ops = \<lparr>putBlock = (\<lambda>b w. Inr (CHR ''#'' # map (\<lambda>_. CHR ''#'') w, w @ [b])),
     getBlockAt = (\<lambda>h w. if 0 < length h \<and> length h \<le> length w then Inr (w ! (length h - 1))
       else Inl (Logic_error ''no such block''))\<rparr>"

definition run_and_get :: "kvs_payload list \<Rightarrow> string \<Rightarrow> string option" where
  "run_and_get ps k =
     (case put_all (db_put list_ops) ps (spawnDB 1, []) of
        Inl e \<Rightarrow> None
      | Inr s \<Rightarrow> (case db_get list_ops k 0 s of Inl e \<Rightarrow> None | Inr (q, s') \<Rightarrow> Some (val q)))"

definition put_of :: "string \<Rightarrow> string \<Rightarrow> int64 \<Rightarrow> kvs_payload" where
  "put_of k v t = \<lparr>key = k, val = v, txn_timestamp = t, txn_msgType = ''PUT''\<rparr>"

text \<open>
  A put that is older than a record in the levels is accepted, because the memtable compares with
  its own records only, and lookups return it; two flushes later a compaction merges the levels by
  time stamp and lookups return the newer record again.
\<close>

theorem older_put_flips_back:
  "run_and_get [put_of ''k'' ''new'' 10, put_of ''j'' ''1'' 11, put_of ''k'' ''old'' 5] ''k'' = Some ''old'' \<and>
   run_and_get [put_of ''k'' ''new'' 10, put_of ''j'' ''1'' 11, put_of ''k'' ''old'' 5,
     put_of ''j'' ''2'' 12, put_of ''i'' ''3'' 13] ''k'' = Some ''new''"
  by code_simp

text \<open>
  Of two puts of a key with the same time stamp in different blocks the later one is returned at first,
  but compaction keeps the one of the lower level, which is the earlier one.
\<close>

theorem equal_time_stamps_resurrect:
  "run_and_get [put_of ''k'' ''first'' 5, put_of ''j'' ''1'' 6, put_of ''k'' ''second'' 5] ''k'' = Some ''second'' \<and>
   run_and_get [put_of ''k'' ''first'' 5, put_of ''j'' ''1'' 6, put_of ''k'' ''second'' 5,
     put_of ''j'' ''2'' 7, put_of ''i'' ''3'' 8] ''k'' = Some ''first''"
  by code_simp

end
