(* ===== verification/Endpoints.thy ===== *)
theory Endpoints
  imports Server Benchmark Anomalies
begin

text \<open>
  What the programs around the engine promise: the enclave driver (\<open>src/src/enclave\<close>), the two servers
  (\<open>src/src/network\<close>) and the benchmark (\<open>src/src/shared/benchmark.h\<close>), each over the storage of
  theory FakeCapsule and for any environment that meets its hypotheses.
\<close>

section \<open>The enclave driver\<close>

text \<open>
  C14. A database behind the enclave driver behaves like a finite map too, as long as the time stamps of the puts
  increase for every key: the enclave is created, all puts through the driver succeed, and a lookup returns the last record put under the key, with the message
  type lost, or a payload with an empty key; the driver can be finalized in the end.
\<close>

theorem enclave_remembers_puts:
  assumes "asylo_ok A" "env_ok E" "1 \<le> unat sz" "unat sz \<le> 10737"
    and "\<forall>p \<in> set ps. key p \<noteq> ''''" "increasing Map.empty ps" "k \<noteq> ''''"
    and "length ps \<le> max_flushes * unat sz"
  shows "\<exists>db s'. CapsuleDB_Driver_new A sz = Inr db \<and>
    put_all (driver_put A (capsule_ops E)) ps (db, initial_world) = Inr s' \<and>
    driver_get A (capsule_ops E) k u s' = Inr (case apply_puts ps Map.empty k of
      None \<Rightarrow> kvs_payload_default u | Some p \<Rightarrow> p\<lparr>txn_msgType := ''''\<rparr>, s') \<and>
    driver_finalize A = Inr ()"
proof -
  have A: "CapsuleDB_Driver_new A sz = Inr (spawnDB sz)" "driver_finalize A = Inr ()"
    using assms(1) by (simp_all add: CapsuleDB_Driver_new_def driver_finalize_def asylo_ok_def Initialize_def)
  have "enclave_view (capsule_ops E) (new_db sz) = Map.empty"
    by (simp add: enclave_view_def new_db_empty)
  from kv_database.get_last_put [OF driver_is_database [OF assms(1)]
      new_db_good [OF assms(2-4,8)] this new_db_empty(3) assms(5-7), of u]
  show ?thesis unfolding A no_type_def by blast
qed

definition three_puts :: "kvs_payload list" where
  "three_puts = [\<lparr>key = ''b'', val = ''1'', txn_timestamp = 5, txn_msgType = ''PUT''\<rparr>,
     \<lparr>key = ''a'', val = ''2'', txn_timestamp = 6, txn_msgType = ''PUT''\<rparr>,
     \<lparr>key = ''b'', val = ''3'', txn_timestamp = 7, txn_msgType = ''PUT''\<rparr>]"

theorem enclave_remembers_puts_witness:
  "\<exists>db s'. CapsuleDB_Driver_new (direct_asylo :: world db_state asylo) 1 = Inr db \<and>
    put_all (driver_put direct_asylo (capsule_ops wire_env)) three_puts (db, initial_world) = Inr s' \<and>
    driver_get direct_asylo (capsule_ops wire_env) ''b'' 0 s' =
      Inr (\<lparr>key = ''b'', val = ''3'', txn_timestamp = 7, txn_msgType = ''''\<rparr>, s')"
proof -
  have "\<forall>p \<in> set three_puts. key p \<noteq> ''''" "length three_puts \<le> max_flushes * unat (1::size_t)"
    by (simp_all add: three_puts_def max_flushes_def)
  moreover have "increasing Map.empty three_puts" "apply_puts three_puts Map.empty ''b'' =
      Some \<lparr>key = ''b'', val = ''3'', txn_timestamp = 7, txn_msgType = ''PUT''\<rparr>" by code_simp+
  ultimately show ?thesis
    using enclave_remembers_puts [OF direct_asylo_ok wire_env_ok, of 1 three_puts "''b''" 0] by auto
qed

text \<open>
  Looking up the empty key through the driver is a write: the enclave takes the request for a put and
  stores a record with an empty key and no value, and the caller gets an empty payload.
\<close>

theorem enclave_empty_lookup_writes:
  assumes "asylo_ok A"
  shows "driver_get A S '''' u s =
    bindr (driver_put A S \<lparr>key = '''', val = '''', txn_timestamp = 0, txn_msgType = ''''\<rparr> s)
      (\<lambda>s'. Inr (\<lparr>key = '''', val = '''', txn_timestamp = 0, txn_msgType = ''''\<rparr>, s'))"
  using driver_get_empty_key [OF assms, of S u s] driver_put_runs [OF assms, of S "kvs_payload_default 0" s]
  by (simp add: kvs_payload_default_def no_type_def)

theorem enclave_empty_lookup_writes_witness:
  "(case driver_get direct_asylo list_ops '''' 7 (spawnDB 1, []) of
      Inl e \<Rightarrow> False
    | Inr (q, s') \<Rightarrow> q = \<lparr>key = '''', val = '''', txn_timestamp = 0, txn_msgType = ''''\<rparr> \<and>
        map key (records (db_memtable (fst s'))) = ['''']) \<and>
   records (db_memtable (spawnDB 1)) = []"
  unfolding enclave_empty_lookup_writes [OF direct_asylo_ok, of list_ops 7 "(spawnDB 1, [])"] by code_simp

section \<open>The servers\<close>

text \<open>
  C13. The server program on any sequence of well-formed requests of a client, puts and gets interleaved,
  with time stamps that increase per key: it replies to the gets only, in their order, and each reply
  reads as the last record put under the key before it, or as a payload with an empty key.
\<close>

theorem server_answers_like_a_map:
  assumes "codec_ok C" "env_ok E"
    and "\<forall>e \<in> set os. op_key e \<noteq> ''''" "increasing Map.empty (op_puts os)"
    and "length (op_puts os) \<le> max_flushes * 50"
  shows "\<exists>replies s'. server_main C (capsule_ops E) u (map (op_message C) os) initial_world = Inr (replies, s') \<and>
    map (read_reply C) replies = map Some (answers (\<lambda>p. p) u Map.empty os)"
proof -
  have "db_good (capsule_ops E) (world_ok E) world_room (length (op_puts os)) (new_db 50)"
    using new_db_good [OF assms(2), of 50] assms(5) by simp
  from fdb.conversation [OF assms(1) this new_db_empty(3) assms(3), of u] assms(4) show ?thesis
    unfolding new_db_empty(1) server_main_def
    using read_replies [OF assms(1), of "answers (\<lambda>p. p) u Map.empty os"] by blast
qed

theorem server_answers_like_a_map_witness:
  "\<exists>replies s'. server_main wire_codec (capsule_ops wire_env) 0
      (map (op_message wire_codec) [GetOp ''k'', PutOp \<lparr>key = ''k'', val = ''v'', txn_timestamp = 3,
         txn_msgType = ''PUT''\<rparr>, GetOp ''k'']) initial_world = Inr (replies, s') \<and>
    map (read_reply wire_codec) replies =
      [Some \<lparr>key = '''', val = '''', txn_timestamp = 0, txn_msgType = ''''\<rparr>,
       Some \<lparr>key = ''k'', val = ''v'', txn_timestamp = 3, txn_msgType = ''PUT''\<rparr>]"
  using server_answers_like_a_map [OF wire_codec_ok wire_env_ok, of "[GetOp ''k'', PutOp \<lparr>key = ''k'',
      val = ''v'', txn_timestamp = 3, txn_msgType = ''PUT''\<rparr>, GetOp ''k'']" 0]
  by (auto simp: max_flushes_def fresh_def kvs_payload_default_def)

text \<open>
  C15. The enclave server answers in the same way, under the same condition that the time stamps of the puts increase
  per key, except that the records come back without their message type.
\<close>

theorem enclave_server_answers_like_a_map:
  assumes "codec_ok C" "asylo_ok A" "env_ok E" "path \<noteq> ''''"
    and "\<forall>e \<in> set os. op_key e \<noteq> ''''" "increasing Map.empty (op_puts os)"
    and "length (op_puts os) \<le> max_flushes * 50"
  shows "\<exists>replies s'. enclave_server_main C A (capsule_ops E) path u (map (op_message C) os) initial_world =
      Inr (replies, s') \<and>
    map (read_reply C) replies = map Some (answers (\<lambda>p. p\<lparr>txn_msgType := ''''\<rparr>) u Map.empty os)"
proof -
  have A: "CapsuleDB_Driver_new A 50 = Inr (spawnDB 50)"
    using assms(2) by (simp add: CapsuleDB_Driver_new_def asylo_ok_def Initialize_def)
  have good: "db_good (capsule_ops E) (world_ok E) world_room (length (op_puts os)) (new_db 50)"
    using new_db_good [OF assms(3), of 50] assms(7) by simp
  have v: "enclave_view (capsule_ops E) (new_db 50) = Map.empty"
    by (simp add: enclave_view_def new_db_empty)
  from kv_database.conversation [OF driver_is_database [OF assms(2)] assms(1) good new_db_empty(3) assms(5)]
  have "\<exists>s'. serve_all C (driver_put A (capsule_ops E)) (driver_get A (capsule_ops E)) u
      (map (op_message C) os) (new_db 50) = Inr (map (put_message C) (answers no_type u Map.empty os), s')"
    unfolding v using assms(6) by blast
  moreover have "no_type = (\<lambda>p. p\<lparr>txn_msgType := ''''\<rparr>)" by (simp add: no_type_def fun_eq_iff)
  ultimately show ?thesis
    using read_replies [OF assms(1), of "answers no_type u Map.empty os"] assms(4) A
    by (auto simp: enclave_server_main_def)
qed

theorem enclave_server_answers_like_a_map_witness:
  "\<exists>replies s'. enclave_server_main wire_codec direct_asylo (capsule_ops wire_env) ''e.so'' 0
      (map (op_message wire_codec) [PutOp \<lparr>key = ''k'', val = ''v'', txn_timestamp = 3,
         txn_msgType = ''PUT''\<rparr>, GetOp ''k'']) initial_world = Inr (replies, s') \<and>
    map (read_reply wire_codec) replies =
      [Some \<lparr>key = ''k'', val = ''v'', txn_timestamp = 3, txn_msgType = ''''\<rparr>]"
  using enclave_server_answers_like_a_map [OF wire_codec_ok direct_asylo_ok wire_env_ok, of "''e.so''"
      "[PutOp \<lparr>key = ''k'', val = ''v'', txn_timestamp = 3, txn_msgType = ''PUT''\<rparr>, GetOp ''k'']" 0]
  by (auto simp: max_flushes_def fresh_def)

text \<open>
  One message that does not parse ends the server: whatever it served before, it throws, and no later
  request is looked at.
\<close>

theorem bad_message_ends_server:
  assumes "codec_ok C" "env_ok E" "\<forall>e \<in> set os. op_key e \<noteq> ''''" "increasing Map.empty (op_puts os)"
    and "length (op_puts os) \<le> max_flushes * 50" "parse_request C m = None"
  shows "server_main C (capsule_ops E) u (map (op_message C) os @ m # ms) initial_world =
    Inl (Logic_error ''Failed to deserialize incoming request.'')"
proof -
  have "db_good (capsule_ops E) (world_ok E) world_room (length (op_puts os)) (new_db 50)"
    using new_db_good [OF assms(2), of 50] assms(5) by simp
  from fdb.conversation [OF assms(1) this new_db_empty(3) assms(3), of u] assms(4)
  obtain out s' where "serve_all C (db_put (capsule_ops E)) (db_get (capsule_ops E)) u
      (map (op_message C) os) (new_db 50) = Inr (out, s')"
    unfolding new_db_empty(1) by blast
  then show ?thesis
    unfolding server_main_def serve_all_append by (simp add: serve_bad_message [OF assms(6)] del: serve_all.simps)
qed

theorem bad_message_ends_server_witness:
  "server_main wire_codec (capsule_ops wire_env) 0
    (map (op_message wire_codec) [PutOp \<lparr>key = ''k'', val = ''v'', txn_timestamp = 3,
       txn_msgType = ''PUT''\<rparr>] @ ''?'' # [get_message wire_codec ''k'']) initial_world =
    Inl (Logic_error ''Failed to deserialize incoming request.'')"
proof -
  have "parse_request wire_codec ''?'' = None" by code_simp
  from bad_message_ends_server [OF wire_codec_ok wire_env_ok _ _ _ this, of "[PutOp \<lparr>key = ''k'',
      val = ''v'', txn_timestamp = 3, txn_msgType = ''PUT''\<rparr>]" 0 "[get_message wire_codec ''k'']"] show ?thesis
    by (simp add: max_flushes_def fresh_def)
qed

section \<open>The benchmark\<close>

text \<open>
  The generated benchmark makes 5998 puts in its load phase; its run phase makes 4963 puts and 5037
  gets, the other way round than its last log line says.
\<close>

theorem benchmark_counts:
  "length (filter (\<lambda>e. \<exists>k v. e = Put k v) load_phase) = 5998 \<and> length load_phase = 5998 \<and>
   length (filter (\<lambda>e. \<exists>k v. e = Put k v) run_phase) = 4963 \<and>
   length (filter (\<lambda>e. \<exists>k. e = Get k) run_phase) = 5037"
proof -
  have len: "length os = length (filter (\<lambda>e. \<exists>k v. e = Put k v) os) + length (filter (\<lambda>e. \<exists>k. e = Get k) os)"
    for os :: "bench_op list"
  proof (induction os)
    case (Cons e os)
    then show ?case by (cases e) simp_all
  qed simp
  from tally_counts [OF load_phase_tally] tally_counts [OF run_phase_tally] len [of load_phase]
  show ?thesis by simp
qed

end
