(* ===== verification/NetClient.thy ===== *)
theory NetClient
  imports Runs Pdu
begin

text \<open>
  The database on the network of capsules: \<open>network/Old/cdb_network_client.cc\<close>, a node that takes signed
  and encrypted capsules with puts and gets, and \<open>test_files/Old/cdb_test.hh\<close>, its client. The message
  class \<open>hello_world::CapsulePDU\<close> comes from a file that is not in the repository: its setters and getters
  are a parameter \<open>M\<close>, and \<open>pdu_message_ok\<close> states that a getter returns what was set last.
\<close>

section \<open>The message of a capsule\<close>

record 'm pdu_message =
  empty_pdu :: 'm
  set_payload_in_transit :: "string \<Rightarrow> 'm \<Rightarrow> 'm"
  set_signature :: "string \<Rightarrow> 'm \<Rightarrow> 'm"
  set_sender :: "int \<Rightarrow> 'm \<Rightarrow> 'm"
  set_prevhash :: "string \<Rightarrow> 'm \<Rightarrow> 'm"
  set_hash :: "string \<Rightarrow> 'm \<Rightarrow> 'm"
  set_timestamp :: "int64 \<Rightarrow> 'm \<Rightarrow> 'm"
  set_msgtype :: "string \<Rightarrow> 'm \<Rightarrow> 'm"
  set_retaddr :: "string \<Rightarrow> 'm \<Rightarrow> 'm"
  get_payload_in_transit :: "'m \<Rightarrow> string"
  get_signature :: "'m \<Rightarrow> string"
  get_sender :: "'m \<Rightarrow> int"
  get_prevhash :: "'m \<Rightarrow> string"
  get_hash :: "'m \<Rightarrow> string"
  get_timestamp :: "'m \<Rightarrow> int64"
  get_msgtype :: "'m \<Rightarrow> string"
  get_retaddr :: "'m \<Rightarrow> string"

definition CapsuleToProto :: "'m pdu_message \<Rightarrow> capsule_pdu \<Rightarrow> 'm \<Rightarrow> 'm" where
  "CapsuleToProto M dc m =
     set_retaddr M (retAddr dc) (set_msgtype M (msgType dc) (set_timestamp M (timestamp dc)
       (set_hash M (dc_hash dc) (set_prevhash M (prevHash dc) (set_sender M (sender dc)
         (set_signature M (signature dc) (set_payload_in_transit M (payload_in_transit dc) m)))))))"

definition CapsuleFromProto :: "'m pdu_message \<Rightarrow> 'm \<Rightarrow> capsule_pdu \<Rightarrow> capsule_pdu" where
  "CapsuleFromProto M m dc = dc\<lparr>signature := get_signature M m, sender := get_sender M m,
     payload_in_transit := get_payload_in_transit M m, prevHash := get_prevhash M m,
     dc_hash := get_hash M m, timestamp := get_timestamp M m, msgType := get_msgtype M m,
     retAddr := get_retaddr M m\<rparr>"

text \<open>The fields of a message as its getters show them, for the laws of the setters.\<close>

definition pdu_fields :: "'m pdu_message \<Rightarrow> 'm \<Rightarrow> capsule_pdu" where
  "pdu_fields M m = CapsuleFromProto M m new_capsule_pdu"

definition pdu_message_ok :: "'m pdu_message \<Rightarrow> bool" where
  "pdu_message_ok M \<longleftrightarrow> (\<forall>m x i t.
     pdu_fields M (set_payload_in_transit M x m) = (pdu_fields M m)\<lparr>payload_in_transit := x\<rparr> \<and>
     pdu_fields M (set_signature M x m) = (pdu_fields M m)\<lparr>signature := x\<rparr> \<and>
     pdu_fields M (set_sender M i m) = (pdu_fields M m)\<lparr>sender := i\<rparr> \<and>
     pdu_fields M (set_prevhash M x m) = (pdu_fields M m)\<lparr>prevHash := x\<rparr> \<and>
     pdu_fields M (set_hash M x m) = (pdu_fields M m)\<lparr>dc_hash := x\<rparr> \<and>
     pdu_fields M (set_timestamp M t m) = (pdu_fields M m)\<lparr>timestamp := t\<rparr> \<and>
     pdu_fields M (set_msgtype M x m) = (pdu_fields M m)\<lparr>msgType := x\<rparr> \<and>
     pdu_fields M (set_retaddr M x m) = (pdu_fields M m)\<lparr>retAddr := x\<rparr>)"

text \<open>A capsule goes through its message without loss, except for the list of records in the clear.\<close>

lemma from_to_proto:
  assumes "pdu_message_ok M"
  shows "CapsuleFromProto M (CapsuleToProto M dc m) dc0 = dc\<lparr>payload_l := payload_l dc0\<rparr>"
proof -
  have l: "pdu_fields M (set_payload_in_transit M x n) = (pdu_fields M n)\<lparr>payload_in_transit := x\<rparr>"
    "pdu_fields M (set_signature M x n) = (pdu_fields M n)\<lparr>signature := x\<rparr>"
    "pdu_fields M (set_sender M i n) = (pdu_fields M n)\<lparr>sender := i\<rparr>"
    "pdu_fields M (set_prevhash M x n) = (pdu_fields M n)\<lparr>prevHash := x\<rparr>"
    "pdu_fields M (set_hash M x n) = (pdu_fields M n)\<lparr>dc_hash := x\<rparr>"
    "pdu_fields M (set_timestamp M t n) = (pdu_fields M n)\<lparr>timestamp := t\<rparr>"
    "pdu_fields M (set_msgtype M x n) = (pdu_fields M n)\<lparr>msgType := x\<rparr>"
    "pdu_fields M (set_retaddr M x n) = (pdu_fields M n)\<lparr>retAddr := x\<rparr>" for x n i t
    using assms unfolding pdu_message_ok_def by blast+
  have f: "CapsuleFromProto M n d = (pdu_fields M n)\<lparr>payload_l := payload_l d\<rparr>" for n and d :: capsule_pdu
    by (simp add: pdu_fields_def CapsuleFromProto_def new_capsule_pdu_def)
  have "pdu_fields M (CapsuleToProto M dc m) = dc\<lparr>payload_l := []\<rparr>"
    by (simp add: CapsuleToProto_def l) (simp add: pdu_fields_def CapsuleFromProto_def new_capsule_pdu_def)
  then show ?thesis unfolding f by simp
qed

lemma payload_of_proto:
  assumes "pdu_message_ok M"
  shows "get_payload_in_transit M (CapsuleToProto M dc m) = payload_in_transit dc"
  using arg_cong [OF from_to_proto [OF assms, of dc m dc], of payload_in_transit] by (simp add: CapsuleFromProto_def)

section \<open>The node\<close>

text \<open>
  \<open>CapsuleDBNetworkClient\<close> without its database, which is an explicit state. \<open>u\<close> is the indeterminate time
  stamp of a payload that is not found.
\<close>

record net_client =
  client_id :: int
  signing_key :: signing_key
  verifying_key :: verifying_key

text \<open>
  \<open>CreateFromDer\<close> and \<open>GetVerifyingKey\<close> of Asylo are the parameters of the constructor; \<open>ValueOrDie\<close> ends
  the program when a status is not ok.
\<close>

definition CapsuleDBNetworkClient_new ::
    "(string \<Rightarrow> signing_key option) \<Rightarrow> (signing_key \<Rightarrow> verifying_key option) \<Rightarrow>
     size_t \<Rightarrow> int \<Rightarrow> string \<Rightarrow> (net_client \<times> CapsuleDB) res" where
  "CapsuleDBNetworkClient_new CreateFromDer GetVerifyingKey bs i serialized_input_key =
     (case CreateFromDer serialized_input_key of
        None \<Rightarrow> Inl (Fatal ''CreateFromDer'')
      | Some sk \<Rightarrow>
          (case GetVerifyingKey sk of
             None \<Rightarrow> Inl (Fatal ''GetVerifyingKey'')
           | Some vk \<Rightarrow> Inr (\<lparr>client_id = i, signing_key = sk, verifying_key = vk\<rparr>, spawnDB bs)))"

definition net_put :: "pdu_lib \<Rightarrow> 'm pdu_message \<Rightarrow> 'w store_ops \<Rightarrow> net_client \<Rightarrow> 'm \<Rightarrow> 'w db_state \<Rightarrow>
    'w db_state res" where
  "net_put L M S c inPDU s =
     (let translated = CapsuleFromProto M inPDU new_capsule_pdu in
      if \<not> verify_dc L (verifying_key c) translated then Inr s
      else bindr (decrypt_payload_l L translated) (\<lambda>(ok, translated').
           if ok then put_all (db_put S) (payload_l translated') s else Inr s))"

definition net_get :: "pdu_lib \<Rightarrow> 'm pdu_message \<Rightarrow> 'w store_ops \<Rightarrow> net_client \<Rightarrow> int64 \<Rightarrow> string \<Rightarrow>
    'w db_state \<Rightarrow> ('m \<times> 'w db_state) res" where
  "net_get L M S c u requestedKey s =
     bindr (db_get S requestedKey u s) (\<lambda>(requested, s').
     bindr (PayloadListToCapsule new_capsule_pdu [requested] (client_id c)) (\<lambda>dc0.
     case encrypt_payload_l L True dc0 of (encrypted, dc1) \<Rightarrow>
       if \<not> encrypted then Inr (empty_pdu M, s')
       else (case generate_hash L dc1 of (hashed, dc2) \<Rightarrow>
         if \<not> hashed then Inr (empty_pdu M, s')
         else bindr (sign_dc L (signing_key c) dc2) (\<lambda>(signed, dc3).
              if \<not> signed then Inr (empty_pdu M, s')
              else Inr (CapsuleToProto M dc3 (empty_pdu M), s')))))"

text \<open>The loop of \<open>handle\<close>: a get returns at once, records behind it are not looked at.\<close>

fun handle_payloads :: "pdu_lib \<Rightarrow> 'm pdu_message \<Rightarrow> 'w store_ops \<Rightarrow> net_client \<Rightarrow> int64 \<Rightarrow> kvs_payload list \<Rightarrow>
    'w db_state \<Rightarrow> ('m \<times> 'w db_state) res" where
  "handle_payloads L M S c u [] s = Inr (empty_pdu M, s)"
| "handle_payloads L M S c u (p # ps) s =
     (if txn_msgType p = ''PUT'' then bindr (db_put S p s) (handle_payloads L M S c u ps)
      else if txn_msgType p = ''GET'' then net_get L M S c u (key p) s
      else handle_payloads L M S c u ps s)"

definition net_handle :: "pdu_lib \<Rightarrow> 'm pdu_message \<Rightarrow> 'w store_ops \<Rightarrow> net_client \<Rightarrow> int64 \<Rightarrow> 'm \<Rightarrow>
    'w db_state \<Rightarrow> ('m \<times> 'w db_state) res" where
  "net_handle L M S c u inPDU s =
     (let translated = CapsuleFromProto M inPDU new_capsule_pdu in
      if \<not> verify_dc L (verifying_key c) translated then Inr (empty_pdu M, s)
      else bindr (decrypt_payload_l L translated) (\<lambda>(ok, translated').
           if ok then handle_payloads L M S c u (payload_l translated') s
           else Inr (empty_pdu M, s)))"

section \<open>The test client\<close>

text \<open>
  \<open>gen_payload\<close>, up to the message that is serialized and sent; \<open>now\<close> is the clock in seconds. The results
  of encryption and hashing are not looked at.
\<close>

definition gen_payload :: "pdu_lib \<Rightarrow> 'm pdu_message \<Rightarrow> signing_key \<Rightarrow> string \<Rightarrow> int64 \<Rightarrow> string \<Rightarrow> string \<Rightarrow>
    bool \<Rightarrow> 'm res" where
  "gen_payload L M sk recv_addr now k v isPut =
     (let payload = KvToPayload k v now (if isPut then ''PUT'' else ''GET'') in
      bindr (PayloadListToCapsule_ret new_capsule_pdu [payload] 0 recv_addr) (\<lambda>dc0.
      let dc1 = snd (encrypt_payload_l L True dc0); dc2 = snd (generate_hash L dc1) in
      bindr (sign_dc L sk dc2) (\<lambda>(success, dc3). Inr (CapsuleToProto M dc3 (empty_pdu M)))))"

text \<open>\<open>recv_capsule_pdu\<close>, from the message that \<open>ParseFromString\<close> of the message class has read.\<close>

definition recv_capsule_pdu :: "'m pdu_message \<Rightarrow> 'm \<Rightarrow> capsule_pdu" where
  "recv_capsule_pdu M in_dc = CapsuleFromProto M in_dc new_capsule_pdu"

text \<open>What \<open>wait_response\<close> makes of a response: the value of its first record of type PUT.\<close>

definition read_response :: "pdu_lib \<Rightarrow> 'm pdu_message \<Rightarrow> 'm \<Rightarrow> string res" where
  "read_response L M in_dc =
     bindr (decrypt_payload_l L (recv_capsule_pdu M in_dc)) (\<lambda>(ok, response).
     if ok then Inr (case find (\<lambda>p. txn_msgType p = ''PUT'') (payload_l response) of
                       Some p \<Rightarrow> val p | None \<Rightarrow> '''')
     else Inr '''')"

text \<open>
  The sockets and what lies behind them, the router and the workers, are a parameter \<open>T\<close> over a state of the
  network: sending on \<open>mcast_socket\<close>; one \<open>poll\<close> of \<open>recv_socket\<close>, with the message that is received when there
  is one; and waiting for a number of seconds.
\<close>

record ('m, 'n) transport =
  mcast_send :: "'m \<Rightarrow> 'n \<Rightarrow> 'n"
  recv_poll :: "'n \<Rightarrow> 'm option \<times> 'n"
  net_sleep :: "nat \<Rightarrow> 'n \<Rightarrow> 'n"

text \<open>
  \<open>wait_response\<close>: polls until some response comes in and reads it; \<open>None\<close> when none ever does. The key that it
  is given is not looked at.
\<close>

partial_function (option) wait_response :: "pdu_lib \<Rightarrow> 'm pdu_message \<Rightarrow> ('m, 'n) transport \<Rightarrow> 'n \<Rightarrow>
    (string \<times> 'n) res option" where
  "wait_response L M T n =
     (case recv_poll T n of
        (Some msg, n') \<Rightarrow> Some (bindr (read_response L M msg) (\<lambda>v. Inr (v, n')))
      | (None, n') \<Rightarrow> wait_response L M T n')"

text \<open>
  \<open>put\<close> and \<open>get\<close>: a put only sends its message; a get sends its message and takes the response that comes first.
\<close>

definition client_put :: "pdu_lib \<Rightarrow> 'm pdu_message \<Rightarrow> ('m, 'n) transport \<Rightarrow> signing_key \<Rightarrow> string \<Rightarrow> int64 \<Rightarrow>
    string \<Rightarrow> string \<Rightarrow> 'n \<Rightarrow> 'n res" where
  "client_put L M T sk addr now k v n =
     bindr (gen_payload L M sk addr now k v True) (\<lambda>msg. Inr (mcast_send T msg n))"

definition client_get :: "pdu_lib \<Rightarrow> 'm pdu_message \<Rightarrow> ('m, 'n) transport \<Rightarrow> signing_key \<Rightarrow> string \<Rightarrow> int64 \<Rightarrow>
    string \<Rightarrow> 'n \<Rightarrow> (string \<times> 'n) res option" where
  "client_get L M T sk addr now k n =
     (case gen_payload L M sk addr now k ''UNUSED_VAL'' False of
        Inl e \<Rightarrow> Some (Inl e)
      | Inr msg \<Rightarrow> wait_response L M T (mcast_send T msg n))"

lemma wait_response_poll:
  "recv_poll T n = (Some msg, n') \<Longrightarrow> wait_response L M T n = Some (bindr (read_response L M msg) (\<lambda>v. Inr (v, n')))"
  "recv_poll T n = (None, n') \<Longrightarrow> wait_response L M T n = wait_response L M T n'"
  by (subst wait_response.simps; simp)+

section \<open>Sealed capsules\<close>

text \<open>What a node or a client makes of a capsule that was filled with \<open>ps\<close>, sealed and sent.\<close>

definition opened :: "pdu_lib \<Rightarrow> kvs_payload list \<Rightarrow> capsule_pdu \<Rightarrow> (bool \<times> capsule_pdu) res" where
  "opened L ps dc =
     bindr (deserialize_payload_l L (serialize_payload_l ps)) (\<lambda>qs. Inr (True, dc\<lparr>payload_l := qs\<rparr>))"

lemma sealed_message:
  assumes L: "lib_ok L" and M: "pdu_message_ok M" and k: "key_pair sk vk"
  obtains e h sig where
    "encrypt_payload_l L True dc = (True, dc\<lparr>payload_in_transit := e\<rparr>)"
    "generate_hash L (dc\<lparr>payload_in_transit := e\<rparr>) = (True, dc\<lparr>payload_in_transit := e, dc_hash := h\<rparr>)"
    "sign_dc L sk (dc\<lparr>payload_in_transit := e, dc_hash := h\<rparr>) =
      Inr (True, dc\<lparr>payload_in_transit := e, dc_hash := h, signature := sig\<rparr>)"
    "verify_dc L vk (CapsuleFromProto M (CapsuleToProto M
      (dc\<lparr>payload_in_transit := e, dc_hash := h, signature := sig\<rparr>) m) new_capsule_pdu)"
    "\<exists>dc'. decrypt_payload_l L (CapsuleFromProto M (CapsuleToProto M
      (dc\<lparr>payload_in_transit := e, dc_hash := h, signature := sig\<rparr>) m) new_capsule_pdu) =
      opened L (payload_l dc) dc'"
proof -
  from sealed_opens [OF L k, of dc] obtain e h sig where
    e: "encrypt_payload_l L True dc = (True, dc\<lparr>payload_in_transit := e\<rparr>)"
    "generate_hash L (dc\<lparr>payload_in_transit := e\<rparr>) = (True, dc\<lparr>payload_in_transit := e, dc_hash := h\<rparr>)"
    "sign_dc L sk (dc\<lparr>payload_in_transit := e, dc_hash := h\<rparr>) =
      Inr (True, dc\<lparr>payload_in_transit := e, dc_hash := h, signature := sig\<rparr>)"
    "DecryptMessage L e = Some (serialize_payload_l (payload_l dc))"
    "verify_dc L vk (dc\<lparr>payload_in_transit := e, dc_hash := h, signature := sig\<rparr>)" by metis
  let ?dc = "dc\<lparr>payload_in_transit := e, dc_hash := h, signature := sig\<rparr>"
  have v: "verify_dc L vk (d\<lparr>payload_l := ps\<rparr>) = verify_dc L vk d" for d ps
    by (simp add: verify_dc_def verify_hash_def verify_signature_def hashed_part_def split: option.split)
  show thesis
    by (rule that [of e h sig])
      (use e in \<open>simp_all add: from_to_proto [OF M] v decrypt_payload_l_def opened_def exI\<close>)
qed

text \<open>A request of the test client, as the node handles it.\<close>

lemma gen_payload_handled:
  fixes S :: "'w store_ops"
  assumes "lib_ok L" "pdu_message_ok M" "key_pair sk (verifying_key c)"
  obtains msg where "gen_payload L M sk addr now k v isPut = Inr msg"
    "\<And>u s. net_handle L M S c u msg s =
      bindr (deserialize_payload_l L (serialize_payload_l [KvToPayload k v now (if isPut then ''PUT'' else ''GET'')]))
        (\<lambda>qs. handle_payloads L M S c u qs s)"
proof -
  let ?p = "KvToPayload k v now (if isPut then ''PUT'' else ''GET'')"
  obtain dc0 where dc0: "PayloadListToCapsule_ret new_capsule_pdu [?p] 0 addr = Inr dc0" "payload_l dc0 = [?p]"
    by (simp add: PayloadListToCapsule_ret_def PayloadListToCapsule_def)
  from sealed_message [OF assms, of dc0] obtain e h sig where
    e: "encrypt_payload_l L True dc0 = (True, dc0\<lparr>payload_in_transit := e\<rparr>)"
    "generate_hash L (dc0\<lparr>payload_in_transit := e\<rparr>) = (True, dc0\<lparr>payload_in_transit := e, dc_hash := h\<rparr>)"
    "sign_dc L sk (dc0\<lparr>payload_in_transit := e, dc_hash := h\<rparr>) =
      Inr (True, dc0\<lparr>payload_in_transit := e, dc_hash := h, signature := sig\<rparr>)"
    "verify_dc L (verifying_key c) (CapsuleFromProto M (CapsuleToProto M
      (dc0\<lparr>payload_in_transit := e, dc_hash := h, signature := sig\<rparr>) (empty_pdu M)) new_capsule_pdu)"
    "\<exists>dc'. decrypt_payload_l L (CapsuleFromProto M (CapsuleToProto M
      (dc0\<lparr>payload_in_transit := e, dc_hash := h, signature := sig\<rparr>) (empty_pdu M)) new_capsule_pdu) =
      opened L (payload_l dc0) dc'" by metis
  let ?msg = "CapsuleToProto M (dc0\<lparr>payload_in_transit := e, dc_hash := h, signature := sig\<rparr>) (empty_pdu M)"
  have g: "gen_payload L M sk addr now k v isPut = Inr ?msg"
    using dc0(1) e(1-3) by (simp add: gen_payload_def Let_def)
  from e(5) obtain dc' where d: "decrypt_payload_l L (CapsuleFromProto M ?msg new_capsule_pdu) = opened L [?p] dc'"
    unfolding dc0(2) by blast
  have "net_handle L M S c u ?msg s =
      bindr (deserialize_payload_l L (serialize_payload_l [?p])) (\<lambda>qs. handle_payloads L M S c u qs s)" for u s
    using e(4) by (cases "deserialize_payload_l L (serialize_payload_l [?p])")
      (simp_all add: net_handle_def Let_def d opened_def del: serialize_payload_l.simps)
  with g show thesis by (rule that)
qed

text \<open>The node's answer to a get, as the client reads it.\<close>

lemma net_get_read:
  assumes "lib_ok L" "pdu_message_ok M" "key_pair (signing_key c) vk" "db_get S k u s = Inr (q, s')"
  obtains msg where "net_get L M S c u k s = Inr (msg, s')"
    "read_response L M msg = bindr (deserialize_payload_l L (serialize_payload_l [q]))
      (\<lambda>qs. Inr (case find (\<lambda>p. txn_msgType p = ''PUT'') qs of Some p \<Rightarrow> val p | None \<Rightarrow> ''''))"
    "get_payload_in_transit M msg \<noteq> ''''"
proof -
  obtain dc0 where dc0: "PayloadListToCapsule new_capsule_pdu [q] (client_id c) = Inr dc0" "payload_l dc0 = [q]"
    by (simp add: PayloadListToCapsule_def)
  from sealed_message [OF assms(1-3), of dc0] obtain e h sig where
    e: "encrypt_payload_l L True dc0 = (True, dc0\<lparr>payload_in_transit := e\<rparr>)"
    "generate_hash L (dc0\<lparr>payload_in_transit := e\<rparr>) = (True, dc0\<lparr>payload_in_transit := e, dc_hash := h\<rparr>)"
    "sign_dc L (signing_key c) (dc0\<lparr>payload_in_transit := e, dc_hash := h\<rparr>) =
      Inr (True, dc0\<lparr>payload_in_transit := e, dc_hash := h, signature := sig\<rparr>)"
    "\<exists>dc'. decrypt_payload_l L (CapsuleFromProto M (CapsuleToProto M
      (dc0\<lparr>payload_in_transit := e, dc_hash := h, signature := sig\<rparr>) (empty_pdu M)) new_capsule_pdu) =
      opened L (payload_l dc0) dc'" by metis
  let ?msg = "CapsuleToProto M (dc0\<lparr>payload_in_transit := e, dc_hash := h, signature := sig\<rparr>) (empty_pdu M)"
  have g: "net_get L M S c u k s = Inr (?msg, s')"
    using assms(4) dc0(1) e(1-3) by (simp add: net_get_def)
  from e(4) obtain dc' where d: "decrypt_payload_l L (CapsuleFromProto M ?msg new_capsule_pdu) = opened L [q] dc'"
    unfolding dc0(2) by blast
  have "read_response L M ?msg = bindr (deserialize_payload_l L (serialize_payload_l [q]))
      (\<lambda>qs. Inr (case find (\<lambda>p. txn_msgType p = ''PUT'') qs of Some p \<Rightarrow> val p | None \<Rightarrow> ''''))"
    by (cases "deserialize_payload_l L (serialize_payload_l [q])")
      (simp_all add: read_response_def recv_capsule_pdu_def d opened_def del: serialize_payload_l.simps)
  moreover have "EncryptMessage L (serialize_payload_l [q]) = Some e"
    using arg_cong [OF e(1), of "\<lambda>r. (fst r, payload_in_transit (snd r))"]
    by (simp add: encrypt_payload_l_def dc0(2) Let_def del: serialize_payload_l.simps split: option.splits)
  then have "e \<noteq> ''''" by (rule encrypt_not_Nil [OF assms(1)]) (simp add: serialize_payload_def delim_str_def)
  then have "get_payload_in_transit M ?msg \<noteq> ''''" by (simp add: payload_of_proto [OF assms(2)])
  ultimately show thesis using g that by blast
qed

lemma type_names_ok: "field_ok ''PUT''" "field_ok ''GET''" "field_ok ''UNUSED_VAL''" "field_ok []"
  by (simp_all add: field_ok_def delim_str_def)

end
