(* ===== verification/PduSample.thy ===== *)
theory PduSample
  imports NetClient
begin

text \<open>
  A library, a message class and a key pair that meet the hypotheses of theories Pdu and NetClient, for
  the witnesses: splitting and hexadecimal as documented, a digest that is the message itself, a cipher
  that appends a tag, and a signature that is the message.
\<close>

section \<open>Splitting\<close>

fun split_delim :: "string \<Rightarrow> string \<Rightarrow> string list" where
  "split_delim acc [] = [acc]"
| "split_delim acc (c # s) =
     (if take 3 (c # s) = delim_str then acc # split_delim [] (drop 2 s) else split_delim (acc @ [c]) s)"

lemma field_ok_Cons: "field_ok (c # f) \<Longrightarrow> take 3 (c # f @ delim_str @ s) \<noteq> delim_str \<and> field_ok f"
  by (cases f; cases "tl f") (auto simp: field_ok_def delim_str_def numeral_eq_Suc split: if_splits)

lemma split_delim_field: "field_ok f \<Longrightarrow> split_delim acc (f @ delim_str @ s) = (acc @ f) # split_delim [] s"
proof (induction f arbitrary: acc)
  case Nil
  then show ?case by (simp add: delim_str_def numeral_eq_Suc)
next
  case (Cons c f)
  note c = field_ok_Cons [OF Cons.prems, of s]
  then have "split_delim acc ((c # f) @ delim_str @ s) = split_delim (acc @ [c]) (f @ delim_str @ s)"
    by simp
  then show ?case using Cons.IH c by simp
qed

section \<open>Hexadecimal\<close>

definition unhex_digit :: "char \<Rightarrow> nat" where
  "unhex_digit c = (if is_digit c then of_char c - 48 else of_char c - 87)"

fun unhex :: "string \<Rightarrow> string" where
  "unhex (a # b # s) = char_of (16 * unhex_digit a + unhex_digit b) # unhex s"
| "unhex s = []"

definition to_hex :: "string \<Rightarrow> string" where
  "to_hex s = concat (map hex_byte s)"

lemma unhex_hex_digit: "d < 16 \<Longrightarrow> unhex_digit (hex_digit d) = d"
proof -
  have "\<forall>d \<in> set [0..<16]. unhex_digit (hex_digit d) = d" by code_simp
  then show "d < 16 \<Longrightarrow> unhex_digit (hex_digit d) = d" by simp
qed

lemma unhex_to_hex: "unhex (to_hex s) = s"
proof (induction s)
  case (Cons c s)
  have "(of_char c :: nat) < 256" by simp
  then have "(of_char c :: nat) div 16 < 16" by (intro less_mult_imp_div_less) simp
  then show ?case using Cons by (simp add: to_hex_def hex_byte_def unhex_hex_digit)
qed (simp add: to_hex_def)

section \<open>The library\<close>

definition tag_cryptor :: cryptor where
  "tag_cryptor = \<lparr>NonceSize = 12, MaxSealOverhead = 1, Seal = (\<lambda>m a. Some (replicate 12 CHR 0x00, m @ ''T'')),
     Open = (\<lambda>t a n. if t = '''' then None else Some (butlast t))\<rparr>"

definition sample_lib :: pdu_lib where
  "sample_lib = \<lparr>StrSplit = (\<lambda>s d. split_delim [] s), BytesToHexString = to_hex, HexStringToBytes = unhex,
     digest = Some, CreateAesGcmSivCryptor = (\<lambda>k. Some tag_cryptor)\<rparr>"

definition sample_sign :: signing_key where
  "sample_sign m = Some m"

definition sample_verify :: verifying_key where
  "sample_verify m s \<longleftrightarrow> m = s"

lemma sample_lib_ok: "lib_ok sample_lib"
proof -
  have "split_ok sample_lib" by (simp add: split_ok_def sample_lib_def split_delim_field)
  moreover have "hex_ok sample_lib" by (simp add: hex_ok_def sample_lib_def unhex_to_hex) (simp add: to_hex_def)
  moreover have "cryptor_ok tag_cryptor" by (simp add: cryptor_ok_def tag_cryptor_def)
  ultimately show ?thesis by (simp add: lib_ok_def sample_lib_def)
qed

lemma sample_keys: "key_pair sample_sign sample_verify"
  by (simp add: key_pair_def sample_sign_def sample_verify_def)

definition sample_client :: net_client where
  "sample_client = \<lparr>client_id = 4, signing_key = sample_sign, verifying_key = sample_verify\<rparr>"

text \<open>A message class whose objects are their fields.\<close>

definition record_message :: "capsule_pdu pdu_message" where
  "record_message = \<lparr>empty_pdu = new_capsule_pdu,
     set_payload_in_transit = (\<lambda>x m. m\<lparr>payload_in_transit := x\<rparr>), set_signature = (\<lambda>x m. m\<lparr>signature := x\<rparr>),
     set_sender = (\<lambda>x m. m\<lparr>sender := x\<rparr>), set_prevhash = (\<lambda>x m. m\<lparr>prevHash := x\<rparr>),
     set_hash = (\<lambda>x m. m\<lparr>dc_hash := x\<rparr>), set_timestamp = (\<lambda>x m. m\<lparr>timestamp := x\<rparr>),
     set_msgtype = (\<lambda>x m. m\<lparr>msgType := x\<rparr>), set_retaddr = (\<lambda>x m. m\<lparr>retAddr := x\<rparr>),
     get_payload_in_transit = payload_in_transit, get_signature = signature, get_sender = sender,
     get_prevhash = prevHash, get_hash = dc_hash, get_timestamp = timestamp, get_msgtype = msgType,
     get_retaddr = retAddr\<rparr>"

lemma record_message_ok: "pdu_message_ok record_message"
  by (simp add: pdu_message_ok_def pdu_fields_def CapsuleFromProto_def record_message_def new_capsule_pdu_def)

end
