(* ===== verification/Network.thy ===== *)
theory Network
  imports PduSample ProtoWire
begin

text \<open>
  What the capsule functions (\<open>util/proto_util.cc\<close>, \<open>shared/crypto.h\<close>) and the node of the capsule network
  (\<open>network/Old/cdb_network_client.cc\<close>) promise, and where they break: lists of records, sealing and
  opening, puts and gets over the network, late time stamps, and values that contain the delimiter.
\<close>

section \<open>Lists of records\<close>

text \<open>
  C32. A list of records whose fields contain no delimiter and do not end in its character survives
  serialization exactly when all its time stamps are \<open>int\<close>s: parsing gives the list back, or throws when one
  time stamp is too large for \<open>std::stoi\<close>, although time stamps are 64-bit numbers. Fields with a delimiter need
  not survive (\<open>value_injects_record\<close>).
\<close>

theorem payload_list_round_trip:
  assumes "split_ok L"
    and "\<forall>p \<in> set ps. field_ok (txn_msgType p) \<and> field_ok (key p) \<and> field_ok (val p)"
  shows "deserialize_payload_l L (serialize_payload_l ps) =
    (if \<forall>p \<in> set ps. int_range (sint (txn_timestamp p)) then Inr ps else Inl (Out_of_range ''stoi''))"
proof -
  have "\<forall>p \<in> set ps. payload_ok p" using assms(2) by (simp add: payload_ok_def)
  note d = deserialize_serialize [OF assms(1) this]
  show ?thesis
  proof (cases "find (\<lambda>p. \<not> int_range (sint (txn_timestamp p))) ps")
    case None
    then have "\<forall>p \<in> set ps. int_range (sint (txn_timestamp p))" by (simp add: find_None_iff)
    then show ?thesis using d None by simp
  next
    case (Some p)
    then have "p \<in> set ps" "\<not> int_range (sint (txn_timestamp p))"
      unfolding find_Some_iff by (auto intro: nth_mem)
    then show ?thesis using d Some by auto
  qed
qed

theorem payload_list_round_trip_witness:
  "deserialize_payload_l sample_lib (serialize_payload_l
     [\<lparr>key = ''k'', val = ''a@b@@c'', txn_timestamp = -3, txn_msgType = ''PUT''\<rparr>]) =
     Inr [\<lparr>key = ''k'', val = ''a@b@@c'', txn_timestamp = -3, txn_msgType = ''PUT''\<rparr>] \<and>
   deserialize_payload_l sample_lib (serialize_payload_l
     [\<lparr>key = ''k'', val = ''v'', txn_timestamp = 1700000000000, txn_msgType = ''PUT''\<rparr>]) =
     Inl (Out_of_range ''stoi'')"
proof -
  have s: "split_ok sample_lib" using sample_lib_ok by (simp add: lib_ok_def)
  show ?thesis
    using payload_list_round_trip [OF s, of "[\<lparr>key = ''k'', val = ''a@b@@c'', txn_timestamp = -3, txn_msgType = ''PUT''\<rparr>]"]
      payload_list_round_trip [OF s, of "[\<lparr>key = ''k'', val = ''v'', txn_timestamp = 1700000000000, txn_msgType = ''PUT''\<rparr>]"]
    by (simp add: field_ok_def delim_str_def int_range_def)
qed

text \<open>
  Every time stamp that \<open>get_current_time\<close> gives from the 26th of January 1970 on, until the clock of
  64 bits runs out, makes a list of records unreadable.
\<close>

theorem current_times_do_not_parse:
  assumes "split_ok L" "2147484 \<le> sec" "sec < 2 ^ 50" "0 \<le> usec" "usec < 1000000"
    and "field_ok y" "field_ok k" "field_ok v"
  shows "bindr (get_current_time sec usec) (\<lambda>t.
    deserialize_payload_l L (serialize_payload_l [KvToPayload k v t y])) = Inl (Out_of_range ''stoi'')"
proof -
  let ?t = "sec * 1000 + usec div 1000"
  have t: "2 ^ 31 \<le> ?t" "?t < 2 ^ 63" using assms(2-5) by simp_all
  then have "get_current_time sec usec = Inr (of_int ?t)" by (simp add: get_current_time_def Let_def)
  moreover have "sint (of_int ?t :: int64) = ?t"
    using t by (simp add: sint_sbintrunc' signed_take_bit_int_eq_self del: of_int_add of_int_mult)
  then have "\<not> int_range (sint (of_int ?t :: int64))" using t(1) by (simp add: int_range_def)
  then have "deserialize_payload_l L (serialize_payload_l [KvToPayload k v (of_int ?t) y]) =
      Inl (Out_of_range ''stoi'')"
    using deserialize_serialize [OF assms(1), of "[KvToPayload k v (of_int ?t) y]"] assms(6-8)
    by (simp add: KvToPayload_def payload_ok_def del: serialize_payload_l.simps of_int_add of_int_mult)
  ultimately show ?thesis by (simp only: bindr_simps)
qed

theorem current_times_do_not_parse_witness:
  "bindr (get_current_time 1700000000 5) (\<lambda>t.
    deserialize_payload_l sample_lib (serialize_payload_l [KvToPayload ''k'' ''v'' t ''PUT''])) =
      Inl (Out_of_range ''stoi'')"
proof -
  have s: "split_ok sample_lib" using sample_lib_ok by (simp add: lib_ok_def)
  show ?thesis
    by (rule current_times_do_not_parse [OF s]) (simp_all add: type_names_ok, simp_all add: field_ok_def delim_str_def)
qed

text \<open>
  The delimiter is not escaped: a value that contains five fields of text between delimiters is read back
  as two records, the second one made up by whoever chose the value.
\<close>

theorem value_injects_record:
  assumes "split_ok L" "field_ok y" "field_ok k" "field_ok v" "field_ok y2" "field_ok k2" "field_ok v2"
    and "int_range (sint t)" "int_range (sint t2)"
  shows "deserialize_payload_l L (serialize_payload_l
      [KvToPayload k (v @ ''@@@'' @ to_string (sint t2) @ ''@@@'' @ y2 @ ''@@@'' @ k2 @ ''@@@'' @ v2) t y]) =
    Inr [KvToPayload k v t y, KvToPayload k2 v2 t2 y2]"
proof -
  have "serialize_payload_l [KvToPayload k (v @ ''@@@'' @ to_string (sint t2) @ ''@@@'' @ y2 @ ''@@@'' @ k2 @ ''@@@'' @ v2) t y]
      = serialize_payload_l [KvToPayload k v t y, KvToPayload k2 v2 t2 y2]"
    by (simp add: serialize_payload_def KvToPayload_def delim_str_def)
  then show ?thesis
    using deserialize_serialize [OF assms(1), of "[KvToPayload k v t y, KvToPayload k2 v2 t2 y2]"] assms(2-9)
    by (simp add: KvToPayload_def payload_ok_def del: serialize_payload_l.simps)
qed

theorem value_injects_record_witness:
  "deserialize_payload_l sample_lib (serialize_payload_l
      [KvToPayload ''me'' ''1@@@9@@@PUT@@@you@@@0'' 8 ''PUT'']) =
    Inr [KvToPayload ''me'' ''1'' 8 ''PUT'', KvToPayload ''you'' ''0'' 9 ''PUT'']"
proof -
  have s: "split_ok sample_lib" using sample_lib_ok by (simp add: lib_ok_def)
  have "to_string (sint (9::int64)) = ''9''" by code_simp
  then show ?thesis
    using value_injects_record [OF s, of "''PUT''" "''me''" "''1''" "''PUT''" "''you''" "''0''" 8 9]
    by (simp add: field_ok_def delim_str_def int_range_def)
qed

section \<open>Capsules\<close>

text \<open>
  C24. A capsule that is filled with a non-empty list of records, encrypted, hashed, signed and turned into a
  message is taken by the node: it verifies, opens, and all its records are put in order. The condition is that
  no field of a record contains the delimiter or ends in its character, and that the time stamps are \<open>int\<close>s.
\<close>

theorem sealed_batch_is_put:
  assumes "lib_ok L" "pdu_message_ok M" "key_pair sk (verifying_key c)" "ps \<noteq> []"
    and "\<forall>p \<in> set ps. field_ok (txn_msgType p) \<and> field_ok (key p) \<and> field_ok (val p)"
    and "\<forall>p \<in> set ps. int_range (sint (txn_timestamp p))"
  shows "\<exists>dc0 dc1 dc2 dc3. PayloadListToCapsule new_capsule_pdu ps i = Inr dc0 \<and>
    encrypt_payload_l L True dc0 = (True, dc1) \<and> generate_hash L dc1 = (True, dc2) \<and>
    sign_dc L sk dc2 = Inr (True, dc3) \<and>
    (\<forall>m s. net_put L M S c (CapsuleToProto M dc3 m) s = put_all (db_put S) ps s)"
proof -
  obtain dc0 where dc0: "PayloadListToCapsule new_capsule_pdu ps i = Inr dc0" "payload_l dc0 = ps"
    using assms(4) by (simp add: PayloadListToCapsule_def)
  have "\<forall>p \<in> set ps. payload_ok p" using assms(5) by (simp add: payload_ok_def)
  moreover have "find (\<lambda>p. \<not> int_range (sint (txn_timestamp p))) ps = None"
    using assms(6) by (simp add: find_None_iff)
  ultimately have d: "deserialize_payload_l L (serialize_payload_l ps) = Inr ps"
    using deserialize_serialize assms(1) by (simp add: lib_ok_def)
  from sealed_opens [OF assms(1,3), of dc0] obtain e h sig where
    e: "encrypt_payload_l L True dc0 = (True, dc0\<lparr>payload_in_transit := e\<rparr>)"
    "generate_hash L (dc0\<lparr>payload_in_transit := e\<rparr>) = (True, dc0\<lparr>payload_in_transit := e, dc_hash := h\<rparr>)"
    "sign_dc L sk (dc0\<lparr>payload_in_transit := e, dc_hash := h\<rparr>) =
      Inr (True, dc0\<lparr>payload_in_transit := e, dc_hash := h, signature := sig\<rparr>)"
    "DecryptMessage L e = Some (serialize_payload_l (payload_l dc0))"
    "verify_dc L (verifying_key c) (dc0\<lparr>payload_in_transit := e, dc_hash := h, signature := sig\<rparr>)" by metis
  have v: "verify_dc L vk (x\<lparr>payload_l := qs\<rparr>) = verify_dc L vk x" for vk x qs
    by (simp add: verify_dc_def verify_hash_def verify_signature_def hashed_part_def split: option.split)
  have "net_put L M S c (CapsuleToProto M (dc0\<lparr>payload_in_transit := e, dc_hash := h, signature := sig\<rparr>) m) s =
      put_all (db_put S) ps s" for m s
    using e(4,5) d dc0(2) by (simp add: net_put_def Let_def from_to_proto [OF assms(2)] v decrypt_payload_l_def)
  with dc0(1) e(1-3) show ?thesis by blast
qed

theorem sealed_batch_is_put_witness:
  "\<exists>dc. \<forall>m s. net_put sample_lib record_message (capsule_ops wire_env) sample_client
      (CapsuleToProto record_message dc m) s =
    put_all (db_put (capsule_ops wire_env))
      [\<lparr>key = ''k'', val = ''v'', txn_timestamp = 1, txn_msgType = ''PUT''\<rparr>] s"
proof -
  have k: "key_pair sample_sign (verifying_key sample_client)"
    using sample_keys by (simp add: sample_client_def)
  have "field_ok ''k''" "field_ok ''v''" by (simp_all add: field_ok_def delim_str_def)
  then show ?thesis
    using sealed_batch_is_put [OF sample_lib_ok record_message_ok k, where S = "capsule_ops wire_env" and
        ps = "[\<lparr>key = ''k'', val = ''v'', txn_timestamp = 1, txn_msgType = ''PUT''\<rparr>]"]
    by (simp add: type_names_ok int_range_def) blast
qed

text \<open>
  C33. A capsule whose encrypted records were changed on the way does not verify when the digests differ:
  the node neither puts anything nor answers with anything but an empty message.
\<close>

theorem tampered_capsule_is_ignored:
  assumes "pdu_message_ok M" "hex_ok L" "verify_dc L (verifying_key c) dc"
    and "digest L (hashed_part (dc\<lparr>payload_in_transit := x\<rparr>)) \<noteq> digest L (hashed_part dc)"
  shows "net_put L M S c (CapsuleToProto M (dc\<lparr>payload_in_transit := x\<rparr>) m) s = Inr s \<and>
    net_handle L M S c u (CapsuleToProto M (dc\<lparr>payload_in_transit := x\<rparr>) m) s = Inr (empty_pdu M, s)"
proof -
  let ?dc = "dc\<lparr>payload_in_transit := x\<rparr>"
  obtain d where d: "digest L (hashed_part dc) = Some d" "dc_hash dc = BytesToHexString L d"
    using assms(3) by (auto simp: verify_dc_def verify_hash_def DoHash_def split: option.splits if_splits)
  have inj: "BytesToHexString L a = BytesToHexString L b \<longleftrightarrow> a = b" for a b
    using assms(2) unfolding hex_ok_def by metis
  have "\<not> verify_hash L (?dc\<lparr>payload_l := []\<rparr>)"
    using assms(4) d by (auto simp: verify_hash_def DoHash_def hashed_part_def inj split: option.splits)
  then show ?thesis
    by (simp add: net_put_def net_handle_def Let_def verify_dc_def from_to_proto [OF assms(1)] new_capsule_pdu_def)
qed

definition sample_dc :: capsule_pdu where
  "sample_dc = (let t = to_hex ''50abc'' in new_capsule_pdu\<lparr>payload_in_transit := ''abc'', sender := 5,
     dc_hash := t, signature := to_hex t\<rparr>)"

theorem tampered_capsule_is_ignored_witness:
  "verify_dc sample_lib sample_verify sample_dc \<and>
   net_handle sample_lib record_message (capsule_ops wire_env) sample_client 0
     (CapsuleToProto record_message (sample_dc\<lparr>payload_in_transit := ''xyz''\<rparr>) new_capsule_pdu)
     (spawnDB 1, initial_world) = Inr (new_capsule_pdu, (spawnDB 1, initial_world))"
proof -
  have v: "verify_dc sample_lib sample_verify sample_dc" by code_simp
  moreover have "hashed_part (sample_dc\<lparr>payload_in_transit := ''xyz''\<rparr>) \<noteq> hashed_part sample_dc" by code_simp
  moreover have "hex_ok sample_lib" using sample_lib_ok by (simp add: lib_ok_def)
  ultimately show ?thesis
    using tampered_capsule_is_ignored [OF record_message_ok, of sample_lib sample_client sample_dc "''xyz''"
        "capsule_ops wire_env" new_capsule_pdu "(spawnDB 1, initial_world)" 0]
    by (simp add: sample_client_def record_message_def sample_lib_def)
qed

text \<open>
  The hashed text does not separate the sender from the time stamp: a capsule of sender 1 with time stamp
  23 is just as valid as one of sender 12 with time stamp 3.
\<close>

theorem sender_and_time_run_together:
  "verify_dc L vk (dc\<lparr>sender := 1, timestamp := 23\<rparr>) = verify_dc L vk (dc\<lparr>sender := 12, timestamp := 3\<rparr>)"
proof -
  have "to_string 1 @ to_string (sint (23::int64)) = to_string 12 @ to_string (sint (3::int64))" by code_simp
  then have "hashed_part (dc\<lparr>sender := 1, timestamp := 23\<rparr>) = hashed_part (dc\<lparr>sender := 12, timestamp := 3\<rparr>)"
    unfolding hashed_part_def append_assoc [symmetric] by simp
  then show ?thesis by (simp add: verify_dc_def verify_hash_def verify_signature_def split: option.split)
qed

section \<open>Puts and gets over the network\<close>

lemma deserialize_one:
  assumes "lib_ok L" "field_ok y" "field_ok k" "field_ok v"
  shows "deserialize_payload_l L (serialize_payload_l [KvToPayload k v t y]) =
    (if int_range (sint t) then Inr [KvToPayload k v t y] else Inl (Out_of_range ''stoi''))"
  using deserialize_serialize [of L "[KvToPayload k v t y]"] assms
  by (simp add: lib_ok_def KvToPayload_def payload_ok_def del: serialize_payload_l.simps)

text \<open>The messages of the test client, as a node handles them.\<close>

lemma gen_payload_sent:
  assumes "lib_ok L" "pdu_message_ok M" "key_pair sk vk"
  obtains msg where "gen_payload L M sk addr now k v isPut = Inr msg"
proof -
  have "key_pair sk (verifying_key \<lparr>client_id = 0, signing_key = sk, verifying_key = vk\<rparr>)" using assms(3) by simp
  from gen_payload_handled [OF assms(1,2) this, of addr now k v isPut] show thesis by (metis that)
qed

lemma put_handled:
  assumes "lib_ok L" "pdu_message_ok M" "key_pair sk (verifying_key c)"
    and "db_good (capsule_ops E) (world_ok E) world_room (Suc n) s" "db_sorted (capsule_ops E) s"
    and "fresh (db_view (capsule_ops E) s) (KvToPayload k v now ''PUT'')"
    and "k \<noteq> ''''" "field_ok k" "field_ok v" "int_range (sint now)"
    and "gen_payload L M sk addr now k v True = Inr msg"
  obtains s' where "net_handle L M (capsule_ops E) c u msg s = Inr (empty_pdu M, s')"
    "db_good (capsule_ops E) (world_ok E) world_room n s'" "db_sorted (capsule_ops E) s'"
    "db_view (capsule_ops E) s' = (db_view (capsule_ops E) s)(k \<mapsto> KvToPayload k v now ''PUT'')"
proof -
  let ?S = "capsule_ops E" and ?p = "KvToPayload k v now ''PUT''"
  have p: "key ?p = k" "txn_msgType ?p = ''PUT''" by (simp_all add: KvToPayload_def)
  have "key ?p \<noteq> ''''" using assms(7) p(1) by simp
  from fdb.put_spec [OF assms(4) this] assms(5,6) obtain s' where
    s': "db_put ?S ?p s = Inr s'" "db_good ?S (world_ok E) world_room n s'" "db_sorted ?S s'"
      "db_view ?S s' = (db_view ?S s)(k \<mapsto> ?p)" unfolding p(1) by blast
  from gen_payload_handled [OF assms(1-3), where S = ?S, of addr now k v True] obtain m0 where
    m0: "gen_payload L M sk addr now k v True = Inr m0" "\<And>u s. net_handle L M ?S c u m0 s =
      bindr (deserialize_payload_l L (serialize_payload_l [?p])) (\<lambda>qs. handle_payloads L M ?S c u qs s)"
    unfolding if_True by metis
  have "m0 = msg" using m0(1) assms(11) by simp
  note m = m0(2) [unfolded this]
  have "net_handle L M ?S c u msg s = Inr (empty_pdu M, s')"
    using s'(1) p(2) deserialize_one [OF assms(1) type_names_ok(1) assms(8,9), of now] assms(10)
    by (simp add: m del: serialize_payload_l.simps)
  from that [OF this s'(2-4)] show thesis .
qed

lemma get_handled:
  assumes "lib_ok L" "pdu_message_ok M" "key_pair sk (verifying_key c)" "key_pair (signing_key c) vk"
    and "db_good (capsule_ops E) (world_ok E) world_room n s"
    and "db_view (capsule_ops E) s k = Some (KvToPayload k v t ''PUT'')"
    and "k \<noteq> ''''" "field_ok k" "field_ok v" "int_range (sint t)" "int_range (sint now)"
    and "gen_payload L M sk addr now k ''UNUSED_VAL'' False = Inr msg"
  obtains r where "net_handle L M (capsule_ops E) c u msg s = Inr (r, s)" "read_response L M r = Inr v"
    "get_payload_in_transit M r \<noteq> ''''"
proof -
  let ?S = "capsule_ops E" and ?p = "KvToPayload k v t ''PUT''"
  from gen_payload_handled [OF assms(1-3), where S = ?S, of addr now k "''UNUSED_VAL''" False] obtain m0 where
    m0: "gen_payload L M sk addr now k ''UNUSED_VAL'' False = Inr m0" "\<And>u s. net_handle L M ?S c u m0 s =
      bindr (deserialize_payload_l L (serialize_payload_l [KvToPayload k ''UNUSED_VAL'' now ''GET'']))
        (\<lambda>qs. handle_payloads L M ?S c u qs s)"
    unfolding if_False by metis
  have "m0 = msg" using m0(1) assms(12) by simp
  note m = m0(2) [unfolded this]
  have "db_get ?S k u s = Inr (?p, s)" using fdb.get_spec [OF assms(5,7), of u] assms(6) by simp
  from net_get_read [OF assms(1,2,4) this] obtain r where
    r: "net_get L M ?S c u k s = Inr (r, s)" "read_response L M r = Inr v" "get_payload_in_transit M r \<noteq> ''''"
    using deserialize_one [OF assms(1) type_names_ok(1) assms(8,9), of t] assms(10)
    by (auto simp: KvToPayload_def)
  have "net_handle L M ?S c u msg s = Inr (r, s)"
    using r(1) deserialize_one [OF assms(1) type_names_ok(2) assms(8) type_names_ok(3), of now] assms(11)
    by (simp add: m KvToPayload_def del: serialize_payload_l.simps)
  from that [OF this r(2,3)] show thesis .
qed

text \<open>
  C22. The message that a put of the test client sends is a put in the database of the node that handles it,
  when the time stamp is newer than that of the key; the message that a get sends is answered by the node with
  a capsule from which the client reads the value that was put. The keys and values are free of the delimiter
  and the times of the two requests are \<open>int\<close>s. The client's put has no other effect than to send the message,
  and its get returns the value when this answer is what its socket receives first.
\<close>

theorem network_put_then_get:
  assumes "lib_ok L" "pdu_message_ok M" "key_pair sk (verifying_key c)" "key_pair (signing_key c) vk"
    and "db_good (capsule_ops E) (world_ok E) world_room (Suc n) s" "db_sorted (capsule_ops E) s"
    and "fresh (db_view (capsule_ops E) s) (KvToPayload k v now ''PUT'')"
    and "k \<noteq> ''''" "field_ok k" "field_ok v" "int_range (sint now)" "int_range (sint now2)"
  shows "\<exists>put_msg get_msg answer s'.
    (\<forall>T net :: 'n. client_put L M T sk addr now k v net = Inr (mcast_send T put_msg net)) \<and>
    net_handle L M (capsule_ops E) c u put_msg s = Inr (empty_pdu M, s') \<and>
    db_good (capsule_ops E) (world_ok E) world_room n s' \<and>
    db_view (capsule_ops E) s' = (db_view (capsule_ops E) s)(k \<mapsto> KvToPayload k v now ''PUT'') \<and>
    net_handle L M (capsule_ops E) c u get_msg s' = Inr (answer, s') \<and>
    (\<forall>T net net' :: 'n. recv_poll T (mcast_send T get_msg net) = (Some answer, net') \<longrightarrow>
       client_get L M T sk addr now2 k net = Some (Inr (v, net')))"
proof -
  let ?S = "capsule_ops E"
  obtain m1 where m1: "gen_payload L M sk addr now k v True = Inr m1" by (rule gen_payload_sent [OF assms(1-3)])
  obtain m2 where m2: "gen_payload L M sk addr now2 k ''UNUSED_VAL'' False = Inr m2"
    by (rule gen_payload_sent [OF assms(1-3)])
  from put_handled [OF assms(1-3,5-11) m1] obtain s' where
    s': "net_handle L M ?S c u m1 s = Inr (empty_pdu M, s')" "db_good ?S (world_ok E) world_room n s'"
      "db_view ?S s' = (db_view ?S s)(k \<mapsto> KvToPayload k v now ''PUT'')" by metis
  have "db_view ?S s' k = Some (KvToPayload k v now ''PUT'')" by (simp add: s'(3))
  from get_handled [OF assms(1-4) s'(2) this assms(8-12) m2] obtain r where
    r: "net_handle L M ?S c u m2 s' = Inr (r, s')" "read_response L M r = Inr v" by metis
  have "client_get L M T sk addr now2 k net = Some (Inr (v, net'))"
    if "recv_poll T (mcast_send T m2 net) = (Some r, net')" for T :: "('a, 'n) transport" and net net'
    using wait_response_poll(1) [OF that, of L M] by (simp add: client_get_def m2 r(2))
  moreover have "client_put L M T sk addr now k v net = Inr (mcast_send T m1 net)" for T and net :: 'n
    by (simp add: client_put_def m1)
  ultimately show ?thesis using s' r(1) by blast
qed

theorem network_put_then_get_witness:
  "\<exists>msg answer s'. net_handle sample_lib record_message (capsule_ops wire_env) sample_client 0 msg
      (spawnDB 1, initial_world) = Inr (new_capsule_pdu, s') \<and>
    db_view (capsule_ops wire_env) s' = [''k'' \<mapsto> KvToPayload ''k'' ''v'' 7 ''PUT''] \<and>
    client_get sample_lib record_message \<lparr>mcast_send = (\<lambda>m n. n), recv_poll = (\<lambda>n. (Some answer, n)),
      net_sleep = (\<lambda>t n. n)\<rparr> sample_sign ''tcp:'' 8 ''k'' () = Some (Inr (''v'', ()))"
proof -
  have k: "key_pair sample_sign (verifying_key sample_client)" "key_pair (signing_key sample_client) sample_verify"
    using sample_keys by (simp_all add: sample_client_def)
  have g: "db_good (capsule_ops wire_env) (world_ok wire_env) world_room (Suc 0) (new_db 1)"
    by (rule new_db_good [OF wire_env_ok]) (simp_all add: max_flushes_def)
  have f: "fresh (db_view (capsule_ops wire_env) (new_db 1)) (KvToPayload ''k'' ''v'' 7 ''PUT'')"
    by (simp add: new_db_empty fresh_def)
  have e: "empty_pdu record_message = new_capsule_pdu" by (simp add: record_message_def)
  have o: "''k'' \<noteq> ''''" "field_ok ''k''" "field_ok ''v''" "int_range (sint (7::int64))" "int_range (sint (8::int64))"
    by (simp_all add: field_ok_def delim_str_def int_range_def)
  from network_put_then_get [where ?'n = unit, OF sample_lib_ok record_message_ok k g new_db_empty(3) f o, of "''tcp:''" 0]
  obtain put_msg get_msg answer s' where
    "net_handle sample_lib record_message (capsule_ops wire_env) sample_client 0 put_msg (new_db 1) =
        Inr (empty_pdu record_message, s')"
    "db_view (capsule_ops wire_env) s' = (db_view (capsule_ops wire_env) (new_db 1))(''k'' \<mapsto> KvToPayload ''k'' ''v'' 7 ''PUT'')"
    "\<forall>T net net' :: unit. recv_poll T (mcast_send T get_msg net) = (Some answer, net') \<longrightarrow>
       client_get sample_lib record_message T sample_sign ''tcp:'' 8 ''k'' net = Some (Inr (''v'', net'))"
    by metis
  then show ?thesis
    by (intro exI [of _ put_msg] exI [of _ answer] exI [of _ s']) (simp add: e new_db_empty)
qed

text \<open>
  C38. From the 19th of January 2038 on, when the clock in seconds leaves the range of \<open>int\<close>, every message that
  the test client sends, for a put or a get, makes the node that handles it throw \<open>out_of_range\<close>, which nothing
  catches.
\<close>

theorem late_requests_stop_node:
  assumes "lib_ok L" "pdu_message_ok M" "key_pair sk (verifying_key c)" "2 ^ 31 \<le> sint now"
    and "field_ok k" "field_ok v"
  shows "\<exists>put_msg get_msg. gen_payload L M sk addr now k v True = Inr put_msg \<and>
    gen_payload L M sk addr now k ''UNUSED_VAL'' False = Inr get_msg \<and>
    (\<forall>s. net_handle L M S c u put_msg s = Inl (Out_of_range ''stoi'') \<and>
       net_handle L M S c u get_msg s = Inl (Out_of_range ''stoi''))"
proof -
  have r: "\<not> int_range (sint now)" using assms(4) by (simp add: int_range_def)
  from gen_payload_handled [OF assms(1-3), where S = S, of addr now k v True] obtain m1 where
    m1: "gen_payload L M sk addr now k v True = Inr m1" "\<And>u s. net_handle L M S c u m1 s =
      bindr (deserialize_payload_l L (serialize_payload_l [KvToPayload k v now ''PUT'']))
        (\<lambda>qs. handle_payloads L M S c u qs s)"
    unfolding if_True by metis
  from gen_payload_handled [OF assms(1-3), where S = S, of addr now k "''UNUSED_VAL''" False] obtain m2 where
    m2: "gen_payload L M sk addr now k ''UNUSED_VAL'' False = Inr m2" "\<And>u s. net_handle L M S c u m2 s =
      bindr (deserialize_payload_l L (serialize_payload_l [KvToPayload k ''UNUSED_VAL'' now ''GET'']))
        (\<lambda>qs. handle_payloads L M S c u qs s)"
    unfolding if_False by metis
  show ?thesis
    using deserialize_one [OF assms(1) type_names_ok(1) assms(5,6), of now]
      deserialize_one [OF assms(1) type_names_ok(2) assms(5) type_names_ok(3), of now] r
    by (intro exI [of _ m1] exI [of _ m2]) (simp add: m1 m2 del: serialize_payload_l.simps)
qed

theorem late_requests_stop_node_witness:
  "\<exists>msg. gen_payload sample_lib record_message sample_sign ''tcp:'' 2147483648 ''k'' ''v'' True = Inr msg \<and>
    net_handle sample_lib record_message (capsule_ops wire_env) sample_client 0 msg (spawnDB 1, initial_world) =
      Inl (Out_of_range ''stoi'')"
proof -
  have k: "key_pair sample_sign (verifying_key sample_client)"
    using sample_keys by (simp add: sample_client_def)
  have "field_ok ''k''" "field_ok ''v''" by (simp_all add: field_ok_def delim_str_def)
  with late_requests_stop_node [OF sample_lib_ok record_message_ok k, of 2147483648 "''k''" "''v''" "''tcp:''" "capsule_ops wire_env" 0]
  show ?thesis by auto
qed

end
