(* ===== verification/TestClient.thy ===== *)
theory TestClient
  imports Network
begin

text \<open>
  The test program of the network, \<open>test_files/Old/cdb_test.cc\<close> with the constructor of its client from
  \<open>cdb_test.hh\<close>: the setting up of the keys and the endless loop, of which \<open>n\<close> rounds are run for any \<open>n\<close>.
  The sockets are the transport of theory NetClient; what comes back on them depends on the workers, of which
  the last sections make the assumptions \<open>in_order\<close>.
\<close>

section \<open>Keys and client\<close>








section \<open>The program\<close>

text \<open>
  Going on with the result of a call that may throw, or may wait for ever, which is \<open>None\<close>.
\<close>

definition bind_wait :: "'a res option \<Rightarrow> ('a \<Rightarrow> 'b res option) \<Rightarrow> 'b res option" where
  "bind_wait x f = (case x of None \<Rightarrow> None | Some (Inl e) \<Rightarrow> Some (Inl e) | Some (Inr a) \<Rightarrow> f a)"

lemma bind_wait_simps [simp]:
  "bind_wait None f = None" "bind_wait (Some (Inl e)) f = Some (Inl e)" "bind_wait (Some (Inr a)) f = f a"
  by (simp_all add: bind_wait_def)




section \<open>A network of workers\<close>






section \<open>Workers with the same records\<close>







section \<open>What it prints\<close>




text \<open>The replies to \<open>r\<close> rounds of requests to \<open>w\<close> workers.\<close>

definition replies_to :: "nat \<Rightarrow> nat \<Rightarrow> string list" where
  "replies_to w r = concat (replicate r (replicate w ''SECOND_VAL'' @ replicate w ''FIRST_VAL''))"

lemma replies_to_simps [simp]:
  "replies_to w 0 = []"
  "replies_to w (Suc r) = replicate w ''SECOND_VAL'' @ replicate w ''FIRST_VAL'' @ replies_to w r"
  by (simp_all add: replies_to_def)








end
