(* ===== verification/TestPrograms.thy ===== *)
theory TestPrograms
  imports Server Pdu LevelFill
begin

text \<open>
  The test programs of \<open>src/src/test_files\<close>: \<open>test_core.cc\<close> on the engine, \<open>test_network.cc\<close> as a client of
  the server, \<open>test_enclave_interface.cc\<close> and \<open>test_enclave_basic.cc\<close> on the enclave, and two small ones. What they print is
  their result; \<open>now\<close> is the system clock. They are shown to print what their authors look for.
\<close>

section \<open>\<open>test_core.cc\<close>\<close>

definition map_insert :: "string \<Rightarrow> 'a \<Rightarrow> 'a omap \<Rightarrow> 'a omap" where
  "map_insert k x m = (case map_find k m of None \<Rightarrow> map_assign k x m | Some _ \<Rightarrow> m)"

definition core_payload :: "(nat \<Rightarrow> int64) \<Rightarrow> nat \<Rightarrow> kvs_payload" where
  "core_payload now i = (kvs_payload_default 0)\<lparr>key := to_string (int i), val := to_string (int i),
     txn_timestamp := now i\<rparr>"

text \<open>The loop of puts with the map of the expected values, and the loop of gets over that map.\<close>

fun core_puts :: "'w store_ops \<Rightarrow> (nat \<Rightarrow> int64) \<Rightarrow> nat list \<Rightarrow> string omap \<Rightarrow> 'w db_state \<Rightarrow>
    (string omap \<times> 'w db_state) res" where
  "core_puts S now [] test_map s = Inr (test_map, s)"
| "core_puts S now (i # is) test_map s =
     bindr (db_put S (core_payload now i) s)
       (core_puts S now is (map_insert (to_string (int i)) (to_string (int i)) test_map))"

fun core_verify :: "'w store_ops \<Rightarrow> int64 \<Rightarrow> string omap \<Rightarrow> nat \<Rightarrow> string list \<Rightarrow> 'w db_state \<Rightarrow>
    (nat \<times> string list \<times> 'w db_state) res" where
  "core_verify S u [] num_found failed_keys s = Inr (num_found, failed_keys, s)"
| "core_verify S u ((k, v) # m) num_found failed_keys s =
     bindr (db_get S k u s) (\<lambda>(payload, s').
     core_verify S u m (if val payload = v then num_found + 1 else num_found)
       (if val payload = '''' then failed_keys @ [k] else failed_keys) s')"

text \<open>The statistics that it prints of each level; the first and the last header of an empty vector are undefined.\<close>

record level_stat =
  stat_level :: int
  stat_first_key :: string
  stat_last_key :: string
  stat_max_size :: int
  stat_num_blocks :: int
  stat_length :: nat

definition level_stats :: "Level \<Rightarrow> level_stat res" where
  "level_stats L =
     (if recordHashes L = [] then Inl (Undefined_behaviour ''recordHashes index'')
      else Inr \<lparr>stat_level = index L, stat_first_key = minKey (recordHashes L ! 0),
        stat_last_key = maxKey (recordHashes L ! (length (recordHashes L) - 1)), stat_max_size = maxSize L,
        stat_num_blocks = numBlocks L, stat_length = length (recordHashes L)\<rparr>)"

fun core_stats :: "Level list \<Rightarrow> level_stat list res" where
  "core_stats [] = Inr []"
| "core_stats (L # Ls) = bindr (level_stats L) (\<lambda>st. bindr (core_stats Ls) (\<lambda>sts. Inr (st # sts)))"

text \<open>
  \<open>main\<close>: the statistics of the levels, the number of keys found, the keys not found, whose number is
  \<open>test_count\<close>, and the size of the map.
\<close>

definition test_core :: "'w store_ops \<Rightarrow> (nat \<Rightarrow> int64) \<Rightarrow> int64 \<Rightarrow> 'w \<Rightarrow>
    (level_stat list \<times> nat \<times> string list \<times> nat) res" where
  "test_core S now u w =
     bindr (core_puts S now [1..<2000] [] (spawnDB 50, w)) (\<lambda>(test_map, s).
     bindr (core_verify S u test_map 0 [] s) (\<lambda>(num_found, failed_keys, s').
     bindr (core_stats (levels (db_index (fst s')))) (\<lambda>stats.
     Inr (stats, num_found, failed_keys, length test_map))))"

lemma to_string_nat: "to_string (int n) = show_nat n"
  by (simp add: to_string_def)

lemma show_nat_inj: "show_nat m = show_nat n \<longleftrightarrow> m = n"
  using read_show_nat by metis

lemma core_puts_split:
  "core_puts S now is m s = bindr (put_all (db_put S) (map (core_payload now) is) s)
    (\<lambda>s'. Inr (foldl (\<lambda>m i. map_insert (to_string (int i)) (to_string (int i)) m) m is, s'))"
proof (induction "is" arbitrary: m s)
  case (Cons i "is")
  then show ?case by (cases "db_put S (core_payload now i) s") simp_all
qed simp

lemma core_map:
  assumes "map_ok m" "\<forall>(k, v) \<in> set m. k = v" "distinct is" "fst ` set m \<inter> show_nat ` set is = {}"
  shows "let m' = foldl (\<lambda>m i. map_insert (to_string (int i)) (to_string (int i)) m) m is in
    (\<forall>(k, v) \<in> set m'. k = v) \<and> fst ` set m' = fst ` set m \<union> show_nat ` set is \<and>
    length m' = length m + length is"
  using assms
proof (induction "is" arbitrary: m)
  case (Cons i "is")
  let ?k = "show_nat i" let ?m = "map_assign ?k ?k m"
  have none: "map_find ?k m = None" using Cons.prems(4) by (auto simp: map_find_None_iff)
  have ins: "map_insert (to_string (int i)) (to_string (int i)) m = ?m"
    by (simp add: map_insert_def to_string_nat none)
  have ok: "map_ok ?m" using Cons.prems(1) by (rule map_ok_assign)
  have "map_find k m = Some v \<Longrightarrow> k = v" for k v
    using Cons.prems(2) by (auto simp flip: map_find_items [OF Cons.prems(1)])
  then have "\<forall>(k, v) \<in> set ?m. k = v"
    using ok by (auto simp: map_find_items map_find_assign [OF Cons.prems(1)] split: if_splits)
  moreover have "fst ` set ?m \<inter> show_nat ` set is = {}"
    using Cons.prems(3,4) by (auto simp: map_assign_keys show_nat_inj)
  ultimately show ?case
    using Cons.IH [OF ok] Cons.prems(3) om.length_items_assign [OF Cons.prems(1), of ?k ?k] none
    by (simp add: ins map_assign_keys Let_def)
qed (simp add: Let_def)

lemma core_verify_all:
  assumes "\<forall>(k, v) \<in> set m. v \<noteq> '''' \<and> (\<exists>q. db_get S k u s = Inr (q, s) \<and> val q = v)"
  shows "core_verify S u m n fk s = Inr (n + length m, fk, s)"
  using assms by (induction m arbitrary: n fk) (auto simp: bindr_def)

lemma core_stats_filled:
  "\<forall>L \<in> set Ls. recordHashes L \<noteq> [] \<Longrightarrow>
    \<exists>stats. core_stats Ls = Inr stats \<and> list_all2 (\<lambda>st L. level_stats L = Inr st) stats Ls"
proof (induction Ls)
  case (Cons L Ls)
  moreover have "\<exists>st. level_stats L = Inr st" using Cons.prems by (simp add: level_stats_def)
  ultimately show ?case by (auto simp: list_all2_Cons2)
qed simp

lemma level_stats_fields:
  "level_stats L = Inr st \<Longrightarrow> stat_level st = index L \<and> stat_max_size st = maxSize L \<and>
    stat_num_blocks st = numBlocks L \<and> stat_length st = length (recordHashes L) \<and> recordHashes L \<noteq> []"
  by (auto simp: level_stats_def split: if_splits)

text \<open>After an even number of flushes level 0 is empty, and the statistics read the first of no headers.\<close>

lemma core_stats_empty:
  "recordHashes L = [] \<Longrightarrow> core_stats (L # Ls) = Inl (Undefined_behaviour ''recordHashes index'')"
  by (simp add: level_stats_def)

lemma stats_after_compaction:
  assumes "compact S ix w = Inr (ix', w')" "ix' \<noteq> ix" "index_ok S w ix" "filled 1 ix"
  shows "core_stats (levels ix') = Inl (Undefined_behaviour ''recordHashes index'')"
proof -
  have "recordHashes (levels ix' ! 0) = []" "levels ix' \<noteq> []"
    using compact_filled [OF assms(1) index_ok_numbered [OF assms(3)] assms(4)] assms(2) by auto
  then obtain L Ls where "levels ix' = L # Ls" "recordHashes L = []" by (cases "levels ix'") auto
  then show ?thesis using core_stats_empty by metis
qed

section \<open>\<open>test_network.cc\<close>\<close>

text \<open>What it sends, and what it prints when the reply has come.\<close>

definition test_network_messages :: "codec \<Rightarrow> int64 \<Rightarrow> string list" where
  "test_network_messages C now =
     (let test_payload = (kvs_payload_default 0)\<lparr>key := ''Test key'', val := ''Test value'', txn_timestamp := now\<rparr>;
          user_input = DBRequest_empty\<lparr>f_payload := Some \<lparr>f_key = Some (key test_payload),
            f_value = Some (val test_payload), f_txn_timestamp = Some (txn_timestamp test_payload),
            f_txn_msgtype = Some ''PUT''\<rparr>\<rparr>;
          get_request = DBRequest_empty\<lparr>f_requestedkey := Some ''Test key''\<rparr>
      in [get_field '''' (serialize_request C user_input), get_field '''' (serialize_request C get_request)])"

definition test_network_output :: "codec \<Rightarrow> string \<Rightarrow> string res" where
  "test_network_output C incoming_message =
     (case parse_request C incoming_message of
        None \<Rightarrow> Inl (Logic_error ''Request deserialization failure.'')
      | Some output_data \<Rightarrow> Inr (val (msg_to_kvs (get_field Kvs_payload_empty (f_payload output_data)))))"

section \<open>\<open>test_enclave_interface.cc\<close> and \<open>test_enclave_basic.cc\<close>\<close>

definition test_enclave_interface :: "'w db_state asylo \<Rightarrow> 'w store_ops \<Rightarrow> string \<Rightarrow> int64 \<Rightarrow> int64 \<Rightarrow> 'w \<Rightarrow>
    string res" where
  "test_enclave_interface A S enclave_path now u w =
     (if enclave_path = '''' then Inl (Fatal ''Empty --enclave_path flag.'')
      else bindr (CapsuleDB_Driver_new A 50) (\<lambda>db.
           bindr (driver_put A S ((kvs_payload_default 0)\<lparr>key := ''Test key'', val := ''Test value'',
             txn_timestamp := now\<rparr>) (db, w)) (\<lambda>s.
           bindr (driver_get A S ''Test key'' u s) (\<lambda>(retrieved_payload, s').
           bindr (driver_finalize A) (\<lambda>_. Inr (val retrieved_payload))))))"

definition SetEnclaveUserMessage :: "DBRequest \<Rightarrow> bool \<Rightarrow> int64 \<Rightarrow> DBRequest" where
  "SetEnclaveUserMessage user_input get now =
     (let r = user_input\<lparr>f_requestingEnclaveID := Some 25\<rparr> in
      if get then r\<lparr>f_requestedkey := Some ''TestKey''\<rparr>
      else r\<lparr>f_payload := Some \<lparr>f_key = Some ''TestKey'', f_value = Some ''TestVal'',
             f_txn_timestamp = Some now, f_txn_msgtype = Some ''PUT''\<rparr>\<rparr>)"

text \<open>The second request is made from the first one, so it carries its payload too.\<close>

definition test_enclave_basic :: "'w db_state asylo \<Rightarrow> 'w store_ops \<Rightarrow> string \<Rightarrow> int64 \<Rightarrow> int64 \<Rightarrow> 'w \<Rightarrow>
    string res" where
  "test_enclave_basic A S enclave_path now u w =
     (if enclave_path = '''' then Inl (Fatal ''Empty --enclave_path flag.'')
      else bindr (CapsuleDB_Driver_new A 50) (\<lambda>db.
           let put_input = SetEnclaveUserMessage DBRequest_empty False now;
               get_input = SetEnclaveUserMessage put_input True now in
           bindr (EnterAndRun A S 0 \<lparr>request_input = Some put_input\<rparr> (db, w)) (\<lambda>(_, s).
           bindr (EnterAndRun A S u \<lparr>request_input = Some get_input\<rparr> s) (\<lambda>(output, s').
           bindr (driver_finalize A) (\<lambda>_.
           Inr (get_field '''' (f_value (get_field Kvs_payload_empty (f_payload
             (get_field DBRequest_empty (request_output output)))))))))))"

section \<open>\<open>testFileStream.cc\<close> and \<open>Old/helloworld.cc\<close>\<close>

text \<open>
  \<open>testFileStream.cc\<close> prints the first word of a file, \<open>Old/helloworld.cc\<close> a greeting; \<open>contents\<close> is the text
  of the file, if it can be opened. The results are what is printed and the exit code.
\<close>

definition first_word :: "string \<Rightarrow> string" where
  "first_word s = takeWhile (\<lambda>c. \<not> is_space c) (dropWhile is_space s)"

definition testFileStream :: "string option \<Rightarrow> string \<times> int" where
  "testFileStream contents = (case contents of None \<Rightarrow> ('''', 0) | Some s \<Rightarrow> (first_word s, 0))"

definition helloworld :: "string \<times> int" where
  "helloworld = (''this is helloworld'', 1)"

section \<open>The tests pass\<close>

text \<open>A database that holds for every key of the map a record with this value.\<close>

lemma core_values:
  assumes "db_good (capsule_ops E) (world_ok E) world_room 0 s" "fst ` set m \<subseteq> dom (db_view (capsule_ops E) s)"
    and "\<forall>q \<in> db_held (capsule_ops E) s. val q = key q" "\<forall>(k, v) \<in> set m. k = v" "[] \<notin> fst ` set m"
  shows "\<forall>(k, v) \<in> set m. v \<noteq> [] \<and> (\<exists>q. db_get (capsule_ops E) k u s = Inr (q, s) \<and> val q = v)"
proof clarify
  fix k v assume kv: "(k, v) \<in> set m"
  then have k: "k \<in> fst ` set m" "v = k" using assms(4) by force+
  then obtain q where q: "db_view (capsule_ops E) s k = Some q" using assms(2) by blast
  then have "val q = k" using fdb.view_held [OF assms(1) q] assms(3) by metis
  moreover have "v \<noteq> []" using k assms(5) by metis
  ultimately show "v \<noteq> [] \<and> (\<exists>q. db_get (capsule_ops E) k u s = Inr (q, s) \<and> val q = v)"
    using k(2) db_get_ok [OF assms(1), of k u] q by simp
qed

text \<open>The levels after 1999 puts of different keys with a table of 50: 39 flushes, 49 records in the table.\<close>

lemma test_core_levels:
  assumes E: "env_ok E" and s: "put_all (db_put (capsule_ops E)) ps (new_db 50) = Inr s"
    and ps: "distinct (map key ps)" "\<forall>p \<in> set ps. key p \<noteq> ''''" "length ps = 1999"
  obtains stats where "core_stats (levels (db_index (fst s))) = Inr stats" "1 < length stats"
    "stat_length (stats ! 0) = 1"
    "\<forall>i < length stats. stat_level (stats ! i) = int i \<and> stat_max_size (stats ! i) = 100 * 10 ^ i \<and>
      0 < stat_length (stats ! i) \<and> stat_num_blocks (stats ! i) = int (stat_length (stats ! i))"
proof -
  let ?S = "capsule_ops E" and ?Ls = "levels (db_index (fst s))"
  have "length ps + 0 \<le> max_flushes * unat (50::size_t)" by (simp add: ps(3) max_flushes_def)
  from new_db_good [OF E _ _ this] have good: "db_good ?S (world_ok E) world_room (length ps + 0) (new_db 50)" by simp
  have new: "filled 1 (db_index (fst (new_db 50)))" "blocks0 (db_index (fst (new_db 50))) = 0 mod 2"
    "capacity (new_db 50) = 50" "in_table (new_db 50) = 0"
    by (simp_all add: spawnDB_def CapsuleIndex_new_def Level_new_def Memtable_new_def filled_def)
  obtain F where F: "1999 = 50 * F + in_table s" "0 < in_table s" "capacity s = 50" "filled 1 (db_index (fst s))"
    "blocks0 (db_index (fst s)) = F mod 2" "1 < F \<longrightarrow> 1 < depth s" "db_good ?S (world_ok E) world_room 0 s"
    using put_all_new_keys [OF s good ps(1,2) _ new(1,2)] ps(3) new(3,4)
    by (auto simp: new_db_empty)
  have ok: "db_ok ?S (world_ok E) (snd s) (fst s)" using F(7) by (simp add: db_good_def)
  then have "in_table s \<le> 50" using F(3) by (simp add: db_ok_def memtable_ok_def)
  then have "F = 39" using F(1,2) by linarith
  have ix: "index_ok ?S (snd s) (db_index (fst s))" and bs: "unat (blocksize (db_index (fst s))) = 50"
    using ok F(3) by (simp_all add: db_ok_def)
  have lev: "level_ok ?S (snd s) 50 i (?Ls ! i)" if "i < length ?Ls" for i
    using ix that by (simp add: index_ok_def levels_ok_def bs)
  have nonempty: "recordHashes (?Ls ! i) \<noteq> []" if "i < length ?Ls" for i
    using F(4,5) that \<open>F = 39\<close> by (cases i) (auto simp: filled_def)
  then have "\<forall>L \<in> set ?Ls. recordHashes L \<noteq> []" by (auto simp: in_set_conv_nth)
  from core_stats_filled [OF this] obtain stats where
    st: "core_stats ?Ls = Inr stats" "list_all2 (\<lambda>st L. level_stats L = Inr st) stats ?Ls" by blast
  have len: "length stats = length ?Ls" using st(2) by (rule list_all2_lengthD)
  have row: "level_stats (?Ls ! i) = Inr (stats ! i)" if "i < length ?Ls" for i
    using list_all2_nthD2 [OF st(2) that] .
  have "1 < length ?Ls" using F(6) \<open>F = 39\<close> by simp
  moreover have "0 < length ?Ls" using ix by (simp add: index_ok_def)
  moreover have "stat_level (stats ! i) = int i \<and> stat_max_size (stats ! i) = 100 * 10 ^ i \<and>
      0 < stat_length (stats ! i) \<and> stat_num_blocks (stats ! i) = int (stat_length (stats ! i)) \<and>
      stat_length (stats ! i) = length (recordHashes (?Ls ! i))" if "i < length ?Ls" for i
    using level_stats_fields [OF row [OF that]] lev [OF that] by (auto simp: level_ok_def bounds_ok_def)
  ultimately show thesis by (intro that [OF st(1)]) (use len F(5) nonempty \<open>F = 39\<close> in \<open>simp_all\<close>)
qed

text \<open>
  C27. The test of the engine finds all its 1999 keys and reports none as missing, whatever the clock says at
  each put. It prints the statistics of at least two levels: level 0 has one block, and the row of level \<open>i\<close>
  has its number, its size \<open>100 \<cdot> 10\<^sup>i\<close> and a number of blocks, not zero, that agrees with its vector.
\<close>

theorem test_core_finds_all:
  assumes "env_ok E"
  shows "\<exists>stats. test_core (capsule_ops E) now u initial_world = Inr (stats, 1999, [], 1999) \<and>
    1 < length stats \<and> stat_length (stats ! 0) = 1 \<and>
    (\<forall>i < length stats. stat_level (stats ! i) = int i \<and> stat_max_size (stats ! i) = 100 * 10 ^ i \<and>
       0 < stat_length (stats ! i) \<and> stat_num_blocks (stats ! i) = int (stat_length (stats ! i)))"
proof -
  let ?S = "capsule_ops E" let ?is = "[1..<2000]" let ?ps = "map (core_payload now) ?is"
  have pk: "key (core_payload now i) = show_nat i" "val (core_payload now i) = show_nat i" for i
    by (simp_all add: core_payload_def to_string_nat)
  have keys: "map key ?ps = map show_nat ?is" unfolding list.map_comp comp_def pk ..
  have ne: "\<forall>p \<in> set ?ps. key p \<noteq> ''''" by (auto simp: pk simp del: upt_rec_numeral)
  moreover have few: "length ?ps \<le> max_flushes * unat (50::size_t)" by (simp add: max_flushes_def del: upt_rec_numeral)
  moreover have sz: "1 \<le> unat (50::size_t)" "unat (50::size_t) \<le> 10737" by simp_all
  ultimately obtain s where
    s: "put_all (db_put ?S) ?ps (new_db 50) = Inr s" "db_good ?S (world_ok E) world_room 0 s"
      "dom (db_view ?S s) = key ` set ?ps" "db_held ?S s \<subseteq> set ?ps"
    using new_db_puts [OF assms] by metis
  let ?m = "foldl (\<lambda>m i. map_insert (to_string (int i)) (to_string (int i)) m) [] ?is"
  have m: "\<forall>(k, v) \<in> set ?m. k = v" "fst ` set ?m = show_nat ` set ?is" "length ?m = 1999"
    using core_map [of "[]" ?is] by (simp_all add: Let_def del: upt_rec_numeral)
  have "key ` set ?ps = fst ` set ?m" unfolding m(2) set_map image_image pk ..
  then have dom: "fst ` set ?m \<subseteq> dom (db_view ?S s)" unfolding s(3) by simp
  have held: "\<forall>q \<in> db_held ?S s. val q = key q" using s(4) pk by auto
  have "[] \<notin> fst ` set ?m" unfolding m(2) by (auto dest: sym)
  note core_values [OF s(2) dom held m(1) this, of u]
  note ver = core_verify_all [OF this, of 0 "[]"]
  have "distinct (map key ?ps)" unfolding keys by (simp add: distinct_map inj_on_def show_nat_inj del: upt_rec_numeral)
  from test_core_levels [OF assms s(1) this ne _] obtain stats where
    st: "core_stats (levels (db_index (fst s))) = Inr stats" "1 < length stats" "stat_length (stats ! 0) = 1"
      "\<forall>i < length stats. stat_level (stats ! i) = int i \<and> stat_max_size (stats ! i) = 100 * 10 ^ i \<and>
        0 < stat_length (stats ! i) \<and> stat_num_blocks (stats ! i) = int (stat_length (stats ! i))"
    by (auto simp del: upt_rec_numeral)
  have "test_core ?S now u initial_world = Inr (stats, 1999, [], 1999)"
    using s(1) m(3) ver st(1) by (simp add: test_core_def core_puts_split del: upt_rec_numeral)
  then show ?thesis using st(2-4) by blast
qed

theorem test_core_finds_all_witness:
  "\<exists>stats. test_core (capsule_ops wire_env) (\<lambda>i. 1700000000) 0 initial_world = Inr (stats, 1999, [], 1999) \<and>
    stat_length (stats ! 0) = 1"
  using test_core_finds_all [OF wire_env_ok, of "\<lambda>i. 1700000000" 0] by blast

text \<open>
  The test of the network prints the value it has sent: the server takes its put, answers its get with
  one reply, and the reply reads as that value.
\<close>

theorem test_network_prints_value:
  assumes "codec_ok C" "env_ok E"
  shows "\<exists>r s'. server_main C (capsule_ops E) u (test_network_messages C now) initial_world = Inr ([r], s') \<and>
    test_network_output C r = Inr ''Test value''"
proof -
  let ?p = "\<lparr>key = ''Test key'', val = ''Test value'', txn_timestamp = now, txn_msgType = ''PUT''\<rparr>"
  let ?os = "[PutOp ?p, GetOp ''Test key'']"
  have msgs: "test_network_messages C now = map (op_message C) ?os"
  proof -
    have c: "serialize_request C r = Some (the (serialize_request C r))" for r
      using assms(1) unfolding codec_ok_def by (metis option.sel)
    have "get_field '''' (serialize_request C r) = the (serialize_request C r)" for r
      by (subst c) (simp only: get_field_Some)
    then show ?thesis
      by (simp add: test_network_messages_def Let_def put_message_def get_message_def kvs_to_msg_def
          kvs_payload_default_def)
  qed
  have good: "db_good (capsule_ops E) (world_ok E) world_room (length (op_puts ?os)) (new_db 50)"
    using new_db_good [OF assms(2), of 50 "length (op_puts ?os)"] by (simp add: max_flushes_def)
  have "\<forall>e \<in> set ?os. op_key e \<noteq> ''''" "increasing (db_view (capsule_ops E) (new_db 50)) (op_puts ?os)"
    by (simp_all add: new_db_empty fresh_def)
  from fdb.conversation [OF assms(1) good new_db_empty(3) this, of u] obtain s' where
    "server_main C (capsule_ops E) u (test_network_messages C now) initial_world = Inr ([put_message C ?p], s')"
    unfolding msgs server_main_def new_db_empty(1) by auto
  moreover have "test_network_output C (put_message C ?p) = Inr ''Test value''"
    using parse_messages(1) [OF assms(1)]
    by (simp add: test_network_output_def DBRequest_empty_def get_field_def msg_to_kvs_to_msg)
  ultimately show ?thesis by blast
qed

theorem test_network_prints_value_witness:
  "\<exists>r s'. server_main wire_codec (capsule_ops wire_env) 0 (test_network_messages wire_codec 1700000000) initial_world =
      Inr ([r], s') \<and> test_network_output wire_codec r = Inr ''Test value''"
  by (rule test_network_prints_value [OF wire_codec_ok wire_env_ok])

lemma put_get_once:
  assumes "env_ok E" "key p \<noteq> ''''"
  obtains s where "db_put (capsule_ops E) p (new_db 50) = Inr s" "db_get (capsule_ops E) (key p) u s = Inr (p, s)"
proof -
  have "db_good (capsule_ops E) (world_ok E) world_room (length [p]) (new_db 50)"
    using new_db_good [OF assms(1), of 50 1] by (simp add: max_flushes_def)
  moreover have "\<forall>q \<in> set [p]. key q \<noteq> ''''" "increasing Map.empty [p]" using assms(2) by (simp_all add: fresh_def)
  ultimately obtain s where "put_all (db_put (capsule_ops E)) [p] (new_db 50) = Inr s"
    "db_get (capsule_ops E) (key p) u s =
      Inr (case apply_puts [p] Map.empty (key p) of None \<Rightarrow> kvs_payload_default u | Some p \<Rightarrow> p, s)"
    using fdb.get_last_put [OF _ new_db_empty(1,3) _ _ assms(2)] by blast
  then show thesis using that by (auto simp: bindr_Inr_iff)
qed

text \<open>
  The two tests of the enclave print the values that they have put, \<open>Test value\<close> through the driver and
  \<open>TestVal\<close> without it, and end without a fatal log line.
\<close>

theorem test_enclaves_print_values:
  assumes "asylo_ok A" "env_ok E" "path \<noteq> ''''"
  shows "test_enclave_interface A (capsule_ops E) path now u initial_world = Inr ''Test value'' \<and>
    test_enclave_basic A (capsule_ops E) path now u initial_world = Inr ''TestVal''"
proof -
  have A: "CapsuleDB_Driver_new A 50 = Inr (spawnDB 50)" "driver_finalize A = Inr ()"
    using assms(1) by (simp_all add: CapsuleDB_Driver_new_def driver_finalize_def asylo_ok_def Initialize_def)
  let ?p = "(kvs_payload_default 0)\<lparr>key := ''Test key'', val := ''Test value'', txn_timestamp := now\<rparr>"
    and ?q = "(kvs_payload_default 0)\<lparr>key := ''TestKey'', val := ''TestVal'', txn_timestamp := now\<rparr>"
  have nt: "no_type ?p = ?p" by (simp add: no_type_def kvs_payload_default_def)
  from put_get_once [OF assms(2), of ?p u] obtain s where
    s: "db_put (capsule_ops E) ?p (new_db 50) = Inr s" "db_get (capsule_ops E) ''Test key'' u s = Inr (?p, s)"
    by auto
  have "driver_put A (capsule_ops E) ?p (new_db 50) = Inr s"
    using driver_put_runs [OF assms(1), of "capsule_ops E" ?p "new_db 50"] s(1) unfolding nt by simp
  moreover have "driver_get A (capsule_ops E) ''Test key'' u s = Inr (?p, s)"
    using driver_get_runs [OF assms(1), of "''Test key''" "capsule_ops E" u s] s(2) nt by simp
  ultimately have "test_enclave_interface A (capsule_ops E) path now u initial_world = Inr ''Test value''"
    using assms(3) A by (simp add: test_enclave_interface_def)
  moreover
  from put_get_once [OF assms(2), of ?q u] obtain t where
    t: "db_put (capsule_ops E) ?q (new_db 50) = Inr t" "db_get (capsule_ops E) ''TestKey'' u t = Inr (?q, t)"
    by auto
  have "test_enclave_basic A (capsule_ops E) path now u initial_world = Inr ''TestVal''"
    using assms(3) A t
    by (simp add: test_enclave_basic_def enter_runs [OF assms(1)] Run_def SetEnclaveUserMessage_def Let_def
        DBRequest_empty_def get_field_def Kvs_payload_empty_def)
  ultimately show ?thesis by blast
qed

theorem test_enclaves_print_values_witness:
  "test_enclave_interface direct_asylo (capsule_ops wire_env) ''e.so'' 5 0 initial_world = Inr ''Test value'' \<and>
   test_enclave_basic direct_asylo (capsule_ops wire_env) ''e.so'' 5 0 initial_world = Inr ''TestVal''"
  using test_enclaves_print_values [OF direct_asylo_ok wire_env_ok, of "''e.so''"] by simp

end
