(* ===== verification/Threads.thy ===== *)
theory Threads
  imports Memtable
begin

text \<open>
  The memtable of \<open>src/src/core/memtable.cc\<close> with several threads. A call of \<open>put\<close> or \<open>get\<close> is cut into
  steps, each of which does one access to the shared maps or one operation on a mutex; the threads take
  steps in any order. The comments of the file expect concurrent callers. C++ leaves unsynchronised
  accesses to one \<open>std::map\<close> undefined; here each of them is taken to be atomic, the best case, and only
  what happens between them is open. A thread that runs alone does what \<open>Memtable_put\<close> and
  \<open>Memtable_get\<close> do.
\<close>

section \<open>Shared state and threads\<close>

text \<open>
  \<open>sh_locks\<close> maps a key to a pointer, the number of a mutex in \<open>mutexes\<close>. Mutexes are created with \<open>new\<close> and
  never deleted.
\<close>

record 'w shared =
  sh_max :: size_t
  sh_mem :: "kvs_payload omap"
  sh_locks :: "nat omap"
  mutexes :: "mutex list"
  sh_index :: CapsuleIndex
  sh_world :: 'w

text \<open>
  Where a thread stands, with the values of its variables: \<open>PutFind\<close> is about to search \<open>locklst\<close>, \<open>PutLock\<close>
  to lock the mutex it found, \<open>PutRead\<close> to read the previous record, \<open>PutStore\<close> to assign the new one,
  \<open>PutUnlock\<close> to unlock and return. A new key goes through \<open>PutFlush\<close>, which writes a full table out,
  \<open>PutClear\<close> and \<open>PutClearLocks\<close>, which empty the two maps, \<open>PutNew\<close>, which makes a mutex, and \<open>PutLockNew\<close>.
\<close>

datatype pc =
    PutFind kvs_payload
  | PutLock kvs_payload nat
  | PutRead kvs_payload nat
  | PutStore kvs_payload nat
  | PutUnlock kvs_payload nat bool
  | PutDone kvs_payload bool
  | PutFlush kvs_payload
  | PutClear kvs_payload
  | PutClearLocks kvs_payload
  | PutNew kvs_payload
  | PutLockNew kvs_payload nat
  | GetFind string
  | GetAt string
  | GetLock string nat
  | GetRead string nat
  | GetUnlock string nat kvs_payload
  | GetDone string kvs_payload
  | Failed db_error

definition acquire :: "nat \<Rightarrow> 'w shared \<Rightarrow> 'w shared option" where
  "acquire m sh =
     (if m < length (mutexes sh) \<and> mutexes sh ! m = Unlocked
      then Some (sh\<lparr>mutexes := (mutexes sh)[m := Locked]\<rparr>) else None)"

definition release :: "nat \<Rightarrow> 'w shared \<Rightarrow> 'w shared" where
  "release m sh = sh\<lparr>mutexes := (mutexes sh)[m := Unlocked]\<rparr>"

text \<open>
  \<open>write_out_if_full\<close> up to the point where it empties the maps; \<open>None\<close> when the table is not full.
\<close>

definition flush_table :: "'w store_ops \<Rightarrow> 'w shared \<Rightarrow> 'w shared option res" where
  "flush_table S sh =
     (if of_nat (length (sh_mem sh)) \<ge> sh_max sh
      then bindr (write_out_if_full S \<lparr>max_size = sh_max sh, memtable = sh_mem sh, locklst = []\<rparr>
             (sh_index sh) (sh_world sh)) (\<lambda>(mt, ix, w).
           Inr (Some (sh\<lparr>sh_index := ix, sh_world := w\<rparr>)))
      else Inr None)"

text \<open>One step of a thread; it has none when it is done, has failed, or waits for a mutex.\<close>

fun thread_step :: "'w store_ops \<Rightarrow> int64 \<Rightarrow> pc \<Rightarrow> 'w shared \<Rightarrow> (pc \<times> 'w shared) option" where
  "thread_step S u (PutFind p) sh = Some (case map_find (key p) (sh_locks sh) of
     Some m \<Rightarrow> PutLock p m | None \<Rightarrow> PutFlush p, sh)"
| "thread_step S u (PutLock p m) sh = map_option (Pair (PutRead p m)) (acquire m sh)"
| "thread_step S u (PutRead p m) sh = Some (case map_find (key p) (sh_mem sh) of
     None \<Rightarrow> Failed (Undefined_behaviour ''end iterator'')
   | Some prev \<Rightarrow> if sint (txn_timestamp p) \<le> sint (txn_timestamp prev) then PutUnlock p m False
       else PutStore p m, sh)"
| "thread_step S u (PutStore p m) sh =
     Some (PutUnlock p m True, sh\<lparr>sh_mem := map_assign (key p) p (sh_mem sh)\<rparr>)"
| "thread_step S u (PutUnlock p m b) sh = Some (PutDone p b, release m sh)"
| "thread_step S u (PutFlush p) sh = Some (case flush_table S sh of
     Inl e \<Rightarrow> (Failed e, sh) | Inr None \<Rightarrow> (PutNew p, sh) | Inr (Some sh') \<Rightarrow> (PutClear p, sh'))"
| "thread_step S u (PutClear p) sh = Some (PutClearLocks p, sh\<lparr>sh_mem := []\<rparr>)"
| "thread_step S u (PutClearLocks p) sh = Some (PutNew p, sh\<lparr>sh_locks := []\<rparr>)"
| "thread_step S u (PutNew p) sh = Some (PutLockNew p (length (mutexes sh)),
     sh\<lparr>mutexes := mutexes sh @ [Unlocked],
        sh_locks := map_assign (key p) (length (mutexes sh)) (sh_locks sh)\<rparr>)"
| "thread_step S u (PutLockNew p m) sh = map_option (Pair (PutStore p m)) (acquire m sh)"
| "thread_step S u (GetFind k) sh = Some (case map_find k (sh_locks sh) of
     None \<Rightarrow> GetDone k ((kvs_payload_default u)\<lparr>key := ''''\<rparr>) | Some m \<Rightarrow> GetAt k, sh)"
| "thread_step S u (GetAt k) sh = Some (case map_at k (sh_locks sh) of
     Inl e \<Rightarrow> Failed e | Inr m \<Rightarrow> GetLock k m, sh)"
| "thread_step S u (GetLock k m) sh = map_option (Pair (GetRead k m)) (acquire m sh)"
| "thread_step S u (GetRead k m) sh = Some (case map_at k (sh_mem sh) of
     Inl e \<Rightarrow> Failed e | Inr q \<Rightarrow> GetUnlock k m q, sh)"
| "thread_step S u (GetUnlock k m q) sh = Some (GetDone k q, release m sh)"
| "thread_step S u (PutDone p b) sh = None"
| "thread_step S u (GetDone k q) sh = None"
| "thread_step S u (Failed e) sh = None"

text \<open>One thread of several takes a step.\<close>

inductive conc_step :: "'w store_ops \<Rightarrow> int64 \<Rightarrow> pc list \<times> 'w shared \<Rightarrow> pc list \<times> 'w shared \<Rightarrow> bool"
  for S :: "'w store_ops" and u :: int64 where
  step: "i < length ts \<Longrightarrow> thread_step S u (ts ! i) sh = Some (pc', sh') \<Longrightarrow>
    conc_step S u (ts, sh) (ts[i := pc'], sh')"

inductive_cases conc_stepE: "conc_step S u (ts, sh) s"

text \<open>Following a schedule, the numbers of the threads whose turn it is; a thread that waits loses its turn.\<close>

fun run_schedule :: "'w store_ops \<Rightarrow> int64 \<Rightarrow> nat list \<Rightarrow> pc list \<times> 'w shared \<Rightarrow> pc list \<times> 'w shared" where
  "run_schedule S u [] s = s"
| "run_schedule S u (i # is) (ts, sh) = run_schedule S u is
     (if i < length ts then case thread_step S u (ts ! i) sh of
        None \<Rightarrow> (ts, sh) | Some (pc', sh') \<Rightarrow> (ts[i := pc'], sh') else (ts, sh))"

lemma run_schedule_steps: "(conc_step S u)\<^sup>*\<^sup>* s (run_schedule S u is s)"
proof (induction S u "is" s rule: run_schedule.induct)
  case (2 S u i "is" ts sh)
  show ?case
  proof (cases "i < length ts \<and> thread_step S u (ts ! i) sh \<noteq> None")
    case True
    then obtain pc' sh' where t: "thread_step S u (ts ! i) sh = Some (pc', sh')" "i < length ts" by auto
    from conc_step.step [OF t(2,1)] 2 t show ?thesis by (simp add: converse_rtranclp_into_rtranclp)
  next
    case False
    then have "i < length ts \<Longrightarrow> thread_step S u (ts ! i) sh = None"
      by (cases "thread_step S u (ts ! i) sh") simp_all
    with 2 show ?thesis by (cases "i < length ts") simp_all
  qed
qed simp

section \<open>A thread alone\<close>

text \<open>A thread that nobody interrupts, and the memtable of the sequential model behind a shared state.\<close>

fun run_alone :: "'w store_ops \<Rightarrow> int64 \<Rightarrow> nat \<Rightarrow> pc \<Rightarrow> 'w shared \<Rightarrow> pc \<times> 'w shared" where
  "run_alone S u 0 pc sh = (pc, sh)"
| "run_alone S u (Suc n) pc sh = (case thread_step S u pc sh of
     None \<Rightarrow> (pc, sh) | Some (pc', sh') \<Rightarrow> run_alone S u n pc' sh')"

definition mutexes_of :: "mutex list \<Rightarrow> nat omap \<Rightarrow> mutex omap" where
  "mutexes_of ms = map (\<lambda>(k, m). (k, ms ! m))"

definition mem_of :: "'w shared \<Rightarrow> Memtable" where
  "mem_of sh = \<lparr>max_size = sh_max sh, memtable = sh_mem sh, locklst = mutexes_of (mutexes sh) (sh_locks sh)\<rparr>"

text \<open>The pointers of \<open>locklst\<close> are valid and different.\<close>

definition locks_ok :: "'w shared \<Rightarrow> bool" where
  "locks_ok sh \<longleftrightarrow> map_ok (sh_locks sh) \<and> distinct (map snd (sh_locks sh)) \<and>
     snd ` set (sh_locks sh) \<subseteq> {..<length (mutexes sh)}"

lemma mutexes_of_find: "map_find k (mutexes_of ms l) = map_option ((!) ms) (map_find k l)"
  by (induction k l rule: map_find.induct) (auto simp: mutexes_of_def)

lemma mutexes_of_other: "m \<notin> snd ` set l \<Longrightarrow> mutexes_of (ms[m := x]) l = mutexes_of ms l"
  by (auto simp: mutexes_of_def image_iff)

lemma mutexes_of_append: "snd ` set l \<subseteq> {..<length ms} \<Longrightarrow> mutexes_of (ms @ ms') l = mutexes_of ms l"
  by (auto simp: mutexes_of_def nth_append)

lemma mutexes_of_assign: "mutexes_of ms (map_assign k m l) = map_assign k (ms ! m) (mutexes_of ms l)"
  by (induction k m l rule: map_assign.induct) (simp_all add: mutexes_of_def)

lemma mutexes_of_update:
  assumes "map_ok l" "distinct (map snd l)" "map_find k l = Some m" "m < length ms"
  shows "mutexes_of (ms[m := x]) l = map_assign k x (mutexes_of ms l)"
  using assms
proof (induction l)
  case (Cons a l)
  obtain k' m' where a: "a = (k', m')" by (cases a)
  show ?case
  proof (cases "k' = k")
    case True
    then have "m = m'" "m \<notin> snd ` set l" using Cons.prems a by auto
    then show ?thesis using True a Cons.prems(4) mutexes_of_other [of m l ms x] by (simp add: mutexes_of_def)
  next
    case False
    then have f: "map_find k l = Some m" using Cons.prems(3) a by simp
    then have "(k, m) \<in> set l" using Cons.prems(1) by (simp add: map_find_items a)
    then have "k' < k" "m \<noteq> m'" using Cons.prems(1,2) a by force+
    then show ?thesis using Cons f a False by (simp add: mutexes_of_def)
  qed
qed simp

lemma locks_ok_step:
  assumes "locks_ok sh"
  shows "acquire m sh = Some sh' \<Longrightarrow> locks_ok sh'" "locks_ok (release m sh)"
    "locks_ok (sh\<lparr>sh_mem := x\<rparr>)"
proof -
  assume "acquire m sh = Some sh'"
  then have "sh_locks sh' = sh_locks sh" "length (mutexes sh') = length (mutexes sh)"
    by (auto simp: acquire_def split: if_splits)
  then show "locks_ok sh'" using assms by (simp add: locks_ok_def)
qed (use assms in \<open>simp_all add: locks_ok_def release_def\<close>)

lemma locks_ok_pointer:
  assumes "locks_ok sh" "map_find k (sh_locks sh) = Some m"
  shows "m < length (mutexes sh)"
proof -
  have "(k, m) \<in> set (sh_locks sh)" using assms by (simp add: map_find_items locks_ok_def)
  then show ?thesis using assms(1) by (force simp: locks_ok_def)
qed

lemma mutex_lock_mem_of:
  assumes "locks_ok sh" "map_find k (sh_locks sh) = Some m"
  shows "mutex_lock k (mem_of sh) = (case acquire m sh of None \<Rightarrow> Inl Blocked | Some sh' \<Rightarrow> Inr (mem_of sh'))"
proof -
  note m = locks_ok_pointer [OF assms]
  have "map_ok (sh_locks sh)" "distinct (map snd (sh_locks sh))" using assms(1) by (simp_all add: locks_ok_def)
  note upd = mutexes_of_update [OF this assms(2) m]
  show ?thesis
    using m assms(2)
    by (auto simp: mutex_lock_def map_at_def acquire_def mem_of_def mutexes_of_find upd split: mutex.split)
qed

lemma mutex_unlock_mem_of:
  assumes "locks_ok sh" "map_find k (sh_locks sh) = Some m" "mutexes sh ! m = Locked"
  shows "mutex_unlock k (mem_of sh) = Inr (mem_of (release m sh))"
proof -
  note m = locks_ok_pointer [OF assms(1,2)]
  have "map_ok (sh_locks sh)" "distinct (map snd (sh_locks sh))" using assms(1) by (simp_all add: locks_ok_def)
  note upd = mutexes_of_update [OF this assms(2) m]
  show ?thesis
    using assms(2,3) by (simp add: mutex_unlock_def map_at_def release_def mem_of_def mutexes_of_find upd)
qed

lemma acquired:
  "acquire m sh = Some sh' \<Longrightarrow> sh' = sh\<lparr>mutexes := (mutexes sh)[m := Locked]\<rparr> \<and> mutexes sh' ! m = Locked"
  by (auto simp: acquire_def split: if_splits)

text \<open>Writing the table out does not look at the locks.\<close>

lemma write_out_mem_of:
  "write_out_if_full S (mem_of sh) (sh_index sh) (sh_world sh) = bindr (flush_table S sh) (\<lambda>r.
     case r of None \<Rightarrow> Inr (mem_of sh, sh_index sh, sh_world sh)
     | Some sh' \<Rightarrow> Inr (mem_of (sh'\<lparr>sh_mem := [], sh_locks := []\<rparr>), sh_index sh', sh_world sh'))"
  by (cases "sh_mem sh") (auto simp: flush_table_def write_out_if_full_def mem_of_def mutexes_of_def bindr_def Let_def
    split: sum.splits prod.splits)

text \<open>
  A put of a thread that runs alone ends as \<open>Memtable_put\<close> does, with its result and its effect, with its
  error, or waiting for a mutex that nobody releases.
\<close>

definition ends_put :: "kvs_payload \<Rightarrow> pc \<times> 'w shared \<Rightarrow> (bool \<times> Memtable \<times> CapsuleIndex \<times> 'w) res \<Rightarrow> bool" where
  "ends_put p s r = (case s of (pc, sh) \<Rightarrow> (case r of
     Inr (b, mt, ix, w) \<Rightarrow> pc = PutDone p b \<and> mem_of sh = mt \<and> sh_index sh = ix \<and> sh_world sh = w
   | Inl e \<Rightarrow> pc = Failed e \<or> e = Blocked \<and> (\<exists>m. pc = PutLock p m)))"

lemma run_alone_Suc:
  "thread_step S u pc sh = Some (pc', sh') \<Longrightarrow> run_alone S u (Suc n) pc sh = run_alone S u n pc' sh'"
  "thread_step S u pc sh = None \<Longrightarrow> run_alone S u n pc sh = (pc, sh)"
  by simp (cases n; simp)

lemma lone_put_present:
  assumes ok: "locks_ok sh" and m: "map_find (key p) (sh_locks sh) = Some m"
  shows "ends_put p (run_alone S u (Suc (Suc (Suc (Suc (Suc (Suc n)))))) (PutFind p) sh)
    (Memtable_put S p (mem_of sh) (sh_index sh) (sh_world sh))"
proof -
  have l: "map_find (key p) (locklst (mem_of sh)) = Some (mutexes sh ! m)"
    by (simp add: mem_of_def mutexes_of_find m)
  show ?thesis
  proof (cases "acquire m sh")
    case None
    then show ?thesis
      using m by (simp add: ends_put_def Memtable_put_def l mutex_lock_mem_of [OF ok m])
  next
    case (Some sh1)
    note s1 = acquired [OF Some] locks_ok_step(1) [OF ok Some]
    have m1: "map_find (key p) (sh_locks sh1) = Some m" "mutexes sh1 ! m = Locked" using s1 m by auto
    have mem: "memtable (mem_of sh1) = sh_mem sh1" by (simp add: mem_of_def)
    have un: "mutex_unlock (key p) (mem_of sh1) = Inr (mem_of (release m sh1))"
      "mutex_unlock (key p) ((mem_of sh1)\<lparr>memtable := x\<rparr>) = Inr (mem_of (release m (sh1\<lparr>sh_mem := x\<rparr>)))" for x
      using mutex_unlock_mem_of [OF s1(2) m1]
        mutex_unlock_mem_of [OF locks_ok_step(3) [OF s1(2), of x], of "key p" m] m1
      by (simp_all add: mem_of_def)
    have same: "sh_index sh1 = sh_index sh" "sh_world sh1 = sh_world sh" "sh_index (release m x) = sh_index x"
      "sh_world (release m x) = sh_world x" for x :: "'a shared"
      using s1(1) by (auto simp: release_def)
    show ?thesis
      using m Some
      by (simp add: ends_put_def Memtable_put_def Let_def l mutex_lock_mem_of [OF ok m] mem un same
          split: option.split)
  qed
qed

lemma map_ok_mutexes_of: "map_ok l \<Longrightarrow> map_ok (mutexes_of ms l)"
  by (simp add: map_ok_def mutexes_of_def case_prod_unfold comp_def)

text \<open>The steps from the making of a mutex on, which nobody else knows yet.\<close>

lemma run_alone_PutNew:
  assumes "locks_ok sh"
  shows "\<exists>sh'. run_alone S u (Suc (Suc (Suc (Suc n)))) (PutNew p) sh = (PutDone p True, sh') \<and>
    mem_of sh' = insert_new p (mem_of sh) \<and> sh_index sh' = sh_index sh \<and> sh_world sh' = sh_world sh"
proof -
  let ?n = "length (mutexes sh)"
  let ?sh = "sh\<lparr>mutexes := mutexes sh @ [Unlocked], sh_locks := map_assign (key p) ?n (sh_locks sh),
    sh_mem := map_assign (key p) p (sh_mem sh)\<rparr>"
  have "run_alone S u (Suc (Suc (Suc (Suc n)))) (PutNew p) sh = (PutDone p True, ?sh)"
    by (cases n) (simp_all add: acquire_def release_def)
  moreover have "mem_of ?sh = insert_new p (mem_of sh)"
    using assms by (simp add: mem_of_def insert_new_def mutexes_of_assign mutexes_of_append locks_ok_def)
  ultimately show ?thesis by simp
qed

lemma insert_new_locks:
  assumes "map_ok (locklst mt)"
  shows "bindr (mutex_lock (key p) (mt\<lparr>locklst := map_assign (key p) Unlocked (locklst mt)\<rparr>)) (\<lambda>mt2.
      bindr (mutex_unlock (key p) (mt2\<lparr>memtable := map_assign (key p) p (memtable mt2)\<rparr>)) f) =
    f (insert_new p mt)"
proof -
  let ?m = "mt\<lparr>locklst := map_assign (key p) Unlocked (locklst mt)\<rparr>"
  have "map_find (key p) (locklst ?m) = Some Unlocked" "map_ok (locklst ?m)"
    using assms by (simp_all add: map_ok_assign)
  note lk = lock_unlock [OF this]
  show ?thesis using lk(1) lk(2) [of "map_assign (key p) p (memtable mt)"] by (simp add: insert_new_def)
qed

lemma lone_put_absent:
  assumes ok: "locks_ok sh" and m: "map_find (key p) (sh_locks sh) = None"
  shows "ends_put p (run_alone S u (Suc (Suc (Suc (Suc (Suc (Suc (Suc (Suc n)))))))) (PutFind p) sh)
    (Memtable_put S p (mem_of sh) (sh_index sh) (sh_world sh))"
proof -
  have l: "map_find (key p) (locklst (mem_of sh)) = None" by (simp add: mem_of_def mutexes_of_find m)
  show ?thesis
  proof (cases "flush_table S sh")
    case (Inl e)
    then show ?thesis
      using m by (simp add: ends_put_def Memtable_put_def l write_out_mem_of)
  next
    case (Inr r)
    define sh1 where "sh1 = (case r of None \<Rightarrow> sh | Some sh' \<Rightarrow> sh'\<lparr>sh_mem := [], sh_locks := []\<rparr>)"
    have ok1: "locks_ok sh1" using ok by (auto simp: sh1_def locks_ok_def split: option.split)
    then have mok: "map_ok (locklst (mem_of sh1))" by (simp add: mem_of_def map_ok_mutexes_of locks_ok_def)
    have w: "write_out_if_full S (mem_of sh) (sh_index sh) (sh_world sh) = Inr (mem_of sh1, sh_index sh1, sh_world sh1)"
      using Inr by (cases r) (simp_all add: write_out_mem_of sh1_def)
    have put: "Memtable_put S p (mem_of sh) (sh_index sh) (sh_world sh) =
        Inr (True, insert_new p (mem_of sh1), sh_index sh1, sh_world sh1)"
      by (simp add: Memtable_put_def Let_def l w insert_new_locks [OF mok])
    have "\<exists>n'. run_alone S u (Suc (Suc (Suc (Suc (Suc (Suc (Suc (Suc n)))))))) (PutFind p) sh =
        run_alone S u (Suc (Suc (Suc (Suc n')))) (PutNew p) sh1"
    proof (cases r)
      case None
      then show ?thesis using m Inr by (intro exI [of _ "Suc (Suc n)"]) (simp add: sh1_def)
    next
      case (Some sh')
      then show ?thesis using m Inr by (intro exI [of _ n]) (simp add: sh1_def)
    qed
    then obtain n' where n': "run_alone S u (Suc (Suc (Suc (Suc (Suc (Suc (Suc (Suc n)))))))) (PutFind p) sh =
        run_alone S u (Suc (Suc (Suc (Suc n')))) (PutNew p) sh1" by blast
    from run_alone_PutNew [OF ok1, of S u n' p] obtain sh2 where
      "run_alone S u (Suc (Suc (Suc (Suc n')))) (PutNew p) sh1 = (PutDone p True, sh2)"
      "mem_of sh2 = insert_new p (mem_of sh1)" "sh_index sh2 = sh_index sh1" "sh_world sh2 = sh_world sh1" by blast
    then show ?thesis unfolding ends_put_def n' put by simp
  qed
qed

text \<open>The same for a get.\<close>

definition ends_get :: "string \<Rightarrow> pc \<times> 'w shared \<Rightarrow> (kvs_payload \<times> Memtable) res \<Rightarrow> bool" where
  "ends_get k s r = (case s of (pc, sh) \<Rightarrow> (case r of
     Inr (q, mt) \<Rightarrow> pc = GetDone k q \<and> mem_of sh = mt
   | Inl e \<Rightarrow> pc = Failed e \<or> e = Blocked \<and> (\<exists>m. pc = GetLock k m)))"

lemma lone_get:
  assumes ok: "locks_ok sh"
  shows "ends_get k (run_alone S u (Suc (Suc (Suc (Suc (Suc (Suc n)))))) (GetFind k) sh) (Memtable_get k u (mem_of sh))"
proof (cases "map_find k (sh_locks sh)")
  case None
  then have "map_find k (locklst (mem_of sh)) = None" by (simp add: mem_of_def mutexes_of_find)
  with None show ?thesis by (simp add: ends_get_def Memtable_get_def)
next
  case m: (Some m)
  have l: "map_find k (locklst (mem_of sh)) = Some (mutexes sh ! m)" by (simp add: mem_of_def mutexes_of_find m)
  show ?thesis
  proof (cases "acquire m sh")
    case None
    then show ?thesis using m by (simp add: ends_get_def Memtable_get_def l mutex_lock_mem_of [OF ok m] map_at_def)
  next
    case (Some sh1)
    note s1 = acquired [OF Some] locks_ok_step(1) [OF ok Some]
    have m1: "map_find k (sh_locks sh1) = Some m" "mutexes sh1 ! m = Locked" using s1 m by auto
    have mem: "memtable (mem_of sh1) = sh_mem sh1" by (simp add: mem_of_def)
    note un = mutex_unlock_mem_of [OF s1(2) m1]
    show ?thesis
      using m Some
      by (simp add: ends_get_def Memtable_get_def l mutex_lock_mem_of [OF ok m] mem un map_at_def split: option.split)
  qed
qed

end
