(* ===== verification/ThreadProps.thy ===== *)
theory ThreadProps
  imports Threads Anomalies ProtoWire
begin

text \<open>
  What the memtable (\<open>core/memtable.cc\<close>) promises to concurrent callers, and what it does not: a call alone
  is the sequential one, every run ends, no two threads hold one mutex, and puts and gets of keys that are
  in the table are safe in any order; but two puts of one new key, a get during a put of a new key, and a put
  during a flush go wrong even when every access to the maps is atomic.
\<close>

section \<open>A call alone\<close>

text \<open>
  The steps of a thread that nobody interrupts agree with the sequential model: a put ends as
  \<open>Memtable_put\<close> does and a get as \<open>Memtable_get\<close>, with the same result, effect or error, or waits for a
  mutex exactly when they do.
\<close>

lemma lone_calls_are_sequential:
  assumes "locks_ok sh"
  shows "ends_put p (run_alone S u 8 (PutFind p) sh) (Memtable_put S p (mem_of sh) (sh_index sh) (sh_world sh)) \<and>
    ends_get k (run_alone S u 6 (GetFind k) sh) (Memtable_get k u (mem_of sh))"
proof -
  have "ends_put p (run_alone S u (Suc (Suc (Suc (Suc (Suc (Suc (Suc (Suc 0)))))))) (PutFind p) sh)
      (Memtable_put S p (mem_of sh) (sh_index sh) (sh_world sh))"
    using lone_put_present [OF assms, of p] lone_put_absent [OF assms, of p]
    by (cases "map_find (key p) (sh_locks sh)") (blast, blast)
  moreover have "ends_get k (run_alone S u (Suc (Suc (Suc (Suc (Suc (Suc 0)))))) (GetFind k) sh)
      (Memtable_get k u (mem_of sh))" by (rule lone_get [OF assms])
  ultimately show ?thesis by (simp only: eval_nat_numeral arith_simps)
qed

text \<open>A table with two records, for the witnesses.\<close>

definition two_records :: "CapsuleBlock list shared" where
  "two_records = \<lparr>sh_max = 2, sh_mem = [(''a'', put_of ''a'' ''1'' 5), (''b'', put_of ''b'' ''2'' 5)],
     sh_locks = [(''a'', 0), (''b'', 1)], mutexes = [Unlocked, Unlocked],
     sh_index = CapsuleIndex_new 2, sh_world = []\<rparr>"

lemma two_records_locks: "locks_ok two_records"
  by (simp add: locks_ok_def two_records_def)

section \<open>Every run ends\<close>

fun steps_left :: "pc \<Rightarrow> nat" where
  "steps_left (PutFind p) = 8"
| "steps_left (PutFlush p) = 7"
| "steps_left (PutClear p) = 6"
| "steps_left (PutClearLocks p) = 5"
| "steps_left (PutNew p) = 4"
| "steps_left (PutLockNew p m) = 3"
| "steps_left (PutLock p m) = 4"
| "steps_left (PutRead p m) = 3"
| "steps_left (PutStore p m) = 2"
| "steps_left (PutUnlock p m b) = 1"
| "steps_left (GetFind k) = 5"
| "steps_left (GetAt k) = 4"
| "steps_left (GetLock k m) = 3"
| "steps_left (GetRead k m) = 2"
| "steps_left (GetUnlock k m q) = 1"
| "steps_left (PutDone p b) = 0"
| "steps_left (GetDone k q) = 0"
| "steps_left (Failed e) = 0"

lemma thread_step_left: "thread_step S u pc sh = Some (pc', sh') \<Longrightarrow> steps_left pc' < steps_left pc"
  by (cases "(S, u, pc, sh)" rule: thread_step.cases)
    (auto split: option.splits sum.splits if_splits)

lemma steps_left_le: "steps_left pc \<le> 8"
  by (cases pc) simp_all

lemma sum_list_update_less:
  fixes f :: "'a \<Rightarrow> nat"
  shows "i < length xs \<Longrightarrow> f x < f (xs ! i) \<Longrightarrow> sum_list (map f (xs[i := x])) < sum_list (map f xs)"
  by (induction xs arbitrary: i) (auto split: nat.splits)

lemma conc_step_left:
  "conc_step S u (ts, sh) (ts', sh') \<Longrightarrow>
    length ts' = length ts \<and> sum_list (map steps_left ts') < sum_list (map steps_left ts)"
  by (erule conc_stepE) (auto intro: sum_list_update_less thread_step_left)

lemma run_length:
  "(conc_step S u ^^ n) (ts, sh) (ts', sh') \<Longrightarrow>
    length ts' = length ts \<and> n + sum_list (map steps_left ts') \<le> sum_list (map steps_left ts)"
proof (induction n arbitrary: ts' sh')
  case (Suc n)
  then obtain t sh1 where "(conc_step S u ^^ n) (ts, sh) (t, sh1)" "conc_step S u (t, sh1) (ts', sh')" by auto
  then show ?case using Suc.IH conc_step_left by fastforce
qed simp

text \<open>A call that has returned, and one that has thrown.\<close>

fun finished :: "pc \<Rightarrow> bool" where
  "finished (PutDone p b) \<longleftrightarrow> True"
| "finished (GetDone k q) \<longleftrightarrow> True"
| "finished pc \<longleftrightarrow> False"

fun failed :: "pc \<Rightarrow> bool" where
  "failed (Failed e) \<longleftrightarrow> True"
| "failed pc \<longleftrightarrow> False"

section \<open>Mutual exclusion\<close>

text \<open>The mutex that a thread holds, and the invariant: a mutex has one holder at most and is locked then.\<close>

fun holds :: "pc \<Rightarrow> nat option" where
  "holds (PutRead p m) = Some m"
| "holds (PutStore p m) = Some m"
| "holds (PutUnlock p m b) = Some m"
| "holds (GetRead k m) = Some m"
| "holds (GetUnlock k m q) = Some m"
| "holds pc = None"

definition exclusive :: "pc list \<Rightarrow> 'w shared \<Rightarrow> bool" where
  "exclusive ts sh \<longleftrightarrow>
     (\<forall>i < length ts. \<forall>m. holds (ts ! i) = Some m \<longrightarrow> m < length (mutexes sh) \<and> mutexes sh ! m = Locked \<and>
        (\<forall>j < length ts. holds (ts ! j) = Some m \<longrightarrow> j = i))"

text \<open>
  What a step of a thread does to the mutexes: it keeps what it holds, acquires a free mutex, releases its
  own, or makes a new one.
\<close>

lemma flush_table_mutexes: "flush_table S sh = Inr (Some sh') \<Longrightarrow> mutexes sh' = mutexes sh"
  by (auto simp: flush_table_def bindr_Inr_iff split: if_splits)

lemma thread_step_mutexes:
  "thread_step S u pc sh = Some (pc', sh') \<Longrightarrow>
     mutexes sh' = mutexes sh \<and> (holds pc' = holds pc \<or> holds pc' = None) \<or>
     (\<exists>m. holds pc = None \<and> holds pc' = Some m \<and> m < length (mutexes sh) \<and> mutexes sh ! m = Unlocked \<and>
        mutexes sh' = (mutexes sh)[m := Locked]) \<or>
     (\<exists>m. holds pc = Some m \<and> holds pc' = None \<and> mutexes sh' = (mutexes sh)[m := Unlocked]) \<or>
     holds pc = None \<and> holds pc' = None \<and> mutexes sh' = mutexes sh @ [Unlocked]"
  by (cases pc)
    (auto simp: acquire_def release_def flush_table_mutexes split: option.splits sum.splits if_splits)

lemma exclusiveD:
  assumes "exclusive ts sh" "i < length ts" "holds (ts ! i) = Some m"
  shows "m < length (mutexes sh)" "mutexes sh ! m = Locked" "j < length ts \<Longrightarrow> holds (ts ! j) = Some m \<Longrightarrow> j = i"
  using assms unfolding exclusive_def by blast+

lemma conc_step_exclusive:
  assumes "conc_step S u (ts, sh) (ts', sh')" "exclusive ts sh"
  shows "exclusive ts' sh'"
proof -
  from assms(1) obtain i pc' where i: "i < length ts" "thread_step S u (ts ! i) sh = Some (pc', sh')" "ts' = ts[i := pc']"
    by (auto elim: conc_stepE)
  have nth: "ts' ! j = (if j = i then pc' else ts ! j)" if "j < length ts" for j using that i(3) by simp
  note ex = exclusiveD [OF assms(2)]
  have len: "length ts' = length ts" using i(3) by simp
  from thread_step_mutexes [OF i(2)] consider (keep) "mutexes sh' = mutexes sh" "holds pc' = holds (ts ! i) \<or> holds pc' = None"
    | (acq) m where "holds (ts ! i) = None" "holds pc' = Some m" "m < length (mutexes sh)" "mutexes sh ! m = Unlocked"
        "mutexes sh' = (mutexes sh)[m := Locked]"
    | (rel) m where "holds (ts ! i) = Some m" "holds pc' = None" "mutexes sh' = (mutexes sh)[m := Unlocked]"
    | (new) "holds (ts ! i) = None" "holds pc' = None" "mutexes sh' = mutexes sh @ [Unlocked]" by iprover
  then show ?thesis
  proof cases
    case keep
    then have h: "holds (ts' ! j) = Some m \<Longrightarrow> holds (ts ! j) = Some m" if "j < length ts" for j m
      using nth [OF that] by (auto split: if_splits)
    show ?thesis unfolding exclusive_def len keep(1)
    proof (intro allI impI conjI)
      fix j m assume j: "j < length ts" "holds (ts' ! j) = Some m"
      note hj = h [OF j]
      show "m < length (mutexes sh)" "mutexes sh ! m = Locked" by (rule ex(1,2) [OF j(1) hj])+
      fix j' assume "j' < length ts" "holds (ts' ! j') = Some m"
      then show "j' = j" using ex(3) [OF j(1) hj] h by blast
    qed
  next
    case (acq m)
    have free: "holds (ts ! j) \<noteq> Some m" if "j < length ts" for j using ex(2) [OF that, of m] acq(4) by auto
    have h: "if j = i then n = m else holds (ts ! j) = Some n \<and> n \<noteq> m" if "j < length ts" "holds (ts' ! j) = Some n" for j n
      using that nth [OF that(1)] acq(2) free [OF that(1)] by (auto split: if_splits)
    show ?thesis unfolding exclusive_def len
    proof (intro allI impI conjI)
      fix j n assume j: "j < length ts" "holds (ts' ! j) = Some n"
      show "n < length (mutexes sh')" "mutexes sh' ! n = Locked"
        using h [OF j] ex(1,2) [OF j(1), of n] acq(3,5) by (auto split: if_splits)
      fix j' assume "j' < length ts" "holds (ts' ! j') = Some n"
      note h' = h [OF this]
      show "j' = j"
      proof (cases "n = m")
        case True
        then show ?thesis using h [OF j] h' by (metis (full_types))
      next
        case False
        then have "holds (ts ! j) = Some n" "holds (ts ! j') = Some n" using h [OF j] h' by (metis (full_types))+
        then show ?thesis using ex(3) [OF j(1)] \<open>j' < length ts\<close> by blast
      qed
    qed
  next
    case (rel m)
    have h: "holds (ts ! j) = Some n \<and> n \<noteq> m" if "j < length ts" "holds (ts' ! j) = Some n" for j n
    proof -
      have "j \<noteq> i" using that nth [OF that(1)] rel(2) by auto
      then have hj: "holds (ts ! j) = Some n" using that nth [OF that(1)] by simp
      moreover have "n \<noteq> m" using ex(3) [OF i(1) rel(1) that(1)] hj \<open>j \<noteq> i\<close> by blast
      ultimately show ?thesis by simp
    qed
    show ?thesis unfolding exclusive_def len rel(3) length_list_update
    proof (intro allI impI conjI)
      fix j n assume j: "j < length ts" "holds (ts' ! j) = Some n"
      then have hj: "holds (ts ! j) = Some n" "n \<noteq> m" using h by blast+
      show "n < length (mutexes sh)" by (rule ex(1) [OF j(1) hj(1)])
      show "(mutexes sh)[m := Unlocked] ! n = Locked" using ex(2) [OF j(1) hj(1)] hj(2) by simp
      fix j' assume "j' < length ts" "holds (ts' ! j') = Some n"
      then show "j' = j" using ex(3) [OF j(1) hj(1)] h by blast
    qed
  next
    case new
    have h: "holds (ts ! j) = Some n" if "j < length ts" "holds (ts' ! j) = Some n" for j n
      using that nth [OF that(1)] new(2) by (auto split: if_splits)
    show ?thesis unfolding exclusive_def len new(3)
    proof (intro allI impI conjI)
      fix j n assume j: "j < length ts" "holds (ts' ! j) = Some n"
      note hj = h [OF j]
      show "n < length (mutexes sh @ [Unlocked])" "(mutexes sh @ [Unlocked]) ! n = Locked"
        using ex(1,2) [OF j(1) hj] by (simp_all add: nth_append)
      fix j' assume "j' < length ts" "holds (ts' ! j') = Some n"
      then show "j' = j" using ex(3) [OF j(1) hj] h by blast
    qed
  qed
qed

lemma run_exclusive:
  assumes "(conc_step S u)\<^sup>*\<^sup>* s s'" "\<forall>pc \<in> set (fst s). holds pc = None"
  shows "exclusive (fst s') (snd s')"
  using assms
proof (induction rule: rtranclp_induct)
  case base
  then show ?case by (auto simp: exclusive_def)
next
  case (step s1 s2)
  then show ?case by (cases s1; cases s2) (auto intro: conc_step_exclusive)
qed

text \<open>
  C18. Mutual exclusion: whatever calls are started, on new keys or old ones, in every state that they reach no
  two of them hold the same mutex, and a mutex that is held is locked.
\<close>

theorem one_holder_per_mutex:
  assumes "(conc_step S u)\<^sup>*\<^sup>* (ops, sh) (ts, sh')"
    and "\<forall>pc \<in> set ops. (\<exists>p. pc = PutFind p) \<or> (\<exists>k. pc = GetFind k)"
    and "i < length ts" "holds (ts ! i) = Some m"
  shows "m < length (mutexes sh') \<and> mutexes sh' ! m = Locked \<and>
    (\<forall>j < length ts. j \<noteq> i \<longrightarrow> holds (ts ! j) \<noteq> Some m)"
proof -
  have "\<forall>pc \<in> set ops. holds pc = None" using assms(2) by auto
  with run_exclusive [OF assms(1)] have "exclusive ts sh'" by simp
  then show ?thesis using assms(3,4) unfolding exclusive_def by blast
qed

theorem one_holder_per_mutex_witness:
  "\<exists>ts sh. run_schedule list_ops 0 [0, 1, 0, 1, 1]
      ([PutFind (put_of ''a'' ''3'' 6), GetFind ''a''], two_records) = (ts, sh) \<and>
    holds (ts ! 0) = Some 0 \<and> mutexes sh ! 0 = Locked \<and> holds (ts ! 1) \<noteq> Some 0"
proof -
  let ?s = "run_schedule list_ops 0 [0, 1, 0, 1, 1] ([PutFind (put_of ''a'' ''3'' 6), GetFind ''a''], two_records)"
  obtain ts sh where s: "?s = (ts, sh)" by fastforce
  have "length (fst ?s) = 2" "holds (fst ?s ! 0) = Some 0" by code_simp+
  then have h: "length ts = 2" "holds (ts ! 0) = Some 0" unfolding s by simp_all
  from run_schedule_steps [of list_ops 0, of "([PutFind (put_of ''a'' ''3'' 6), GetFind ''a''], two_records)" "[0, 1, 0, 1, 1]"]
  have "(conc_step list_ops 0)\<^sup>*\<^sup>* ([PutFind (put_of ''a'' ''3'' 6), GetFind ''a''], two_records) (ts, sh)"
    unfolding s .
  from one_holder_per_mutex [OF this, of 0 0] h s show ?thesis by auto
qed

section \<open>No deadlock\<close>

text \<open>The mutex that a thread waits for.\<close>

fun waits :: "pc \<Rightarrow> nat option" where
  "waits (PutLock p m) = Some m"
| "waits (PutLockNew p m) = Some m"
| "waits (GetLock k m) = Some m"
| "waits pc = None"

lemma thread_step_stuck:
  "thread_step S u pc sh = None \<Longrightarrow>
    finished pc \<or> failed pc \<or> (\<exists>m. waits pc = Some m \<and> acquire m sh = None)"
  by (cases pc) simp_all

lemma thread_step_keeps:
  "thread_step S u pc sh = Some (pc', sh') \<Longrightarrow> \<not> failed pc' \<Longrightarrow>
     mutexes sh' = mutexes sh \<and> holds pc' = holds pc \<or>
     (\<exists>m. holds pc = None \<and> holds pc' = Some m \<and> mutexes sh' = (mutexes sh)[m := Locked]) \<or>
     (\<exists>m. holds pc = Some m \<and> mutexes sh' = (mutexes sh)[m := Unlocked]) \<or>
     holds pc = None \<and> mutexes sh' = mutexes sh @ [Unlocked]"
  by (cases pc)
    (auto simp: acquire_def release_def flush_table_mutexes split: option.splits sum.splits if_splits)

lemma finished_stuck: "\<forall>pc \<in> set ts. finished pc \<Longrightarrow> \<nexists>s. conc_step S u (ts, sh) s"
proof -
  assume f: "\<forall>pc \<in> set ts. finished pc"
  have "finished pc \<Longrightarrow> thread_step S u pc sh = None" for pc by (cases pc) simp_all
  with f show ?thesis by (auto elim!: conc_stepE)
qed

text \<open>Pointers in \<open>locklst\<close> and in waiting threads stay valid, because no mutex is deleted.\<close>

definition pointers_ok :: "'w shared \<Rightarrow> bool" where
  "pointers_ok sh \<longleftrightarrow> snd ` set (sh_locks sh) \<subseteq> {..<length (mutexes sh)}"

definition waits_ok :: "'w shared \<Rightarrow> pc \<Rightarrow> bool" where
  "waits_ok sh pc \<longleftrightarrow> (\<forall>m. waits pc = Some m \<longrightarrow> m < length (mutexes sh))"

lemma pointers_ok_find: "pointers_ok sh \<Longrightarrow> map_find k (sh_locks sh) = Some m \<Longrightarrow> m < length (mutexes sh)"
proof -
  have "map_find k l = Some m \<Longrightarrow> m \<in> snd ` set l" for l
    by (induction k l rule: map_find.induct) (auto split: if_splits)
  then show "pointers_ok sh \<Longrightarrow> map_find k (sh_locks sh) = Some m \<Longrightarrow> m < length (mutexes sh)"
    unfolding pointers_ok_def by blast
qed

lemma pointers_ok_assign:
  assumes "pointers_ok sh"
  shows "snd ` set (map_assign k (length (mutexes sh)) (sh_locks sh)) \<subseteq> {..<Suc (length (mutexes sh))}"
proof -
  have "set (map_assign k x l) \<subseteq> insert (k, x) (set l)" for x and l :: "nat omap"
    by (induction k x l rule: map_assign.induct) auto
  then show ?thesis using assms unfolding pointers_ok_def by fastforce
qed

lemma pointers_ok_updates [simp]:
  "pointers_ok (release m sh) = pointers_ok sh" "length (mutexes (release m sh)) = length (mutexes sh)"
  "pointers_ok (sh\<lparr>sh_mem := x\<rparr>) = pointers_ok sh" "pointers_ok (sh\<lparr>sh_locks := []\<rparr>)"
  by (simp_all add: pointers_ok_def release_def)

lemma acquire_pointers:
  "acquire m sh = Some sh' \<Longrightarrow> pointers_ok sh' = pointers_ok sh \<and> length (mutexes sh') = length (mutexes sh)"
  by (auto simp: acquire_def split: if_splits) (simp_all add: pointers_ok_def)

lemma flush_table_pointers:
  "flush_table S sh = Inr (Some sh') \<Longrightarrow> pointers_ok sh' = pointers_ok sh \<and> mutexes sh' = mutexes sh"
  by (auto simp: flush_table_def bindr_Inr_iff split: if_splits) (simp_all add: pointers_ok_def)

lemma thread_step_pointers:
  assumes "thread_step S u pc sh = Some (pc', sh')" "pointers_ok sh" "waits_ok sh pc"
  shows "pointers_ok sh' \<and> waits_ok sh' pc' \<and> length (mutexes sh) \<le> length (mutexes sh')"
proof (cases pc)
  case (PutNew p)
  then show ?thesis using assms pointers_ok_assign [OF assms(2)]
    by (simp add: pointers_ok_def waits_ok_def) (elim conjE, hypsubst, simp)
next
  case (PutFlush p)
  then show ?thesis using assms
    by (auto simp: waits_ok_def flush_table_pointers split: sum.splits option.splits)
qed (use assms pointers_ok_find [OF assms(2)] in
      \<open>auto simp: waits_ok_def map_at_def acquire_pointers split: option.splits if_splits\<close>)

text \<open>
  The invariant: besides mutual exclusion and valid pointers, every locked mutex is held by one of the
  threads, unless a thread has thrown.
\<close>

definition live :: "pc list \<Rightarrow> 'w shared \<Rightarrow> bool" where
  "live ts sh \<longleftrightarrow> exclusive ts sh \<and> pointers_ok sh \<and> (\<forall>pc \<in> set ts. waits_ok sh pc) \<and>
     ((\<exists>pc \<in> set ts. failed pc) \<or>
      (\<forall>m < length (mutexes sh). mutexes sh ! m = Locked \<longrightarrow> (\<exists>i < length ts. holds (ts ! i) = Some m)))"

lemma conc_step_live:
  assumes "conc_step S u (ts, sh) (ts', sh')" "live ts sh"
  shows "live ts' sh'"
proof -
  from assms(1) obtain i pc' where i: "i < length ts" "thread_step S u (ts ! i) sh = Some (pc', sh')" "ts' = ts[i := pc']"
    by (auto elim: conc_stepE)
  have L: "exclusive ts sh" "pointers_ok sh" "\<forall>pc \<in> set ts. waits_ok sh pc"
    "(\<exists>pc \<in> set ts. failed pc) \<or>
      (\<forall>m < length (mutexes sh). mutexes sh ! m = Locked \<longrightarrow> (\<exists>i < length ts. holds (ts ! i) = Some m))"
    using assms(2) unfolding live_def by blast+
  have p: "pointers_ok sh'" "waits_ok sh' pc'" "length (mutexes sh) \<le> length (mutexes sh')"
    using thread_step_pointers [OF i(2) L(2)] L(3) i(1) by simp_all
  have "set ts' \<subseteq> insert pc' (set ts)" unfolding i(3) by (rule set_update_subset_insert)
  then have w: "\<forall>pc \<in> set ts'. waits_ok sh' pc"
    using p(2,3) L(3) unfolding waits_ok_def by fastforce
  have nth: "ts' ! j = (if j = i then pc' else ts ! j)" "length ts' = length ts" if "j < length ts" for j
    using that i(3) by simp_all
  have here: "ts' ! i = pc'" "length ts' = length ts" using i(1,3) by simp_all
  have "(\<exists>pc \<in> set ts'. failed pc) \<or>
      (\<forall>m < length (mutexes sh'). mutexes sh' ! m = Locked \<longrightarrow> (\<exists>j < length ts'. holds (ts' ! j) = Some m))"
  proof (cases "(\<exists>pc \<in> set ts. failed pc) \<or> failed pc'")
    case True
    have "ts ! j \<in> set ts' \<or> j = i" if "j < length ts" for j
      using nth that by (metis nth_mem)
    moreover have "\<not> failed (ts ! i)" using i(2) by (cases "ts ! i") simp_all
    moreover have "pc' \<in> set ts'" using here i(1) nth_mem by metis
    moreover have "\<exists>j < length ts. failed (ts ! j)" if "\<not> failed pc'"
      using True that by (metis in_set_conv_nth)
    ultimately have "\<exists>pc \<in> set ts'. failed pc" by blast
    then show ?thesis by blast
  next
    case False
    have "\<exists>j < length ts'. holds (ts' ! j) = Some m" if m: "m < length (mutexes sh')" "mutexes sh' ! m = Locked" for m
    proof (cases "holds pc' = Some m")
      case True
      then show ?thesis using here i(1) by auto
    next
      case other: False
      have "mutexes sh' = mutexes sh \<and> holds pc' = holds (ts ! i) \<or>
          (\<exists>n. holds (ts ! i) = None \<and> holds pc' = Some n \<and> mutexes sh' = (mutexes sh)[n := Locked]) \<or>
          (\<exists>n. holds (ts ! i) = Some n \<and> mutexes sh' = (mutexes sh)[n := Unlocked]) \<or>
          holds (ts ! i) = None \<and> mutexes sh' = mutexes sh @ [Unlocked]"
        using thread_step_keeps [OF i(2)] False by blast
      then have "mutexes sh ! m = Locked \<and> m < length (mutexes sh) \<and> holds (ts ! i) \<noteq> Some m"
        using m other exclusiveD(1) [OF L(1) i(1)]
        by (elim disjE exE conjE) (auto simp: nth_list_update nth_append split: if_splits)
      with False L(4) obtain j where "j < length ts" "holds (ts ! j) = Some m" "j \<noteq> i" by blast
      then show ?thesis using nth by metis
    qed
    then show ?thesis by blast
  qed
  then show ?thesis using conc_step_exclusive [OF assms(1) L(1)] p(1) w unfolding live_def by blast
qed

lemma relpowp_live:
  "(conc_step S u ^^ n) (ops, sh0) (ts, sh) \<Longrightarrow> live ops sh0 \<Longrightarrow> live ts sh"
proof (induction n arbitrary: ts sh)
  case (Suc n)
  then show ?case by (auto intro: conc_step_live)
qed simp

lemma live_stuck:
  assumes "live ts sh" "\<nexists>s. conc_step S u (ts, sh) s" "\<forall>pc \<in> set ts. \<not> failed pc"
  shows "(\<forall>pc \<in> set ts. finished pc) \<and> set (mutexes sh) \<subseteq> {Unlocked}"
proof -
  have none: "thread_step S u (ts ! i) sh = None" if "i < length ts" for i
  proof (rule ccontr)
    assume "thread_step S u (ts ! i) sh \<noteq> None"
    then obtain pc' sh' where "thread_step S u (ts ! i) sh = Some (pc', sh')" by auto
    from conc_step.step [OF that this] assms(2) show False by blast
  qed
  have held: "\<exists>i < length ts. holds (ts ! i) = Some m" if "m < length (mutexes sh)" "mutexes sh ! m = Locked" for m
    using assms(1,3) that unfolding live_def by blast
  have "holds pc = Some m \<Longrightarrow> thread_step S u pc sh \<noteq> None" for pc m by (cases pc) simp_all
  with none held have free: "mutexes sh ! m = Unlocked" if "m < length (mutexes sh)" for m
    using that by (metis mutex.exhaust)
  have "finished (ts ! i)" if i: "i < length ts" for i
  proof -
    have "acquire m sh \<noteq> None" if "waits (ts ! i) = Some m" for m
    proof -
      have "m < length (mutexes sh)" using assms(1) i that unfolding live_def waits_ok_def by auto
      with free show ?thesis by (simp add: acquire_def)
    qed
    then show ?thesis using thread_step_stuck [OF none [OF i]] assms(3) i by auto
  qed
  then have "\<forall>pc \<in> set ts. finished pc" by (metis in_set_conv_nth)
  moreover have "set (mutexes sh) \<subseteq> {Unlocked}"
  proof
    fix x assume "x \<in> set (mutexes sh)"
    then show "x \<in> {Unlocked}" using free by (metis in_set_conv_nth singletonI)
  qed
  ultimately show ?thesis by blast
qed

text \<open>
  C19. No deadlock, and no waiting for ever: whatever puts and gets are started at one time, on new keys or old
  ones, a run of theirs has at most 8 steps per call, and as long as none of them has thrown, some call can go
  on, or all have returned and every mutex is free again.
\<close>

theorem calls_never_deadlock:
  assumes "locks_ok sh0" "set (mutexes sh0) \<subseteq> {Unlocked}"
    and "\<forall>pc \<in> set ops. (\<exists>p. pc = PutFind p) \<or> (\<exists>k. pc = GetFind k)"
    and "(conc_step S u ^^ n) (ops, sh0) (ts, sh)" "\<forall>pc \<in> set ts. \<not> failed pc"
  shows "n \<le> 8 * length ops \<and>
    ((\<exists>s. conc_step S u (ts, sh) s) \<or> (\<forall>pc \<in> set ts. finished pc) \<and> set (mutexes sh) \<subseteq> {Unlocked})"
proof -
  have free: "mutexes sh0 ! m \<noteq> Locked" if "m < length (mutexes sh0)" for m
    using assms(2) nth_mem [OF that] by auto
  have start: "holds pc = None \<and> waits pc = None" if "pc \<in> set ops" for pc using assms(3) that by auto
  then have "exclusive ops sh0" by (simp add: exclusive_def)
  moreover have "pointers_ok sh0" using assms(1) by (simp add: locks_ok_def pointers_ok_def)
  ultimately have "live ops sh0" using free start unfolding live_def waits_ok_def by simp
  from relpowp_live [OF assms(4) this] have "live ts sh" .
  note stuck = live_stuck [OF this _ assms(5)]
  have "sum_list (map steps_left ops) \<le> 8 * length ops"
    by (induction ops) (simp_all add: steps_left_le add_le_mono)
  then have "n \<le> 8 * length ops" using run_length [OF assms(4)] by linarith
  then show ?thesis using stuck by blast
qed

theorem calls_never_deadlock_witness:
  "\<exists>n ts sh. (conc_step list_ops 0 ^^ n) ([PutFind (put_of ''c'' ''3'' 6), GetFind ''a''], two_records) (ts, sh) \<and>
    n \<le> 16 \<and> (\<forall>pc \<in> set ts. finished pc) \<and> set (mutexes sh) \<subseteq> {Unlocked}"
proof -
  let ?ops = "[PutFind (put_of ''c'' ''3'' 6), GetFind ''a'']"
  let ?s = "run_schedule list_ops 0 [1, 0, 1, 1, 1, 0, 1, 0, 0, 0, 0, 0, 0] (?ops, two_records)"
  obtain ts sh where s: "?s = (ts, sh)" by fastforce
  have "list_all (\<lambda>pc. finished pc \<and> \<not> failed pc) (fst ?s)" by code_simp
  then have f: "\<forall>pc \<in> set ts. finished pc" "\<forall>pc \<in> set ts. \<not> failed pc" unfolding s by (simp_all add: list_all_iff)
  note stuck = finished_stuck [OF f(1), of list_ops 0 sh]
  from run_schedule_steps [of list_ops 0 "(?ops, two_records)" "[1, 0, 1, 1, 1, 0, 1, 0, 0, 0, 0, 0, 0]"]
  obtain n where n: "(conc_step list_ops 0 ^^ n) (?ops, two_records) (ts, sh)" unfolding s by (metis rtranclp_power)
  have "set (mutexes two_records) \<subseteq> {Unlocked}" by (simp add: two_records_def)
  from calls_never_deadlock [OF two_records_locks this _ n f(2)] stuck n show ?thesis by auto
qed

section \<open>Calls on keys that are in the table\<close>

text \<open>
  A table between calls: map and locks have the same keys, every record is under its key, and all mutexes are
  free. A call on a key of the table needs no new mutex and no flush.
\<close>

definition table_ok :: "'w shared \<Rightarrow> bool" where
  "table_ok sh \<longleftrightarrow> locks_ok sh \<and> map_ok (sh_mem sh) \<and> set (mutexes sh) \<subseteq> {Unlocked} \<and>
     (\<forall>k. map_find k (sh_locks sh) = None \<longleftrightarrow> map_find k (sh_mem sh) = None) \<and>
     (\<forall>k p. map_find k (sh_mem sh) = Some p \<longrightarrow> key p = k)"

definition known_call :: "'w shared \<Rightarrow> pc \<Rightarrow> bool" where
  "known_call sh pc \<longleftrightarrow> (\<exists>p. pc = PutFind p \<and> map_find (key p) (sh_mem sh) \<noteq> None) \<or>
     (\<exists>k. pc = GetFind k \<and> map_find k (sh_mem sh) \<noteq> None)"

text \<open>
  A record that may be under a key: the one of the table at the start or one that some call puts there, and
  not older than the one at the start.
\<close>

definition written :: "kv_fun \<Rightarrow> pc list \<Rightarrow> string \<Rightarrow> kvs_payload \<Rightarrow> bool" where
  "written M ops k q \<longleftrightarrow> (\<exists>q0. M k = Some q0 \<and> sint (txn_timestamp q0) \<le> sint (txn_timestamp q) \<and>
     (q = q0 \<or> PutFind q \<in> set ops)) \<and> key q = k"

text \<open>The call that a thread makes, and what is true of its variables, for the map of keys to records.\<close>

fun call_of :: "pc \<Rightarrow> pc" where
  "call_of (PutLock p m) = PutFind p"
| "call_of (PutRead p m) = PutFind p"
| "call_of (PutStore p m) = PutFind p"
| "call_of (PutUnlock p m b) = PutFind p"
| "call_of (PutDone p b) = PutFind p"
| "call_of (GetAt k) = GetFind k"
| "call_of (GetLock k m) = GetFind k"
| "call_of (GetRead k m) = GetFind k"
| "call_of (GetUnlock k m q) = GetFind k"
| "call_of (GetDone k q) = GetFind k"
| "call_of pc = pc"

definition newer_there :: "kv_fun \<Rightarrow> kvs_payload \<Rightarrow> bool" where
  "newer_there M p \<longleftrightarrow> (\<exists>q. M (key p) = Some q \<and> sint (txn_timestamp p) \<le> sint (txn_timestamp q))"

fun pc_ok :: "(string \<Rightarrow> kvs_payload \<Rightarrow> bool) \<Rightarrow> nat omap \<Rightarrow> kv_fun \<Rightarrow> pc \<Rightarrow> bool" where
  "pc_ok W L M (PutFind p) \<longleftrightarrow> map_find (key p) L \<noteq> None"
| "pc_ok W L M (PutLock p m) \<longleftrightarrow> map_find (key p) L = Some m"
| "pc_ok W L M (PutRead p m) \<longleftrightarrow> map_find (key p) L = Some m"
| "pc_ok W L M (PutStore p m) \<longleftrightarrow> map_find (key p) L = Some m \<and>
     (\<exists>q. M (key p) = Some q \<and> sint (txn_timestamp q) < sint (txn_timestamp p))"
| "pc_ok W L M (PutUnlock p m b) \<longleftrightarrow> newer_there M p"
| "pc_ok W L M (PutDone p b) \<longleftrightarrow> newer_there M p"
| "pc_ok W L M (GetFind k) \<longleftrightarrow> map_find k L \<noteq> None"
| "pc_ok W L M (GetAt k) \<longleftrightarrow> map_find k L \<noteq> None"
| "pc_ok W L M (GetLock k m) \<longleftrightarrow> map_find k L = Some m"
| "pc_ok W L M (GetRead k m) \<longleftrightarrow> map_find k L = Some m"
| "pc_ok W L M (GetUnlock k m q) \<longleftrightarrow> W k q"
| "pc_ok W L M (GetDone k q) \<longleftrightarrow> W k q"
| "pc_ok W L M pc \<longleftrightarrow> False"

definition sh_map :: "'w shared \<Rightarrow> kv_fun" where
  "sh_map sh k = map_find k (sh_mem sh)"

definition calls_ok :: "'w shared \<Rightarrow> pc list \<Rightarrow> pc list \<Rightarrow> 'w shared \<Rightarrow> bool" where
  "calls_ok sh0 ops ts sh \<longleftrightarrow> locks_ok sh \<and> map_ok (sh_mem sh) \<and> sh_locks sh = sh_locks sh0 \<and>
     map call_of ts = ops \<and> exclusive ts sh \<and>
     (\<forall>m < length (mutexes sh). mutexes sh ! m = Locked \<longrightarrow> (\<exists>pc \<in> set ts. holds pc = Some m)) \<and>
     (\<forall>k. map_find k (sh_locks sh) = None \<longleftrightarrow> sh_map sh k = None) \<and>
     (\<forall>k q. sh_map sh k = Some q \<longrightarrow> written (sh_map sh0) ops k q) \<and>
     (\<forall>pc \<in> set ts. pc_ok (written (sh_map sh0) ops) (sh_locks sh) (sh_map sh) pc)"

text \<open>A step of a thread that is on such a call.\<close>

lemma thread_step_known:
  assumes "thread_step S u pc sh = Some (pc', sh')" "pc_ok W (sh_locks sh) (sh_map sh) pc"
    and "\<forall>k. map_find k (sh_locks sh) = None \<longleftrightarrow> sh_map sh k = None" "\<forall>k q. sh_map sh k = Some q \<longrightarrow> W k q"
  shows "sh_locks sh' = sh_locks sh \<and> length (mutexes sh') = length (mutexes sh) \<and> call_of pc' = call_of pc \<and>
    (\<forall>n. holds pc = Some n \<longrightarrow> holds pc' = Some n \<or> mutexes sh' = (mutexes sh)[n := Unlocked]) \<and>
    (sh_mem sh' = sh_mem sh \<and> pc_ok W (sh_locks sh) (sh_map sh) pc' \<or>
     (\<exists>p m. pc = PutStore p m \<and> pc' = PutUnlock p m True \<and> sh_mem sh' = map_assign (key p) p (sh_mem sh)))"
proof (cases pc)
  case (PutRead p m)
  then obtain q where "sh_map sh (key p) = Some q" using assms(2,3) by (metis not_None_eq option.distinct(1) pc_ok.simps(3))
  then show ?thesis using assms(1) PutRead assms(2)
    by (auto simp: sh_map_def newer_there_def split: if_splits)
next
  case (GetRead k m)
  then obtain q where "sh_map sh k = Some q" using assms(2,3) by (metis not_None_eq option.distinct(1) pc_ok.simps(10))
  then show ?thesis using assms(1,4) GetRead assms(2) by (auto simp: sh_map_def map_at_def)
qed (use assms in \<open>auto simp: acquire_def release_def map_at_def split: option.splits if_splits\<close>)

text \<open>A store of a newer record keeps what is true of the other threads.\<close>

lemma pc_ok_store:
  assumes "pc_ok W L M pc" "M (key p) = Some q" "sint (txn_timestamp q) < sint (txn_timestamp p)"
    and "\<And>p' m. pc = PutStore p' m \<Longrightarrow> key p' \<noteq> key p"
  shows "pc_ok W L (M(key p \<mapsto> p)) pc"
  using assms by (cases pc) (auto simp: newer_there_def)

lemma written_store: "sh_map sh0 k = Some q0 \<Longrightarrow> written (sh_map sh0) ops k q \<Longrightarrow> PutFind p \<in> set ops \<Longrightarrow>
    key p = k \<Longrightarrow> sint (txn_timestamp q) < sint (txn_timestamp p) \<Longrightarrow> written (sh_map sh0) ops k p"
  by (auto simp: written_def)

lemma calls_ok_start:
  assumes "table_ok sh" "\<forall>pc \<in> set ops. known_call sh pc"
  shows "calls_ok sh ops ops sh"
proof -
  have "call_of pc = pc \<and> holds pc = None \<and> pc_ok (written (sh_map sh) ops) (sh_locks sh) (sh_map sh) pc"
    if "pc \<in> set ops" for pc
  proof -
    have "known_call sh pc" using assms(2) that by blast
    then show ?thesis using assms(1) unfolding known_call_def table_ok_def by auto
  qed
  note ops = this
  then have "map call_of ops = ops" "exclusive ops sh" by (simp_all add: map_idI exclusive_def)
  moreover have "mutexes sh ! m \<noteq> Locked" if "m < length (mutexes sh)" for m
    using assms(1) nth_mem [OF that] unfolding table_ok_def by (metis insertE emptyE mutex.distinct(1) subsetD)
  ultimately show ?thesis
    using assms(1) ops unfolding calls_ok_def table_ok_def by (auto simp: sh_map_def written_def)
qed

lemma calls_ok_step:
  assumes "conc_step S u (ts, sh) (ts', sh')" "calls_ok sh0 ops ts sh"
  shows "calls_ok sh0 ops ts' sh'"
proof -
  from assms(1) obtain i pc' where i: "i < length ts" "thread_step S u (ts ! i) sh = Some (pc', sh')" "ts' = ts[i := pc']"
    by (auto elim: conc_stepE)
  let ?W = "written (sh_map sh0) ops"
  have c: "locks_ok sh" "map_ok (sh_mem sh)" "sh_locks sh = sh_locks sh0" "map call_of ts = ops" "exclusive ts sh"
    "\<And>m. m < length (mutexes sh) \<Longrightarrow> mutexes sh ! m = Locked \<Longrightarrow> \<exists>pc \<in> set ts. holds pc = Some m"
    "\<forall>k. map_find k (sh_locks sh) = None \<longleftrightarrow> sh_map sh k = None" "\<forall>k q. sh_map sh k = Some q \<longrightarrow> ?W k q"
    "\<And>j. j < length ts \<Longrightarrow> pc_ok ?W (sh_locks sh) (sh_map sh) (ts ! j)"
    using assms(2) nth_mem unfolding calls_ok_def by blast+
  note k = thread_step_known [OF i(2) c(9) [OF i(1)] c(7,8)]
  have len: "length (mutexes sh') = length (mutexes sh)" "length ts' = length ts" using k i(3) by simp_all
  have "locks_ok sh'" using c(1) k by (simp add: locks_ok_def)
  moreover have "map call_of ts' = ops"
  proof -
    have "map call_of ts' = (map call_of ts)[i := map call_of ts ! i]" using k i by (simp add: map_update)
    then show ?thesis using c(4) by simp
  qed
  moreover have "exclusive ts' sh'" by (rule conc_step_exclusive [OF assms(1) c(5)])
  moreover have "\<exists>pc \<in> set ts'. holds pc = Some m" if m: "m < length (mutexes sh')" "mutexes sh' ! m = Locked" for m
  proof (cases "holds pc' = Some m")
    case True
    then show ?thesis using i(1,3) by (auto intro: set_update_memI)
  next
    case False
    then have "mutexes sh ! m = Locked"
      using thread_step_mutexes [OF i(2)] m len(1) exclusiveD(1) [OF c(5) i(1)]
      by (elim disjE exE conjE) (simp_all add: nth_list_update split: if_splits)
    then obtain j where j: "j < length ts" "holds (ts ! j) = Some m"
      using c(6) m len(1) by (metis in_set_conv_nth)
    have "j \<noteq> i" using k False j m by (metis nth_list_update_eq len(1) mutex.distinct(1))
    then have "ts' ! j = ts ! j" using i(3) by simp
    then show ?thesis using j len(2) by (metis nth_mem)
  qed
  moreover have "map_ok (sh_mem sh') \<and> (\<forall>k. map_find k (sh_locks sh') = None \<longleftrightarrow> sh_map sh' k = None) \<and>
      (\<forall>k q. sh_map sh' k = Some q \<longrightarrow> ?W k q) \<and> (\<forall>pc \<in> set ts'. pc_ok ?W (sh_locks sh') (sh_map sh') pc)"
  proof (cases "sh_mem sh' = sh_mem sh \<and> pc_ok ?W (sh_locks sh) (sh_map sh) pc'")
    case True
    then have m: "sh_map sh' = sh_map sh" by (simp add: sh_map_def fun_eq_iff)
    have "set ts' \<subseteq> insert pc' (set ts)" unfolding i(3) by (rule set_update_subset_insert)
    then have "\<forall>pc \<in> set ts'. pc_ok ?W (sh_locks sh') (sh_map sh') pc"
      using True c(9) k unfolding m by (metis in_set_conv_nth insertE subsetD)
    then show ?thesis using True c(2,7,8) k unfolding m by simp
  next
    case False
    then obtain p m where p: "ts ! i = PutStore p m" "pc' = PutUnlock p m True"
      "sh_mem sh' = map_assign (key p) p (sh_mem sh)" using k by blast
    have m: "sh_map sh' = (sh_map sh)(key p \<mapsto> p)"
      using map_find_assign [OF c(2)] by (auto simp: sh_map_def p(3) fun_eq_iff)
    obtain q where q: "map_find (key p) (sh_locks sh) = Some m" "sh_map sh (key p) = Some q"
      "sint (txn_timestamp q) < sint (txn_timestamp p)" using c(9) [OF i(1)] unfolding p(1) by auto
    have "PutFind p \<in> set ops"
      using i(1) p(1) unfolding c(4) [symmetric] by (metis call_of.simps(3) image_eqI list.set_map nth_mem)
    moreover obtain q0 where "sh_map sh0 (key p) = Some q0" using c(8) q(2) unfolding written_def by blast
    ultimately have W: "?W (key p) p" using written_store c(8) q(2,3) by blast
    have others: "pc_ok ?W (sh_locks sh) (sh_map sh') (ts' ! j)" if "j < length ts" for j
    proof (cases "j = i")
      case True
      then show ?thesis using i(1,3) p(2) by (simp add: m newer_there_def)
    next
      case False
      have "key p' \<noteq> key p" if "ts ! j = PutStore p' m'" for p' m'
      proof
        assume "key p' = key p"
        moreover have "map_find (key p') (sh_locks sh) = Some m'" using c(9) [OF \<open>j < length ts\<close>] that by simp
        ultimately have "holds (ts ! j) = Some m" "holds (ts ! i) = Some m" using q(1) that p(1) by simp_all
        then show False using exclusiveD(3) [OF c(5) i(1)] \<open>j < length ts\<close> False by blast
      qed
      then show ?thesis using pc_ok_store [OF c(9) [OF that] q(2,3)] False i(3) unfolding m by simp
    qed
    then have "\<forall>pc \<in> set ts'. pc_ok ?W (sh_locks sh') (sh_map sh') pc" using k len(2) by (metis in_set_conv_nth)
    moreover have "sh_locks sh' = sh_locks sh" using k by simp
    ultimately show ?thesis using c(2,7,8) W q(1,2) map_ok_assign unfolding m p(3) by simp
  qed
  ultimately show ?thesis using k c(3) unfolding calls_ok_def by simp
qed

lemma calls_ok_run:
  assumes "(conc_step S u)\<^sup>*\<^sup>* s s'" "calls_ok sh0 ops (fst s) (snd s)"
  shows "calls_ok sh0 ops (fst s') (snd s')"
  using assms
proof (induction rule: rtranclp_induct)
  case (step s1 s2)
  then show ?case by (cases s1; cases s2) (auto intro: calls_ok_step)
qed simp

text \<open>Progress: a thread that holds a mutex can go on, and if none does, nobody waits.\<close>

lemma thread_step_None:
  assumes "thread_step S u pc sh = None" "pc_ok W (sh_locks sh) M pc" "locks_ok sh" "\<not> finished pc"
  obtains m where "m < length (mutexes sh)" "mutexes sh ! m = Locked"
proof -
  have l: "m < length (mutexes sh)" if "map_find k (sh_locks sh) = Some m" for k m
    by (rule locks_ok_pointer [OF assms(3) that])
  have "mutexes sh ! m = Locked" if "mutexes sh ! m \<noteq> Unlocked" for m using that by (cases "mutexes sh ! m") simp_all
  then show thesis
    using assms that l by (cases pc) (auto simp: acquire_def split: if_splits)
qed

lemma holder_goes_on: "holds pc = Some m \<Longrightarrow> thread_step S u pc sh \<noteq> None"
  by (cases pc) simp_all

lemma stuck_finished:
  assumes "calls_ok sh0 ops ts sh" "\<nexists>s. conc_step S u (ts, sh) s"
  shows "\<forall>pc \<in> set ts. finished pc"
proof (rule ccontr)
  have none: "thread_step S u pc sh = None" if ts: "pc \<in> set ts" for pc
  proof (rule ccontr)
    assume "thread_step S u pc sh \<noteq> None"
    then obtain pc' sh' where "thread_step S u pc sh = Some (pc', sh')" by auto
    moreover obtain i where "i < length ts" "ts ! i = pc" using ts unfolding in_set_conv_nth by blast
    ultimately show False using assms(2) conc_step.step by blast
  qed
  assume "\<not> (\<forall>pc \<in> set ts. finished pc)"
  then obtain pc where pc: "pc \<in> set ts" "\<not> finished pc" by blast
  from assms(1) pc(1) have "pc_ok (written (sh_map sh0) ops) (sh_locks sh) (sh_map sh) pc" "locks_ok sh"
    unfolding calls_ok_def by blast+
  from thread_step_None [OF none [OF pc(1)] this pc(2)] obtain m where "m < length (mutexes sh)" "mutexes sh ! m = Locked" .
  with assms(1) obtain pc' where "pc' \<in> set ts" "holds pc' = Some m" unfolding calls_ok_def by blast
  with none holder_goes_on show False by metis
qed

text \<open>
  C16. Any number of concurrent puts and gets of keys that are in the table, in any order of their steps: they
  never wait for each other in a circle, so that a run that cannot go on has finished all calls; then the
  table has under every key the newest of the records that were there or were put, and nothing else; and a
  get has returned a record that was there or was put.
\<close>

theorem concurrent_calls_keep_newest:
  assumes "table_ok sh0" "\<forall>pc \<in> set ops. known_call sh0 pc"
    and "(conc_step S u)\<^sup>*\<^sup>* (ops, sh0) (ts, sh)" "\<nexists>s. conc_step S u (ts, sh) s"
  shows "(\<forall>pc \<in> set ts. (\<exists>p b. pc = PutDone p b) \<or> (\<exists>k q. pc = GetDone k q \<and> written (sh_map sh0) ops k q)) \<and>
    dom (sh_map sh) = dom (sh_map sh0) \<and>
    (\<forall>k q. sh_map sh k = Some q \<longrightarrow> written (sh_map sh0) ops k q \<and>
      (\<forall>p. PutFind p \<in> set ops \<and> key p = k \<longrightarrow> sint (txn_timestamp p) \<le> sint (txn_timestamp q)))"
proof -
  have ok: "calls_ok sh0 ops ts sh"
    using calls_ok_run [OF assms(3)] calls_ok_start [OF assms(1,2)] by simp
  note fin = stuck_finished [OF ok assms(4)]
  have pc: "pc_ok (written (sh_map sh0) ops) (sh_locks sh) (sh_map sh) pc" if "pc \<in> set ts" for pc
    using ok that unfolding calls_ok_def by blast
  have "(\<exists>p b. pc = PutDone p b) \<or> (\<exists>k q. pc = GetDone k q \<and> written (sh_map sh0) ops k q)" if "pc \<in> set ts" for pc
    using fin pc that by (cases pc) fastforce+
  moreover have "dom (sh_map sh) = dom (sh_map sh0)"
  proof -
    have "sh_map sh k = None \<longleftrightarrow> map_find k (sh_locks sh) = None" "sh_locks sh = sh_locks sh0"
      "sh_map sh0 k = None \<longleftrightarrow> map_find k (sh_locks sh0) = None" for k
      using ok assms(1) unfolding calls_ok_def table_ok_def sh_map_def by metis+
    then have "sh_map sh k = None \<longleftrightarrow> sh_map sh0 k = None" for k by simp
    then show ?thesis by (simp add: dom_def)
  qed
  moreover have "sint (txn_timestamp p) \<le> sint (txn_timestamp q)"
    if "PutFind p \<in> set ops" "sh_map sh (key p) = Some q" for p q
  proof -
    have "map call_of ts = ops" using ok by (simp add: calls_ok_def)
    with that(1) have "PutFind p \<in> call_of ` set ts" by auto
    then obtain pc where "pc \<in> set ts" "call_of pc = PutFind p" by auto
    moreover from this fin have "finished pc" by blast
    with \<open>call_of pc = PutFind p\<close> obtain b where "pc = PutDone p b" by (cases pc) simp_all
    ultimately have "newer_there (sh_map sh) p" using pc by fastforce
    then show ?thesis using that(2) by (auto simp: newer_there_def)
  qed
  moreover have "sh_map sh k = Some q \<Longrightarrow> written (sh_map sh0) ops k q" for k q
    using ok by (simp add: calls_ok_def)
  ultimately show ?thesis by blast
qed

lemma two_records_ok: "table_ok two_records"
  by (auto simp: table_ok_def two_records_locks) (auto simp: two_records_def put_of_def split: if_splits)

theorem concurrent_calls_keep_newest_witness:
  "\<exists>ts sh. run_schedule list_ops 0 [0, 1, 0, 0, 1, 2, 0, 0, 1, 1, 2, 1, 1, 2, 2, 2]
      ([PutFind (put_of ''a'' ''4'' 7), PutFind (put_of ''a'' ''3'' 6), GetFind ''b''], two_records) = (ts, sh) \<and>
    (\<forall>q. sh_map sh ''a'' = Some q \<longrightarrow> 7 \<le> sint (txn_timestamp q)) \<and> dom (sh_map sh) = {''a'', ''b''}"
proof -
  let ?ops = "[PutFind (put_of ''a'' ''4'' 7), PutFind (put_of ''a'' ''3'' 6), GetFind ''b'']"
  let ?sch = "[0, 1, 0, 0, 1, 2, 0, 0, 1, 1, 2, 1, 1, 2, 2, 2] :: nat list"
  let ?s = "run_schedule list_ops 0 ?sch (?ops, two_records)"
  obtain ts sh where s: "?s = (ts, sh)" by fastforce
  have "list_all finished (fst ?s)" by code_simp
  then have "\<forall>pc \<in> set ts. finished pc" unfolding s by (simp add: list_all_iff)
  note stuck = finished_stuck [OF this, of list_ops 0 sh]
  have run: "(conc_step list_ops 0)\<^sup>*\<^sup>* (?ops, two_records) (ts, sh)"
    using run_schedule_steps [of list_ops 0 "(?ops, two_records)" ?sch] unfolding s .
  have known: "\<forall>pc \<in> set ?ops. known_call two_records pc" by (simp add: known_call_def two_records_def put_of_def)
  have "dom (sh_map two_records) = {''a'', ''b''}" by (auto simp: sh_map_def two_records_def dom_def split: if_splits)
  moreover have "key (put_of ''a'' ''4'' 7) = ''a''" "sint (txn_timestamp (put_of ''a'' ''4'' 7)) = 7"
    by (simp_all add: put_of_def)
  ultimately show ?thesis
    using concurrent_calls_keep_newest [OF two_records_ok known run stuck] s by fastforce
qed

section \<open>What goes wrong\<close>

lemma flush_table_not_full:
  assumes "length (sh_mem sh) < unat (sh_max sh)"
  shows "flush_table S sh = Inr None"
proof -
  have "unat (sh_max sh) < 2 ^ 64" using unsigned_less [of "sh_max sh"] by simp
  then have "unat (of_nat (length (sh_mem sh)) :: size_t) = length (sh_mem sh)"
    using assms by (intro unat_of_nat_small) simp
  then have "\<not> of_nat (length (sh_mem sh)) \<ge> sh_max sh" using assms by (simp add: word_le_nat_alt)
  then show ?thesis by (simp add: flush_table_def)
qed

text \<open>
  C20. The search for the mutex of a key and its creation are not one step. On any table that is not full, two
  puts of a key that it lacks can both report success and leave the older record; and a get during the put
  of such a key can throw \<open>out_of_range\<close>.
\<close>

theorem concurrent_puts_of_new_key:
  assumes "map_find (key p) (sh_locks sh) = None" "map_find (key p) (sh_mem sh) = None"
    and "map_ok (sh_locks sh)" "map_ok (sh_mem sh)" "length (sh_mem sh) < unat (sh_max sh)"
    and "key q = key p" "sint (txn_timestamp q) < sint (txn_timestamp p)"
  shows "(\<exists>sh'. (conc_step S u)\<^sup>*\<^sup>* ([PutFind p, PutFind q], sh) ([PutDone p True, PutDone q True], sh') \<and>
      sh_map sh' = (sh_map sh)(key p \<mapsto> q)) \<and>
    (\<exists>pc sh'. (conc_step S u)\<^sup>*\<^sup>* ([PutFind p, GetFind (key p)], sh) ([pc, Failed (Out_of_range ''map::at'')], sh'))"
proof -
  let ?k = "key p" and ?n = "length (mutexes sh)"
  note free = flush_table_not_full [OF assms(5), of S]
  note simps = free assms(1,2,6) acquire_def release_def map_at_def nth_append
  let ?puts = "[0, 1, 0, 1, 0, 0, 0, 0, 1, 1, 1, 1] :: nat list"
  define sh' where "sh' = snd (run_schedule S u ?puts ([PutFind p, PutFind q], sh))"
  have "fst (run_schedule S u ?puts ([PutFind p, PutFind q], sh)) = [PutDone p True, PutDone q True] \<and>
      sh_mem (snd (run_schedule S u ?puts ([PutFind p, PutFind q], sh))) = map_assign ?k q (map_assign ?k p (sh_mem sh))"
    by (simp add: simps)
  then have run: "run_schedule S u ?puts ([PutFind p, PutFind q], sh) = ([PutDone p True, PutDone q True], sh')"
    and mem: "sh_mem sh' = map_assign ?k q (map_assign ?k p (sh_mem sh))"
    unfolding sh'_def by (simp_all only: prod_eq_iff fst_conv snd_conv simp_thms)
  have "sh_map sh' = (sh_map sh)(?k \<mapsto> q)"
    using assms(4) by (simp add: fun_eq_iff sh_map_def mem map_find_assign map_ok_assign)
  then have "\<exists>sh'. (conc_step S u)\<^sup>*\<^sup>* ([PutFind p, PutFind q], sh) ([PutDone p True, PutDone q True], sh') \<and>
      sh_map sh' = (sh_map sh)(?k \<mapsto> q)"
    using run_schedule_steps [of S u "([PutFind p, PutFind q], sh)" ?puts] unfolding run by blast
  moreover have "run_schedule S u [0, 0, 0, 1, 1, 1, 1] ([PutFind p, GetFind ?k], sh) =
      ([PutLockNew p ?n, Failed (Out_of_range ''map::at'')],
       sh\<lparr>mutexes := mutexes sh @ [Locked], sh_locks := map_assign ?k ?n (sh_locks sh)\<rparr>)"
    by (simp add: simps)
  then have "\<exists>pc sh'. (conc_step S u)\<^sup>*\<^sup>* ([PutFind p, GetFind ?k], sh) ([pc, Failed (Out_of_range ''map::at'')], sh')"
    using run_schedule_steps [of S u "([PutFind p, GetFind ?k], sh)" "[0, 0, 0, 1, 1, 1, 1]"] by metis
  ultimately show ?thesis by blast
qed

definition one_record :: "CapsuleBlock list shared" where
  "one_record = \<lparr>sh_max = 2, sh_mem = [(''a'', put_of ''a'' ''1'' 5)], sh_locks = [(''a'', 0)],
     mutexes = [Unlocked], sh_index = CapsuleIndex_new 2, sh_world = []\<rparr>"

theorem concurrent_puts_of_new_key_witness:
  "\<exists>sh'. (conc_step list_ops 0)\<^sup>*\<^sup>*
      ([PutFind (put_of ''k'' ''new'' 9), PutFind (put_of ''k'' ''old'' 8)], one_record)
      ([PutDone (put_of ''k'' ''new'' 9) True, PutDone (put_of ''k'' ''old'' 8) True], sh') \<and>
    sh_map sh' ''k'' = Some (put_of ''k'' ''old'' 8)"
  using concurrent_puts_of_new_key [of "put_of ''k'' ''new'' 9" one_record "put_of ''k'' ''old'' 8" list_ops 0]
  by (auto simp: put_of_def one_record_def)




end
