(* ===== verification/Spec2Isabelle.thy ===== *)
theory Spec2Isabelle
  imports Growth BloomExact UuidStream Endian SerializeTuple BloomExampleProps Runs ProtoWire Integrity Endpoints TestClient TestPrograms ThreadProps
begin

text \<open>
  A model of CapsuleDB, a key-value store after the fashion of a log-structured merge tree whose blocks are
  kept in a DataCapsule, with proofs of what its parts promise. The paths below are relative to
  \<open>src/src\<close>.

  \<^bold>\<open>The program.\<close> The engine (\<open>core/engine.cc\<close>) has a memtable (\<open>core/memtable.cc\<close>) in front of an index
  (\<open>core/index.cc\<close>). A put goes to the memtable. When the memtable is full its records are sorted into a
  block, the block is stored under its hash (\<open>core/fakeCapsule.cc\<close> through \<open>core/capsuleBlock.cc\<close>), and its
  header is added to level 0 of the index. The index has levels (\<open>core/level.cc\<close>) of headers with the least
  and greatest key of their blocks; when a level overflows, some or all of its blocks are merged into the
  next level, ten times as large. A get asks the memtable, then one block of every level from the top. The
  database runs in a server (\<open>network/capsuleDB_server.cc\<close>), in an enclave behind a driver
  (\<open>enclave/\<close>), and in a server in front of that enclave. Records travel between the nodes of the network
  in signed and encrypted capsules (\<open>shared/capsule.h\<close>, \<open>util/proto_util.cc\<close>, \<open>shared/crypto.h\<close>), which an
  older node takes (\<open>network/Old/cdb_network_client.cc\<close>). A level can make a Bloom filter
  (\<open>bloom/bloom_filter.hpp\<close>), which nothing asks yet. Programs under \<open>test_files\<close> try all this. Two more
  vendored libraries, \<open>uuid_v4\<close> and \<open>serialize-tuple\<close>, are not called by the database.

  \<^bold>\<open>Theories.\<close> In the order of their imports:
  \<^item> Prelude: results and errors of fallible code, the widths of C++ integers, \<open>std::sort\<close>.
  \<^item> Capsule (\<open>shared/capsule.h\<close>): the record \<open>kvs_payload\<close>; runs of records and their finite maps.
  \<^item> CapsuleBlock (\<open>core/capsuleBlock.{hh,cc}\<close>): blocks, their bounds, adding records.
  \<^item> BlockStore: the locale \<open>block_store\<close>, the interface that the database has of its storage: storing a
    block gives a name, stored blocks stay readable and unchanged, each put uses up some room.
  \<^item> FakeCapsule (\<open>core/fakeCapsule.cc\<close>, \<open>core/*.proto\<close>): messages, hashing, files; interprets \<open>block_store\<close>.
  \<^item> Level, Index (\<open>core/level.cc\<close>, \<open>core/index.cc\<close>): the operations of levels and of the index.
  \<^item> IndexMerge, IndexSelect, IndexSpec, IndexCompact: the merge of two runs, the choice of the blocks that
    move down, the invariant and the map of an index, and compaction over them.
  \<^item> OrdMap: the locale \<open>ordered_map\<close> of \<open>std::map\<close> with its implementation by sorted lists.
  \<^item> Memtable (\<open>core/memtable.{hpp,cc}\<close>), Engine (\<open>core/engine.cc\<close>).
  \<^item> Database: the locale \<open>kv_database\<close>, the contract of a database with its clients, interpreted by the
    engine; Runs: the database as a state machine with its traces; LevelFill: which levels hold
    blocks after any number of flushes; Growth: how many flushes, blocks and levels a number of puts causes.
  \<^item> ProtoWire: an environment in the protobuf wire format, which shows that the hypotheses can be met.
  \<^item> Integrity: lookups over files that somebody has changed.
  \<^item> Anomalies: two runs in which time stamps do not increase, evaluated.
  \<^item> Threads: the memtable with several callers, whose steps interleave; ThreadProps: mutual exclusion, freedom
    from deadlock, what concurrent calls leave in the table, and the two ways in which they lose a record.
  \<^item> Enclave (\<open>enclave/\<close>): messages, the enclave and its driver, which interprets \<open>kv_database\<close> again.
  \<^item> Server (\<open>network/capsuleDB_server.cc\<close>, \<open>network/capsuleDB_enclave_server.cc\<close>).
  \<^item> BenchOps, BenchLoad1 to 3, BenchRun1 to 5, Benchmark (\<open>shared/benchmark.h\<close>): the generated workload.
  \<^item> Endpoints: the properties of the programs around the engine.
  \<^item> Pdu (\<open>util/proto_util.cc\<close>, \<open>shared/crypto.h\<close>): capsules; writing lists of records and reading them back,
    hashing, signing, verifying, encrypting and decrypting.
  \<^item> NetClient (\<open>network/Old/cdb_network_client.cc\<close>, \<open>test_files/Old/cdb_test.hh\<close>): the node that serves
    capsules, and its client, which sends to a multicast socket and waits for whatever comes back first; PduSample:
    libraries and keys that meet the hypotheses; Network: the properties of capsules, node and client.
  \<^item> TestClient (\<open>test_files/Old/cdb_test.cc\<close>, \<open>Old/cdb_test.hh\<close>): the program around the client of the node,
    with the setting up of its keys and its endless loop, and what it prints with any number of workers.
  \<^item> TestPrograms (\<open>test_files\<close>): the test programs, with what they print.
  \<^item> Bloom (\<open>bloom/bloom_filter.hpp\<close>, \<open>create_filter\<close> in \<open>core/level.cc\<close>): the search for the best parameters,
    salts, hash, table, set operations and the compressible filter, with the arithmetic of \<open>double\<close> in which
    it is compressed by 5 percent; BloomProps: what they promise, with the locale \<open>virtual_indices\<close>, the
    contract of the virtual function \<open>compute_indices\<close>, which the plain and the compressible filter interpret.
  \<^item> BloomParams (\<open>bloom/bloom_filter.hpp\<close>, \<open>core/level.cc\<close>): the search for the best parameters in the
    arithmetic of \<open>double\<close>, whose laws are the locale \<open>double_arith\<close>, \<open>effective_fpp\<close> and the small members;
    BloomExact: the real numbers interpret the locale, and the filter of a level then has at most 128 hashes
    and 10 bits per element, which is what the properties of filters ask for.
  \<^item> BloomExamples (\<open>bloom/bloom_filter_example01.cpp\<close> to \<open>03.cpp\<close>): word lists, outliers and the programs;
    BloomExampleProps: what they do.
  \<^item> Uuid (\<open>uuid_v4/uuid_v4.h\<close>): vector registers as lists of bytes, printing and parsing, the class; UuidProps:
    its properties, and its order as an instance of \<open>linorder\<close>; Endian (\<open>uuid_v4/endianness.h\<close>): the
    reversal of bytes on a big-endian machine, and that it is its own inverse; UuidStream: comparisons, streams
    and the generator.
  \<^item> SerializeTuple (\<open>serialize-tuple/serialize_tuple.h\<close>).

  \<^bold>\<open>State.\<close> C++ objects are records with the members of the class; a member function takes the object and
  returns it updated. The storage is a record of operations over a state \<open>'w\<close>; in the end \<open>'w\<close> is
  \<open>world\<close>, the block counter and the files. Errors (exceptions, undefined behaviour, fatal log lines) are
  the left values of the result type, so that a result \<open>Inr\<close> says that none of them happened. A mutex of
  the memtable is part of its state; locking it twice blocks. With several threads the state is that of the
  memtable with mutexes behind pointers, together with the place in \<open>put\<close> or \<open>get\<close> where each thread stands.

  \<^bold>\<open>What is shown.\<close> The first section here states that the whole database is a last-writer-wins map, over
  any number of flushes and compactions, as long as the time stamps of a key increase; that without that
  hypothesis still no key is lost; and that a reachable database can always go on. Then come the parts: put,
  get, flush, memtable, adding a block, compaction, merge, selection, levels, blocks and the storage, each as
  a statement about its function on every branch. The other theories with properties are Growth, which bounds
  the number of flushes, blocks and levels, Integrity, Anomalies, ThreadProps, Endpoints, Network, TestClient,
  TestPrograms, BloomProps, BloomExampleProps, UuidProps and SerializeTuple. They show that a lookup over changed
  files returns what it would have returned or throws, that concurrent calls on keys of the memtable are safe, that
  concurrent calls never deadlock and free every mutex, that a call alone does what the sequential model says, that the
  server, the enclave and the network node answer like the map for time stamps that increase per key, that sealed
  capsules open and changed ones are ignored, that the tests print what they look for in every round, that a
  Bloom filter has no false negatives, compressed or not, and that its examples run to their end when the search for
  their parameters succeeds, that the vector code prints a UUID like a reference and reads it back, and that a tuple
  is loaded as it was saved. Some properties
  state what the code does where that is not what it should do: a put that is older than the levels, equal
  time stamps, hashes that stop at a zero byte, a memtable of size 0, levels whose size overflows, a lookup
  of the empty key through the enclave, concurrent calls on new keys and during a flush, time stamps beyond
  \<open>int\<close> and delimiters in the values of capsules, the compression of a filter to less than half, a maximum that
  misses new minima, a word list of one word, a hash that reads past the UUID, capital letters and short words
  where a UUID is read, filters made by the default constructor, and statistics of a level that a compaction has emptied.

  \<^bold>\<open>Bounds and fuel.\<close> A memtable has at least 1 and at most 10737 records, so that the size of the sixth
  level, \<open>2 n 10 ^ 5\<close>, is an \<open>int\<close>; \<open>46000 n\<close> puts cause at most 46000 flushes, which write fewer than
  \<open>2 ^ 31 - 1\<close> blocks (the block counter is an \<open>int\<close>) and never fill the sixth level. The recursion of
  \<open>compactHelper\<close> has fuel, one for each level and two to spare; every call goes one level down and the last
  one makes a level that takes its blocks, so that the proofs find the fuel to be enough. The merge loop ends
  by a measure on every input, and so do the search for the best parameters, the rounds of the second example
  and the compressions of the third. The loop that draws more than 128 salts need not end, for it depends on
  \<open>rand\<close>; it has fuel, and the properties of filters are stated for up to 128 salts, which need none. The
  endless loop of the test client is run for a number of rounds, and its property holds for every number for
  which the databases have room and the clock stays an \<open>int\<close>. Its wait for a response polls a socket and may never
  end: it is a partial function, and the property says that it returns.

  \<^bold>\<open>Parameters.\<close> Code outside the repository is an argument: the protobuf library, SHA-256 and the answers of
  the file system (\<open>env\<close>), the parser of requests (\<open>codec\<close>), Asylo's enclave manager (\<open>asylo\<close>), the string and
  cipher functions of Abseil and Asylo (\<open>pdu_lib\<close>), the message class of capsules (\<open>pdu_message\<close>), keys and
  what makes them (\<open>key_lib\<close>), the sockets with the router and the workers behind them (\<open>transport\<close>), and the
  archives of Boost. The predicates \<open>env_ok\<close>, \<open>codec_ok\<close>, \<open>asylo_ok\<close>, \<open>lib_ok\<close>,
  \<open>pdu_message_ok\<close>, \<open>key_pair\<close>, \<open>key_lib_ok\<close>, \<open>in_order\<close> and \<open>archives_ok\<close> state what is documented of them, and
  \<open>wire_env\<close>, \<open>wire_codec\<close>, \<open>direct_asylo\<close>, \<open>sample_lib\<close>, \<open>record_message\<close>, \<open>sample_sign\<close> with \<open>sample_verify\<close>,
  \<open>sample_key_lib\<close>, \<open>sample_transport\<close> and archives that are lists meet them. Clocks, random numbers, the contents of word lists and the values of
  uninitialised memory are arguments. The operations on \<open>double\<close>, with the logarithms and powers of the C library,
  are the record \<open>doubles\<close> of theory BloomParams, from which the example programs compute their parameters
  (\<open>best_found\<close> says with which result); in theory Bloom the numbers of hashes and bits that they lead to are an
  argument \<open>best\<close>, of which only its range is assumed, and BloomExact computes the range for a level's filter and for
  the word lists of the examples.

  \<^bold>\<open>Not modelled.\<close> Data races on the maps of the memtable, which C++ leaves undefined (each access to a map is
  taken to be atomic, and so is a flush with its compaction); concurrent callers of the index, for no program has
  any; log output; the opening and closing of sockets; the rounding of \<open>double\<close>, apart from the compression by 5 percent, and the logarithms and
  powers, whose values the C library does not fix; averages and probabilities that the examples of the Bloom
  filter print; \<open>toupper\<close> outside ASCII; the byte swaps that compilers have built in and the program that
  measures \<open>uuid_v4\<close>; the constants of \<open>shared/common.h\<close> that no program here reads; the headers of
  \<open>mplambda_include\<close>, which are generated configuration without behaviour; and
  \<open>network/Old/capsuleDB.proto\<close>, which nothing includes.
\<close>

section \<open>The database is a map\<close>

text \<open>
  C1. A new database that takes a sequence of puts whose time stamps increase for every key behaves
  like a finite map: all puts succeed, across flushes and compactions of the levels, and a lookup of
  any key returns the last record put under it, or a payload with an empty key when there is none.
\<close>

theorem puts_then_lookups:
  assumes "env_ok E" "1 \<le> unat sz" "unat sz \<le> 10737"
    and "\<forall>p \<in> set ps. key p \<noteq> ''''" "increasing Map.empty ps"
    and "length ps \<le> max_flushes * unat sz"
  shows "\<exists>s'. put_all (db_put (capsule_ops E)) ps (spawnDB sz, initial_world) = Inr s' \<and>
    (\<forall>k u. db_get (capsule_ops E) k u s' = Inr (case apply_puts ps Map.empty k of
       None \<Rightarrow> kvs_payload_default u | Some p \<Rightarrow> p, s'))"
  using new_db_put_get [OF assms(1-4,6)] assms(5) by blast

lemma sample_puts_increase:
  "increasing Map.empty
    [\<lparr>key = ''b'', val = ''1'', txn_timestamp = 5, txn_msgType = ''PUT''\<rparr>,
     \<lparr>key = ''a'', val = ''2'', txn_timestamp = 6, txn_msgType = ''PUT''\<rparr>,
     \<lparr>key = ''b'', val = ''3'', txn_timestamp = 7, txn_msgType = ''PUT''\<rparr>]"
  by code_simp

theorem puts_then_lookups_witness:
  "\<exists>s'. put_all (db_put (capsule_ops wire_env))
      [\<lparr>key = ''b'', val = ''1'', txn_timestamp = 5, txn_msgType = ''PUT''\<rparr>,
       \<lparr>key = ''a'', val = ''2'', txn_timestamp = 6, txn_msgType = ''PUT''\<rparr>,
       \<lparr>key = ''b'', val = ''3'', txn_timestamp = 7, txn_msgType = ''PUT''\<rparr>]
      (spawnDB 1, initial_world) = Inr s' \<and>
    db_get (capsule_ops wire_env) ''b'' 0 s' =
      Inr (\<lparr>key = ''b'', val = ''3'', txn_timestamp = 7, txn_msgType = ''PUT''\<rparr>, s')"
  using puts_then_lookups [of wire_env 1, OF wire_env_ok _ _ _ sample_puts_increase]
  by (auto simp: max_flushes_def)

text \<open>
  C2. Whatever the time stamps of the puts are, no key is ever lost and none is made up: a lookup finds
  a record exactly for the keys that were put, and what it returns is one of the records put under that
  key. Duplicate keys, equal time stamps and older ones are allowed.
\<close>

theorem no_key_is_lost:
  assumes "env_ok E" "1 \<le> unat sz" "unat sz \<le> 10737"
    and "\<forall>p \<in> set ps. key p \<noteq> ''''" "length ps \<le> max_flushes * unat sz"
  shows "\<exists>s'. put_all (db_put (capsule_ops E)) ps (spawnDB sz, initial_world) = Inr s' \<and>
    (\<forall>k u. \<exists>q. db_get (capsule_ops E) k u s' = Inr (q, s') \<and>
       (if k \<in> key ` set ps then q \<in> set ps \<and> key q = k else q = kvs_payload_default u))"
proof -
  from new_db_put_get [OF assms] obtain s m where
    s: "put_all (db_put (capsule_ops E)) ps (new_db sz) = Inr s"
      "\<forall>k u. db_get (capsule_ops E) k u s =
         Inr (case m k of None \<Rightarrow> kvs_payload_default u | Some p \<Rightarrow> p, s)"
      "dom m = key ` set ps" "\<forall>k p. m k = Some p \<longrightarrow> p \<in> set ps \<and> key p = k" by blast
  have "if k \<in> key ` set ps then (case m k of None \<Rightarrow> kvs_payload_default u | Some p \<Rightarrow> p) \<in> set ps \<and>
      key (case m k of None \<Rightarrow> kvs_payload_default u | Some p \<Rightarrow> p) = k
    else (case m k of None \<Rightarrow> kvs_payload_default u | Some p \<Rightarrow> p) = kvs_payload_default u" for k u
    using s(3,4) by (cases "m k") (auto simp: domIff [symmetric] simp del: domIff)
  with s(1,2) show ?thesis by blast
qed

theorem no_key_is_lost_witness:
  "\<exists>s'. put_all (db_put (capsule_ops wire_env))
      [\<lparr>key = ''b'', val = ''1'', txn_timestamp = 5, txn_msgType = ''PUT''\<rparr>,
       \<lparr>key = ''a'', val = ''2'', txn_timestamp = 5, txn_msgType = ''PUT''\<rparr>,
       \<lparr>key = ''b'', val = ''3'', txn_timestamp = 4, txn_msgType = ''PUT''\<rparr>]
      (spawnDB 1, initial_world) = Inr s' \<and>
    (\<exists>q. db_get (capsule_ops wire_env) ''b'' 0 s' = Inr (q, s') \<and> key q = ''b'')"
proof -
  let ?ps = "[\<lparr>key = ''b'', val = ''1'', txn_timestamp = 5, txn_msgType = ''PUT''\<rparr>,
       \<lparr>key = ''a'', val = ''2'', txn_timestamp = 5, txn_msgType = ''PUT''\<rparr>,
       \<lparr>key = ''b'', val = ''3'', txn_timestamp = 4, txn_msgType = ''PUT''\<rparr>]"
  have "\<forall>p \<in> set ?ps. key p \<noteq> ''''" "length ?ps \<le> max_flushes * unat (1::size_t)"
    and b: "''b'' \<in> key ` set ?ps" by (simp_all add: max_flushes_def)
  from no_key_is_lost [of wire_env 1, OF wire_env_ok _ _ this(1,2)] obtain s' where
    s': "put_all (db_put (capsule_ops wire_env)) ?ps (spawnDB 1, initial_world) = Inr s'"
      "\<forall>k u. \<exists>q. db_get (capsule_ops wire_env) k u s' = Inr (q, s') \<and>
       (if k \<in> key ` set ?ps then q \<in> set ?ps \<and> key q = k else q = kvs_payload_default u)" by auto
  from s'(2) b obtain q where "db_get (capsule_ops wire_env) ''b'' 0 s' = Inr (q, s')" "key q = ''b''"
    by metis
  with s'(1) show ?thesis by blast
qed

text \<open>
  C3. In any trace of puts and gets of a new database in which the time stamps of the puts before it
  increase per key, a get is answered with the last record put under its key, or with an empty key.
\<close>

theorem trace_reads_last_write:
  assumes "db_trace (capsule_ops E) (spawnDB sz, initial_world) (es @ GetE k q # fs) s" "env_ok E"
    and "1 \<le> unat sz" "unat sz \<le> 10737" "keys_given (es @ GetE k q # fs)"
    and "length (puts_of (es @ fs)) \<le> max_flushes * unat sz"
    and "increasing Map.empty (puts_of es)"
  shows "case apply_puts (puts_of es) Map.empty k of None \<Rightarrow> key q = '''' | Some p \<Rightarrow> q = p"
proof -
  from trace_get [OF assms(1-6)] obtain s1 u where s1: "db_trace (capsule_ops E) (new_db sz) es s1"
    "q = (case db_view (capsule_ops E) s1 k of None \<Rightarrow> kvs_payload_default u | Some p \<Rightarrow> p)" by blast
  have n: "length (puts_of es) \<le> max_flushes * unat sz" "keys_given es" using assms(5,6) by simp_all
  from trace_inv(4) [OF s1(1) new_db_good [OF assms(2-4) n(1)] n(2) order.refl] assms(7)
  have "db_view (capsule_ops E) s1 = apply_puts (puts_of es) Map.empty"
    using new_db_empty(3) unfolding new_db_empty(1) by blast
  then show ?thesis using s1(2) by (simp add: kvs_payload_default_def split: option.split)
qed

text \<open>A trace for the witnesses: two puts under one key, with a flush between them, and a get.\<close>

definition sample_ops :: "kvs_payload list" where
  "sample_ops = [\<lparr>key = ''b'', val = ''1'', txn_timestamp = 5, txn_msgType = ''PUT''\<rparr>,
     \<lparr>key = ''a'', val = ''2'', txn_timestamp = 6, txn_msgType = ''PUT''\<rparr>,
     \<lparr>key = ''b'', val = ''3'', txn_timestamp = 7, txn_msgType = ''PUT''\<rparr>]"

lemma sample_ops_facts:
  "\<forall>p \<in> set sample_ops. key p \<noteq> ''''" "length sample_ops = 3" "increasing Map.empty sample_ops"
  "apply_puts sample_ops Map.empty ''b'' =
     Some \<lparr>key = ''b'', val = ''3'', txn_timestamp = 7, txn_msgType = ''PUT''\<rparr>"
  "puts_of (map PutE sample_ops) = sample_ops" "keys_given (map PutE sample_ops)"
  by (simp add: sample_ops_def, simp add: sample_ops_def, code_simp, code_simp,
    simp add: sample_ops_def, simp add: sample_ops_def)

lemma put_all_trace: "put_all (db_put S) ps s = Inr s' \<Longrightarrow> db_trace S s0 es s \<Longrightarrow>
    db_trace S s0 (es @ map PutE ps) s'"
proof (induction ps arbitrary: es s)
  case (Cons p ps)
  then obtain s1 where "db_put S p s = Inr s1" "put_all (db_put S) ps s1 = Inr s'"
    by (auto simp: bindr_Inr_iff)
  then have "db_trace S s0 (es @ [PutE p]) s1" "put_all (db_put S) ps s1 = Inr s'"
    using Cons.prems(2) by (auto intro: trace_step put_step)
  with Cons.IH have "db_trace S s0 ((es @ [PutE p]) @ map PutE ps) s'" by blast
  then show ?case by simp
qed simp

lemma sample_trace:
  obtains s q where
    "db_trace (capsule_ops wire_env) (spawnDB 1, initial_world) (map PutE sample_ops) s"
    "db_trace (capsule_ops wire_env) (spawnDB 1, initial_world)
       (map PutE sample_ops @ [GetE ''b'' q]) s"
proof -
  have "length sample_ops \<le> max_flushes * unat (1::size_t)"
    by (simp add: sample_ops_facts max_flushes_def)
  from new_db_put_get [OF wire_env_ok _ _ sample_ops_facts(1) this] obtain s m where
    s: "put_all (db_put (capsule_ops wire_env)) sample_ops (new_db 1) = Inr s"
      "\<forall>k u. db_get (capsule_ops wire_env) k u s =
         Inr (case m k of None \<Rightarrow> kvs_payload_default u | Some p \<Rightarrow> p, s)" by auto
  from put_all_trace [OF s(1) trace_start]
  have t: "db_trace (capsule_ops wire_env) (new_db 1) (map PutE sample_ops) s" by simp
  from trace_step [OF this get_step [OF s(2) [rule_format]]] t show thesis using that by blast
qed

theorem trace_reads_last_write_witness:
  "\<exists>s. db_trace (capsule_ops wire_env) (spawnDB 1, initial_world) (map PutE sample_ops @
    [GetE ''b'' \<lparr>key = ''b'', val = ''3'', txn_timestamp = 7, txn_msgType = ''PUT''\<rparr>]) s"
proof -
  obtain s q where t: "db_trace (capsule_ops wire_env) (spawnDB 1, initial_world)
      (map PutE sample_ops @ [GetE ''b'' q]) s" using sample_trace by metis
  have "q = \<lparr>key = ''b'', val = ''3'', txn_timestamp = 7, txn_msgType = ''PUT''\<rparr>"
    using trace_reads_last_write [OF t wire_env_ok]
    by (simp add: sample_ops_facts max_flushes_def)
  with t show ?thesis by blast
qed

text \<open>
  C4. The invariant of every state that a new database can reach by puts and gets within its
  resources: the memtable, its locks, the levels, their bounds and the stored blocks are consistent,
  and the map has exactly the keys that were put.
\<close>

theorem reachable_states_are_good:
  assumes "db_trace (capsule_ops E) (spawnDB sz, initial_world) es (db, w)" "env_ok E"
    and "1 \<le> unat sz" "unat sz \<le> 10737" "keys_given es"
    and "length (puts_of es) \<le> max_flushes * unat sz"
  shows "db_ok (capsule_ops E) (world_ok E) w db \<and>
    dom (db_map (capsule_ops E) w db) = key ` set (puts_of es) \<and>
    db_records (capsule_ops E) w db \<subseteq> set (puts_of es)"
proof -
  note inv = trace_inv [OF assms(1) new_db_good [OF assms(2-4,6)] assms(5) order.refl]
  show ?thesis
    using inv(1-3) unfolding new_db_empty
    by (simp add: db_good_def db_view_def db_held_def)
qed

theorem reachable_states_are_good_witness:
  "\<exists>db w. db_ok (capsule_ops wire_env) (world_ok wire_env) w db \<and>
    dom (db_map (capsule_ops wire_env) w db) = {''a'', ''b''}"
proof -
  obtain db w where t: "db_trace (capsule_ops wire_env) (spawnDB 1, initial_world)
      (map PutE sample_ops) (db, w)" using sample_trace by (metis prod.collapse)
  have "key ` set sample_ops = {''a'', ''b''}" by code_simp
  with reachable_states_are_good [OF t wire_env_ok]
  show ?thesis
    by (intro exI [of _ db] exI [of _ w]) (simp add: sample_ops_facts max_flushes_def)
qed

text \<open>
  C5. Progress: a reachable database that has not used up its resources can always take the next put
  and answer the next get; no step throws, overflows or waits for a lock.
\<close>

theorem next_step_exists:
  assumes "db_trace (capsule_ops E) (spawnDB sz, initial_world) es s" "env_ok E"
    and "1 \<le> unat sz" "unat sz \<le> 10737" "keys_given es" "key p \<noteq> ''''" "k \<noteq> ''''"
    and "length (puts_of es) < max_flushes * unat sz"
  shows "\<exists>s' q. db_step (capsule_ops E) s (PutE p) s' \<and> db_step (capsule_ops E) s (GetE k q) s"
proof -
  have le: "length (puts_of es) \<le> max_flushes * unat sz" using assms(8) by simp
  have "db_good (capsule_ops E) (world_ok E) world_room
      (Suc (max_flushes * unat sz - Suc (length (puts_of es)))) s"
    using trace_inv(1) [OF assms(1) new_db_good [OF assms(2-4) order.refl] assms(5) le] assms(8)
    by (simp add: Suc_diff_Suc)
  from fdb.put_spec [OF this assms(6)] fdb.get_spec [OF this assms(7), of 0]
  show ?thesis by (metis put_step get_step)
qed

theorem next_step_exists_witness:
  "\<exists>s s' q. db_step (capsule_ops wire_env) s
      (PutE \<lparr>key = ''c'', val = ''4'', txn_timestamp = 1, txn_msgType = ''PUT''\<rparr>) s' \<and>
    db_step (capsule_ops wire_env) s (GetE ''a'' q) s"
proof -
  obtain s where t: "db_trace (capsule_ops wire_env) (spawnDB 1, initial_world)
      (map PutE sample_ops) s" using sample_trace by metis
  from next_step_exists [OF t wire_env_ok, of
      "\<lparr>key = ''c'', val = ''4'', txn_timestamp = 1, txn_msgType = ''PUT''\<rparr>" "''a''"]
  have "\<exists>s' q. db_step (capsule_ops wire_env) s
      (PutE \<lparr>key = ''c'', val = ''4'', txn_timestamp = 1, txn_msgType = ''PUT''\<rparr>) s' \<and>
    db_step (capsule_ops wire_env) s (GetE ''a'' q) s"
    by (simp add: sample_ops_facts max_flushes_def)
  then show ?thesis by blast
qed

section \<open>Single operations of the database\<close>

text \<open>
  C9. A put in a well-formed database that can afford a flush succeeds and keeps it well formed; no
  stored block is changed and no key is lost; a record that the memtable accepts is what the map has
  for its key afterwards (and nothing else changes when newer levels shadow older ones), and one that
  it refuses as not newer changes nothing at all.
\<close>

theorem put_updates_map:
  assumes "db_ok (capsule_ops E) (world_ok E) w db" "key p \<noteq> ''''" "db_ready world_room w db"
  shows "\<exists>db' w'. CapsuleDB_put (capsule_ops E) p db w = Inr (db', w') \<and>
    db_ok (capsule_ops E) (world_ok E) w' db' \<and> extends (capsule_ops E) w w' \<and>
    dom (db_map (capsule_ops E) w' db') = insert (key p) (dom (db_map (capsule_ops E) w db)) \<and>
    (if db_accepts db p
     then db_map (capsule_ops E) w' db' (key p) = Some p \<and>
       (db_ordered (capsule_ops E) w db \<longrightarrow>
          db_map (capsule_ops E) w' db' = (db_map (capsule_ops E) w db)(key p \<mapsto> p))
     else db' = db \<and> w' = w)"
proof -
  from fc.database_put_ok [OF assms] obtain db' w' where
    p: "CapsuleDB_put (capsule_ops E) p db w = Inr (db', w')"
      "db_ok (capsule_ops E) (world_ok E) w' db'" "extends (capsule_ops E) w w'"
      "put_effect (capsule_ops E) w w' p db db'" by blast
  show ?thesis
    using p by (intro exI [of _ db'] exI [of _ w']) (simp add: put_effect_def)
qed

theorem put_updates_map_witness:
  "\<exists>db' w'. CapsuleDB_put (capsule_ops wire_env)
      \<lparr>key = ''k'', val = ''v'', txn_timestamp = 1, txn_msgType = ''PUT''\<rparr> (spawnDB 50) initial_world = Inr (db', w') \<and>
    db_map (capsule_ops wire_env) w' db' ''k'' =
      Some \<lparr>key = ''k'', val = ''v'', txn_timestamp = 1, txn_msgType = ''PUT''\<rparr>"
proof -
  let ?p = "\<lparr>key = ''k'', val = ''v'', txn_timestamp = 1, txn_msgType = ''PUT''\<rparr>"
  have ok: "db_ok (capsule_ops wire_env) (world_ok wire_env) initial_world (spawnDB 50)"
    by (rule spawnDB_ok) (simp_all add: wire_world_ok)
  have "db_accepts (spawnDB 50) ?p" by (simp add: db_accepts_def spawnDB_def)
  with put_updates_map [OF ok _ new_db_ready, of ?p] show ?thesis by auto
qed

text \<open>
  C10. A lookup in a well-formed database returns what the map has for the key: the memtable first, then
  the levels from the top, each searched by the bounds of its blocks; it changes nothing.
\<close>

theorem get_reads_map:
  assumes "db_ok (capsule_ops E) (world_ok E) w db"
  shows "CapsuleDB_get (capsule_ops E) k u db w =
    Inr (case mem_map (db_memtable db) k of Some p \<Rightarrow> p
      | None \<Rightarrow> (case index_map (capsule_ops E) w (db_index db) k of Some p \<Rightarrow> p
          | None \<Rightarrow> kvs_payload_default u), db)"
  using get_ok [OF assms, of k u]
  by (simp add: db_map_def map_add_def split: option.split)

theorem get_reads_map_witness:
  "CapsuleDB_get (capsule_ops wire_env) ''k'' 7 (spawnDB 50) initial_world =
    Inr (kvs_payload_default 7, spawnDB 50)"
proof -
  have "db_ok (capsule_ops wire_env) (world_ok wire_env) initial_world (spawnDB 50)"
    by (rule spawnDB_ok) (simp_all add: wire_world_ok)
  from get_reads_map [OF this, of "''k''" 7] show ?thesis
    using spawnDB_empty(1) [of "capsule_ops wire_env" initial_world 50]
    by (simp add: spawnDB_def CapsuleIndex_new_def Level_new_def index_map_def level_map_def)
qed

section \<open>Memtable\<close>

text \<open>
  C8. Writing out a full memtable: an empty level 0 gets one block, with exactly the records of the table in
  their order, and the other levels stay as they are; a level 0 that has a block is emptied by the compaction,
  and the other levels then have the keys of the table and of the index. The index stays well formed, the
  table is empty afterwards and no key is lost. When every record of the table is newer than the record of the
  index under its key and the levels are ordered by age, the map of the index is the old one shadowed by the
  table.
\<close>

theorem flush_moves_memtable:
  assumes "world_ok E w" "memtable_ok mt" "length (memtable mt) = unat (max_size mt)"
    and "index_ok (capsule_ops E) w ix" "blocksize ix = max_size mt" "index_fits ix"
    and "5 + 2 * nblocks (levels ix) \<le> world_room w"
  shows "\<exists>ix' w'. write_out_if_full (capsule_ops E) mt ix w =
      Inr (mt\<lparr>memtable := [], locklst := []\<rparr>, ix', w') \<and>
    world_ok E w' \<and> index_ok (capsule_ops E) w' ix' \<and>
    (if recordHashes (levels ix ! 0) = []
     then \<exists>L h. levels ix' = L # tl (levels ix) \<and> recordHashes L = [h] \<and>
       block_at (capsule_ops E) w' h = records mt \<and>
       levels_map (capsule_ops E) w' (tl (levels ix)) = levels_map (capsule_ops E) w (tl (levels ix))
     else recordHashes (levels ix' ! 0) = [] \<and>
       dom (levels_map (capsule_ops E) w' (tl (levels ix'))) =
         dom (mem_map mt) \<union> dom (index_map (capsule_ops E) w ix)) \<and>
    dom (index_map (capsule_ops E) w' ix') = dom (mem_map mt) \<union> dom (index_map (capsule_ops E) w ix) \<and>
    (newer (mem_map mt) (index_map (capsule_ops E) w ix) \<and>
       levels_ordered (capsule_ops E) w (levels ix) \<longrightarrow>
     index_map (capsule_ops E) w' ix' = index_map (capsule_ops E) w ix ++ mem_map mt)"
proof -
  let ?S = "capsule_ops E"
  note km = records_run(2) [OF assms(2)]
  from fc.flush_ok [OF assms] obtain ix' w' where
    f: "write_out_if_full ?S mt ix w = Inr (mt\<lparr>memtable := [], locklst := []\<rparr>, ix', w')"
      "world_ok E w'" "extends ?S w w'" "flushed ?S w w' (records mt) ix ix'" by blast
  note F = f(4) [unfolded flushed_def km]
  from F have ok: "index_ok ?S w' ix'"
    and d: "dom (index_map ?S w' ix') = dom (mem_map mt) \<union> dom (index_map ?S w ix)" by blast+
  from F obtain bh where bh: "in_level0 bh ix ix'" "recordHashes (levels ix ! 0) = [] \<longrightarrow> block_at ?S w' bh = records mt"
    by blast
  have "if recordHashes (levels ix ! 0) = []
     then \<exists>L h. levels ix' = L # tl (levels ix) \<and> recordHashes L = [h] \<and> block_at ?S w' h = records mt \<and>
       levels_map ?S w' (tl (levels ix)) = levels_map ?S w (tl (levels ix))
     else recordHashes (levels ix' ! 0) = [] \<and>
       dom (levels_map ?S w' (tl (levels ix'))) = dom (mem_map mt) \<union> dom (index_map ?S w ix)"
    using level0_cases [OF assms(4) ok f(3) bh(1)] bh(2) d by (auto split: if_splits)
  with f(1,2) F show ?thesis by blast
qed

definition sample_memtable :: Memtable where
  "sample_memtable = \<lparr>max_size = 1,
     memtable = [(''k'', \<lparr>key = ''k'', val = ''v'', txn_timestamp = 1, txn_msgType = ''PUT''\<rparr>)],
     locklst = [(''k'', Unlocked)]\<rparr>"

lemma one_record_memtable: "memtable_ok sample_memtable"
  by (simp add: memtable_ok_def sample_memtable_def)

theorem flush_moves_memtable_witness:
  "\<exists>ix' w'. write_out_if_full (capsule_ops wire_env) sample_memtable
      (CapsuleIndex_new 1) initial_world = Inr (Memtable_new 1, ix', w') \<and>
    dom (index_map (capsule_ops wire_env) w' ix') = {''k''}"
proof -
  have ok: "db_ok (capsule_ops wire_env) (world_ok wire_env) initial_world (spawnDB 1)"
    by (rule spawnDB_ok) (simp_all add: wire_world_ok)
  then have ix: "index_ok (capsule_ops wire_env) initial_world (CapsuleIndex_new 1)"
    by (simp add: db_ok_def spawnDB_def)
  have fits: "index_fits (CapsuleIndex_new 1)" "5 + 2 * nblocks (levels (CapsuleIndex_new 1)) \<le> world_room initial_world"
    using new_db_ready [of 1] by (simp_all add: db_ready_def spawnDB_def)
  have bs: "blocksize (CapsuleIndex_new 1) = 1" by (simp add: CapsuleIndex_new_def)
  have empty: "index_map (capsule_ops wire_env) initial_world (CapsuleIndex_new 1) = Map.empty"
    by (simp add: index_map_def CapsuleIndex_new_def Level_new_def level_map_def)
  from flush_moves_memtable [OF wire_world_ok one_record_memtable _ ix _ fits]
  show ?thesis
    unfolding empty by (auto simp: sample_memtable_def bs Memtable_new_def mem_map_def dom_def split: if_splits)
qed

text \<open>
  C11. Every branch of a put into the memtable alone: a key that is present is overwritten when the new
  record has the larger time stamp and left alone otherwise, a new key is inserted; the result is
  well formed again, in particular every mutex that was locked is released.
\<close>

theorem memtable_put_cases:
  assumes "memtable_ok mt" "key p \<noteq> ''''"
    and "mem_map mt (key p) = None \<Longrightarrow> length (memtable mt) < unat (max_size mt)"
  shows "\<exists>mt'. Memtable_put S p mt ix w = Inr (case mem_map mt (key p) of None \<Rightarrow> True
      | Some q \<Rightarrow> sint (txn_timestamp q) < sint (txn_timestamp p), mt', ix, w) \<and> memtable_ok mt' \<and>
    mem_map mt' = (case mem_map mt (key p) of None \<Rightarrow> (mem_map mt)(key p \<mapsto> p)
      | Some q \<Rightarrow> if sint (txn_timestamp q) < sint (txn_timestamp p)
          then (mem_map mt)(key p \<mapsto> p) else mem_map mt)"
proof (cases "mem_map mt (key p)")
  case None
  note m = memtable_ok_insert [OF assms(1) None assms(2) assms(3) [OF None]]
  show ?thesis
    using Memtable_put_absent [OF assms(1) None write_out_not_full [OF assms(1) assms(3) [OF None]] assms(1)] m None
    by (intro exI [of _ "insert_new p mt"]) simp
next
  case (Some q)
  show ?thesis
    using Memtable_put_present [OF assms(1) Some, of S ix w] memtable_ok_update [OF assms(1) Some] assms(1) Some
    by (cases "sint (txn_timestamp q) < sint (txn_timestamp p)") simp_all
qed

theorem memtable_put_cases_witness:
  "\<exists>mt'. Memtable_put (capsule_ops wire_env)
      \<lparr>key = ''k'', val = ''w'', txn_timestamp = 0, txn_msgType = ''PUT''\<rparr>
      sample_memtable
      (CapsuleIndex_new 1) initial_world = Inr (False, mt', CapsuleIndex_new 1, initial_world)"
  using memtable_put_cases [OF one_record_memtable,
      of "\<lparr>key = ''k'', val = ''w'', txn_timestamp = 0, txn_msgType = ''PUT''\<rparr>"
        "capsule_ops wire_env" "CapsuleIndex_new 1" initial_world]
  by (auto simp: mem_map_def sample_memtable_def)

section \<open>Index\<close>

text \<open>Stored blocks for the witnesses: blocks of one record each in a store with room.\<close>

definition rec_a :: kvs_payload where
  "rec_a = \<lparr>key = ''a'', val = ''1'', txn_timestamp = 2, txn_msgType = ''PUT''\<rparr>"

definition rec_b :: kvs_payload where
  "rec_b = \<lparr>key = ''b'', val = ''2'', txn_timestamp = 1, txn_msgType = ''PUT''\<rparr>"

definition one_block :: "kvs_payload \<Rightarrow> CapsuleBlock" where
  "one_block p = \<lparr>level = 0, startKey = key p, endKey = key p, kvPairs = [p]\<rparr>"

lemma one_block_stored:
  assumes "readIn S h w = Inr (one_block p)" "h \<noteq> ''''" "key p \<noteq> ''''"
  shows "run_ok S w 1 [\<lparr>hash = h, minKey = key p, maxKey = key p\<rparr>]"
    "entries S w [\<lparr>hash = h, minKey = key p, maxKey = key p\<rparr>] = [p]"
proof -
  let ?h = "\<lparr>hash = h, minKey = key p, maxKey = key p\<rparr>"
  have at: "block_at S w ?h = [p]" using assms(1) by (simp add: block_at_def one_block_def)
  have "block_wf (one_block p)"
    using assms(3) by (simp add: one_block_def block_wf_def key_bounds_def int_range_def)
  then have "header_ok S w 1 ?h" using assms(1,2) by (simp add: header_ok_def one_block_def)
  then show "run_ok S w 1 [?h]" using at assms(3) by (simp add: run_simps)
  show "entries S w [?h] = [p]" using at by simp
qed

lemma sample_store:
  obtains w ha hb where "world_ok wire_env w" "100 \<le> world_room w"
    "extends (capsule_ops wire_env) initial_world w" "ha \<noteq> ''''" "hb \<noteq> ''''"
    "readIn (capsule_ops wire_env) ha w = Inr (one_block rec_a)"
    "readIn (capsule_ops wire_env) hb w = Inr (one_block rec_b)"
proof -
  have wf: "block_wf (one_block p)" if "key p \<noteq> ''''" for p
    using that by (simp add: one_block_def block_wf_def key_bounds_def int_range_def)
  have ab: "key rec_a \<noteq> ''''" "key rec_b \<noteq> ''''" by (simp_all add: rec_a_def rec_b_def)
  have room: "0 < world_room initial_world" by (simp add: world_room_def initial_world_def)
  from fc.writeOut_ok [OF wire_world_ok wf [OF ab(1)] this] obtain ha w1 where
    a: "ha \<noteq> ''''" "world_ok wire_env w1" "Suc (world_room w1) = world_room initial_world"
      "readIn (capsule_ops wire_env) ha w1 = Inr (one_block rec_a)"
      "extends (capsule_ops wire_env) initial_world w1" by metis
  have "0 < world_room w1" using a(3) by (simp add: world_room_def initial_world_def)
  from fc.writeOut_ok [OF a(2) wf [OF ab(2)] this] obtain hb w2 where
    b: "hb \<noteq> ''''" "world_ok wire_env w2" "Suc (world_room w2) = world_room w1"
      "readIn (capsule_ops wire_env) hb w2 = Inr (one_block rec_b)"
      "extends (capsule_ops wire_env) w1 w2" by metis
  have "100 \<le> world_room w2" using a(3) b(3) by (simp add: world_room_def initial_world_def)
  moreover have "readIn (capsule_ops wire_env) ha w2 = Inr (one_block rec_a)"
    using a(4) b(5) by (simp add: extends_def)
  ultimately show thesis using that [OF b(2)] a(1) b(1,4) extends_trans [OF a(5) b(5)] by blast
qed

lemma new_index_ok: "index_ok (capsule_ops wire_env) initial_world (CapsuleIndex_new 1)"
proof -
  have "db_ok (capsule_ops wire_env) (world_ok wire_env) initial_world (spawnDB 1)"
    by (rule spawnDB_ok) (simp_all add: wire_world_ok)
  then show ?thesis by (simp add: db_ok_def spawnDB_def)
qed

lemma new_index_facts:
  "blocksize (CapsuleIndex_new 1) = 1" "nblocks (levels (CapsuleIndex_new 1)) = 0"
  "length (levels (CapsuleIndex_new 1)) = 1" "levels_map S w (levels (CapsuleIndex_new 1)) = Map.empty"
  "index_fits (CapsuleIndex_new 1)"
  by (simp_all add: CapsuleIndex_new_def Level_new_def level_map_def index_fits_def)

text \<open>
  C17. Adding a block to level 0 of a well-formed index succeeds with status 0, compaction included: the
  index stays well formed, it has the keys of the block and the old ones, it grows by at most one block
  and one level, and when the block and the levels are in order of age the new map is the old one
  shadowed by the block.
\<close>

theorem add_hash_adds_block:
  assumes "world_ok E w" "index_ok (capsule_ops E) w ix" "index_fits ix"
    and "run_ok (capsule_ops E) w (unat (blocksize ix))
      [\<lparr>hash = h, minKey = getMinKey b, maxKey = getMaxKey b\<rparr>]"
    and "readIn (capsule_ops E) h w = Inr b" "4 + 2 * nblocks (levels ix) \<le> world_room w"
  shows "\<exists>ix' w'. add_hash (capsule_ops E) 0 h b ix w = Inr (0, ix', w') \<and> world_ok E w' \<and>
    index_ok (capsule_ops E) w' ix' \<and> nblocks (levels ix') \<le> Suc (nblocks (levels ix)) \<and>
    length (levels ix') \<le> Suc (length (levels ix)) \<and>
    dom (index_map (capsule_ops E) w' ix') =
      key ` set (kvPairs b) \<union> dom (index_map (capsule_ops E) w ix) \<and>
    (newer (kv_map (kvPairs b)) (index_map (capsule_ops E) w ix) \<and>
       levels_ordered (capsule_ops E) w (levels ix) \<longrightarrow>
     index_map (capsule_ops E) w' ix' = index_map (capsule_ops E) w ix ++ kv_map (kvPairs b))"
proof -
  let ?bh = "\<lparr>hash = h, minKey = getMinKey b, maxKey = getMaxKey b\<rparr>"
  have ents: "entries (capsule_ops E) w [?bh] = kvPairs b"
    using assms(5) by (simp add: block_at_def)
  from fc.add_hash_ok [OF assms(1,2) refl refl assms(4) assms(3) [unfolded index_fits_def] assms(6)]
  obtain ix' w' where r: "add_hash (capsule_ops E) 0 h b ix w = Inr (0, ix', w')" "world_ok E w'"
    "pushed (capsule_ops E) w w' 1 [?bh] 0 ix ix'" by blast
  note D = pushedD [OF r(3), unfolded ents drop_0, folded index_map_def]
  have "index_ok (capsule_ops E) w' ix'" using D(2,4) assms(2) by (auto simp: index_ok_def)
  moreover have "nblocks (levels ix') \<le> Suc (nblocks (levels ix))" using D(7) by simp
  ultimately show ?thesis
    using r(1,2) D(5,9,10) unfolding dom_kv_map
    by (intro exI [of _ ix'] exI [of _ w']) blast
qed

theorem add_hash_adds_block_witness:
  "\<exists>h ix' w w'. add_hash (capsule_ops wire_env) 0 h (one_block rec_a) (CapsuleIndex_new 1) w = Inr (0, ix', w') \<and>
    dom (index_map (capsule_ops wire_env) w' ix') = {key rec_a}"
proof -
  obtain w ha hb where w: "world_ok wire_env w" "100 \<le> world_room w"
    "extends (capsule_ops wire_env) initial_world w" "ha \<noteq> ''''" "hb \<noteq> ''''"
    "readIn (capsule_ops wire_env) ha w = Inr (one_block rec_a)"
    "readIn (capsule_ops wire_env) hb w = Inr (one_block rec_b)" by (rule sample_store)
  have "key rec_a \<noteq> ''''" by (simp add: rec_a_def)
  note run = one_block_stored(1) [OF w(6,4) this]
  have bh: "\<lparr>hash = ha, minKey = getMinKey (one_block rec_a), maxKey = getMaxKey (one_block rec_a)\<rparr> =
      \<lparr>hash = ha, minKey = key rec_a, maxKey = key rec_a\<rparr>"
    by (simp add: block_getters one_block_def)
  have "run_ok (capsule_ops wire_env) w (unat (blocksize (CapsuleIndex_new 1)))
      [\<lparr>hash = ha, minKey = getMinKey (one_block rec_a), maxKey = getMaxKey (one_block rec_a)\<rparr>]"
    using run by (simp add: bh new_index_facts)
  moreover have "4 + 2 * nblocks (levels (CapsuleIndex_new 1)) \<le> world_room w"
    using w(2) by (simp add: new_index_facts)
  ultimately obtain ix' w' where
    "add_hash (capsule_ops wire_env) 0 ha (one_block rec_a) (CapsuleIndex_new 1) w = Inr (0, ix', w')"
    "dom (index_map (capsule_ops wire_env) w' ix') =
      key ` set (kvPairs (one_block rec_a)) \<union> dom (index_map (capsule_ops wire_env) w (CapsuleIndex_new 1))"
    using add_hash_adds_block [OF w(1) index_ok_extends(1) [OF new_index_ok w(3)] new_index_facts(5) _ w(6)]
    by blast
  then show ?thesis
    by (intro exI [of _ ha] exI [of _ ix'] exI [of _ w] exI [of _ w'])
      (simp add: index_map_def new_index_facts(4) one_block_def)
qed



text \<open>
  C7. Merging two levels: the result is a run of blocks, strictly sorted by key and no longer than the
  two together, and each of its keys has the record of the one level that holds the key or, when both
  do, the one with the larger time stamp.
\<close>

theorem merge_keeps_newest:
  assumes "world_ok E w" "run_ok (capsule_ops E) w (unat bs) a" "run_ok (capsule_ops E) w (unat bs) b"
    and "a \<noteq> []" "0 < unat bs" "int_range l" "length a + length b \<le> world_room w"
  shows "\<exists>hs w'. merge (capsule_ops E) bs a b l w = Inr (hs, w') \<and> world_ok E w' \<and>
    run_ok (capsule_ops E) w' (unat bs) hs \<and> length hs \<le> length a + length b \<and>
    (\<forall>k. kv_map (entries (capsule_ops E) w' hs) k =
      (case (kv_map (entries (capsule_ops E) w a) k, kv_map (entries (capsule_ops E) w b) k) of
         (Some p, Some q) \<Rightarrow> Some (if sint (txn_timestamp p) \<le> sint (txn_timestamp q) then q else p)
       | (Some p, None) \<Rightarrow> Some p
       | (None, r) \<Rightarrow> r))"
proof -
  from fc.merge_ok [OF assms(1-4) refl assms(5-7)] obtain hs w' where
    r: "merge (capsule_ops E) bs a b l w = Inr (hs, w')" "world_ok E w'"
      "run_ok (capsule_ops E) w' (unat bs) hs" "length hs \<le> length a + length b"
      "entries (capsule_ops E) w' hs =
        merge_kv (entries (capsule_ops E) w a) (entries (capsule_ops E) w b)" by blast
  have "sorted_keys (entries (capsule_ops E) w a)" "sorted_keys (entries (capsule_ops E) w b)"
    using assms(2,3) by (simp_all add: run_ok_def is_run_def)
  then show ?thesis
    using r kv_map_merge_kv unfolding newest_def
    by (intro exI [of _ hs] exI [of _ w']) simp
qed

theorem merge_keeps_newest_witness:
  "\<exists>ha hb w hs w'. merge (capsule_ops wire_env) 1 [\<lparr>hash = ha, minKey = key rec_a, maxKey = key rec_a\<rparr>]
      [\<lparr>hash = hb, minKey = key rec_b, maxKey = key rec_b\<rparr>] 1 w = Inr (hs, w') \<and>
    kv_map (entries (capsule_ops wire_env) w' hs) ''a'' = Some rec_a \<and>
    kv_map (entries (capsule_ops wire_env) w' hs) ''b'' = Some rec_b"
proof -
  obtain w ha hb where w: "world_ok wire_env w" "100 \<le> world_room w"
    "extends (capsule_ops wire_env) initial_world w" "ha \<noteq> ''''" "hb \<noteq> ''''"
    "readIn (capsule_ops wire_env) ha w = Inr (one_block rec_a)"
    "readIn (capsule_ops wire_env) hb w = Inr (one_block rec_b)" by (rule sample_store)
  have k: "key rec_a = ''a''" "key rec_b = ''b''" by (simp_all add: rec_a_def rec_b_def)
  have "key rec_a \<noteq> ''''" "key rec_b \<noteq> ''''" by (simp_all add: k)
  note run = one_block_stored [OF w(6,4) this(1)] one_block_stored [OF w(7,5) this(2)]
  have side: "(0::nat) < unat (1::size_t)" "int_range 1" "unat (1::size_t) = 1"
    by (simp_all add: int_range_def)
  have room: "length [\<lparr>hash = ha, minKey = key rec_a, maxKey = key rec_a\<rparr>] +
      length [\<lparr>hash = hb, minKey = key rec_b, maxKey = key rec_b\<rparr>] \<le> world_room w" using w(2) by simp
  show ?thesis
    using merge_keeps_newest [OF w(1) run(1) [folded side(3)] run(3) [folded side(3)] _ side(1,2) room]
    unfolding run(2,4) by (fastforce simp: k)
qed

text \<open>
  The merge loop terminates on every input, well formed or not: an iteration that does not fail
  passes a block of one of the vectors or, inside the same blocks, a record.
\<close>

theorem merge_loop_advances:
  assumes "merge_step S bs l a b v w = Inr (v', w')" "aa v < length a \<or> bb v < length b"
  shows "(v', v) \<in> measures [blocks_left (length a) (length b), pairs_left]"
  by (rule merge_step_decreases [OF assms])

theorem merge_loop_advances_witness:
  "\<exists>v v' w'. merge_step (capsule_ops wire_env) 2 1 [\<lparr>hash = ''h'', minKey = ''a'', maxKey = ''a''\<rparr>] [] v initial_world =
      Inr (v', w') \<and> (v', v) \<in> measures [blocks_left 1 0, pairs_left]"
proof -
  let ?hs = "[\<lparr>hash = ''h'', minKey = ''a'', maxKey = ''a''\<rparr>]"
  let ?v = "\<lparr>aa = 0, bb = 0, aaa = 0, bbb = 0, capsuleBlockA = one_block rec_a,
    capsuleBlockB = CapsuleBlock_default 0, next_cb = CapsuleBlock_new 1, out_headers = []\<rparr>"
  have "\<exists>v' w'. merge_step (capsule_ops wire_env) 2 1 ?hs [] ?v initial_world = Inr (v', w')"
    by (simp add: merge_step_def merge_choose_def pair_at_def merge_move_def merge_advance_def
        merge_add_def one_block_def rec_a_def block_getters)
  then obtain v' w' where s: "merge_step (capsule_ops wire_env) 2 1 ?hs [] ?v initial_world = Inr (v', w')"
    by blast
  from merge_loop_advances [OF s] s show ?thesis by (intro exI [of _ ?v] exI [of _ v'] exI [of _ w']) simp
qed

text \<open>
  C29. The selection of blocks for the next level, whatever the incoming blocks are: it stays within
  the destination's vector, splits it into two sorted runs without losing or repeating a header, and
  evicts at least as many blocks as come in.
\<close>

theorem selection_splits_level:
  assumes "run_ok S w n dst" "m \<le> length dst"
  shows "\<exists>new rem. (case affected_blocks src dst [] [] of (new, rem) \<Rightarrow> select_more m new rem) = Inr (new, rem) \<and>
    run_ok S w n new \<and> run_ok S w n rem \<and> mset new + mset rem = mset dst \<and> m \<le> length new"
  using selection_ok [OF assms] by metis

theorem selection_splits_level_witness:
  "\<exists>h new rem. (case affected_blocks [] [\<lparr>hash = h, minKey = key rec_a, maxKey = key rec_a\<rparr>] [] [] of
      (new, rem) \<Rightarrow> select_more 1 new rem) = Inr (new, rem) \<and> length new = 1"
proof -
  obtain w ha hb where w: "world_ok wire_env w" "100 \<le> world_room w"
    "extends (capsule_ops wire_env) initial_world w" "ha \<noteq> ''''" "hb \<noteq> ''''"
    "readIn (capsule_ops wire_env) ha w = Inr (one_block rec_a)"
    "readIn (capsule_ops wire_env) hb w = Inr (one_block rec_b)" by (rule sample_store)
  have "key rec_a \<noteq> ''''" by (simp add: rec_a_def)
  note run = one_block_stored(1) [OF w(6,4) this]
  let ?dst = "[\<lparr>hash = ha, minKey = key rec_a, maxKey = key rec_a\<rparr>]"
  have "1 \<le> length ?dst" by simp
  from selection_splits_level [OF run this, of "[]"] obtain new rem where
    s: "(case affected_blocks [] ?dst [] [] of (new, rem) \<Rightarrow> select_more 1 new rem) = Inr (new, rem)"
      "mset new + mset rem = mset ?dst" "1 \<le> length new" by blast
  have "length new + length rem = 1" using arg_cong [OF s(2), of size] by simp
  then have "length new = 1" using s(3) by simp
  then show ?thesis using s(1) by blast
qed

section \<open>Levels and blocks\<close>

text \<open>
  C30. The search of a well-formed level: it never reads past the vector of headers; the empty string
  means that no block of the level holds the key, and any other answer is the name of a block that can
  be read and is the one of the level that holds the key, if any does.
\<close>

theorem level_search_finds_block:
  assumes "run_ok S w n (recordHashes L)" "bounds_ok L"
  shows "\<exists>g. Level_getBlock k L = Inr g \<and>
    (if g = '''' then kv_map (entries S w (recordHashes L)) k = None
     else \<exists>b. readIn S g w = Inr b \<and> kv_map (entries S w (recordHashes L)) k = kv_map (kvPairs b) k)"
proof -
  from Level_getBlock_run [OF assms, of k] obtain g where g: "Level_getBlock k L = Inr g"
    "if g = '''' then kv_map (entries S w (recordHashes L)) k = None
     else \<exists>h \<in> set (recordHashes L). hash h = g \<and>
       kv_map (entries S w (recordHashes L)) k = kv_map (block_at S w h) k" by blast
  have "\<exists>b. readIn S g w = Inr b \<and> kv_map (entries S w (recordHashes L)) k = kv_map (kvPairs b) k"
    if "g \<noteq> ''''"
  proof -
    from g(2) that obtain h where h: "h \<in> set (recordHashes L)" "hash h = g"
      "kv_map (entries S w (recordHashes L)) k = kv_map (block_at S w h) k" by auto
    then have "header_ok S w n h" using assms(1) by (simp add: run_ok_def)
    then obtain b where "readIn S (hash h) w = Inr b" "block_at S w h = kvPairs b"
      by (rule header_ok_read)
    with h show ?thesis by auto
  qed
  with g show ?thesis by auto
qed

theorem level_search_finds_block_witness:
  "\<exists>g w b. Level_getBlock ''a'' \<lparr>index = 0, numBlocks = 1, maxSize = 2, min_key = ''a'', max_key = ''a'',
      recordHashes = [\<lparr>hash = g, minKey = ''a'', maxKey = ''a''\<rparr>]\<rparr> = Inr g \<and>
    readIn (capsule_ops wire_env) g w = Inr b \<and> kv_map (kvPairs b) ''a'' = Some rec_a"
proof -
  obtain w ha hb where w: "world_ok wire_env w" "100 \<le> world_room w"
    "extends (capsule_ops wire_env) initial_world w" "ha \<noteq> ''''" "hb \<noteq> ''''"
    "readIn (capsule_ops wire_env) ha w = Inr (one_block rec_a)"
    "readIn (capsule_ops wire_env) hb w = Inr (one_block rec_b)" by (rule sample_store)
  have k: "key rec_a = ''a''" by (simp add: rec_a_def)
  let ?L = "\<lparr>index = 0, numBlocks = 1, maxSize = 2, min_key = ''a'', max_key = ''a'',
      recordHashes = [\<lparr>hash = ha, minKey = ''a'', maxKey = ''a''\<rparr>]\<rparr>"
  have "run_ok (capsule_ops wire_env) w 1 (recordHashes ?L)" "bounds_ok ?L"
    "kv_map (entries (capsule_ops wire_env) w (recordHashes ?L)) ''a'' = Some rec_a"
    using one_block_stored [OF w(6,4)] k by (simp_all add: bounds_ok_def)
  from level_search_finds_block [OF this(1,2), of "''a''"] this(3) obtain b where
    "Level_getBlock ''a'' ?L = Inr ha" "readIn (capsule_ops wire_env) ha w = Inr b"
    "kv_map (kvPairs b) ''a'' = Some rec_a"
    using w(4) by (auto simp: Level_getBlock_def numeral_eq_Suc)
  then show ?thesis by blast
qed

text \<open>
  C31. Collecting records into a block one by one: for a non-empty run of records with increasing,
  non-empty keys the block holds exactly these records, its bounds are the first and the last key, and
  it is well formed.
\<close>

theorem addKVPairs_builds_block:
  assumes "is_run ps" "ps \<noteq> []" "int_range l"
  shows "kvPairs (addKVPairs ps (CapsuleBlock_new l)) = ps \<and>
    getMinKey (addKVPairs ps (CapsuleBlock_new l)) = key (hd ps) \<and>
    getMaxKey (addKVPairs ps (CapsuleBlock_new l)) = key (last ps) \<and>
    block_wf (addKVPairs ps (CapsuleBlock_new l))"
  using addKVPairs_run [OF assms(1,2), of l] block_wf_run [OF assms] by (simp add: block_getters)

theorem addKVPairs_builds_block_witness:
  "getMaxKey (addKVPairs [rec_a, rec_b] (CapsuleBlock_new 3)) = ''b''"
proof -
  have "is_run [rec_a, rec_b]" "[rec_a, rec_b] \<noteq> []" "int_range 3"
    by (simp_all add: run_simps rec_a_def rec_b_def int_range_def)
  from addKVPairs_builds_block [OF this] show ?thesis by (simp add: rec_b_def)
qed

text \<open>
  Adding records in any order keeps a non-empty block well formed: its bounds stay the least and the
  greatest key that it holds.
\<close>

theorem addKVPair_keeps_bounds:
  assumes "block_wf b" "key p \<noteq> ''''"
  shows "block_wf (addKVPair p b) \<and> kvPairs (addKVPair p b) = kvPairs b @ [p]"
proof -
  have "startKey b \<noteq> ''''" "endKey b \<noteq> ''''"
    using assms(1) by (auto simp: block_wf_def key_bounds_def)
  then show ?thesis
    using assms by (auto simp: block_wf_def key_bounds_def addKVPair_def Let_def min_def max_def)
qed

theorem addKVPair_keeps_bounds_witness:
  "block_wf (addKVPair rec_a (one_block rec_b))"
proof -
  have "block_wf (one_block rec_b)" "key rec_a \<noteq> ''''"
    by (simp_all add: one_block_def rec_a_def rec_b_def block_wf_def key_bounds_def int_range_def)
  from addKVPair_keeps_bounds [OF this] show ?thesis by blast
qed

section \<open>Storage\<close>

text \<open>
  C12. Storing a block: while the counter has not reached the last \<open>int\<close>, \<open>putCapsuleBlock\<close> succeeds,
  returns a new non-empty name under which \<open>getCapsuleBlock\<close> returns exactly this block, and leaves every
  block that could be read before readable and the same.
\<close>

theorem stored_block_reads_back:
  assumes "world_ok E w" "block_wf b" "counter w < 2 ^ 31 - 1"
  shows "\<exists>h w'. putCapsuleBlock E b w = Inr (h, w') \<and> h \<noteq> '''' \<and> world_ok E w' \<and>
    counter w' = counter w + 1 \<and> files w h = None \<and> getCapsuleBlock E h w' = Inr b \<and>
    (\<forall>h' b'. getCapsuleBlock E h' w = Inr b' \<longrightarrow> getCapsuleBlock E h' w' = Inr b')"
proof -
  have room: "0 < world_room w" using assms(3) by (simp add: world_room_def)
  from putCapsuleBlock_ok [OF assms(1,2) room] obtain h w' where
    p: "putCapsuleBlock E b w = Inr (h, w')" "h \<noteq> ''''" "world_ok E w'"
      "Suc (world_room w') = world_room w" "getCapsuleBlock E h w' = Inr b"
      "\<forall>h' b'. getCapsuleBlock E h' w = Inr b' \<longrightarrow> getCapsuleBlock E h' w' = Inr b'" by blast
  have c: "counter w' = counter w + 1"
    using p(1) by (auto simp: putCapsuleBlock_def Let_def bindr_Inr_iff checked_int_Inr
      split: option.splits if_splits)
  have "\<exists>s. serialize E (block_to_msg (counter w) b) = Some s \<and> h = sha256_string E s"
    using p(1) by (auto simp: putCapsuleBlock_def Let_def bindr_Inr_iff split: option.splits if_splits)
  then obtain s where "serialize E (block_to_msg (counter w) b) = Some s \<and> h = sha256_string E s" by blast
  then have s: "written_by E (counter w) h s"
    unfolding written_by_def by (intro exI [of _ "block_to_msg (counter w) b"]) (simp add: block_to_msg_def)
  have "files w h = None"
  proof (rule ccontr)
    assume "files w h \<noteq> None"
    then obtain t c where t: "0 \<le> c" "c < counter w" "written_by E c h t"
      using assms(1) unfolding world_ok_def by blast
    have "env_ok E" "int_range (counter w)" using assms(1) by (simp_all add: world_ok_def)
    from written_by_fresh [OF this(1) t(3) s t(1,2) this(2)] show False .
  qed
  with p c show ?thesis by blast
qed

theorem stored_block_reads_back_witness:
  "\<exists>h w'. putCapsuleBlock wire_env (one_block rec_a) initial_world = Inr (h, w') \<and>
    getCapsuleBlock wire_env h w' = Inr (one_block rec_a)"
proof -
  have "block_wf (one_block rec_a)" "counter initial_world < 2 ^ 31 - 1"
    by (simp_all add: one_block_def rec_a_def block_wf_def key_bounds_def int_range_def initial_world_def)
  from stored_block_reads_back [OF wire_world_ok this] show ?thesis by blast
qed

text \<open>
  C35. The hash check covers only the bytes before the first zero byte: a stored file can be replaced by
  any other serialized block with the same zero-free prefix, and the read returns the other block
  without an error.
\<close>

theorem tampering_after_zero_byte:
  assumes "env_ok E" "serialize E m = Some s" "serialize E m' = Some s'" "c_str s = c_str s'"
  shows "getCapsuleBlock E (sha256_string E s)
    (w\<lparr>files := (files w)(sha256_string E s \<mapsto> s')\<rparr>) = Inr (msg_to_block m')"
proof -
  have "parse E (Some s') = Some m'"
    using assms(1,3) unfolding env_ok_def by (metis option.inject)
  moreover have "sha256_string E s' = sha256_string E s"
    by (simp add: sha256_string_def assms(4))
  ultimately show ?thesis using assms(3) by (simp add: getCapsuleBlock_def)
qed

text \<open>In the protobuf wire format two blocks of level 0 with the same counter have the same prefix.\<close>

lemma level0_prefix:
  "c_str (put_block (block_to_msg 1 (one_block rec_a))) = [CHR 0x08, CHR 0x01, CHR 0x10]"
  "c_str (put_block (block_to_msg 1 (one_block rec_b))) = [CHR 0x08, CHR 0x01, CHR 0x10]"
  by code_simp+

theorem tampering_after_zero_byte_witness:
  "\<exists>h w. putCapsuleBlock wire_env (one_block rec_a) \<lparr>counter = 1, files = Map.empty\<rparr> = Inr (h, w) \<and>
    (\<exists>s'. getCapsuleBlock wire_env h (w\<lparr>files := (files w)(h \<mapsto> s')\<rparr>) = Inr (one_block rec_b))"
proof -
  let ?m = "block_to_msg 1 (one_block rec_a)" and ?m' = "block_to_msg 1 (one_block rec_b)"
  let ?h = "sha256_string wire_env (put_block ?m)"
  have ser: "serialize wire_env m = Some (put_block m)" for m by (simp add: wire_env_def)
  have "msg_to_block ?m' = one_block rec_b"
    by (rule msg_to_block_to_msg)
      (simp add: one_block_def rec_b_def block_wf_def key_bounds_def int_range_def)
  with tampering_after_zero_byte [OF wire_env_ok ser ser, of ?m ?m'] level0_prefix
  have "getCapsuleBlock wire_env ?h (w\<lparr>files := (files w)(?h \<mapsto> put_block ?m')\<rparr>) = Inr (one_block rec_b)" for w
    by simp
  moreover have "\<exists>w. putCapsuleBlock wire_env (one_block rec_a) \<lparr>counter = 1, files = Map.empty\<rparr> = Inr (?h, w)"
    by (simp add: putCapsuleBlock_def Let_def ser checked_int_ok int_range_def)
      (simp add: wire_env_def)
  ultimately show ?thesis by blast
qed

section \<open>Errors\<close>

text \<open>
  A database made with a memtable size of zero fails at its first put: the empty table counts as
  full, and the key of its first element is read.
\<close>

theorem zero_capacity_is_undefined:
  "CapsuleDB_put S p (spawnDB 0) w = Inl (Undefined_behaviour ''begin of an empty map'')"
  by (simp add: CapsuleDB_put_def spawnDB_def Memtable_new_def Memtable_put_def write_out_if_full_def Let_def)

text \<open>
  A level whose blocks overflow and whose size times ten is not an \<open>int\<close> cannot be compacted when it
  is the last one: the size of the new level is a signed overflow.
\<close>

theorem level_size_overflows:
  assumes "levels_ok S w d ix" "d < length (levels ix)" "Suc d = length (levels ix)"
    and "level_overflows ix src (levels ix ! d)" "\<not> int_range (10 * maxSize (levels ix ! d))"
  shows "compactHelper S (Suc fuel) ix src d w = Inl (Undefined_behaviour ''signed integer overflow'')"
proof -
  let ?L = "levels ix ! d"
  have L: "index ?L = int d" "numLevels ix = int (length (levels ix))"
    using assms(1,2) by (auto simp: levels_ok_def level_ok_def)
  have "index ?L + 1 = int (length (levels ix))" using L(1) assms(3) by linarith
  then have "int_range (index ?L + 1)"
    using assms(1) L(2) by (simp add: levels_ok_def)
  then have "ensure_next_level ix ?L = Inl (Undefined_behaviour ''signed integer overflow'')"
    using L assms(3,5) by (simp add: ensure_next_level_def checked_int_def mult.commute)
  then show ?thesis using assms(2,4) by (simp add: level_at_def)
qed

theorem level_size_overflows_witness:
  "compactHelper (capsule_ops wire_env) 1 \<lparr>numLevels = 1, blocksize = 536870912, prevIndexHash = '''',
      levels = [Level_new 0 1073741824]\<rparr> [\<lparr>hash = ''g'', minKey = ''a'', maxKey = ''b''\<rparr>,
        \<lparr>hash = ''h'', minKey = ''c'', maxKey = ''d''\<rparr>] 0 initial_world =
    Inl (Undefined_behaviour ''signed integer overflow'')"
proof -
  let ?ix = "\<lparr>numLevels = 1, blocksize = 536870912, prevIndexHash = '''', levels = [Level_new 0 1073741824]\<rparr>"
  let ?src = "[\<lparr>hash = ''g'', minKey = ''a'', maxKey = ''b''\<rparr>, \<lparr>hash = ''h'', minKey = ''c'', maxKey = ''d''\<rparr>]"
  have "level_ok (capsule_ops wire_env) initial_world 536870912 0 (Level_new 0 1073741824)"
    using Level_new_ok [of 1073741824 536870912 0] by (simp add: int_range_def)
  then have ok: "levels_ok (capsule_ops wire_env) initial_world 0 ?ix"
    by (simp add: levels_ok_def int_range_def)
  have len: "0 < length (levels ?ix)" "Suc 0 = length (levels ?ix)" by simp_all
  have over: "level_overflows ?ix ?src (levels ?ix ! 0)" "\<not> int_range (10 * maxSize (levels ?ix ! 0))"
    by (simp_all add: level_overflows_def Level_new_def int_range_def)
  show ?thesis
    unfolding One_nat_def by (rule level_size_overflows [OF ok len over])
qed

text \<open>
  \<open>addBlock\<close> takes a block into level 0 or into an empty level and refuses it, with status -1 and
  no change, on a lower level that already has blocks.
\<close>

theorem addBlock_accepts:
  assumes "bounds_ok L" "int_range (numBlocks L + 1)" "minKey (hd (recordHashes L)) \<noteq> ''''"
    and "maxKey (last (recordHashes L)) \<noteq> ''''"
  shows "\<exists>L'. addBlock b h L = Inr (if recordHashes L = [] \<or> index L = 0 then 0 else - 1, L') \<and>
    recordHashes L' = (if recordHashes L = [] \<or> index L = 0
      then recordHashes L @ [\<lparr>hash = h, minKey = getMinKey b, maxKey = getMaxKey b\<rparr>] else recordHashes L) \<and>
    numBlocks L' = int (length (recordHashes L')) \<and>
    (recordHashes L \<noteq> [] \<and> index L = 0 \<longrightarrow>
      min_key L' = min (min_key L) (getMinKey b) \<and> max_key L' = max (max_key L) (getMaxKey b))"
  using assms by (auto simp: addBlock_def bounds_ok_def Let_def checked_int_ok)

theorem addBlock_accepts_witness:
  "\<exists>L'. addBlock (one_block rec_a) ''h'' \<lparr>index = 1, numBlocks = 1, maxSize = 20, min_key = ''c'',
      max_key = ''d'', recordHashes = [\<lparr>hash = ''g'', minKey = ''c'', maxKey = ''d''\<rparr>]\<rparr> = Inr (- 1, L') \<and>
    recordHashes L' = [\<lparr>hash = ''g'', minKey = ''c'', maxKey = ''d''\<rparr>]"
  using addBlock_accepts [of "\<lparr>index = 1, numBlocks = 1, maxSize = 20, min_key = ''c'',
      max_key = ''d'', recordHashes = [\<lparr>hash = ''g'', minKey = ''c'', maxKey = ''d''\<rparr>]\<rparr>" "one_block rec_a" "''h''"]
  by (auto simp: bounds_ok_def int_range_def)

end
